(* ===== verification/Prelude.thy ===== *)
theory Prelude
  imports Complex_Main "HOL-Library.Word"
begin

text \<open>
  Shared vocabulary of the development: the machine types of the Rust sources, the
  saturating and clamping arithmetic they use, the list searches of Rust's iterators, the
  named collections the component proofs draw on, and the generic facts about them.

  Rust's \<open>usize\<close> counters and indices are natural numbers. The ones that are sent over
  the wire or wrap on purpose keep their width as words. An \<open>f64\<close> is modelled by a real
  number: results about geometry are about exact arithmetic on finite values.
\<close>

type_synonym u8 = "8 word"
type_synonym u16 = "16 word"
type_synonym u32 = "32 word"
type_synonym u64 = "64 word"
type_synonym i16 = "16 word"
type_synonym i32 = "32 word"
type_synonym i64 = "64 word"
type_synonym bytes = "u8 list"
type_synonym f64 = real

text \<open>A Rust \<open>String\<close> is its UTF-8 bytes.\<close>

type_synonym rust_string = bytes

named_theorems leaves_simps "how the operations on split trees act on the leaf list"
named_theorems wf_intros "operations keep the well-formedness of their component"
named_theorems codec_simps "decoding what was encoded"

section \<open>Arithmetic of the standard library\<close>

text \<open>\<open>f64::clamp\<close>, in the order of comparisons of the standard library.\<close>

definition f64_clamp :: "f64 \<Rightarrow> f64 \<Rightarrow> f64 \<Rightarrow> f64" where
  "f64_clamp x lo hi = (if x < lo then lo else if hi < x then hi else x)"

lemma f64_clamp_bounds: "lo \<le> hi \<Longrightarrow> lo \<le> f64_clamp x lo hi \<and> f64_clamp x lo hi \<le> hi"
  by (auto simp: f64_clamp_def)

lemma f64_clamp_id: "lo \<le> x \<Longrightarrow> x \<le> hi \<Longrightarrow> f64_clamp x lo hi = x"
  by (auto simp: f64_clamp_def)

lemma f64_clamp_low: "x \<le> lo \<Longrightarrow> lo \<le> hi \<Longrightarrow> f64_clamp x lo hi = lo"
  by (auto simp: f64_clamp_def)

text \<open>The cast \<open>x as u32\<close>: truncation towards zero, saturating at both ends.\<close>

definition f64_as_u32 :: "f64 \<Rightarrow> u32" where
  "f64_as_u32 x = word_of_int (max 0 (min (2 ^ 32 - 1) \<lfloor>x\<rfloor>))"

definition f64_epsilon :: f64 where
  "f64_epsilon = 1 / 2 ^ 52"

lemma f64_epsilon_pos: "0 < f64_epsilon"
  by (simp add: f64_epsilon_def)

definition sat_add_u64 :: "u64 \<Rightarrow> u64 \<Rightarrow> u64" where
  "sat_add_u64 a b = (if unat a + unat b < 2 ^ 64 then a + b else - 1)"

lemma unat_sat_add_u64: "unat (sat_add_u64 a b) = min (2 ^ 64 - 1) (unat a + unat b)"
proof (cases "unat a + unat b < 2 ^ 64")
  case True
  then show ?thesis by (simp add: sat_add_u64_def unat_word_ariths)
next
  case False
  have "unat (- 1 :: u64) = 2 ^ 64 - 1"
    by (simp add: unsigned_minus_1_eq_mask mask_eq_exp_minus_1)
  with False show ?thesis by (simp add: sat_add_u64_def)
qed

lemma unat_lt: "unat (w :: 'a :: len word) < 2 ^ LENGTH('a)"
  by (rule unsigned_less)

section \<open>Searching lists\<close>

text \<open>\<open>Iterator::position\<close>: the index of the first element that satisfies the predicate.\<close>

fun position :: "('a \<Rightarrow> bool) \<Rightarrow> 'a list \<Rightarrow> nat option" where
  "position P [] = None"
| "position P (x # xs) = (if P x then Some 0 else map_option Suc (position P xs))"

lemma position_None: "position P xs = None \<longleftrightarrow> (\<forall>x \<in> set xs. \<not> P x)"
  by (induction xs) auto

lemma position_SomeD:
  "position P xs = Some i \<Longrightarrow> i < length xs \<and> P (xs ! i) \<and> (\<forall>j<i. \<not> P (xs ! j))"
proof (induction xs arbitrary: i)
  case Nil
  then show ?case by simp
next
  case (Cons x xs)
  show ?case
  proof (cases "P x")
    case True
    with Cons.prems show ?thesis by simp
  next
    case False
    with Cons.prems obtain k where k: "position P xs = Some k" and i: "i = Suc k"
      by auto
    have nj: "\<not> P ((x # xs) ! j)" if "j < i" for j
      using that Cons.IH [OF k] False i by (cases j) auto
    show ?thesis
      using Cons.IH [OF k] i nj by simp
  qed
qed

lemma position_Some_iff_mem: "(\<exists>i. position P xs = Some i) \<longleftrightarrow> (\<exists>x \<in> set xs. P x)"
  using position_None [of P xs] by (cases "position P xs") auto

lemma position_SomeI:
  "i < length xs \<Longrightarrow> P (xs ! i) \<Longrightarrow> (\<And>j. j < i \<Longrightarrow> \<not> P (xs ! j)) \<Longrightarrow> position P xs = Some i"
proof (induction xs arbitrary: i)
  case Nil
  then show ?case by simp
next
  case (Cons x xs)
  show ?case
  proof (cases i)
    case 0
    with Cons.prems show ?thesis by simp
  next
    case (Suc k)
    have "\<not> P x" using Cons.prems(3) [of 0] Suc by simp
    moreover have "position P xs = Some k"
    proof (rule Cons.IH)
      show "k < length xs" "P (xs ! k)" using Cons.prems(1,2) Suc by simp_all
      show "\<not> P (xs ! j)" if "j < k" for j using Cons.prems(3) [of "Suc j"] Suc that by simp
    qed
    ultimately show ?thesis using Suc by simp
  qed
qed

lemma position_eq_distinct:
  "distinct xs \<Longrightarrow> i < length xs \<Longrightarrow> position (\<lambda>y. y = xs ! i) xs = Some i"
  by (rule position_SomeI) (auto simp: nth_eq_iff_index_eq)

lemma position_append:
  "position P (xs @ ys) =
     (case position P xs of Some i \<Rightarrow> Some i
      | None \<Rightarrow> map_option (\<lambda>i. length xs + i) (position P ys))"
  by (induction xs) (auto simp: option.map_comp comp_def map_option_case split: option.splits)

text \<open>Choosing the first answer: \<open>Option::or_else\<close>.\<close>

definition or_else :: "'a option \<Rightarrow> 'a option \<Rightarrow> 'a option" where
  "or_else a b = (case a of Some x \<Rightarrow> Some x | None \<Rightarrow> b)"

lemma or_else_simps [simp]:
  "or_else None b = b" "or_else (Some x) b = Some x" "or_else a None = a"
  by (auto simp: or_else_def split: option.splits)

lemma find_append: "List.find P (xs @ ys) = or_else (List.find P xs) (List.find P ys)"
  by (induction xs) auto

lemma map_option_or_else: "map_option f (or_else a b) = or_else (map_option f a) (map_option f b)"
  by (cases a) auto

lemma distinct_concat_disjoint:
  assumes "distinct (concat xss)" and "i < length xss" and "j < length xss" and "i \<noteq> j"
  shows "set (xss ! i) \<inter> set (xss ! j) = {}"
proof -
  have lt: "set (xss ! i) \<inter> set (xss ! j) = {}" if "i < j" "j < length xss" for i j
  proof -
    have "xss ! j \<in> set (drop (Suc i) xss)"
      using that by (auto simp: in_set_conv_nth intro!: exI [of _ "j - Suc i"])
    then have "set (xss ! j) \<subseteq> set (concat (drop (Suc i) xss))" by auto
    moreover have "xss = take i xss @ xss ! i # drop (Suc i) xss"
      using that by (simp add: id_take_nth_drop)
    then have "distinct (concat (take i xss) @ xss ! i @ concat (drop (Suc i) xss))"
      using assms(1) by (metis concat.simps(2) concat_append)
    ultimately show ?thesis by auto
  qed
  show ?thesis using lt [of i j] lt [of j i] assms by (cases "i < j") auto
qed

section \<open>Indices that wrap around a list\<close>

lemma wrap_next_less: "pos < n \<Longrightarrow> (pos + 1) mod n < (n::nat)"
  by simp

lemma wrap_prev_less: "pos < n \<Longrightarrow> (pos + n - 1) mod n < (n::nat)"
  by simp

lemma wrap_next_prev: "pos < n \<Longrightarrow> ((pos + 1) mod n + n - 1) mod n = (pos::nat)"
proof (cases "pos + 1 = n")
  case True
  then show ?thesis by (cases n) auto
next
  case False
  assume "pos < n"
  with False have "pos + 1 < n" by simp
  then have "(pos + 1) mod n + n - 1 = pos + n" by simp
  with \<open>pos < n\<close> show ?thesis by simp
qed

lemma wrap_prev_pos: "0 < pos \<Longrightarrow> pos < n \<Longrightarrow> (pos + n - 1) mod n = pos - (1::nat)"
proof -
  assume "0 < pos" and "pos < n"
  then have "(pos + n - 1) mod n = ((pos - 1) + n) mod n" by simp
  also have "\<dots> = pos - 1" using \<open>pos < n\<close> by (simp only: mod_add_self2 mod_less less_imp_diff_less)
  finally show ?thesis .
qed

lemma wrap_prev_next: "pos < n \<Longrightarrow> ((pos + n - 1) mod n + 1) mod n = (pos::nat)"
proof (cases "pos = 0")
  case True
  assume "pos < n"
  with True show ?thesis by simp
next
  case False
  assume "pos < n"
  with False have "(pos + n - 1) mod n = pos - 1" using wrap_prev_pos by blast
  with False \<open>pos < n\<close> show ?thesis by simp
qed

section \<open>Tables\<close>

text \<open>Every lookup in a literal table with distinct keys at once; and distinct keys by distinct images.\<close>

lemma map_of_lookups:
  assumes "T = t" and "distinct (map fst t)"
  shows "map (map_of T) (map fst t) = map Some (map snd t)"
  using assms by (auto simp: map_of_is_SomeI)

lemma distinct_by_image: "distinct (map f (map fst t)) \<Longrightarrow> distinct (map fst t)"
  by (simp only: distinct_map)

section \<open>Refinement of a component by an abstract state\<close>

text \<open>Running a list of calls, with their answers.\<close>

fun run_ops :: "('c \<Rightarrow> 's \<Rightarrow> 'r \<times> 's) \<Rightarrow> 'c list \<Rightarrow> 's \<Rightarrow> 'r list \<times> 's" where
  "run_ops step [] s = ([], s)"
| "run_ops step (c # cs) s =
     (let (r, s') = step c s; (rs, s'') = run_ops step cs s' in (r # rs, s''))"

text \<open>The contract between a component and its abstract specification: every call keeps the
  invariant, answers as the specification does and commutes with the abstraction. It extends to all
  sequences of calls.\<close>

locale refined_ops =
  fixes wf :: "'s \<Rightarrow> bool"
    and abs :: "'s \<Rightarrow> 'a"
    and step :: "'c \<Rightarrow> 's \<Rightarrow> 'r \<times> 's"
    and spec :: "'c \<Rightarrow> 'a \<Rightarrow> 'r \<times> 'a"
  assumes wf_step: "wf s \<Longrightarrow> wf (snd (step c s))"
    and refines: "wf s \<Longrightarrow> (fst (step c s), abs (snd (step c s))) = spec c (abs s)"
begin

lemma run_refines:
  assumes "wf s"
  shows "wf (snd (run_ops step cs s)) \<and>
    (fst (run_ops step cs s), abs (snd (run_ops step cs s))) = run_ops spec cs (abs s)"
  using assms
proof (induction cs arbitrary: s)
  case Nil
  then show ?case by simp
next
  case (Cons c cs)
  obtain r s' where st: "step c s = (r, s')" by (cases "step c s")
  then have sp: "spec c (abs s) = (r, abs s')" and wf: "wf s'"
    using refines [OF Cons.prems, of c] wf_step [OF Cons.prems, of c] by simp_all
  show ?case using Cons.IH [OF wf] by (cases "run_ops step cs s'"; cases "run_ops spec cs (abs s')") (simp add: st sp)
qed

end

end
