(* ===== verification/Pane.thy ===== *)
theory Pane
  imports Prelude
begin

text \<open>
  Pane handles (\<open>src/pane.rs\<close>) and the platform-neutral geometry types
  (\<open>src/platform/mod.rs\<close>). A native surface or view pointer is its address; the global
  allocator \<open>NEXT_PANE_ID\<close> is a counter passed in and returned.
\<close>

type_synonym pane_id_t = u64

record pane_handle =
  pane_id :: pane_id_t
  surface :: u64
  view :: u64

definition pane_null :: pane_handle where
  "pane_null = \<lparr>pane_id = 0, surface = 0, view = 0\<rparr>"

definition pane_new :: "u64 \<Rightarrow> u64 \<Rightarrow> u64 \<Rightarrow> pane_handle \<times> u64" where
  "pane_new surf v next_pane_id =
     (\<lparr>pane_id = next_pane_id, surface = surf, view = v\<rparr>, next_pane_id + 1)"

definition pane_detached :: "u64 \<Rightarrow> pane_handle \<times> u64" where
  "pane_detached next_pane_id =
     (\<lparr>pane_id = next_pane_id, surface = 0, view = 0\<rparr>, next_pane_id + 1)"

definition pane_is_null :: "pane_handle \<Rightarrow> bool" where
  "pane_is_null p \<longleftrightarrow> surface p = 0"

text \<open>The handles a process allocates, starting from the initial value 1 of the counter.\<close>

fun alloc_panes :: "nat \<Rightarrow> u64 \<Rightarrow> pane_handle list" where
  "alloc_panes 0 c = []"
| "alloc_panes (Suc n) c = (let (p, c') = pane_detached c in p # alloc_panes n c')"

lemma alloc_panes_ids: "map pane_id (alloc_panes n c) = map (\<lambda>i. c + of_nat i) [0..<n]"
proof (induction n arbitrary: c)
  case 0
  then show ?case by simp
next
  case (Suc n)
  have "map (\<lambda>i. c + of_nat i) [0..<Suc n] = c # map (\<lambda>i. c + 1 + of_nat i) [0..<n]"
    by (simp only: upt_conv_Cons map_Suc_upt [symmetric] list.map map_map comp_def zero_less_Suc)
       (simp add: algebra_simps)
  with Suc [of "c + 1"] show ?case
    by (simp add: pane_detached_def Let_def)
qed

lemma alloc_panes_distinct_aux:
  assumes "n \<le> 2 ^ 64"
  shows "distinct (map pane_id (alloc_panes n c))"
proof -
  have "inj_on (\<lambda>i. c + of_nat i :: u64) {0..<n}"
  proof (rule inj_onI)
    fix i j :: nat
    assume ij: "i \<in> {0..<n}" "j \<in> {0..<n}" and "c + of_nat i = c + (of_nat j :: u64)"
    then have "(of_nat i :: u64) = of_nat j" by simp
    then have "unat (of_nat i :: u64) = unat (of_nat j :: u64)" by simp
    moreover have "i < 2 ^ 64" "j < 2 ^ 64" using ij assms by auto
    ultimately show "i = j" by (simp add: unat_of_nat)
  qed
  then show ?thesis
    by (simp add: alloc_panes_ids distinct_map)
qed

section \<open>Geometry\<close>

record point =
  pt_x :: f64
  pt_y :: f64

record extent =
  width :: f64
  height :: f64

record rect =
  origin :: point
  rsize :: extent

definition mk_point :: "f64 \<Rightarrow> f64 \<Rightarrow> point" where
  "mk_point x y = \<lparr>pt_x = x, pt_y = y\<rparr>"

definition mk_size :: "f64 \<Rightarrow> f64 \<Rightarrow> extent" where
  "mk_size w h = \<lparr>width = w, height = h\<rparr>"

definition mk_rect :: "point \<Rightarrow> extent \<Rightarrow> rect" where
  "mk_rect p s = \<lparr>origin = p, rsize = s\<rparr>"

abbreviation rect_x :: "rect \<Rightarrow> f64" where "rect_x r \<equiv> pt_x (origin r)"
abbreviation rect_y :: "rect \<Rightarrow> f64" where "rect_y r \<equiv> pt_y (origin r)"
abbreviation rect_w :: "rect \<Rightarrow> f64" where "rect_w r \<equiv> width (rsize r)"
abbreviation rect_h :: "rect \<Rightarrow> f64" where "rect_h r \<equiv> height (rsize r)"

lemmas geometry_defs = mk_point_def mk_size_def mk_rect_def

end
