(* ===== verification/SplitTree.thy ===== *)
theory SplitTree
  imports Pane
begin

text \<open>
  The binary split tree of \<open>src/splits.rs\<close>: its nodes, the recursive node functions and the
  operations of \<open>SplitTree\<close> that change panes, focus and ratios. A \<open>&mut self\<close> method
  takes the tree and returns it updated, after its result. Frames and pointer hits are in the
  theory \<open>SplitGeometry\<close>.
\<close>

section \<open>Data\<close>

type_synonym leaf_id_t = nat

datatype direction = Horizontal | Vertical

datatype node =
    Leaf leaf_id_t pane_handle
  | Split direction f64 node node

record split_tree =
  root :: "node option"
  next_id :: leaf_id_t
  focused_id :: leaf_id_t

definition tree_new :: split_tree where
  "tree_new = \<lparr>root = None, next_id = 0, focused_id = 0\<rparr>"

section \<open>Functions on nodes\<close>

fun split_node_with_ratio ::
  "node \<Rightarrow> leaf_id_t \<Rightarrow> direction \<Rightarrow> leaf_id_t \<Rightarrow> pane_handle \<Rightarrow> f64 \<Rightarrow> node" where
  "split_node_with_ratio (Leaf i p) target_id dir new_id pane ratio =
     (if i = target_id
      then Split dir (f64_clamp ratio 0.1 0.9) (Leaf i p) (Leaf new_id pane)
      else Leaf i p)"
| "split_node_with_ratio (Split d r a b) target_id dir new_id pane ratio =
     Split d r (split_node_with_ratio a target_id dir new_id pane ratio)
               (split_node_with_ratio b target_id dir new_id pane ratio)"

fun find_leaf :: "node \<Rightarrow> leaf_id_t \<Rightarrow> pane_handle option" where
  "find_leaf (Leaf i p) t = (if i = t then Some p else None)"
| "find_leaf (Split d r a b) t = or_else (find_leaf a t) (find_leaf b t)"

fun find_leaf_id_by_pane :: "node \<Rightarrow> pane_id_t \<Rightarrow> leaf_id_t option" where
  "find_leaf_id_by_pane (Leaf i p) pid = (if pane_id p = pid then Some i else None)"
| "find_leaf_id_by_pane (Split d r a b) pid =
     or_else (find_leaf_id_by_pane a pid) (find_leaf_id_by_pane b pid)"

fun collect_leaf_ids :: "node \<Rightarrow> leaf_id_t list" where
  "collect_leaf_ids (Leaf i p) = [i]"
| "collect_leaf_ids (Split d r a b) = collect_leaf_ids a @ collect_leaf_ids b"

fun collect_panes :: "node \<Rightarrow> pane_handle list \<Rightarrow> pane_handle list" where
  "collect_panes (Leaf i p) out = out @ [p]"
| "collect_panes (Split d r a b) out = collect_panes b (collect_panes a out)"

fun count_leaves :: "node \<Rightarrow> nat" where
  "count_leaves (Leaf i p) = 1"
| "count_leaves (Split d r a b) = count_leaves a + count_leaves b"

fun set_leaf_pane :: "node \<Rightarrow> leaf_id_t \<Rightarrow> pane_handle \<Rightarrow> bool \<times> node" where
  "set_leaf_pane (Leaf i p) target new_pane =
     (if i = target then (True, Leaf i new_pane) else (False, Leaf i p))"
| "set_leaf_pane (Split d r a b) target new_pane =
     (case set_leaf_pane a target new_pane of
        (True, a') \<Rightarrow> (True, Split d r a' b)
      | (False, a') \<Rightarrow>
          (case set_leaf_pane b target new_pane of (ok, b') \<Rightarrow> (ok, Split d r a' b')))"

definition swap_leaf_panes :: "node \<Rightarrow> leaf_id_t \<Rightarrow> leaf_id_t \<Rightarrow> bool \<times> node" where
  "swap_leaf_panes n a b =
     (case find_leaf n a of
        None \<Rightarrow> (False, n)
      | Some first \<Rightarrow>
          (case find_leaf n b of
             None \<Rightarrow> (False, n)
           | Some second \<Rightarrow>
               (case set_leaf_pane n a second of
                  (False, n') \<Rightarrow> (False, n')
                | (True, n') \<Rightarrow> set_leaf_pane n' b first)))"

fun assign_leaf_panes_inner ::
  "node \<Rightarrow> leaf_id_t list \<Rightarrow> pane_handle list \<Rightarrow> nat \<Rightarrow> node \<times> nat" where
  "assign_leaf_panes_inner (Leaf i p) leaf_ids panes assigned =
     (case position (\<lambda>l. l = i) leaf_ids of
        Some index \<Rightarrow> (Leaf i (panes ! index), assigned + 1)
      | None \<Rightarrow> (Leaf i p, assigned))"
| "assign_leaf_panes_inner (Split d r a b) leaf_ids panes assigned =
     (let (a', k) = assign_leaf_panes_inner a leaf_ids panes assigned;
          (b', k') = assign_leaf_panes_inner b leaf_ids panes k
      in (Split d r a' b', k'))"

definition assign_leaf_panes ::
  "node \<Rightarrow> leaf_id_t list \<Rightarrow> pane_handle list \<Rightarrow> bool \<times> node" where
  "assign_leaf_panes n leaf_ids panes =
     (if length leaf_ids \<noteq> length panes then (False, n)
      else let (n', assigned) = assign_leaf_panes_inner n leaf_ids panes 0
           in (assigned = length panes, n'))"

fun rebalance_node :: "node \<Rightarrow> node" where
  "rebalance_node (Leaf i p) = Leaf i p"
| "rebalance_node (Split d r a b) = Split d (1 / 2) (rebalance_node a) (rebalance_node b)"

datatype remove_result = Removed pane_handle "node option" | NotFound node

fun remove_leaf :: "node \<Rightarrow> leaf_id_t \<Rightarrow> remove_result" where
  "remove_leaf (Leaf i p) target_id =
     (if i = target_id then Removed p None else NotFound (Leaf i p))"
| "remove_leaf (Split d r first second) target_id =
     (case remove_leaf first target_id of
        Removed pane (Some remaining_first) \<Rightarrow> Removed pane (Some (Split d r remaining_first second))
      | Removed pane None \<Rightarrow> Removed pane (Some second)
      | NotFound first_node \<Rightarrow>
          (case remove_leaf second target_id of
             Removed pane (Some remaining_second) \<Rightarrow>
               Removed pane (Some (Split d r first_node remaining_second))
           | Removed pane None \<Rightarrow> Removed pane (Some first_node)
           | NotFound second_node \<Rightarrow> NotFound (Split d r first_node second_node)))"

section \<open>Operations of the tree\<close>

definition add_root :: "pane_handle \<Rightarrow> split_tree \<Rightarrow> leaf_id_t \<times> split_tree" where
  "add_root pane t =
     (let i = next_id t
      in (i, t\<lparr>next_id := i + 1, root := Some (Leaf i pane), focused_id := i\<rparr>))"

definition split_focused_with_ratio ::
  "direction \<Rightarrow> pane_handle \<Rightarrow> f64 \<Rightarrow> split_tree \<Rightarrow> leaf_id_t option \<times> split_tree" where
  "split_focused_with_ratio dir pane ratio t =
     (let focused = focused_id t;
          new_id = next_id t;
          t1 = t\<lparr>next_id := new_id + 1\<rparr>
      in case root t1 of
           None \<Rightarrow> (None, t1)
         | Some r \<Rightarrow>
             (Some new_id,
              t1\<lparr>root := Some (split_node_with_ratio r focused dir new_id pane ratio),
                 focused_id := new_id\<rparr>))"

definition split_focused ::
  "direction \<Rightarrow> pane_handle \<Rightarrow> split_tree \<Rightarrow> leaf_id_t option \<times> split_tree" where
  "split_focused dir pane t = split_focused_with_ratio dir pane (1 / 2) t"

definition focused_pane :: "split_tree \<Rightarrow> pane_handle" where
  "focused_pane t =
     (case Option.bind (root t) (\<lambda>r. find_leaf r (focused_id t)) of
        Some p \<Rightarrow> p | None \<Rightarrow> pane_null)"

definition set_focus :: "leaf_id_t \<Rightarrow> split_tree \<Rightarrow> split_tree" where
  "set_focus i t = t\<lparr>focused_id := i\<rparr>"

definition set_focus_to_pane :: "pane_id_t \<Rightarrow> split_tree \<Rightarrow> bool \<times> split_tree" where
  "set_focus_to_pane pid t =
     (case root t of
        None \<Rightarrow> (False, t)
      | Some r \<Rightarrow>
          (case find_leaf_id_by_pane r pid of
             None \<Rightarrow> (False, t)
           | Some i \<Rightarrow> (True, t\<lparr>focused_id := i\<rparr>)))"

definition focus_next :: "split_tree \<Rightarrow> split_tree" where
  "focus_next t =
     (case root t of
        None \<Rightarrow> t
      | Some r \<Rightarrow>
          (let leaves = collect_leaf_ids r
           in case position (\<lambda>i. i = focused_id t) leaves of
                None \<Rightarrow> t
              | Some pos \<Rightarrow> t\<lparr>focused_id := leaves ! ((pos + 1) mod length leaves)\<rparr>))"

definition focus_prev :: "split_tree \<Rightarrow> split_tree" where
  "focus_prev t =
     (case root t of
        None \<Rightarrow> t
      | Some r \<Rightarrow>
          (let leaves = collect_leaf_ids r
           in case position (\<lambda>i. i = focused_id t) leaves of
                None \<Rightarrow> t
              | Some pos \<Rightarrow>
                  t\<lparr>focused_id := leaves ! ((pos + length leaves - 1) mod length leaves)\<rparr>))"

definition all_panes :: "split_tree \<Rightarrow> pane_handle list" where
  "all_panes t = (case root t of Some r \<Rightarrow> collect_panes r [] | None \<Rightarrow> [])"

definition tree_len :: "split_tree \<Rightarrow> nat" where
  "tree_len t = (case root t of Some r \<Rightarrow> count_leaves r | None \<Rightarrow> 0)"

text \<open>
  The tail both removals share: the remaining tree becomes the root, and the focus moves to
  its first leaf.
\<close>

definition finish_removal :: "split_tree \<Rightarrow> node option \<Rightarrow> split_tree" where
  "finish_removal t remaining =
     (let t1 = t\<lparr>root := remaining\<rparr>
      in case remaining of
           None \<Rightarrow> t1
         | Some r \<Rightarrow>
             (let leaves = collect_leaf_ids r
              in if leaves \<noteq> [] then t1\<lparr>focused_id := leaves ! 0\<rparr> else t1))"

definition remove_focused :: "split_tree \<Rightarrow> pane_handle option \<times> split_tree" where
  "remove_focused t =
     (case root t of
        None \<Rightarrow> (None, t)
      | Some r \<Rightarrow>
          (case remove_leaf r (focused_id t) of
             Removed pane remaining \<Rightarrow> (Some pane, finish_removal t remaining)
           | NotFound n \<Rightarrow> (None, t\<lparr>root := Some n\<rparr>)))"

definition remove_pane :: "pane_id_t \<Rightarrow> split_tree \<Rightarrow> pane_handle option \<times> split_tree" where
  "remove_pane pid t =
     (case root t of
        None \<Rightarrow> (None, t)
      | Some r \<Rightarrow>
          (case find_leaf_id_by_pane r pid of
             None \<Rightarrow> (None, t)
           | Some target_id \<Rightarrow>
               (case remove_leaf r target_id of
                  Removed pane remaining \<Rightarrow> (Some pane, finish_removal t remaining)
                | NotFound n \<Rightarrow> (None, t\<lparr>root := Some n\<rparr>))))"

definition swap_focused_with_adjacent :: "bool \<Rightarrow> split_tree \<Rightarrow> bool \<times> split_tree" where
  "swap_focused_with_adjacent nxt t =
     (case root t of
        None \<Rightarrow> (False, t)
      | Some r \<Rightarrow>
          (let leaves = collect_leaf_ids r
           in case position (\<lambda>i. i = focused_id t) leaves of
                None \<Rightarrow> (False, t)
              | Some pos \<Rightarrow>
                  (if length leaves < 2 then (False, t)
                   else
                     let other_pos = (if nxt then (pos + 1) mod length leaves
                                      else (pos + length leaves - 1) mod length leaves);
                         (ok, r') = swap_leaf_panes r (focused_id t) (leaves ! other_pos)
                     in (ok, t\<lparr>root := Some r'\<rparr>))))"

definition rotated_panes :: "bool \<Rightarrow> pane_handle list \<Rightarrow> pane_handle list" where
  "rotated_panes forward panes =
     (if forward then last panes # take (length panes - 1) panes
      else drop 1 panes @ [panes ! 0])"

definition rotate_panes :: "bool \<Rightarrow> split_tree \<Rightarrow> bool \<times> split_tree" where
  "rotate_panes forward t =
     (case root t of
        None \<Rightarrow> (False, t)
      | Some r \<Rightarrow>
          (let leaves = collect_leaf_ids r
           in if length leaves < 2 then (False, t)
              else
                let panes = List.map_filter (find_leaf r) leaves
                in if length panes \<noteq> length leaves then (False, t)
                   else let (ok, r') = assign_leaf_panes r leaves (rotated_panes forward panes)
                        in (ok, t\<lparr>root := Some r'\<rparr>)))"

text \<open>The loop of \<open>rebuild_from_panes\<close>: pane \<open>idx\<close> splits the leaf that was added before it.\<close>

fun rebuild_loop ::
  "pane_handle list \<Rightarrow> nat \<Rightarrow> (direction \<times> f64) list \<Rightarrow> leaf_id_t \<Rightarrow> node \<Rightarrow> node \<times> leaf_id_t" where
  "rebuild_loop [] idx splits nid r = (r, nid)"
| "rebuild_loop (pane # panes) idx splits nid r =
     (let (dir, ratio) = (if idx - 1 < length splits then splits ! (idx - 1) else (Vertical, 1 / 2));
          new_id = nid
      in rebuild_loop panes (idx + 1) splits (nid + 1)
           (split_node_with_ratio r (new_id - 1) dir new_id pane ratio))"

definition rebuild_from_panes ::
  "pane_handle list \<Rightarrow> (direction \<times> f64) list \<Rightarrow> pane_id_t \<Rightarrow> split_tree \<Rightarrow> bool \<times> split_tree" where
  "rebuild_from_panes panes splits focused_pane_id t =
     (case panes of
        [] \<Rightarrow> (False, t\<lparr>root := None\<rparr>)
      | p # ps \<Rightarrow>
          (let (r, nid) = rebuild_loop ps 1 splits 1 (Leaf 0 p);
               t1 = t\<lparr>root := Some r, next_id := nid\<rparr>;
               t2 = snd (set_focus_to_pane focused_pane_id t1)
           in (True,
               if pane_id (focused_pane t2) \<noteq> focused_pane_id then t2\<lparr>focused_id := 0\<rparr> else t2)))"

definition rebalance :: "split_tree \<Rightarrow> bool \<times> split_tree" where
  "rebalance t =
     (case root t of
        None \<Rightarrow> (False, t)
      | Some r \<Rightarrow> (True, t\<lparr>root := Some (rebalance_node r)\<rparr>))"

definition surface_info :: "split_tree \<Rightarrow> (leaf_id_t \<times> bool) list" where
  "surface_info t =
     (case root t of
        Some r \<Rightarrow> map (\<lambda>i. (i, i = focused_id t)) (collect_leaf_ids r)
      | None \<Rightarrow> [])"

text \<open>
  \<open>set_hidden\<close> calls the platform once per leaf; the platform's state is the map from view
  pointers to their hidden flag.
\<close>

type_synonym views = "u64 \<Rightarrow> bool"

fun set_hidden_recursive :: "node \<Rightarrow> bool \<Rightarrow> views \<Rightarrow> views" where
  "set_hidden_recursive (Leaf i p) hidden vs = vs(view p := hidden)"
| "set_hidden_recursive (Split d r a b) hidden vs =
     set_hidden_recursive b hidden (set_hidden_recursive a hidden vs)"

definition set_hidden :: "split_tree \<Rightarrow> bool \<Rightarrow> views \<Rightarrow> views" where
  "set_hidden t hidden vs =
     (case root t of Some r \<Rightarrow> set_hidden_recursive r hidden vs | None \<Rightarrow> vs)"

end
