(* ===== verification/SplitTreeSpec.thy ===== *)
theory SplitTreeSpec
  imports SplitTree "HOL-Library.Multiset"
begin

text \<open>
  What the split tree promises, stated over the list of its leaves in display order: how each
  node function and each operation acts on that list, the well-formedness every operation
  keeps, and the interface (a locale) through which the tab manager relies on it.
\<close>

section \<open>The leaf list\<close>

fun leaves :: "node \<Rightarrow> (leaf_id_t \<times> pane_handle) list" where
  "leaves (Leaf i p) = [(i, p)]"
| "leaves (Split d r a b) = leaves a @ leaves b"

fun ratios :: "node \<Rightarrow> f64 list" where
  "ratios (Leaf i p) = []"
| "ratios (Split d r a b) = r # ratios a @ ratios b"

definition entries :: "split_tree \<Rightarrow> (leaf_id_t \<times> pane_handle) list" where
  "entries t = (case root t of Some r \<Rightarrow> leaves r | None \<Rightarrow> [])"

lemma leaves_nonempty [simp]: "leaves n \<noteq> []"
  by (induction n) auto

lemma map_of_mem [simp]: "distinct (map fst es) \<Longrightarrow> e \<in> set es \<Longrightarrow> map_of es (fst e) = Some (snd e)"
  by simp

lemma collect_leaf_ids_leaves [leaves_simps]: "collect_leaf_ids n = map fst (leaves n)"
  by (induction n) auto

lemma collect_panes_leaves [leaves_simps]: "collect_panes n out = out @ map snd (leaves n)"
  by (induction n arbitrary: out) auto

lemma count_leaves_leaves [leaves_simps]: "count_leaves n = length (leaves n)"
  by (induction n) auto

lemma find_leaf_leaves [leaves_simps]: "find_leaf n t = map_of (leaves n) t"
  by (induction n) (auto simp: map_add_def or_else_def split: option.splits)

lemma find_leaf_id_by_pane_leaves [leaves_simps]:
  "find_leaf_id_by_pane n pid = map_option fst (List.find (\<lambda>e. pane_id (snd e) = pid) (leaves n))"
  by (induction n) (auto simp: find_append map_option_or_else)

definition insert_after ::
  "leaf_id_t \<Rightarrow> leaf_id_t \<times> pane_handle \<Rightarrow> (leaf_id_t \<times> pane_handle) list
     \<Rightarrow> (leaf_id_t \<times> pane_handle) list" where
  "insert_after t e es = concat (map (\<lambda>x. if fst x = t then [x, e] else [x]) es)"

lemma insert_after_simps [simp]:
  "insert_after t e [] = []"
  "insert_after t e (x # xs) = (if fst x = t then [x, e] else [x]) @ insert_after t e xs"
  "insert_after t e (xs @ ys) = insert_after t e xs @ insert_after t e ys"
  by (auto simp: insert_after_def)

lemma insert_after_notin: "t \<notin> fst ` set es \<Longrightarrow> insert_after t e es = es"
  by (induction es) auto

lemma insert_after_split:
  "t \<notin> fst ` set xs \<Longrightarrow> t \<notin> fst ` set ys \<Longrightarrow>
     insert_after t e (xs @ (t, p) # ys) = xs @ (t, p) # e # ys"
  by (simp add: insert_after_notin)

lemma leaves_split_node [leaves_simps]:
  "leaves (split_node_with_ratio n t d new_id p r) = insert_after t (new_id, p) (leaves n)"
  by (induction n) auto

lemma leaves_rebalance [leaves_simps]: "leaves (rebalance_node n) = leaves n"
  by (induction n) auto

lemma ratios_rebalance: "set (ratios (rebalance_node n)) \<subseteq> {1 / 2}"
  by (induction n) auto

lemma ratios_split_node:
  "set (ratios (split_node_with_ratio n t d i p r)) \<subseteq>
     set (ratios n) \<union> {f64_clamp r 0.1 0.9}"
  by (induction n) auto

section \<open>Removing a leaf\<close>

fun remove_first :: "leaf_id_t \<Rightarrow> (leaf_id_t \<times> 'a) list \<Rightarrow> (leaf_id_t \<times> 'a) list" where
  "remove_first t [] = []"
| "remove_first t (x # xs) = (if fst x = t then xs else x # remove_first t xs)"

lemma remove_first_append:
  "remove_first t (xs @ ys) =
     (if t \<in> fst ` set xs then remove_first t xs @ ys else xs @ remove_first t ys)"
  by (induction xs) auto

lemma remove_first_distinct:
  "distinct (map fst es) \<Longrightarrow> remove_first t es = filter (\<lambda>e. fst e \<noteq> t) es"
  by (induction es) (auto simp: filter_id_conv rev_image_eqI intro!: filter_True [symmetric])

definition leaves_opt :: "node option \<Rightarrow> (leaf_id_t \<times> pane_handle) list" where
  "leaves_opt r = (case r of None \<Rightarrow> [] | Some n \<Rightarrow> leaves n)"

lemma leaves_opt_simps [simp]: "leaves_opt None = []" "leaves_opt (Some n) = leaves n"
  by (simp_all add: leaves_opt_def)

text \<open>
  The whole contract of \<open>remove_leaf\<close>: it finds the first leaf with the identifier, returns its
  pane and a tree without it, and gives the tree back unchanged when there is none.
\<close>

lemma remove_leaf_spec:
  "(case remove_leaf n t of
      Removed p rest \<Rightarrow> map_of (leaves n) t = Some p \<and> leaves_opt rest = remove_first t (leaves n)
        \<and> set (case rest of None \<Rightarrow> [] | Some m \<Rightarrow> ratios m) \<subseteq> set (ratios n)
    | NotFound m \<Rightarrow> m = n \<and> t \<notin> fst ` set (leaves n))"
proof (induction n)
  case (Leaf i p)
  then show ?case by simp
next
  case (Split d r a b)
  show ?case
  proof (cases "remove_leaf a t")
    case (Removed p rest)
    with Split.IH(1) have *: "map_of (leaves a) t = Some p"
      "leaves_opt rest = remove_first t (leaves a)"
      "set (case rest of None \<Rightarrow> [] | Some m \<Rightarrow> ratios m) \<subseteq> set (ratios a)" by auto
    from *(1) have mem: "t \<in> fst ` set (leaves a)"
      by (metis image_eqI fst_conv map_of_SomeD)
    show ?thesis
      using Removed * mem by (cases rest) (auto simp: map_add_def remove_first_append)
  next
    case a: (NotFound a')
    with Split.IH(1) have na: "a' = a" "t \<notin> fst ` set (leaves a)" by auto
    then have none: "map_of (leaves a) t = None" by (simp add: map_of_eq_None_iff)
    show ?thesis
    proof (cases "remove_leaf b t")
      case (Removed p rest)
      with Split.IH(2) have *: "map_of (leaves b) t = Some p"
        "leaves_opt rest = remove_first t (leaves b)"
        "set (case rest of None \<Rightarrow> [] | Some m \<Rightarrow> ratios m) \<subseteq> set (ratios b)" by auto
      show ?thesis
        using a Removed * na none by (cases rest) (auto simp: map_add_def remove_first_append)
    next
      case (NotFound b')
      with Split.IH(2) a na show ?thesis by auto
    qed
  qed
qed

lemma remove_leaf_Removed:
  "remove_leaf n t = Removed p rest \<Longrightarrow>
     map_of (leaves n) t = Some p \<and> leaves_opt rest = remove_first t (leaves n)"
  using remove_leaf_spec [of n t] by simp

lemma remove_leaf_ratios:
  "remove_leaf n t = Removed p (Some m) \<Longrightarrow> set (ratios m) \<subseteq> set (ratios n)"
  using remove_leaf_spec [of n t] by simp

lemma remove_leaf_NotFound:
  "remove_leaf n t = NotFound m \<Longrightarrow> m = n \<and> t \<notin> fst ` set (leaves n)"
  using remove_leaf_spec [of n t] by simp

lemma remove_leaf_found:
  assumes "t \<in> fst ` set (leaves n)"
  obtains p rest where "remove_leaf n t = Removed p rest"
  using assms remove_leaf_spec [of n t] by (cases "remove_leaf n t") auto

section \<open>Replacing the panes of leaves\<close>

definition put_first :: "leaf_id_t \<Rightarrow> 'a \<Rightarrow> (leaf_id_t \<times> 'a) list \<Rightarrow> (leaf_id_t \<times> 'a) list" where
  "put_first t q es =
     (case position (\<lambda>e. fst e = t) es of None \<Rightarrow> es | Some k \<Rightarrow> es[k := (t, q)])"

lemma position_fst_mem: "(position (\<lambda>e. fst e = t) es = None) = (t \<notin> fst ` set es)"
  by (auto simp: position_None)

lemma put_first_simps [simp]:
  "put_first t q [] = []"
  "put_first t q (e # es) = (if fst e = t then (t, q) # es else e # put_first t q es)"
  by (auto simp: put_first_def split: option.splits)

lemma put_first_append:
  "put_first t q (xs @ ys) =
     (if t \<in> fst ` set xs then put_first t q xs @ ys else xs @ put_first t q ys)"
  by (induction xs) auto

lemma put_first_notin: "t \<notin> fst ` set es \<Longrightarrow> put_first t q es = es"
  by (induction es) auto

lemma put_first_ids [simp]: "map fst (put_first t q es) = map fst es"
  by (induction es) auto

lemma put_first_id_set [simp]: "fst ` set (put_first t q es) = fst ` set es"
  by (metis put_first_ids list.set_map)

lemma put_first_map_of: "t \<in> fst ` set es \<Longrightarrow> map_of (put_first t q es) = (map_of es)(t \<mapsto> q)"
proof (induction es)
  case (Cons e es)
  then show ?case by (cases "t = fst e") (auto simp del: image_iff)
qed simp

lemma set_leaf_pane_spec:
  "fst (set_leaf_pane n t q) = (t \<in> fst ` set (leaves n)) \<and>
   leaves (snd (set_leaf_pane n t q)) = put_first t q (leaves n) \<and>
   ratios (snd (set_leaf_pane n t q)) = ratios n"
proof (induction n)
  case (Leaf i p)
  then show ?case by (simp add: put_first_def)
next
  case (Split d r a b)
  obtain ok a' where a: "set_leaf_pane a t q = (ok, a')" by fastforce
  obtain ok' b' where b: "set_leaf_pane b t q = (ok', b')" by fastforce
  show ?case
    using Split a b by (cases ok) (simp_all add: put_first_append put_first_notin image_Un)
qed

lemma swap_leaf_panes_spec:
  assumes "map_of (leaves n) a = Some x" and "map_of (leaves n) b = Some y"
  shows "fst (swap_leaf_panes n a b)"
    and "leaves (snd (swap_leaf_panes n a b)) = put_first b x (put_first a y (leaves n))"
    and "ratios (snd (swap_leaf_panes n a b)) = ratios n"
proof -
  have mem: "a \<in> fst ` set (leaves n)" "b \<in> fst ` set (leaves n)"
    using assms by (metis image_eqI fst_conv map_of_SomeD)+
  obtain ok1 n1 where 1: "set_leaf_pane n a y = (ok1, n1)" by fastforce
  obtain ok2 n2 where 2: "set_leaf_pane n1 b x = (ok2, n2)" by fastforce
  have n1: "ok1" "leaves n1 = put_first a y (leaves n)" "ratios n1 = ratios n"
    using set_leaf_pane_spec [of n a y] 1 mem by auto
  have n2: "ok2" "leaves n2 = put_first b x (leaves n1)" "ratios n2 = ratios n1"
    using set_leaf_pane_spec [of n1 b x] 2 mem n1 by auto
  have sw: "swap_leaf_panes n a b = (ok2, n2)"
    using assms 1 2 n1(1) by (simp add: swap_leaf_panes_def find_leaf_leaves)
  show "fst (swap_leaf_panes n a b)"
    and "leaves (snd (swap_leaf_panes n a b)) = put_first b x (put_first a y (leaves n))"
    and "ratios (snd (swap_leaf_panes n a b)) = ratios n"
    using sw n1 n2 by simp_all
qed

lemma put_first_nth:
  "distinct (map fst es) \<Longrightarrow> k < length es \<Longrightarrow> put_first (fst (es ! k)) q es = es[k := (fst (es ! k), q)]"
proof -
  assume d: "distinct (map fst es)" and k: "k < length es"
  have "position (\<lambda>e. fst e = fst (es ! k)) es = Some k"
  proof (rule position_SomeI)
    show "fst (es ! j) \<noteq> fst (es ! k)" if "j < k" for j
      using d k that nth_eq_iff_index_eq [of "map fst es" j k] by simp
  qed (use k in simp_all)
  then show ?thesis by (simp add: put_first_def)
qed

lemma put_first_swap_panes:
  assumes "distinct (map fst es)" and "i < length es" and "j < length es"
  shows "map snd (put_first (fst (es ! j)) (snd (es ! i)) (put_first (fst (es ! i)) (snd (es ! j)) es))
           = (map snd es)[i := snd (es ! j), j := snd (es ! i)]"
proof -
  let ?es = "es[i := (fst (es ! i), snd (es ! j))]"
  have 1: "put_first (fst (es ! i)) (snd (es ! j)) es = ?es"
    using put_first_nth [OF assms(1,2)] .
  have ids: "map fst ?es = map fst es"
    using assms(2) by (simp add: map_update list_update_same_conv)
  have "fst (?es ! j) = fst (es ! j)"
    using ids assms(3) by (metis length_list_update nth_map)
  moreover have "put_first (fst (?es ! j)) (snd (es ! i)) ?es = ?es[j := (fst (?es ! j), snd (es ! i))]"
    using put_first_nth [of ?es j] ids assms by simp
  ultimately show ?thesis
    using 1 by (simp add: map_update)
qed

lemma assign_inner_spec:
  "assign_leaf_panes_inner n ids ps k = (n', k') \<Longrightarrow>
     leaves n' = map (\<lambda>(i, p). case position (\<lambda>l. l = i) ids of
                        Some m \<Rightarrow> (i, ps ! m) | None \<Rightarrow> (i, p)) (leaves n)
     \<and> k' = k + length (filter (\<lambda>i. i \<in> set ids) (map fst (leaves n)))
     \<and> ratios n' = ratios n"
proof (induction n arbitrary: k n' k')
  case (Leaf i p)
  then show ?case
    using position_Some_iff_mem [of "\<lambda>l. l = i" ids] by (auto split: option.splits)
next
  case (Split d r a b)
  obtain a' k1 where a: "assign_leaf_panes_inner a ids ps k = (a', k1)" by fastforce
  obtain b' k2 where b: "assign_leaf_panes_inner b ids ps k1 = (b', k2)" by fastforce
  show ?case
    using Split.prems a b Split.IH(1) [OF a] Split.IH(2) [OF b] by auto
qed

lemma assign_leaf_panes_spec:
  assumes d: "distinct (map fst (leaves n))" and len: "length ps = length (leaves n)"
    and run: "assign_leaf_panes n (map fst (leaves n)) ps = (ok, n')"
  shows "ok \<and> leaves n' = zip (map fst (leaves n)) ps \<and> ratios n' = ratios n"
proof -
  let ?ids = "map fst (leaves n)"
  obtain m k where mk: "assign_leaf_panes_inner n ?ids ps 0 = (m, k)" by fastforce
  have m: "leaves m = map (\<lambda>(i, p). case position (\<lambda>l. l = i) ?ids of
        Some j \<Rightarrow> (i, ps ! j) | None \<Rightarrow> (i, p)) (leaves n)"
    and k: "k = length (leaves n)" and r: "ratios m = ratios n"
    using assign_inner_spec [OF mk] by (simp_all add: filter_True)
  have "leaves m = zip ?ids ps"
  proof (rule nth_equalityI)
    show "length (leaves m) = length (zip ?ids ps)" using m len by simp
    fix j assume "j < length (leaves m)"
    then have j: "j < length (leaves n)" using m by simp
    have "position (\<lambda>l. l = ?ids ! j) ?ids = Some j"
      by (rule position_eq_distinct) (use d j in simp_all)
    with j m len show "leaves m ! j = zip ?ids ps ! j"
      by (simp add: case_prod_beta)
  qed
  with run mk k len r show ?thesis
    by (simp add: assign_leaf_panes_def)
qed

lemma map_filter_find_leaf:
  assumes "distinct (map fst es)"
  shows "List.map_filter (map_of es) (map fst es) = map snd es"
proof -
  have "List.map_filter f (map fst xs) = map snd xs" if "\<forall>e \<in> set xs. f (fst e) = Some (snd e)"
    for f :: "'a \<Rightarrow> 'b option" and xs :: "('a \<times> 'b) list"
    using that by (induction xs) (auto simp: List.map_filter_simps)
  then show ?thesis using assms by auto
qed

end
