(* ===== verification/SplitTreeOps.thy ===== *)
theory SplitTreeOps
  imports SplitTreeSpec
begin

text \<open>
  The operations of the split tree as operations on its leaf list, and the invariant they
  keep: leaf identifiers are distinct and below the allocator, the focus is on a leaf, and
  every ratio is between 0.1 and 0.9.
\<close>

section \<open>Well-formedness\<close>

definition ratios_ok :: "node \<Rightarrow> bool" where
  "ratios_ok n \<longleftrightarrow> (\<forall>x \<in> set (ratios n). 0.1 \<le> x \<and> x \<le> 0.9)"

definition ids_ok :: "leaf_id_t \<Rightarrow> (leaf_id_t \<times> pane_handle) list \<Rightarrow> bool" where
  "ids_ok nid es \<longleftrightarrow> distinct (map fst es) \<and> (\<forall>i \<in> fst ` set es. i < nid)"

definition tree_wf :: "split_tree \<Rightarrow> bool" where
  "tree_wf t \<longleftrightarrow>
     (case root t of
        None \<Rightarrow> True
      | Some r \<Rightarrow> ids_ok (next_id t) (leaves r) \<and> focused_id t \<in> fst ` set (leaves r)
          \<and> ratios_ok r)"

lemma tree_wf_None: "root t = None \<Longrightarrow> tree_wf t"
  by (simp add: tree_wf_def)

lemma tree_wfI:
  "root t = Some r \<Longrightarrow> ids_ok (next_id t) (leaves r) \<Longrightarrow> focused_id t \<in> fst ` set (leaves r) \<Longrightarrow>
     ratios_ok r \<Longrightarrow> tree_wf t"
  by (simp add: tree_wf_def)

lemma tree_wfD:
  assumes "tree_wf t" and "root t = Some r"
  shows "ids_ok (next_id t) (leaves r)" and "focused_id t \<in> fst ` set (leaves r)" and "ratios_ok r"
    and "distinct (map fst (leaves r))"
  using assms by (simp_all add: tree_wf_def ids_ok_def)

lemma entries_root: "root t = Some r \<Longrightarrow> entries t = leaves r"
  by (simp add: entries_def)

lemma entries_empty_iff: "entries t = [] \<longleftrightarrow> root t = None"
  by (auto simp: entries_def split: option.splits)

lemma all_panes_entries: "all_panes t = map snd (entries t)"
  by (auto simp: all_panes_def entries_def collect_panes_leaves split: option.splits)

lemma tree_len_entries: "tree_len t = length (entries t)"
  by (auto simp: tree_len_def entries_def count_leaves_leaves split: option.splits)

lemma focused_pane_entries:
  "focused_pane t = (case map_of (entries t) (focused_id t) of Some p \<Rightarrow> p | None \<Rightarrow> pane_null)"
  by (auto simp: focused_pane_def entries_def find_leaf_leaves split: option.splits)

lemma ratios_ok_split:
  assumes "ratios_ok n"
  shows "ratios_ok (split_node_with_ratio n t d i p r)"
proof -
  have "0.1 \<le> f64_clamp r 0.1 0.9 \<and> f64_clamp r 0.1 0.9 \<le> 0.9"
    by (rule f64_clamp_bounds) simp
  with assms ratios_split_node [of n t d i p r] show ?thesis
    by (auto simp: ratios_ok_def)
qed

lemma ids_ok_insert_after:
  assumes "ids_ok nid es"
  shows "ids_ok (nid + 1) (insert_after t (nid, p) es)"
    and "t \<in> fst ` set es \<Longrightarrow> (nid, p) \<in> set (insert_after t (nid, p) es)"
proof -
  have sub: "fst ` set (insert_after t (nid, p) es) \<subseteq> insert nid (fst ` set es)"
    by (induction es) auto
  have new: "nid \<notin> fst ` set es" using assms by (auto simp: ids_ok_def)
  have dist: "distinct (map fst (insert_after t (nid, p) xs))"
    if "distinct (map fst xs)" "nid \<notin> fst ` set xs" for xs
    using that
  proof (induction xs)
    case (Cons x xs)
    have "fst ` set (insert_after t (nid, p) xs) \<subseteq> insert nid (fst ` set xs)"
      by (induction xs) auto
    moreover have "fst x = t \<Longrightarrow> insert_after t (nid, p) xs = xs"
      using Cons.prems by (intro insert_after_notin) auto
    ultimately show ?case using Cons by auto
  qed simp
  show "ids_ok (nid + 1) (insert_after t (nid, p) es)"
    using assms sub dist [of es] new by (auto simp: ids_ok_def dest!: subsetD)
  show "t \<in> fst ` set es \<Longrightarrow> (nid, p) \<in> set (insert_after t (nid, p) es)"
    by (induction es) auto
qed

section \<open>Construction, splitting\<close>

lemma tree_new_wf [wf_intros]: "tree_wf tree_new" and entries_new [simp]: "entries tree_new = []"
  by (simp_all add: tree_new_def tree_wf_def entries_def)

lemma add_root_entries: "entries (snd (add_root p t)) = [(next_id t, p)]"
  by (simp add: add_root_def entries_def Let_def)

lemma add_root_wf [wf_intros]: "tree_wf (snd (add_root p t))"
  by (simp add: add_root_def tree_wf_def ids_ok_def ratios_ok_def Let_def)

lemma split_focused_entries:
  assumes "tree_wf t" and "root t \<noteq> None"
  shows "entries (snd (split_focused_with_ratio d p r t))
           = insert_after (focused_id t) (next_id t, p) (entries t)"
    and "fst (split_focused_with_ratio d p r t) = Some (next_id t)"
    and "focused_id (snd (split_focused_with_ratio d p r t)) = next_id t"
    and "focused_pane (snd (split_focused_with_ratio d p r t)) = p"
proof -
  from assms(2) obtain rt where rt: "root t = Some rt" by auto
  note wf = tree_wfD [OF assms(1) rt]
  show e: "entries (snd (split_focused_with_ratio d p r t))
           = insert_after (focused_id t) (next_id t, p) (entries t)"
    and "fst (split_focused_with_ratio d p r t) = Some (next_id t)"
    and f: "focused_id (snd (split_focused_with_ratio d p r t)) = next_id t"
    using rt by (simp_all add: split_focused_with_ratio_def entries_def Let_def leaves_split_node)
  have "distinct (map fst (insert_after (focused_id t) (next_id t, p) (leaves rt)))"
    using ids_ok_insert_after(1) [OF wf(1)] by (simp add: ids_ok_def)
  then have "map_of (insert_after (focused_id t) (next_id t, p) (leaves rt)) (next_id t) = Some p"
    using ids_ok_insert_after(2) [OF wf(1) wf(2)] by simp
  with e f rt show "focused_pane (snd (split_focused_with_ratio d p r t)) = p"
    by (simp add: focused_pane_entries entries_root)
qed

lemma split_focused_wf [wf_intros]:
  assumes "tree_wf t"
  shows "tree_wf (snd (split_focused_with_ratio d p r t))"
proof (cases "root t")
  case None
  then show ?thesis by (simp add: split_focused_with_ratio_def tree_wf_def Let_def)
next
  case (Some rt)
  note wf = tree_wfD [OF assms Some]
  have "next_id t \<in> fst ` set (insert_after (focused_id t) (next_id t, p) (leaves rt))"
    using ids_ok_insert_after(2) [OF wf(1) wf(2), of p] by force
  with Some ids_ok_insert_after(1) [OF wf(1), of "focused_id t" p] ratios_ok_split [OF wf(3)]
  show ?thesis
    by (simp add: split_focused_with_ratio_def tree_wf_def Let_def leaves_split_node)
qed

section \<open>Focus\<close>

lemma set_focus_wf [wf_intros]:
  "tree_wf t \<Longrightarrow> i \<in> fst ` set (entries t) \<Longrightarrow> tree_wf (set_focus i t)"
  by (auto simp: set_focus_def tree_wf_def entries_def split: option.splits)

lemma set_focus_to_pane_wf [wf_intros]:
  assumes "tree_wf t"
  shows "tree_wf (snd (set_focus_to_pane pid t))"
proof (cases "root t")
  case None
  then show ?thesis using assms by (simp add: set_focus_to_pane_def)
next
  case (Some r)
  have "fst e \<in> fst ` set (leaves r)"
    if "List.find (\<lambda>e. pane_id (snd e) = pid) (leaves r) = Some e" for e
    using that unfolding find_Some_iff by (metis image_eqI nth_mem)
  with assms Some show ?thesis
    by (auto simp: set_focus_to_pane_def tree_wf_def find_leaf_id_by_pane_leaves split: option.splits)
qed

lemma set_focus_to_pane_entries [simp]: "entries (snd (set_focus_to_pane pid t)) = entries t"
  by (auto simp: set_focus_to_pane_def entries_def split: option.splits)

lemma find_pane_id_mem:
  "List.find (\<lambda>e. pane_id (snd e) = pid) es = Some e \<Longrightarrow> e \<in> set es \<and> pane_id (snd e) = pid"
  by (auto simp: find_Some_iff)

lemma set_focus_to_pane_result:
  assumes "distinct (map fst (entries t))"
  shows "fst (set_focus_to_pane pid t) \<longleftrightarrow> pid \<in> pane_id ` set (all_panes t)"
    and "fst (set_focus_to_pane pid t) \<Longrightarrow> pane_id (focused_pane (snd (set_focus_to_pane pid t))) = pid"
    and "\<not> fst (set_focus_to_pane pid t) \<Longrightarrow> snd (set_focus_to_pane pid t) = t"
proof -
  let ?f = "List.find (\<lambda>e. pane_id (snd e) = pid) (entries t)"
  have eq: "set_focus_to_pane pid t =
      (case ?f of None \<Rightarrow> (False, t) | Some e \<Rightarrow> (True, t\<lparr>focused_id := fst e\<rparr>))"
    by (auto simp: set_focus_to_pane_def entries_def find_leaf_id_by_pane_leaves split: option.splits)
  show "fst (set_focus_to_pane pid t) \<longleftrightarrow> pid \<in> pane_id ` set (all_panes t)"
  proof (cases ?f)
    case None
    then have "pid \<notin> pane_id ` set (all_panes t)"
      unfolding find_None_iff all_panes_entries by force
    with None eq show ?thesis by simp
  next
    case (Some e)
    with find_pane_id_mem [OF Some] eq show ?thesis by (auto simp: all_panes_entries)
  qed
  show "\<not> fst (set_focus_to_pane pid t) \<Longrightarrow> snd (set_focus_to_pane pid t) = t"
    using eq by (auto split: option.splits)
  assume "fst (set_focus_to_pane pid t)"
  with eq obtain e where e: "?f = Some e" by (auto split: option.splits)
  with find_pane_id_mem [OF e] assms have "map_of (entries t) (fst e) = Some (snd e)"
    by (cases e) auto
  moreover have "entries (t\<lparr>focused_id := fst e\<rparr>) = entries t" by (simp add: entries_def)
  ultimately show "pane_id (focused_pane (snd (set_focus_to_pane pid t))) = pid"
    using eq e find_pane_id_mem [OF e] by (simp add: focused_pane_entries)
qed

text \<open>Focus moves over the ring of leaf identifiers.\<close>

lemma focus_ring:
  assumes "tree_wf t" and "root t = Some r"
  obtains pos where "pos < length (leaves r)" and "focused_id t = map fst (leaves r) ! pos"
    and "position (\<lambda>i. i = focused_id t) (collect_leaf_ids r) = Some pos"
proof -
  note wf = tree_wfD [OF assms]
  from wf(2) obtain pos where pos: "pos < length (leaves r)" "focused_id t = map fst (leaves r) ! pos"
    by (auto simp: in_set_conv_nth)
  then have "position (\<lambda>i. i = focused_id t) (collect_leaf_ids r) = Some pos"
    using position_eq_distinct [of "map fst (leaves r)" pos] wf(4) by (simp add: collect_leaf_ids_leaves)
  with pos that show thesis by blast
qed

lemma focus_next_at:
  assumes "tree_wf t" and "root t = Some r" and "pos < length (leaves r)"
    and "focused_id t = map fst (leaves r) ! pos"
  shows "focus_next t = t\<lparr>focused_id := map fst (leaves r) ! ((pos + 1) mod length (leaves r))\<rparr>"
proof -
  have "position (\<lambda>i. i = map fst (leaves r) ! pos) (map fst (leaves r)) = Some pos"
    by (rule position_eq_distinct) (use tree_wfD [OF assms(1,2)] assms(3) in simp_all)
  then show ?thesis
    using assms by (simp add: focus_next_def collect_leaf_ids_leaves Let_def)
qed

lemma focus_prev_at:
  assumes "tree_wf t" and "root t = Some r" and "pos < length (leaves r)"
    and "focused_id t = map fst (leaves r) ! pos"
  shows "focus_prev t = t\<lparr>focused_id :=
           map fst (leaves r) ! ((pos + length (leaves r) - 1) mod length (leaves r))\<rparr>"
proof -
  have "position (\<lambda>i. i = map fst (leaves r) ! pos) (map fst (leaves r)) = Some pos"
    by (rule position_eq_distinct) (use tree_wfD [OF assms(1,2)] assms(3) in simp_all)
  then show ?thesis
    using assms by (simp add: focus_prev_def collect_leaf_ids_leaves Let_def)
qed

lemma focus_nth_wf:
  assumes "tree_wf t" and "root t = Some r" and "k < length (leaves r)"
  shows "tree_wf (t\<lparr>focused_id := map fst (leaves r) ! k\<rparr>)"
  using assms tree_wfD [OF assms(1,2)] by (auto intro!: tree_wfI [of _ r] simp: image_iff)

lemma focus_next_wf [wf_intros]:
  assumes "tree_wf t"
  shows "tree_wf (focus_next t)"
proof (cases "root t")
  case None
  then show ?thesis using assms by (simp add: focus_next_def)
next
  case (Some r)
  from focus_ring [OF assms Some] obtain pos where
    "pos < length (leaves r)" "focused_id t = map fst (leaves r) ! pos" by metis
  then show ?thesis
    using focus_next_at [OF assms Some] focus_nth_wf [OF assms Some] by simp
qed

lemma focus_prev_wf [wf_intros]:
  assumes "tree_wf t"
  shows "tree_wf (focus_prev t)"
proof (cases "root t")
  case None
  then show ?thesis using assms by (simp add: focus_prev_def)
next
  case (Some r)
  from focus_ring [OF assms Some] obtain pos where
    "pos < length (leaves r)" "focused_id t = map fst (leaves r) ! pos" by metis
  then show ?thesis
    using focus_prev_at [OF assms Some] focus_nth_wf [OF assms Some] by simp
qed

lemma focus_moves_entries [simp]:
  "entries (focus_next t) = entries t" "entries (focus_prev t) = entries t"
  by (auto simp: focus_next_def focus_prev_def entries_def Let_def split: option.splits)

lemma focus_prev_next_aux:
  assumes "tree_wf t"
  shows "focus_prev (focus_next t) = t" and "focus_next (focus_prev t) = t"
proof -
  have "focus_prev (focus_next t) = t \<and> focus_next (focus_prev t) = t"
  proof (cases "root t")
    case None
    then show ?thesis by (simp add: focus_next_def focus_prev_def)
  next
    case (Some r)
    let ?n = "length (leaves r)" and ?ids = "map fst (leaves r)"
    from focus_ring [OF assms Some] obtain pos where
      pos: "pos < ?n" "focused_id t = ?ids ! pos" by metis
    have nx: "focus_next t = t\<lparr>focused_id := ?ids ! ((pos + 1) mod ?n)\<rparr>"
      using focus_next_at [OF assms Some pos] .
    have pv: "focus_prev t = t\<lparr>focused_id := ?ids ! ((pos + ?n - 1) mod ?n)\<rparr>"
      using focus_prev_at [OF assms Some pos] .
    have rn: "root (focus_next t) = Some r" "root (focus_prev t) = Some r"
      using nx pv Some by simp_all
    have "focus_prev (focus_next t) = (focus_next t)\<lparr>focused_id := ?ids ! pos\<rparr>"
      using focus_prev_at [OF focus_next_wf [OF assms] rn(1), of "(pos + 1) mod ?n"] nx pos
        wrap_next_prev [OF pos(1)] by simp
    moreover have "focus_next (focus_prev t) = (focus_prev t)\<lparr>focused_id := ?ids ! pos\<rparr>"
      using focus_next_at [OF focus_prev_wf [OF assms] rn(2), of "(pos + ?n - 1) mod ?n"] pv pos
        wrap_prev_next [OF pos(1)] by simp
    ultimately show ?thesis
      using nx pv pos by simp
  qed
  then show "focus_prev (focus_next t) = t" and "focus_next (focus_prev t) = t" by simp_all
qed

section \<open>Removal\<close>

lemma finish_removal_simps [simp]:
  "root (finish_removal t rest) = rest" "next_id (finish_removal t rest) = next_id t"
  by (auto simp: finish_removal_def Let_def split: option.splits)

lemma finish_removal_entries: "entries (finish_removal t rest) = leaves_opt rest"
  by (auto simp: entries_def leaves_opt_def)

lemma finish_removal_focus: "focused_id (finish_removal t (Some r)) = fst (hd (leaves r))"
  by (simp add: finish_removal_def collect_leaf_ids_leaves Let_def hd_map hd_conv_nth)

lemma set_remove_first: "set (remove_first i es) \<subseteq> set es"
  by (induction es) auto

lemma ids_ok_remove_first: "ids_ok nid es \<Longrightarrow> ids_ok nid (remove_first i es)"
proof -
  assume a: "ids_ok nid es"
  then have d: "distinct (map fst es)" by (simp add: ids_ok_def)
  then have "remove_first i es = filter (\<lambda>e. fst e \<noteq> i) es" by (rule remove_first_distinct)
  with a d show ?thesis
    by (auto simp: ids_ok_def distinct_map intro: inj_on_subset)
qed

lemma finish_removal_wf:
  assumes "tree_wf t" and "root t = Some r" and "remove_leaf r i = Removed p rest"
  shows "tree_wf (finish_removal t rest)"
proof (cases rest)
  case None
  then show ?thesis by (intro tree_wf_None) simp
next
  case (Some m)
  note wf = tree_wfD [OF assms(1,2)]
  have lv: "leaves m = remove_first i (leaves r)"
    using remove_leaf_Removed [OF assms(3)] Some by simp
  have "ids_ok (next_id t) (leaves m)"
    using ids_ok_remove_first [OF wf(1)] lv by simp
  moreover have "ratios_ok m"
    using remove_leaf_ratios [of r i p m] assms(3) Some wf(3) by (auto simp: ratios_ok_def)
  moreover have "fst (hd (leaves m)) \<in> fst ` set (leaves m)"
    by (simp add: image_iff) (metis hd_in_set leaves_nonempty prod.collapse)
  ultimately show ?thesis
    using Some by (intro tree_wfI [of _ m]) (simp_all add: finish_removal_focus)
qed

lemma remove_focused_wf [wf_intros]:
  assumes "tree_wf t"
  shows "tree_wf (snd (remove_focused t))"
proof (cases "root t")
  case None
  then show ?thesis using assms by (simp add: remove_focused_def)
next
  case (Some r)
  from tree_wfD(2) [OF assms Some] obtain p rest where
    "remove_leaf r (focused_id t) = Removed p rest" by (rule remove_leaf_found)
  then show ?thesis
    using Some finish_removal_wf [OF assms Some] by (simp add: remove_focused_def)
qed

lemma remove_focused_Some:
  assumes "tree_wf t" and "root t \<noteq> None"
  shows "fst (remove_focused t) = Some (focused_pane t)"
    and "entries (snd (remove_focused t)) = remove_first (focused_id t) (entries t)"
    and "next_id (snd (remove_focused t)) = next_id t"
proof -
  from assms(2) obtain r where r: "root t = Some r" by auto
  from tree_wfD(2) [OF assms(1) r] obtain p rest where
    rm: "remove_leaf r (focused_id t) = Removed p rest" by (rule remove_leaf_found)
  note spec = remove_leaf_Removed [OF rm]
  show "fst (remove_focused t) = Some (focused_pane t)"
    and "entries (snd (remove_focused t)) = remove_first (focused_id t) (entries t)"
    and "next_id (snd (remove_focused t)) = next_id t"
    using r rm spec
    by (simp_all add: remove_focused_def focused_pane_entries entries_root finish_removal_entries)
qed

lemma remove_first_mset:
  "map_of es i = Some p \<Longrightarrow> add_mset p (mset (map snd (remove_first i es))) = mset (map snd es)"
  by (induction es) auto

lemma remove_focused_mset:
  assumes "tree_wf t" and "root t \<noteq> None"
  shows "mset (all_panes t) = add_mset (focused_pane t) (mset (all_panes (snd (remove_focused t))))"
proof -
  from assms(2) obtain r where r: "root t = Some r" by auto
  from tree_wfD(2) [OF assms(1) r] obtain p where "map_of (leaves r) (focused_id t) = Some p"
    by (metis map_of_eq_None_iff not_Some_eq)
  with r have "map_of (entries t) (focused_id t) = Some (focused_pane t)"
    by (simp add: entries_root focused_pane_entries)
  from remove_first_mset [OF this] show ?thesis
    using remove_focused_Some(2) [OF assms] by (simp add: all_panes_entries)
qed

text \<open>Removal by pane finds a leaf exactly when some leaf shows the pane.\<close>

lemma remove_pane_eq:
  assumes "root t = Some r" and "distinct (map fst (leaves r))"
  shows "remove_pane pid t =
    (case List.find (\<lambda>e. pane_id (snd e) = pid) (leaves r) of
       None \<Rightarrow> (None, t)
     | Some e \<Rightarrow> (Some (snd e), finish_removal t
          (case remove_leaf r (fst e) of Removed _ rest \<Rightarrow> rest | NotFound _ \<Rightarrow> None)))"
proof (cases "List.find (\<lambda>e. pane_id (snd e) = pid) (leaves r)")
  case None
  with assms show ?thesis by (simp add: remove_pane_def find_leaf_id_by_pane_leaves)
next
  case (Some e)
  then have e: "e \<in> set (leaves r)" using find_pane_id_mem by blast
  then obtain p rest where rm: "remove_leaf r (fst e) = Removed p rest"
    using remove_leaf_found [of "fst e" r] by blast
  have "map_of (leaves r) (fst e) = Some (snd e)"
    using e assms(2) by simp
  with remove_leaf_Removed [OF rm] have "p = snd e" by simp
  with assms(1) Some rm show ?thesis
    by (simp add: remove_pane_def find_leaf_id_by_pane_leaves)
qed

lemma remove_pane_wf [wf_intros]:
  assumes "tree_wf t"
  shows "tree_wf (snd (remove_pane pid t))"
proof (cases "root t")
  case None
  then show ?thesis using assms by (simp add: remove_pane_def)
next
  case (Some r)
  note wf = tree_wfD [OF assms Some]
  show ?thesis
  proof (cases "List.find (\<lambda>e. pane_id (snd e) = pid) (leaves r)")
    case None
    then show ?thesis using assms remove_pane_eq [OF Some wf(4)] by simp
  next
    case e: (Some e)
    then obtain p rest where rm: "remove_leaf r (fst e) = Removed p rest"
      using find_pane_id_mem [OF e] remove_leaf_found [of "fst e" r] by blast
    with e show ?thesis
      using remove_pane_eq [OF Some wf(4)] finish_removal_wf [OF assms Some rm] by simp
  qed
qed

lemma remove_pane_spec:
  assumes "tree_wf t"
  shows "fst (remove_pane pid t) = List.find (\<lambda>p. pane_id p = pid) (all_panes t)"
    and "fst (remove_pane pid t) = Some p \<Longrightarrow>
           mset (all_panes t) = add_mset p (mset (all_panes (snd (remove_pane pid t))))"
    and "fst (remove_pane pid t) = None \<Longrightarrow> snd (remove_pane pid t) = t"
proof -
  have fm: "List.find (\<lambda>p. pane_id p = pid) (map snd es)
      = map_option snd (List.find (\<lambda>e. pane_id (snd e) = pid) es)" for es :: "(nat \<times> pane_handle) list"
    by (induction es) auto
  have "fst (remove_pane pid t) = List.find (\<lambda>p. pane_id p = pid) (all_panes t)
     \<and> (\<forall>p. fst (remove_pane pid t) = Some p \<longrightarrow>
           mset (all_panes t) = add_mset p (mset (all_panes (snd (remove_pane pid t)))))
     \<and> (fst (remove_pane pid t) = None \<longrightarrow> snd (remove_pane pid t) = t)"
  proof (cases "root t")
    case None
    then show ?thesis by (simp add: remove_pane_def all_panes_entries entries_def)
  next
    case (Some r)
    note wf = tree_wfD [OF assms Some]
    show ?thesis
    proof (cases "List.find (\<lambda>e. pane_id (snd e) = pid) (leaves r)")
      case None
      then show ?thesis
        using remove_pane_eq [OF Some wf(4)] Some by (simp add: all_panes_entries entries_root fm)
    next
      case e: (Some e)
      then have mem: "e \<in> set (leaves r)" using find_pane_id_mem by blast
      then obtain p rest where rm: "remove_leaf r (fst e) = Removed p rest"
        using remove_leaf_found [of "fst e" r] by blast
      have "map_of (leaves r) (fst e) = Some (snd e)"
        using mem wf(4) by simp
      from remove_first_mset [OF this] show ?thesis
        using remove_pane_eq [OF Some wf(4)] Some e rm remove_leaf_Removed [OF rm]
        by (simp add: all_panes_entries entries_root fm finish_removal_entries)
    qed
  qed
  then show "fst (remove_pane pid t) = List.find (\<lambda>p. pane_id p = pid) (all_panes t)"
    and "fst (remove_pane pid t) = Some p \<Longrightarrow>
           mset (all_panes t) = add_mset p (mset (all_panes (snd (remove_pane pid t))))"
    and "fst (remove_pane pid t) = None \<Longrightarrow> snd (remove_pane pid t) = t"
    by auto
qed

section \<open>Swapping, rotating, rebuilding\<close>

lemma same_ids_wf:
  assumes "tree_wf t" and "root t = Some r" and "map fst (leaves r') = map fst (leaves r)"
    and "ratios r' = ratios r"
  shows "tree_wf (t\<lparr>root := Some r'\<rparr>)"
proof -
  have "fst ` set (leaves r') = fst ` set (leaves r)"
    using assms(3) by (metis list.set_map)
  with tree_wfD [OF assms(1,2)] assms(3,4) show ?thesis
    by (auto simp: tree_wf_def ids_ok_def ratios_ok_def)
qed

lemma adjacent_pos_neq:
  "2 \<le> n \<Longrightarrow> pos < n \<Longrightarrow> (if nxt then (pos + 1) mod n else (pos + n - 1) mod n) \<noteq> (pos :: nat)"
proof -
  assume n: "2 \<le> n" and pos: "pos < n"
  have "(pos + 1) mod n \<noteq> pos"
  proof (cases "pos + 1 = n")
    case False
    with pos have "pos + 1 < n" by simp
    then show ?thesis by simp
  qed (use n in simp)
  moreover have "(pos + n - 1) mod n \<noteq> pos"
  proof (cases "pos = 0")
    case False
    then show ?thesis using wrap_prev_pos [OF _ pos] by simp
  qed (use n in simp)
  ultimately show ?thesis by simp
qed

lemma swap_focused_eq:
  assumes wf: "tree_wf t" and rt: "root t = Some r" and two: "2 \<le> length (leaves r)"
    and pos: "pos < length (leaves r)" "focused_id t = map fst (leaves r) ! pos"
    and q: "q = (if nxt then (pos + 1) mod length (leaves r)
                 else (pos + length (leaves r) - 1) mod length (leaves r))"
  obtains r' where "swap_focused_with_adjacent nxt t = (True, t\<lparr>root := Some r'\<rparr>)"
    and "map fst (leaves r') = map fst (leaves r)" and "ratios r' = ratios r"
    and "map snd (leaves r') =
           (map snd (leaves r))[pos := map snd (leaves r) ! q, q := map snd (leaves r) ! pos]"
proof -
  note w = tree_wfD [OF wf rt]
  have ql: "q < length (leaves r)" using q pos(1) by (auto intro: mod_less_divisor)
  have posi: "position (\<lambda>i. i = focused_id t) (map fst (leaves r)) = Some pos"
    using position_eq_distinct [OF w(4), of pos] pos by simp
  have mo: "map_of (leaves r) (fst (leaves r ! k)) = Some (snd (leaves r ! k))"
    if "k < length (leaves r)" for k
    using w(4) that by simp
  obtain ok r' where sw: "swap_leaf_panes r (fst (leaves r ! pos)) (fst (leaves r ! q)) = (ok, r')"
    by fastforce
  note spec = swap_leaf_panes_spec [OF mo [OF pos(1)] mo [OF ql]]
  have len: "length (map fst (leaves r)) = length (leaves r)" by simp
  have at: "map fst (leaves r) ! k = fst (leaves r ! k)" if "k < length (leaves r)" for k
    using that by simp
  have "swap_focused_with_adjacent nxt t = (ok, t\<lparr>root := Some r'\<rparr>)"
    unfolding swap_focused_with_adjacent_def rt option.case collect_leaf_ids_leaves Let_def posi len
      pos(2) at [OF pos(1)]
    using two q at [OF ql] sw posi pos(2) at [OF pos(1)] by simp
  then have "swap_focused_with_adjacent nxt t = (True, t\<lparr>root := Some r'\<rparr>)"
    using spec(1) sw by simp
  moreover have "map fst (leaves r') = map fst (leaves r)" and "ratios r' = ratios r"
    using spec sw by simp_all
  moreover have "map snd (leaves r') =
           (map snd (leaves r))[pos := map snd (leaves r) ! q, q := map snd (leaves r) ! pos]"
    using put_first_swap_panes [OF w(4) pos(1) ql] spec(2) sw pos(1) ql by simp
  ultimately show thesis using that by blast
qed

lemma swap_focused_wf [wf_intros]:
  assumes "tree_wf t"
  shows "tree_wf (snd (swap_focused_with_adjacent nxt t))"
proof (cases "root t")
  case None
  then show ?thesis using assms by (simp add: swap_focused_with_adjacent_def)
next
  case (Some r)
  from focus_ring [OF assms Some] obtain pos where
    pos: "pos < length (leaves r)" "focused_id t = map fst (leaves r) ! pos"
      "position (\<lambda>i. i = focused_id t) (collect_leaf_ids r) = Some pos" by metis
  show ?thesis
  proof (cases "2 \<le> length (leaves r)")
    case True
    from swap_focused_eq [OF assms Some True pos(1,2) refl, of nxt] obtain r' where
      "swap_focused_with_adjacent nxt t = (True, t\<lparr>root := Some r'\<rparr>)"
      "map fst (leaves r') = map fst (leaves r)" "ratios r' = ratios r" by metis
    then show ?thesis using same_ids_wf [OF assms Some] by simp
  next
    case False
    then have "length (collect_leaf_ids r) < 2" by (simp add: collect_leaf_ids_leaves)
    with assms Some pos(3) show ?thesis
      by (simp add: swap_focused_with_adjacent_def Let_def)
  qed
qed

lemma length_rotated [simp]: "ps \<noteq> [] \<Longrightarrow> length (rotated_panes fwd ps) = length ps"
  by (auto simp: rotated_panes_def)

lemma rotated_forward: "ps \<noteq> [] \<Longrightarrow> rotated_panes True ps = last ps # butlast ps"
  by (simp add: rotated_panes_def butlast_conv_take)

lemma rotated_backward: "ps \<noteq> [] \<Longrightarrow> rotated_panes False ps = rotate1 ps"
  by (cases ps) (auto simp: rotated_panes_def)

lemma rotated_inverse:
  assumes "ps \<noteq> []"
  shows "rotated_panes False (rotated_panes True ps) = ps"
    and "rotated_panes True (rotated_panes False ps) = ps"
proof -
  show "rotated_panes False (rotated_panes True ps) = ps"
    using assms by (simp add: rotated_forward rotated_backward)
  from assms obtain x xs where "ps = x # xs" by (cases ps) auto
  then show "rotated_panes True (rotated_panes False ps) = ps"
    by (simp add: rotated_backward rotated_forward)
qed

lemma mset_rotated: "ps \<noteq> [] \<Longrightarrow> mset (rotated_panes fwd ps) = mset ps"
proof (cases fwd)
  case True
  assume ne: "ps \<noteq> []"
  then have "mset (butlast ps @ [last ps]) = mset ps" by simp
  with True ne show ?thesis by (simp add: rotated_forward del: append_butlast_last_id)
next
  case False
  assume ne: "ps \<noteq> []"
  then obtain x xs where "ps = x # xs" by (cases ps) auto
  with False show ?thesis by (simp add: rotated_backward)
qed

lemma rotate_panes_eq:
  assumes wf: "tree_wf t" and rt: "root t = Some r" and two: "2 \<le> length (leaves r)"
  obtains r' where "rotate_panes fwd t = (True, t\<lparr>root := Some r'\<rparr>)"
    and "leaves r' = zip (map fst (leaves r)) (rotated_panes fwd (map snd (leaves r)))"
    and "ratios r' = ratios r"
proof -
  note w = tree_wfD [OF wf rt]
  let ?ps = "rotated_panes fwd (map snd (leaves r))"
  obtain ok r' where as: "assign_leaf_panes r (map fst (leaves r)) ?ps = (ok, r')" by fastforce
  have sp: "ok \<and> leaves r' = zip (map fst (leaves r)) ?ps \<and> ratios r' = ratios r"
    by (rule assign_leaf_panes_spec [OF w(4) _ as]) simp
  have fl: "find_leaf r = map_of (leaves r)" by (simp add: fun_eq_iff find_leaf_leaves)
  have "rotate_panes fwd t = (True, t\<lparr>root := Some r'\<rparr>)"
    using rt two as sp map_filter_find_leaf [OF w(4)]
    by (simp add: rotate_panes_def collect_leaf_ids_leaves fl Let_def)
  with sp that show thesis by blast
qed

lemma rotate_panes_wf [wf_intros]:
  assumes "tree_wf t"
  shows "tree_wf (snd (rotate_panes fwd t))"
proof (cases "root t")
  case None
  then show ?thesis using assms by (simp add: rotate_panes_def)
next
  case (Some r)
  show ?thesis
  proof (cases "2 \<le> length (leaves r)")
    case True
    from rotate_panes_eq [OF assms Some True, of fwd] obtain r' where
      "rotate_panes fwd t = (True, t\<lparr>root := Some r'\<rparr>)"
      "leaves r' = zip (map fst (leaves r)) (rotated_panes fwd (map snd (leaves r)))"
      "ratios r' = ratios r" by metis
    then show ?thesis using same_ids_wf [OF assms Some, of r'] by simp
  next
    case False
    then have "length (collect_leaf_ids r) < 2" by (simp add: collect_leaf_ids_leaves)
    with assms Some show ?thesis by (simp add: rotate_panes_def Let_def)
  qed
qed

lemma rebuild_loop_spec:
  assumes "rebuild_loop ps idx splits nid r = (r', nid')" and "0 < nid"
    and "map fst (leaves r) = [0..<nid]" and "ratios_ok r"
  shows "nid' = nid + length ps \<and> map fst (leaves r') = [0..<nid'] \<and>
         map snd (leaves r') = map snd (leaves r) @ ps \<and> ratios_ok r'"
  using assms
proof (induction ps arbitrary: idx nid r)
  case Nil
  then show ?case by simp
next
  case (Cons p ps)
  obtain d q where dq: "(if idx - 1 < length splits then splits ! (idx - 1) else (Vertical, 1 / 2)) = (d, q)"
    by fastforce
  let ?r = "split_node_with_ratio r (nid - 1) d nid p q"
  from Cons.prems(2,3) obtain pre lst where lv: "leaves r = pre @ [(nid - 1, lst)]"
    and pre: "map fst pre = [0..<nid - 1]"
  proof -
    have "map fst (leaves r) = [0..<nid - 1] @ [nid - 1]"
      using Cons.prems(2,3) by (cases nid) auto
    then show ?thesis
      using that by (auto simp: map_eq_append_conv)
  qed
  have notin: "nid - 1 \<notin> fst ` set pre"
  proof -
    have "fst ` set pre = set [0..<nid - 1]" using pre by (metis list.set_map)
    then show ?thesis by simp
  qed
  have "leaves ?r = leaves r @ [(nid, p)]"
    using lv notin by (simp add: leaves_split_node insert_after_notin)
  then have ids: "map fst (leaves ?r) = [0..<nid + 1]" and ps: "map snd (leaves ?r) = map snd (leaves r) @ [p]"
    using Cons.prems(3) by simp_all
  have run: "rebuild_loop ps (idx + 1) splits (nid + 1) ?r = (r', nid')"
    using Cons.prems(1) dq by (simp add: Let_def)
  show ?case
    using Cons.IH [OF run _ ids ratios_ok_split [OF Cons.prems(4)]] ps by simp
qed

text \<open>
  The rebuilt focus is a leaf unless the pane asked for is the null pane and no leaf shows it:
  then the stale focus already reads as the null pane and is kept.
\<close>

lemma rebuild_eq:
  assumes "ps \<noteq> []" and f: "f \<in> pane_id ` set ps \<or> f \<noteq> 0"
  obtains r where "fst (rebuild_from_panes ps splits f t)"
    and "root (snd (rebuild_from_panes ps splits f t)) = Some r"
    and "next_id (snd (rebuild_from_panes ps splits f t)) = length ps"
    and "leaves r = zip [0..<length ps] ps" and "ratios_ok r"
    and "tree_wf (snd (rebuild_from_panes ps splits f t))"
proof -
  obtain p qs where ps: "ps = p # qs" using assms by (cases ps) auto
  obtain r nid where loop: "rebuild_loop qs 1 splits 1 (Leaf 0 p) = (r, nid)" by fastforce
  have spec: "nid = length ps" "map fst (leaves r) = [0..<nid]" "map snd (leaves r) = ps" "ratios_ok r"
    using rebuild_loop_spec [OF loop] ps by (simp_all add: ratios_ok_def)
  then have lv: "leaves r = zip [0..<length ps] ps"
    by (metis zip_map_fst_snd)
  let ?t = "snd (rebuild_from_panes ps splits f t)"
  let ?t1 = "t\<lparr>root := Some r, next_id := nid\<rparr>"
  have t: "?t = (let t2 = snd (set_focus_to_pane f ?t1)
       in if pane_id (focused_pane t2) \<noteq> f then t2\<lparr>focused_id := 0\<rparr> else t2)"
    using ps loop by (simp add: rebuild_from_panes_def Let_def)
  have keep: "root (snd (set_focus_to_pane f ?t1)) = Some r" "next_id (snd (set_focus_to_pane f ?t1)) = nid"
    by (auto simp: set_focus_to_pane_def split: option.splits)
  have zero: "0 \<in> fst ` set (leaves r)"
  proof -
    have "fst ` set (leaves r) = set [0..<nid]" using spec(2) by (metis list.set_map)
    then show ?thesis using spec(1) assms by auto
  qed
  have ids: "ids_ok nid (leaves r)"
  proof -
    have "fst ` set (leaves r) = set [0..<nid]" using spec(2) by (metis list.set_map)
    then show ?thesis using spec(2) by (simp add: ids_ok_def)
  qed
  have foc: "focused_id ?t \<in> fst ` set (leaves r)"
  proof (cases "fst (set_focus_to_pane f ?t1)")
    case True
    then have "focused_id (snd (set_focus_to_pane f ?t1)) \<in> fst ` set (leaves r)"
      by (auto simp: set_focus_to_pane_def find_leaf_id_by_pane_leaves dest!: find_pane_id_mem
          split: option.splits intro: rev_image_eqI)
    with zero t show ?thesis by (simp add: Let_def)
  next
    case False
    then have same: "snd (set_focus_to_pane f ?t1) = ?t1"
      using set_focus_to_pane_result(3) [of ?t1 f] ids by (simp add: entries_def ids_ok_def)
    have "f \<noteq> 0"
      using False f set_focus_to_pane_result(1) [of ?t1 f] ids spec(3)
      by (simp add: all_panes_entries entries_def ids_ok_def)
    then have "pane_id (focused_pane ?t1) \<noteq> f \<or> focused_id t \<in> fst ` set (leaves r)"
      by (force simp: focused_pane_entries entries_def pane_null_def
          split: option.splits dest: map_of_SomeD)
    with same zero t show ?thesis by (auto simp: Let_def)
  qed
  have rt: "root ?t = Some r" "next_id ?t = nid"
    using t keep by (simp_all add: Let_def)
  have "tree_wf ?t"
    using rt ids foc spec(4) by (intro tree_wfI [of _ r]) simp_all
  moreover have "fst (rebuild_from_panes ps splits f t)"
    using ps loop by (simp add: rebuild_from_panes_def Let_def)
  ultimately show thesis
    using that rt lv spec by blast
qed

end
