(* ===== verification/SplitGeometry.thy ===== *)
theory SplitGeometry
  imports SplitTreeOps
begin

text \<open>
  The geometry of the split tree (\<open>src/splits.rs\<close>): frames of the leaves inside a window,
  the divider between two panes, hit testing, resizing and directional focus.
\<close>

section \<open>Frames\<close>

definition SPLIT_BORDER :: f64 where "SPLIT_BORDER = 1"

definition DIVIDER_HIT_MARGIN :: f64 where "DIVIDER_HIT_MARGIN = 3"

definition split_frame :: "rect \<Rightarrow> direction \<Rightarrow> f64 \<Rightarrow> rect \<times> rect" where
  "split_frame frame dir ratio =
     (case dir of
        Horizontal \<Rightarrow>
          (let usable = rect_w frame - SPLIT_BORDER;
               w1 = usable * ratio;
               w2 = usable - w1
           in (mk_rect (origin frame) (mk_size w1 (rect_h frame)),
               mk_rect (mk_point (rect_x frame + w1 + SPLIT_BORDER) (rect_y frame))
                       (mk_size w2 (rect_h frame))))
      | Vertical \<Rightarrow>
          (let usable = rect_h frame - SPLIT_BORDER;
               h1 = usable * ratio;
               h2 = usable - h1
           in (mk_rect (origin frame) (mk_size (rect_w frame) h1),
               mk_rect (mk_point (rect_x frame) (rect_y frame + h1 + SPLIT_BORDER))
                       (mk_size (rect_w frame) h2))))"

text \<open>
  \<open>layout_node\<close> moves the native view of every leaf (\<open>set_view_frame\<close>) and collects the pixel
  size of its pane.
\<close>

type_synonym view_frames = "u64 \<Rightarrow> rect option"

fun layout_node ::
  "node \<Rightarrow> rect \<Rightarrow> f64 \<Rightarrow> view_frames \<times> (pane_handle \<times> u32 \<times> u32) list
     \<Rightarrow> view_frames \<times> (pane_handle \<times> u32 \<times> u32) list" where
  "layout_node (Leaf i p) frame scale (vf, out) =
     (vf(view p \<mapsto> frame),
      out @ [(p, f64_as_u32 (rect_w frame * scale), f64_as_u32 (rect_h frame * scale))])"
| "layout_node (Split d r a b) frame scale acc =
     (let (first_frame, second_frame) = split_frame frame d r
      in layout_node b second_frame scale (layout_node a first_frame scale acc))"

definition tree_layout ::
  "split_tree \<Rightarrow> rect \<Rightarrow> f64 \<Rightarrow> view_frames \<Rightarrow> view_frames \<times> (pane_handle \<times> u32 \<times> u32) list" where
  "tree_layout t frame scale vf =
     (case root t of Some r \<Rightarrow> layout_node r frame scale (vf, []) | None \<Rightarrow> (vf, []))"

record exported_pane =
  ex_leaf_id :: leaf_id_t
  ex_pane :: pane_handle
  ex_frame :: "rect option"
  ex_split :: "(direction \<times> f64) option"

fun export_node ::
  "node \<Rightarrow> (direction \<times> f64) option \<Rightarrow> exported_pane list \<Rightarrow> exported_pane list" where
  "export_node (Leaf i p) parent_split out =
     out @ [\<lparr>ex_leaf_id = i, ex_pane = p, ex_frame = None, ex_split = parent_split\<rparr>]"
| "export_node (Split d r a b) parent_split out =
     export_node b (Some (d, r)) (export_node a (Some (d, r)) out)"

fun export_node_with_frame ::
  "node \<Rightarrow> rect \<Rightarrow> (direction \<times> f64) option \<Rightarrow> exported_pane list \<Rightarrow> exported_pane list" where
  "export_node_with_frame (Leaf i p) frame parent_split out =
     out @ [\<lparr>ex_leaf_id = i, ex_pane = p, ex_frame = Some frame, ex_split = parent_split\<rparr>]"
| "export_node_with_frame (Split d r a b) frame parent_split out =
     (let (first_frame, second_frame) = split_frame frame d r
      in export_node_with_frame b second_frame (Some (d, r))
           (export_node_with_frame a first_frame (Some (d, r)) out))"

definition export_panes :: "split_tree \<Rightarrow> exported_pane list" where
  "export_panes t = (case root t of Some r \<Rightarrow> export_node r None [] | None \<Rightarrow> [])"

definition export_panes_with_frames :: "split_tree \<Rightarrow> rect \<Rightarrow> exported_pane list" where
  "export_panes_with_frames t frame =
     (case root t of Some r \<Rightarrow> export_node_with_frame r frame None [] | None \<Rightarrow> [])"

section \<open>Hit testing\<close>

definition rect_contains :: "rect \<Rightarrow> f64 \<times> f64 \<Rightarrow> bool" where
  "rect_contains frame pt \<longleftrightarrow>
     fst pt \<ge> rect_x frame \<and> fst pt \<le> rect_x frame + rect_w frame \<and>
     snd pt \<ge> rect_y frame \<and> snd pt \<le> rect_y frame + rect_h frame"

fun leaf_at_point :: "node \<Rightarrow> rect \<Rightarrow> f64 \<times> f64 \<Rightarrow> leaf_id_t option" where
  "leaf_at_point (Leaf i p) frame pt = (if rect_contains frame pt then Some i else None)"
| "leaf_at_point (Split d r a b) frame pt =
     (let (first_frame, second_frame) = split_frame frame d r
      in or_else (leaf_at_point a first_frame pt) (leaf_at_point b second_frame pt))"

definition focus_at :: "rect \<Rightarrow> f64 \<times> f64 \<Rightarrow> split_tree \<Rightarrow> bool \<times> split_tree" where
  "focus_at frame pt t =
     (case Option.bind (root t) (\<lambda>r. leaf_at_point r frame pt) of
        Some i \<Rightarrow> (if i \<noteq> focused_id t then (True, t\<lparr>focused_id := i\<rparr>) else (False, t))
      | None \<Rightarrow> (False, t))"

fun divider_at_node :: "node \<Rightarrow> rect \<Rightarrow> f64 \<times> f64 \<Rightarrow> direction option" where
  "divider_at_node (Leaf i p) frame pt = None"
| "divider_at_node (Split d r a b) frame pt =
     (let (first_frame, second_frame) = split_frame frame d r;
          half = SPLIT_BORDER / 2 + DIVIDER_HIT_MARGIN;
          on_divider =
            (case d of
               Horizontal \<Rightarrow>
                 (let div_x = rect_x first_frame + rect_w first_frame + SPLIT_BORDER / 2
                  in \<bar>fst pt - div_x\<bar> < half \<and> snd pt \<ge> rect_y frame \<and>
                     snd pt \<le> rect_y frame + rect_h frame)
             | Vertical \<Rightarrow>
                 (let div_y = rect_y first_frame + rect_h first_frame + SPLIT_BORDER / 2
                  in \<bar>snd pt - div_y\<bar> < half \<and> fst pt \<ge> rect_x frame \<and>
                     fst pt \<le> rect_x frame + rect_w frame))
      in if on_divider then Some d
         else or_else (divider_at_node a first_frame pt) (divider_at_node b second_frame pt))"

definition divider_at :: "split_tree \<Rightarrow> rect \<Rightarrow> f64 \<times> f64 \<Rightarrow> direction option" where
  "divider_at t frame pt = Option.bind (root t) (\<lambda>r. divider_at_node r frame pt)"

section \<open>Resizing\<close>

fun resize_drag_node :: "node \<Rightarrow> rect \<Rightarrow> direction \<Rightarrow> f64 \<times> f64 \<Rightarrow> bool \<times> node" where
  "resize_drag_node (Leaf i p) frame dir pt = (False, Leaf i p)"
| "resize_drag_node (Split d r a b) frame dir pt =
     (let (first_frame, second_frame) = split_frame frame d r;
          descend =
            (case resize_drag_node a first_frame dir pt of
               (True, a') \<Rightarrow> (True, Split d r a' b)
             | (False, a') \<Rightarrow>
                 (case resize_drag_node b second_frame dir pt of
                    (ok, b') \<Rightarrow> (ok, Split d r a' b')))
      in if d = dir then
           (case dir of
              Horizontal \<Rightarrow>
                if snd pt \<ge> rect_y frame \<and> snd pt \<le> rect_y frame + rect_h frame
                then (True, Split d (f64_clamp ((fst pt - rect_x frame) / max (rect_w frame) 1) 0.1 0.9) a b)
                else descend
            | Vertical \<Rightarrow>
                if fst pt \<ge> rect_x frame \<and> fst pt \<le> rect_x frame + rect_w frame
                then (True, Split d (f64_clamp ((snd pt - rect_y frame) / max (rect_h frame) 1) 0.1 0.9) a b)
                else descend)
         else descend)"

definition resize_drag :: "rect \<Rightarrow> direction \<Rightarrow> f64 \<times> f64 \<Rightarrow> split_tree \<Rightarrow> split_tree" where
  "resize_drag frame dir pt t =
     (case root t of None \<Rightarrow> t | Some r \<Rightarrow> t\<lparr>root := Some (snd (resize_drag_node r frame dir pt))\<rparr>)"

fun resize_toward_leaf_by_cells ::
  "node \<Rightarrow> rect \<Rightarrow> leaf_id_t \<Rightarrow> direction \<Rightarrow> i32 \<Rightarrow> f64 \<Rightarrow> (bool \<times> bool) \<times> node" where
  "resize_toward_leaf_by_cells (Leaf i p) frame target axis delta_cells cell_extent =
     ((i = target, False), Leaf i p)"
| "resize_toward_leaf_by_cells (Split d r a b) frame target axis delta_cells cell_extent =
     (let (first_frame, second_frame) = split_frame frame d r;
          ((found1, done1), a') =
            resize_toward_leaf_by_cells a first_frame target axis delta_cells cell_extent
      in if found1 \<and> done1 then ((True, True), Split d r a' b)
         else
           let ((found, finished), b') =
             (if found1 then ((True, False), b)
              else resize_toward_leaf_by_cells b second_frame target axis delta_cells cell_extent)
           in if \<not> found then ((False, False), Split d r a' b')
              else if finished then ((True, True), Split d r a' b')
              else if d = axis then
                let usable_extent = (case axis of
                      Horizontal \<Rightarrow> max (rect_w frame - SPLIT_BORDER) 1
                    | Vertical \<Rightarrow> max (rect_h frame - SPLIT_BORDER) 1);
                    delta = (real_of_int (sint delta_cells) * cell_extent) / usable_extent
                in ((True, True), Split d (f64_clamp (r + delta) 0.1 0.9) a' b')
              else ((True, False), Split d r a' b'))"

definition resize_focused_by_cells ::
  "rect \<Rightarrow> direction \<Rightarrow> i32 \<Rightarrow> f64 \<Rightarrow> split_tree \<Rightarrow> split_tree" where
  "resize_focused_by_cells frame axis delta_cells cell_extent t =
     (case root t of
        None \<Rightarrow> t
      | Some r \<Rightarrow> t\<lparr>root := Some (snd (resize_toward_leaf_by_cells r frame (focused_id t) axis
                                      delta_cells cell_extent))\<rparr>)"

fun resize_toward_leaf_to_ratio ::
  "node \<Rightarrow> rect \<Rightarrow> leaf_id_t \<Rightarrow> direction \<Rightarrow> f64 \<Rightarrow> (bool \<times> bool) \<times> node" where
  "resize_toward_leaf_to_ratio (Leaf i p) frame target axis ratio = ((i = target, False), Leaf i p)"
| "resize_toward_leaf_to_ratio (Split d r a b) frame target axis ratio =
     (let (first_frame, second_frame) = split_frame frame d r;
          ((found1, done1), a') = resize_toward_leaf_to_ratio a first_frame target axis ratio
      in if found1 \<and> done1 then ((True, True), Split d r a' b)
         else
           let ((found, finished), b') =
             (if found1 then ((True, False), b)
              else resize_toward_leaf_to_ratio b second_frame target axis ratio)
           in if \<not> found then ((False, False), Split d r a' b')
              else if finished then ((True, True), Split d r a' b')
              else if d = axis then ((True, True), Split d ratio a' b')
              else ((True, False), Split d r a' b'))"

definition resize_pane_to_ratio ::
  "rect \<Rightarrow> pane_id_t \<Rightarrow> direction \<Rightarrow> f64 \<Rightarrow> split_tree \<Rightarrow> bool \<times> split_tree" where
  "resize_pane_to_ratio frame pid axis ratio t =
     (case root t of
        None \<Rightarrow> (False, t)
      | Some r \<Rightarrow>
          (case find_leaf_id_by_pane r pid of
             None \<Rightarrow> (False, t)
           | Some target_id \<Rightarrow>
               (let ((found, finished), r') =
                  resize_toward_leaf_to_ratio r frame target_id axis (f64_clamp ratio 0.1 0.9)
                in (finished, t\<lparr>root := Some r'\<rparr>))))"

section \<open>Directional focus\<close>

datatype pane_focus_direction = FocusLeft | FocusRight | FocusUp | FocusDown

definition axis_separation :: "f64 \<Rightarrow> f64 \<Rightarrow> f64 \<Rightarrow> f64 \<Rightarrow> f64" where
  "axis_separation a_min a_max b_min b_max =
     (if a_max < b_min then b_min - a_max else if b_max < a_min then a_min - b_max else 0)"

text \<open>
  The distances of one candidate, \<open>None\<close> where the loop body continues because the candidate
  is not in the requested direction.
\<close>

definition direction_distances ::
  "pane_focus_direction \<Rightarrow> rect \<Rightarrow> rect \<Rightarrow> (f64 \<times> f64) option" where
  "direction_distances dir cur frame =
     (let cur_center_x = rect_x cur + rect_w cur / 2; cur_center_y = rect_y cur + rect_h cur / 2;
          cur_min_x = rect_x cur; cur_max_x = rect_x cur + rect_w cur;
          cur_min_y = rect_y cur; cur_max_y = rect_y cur + rect_h cur;
          center_x = rect_x frame + rect_w frame / 2; center_y = rect_y frame + rect_h frame / 2;
          min_x = rect_x frame; max_x = rect_x frame + rect_w frame;
          min_y = rect_y frame; max_y = rect_y frame + rect_h frame;
          sec_y = min (axis_separation cur_min_y cur_max_y min_y max_y) \<bar>center_y - cur_center_y\<bar>;
          sec_x = min (axis_separation cur_min_x cur_max_x min_x max_x) \<bar>center_x - cur_center_x\<bar>
      in case dir of
           FocusLeft \<Rightarrow> if max_x > cur_min_x then None else Some (cur_min_x - max_x, sec_y)
         | FocusRight \<Rightarrow> if min_x < cur_max_x then None else Some (min_x - cur_max_x, sec_y)
         | FocusUp \<Rightarrow> if max_y > cur_min_y then None else Some (cur_min_y - max_y, sec_x)
         | FocusDown \<Rightarrow> if min_y < cur_max_y then None else Some (min_y - cur_max_y, sec_x))"

definition better_candidate ::
  "leaf_id_t \<times> f64 \<times> f64 \<Rightarrow> (leaf_id_t \<times> f64 \<times> f64) option \<Rightarrow> bool" where
  "better_candidate candidate best =
     (case best of
        None \<Rightarrow> True
      | Some b \<Rightarrow>
          fst (snd candidate) < fst (snd b) \<or>
          (\<bar>fst (snd candidate) - fst (snd b)\<bar> < f64_epsilon \<and>
           snd (snd candidate) < snd (snd b)))"

fun best_candidate ::
  "pane_focus_direction \<Rightarrow> leaf_id_t \<Rightarrow> rect \<Rightarrow> exported_pane list
     \<Rightarrow> (leaf_id_t \<times> f64 \<times> f64) option \<Rightarrow> (leaf_id_t \<times> f64 \<times> f64) option" where
  "best_candidate dir cur_id cur [] best = best"
| "best_candidate dir cur_id cur (pane # panes) best =
     (if ex_leaf_id pane = cur_id then best_candidate dir cur_id cur panes best
      else
        case ex_frame pane of
          None \<Rightarrow> best_candidate dir cur_id cur panes best
        | Some frame \<Rightarrow>
            (case direction_distances dir cur frame of
               None \<Rightarrow> best_candidate dir cur_id cur panes best
             | Some (primary, secondary) \<Rightarrow>
                 (let candidate = (ex_leaf_id pane, primary, secondary)
                  in best_candidate dir cur_id cur panes
                       (if better_candidate candidate best then Some candidate else best))))"

definition focus_direction ::
  "rect \<Rightarrow> pane_focus_direction \<Rightarrow> split_tree \<Rightarrow> bool \<times> split_tree" where
  "focus_direction frame dir t =
     (let panes = export_panes_with_frames t frame
      in case Option.bind (List.find (\<lambda>e. ex_leaf_id e = focused_id t) panes)
                (\<lambda>e. map_option (\<lambda>f. (ex_leaf_id e, f)) (ex_frame e)) of
           None \<Rightarrow> (False, t)
         | Some (cur_id, cur) \<Rightarrow>
             (case best_candidate dir cur_id cur panes None of
                None \<Rightarrow> (False, t)
              | Some (leaf_id, _, _) \<Rightarrow>
                  (if leaf_id \<noteq> focused_id t then (True, t\<lparr>focused_id := leaf_id\<rparr>)
                   else (False, t))))"

end
