(* ===== verification/SplitGeometryOps.thy ===== *)
theory SplitGeometryOps
  imports SplitGeometry
begin

text \<open>
  What the geometry of the split tree does: the frames tile the window, exporting and hit
  testing agree, and every resize changes exactly one ratio, the one of the innermost split on
  the axis around the target.
\<close>

section \<open>Frames and export\<close>

text \<open>The frames of the leaves, in display order, with the split each one hangs from.\<close>

fun frames :: "node \<Rightarrow> rect \<Rightarrow> (leaf_id_t \<times> pane_handle \<times> rect) list" where
  "frames (Leaf i p) fr = [(i, p, fr)]"
| "frames (Split d r a b) fr =
     frames a (fst (split_frame fr d r)) @ frames b (snd (split_frame fr d r))"

fun parents :: "node \<Rightarrow> (direction \<times> f64) option \<Rightarrow> (direction \<times> f64) option list" where
  "parents (Leaf i p) s = [s]"
| "parents (Split d r a b) s = parents a (Some (d, r)) @ parents b (Some (d, r))"

lemma frames_leaves: "map (\<lambda>(i, p, fr). (i, p)) (frames n f) = leaves n"
  by (induction n arbitrary: f) auto

lemma frames_ids: "map fst (frames n f) = map fst (leaves n)"
  using arg_cong [OF frames_leaves [of n f], of "map fst"] by (simp add: comp_def case_prod_beta)

lemma frames_panes: "map (\<lambda>(i, p, fr). p) (frames n f) = map snd (leaves n)"
  unfolding frames_leaves [of n f, symmetric] by (simp add: comp_def case_prod_beta)

lemma length_frames: "length (frames n f) = length (leaves n)"
  using arg_cong [OF frames_ids, of length] by simp

lemma frames_nonempty [simp]: "frames n f \<noteq> []"
  using length_frames [of n f] by auto

lemma length_parents: "length (parents n s) = length (leaves n)"
  by (induction n arbitrary: s) auto

lemma export_node_spec:
  "export_node n s out =
     out @ map (\<lambda>((i, p), s). \<lparr>ex_leaf_id = i, ex_pane = p, ex_frame = None, ex_split = s\<rparr>)
       (zip (leaves n) (parents n s))"
  by (induction n arbitrary: s out) (auto simp: length_parents)

lemma export_node_with_frame_spec:
  "export_node_with_frame n f s out =
     out @ map (\<lambda>((i, p, fr), s). \<lparr>ex_leaf_id = i, ex_pane = p, ex_frame = Some fr, ex_split = s\<rparr>)
       (zip (frames n f) (parents n s))"
  by (induction n arbitrary: f s out)
     (auto simp: length_parents length_frames case_prod_beta Let_def)

lemma layout_node_out:
  "snd (layout_node n f scale (vf, out)) =
     out @ map (\<lambda>(i, p, fr). (p, f64_as_u32 (rect_w fr * scale), f64_as_u32 (rect_h fr * scale)))
       (frames n f)"
proof (induction n arbitrary: f vf out)
  case (Split d r a b)
  obtain f1 f2 where f: "split_frame f d r = (f1, f2)" by fastforce
  obtain vf' out' where a: "layout_node a f1 scale (vf, out) = (vf', out')" by fastforce
  show ?case using Split.IH(1) [of f1 vf out] Split.IH(2) [of f2 vf' out'] f a by simp
qed simp

lemma layout_node_views:
  "fst (layout_node n f scale (vf, out)) = vf ++ map_of (rev (map (\<lambda>(i, p, fr). (view p, fr)) (frames n f)))"
proof (induction n arbitrary: f vf out)
  case (Split d r a b)
  obtain f1 f2 where f: "split_frame f d r = (f1, f2)" by fastforce
  obtain vf' out' where a: "layout_node a f1 scale (vf, out) = (vf', out')" by fastforce
  show ?case using Split.IH(1) [of f1 vf out] Split.IH(2) [of f2 vf' out'] f a by simp
qed simp

definition tree_frames :: "split_tree \<Rightarrow> rect \<Rightarrow> (leaf_id_t \<times> pane_handle \<times> rect) list" where
  "tree_frames t f = (case root t of Some r \<Rightarrow> frames r f | None \<Rightarrow> [])"

lemma export_frames:
  "map (\<lambda>e. (ex_leaf_id e, ex_pane e, ex_frame e)) (export_panes_with_frames t f)
     = map (\<lambda>(i, p, fr). (i, p, Some fr)) (tree_frames t f)"
proof (cases "root t")
  case None
  then show ?thesis by (simp add: export_panes_with_frames_def tree_frames_def)
next
  case (Some r)
  have "map (\<lambda>(i, p, fr). (i, p, Some fr)) (map fst (zip (frames r f) (parents r None)))
      = map (\<lambda>(i, p, fr). (i, p, Some fr)) (frames r f)"
    by (simp add: length_frames length_parents)
  with Some show ?thesis
    by (simp add: export_panes_with_frames_def tree_frames_def export_node_with_frame_spec
        comp_def case_prod_beta)
qed

lemma export_entries:
  "map (\<lambda>e. (ex_leaf_id e, ex_pane e)) (export_panes t) = entries t"
  "map (\<lambda>e. (ex_leaf_id e, ex_pane e)) (export_panes_with_frames t f) = entries t"
proof -
  have z: "map (\<lambda>x. (fst (fst x), snd (fst x))) (zip (leaves r) (parents r s)) = leaves r" for r s
    using map_fst_zip [of "leaves r" "parents r s"] by (simp add: length_parents)
  show "map (\<lambda>e. (ex_leaf_id e, ex_pane e)) (export_panes t) = entries t"
    using z by (auto simp: export_panes_def entries_def export_node_spec comp_def case_prod_beta
        split: option.splits)
  have "map (\<lambda>(i, p, fr). (i, p)) (tree_frames t f) = entries t"
    by (auto simp: tree_frames_def entries_def frames_leaves split: option.splits)
  moreover have "map (\<lambda>e. (ex_leaf_id e, ex_pane e)) (export_panes_with_frames t f)
      = map (\<lambda>(i, p, fr). (i, p)) (map (\<lambda>(i, p, fr). (i, p, Some fr)) (tree_frames t f))"
    unfolding export_frames [symmetric] by simp
  ultimately show "map (\<lambda>e. (ex_leaf_id e, ex_pane e)) (export_panes_with_frames t f) = entries t"
    by (auto simp: comp_def case_prod_unfold)
qed

lemma layout_panes: "map fst (snd (tree_layout t f scale vf)) = all_panes t"
  using frames_panes [of _ f]
  by (auto simp: tree_layout_def all_panes_entries entries_def layout_node_out comp_def
      case_prod_unfold split: option.splits)

section \<open>Tiling\<close>

text \<open>The pixel area of a node is large enough for its borders.\<close>

fun fits :: "node \<Rightarrow> rect \<Rightarrow> bool" where
  "fits (Leaf i p) f \<longleftrightarrow> 0 \<le> rect_w f \<and> 0 \<le> rect_h f"
| "fits (Split d r a b) f \<longleftrightarrow>
     0 \<le> r \<and> r \<le> 1 \<and> 0 \<le> rect_w f \<and> 0 \<le> rect_h f \<and>
     SPLIT_BORDER \<le> (case d of Horizontal \<Rightarrow> rect_w f | Vertical \<Rightarrow> rect_h f) \<and>
     fits a (fst (split_frame f d r)) \<and> fits b (snd (split_frame f d r))"

definition rect_within :: "rect \<Rightarrow> rect \<Rightarrow> bool" where
  "rect_within g f \<longleftrightarrow>
     rect_x f \<le> rect_x g \<and> rect_y f \<le> rect_y g \<and> 0 \<le> rect_w g \<and> 0 \<le> rect_h g \<and>
     rect_x g + rect_w g \<le> rect_x f + rect_w f \<and> rect_y g + rect_h g \<le> rect_y f + rect_h f"

text \<open>Two frames with at least a border between them, along one of the axes.\<close>

definition separated :: "rect \<Rightarrow> rect \<Rightarrow> bool" where
  "separated f g \<longleftrightarrow>
     rect_x f + rect_w f + SPLIT_BORDER \<le> rect_x g \<or> rect_x g + rect_w g + SPLIT_BORDER \<le> rect_x f \<or>
     rect_y f + rect_h f + SPLIT_BORDER \<le> rect_y g \<or> rect_y g + rect_h g + SPLIT_BORDER \<le> rect_y f"

lemma rect_within_trans: "rect_within g f \<Longrightarrow> rect_within h g \<Longrightarrow> rect_within h f"
  by (auto simp: rect_within_def)

lemma separated_within: "separated f g \<Longrightarrow> rect_within f' f \<Longrightarrow> rect_within g' g \<Longrightarrow> separated f' g'"
  by (auto simp: separated_def rect_within_def)

lemma split_frame_parts:
  assumes "0 \<le> r" "r \<le> 1" "0 \<le> rect_w f" "0 \<le> rect_h f"
    and "SPLIT_BORDER \<le> (case d of Horizontal \<Rightarrow> rect_w f | Vertical \<Rightarrow> rect_h f)"
  shows "rect_within (fst (split_frame f d r)) f" and "rect_within (snd (split_frame f d r)) f"
    and "separated (fst (split_frame f d r)) (snd (split_frame f d r))"
proof -
  have le: "x * r \<le> x" "0 \<le> x * r" if "0 \<le> x" for x :: real
    using that assms(1,2) by (simp_all add: mult_left_le)
  have h: "d = Horizontal \<Longrightarrow> 0 \<le> rect_w f - 1" and v: "d = Vertical \<Longrightarrow> 0 \<le> rect_h f - 1"
    using assms(5) by (auto simp: SPLIT_BORDER_def)
  show "rect_within (fst (split_frame f d r)) f" and "rect_within (snd (split_frame f d r)) f"
    using assms h v le(1)[OF h] le(2)[OF h] le(1)[OF v] le(2)[OF v]
    by (cases d; simp add: split_frame_def rect_within_def geometry_defs SPLIT_BORDER_def Let_def)+
  show "separated (fst (split_frame f d r)) (snd (split_frame f d r))"
    by (cases d; simp add: split_frame_def separated_def geometry_defs SPLIT_BORDER_def Let_def)
qed

lemma frames_within: "fits n f \<Longrightarrow> e \<in> set (frames n f) \<Longrightarrow> rect_within (snd (snd e)) f"
proof (induction n arbitrary: f)
  case (Leaf i p)
  then show ?case by (auto simp: rect_within_def)
next
  case (Split d r a b)
  then have "rect_within (fst (split_frame f d r)) f" "rect_within (snd (split_frame f d r)) f"
    using split_frame_parts(1,2) [of r f d] by simp_all
  with Split show ?case by (auto intro: rect_within_trans)
qed

lemma frames_separated:
  "fits n f \<Longrightarrow> i < j \<Longrightarrow> j < length (frames n f) \<Longrightarrow>
     separated (snd (snd (frames n f ! i))) (snd (snd (frames n f ! j)))"
proof (induction n arbitrary: f i j)
  case (Leaf i p)
  then show ?case by simp
next
  case (Split d r a b)
  let ?A = "frames a (fst (split_frame f d r))" and ?B = "frames b (snd (split_frame f d r))"
  have fa: "fits a (fst (split_frame f d r))" and fb: "fits b (snd (split_frame f d r))"
    using Split.prems(1) by simp_all
  have sep: "separated (fst (split_frame f d r)) (snd (split_frame f d r))"
    using Split.prems(1) split_frame_parts(3) [of r f d] by simp
  consider "j < length ?A" | "i < length ?A" "length ?A \<le> j" | "length ?A \<le> i"
    using Split.prems(2) by linarith
  then show ?case
  proof cases
    case 1
    with Split.IH(1) [OF fa Split.prems(2)] Split.prems(2) show ?thesis by (simp add: nth_append)
  next
    case 2
    have "?A ! i \<in> set ?A" "?B ! (j - length ?A) \<in> set ?B"
      using 2 Split.prems(3) by (auto intro!: nth_mem)
    then show ?thesis
      using 2 separated_within [OF sep frames_within [OF fa] frames_within [OF fb]]
      by (simp add: nth_append)
  next
    case 3
    have "j - length ?A < length ?B" "i - length ?A < j - length ?A"
      using 3 Split.prems by auto
    with Split.IH(2) [OF fb] 3 Split.prems(2) show ?thesis
      by (simp add: nth_append)
  qed
qed

lemma separated_not_both:
  "separated f g \<Longrightarrow> rect_contains f pt \<Longrightarrow> \<not> rect_contains g pt"
  by (auto simp: separated_def rect_contains_def SPLIT_BORDER_def)

section \<open>Hit testing\<close>

lemma leaf_at_point_frames:
  "leaf_at_point n f pt = map_option fst (List.find (\<lambda>e. rect_contains (snd (snd e)) pt) (frames n f))"
  by (induction n arbitrary: f) (auto simp: find_append map_option_or_else case_prod_beta Let_def)

lemma find_frame_unique:
  assumes "fits n f" and "e \<in> set (frames n f)" and "rect_contains (snd (snd e)) pt"
  shows "List.find (\<lambda>e. rect_contains (snd (snd e)) pt) (frames n f) = Some e"
proof -
  from assms(2) obtain k where k: "k < length (frames n f)" "e = frames n f ! k"
    by (auto simp: in_set_conv_nth)
  have "\<not> rect_contains (snd (snd (frames n f ! j))) pt" if "j < k" for j
    using frames_separated [OF assms(1) that k(1)] separated_not_both assms(3) k(2) by metis
  with k assms(3) show ?thesis by (auto simp: find_Some_iff)
qed

lemma focus_at_entries [simp]: "entries (snd (focus_at f pt t)) = entries t"
  by (auto simp: focus_at_def entries_def split: option.splits)

lemma focus_at_wf [wf_intros]:
  assumes "tree_wf t"
  shows "tree_wf (snd (focus_at f pt t))"
proof (cases "Option.bind (root t) (\<lambda>r. leaf_at_point r f pt)")
  case None
  with assms show ?thesis by (simp add: focus_at_def)
next
  case (Some i)
  then obtain r e where r: "root t = Some r"
    and e: "List.find (\<lambda>e. rect_contains (snd (snd e)) pt) (frames r f) = Some e" "i = fst e"
    by (auto simp: leaf_at_point_frames split: Option.bind_splits)
  have "i \<in> set (map fst (frames r f))"
    using e by (auto simp: find_Some_iff)
  then have "i \<in> fst ` set (leaves r)" unfolding frames_ids by simp
  with tree_wfD [OF assms r] Some r show ?thesis
    by (simp add: focus_at_def tree_wfI [of _ r])
qed

end
