(* ===== verification/SplitResize.thy ===== *)
theory SplitResize
  imports SplitGeometryOps
begin

text \<open>
  Resizing and directional focus of the split tree. A resize is a recursive descent that
  reports \<open>(found, done)\<close>; the reference is a path to one split and an update of its ratio.
\<close>

section \<open>The split a resize is for\<close>

text \<open>The path (\<open>True\<close> is the second child) to the innermost split on the axis above a leaf.\<close>

fun axis_path :: "node \<Rightarrow> leaf_id_t \<Rightarrow> direction \<Rightarrow> bool list option" where
  "axis_path (Leaf i p) target axis = None"
| "axis_path (Split d r a b) target axis =
     (if target \<in> fst ` set (leaves a) then
        or_else (map_option (Cons False) (axis_path a target axis)) (if d = axis then Some [] else None)
      else if target \<in> fst ` set (leaves b) then
        or_else (map_option (Cons True) (axis_path b target axis)) (if d = axis then Some [] else None)
      else None)"

fun update_ratio :: "bool list \<Rightarrow> rect \<Rightarrow> (rect \<Rightarrow> f64 \<Rightarrow> f64) \<Rightarrow> node \<Rightarrow> node" where
  "update_ratio p f g (Leaf i q) = Leaf i q"
| "update_ratio [] f g (Split d r a b) = Split d (g f r) a b"
| "update_ratio (s # p) f g (Split d r a b) =
     (if s then Split d r a (update_ratio p (snd (split_frame f d r)) g b)
      else Split d r (update_ratio p (fst (split_frame f d r)) g a) b)"

definition update_ratio_opt :: "bool list option \<Rightarrow> rect \<Rightarrow> (rect \<Rightarrow> f64 \<Rightarrow> f64) \<Rightarrow> node \<Rightarrow> node" where
  "update_ratio_opt p f g n = (case p of None \<Rightarrow> n | Some p \<Rightarrow> update_ratio p f g n)"

lemma axis_path_notin: "target \<notin> fst ` set (leaves n) \<Longrightarrow> axis_path n target axis = None"
  by (cases n) (auto simp: image_Un)

lemma leaves_update_ratio [leaves_simps]: "leaves (update_ratio p f g n) = leaves n"
  by (induction p f g n rule: update_ratio.induct) auto

lemma leaves_update_ratio_opt [leaves_simps]: "leaves (update_ratio_opt p f g n) = leaves n"
  by (auto simp: update_ratio_opt_def leaves_update_ratio split: option.splits)

lemma ratios_update_ratio:
  "ratios_ok n \<Longrightarrow> (\<And>f r. 0.1 \<le> g f r \<and> g f r \<le> 0.9) \<Longrightarrow> ratios_ok (update_ratio p f g n)"
  by (induction p f g n rule: update_ratio.induct) (auto simp: ratios_ok_def)

lemma ratios_update_ratio_opt:
  "ratios_ok n \<Longrightarrow> (\<And>f r. 0.1 \<le> g f r \<and> g f r \<le> 0.9) \<Longrightarrow> ratios_ok (update_ratio_opt p f g n)"
  by (auto simp: update_ratio_opt_def ratios_update_ratio split: option.splits)

definition cells_ratio :: "direction \<Rightarrow> i32 \<Rightarrow> f64 \<Rightarrow> rect \<Rightarrow> f64 \<Rightarrow> f64" where
  "cells_ratio axis delta_cells cell_extent f r =
     f64_clamp (r + real_of_int (sint delta_cells) * cell_extent /
       (case axis of Horizontal \<Rightarrow> max (rect_w f - SPLIT_BORDER) 1
        | Vertical \<Rightarrow> max (rect_h f - SPLIT_BORDER) 1)) 0.1 0.9"

lemma resize_by_cells_spec:
  "resize_toward_leaf_by_cells n f target axis dc ce =
     ((target \<in> fst ` set (leaves n), axis_path n target axis \<noteq> None),
      update_ratio_opt (axis_path n target axis) f (cells_ratio axis dc ce) n)"
proof (induction n arbitrary: f)
  case (Leaf i p)
  then show ?case by (auto simp: update_ratio_opt_def)
next
  case (Split d r a b)
  obtain f1 f2 where f: "split_frame f d r = (f1, f2)" by fastforce
  have nb: "target \<notin> fst ` set (leaves b) \<Longrightarrow> axis_path b target axis = None"
    and na: "target \<notin> fst ` set (leaves a) \<Longrightarrow> axis_path a target axis = None"
    by (simp_all add: axis_path_notin)
  have un: "target \<in> fst ` set (leaves (Split d r a b)) \<longleftrightarrow>
      target \<in> fst ` set (leaves a) \<or> target \<in> fst ` set (leaves b)"
    by (simp add: image_Un)
  show ?case
    unfolding resize_toward_leaf_by_cells.simps Split.IH un f
    using na nb f
    by (cases "target \<in> fst ` set (leaves a)"; cases "target \<in> fst ` set (leaves b)";
        cases "axis_path a target axis"; cases "axis_path b target axis")
       (simp_all add: update_ratio_opt_def cells_ratio_def [of axis dc ce f r] Let_def del: image_iff)
qed

lemma resize_to_ratio_spec:
  "resize_toward_leaf_to_ratio n f target axis ratio =
     ((target \<in> fst ` set (leaves n), axis_path n target axis \<noteq> None),
      update_ratio_opt (axis_path n target axis) f (\<lambda>_ _. ratio) n)"
proof (induction n arbitrary: f)
  case (Leaf i p)
  then show ?case by (auto simp: update_ratio_opt_def)
next
  case (Split d r a b)
  obtain f1 f2 where f: "split_frame f d r = (f1, f2)" by fastforce
  have nb: "target \<notin> fst ` set (leaves b) \<Longrightarrow> axis_path b target axis = None"
    and na: "target \<notin> fst ` set (leaves a) \<Longrightarrow> axis_path a target axis = None"
    by (simp_all add: axis_path_notin)
  have un: "target \<in> fst ` set (leaves (Split d r a b)) \<longleftrightarrow>
      target \<in> fst ` set (leaves a) \<or> target \<in> fst ` set (leaves b)"
    by (simp add: image_Un)
  show ?case
    unfolding resize_toward_leaf_to_ratio.simps Split.IH un f
    using na nb f
    by (cases "target \<in> fst ` set (leaves a)"; cases "target \<in> fst ` set (leaves b)";
        cases "axis_path a target axis"; cases "axis_path b target axis")
       (simp_all add: update_ratio_opt_def Let_def del: image_iff)
qed

section \<open>What resizing keeps\<close>

lemma clamp_ratio_ok: "0.1 \<le> f64_clamp x 0.1 0.9 \<and> f64_clamp x 0.1 0.9 \<le> 0.9"
  by (rule f64_clamp_bounds) simp

lemma cells_ratio_ok: "0.1 \<le> cells_ratio axis dc ce f r \<and> cells_ratio axis dc ce f r \<le> 0.9"
  unfolding cells_ratio_def by (rule clamp_ratio_ok)

lemma resize_drag_leaves [leaves_simps]: "leaves (snd (resize_drag_node n f dir pt)) = leaves n"
  by (induction n arbitrary: f) (auto simp: Let_def case_prod_beta split: direction.splits bool.splits)

lemma resize_drag_ratios: "ratios_ok n \<Longrightarrow> ratios_ok (snd (resize_drag_node n f dir pt))"
proof (induction n arbitrary: f dir)
  case (Leaf i p)
  then show ?case by simp
next
  case (Split d r a b)
  have ab: "ratios_ok a" "ratios_ok b" "0.1 \<le> r \<and> r \<le> 0.9"
    using Split.prems by (auto simp: ratios_ok_def)
  have s: "ratios_ok (Split d' x a' b') \<longleftrightarrow> (0.1 \<le> x \<and> x \<le> 0.9) \<and> ratios_ok a' \<and> ratios_ok b'" for d' x a' b'
    by (auto simp: ratios_ok_def)
  show ?case
    using ab by (simp add: Split.IH s clamp_ratio_ok [simplified] Let_def case_prod_beta
        split: direction.splits bool.splits)
qed

lemma resize_same_leaves_wf:
  assumes "tree_wf t" and "root t = Some r" and "leaves r' = leaves r" and "ratios_ok r'"
  shows "tree_wf (t\<lparr>root := Some r'\<rparr>)"
  using tree_wfD [OF assms(1,2)] assms(3,4) by (intro tree_wfI [of _ r']) auto

lemma resize_drag_wf [wf_intros]: "tree_wf t \<Longrightarrow> tree_wf (resize_drag f dir pt t)"
  by (cases "root t")
     (auto simp: resize_drag_def intro!: resize_same_leaves_wf resize_drag_leaves resize_drag_ratios tree_wfD)

lemma resize_focused_wf [wf_intros]:
  assumes "tree_wf t"
  shows "tree_wf (resize_focused_by_cells f axis dc ce t)"
proof (cases "root t")
  case None
  then show ?thesis using assms by (simp add: resize_focused_by_cells_def)
next
  case (Some r)
  have "ratios_ok (update_ratio_opt p f (cells_ratio axis dc ce) r)" for p
    by (rule ratios_update_ratio_opt [OF tree_wfD(3) [OF assms Some] cells_ratio_ok])
  with Some assms show ?thesis
    by (simp add: resize_focused_by_cells_def resize_by_cells_spec resize_same_leaves_wf
        leaves_update_ratio_opt)
qed

lemma resize_pane_wf [wf_intros]:
  assumes "tree_wf t"
  shows "tree_wf (snd (resize_pane_to_ratio f pid axis ratio t))"
proof (cases "root t")
  case None
  then show ?thesis using assms by (simp add: resize_pane_to_ratio_def)
next
  case (Some r)
  show ?thesis
  proof (cases "find_leaf_id_by_pane r pid")
    case None
    with Some assms show ?thesis by (simp add: resize_pane_to_ratio_def)
  next
    case (Some i)
    have "ratios_ok (update_ratio_opt p f (\<lambda>_ _. f64_clamp ratio 0.1 0.9) r)" for p
      by (rule ratios_update_ratio_opt [OF tree_wfD(3) [OF assms \<open>root t = Some r\<close>] clamp_ratio_ok])
    with Some \<open>root t = Some r\<close> assms show ?thesis
      by (simp add: resize_pane_to_ratio_def resize_to_ratio_spec resize_same_leaves_wf
          leaves_update_ratio_opt)
  qed
qed

lemma resize_entries [simp]:
  "entries (resize_drag f dir pt t) = entries t"
  "entries (resize_focused_by_cells f axis dc ce t) = entries t"
  "entries (snd (resize_pane_to_ratio f pid axis ratio t)) = entries t"
  by (auto simp: resize_drag_def resize_focused_by_cells_def resize_pane_to_ratio_def entries_def
      resize_drag_leaves resize_by_cells_spec resize_to_ratio_spec leaves_update_ratio_opt
      split: option.splits)

text \<open>Unless the clamp intervenes, the divider moves by the number of cells asked for.\<close>

lemma cells_ratio_exact:
  assumes "1 \<le> rect_w f - SPLIT_BORDER"
    and "0.1 \<le> r + real_of_int (sint dc) * ce / (rect_w f - SPLIT_BORDER)"
    and "r + real_of_int (sint dc) * ce / (rect_w f - SPLIT_BORDER) \<le> 0.9"
  shows "rect_w (fst (split_frame f Horizontal (cells_ratio Horizontal dc ce f r)))
           = rect_w (fst (split_frame f Horizontal r)) + real_of_int (sint dc) * ce"
proof -
  have "cells_ratio Horizontal dc ce f r = r + real_of_int (sint dc) * ce / (rect_w f - SPLIT_BORDER)"
    using assms by (simp add: cells_ratio_def max_def f64_clamp_id)
  then show ?thesis
    using assms(1) by (simp add: split_frame_def geometry_defs Let_def field_simps)
qed

section \<open>Directional focus\<close>

definition candidates ::
  "pane_focus_direction \<Rightarrow> leaf_id_t \<Rightarrow> rect \<Rightarrow> exported_pane list \<Rightarrow> (leaf_id_t \<times> f64 \<times> f64) list" where
  "candidates dir cur_id cur panes =
     concat (map (\<lambda>e. if ex_leaf_id e = cur_id then []
       else case Option.bind (ex_frame e) (direction_distances dir cur) of
              None \<Rightarrow> [] | Some d \<Rightarrow> [(ex_leaf_id e, d)]) panes)"

fun improve :: "(leaf_id_t \<times> f64 \<times> f64) list \<Rightarrow> (leaf_id_t \<times> f64 \<times> f64) option
                  \<Rightarrow> (leaf_id_t \<times> f64 \<times> f64) option" where
  "improve [] best = best"
| "improve (c # cs) best = improve cs (if better_candidate c best then Some c else best)"

lemma best_candidate_improve:
  "best_candidate dir cur_id cur panes best = improve (candidates dir cur_id cur panes) best"
  by (induction panes arbitrary: best)
     (auto simp: candidates_def Let_def split: option.splits)

lemma improve_Some: "improve cs (Some b) \<noteq> None"
  by (induction cs arbitrary: b) auto

lemma improve_None_iff: "improve cs None = None \<longleftrightarrow> cs = []"
  by (cases cs) (auto simp: better_candidate_def improve_Some)

lemma improve_mem: "improve cs best = Some c \<Longrightarrow> c \<in> set cs \<or> best = Some c"
  by (induction cs arbitrary: best) (auto split: if_splits)

text \<open>
  The running best may be replaced by a candidate that is up to \<open>EPSILON\<close> farther away but
  closer sideways, so it is the nearest one up to \<open>EPSILON\<close> per candidate.
\<close>

lemma improve_nearest_aux:
  "improve cs (Some b) = Some c \<Longrightarrow>
     fst (snd c) \<le> fst (snd b) + real (length cs) * f64_epsilon \<and>
     (\<forall>x \<in> set cs. fst (snd c) \<le> fst (snd x) + real (length cs) * f64_epsilon)"
proof (induction cs arbitrary: b)
  case Nil
  then show ?case by simp
next
  case (Cons y ys)
  let ?b = "if better_candidate y (Some b) then y else b"
  have run: "improve ys (Some ?b) = Some c"
    using Cons.prems by (simp split: if_splits)
  note IH = Cons.IH [OF run]
  have b: "fst (snd ?b) \<le> fst (snd b) + f64_epsilon" "fst (snd ?b) \<le> fst (snd y)"
    using f64_epsilon_pos by (auto simp: better_candidate_def)
  have eps: "real (length (y # ys)) * f64_epsilon = real (length ys) * f64_epsilon + f64_epsilon"
    by (simp add: algebra_simps)
  show ?case
    unfolding eps using IH b f64_epsilon_pos by fastforce
qed

lemma improve_nearest:
  assumes "improve cs None = Some c" and "x \<in> set cs"
  shows "fst (snd c) \<le> fst (snd x) + real (length cs) * f64_epsilon"
proof -
  obtain y ys where cs: "cs = y # ys" using assms(2) by (cases cs) auto
  have run: "improve ys (Some y) = Some c"
    using assms(1) cs by (simp add: better_candidate_def)
  have "real (length ys) * f64_epsilon \<le> real (length cs) * f64_epsilon"
    using cs f64_epsilon_pos by simp
  with improve_nearest_aux [OF run] assms(2) cs show ?thesis by fastforce
qed

lemma candidates_mem:
  "c \<in> set (candidates dir cur_id cur panes) \<longleftrightarrow>
     (\<exists>e \<in> set panes. ex_leaf_id e \<noteq> cur_id \<and> fst c = ex_leaf_id e \<and>
        Option.bind (ex_frame e) (direction_distances dir cur) = Some (snd c))"
  by (cases c) (force simp: candidates_def split: option.splits if_splits)

lemma direction_distances_nonneg: "direction_distances dir cur fr = Some (p, s) \<Longrightarrow> 0 \<le> p \<and> 0 \<le> s"
  by (cases dir) (auto simp: direction_distances_def axis_separation_def Let_def split: if_splits)

lemma focus_direction_entries [simp]: "entries (snd (focus_direction f dir t)) = entries t"
  by (auto simp: focus_direction_def entries_def Let_def split: option.splits)

lemma focus_direction_wf [wf_intros]:
  assumes "tree_wf t"
  shows "tree_wf (snd (focus_direction f dir t))"
proof -
  let ?panes = "export_panes_with_frames t f"
  have ids: "ex_leaf_id ` set ?panes = fst ` set (entries t)"
    by (simp add: export_entries(2) [of t f, symmetric] image_image)
  have "tree_wf (t\<lparr>focused_id := i\<rparr>)"
    if "best_candidate dir c cur ?panes None = Some (i, x)" for c cur i x
  proof -
    have "(i, x) \<in> set (candidates dir c cur ?panes)"
      using improve_mem [OF that [unfolded best_candidate_improve]] by simp
    then have "i \<in> ex_leaf_id ` set ?panes" by (auto simp: candidates_mem)
    then have "i \<in> fst ` set (entries t)" using ids by simp
    then show ?thesis using set_focus_wf [OF assms] by (simp add: set_focus_def)
  qed
  then show ?thesis
    using assms by (auto simp: focus_direction_def Let_def split: option.splits Option.bind_splits)
qed

end
