(* ===== verification/SplitProps.thy ===== *)
theory SplitProps
  imports SplitResize
begin

text \<open>
  The split tree as a state machine: any sequence of its operations, what every such sequence
  keeps, and the properties of the tree.
\<close>

section \<open>Operations as commands\<close>

datatype tree_cmd =
    TAddRoot pane_handle
  | TSplit direction pane_handle f64
  | TRemoveFocused
  | TRemovePane pane_id_t
  | TFocusLeaf leaf_id_t
  | TFocusPane pane_id_t
  | TFocusNext
  | TFocusPrev
  | TFocusAt rect "f64 \<times> f64"
  | TFocusDirection rect pane_focus_direction
  | TSwap bool
  | TRotate bool
  | TRebuild "pane_handle list" "(direction \<times> f64) list" pane_id_t
  | TRebalance
  | TResizeDrag rect direction "f64 \<times> f64"
  | TResizeCells rect direction i32 f64
  | TResizeRatio rect pane_id_t direction f64

fun tree_step :: "tree_cmd \<Rightarrow> split_tree \<Rightarrow> split_tree" where
  "tree_step (TAddRoot p) t = snd (add_root p t)"
| "tree_step (TSplit d p r) t = snd (split_focused_with_ratio d p r t)"
| "tree_step TRemoveFocused t = snd (remove_focused t)"
| "tree_step (TRemovePane pid) t = snd (remove_pane pid t)"
| "tree_step (TFocusLeaf i) t = set_focus i t"
| "tree_step (TFocusPane pid) t = snd (set_focus_to_pane pid t)"
| "tree_step TFocusNext t = focus_next t"
| "tree_step TFocusPrev t = focus_prev t"
| "tree_step (TFocusAt f pt) t = snd (focus_at f pt t)"
| "tree_step (TFocusDirection f d) t = snd (focus_direction f d t)"
| "tree_step (TSwap nxt) t = snd (swap_focused_with_adjacent nxt t)"
| "tree_step (TRotate fwd) t = snd (rotate_panes fwd t)"
| "tree_step (TRebuild ps splits f) t = snd (rebuild_from_panes ps splits f t)"
| "tree_step TRebalance t = snd (rebalance t)"
| "tree_step (TResizeDrag f d pt) t = resize_drag f d pt t"
| "tree_step (TResizeCells f d n e) t = resize_focused_by_cells f d n e t"
| "tree_step (TResizeRatio f pid d r) t = snd (resize_pane_to_ratio f pid d r t)"

text \<open>The leaf that gets the focus is a leaf of the tree; the pane asked for by a rebuild is one of the panes or
  at least not the null pane.\<close>

fun tree_guard :: "tree_cmd \<Rightarrow> split_tree \<Rightarrow> bool" where
  "tree_guard (TFocusLeaf i) t = (i \<in> fst ` set (entries t))"
| "tree_guard (TRebuild ps splits f) t = (f \<in> pane_id ` set ps \<or> f \<noteq> 0)"
| "tree_guard c t = True"

inductive tree_reach :: "split_tree \<Rightarrow> bool" where
  tr_new: "tree_reach tree_new"
| tr_step: "tree_reach t \<Longrightarrow> tree_guard c t \<Longrightarrow> tree_reach (tree_step c t)"

text \<open>The panes an operation brings into the tree, and those it gives back to the caller.\<close>

fun panes_in :: "tree_cmd \<Rightarrow> split_tree \<Rightarrow> pane_handle list" where
  "panes_in (TSplit d p r) t = (if root t = None then [] else [p])"
| "panes_in c t = []"

fun panes_out :: "tree_cmd \<Rightarrow> split_tree \<Rightarrow> pane_handle list" where
  "panes_out TRemoveFocused t = (case fst (remove_focused t) of None \<Rightarrow> [] | Some p \<Rightarrow> [p])"
| "panes_out (TRemovePane pid) t = (case fst (remove_pane pid t) of None \<Rightarrow> [] | Some p \<Rightarrow> [p])"
| "panes_out c t = []"

fun resets_tree :: "tree_cmd \<Rightarrow> bool" where
  "resets_tree (TAddRoot p) = True"
| "resets_tree (TRebuild ps splits f) = True"
| "resets_tree c = False"

section \<open>Every operation keeps the invariant\<close>

lemma rebalance_wf [wf_intros]: "tree_wf t \<Longrightarrow> tree_wf (snd (rebalance t))"
proof (cases "root t")
  case (Some r)
  assume wf: "tree_wf t"
  have "ratios_ok (rebalance_node r)" using ratios_rebalance [of r] by (auto simp: ratios_ok_def)
  then show ?thesis
    using Some resize_same_leaves_wf [OF wf Some, of "rebalance_node r"]
    by (simp add: rebalance_def leaves_rebalance)
qed (simp add: rebalance_def)

lemma rebuild_wf:
  assumes "f \<in> pane_id ` set ps \<or> f \<noteq> 0"
  shows "tree_wf (snd (rebuild_from_panes ps splits f t))"
proof (cases "ps = []")
  case True
  then show ?thesis by (auto simp: rebuild_from_panes_def intro: tree_wf_None)
next
  case False
  from rebuild_eq [OF False assms, of splits t] show ?thesis by blast
qed

lemma tree_step_wf: "tree_wf t \<Longrightarrow> tree_guard c t \<Longrightarrow> tree_wf (tree_step c t)"
  by (cases c) (auto intro: wf_intros rebuild_wf)

lemma tree_reach_wf_aux: "tree_reach t \<Longrightarrow> tree_wf t"
  by (induction rule: tree_reach.induct) (auto intro: tree_new_wf tree_step_wf)

lemma mset_list_swap:
  "i < length xs \<Longrightarrow> j < length xs \<Longrightarrow> mset (xs[i := xs ! j, j := xs ! i]) = mset xs"
  by (rule mset_swap)

lemma swap_focused_mset:
  assumes "tree_wf t"
  shows "mset (all_panes (snd (swap_focused_with_adjacent nxt t))) = mset (all_panes t)"
proof (cases "root t")
  case None
  then show ?thesis by (simp add: swap_focused_with_adjacent_def)
next
  case (Some r)
  from focus_ring [OF assms Some] obtain pos where
    pos: "pos < length (leaves r)" "focused_id t = map fst (leaves r) ! pos"
      "position (\<lambda>i. i = focused_id t) (collect_leaf_ids r) = Some pos" by metis
  show ?thesis
  proof (cases "2 \<le> length (leaves r)")
    case True
    define q where "q = (if nxt then (pos + 1) mod length (leaves r)
        else (pos + length (leaves r) - 1) mod length (leaves r))"
    have "q < length (map snd (leaves r))" using pos(1) by (auto simp: q_def intro: mod_less_divisor)
    moreover from swap_focused_eq [OF assms Some True pos(1,2) q_def] obtain r' where
      "swap_focused_with_adjacent nxt t = (True, t\<lparr>root := Some r'\<rparr>)"
      "map snd (leaves r') =
         (map snd (leaves r))[pos := map snd (leaves r) ! q, q := map snd (leaves r) ! pos]" by metis
    ultimately show ?thesis
      using mset_list_swap [of pos "map snd (leaves r)" q] pos(1) Some
      by (simp add: all_panes_entries entries_def)
  next
    case False
    then have "length (collect_leaf_ids r) < 2" by (simp add: collect_leaf_ids_leaves)
    with Some pos(3) show ?thesis by (simp add: swap_focused_with_adjacent_def Let_def)
  qed
qed

lemma rotate_panes_mset:
  assumes "tree_wf t"
  shows "mset (all_panes (snd (rotate_panes fwd t))) = mset (all_panes t)"
proof (cases "root t")
  case None
  then show ?thesis by (simp add: rotate_panes_def)
next
  case (Some r)
  show ?thesis
  proof (cases "2 \<le> length (leaves r)")
    case True
    from rotate_panes_eq [OF assms Some True, of fwd] obtain r' where
      "rotate_panes fwd t = (True, t\<lparr>root := Some r'\<rparr>)"
      "leaves r' = zip (map fst (leaves r)) (rotated_panes fwd (map snd (leaves r)))" by metis
    then show ?thesis using Some
      by (simp add: all_panes_entries entries_def mset_rotated)
  next
    case False
    then have "length (collect_leaf_ids r) < 2" by (simp add: collect_leaf_ids_leaves)
    with Some show ?thesis by (simp add: rotate_panes_def Let_def)
  qed
qed

lemma split_focused_mset:
  assumes "tree_wf t" and "root t \<noteq> None"
  shows "mset (all_panes (snd (split_focused_with_ratio d p r t))) = add_mset p (mset (all_panes t))"
proof -
  from assms(2) obtain rt where rt: "root t = Some rt" by auto
  note wf = tree_wfD [OF assms(1) rt]
  have ins: "mset (map snd (insert_after i e es)) = add_mset (snd e) (mset (map snd es))"
    if "distinct (map fst es)" "i \<in> fst ` set es" for i and e :: "leaf_id_t \<times> pane_handle" and es
    using that
  proof (induction es)
    case (Cons x xs)
    then show ?case
      by (cases "fst x = i") (auto simp: insert_after_notin)
  qed simp
  show ?thesis
    using split_focused_entries(1) [OF assms, of d p r] ins [OF wf(4) wf(2), of "(next_id t, p)"] rt
    by (simp add: all_panes_entries entries_root)
qed

lemma tree_step_conserves:
  assumes "tree_wf t" and "\<not> resets_tree c"
  shows "mset (all_panes (tree_step c t)) + mset (panes_out c t)
       = mset (all_panes t) + mset (panes_in c t)"
proof (cases c)
  case (TSplit d p r)
  then show ?thesis
    using split_focused_mset [OF assms(1), of d p r]
    by (cases "root t") (auto simp: split_focused_with_ratio_def all_panes_entries entries_def Let_def)
next
  case TRemoveFocused
  then show ?thesis
    using remove_focused_Some(1) [OF assms(1)] remove_focused_mset [OF assms(1)]
    by (cases "root t") (auto simp: remove_focused_def)
next
  case (TRemovePane pid)
  then show ?thesis
    using remove_pane_spec(2,3) [OF assms(1), of pid] by (cases "fst (remove_pane pid t)") auto
next
  case TRebalance
  have "entries (snd (rebalance t)) = entries t"
    by (auto simp: rebalance_def entries_def leaves_rebalance split: option.splits)
  with TRebalance show ?thesis by (simp add: all_panes_entries)
next
  case (TSwap nxt)
  then show ?thesis using swap_focused_mset [OF assms(1)] by simp
next
  case (TRotate fwd)
  then show ?thesis using rotate_panes_mset [OF assms(1)] by simp
next
  case (TFocusLeaf i)
  then show ?thesis by (simp add: all_panes_entries entries_def set_focus_def)
qed (use assms in \<open>simp_all add: all_panes_entries\<close>)

fun run_tree :: "tree_cmd list \<Rightarrow> split_tree \<Rightarrow> split_tree \<times> pane_handle list \<times> pane_handle list" where
  "run_tree [] t = (t, [], [])"
| "run_tree (c # cs) t =
     (let (t', ins, outs) = run_tree cs (tree_step c t)
      in (t', panes_in c t @ ins, panes_out c t @ outs))"

text \<open>Sequences in which every operation is called with what it expects and none replaces the whole tree.\<close>

fun run_ok :: "tree_cmd list \<Rightarrow> split_tree \<Rightarrow> bool" where
  "run_ok [] t = True"
| "run_ok (c # cs) t \<longleftrightarrow> tree_guard c t \<and> \<not> resets_tree c \<and> run_ok cs (tree_step c t)"

lemma run_tree_conserves:
  "tree_wf t \<Longrightarrow> run_ok cs t \<Longrightarrow> run_tree cs t = (t', ins, outs) \<Longrightarrow>
     tree_wf t' \<and> mset (all_panes t') + mset outs = mset (all_panes t) + mset ins"
proof (induction cs arbitrary: t t' ins outs)
  case Nil
  then show ?case by simp
next
  case (Cons c cs)
  obtain i o' where run: "run_tree cs (tree_step c t) = (t', i, o')"
    and io: "ins = panes_in c t @ i" "outs = panes_out c t @ o'"
    using Cons.prems(3) by (auto simp: Let_def split: prod.splits)
  have wf: "tree_wf (tree_step c t)" and nr: "\<not> resets_tree c"
    using Cons.prems(1,2) by (auto intro: tree_step_wf)
  have "tree_wf t' \<and> mset (all_panes t') + mset o' = mset (all_panes (tree_step c t)) + mset i"
    using Cons.IH [OF wf _ run] Cons.prems(2) by simp
  moreover note tree_step_conserves [OF Cons.prems(1) nr]
  ultimately show ?case
    using io by (simp add: ac_simps) (metis add.assoc add.commute)
qed

section \<open>Going round the leaves\<close>

lemma focus_next_pow:
  assumes "tree_wf t" and "root t = Some r" and "pos < length (leaves r)"
    and "focused_id t = map fst (leaves r) ! pos"
  shows "(focus_next ^^ k) t = t\<lparr>focused_id := map fst (leaves r) ! ((pos + k) mod length (leaves r))\<rparr>"
proof (induction k)
  case 0
  then show ?case using assms by simp
next
  case (Suc k)
  let ?n = "length (leaves r)"
  let ?t = "t\<lparr>focused_id := map fst (leaves r) ! ((pos + k) mod ?n)\<rparr>"
  have lt: "(pos + k) mod ?n < ?n" using assms(3) by (auto intro: mod_less_divisor)
  have "focus_next ?t = ?t\<lparr>focused_id := map fst (leaves r) ! (((pos + k) mod ?n + 1) mod ?n)\<rparr>"
    by (rule focus_next_at [OF focus_nth_wf [OF assms(1,2) lt] _ lt]) (use assms(2) in simp_all)
  moreover have "((pos + k) mod ?n + 1) mod ?n = (pos + Suc k) mod ?n"
    by (simp add: mod_simps)
  ultimately show ?case using Suc by simp
qed


section \<open>Removal by pane, on the leaf list\<close>

lemma remove_first_pane:
  assumes "distinct (map fst es)" and "distinct (map (pane_id \<circ> snd) es)" and "e \<in> set es"
  shows "remove_first (fst e) es = filter (\<lambda>x. pane_id (snd x) \<noteq> pane_id (snd e)) es"
proof -
  have "fst x \<noteq> fst e \<longleftrightarrow> pane_id (snd x) \<noteq> pane_id (snd e)" if "x \<in> set es" for x
    using assms that inj_onD [of fst "set es" x e] inj_onD [of "pane_id \<circ> snd" "set es" x e]
    by (auto simp: distinct_map)
  then show ?thesis
    unfolding remove_first_distinct [OF assms(1)] by (intro filter_cong) auto
qed

lemma remove_pane_leaves:
  assumes "tree_wf t" and "distinct (map pane_id (all_panes t))"
  shows "entries (snd (remove_pane pid t)) = filter (\<lambda>e. pane_id (snd e) \<noteq> pid) (entries t)"
    and "fst (remove_pane pid t) \<noteq> None \<Longrightarrow> all_panes (snd (remove_pane pid t)) \<noteq> []
           \<Longrightarrow> focused_id (snd (remove_pane pid t)) = fst (hd (entries (snd (remove_pane pid t))))"
proof -
  have "entries (snd (remove_pane pid t)) = filter (\<lambda>e. pane_id (snd e) \<noteq> pid) (entries t) \<and>
    (fst (remove_pane pid t) \<noteq> None \<longrightarrow> all_panes (snd (remove_pane pid t)) \<noteq> []
           \<longrightarrow> focused_id (snd (remove_pane pid t)) = fst (hd (entries (snd (remove_pane pid t)))))"
  proof (cases "root t")
    case None
    then show ?thesis by (simp add: remove_pane_def entries_def)
  next
    case (Some r)
    note wf = tree_wfD [OF assms(1) Some]
    have es: "entries t = leaves r" using Some by (simp add: entries_root)
    show ?thesis
    proof (cases "List.find (\<lambda>e. pane_id (snd e) = pid) (leaves r)")
      case None
      then have "\<forall>e \<in> set (leaves r). pane_id (snd e) \<noteq> pid" unfolding find_None_iff by blast
      then have "filter (\<lambda>e. pane_id (snd e) \<noteq> pid) (leaves r) = leaves r"
        by (intro filter_True)
      with None es show ?thesis using remove_pane_eq [OF Some wf(4)] by simp
    next
      case e: (Some e)
      then have mem: "e \<in> set (leaves r)" "pane_id (snd e) = pid" using find_pane_id_mem by blast+
      then obtain p rest where rm: "remove_leaf r (fst e) = Removed p rest"
        using remove_leaf_found [of "fst e" r] by blast
      have eq: "snd (remove_pane pid t) = finish_removal t rest"
        using remove_pane_eq [OF Some wf(4)] e rm by simp
      have "distinct (map (pane_id \<circ> snd) (leaves r))"
        using assms(2) es by (simp add: all_panes_entries comp_def)
      from remove_first_pane [OF wf(4) this mem(1)] mem(2) remove_leaf_Removed [OF rm]
      have lv: "leaves_opt rest = filter (\<lambda>x. pane_id (snd x) \<noteq> pid) (leaves r)" by simp
      show ?thesis
        using eq lv es
        by (cases rest) (auto simp: finish_removal_entries all_panes_entries finish_removal_focus)
    qed
  qed
  then show "entries (snd (remove_pane pid t)) = filter (\<lambda>e. pane_id (snd e) \<noteq> pid) (entries t)"
    and "fst (remove_pane pid t) \<noteq> None \<Longrightarrow> all_panes (snd (remove_pane pid t)) \<noteq> []
           \<Longrightarrow> focused_id (snd (remove_pane pid t)) = fst (hd (entries (snd (remove_pane pid t))))"
    by blast+
qed

section \<open>Directional focus, from the exported frames\<close>

definition focus_candidates ::
  "split_tree \<Rightarrow> rect \<Rightarrow> pane_focus_direction \<Rightarrow> rect \<Rightarrow> (leaf_id_t \<times> f64 \<times> f64) list" where
  "focus_candidates t f dir cur =
     candidates dir (focused_id t) cur (export_panes_with_frames t f)"

lemma focused_frame_find:
  assumes "tree_wf t" and "(focused_id t, p, cur) \<in> set (tree_frames t f)"
  shows "Option.bind (List.find (\<lambda>e. ex_leaf_id e = focused_id t) (export_panes_with_frames t f))
           (\<lambda>e. map_option (\<lambda>f. (ex_leaf_id e, f)) (ex_frame e)) = Some (focused_id t, cur)"
proof -
  let ?es = "export_panes_with_frames t f"
  from assms(2) have "(focused_id t, p, Some cur)
      \<in> set (map (\<lambda>(i, p, fr). (i, p, Some fr)) (tree_frames t f))" by force
  then obtain e where e: "e \<in> set ?es" "ex_leaf_id e = focused_id t" "ex_frame e = Some cur"
    unfolding export_frames [symmetric] by auto
  have "map ex_leaf_id ?es = map fst (entries t)"
    using arg_cong [OF export_entries(2) [of t f], of "map fst"] by (simp add: comp_def)
  then have dist: "distinct (map ex_leaf_id ?es)"
    using assms(1) by (auto simp: tree_wf_def ids_ok_def entries_def split: option.splits)
  from e(1) obtain k where k: "k < length ?es" "e = ?es ! k" by (auto simp: in_set_conv_nth)
  have "ex_leaf_id (?es ! j) \<noteq> ex_leaf_id e" if "j < k" for j
    using dist k that nth_eq_iff_index_eq [of "map ex_leaf_id ?es" j k] by simp
  then have "List.find (\<lambda>e. ex_leaf_id e = focused_id t) ?es = Some e"
    using k e(2) by (auto simp: find_Some_iff)
  with e show ?thesis by simp
qed

lemma focus_direction_improve:
  assumes "tree_wf t" and "(focused_id t, p, cur) \<in> set (tree_frames t f)"
  shows "focus_direction f dir t =
    (case improve (focus_candidates t f dir cur) None of
       None \<Rightarrow> (False, t) | Some c \<Rightarrow> (True, t\<lparr>focused_id := fst c\<rparr>))"
proof -
  have neq: "fst c \<noteq> focused_id t" if "improve (focus_candidates t f dir cur) None = Some c" for c
    using improve_mem [OF that] by (auto simp: focus_candidates_def candidates_mem)
  then show ?thesis
    by (auto simp: focus_direction_def Let_def focused_frame_find [OF assms] best_candidate_improve
        focus_candidates_def split: option.splits)
qed

section \<open>A concrete tree\<close>

definition mk_pane :: "u64 \<Rightarrow> pane_handle" where
  "mk_pane i = \<lparr>pane_id = i, surface = i, view = i\<rparr>"

definition two_panes :: split_tree where
  "two_panes = snd (split_focused Horizontal (mk_pane 2) (snd (add_root (mk_pane 1) tree_new)))"

lemma two_panes_wf: "tree_wf two_panes"
  unfolding two_panes_def split_focused_def by (intro wf_intros)

lemma two_panes_simps:
  "root two_panes = Some (Split Horizontal (1 / 2) (Leaf 0 (mk_pane 1)) (Leaf 1 (mk_pane 2)))"
  "focused_id two_panes = 1" "next_id two_panes = 2"
  "entries two_panes = [(0, mk_pane 1), (1, mk_pane 2)]"
  "all_panes two_panes = [mk_pane 1, mk_pane 2]"
  by (simp_all add: two_panes_def split_focused_def split_focused_with_ratio_def add_root_def tree_new_def
      entries_def all_panes_def f64_clamp_def Let_def)

section \<open>Properties\<close>

text \<open>C3: the tree invariant holds in every state that the operations of the split tree reach when two of them
  are called with what they expect: the leaf that \<open>set_focus\<close> is given is a leaf of the tree, and a rebuild
  is not asked to focus the null pane. Then leaf identifiers are distinct and were handed out by the allocator,
  the focus is on a leaf of the tree, and every ratio lies between 0.1 and 0.9. The condition on
  \<open>set_focus\<close> is needed: the control socket passes it any index.\<close>

theorem tree_reach_wf:
  assumes "tree_reach t"
  shows "tree_wf t"
  using assms by (rule tree_reach_wf_aux)

theorem tree_reach_wf_witness:
  "tree_wf (tree_step (TSplit Horizontal pane_null (1 / 3)) (tree_step (TAddRoot pane_null) tree_new))"
  by (rule tree_reach_wf) (intro tr_step tr_new; simp)

text \<open>C4: no pane is lost or duplicated. From a tree that satisfies the invariant, along any sequence of
  operations none of which replaces the whole tree and whose \<open>set_focus\<close> calls name leaves of the tree at
  that point, the panes in the tree at the end, with those the removals returned to the caller, are the panes at
  the start with those the splits brought in, counted with multiplicity. Without the condition on \<open>set_focus\<close>
  a split loses its pane.\<close>

theorem panes_conserved:
  assumes "tree_wf t" and "run_ok cs t" and "run_tree cs t = (t', ins, outs)"
  shows "mset (all_panes t') + mset outs = mset (all_panes t) + mset ins"
  using run_tree_conserves [OF assms] by simp

theorem panes_conserved_witness:
  "\<exists>t' ins outs. run_tree [TFocusLeaf 0, TSplit Vertical pane_null 0, TFocusNext, TRotate True, TRemoveFocused]
       (snd (add_root \<lparr>pane_id = 7, surface = 1, view = 1\<rparr> tree_new)) = (t', ins, outs)
     \<and> mset (all_panes t') + mset outs
       = mset (all_panes (snd (add_root \<lparr>pane_id = 7, surface = 1, view = 1\<rparr> tree_new))) + mset ins"
proof -
  let ?cs = "[TFocusLeaf 0, TSplit Vertical pane_null 0, TFocusNext, TRotate True, TRemoveFocused]"
  let ?t = "snd (add_root \<lparr>pane_id = 7, surface = 1, view = 1\<rparr> tree_new)"
  obtain t' i u where run: "run_tree ?cs ?t = (t', i, u)" by (rule prod_cases3)
  have "run_ok ?cs ?t" by (simp add: add_root_def tree_new_def entries_def Let_def)
  from panes_conserved [OF add_root_wf this run] run show ?thesis by blast
qed

text \<open>\<open>focus_next\<close> walks the leaves in display order and wraps around: after \<open>k\<close> steps the focus
  is \<open>k\<close> places further on the ring, so it is back after one round, and \<open>focus_prev\<close> undoes it.\<close>

theorem focus_next_ring:
  assumes "tree_wf t" and "root t = Some r" and "pos < count_leaves r"
    and "collect_leaf_ids r ! pos = focused_id t"
  shows "focused_id ((focus_next ^^ k) t) = collect_leaf_ids r ! ((pos + k) mod count_leaves r)
     \<and> (focus_next ^^ count_leaves r) t = t
     \<and> focus_prev (focus_next t) = t \<and> focus_next (focus_prev t) = t"
  using focus_next_pow [OF assms(1,2), of pos] assms focus_prev_next_aux [OF assms(1)]
  by (simp add: collect_leaf_ids_leaves count_leaves_leaves)

theorem focus_next_ring_witness:
  "focus_next (focus_next two_panes) = two_panes \<and> focus_prev (focus_next two_panes) = two_panes"
  using focus_next_ring [OF two_panes_wf two_panes_simps(1), of 1 3] two_panes_simps
  by (simp add: numeral_2_eq_2 eval_nat_numeral mod_Suc)

text \<open>splitting the focused pane gives the new pane a fresh leaf right after the focused one,
  leaves every other leaf where it was, and focuses the new pane.\<close>

theorem split_focused_inserts:
  assumes "tree_wf t" and "entries t = xs @ (focused_id t, q) # ys"
  shows "entries (snd (split_focused_with_ratio d p r t))
           = xs @ (focused_id t, q) # (next_id t, p) # ys
     \<and> fst (split_focused_with_ratio d p r t) = Some (next_id t)
     \<and> next_id t \<notin> fst ` set (entries t)
     \<and> focused_pane (snd (split_focused_with_ratio d p r t)) = p"
proof -
  have rt: "root t \<noteq> None" using assms(2) by (auto simp: entries_def split: option.splits)
  then obtain rr where rr: "root t = Some rr" by auto
  note wf = tree_wfD [OF assms(1) rr]
  have "focused_id t \<notin> fst ` set xs" "focused_id t \<notin> fst ` set ys"
    using wf(4) assms(2) by (auto simp: entries_root [OF rr, symmetric])
  then have "insert_after (focused_id t) (next_id t, p) (entries t)
      = xs @ (focused_id t, q) # (next_id t, p) # ys"
    using assms(2) by (simp add: insert_after_notin)
  moreover have "next_id t \<notin> fst ` set (entries t)"
    using wf(1) rr by (auto simp: ids_ok_def entries_root)
  ultimately show ?thesis
    using split_focused_entries [OF assms(1) rt] by simp
qed

theorem split_focused_inserts_witness:
  "entries (snd (split_focused_with_ratio Vertical pane_null 0.3 two_panes))
     = [(0, mk_pane 1), (1, mk_pane 2), (2, pane_null)]"
  using split_focused_inserts [OF two_panes_wf, of "[(0, mk_pane 1)]" "mk_pane 2" "[]"] two_panes_simps
  by simp

text \<open>removing a pane by its identifier returns the first pane that has it, keeps the other
  leaves in their order with their identifiers, and moves the focus to the first leaf that
  remains, whichever leaf had it; an unknown pane leaves the tree as it is.\<close>

theorem remove_pane_result:
  assumes "tree_wf t" and "distinct (map pane_id (all_panes t))"
  shows "entries (snd (remove_pane pid t)) = filter (\<lambda>e. pane_id (snd e) \<noteq> pid) (entries t)
     \<and> fst (remove_pane pid t) = List.find (\<lambda>p. pane_id p = pid) (all_panes t)
     \<and> (fst (remove_pane pid t) \<noteq> None \<longrightarrow> all_panes (snd (remove_pane pid t)) \<noteq> [] \<longrightarrow>
          focused_id (snd (remove_pane pid t)) = fst (hd (entries (snd (remove_pane pid t)))))
     \<and> (fst (remove_pane pid t) = None \<longrightarrow> snd (remove_pane pid t) = t)"
  using remove_pane_leaves [OF assms] remove_pane_spec(1,3) [OF assms(1)] by blast

theorem remove_pane_result_witness:
  "fst (remove_pane 2 two_panes) = Some (mk_pane 2)
     \<and> entries (snd (remove_pane 2 two_panes)) = [(0, mk_pane 1)]"
  using remove_pane_result [OF two_panes_wf, of 2] two_panes_simps by (simp add: mk_pane_def)

text \<open>C5: the frames of the leaves tile the window: in a window large enough for its borders every
  frame lies inside the window and any two are at least one border apart, so a click inside a
  frame focuses the leaf of that frame and no other.\<close>

theorem frames_tile:
  assumes "root t = Some r" and "fits r f"
  shows "(\<forall>e \<in> set (tree_frames t f). rect_within (snd (snd e)) f)
     \<and> (\<forall>i j. i < j \<longrightarrow> j < length (tree_frames t f) \<longrightarrow>
          separated (snd (snd (tree_frames t f ! i))) (snd (snd (tree_frames t f ! j))))
     \<and> (\<forall>e \<in> set (tree_frames t f). rect_contains (snd (snd e)) pt \<longrightarrow>
          focus_at f pt t = (fst e \<noteq> focused_id t, t\<lparr>focused_id := fst e\<rparr>))"
proof -
  have tf: "tree_frames t f = frames r f" using assms(1) by (simp add: tree_frames_def)
  have "focus_at f pt t = (fst e \<noteq> focused_id t, t\<lparr>focused_id := fst e\<rparr>)"
    if "e \<in> set (frames r f)" "rect_contains (snd (snd e)) pt" for e
    using find_frame_unique [OF assms(2) that] assms(1)
    by (simp add: focus_at_def leaf_at_point_frames)
  with tf frames_within [OF assms(2)] frames_separated [OF assms(2)] show ?thesis by simp
qed

theorem frames_tile_witness:
  "focus_at (mk_rect (mk_point 0 0) (mk_size 101 50)) (10, 20) two_panes
     = (True, two_panes\<lparr>focused_id := 0\<rparr>)"
  using frames_tile [OF two_panes_simps(1), of "mk_rect (mk_point 0 0) (mk_size 101 50)" "(10, 20)"]
    two_panes_simps
  by (simp add: geometry_defs split_frame_def SPLIT_BORDER_def tree_frames_def rect_contains_def)

text \<open>resizing by cells changes exactly one ratio: that of the innermost split on the axis
  around the focused leaf, by the cells times their size over the usable extent of that split's
  own frame, clamped to the range 0.1 to 0.9. Without such a split nothing changes.\<close>

theorem resize_cells_innermost:
  "resize_focused_by_cells f axis delta_cells cell_extent t =
     t\<lparr>root := map_option (\<lambda>r. update_ratio_opt (axis_path r (focused_id t) axis) f
                  (cells_ratio axis delta_cells cell_extent) r) (root t)\<rparr>"
  by (cases "root t") (simp_all add: resize_focused_by_cells_def resize_by_cells_spec)

text \<open>directional focus moves exactly when some other leaf lies in the direction, and then to
  one of those leaves that is nearest, up to the comparison tolerance per candidate.\<close>

theorem focus_direction_nearest:
  assumes "tree_wf t" and "(focused_id t, p, cur) \<in> set (tree_frames t f)"
  shows "(fst (focus_direction f dir t) \<longleftrightarrow> focus_candidates t f dir cur \<noteq> [])
     \<and> (fst (focus_direction f dir t) \<longrightarrow>
          (\<exists>c \<in> set (focus_candidates t f dir cur).
             snd (focus_direction f dir t) = t\<lparr>focused_id := fst c\<rparr> \<and> 0 \<le> fst (snd c) \<and>
             (\<forall>x \<in> set (focus_candidates t f dir cur).
                fst (snd c) \<le> fst (snd x) + real (length (focus_candidates t f dir cur)) * f64_epsilon)))"
proof (cases "improve (focus_candidates t f dir cur) None")
  case None
  then show ?thesis
    using improve_None_iff [of "focus_candidates t f dir cur"]
    by (simp add: focus_direction_improve [OF assms])
next
  case (Some c)
  have mem: "c \<in> set (focus_candidates t f dir cur)" using improve_mem [OF Some] by simp
  then have "0 \<le> fst (snd c)"
    by (cases "snd c") (auto simp: focus_candidates_def candidates_mem
        dest!: direction_distances_nonneg split: Option.bind_splits)
  moreover have "focus_candidates t f dir cur \<noteq> []" using mem by auto
  ultimately show ?thesis
    using Some mem improve_nearest [OF Some]
    by (auto simp: focus_direction_improve [OF assms])
qed

theorem focus_direction_nearest_witness:
  "\<exists>cur. fst (focus_direction (mk_rect (mk_point 0 0) (mk_size 101 50)) FocusLeft two_panes)
     = (focus_candidates two_panes (mk_rect (mk_point 0 0) (mk_size 101 50)) FocusLeft cur \<noteq> [])"
proof -
  let ?f = "mk_rect (mk_point 0 0) (mk_size 101 50)"
  have "(focused_id two_panes, mk_pane 2, snd (split_frame ?f Horizontal (1 / 2)))
      \<in> set (tree_frames two_panes ?f)"
    using two_panes_simps by (simp add: tree_frames_def)
  from focus_direction_nearest [OF two_panes_wf this] show ?thesis by blast
qed

text \<open>Rotating the panes backward after forward restores every leaf's pane; one rotation moves
  the last pane to the front and keeps the leaves, their ratios and the focus.\<close>

theorem rotate_back_and_forth:
  assumes "tree_wf t" and "2 \<le> tree_len t"
  shows "fst (rotate_panes True t)
     \<and> all_panes (snd (rotate_panes True t)) = last (all_panes t) # butlast (all_panes t)
     \<and> entries (snd (rotate_panes False (snd (rotate_panes True t)))) = entries t
     \<and> focused_id (snd (rotate_panes True t)) = focused_id t"
proof -
  obtain r where r: "root t = Some r" using assms(2) by (cases "root t") (auto simp: tree_len_def)
  have two: "2 \<le> length (leaves r)" using assms(2) r by (simp add: tree_len_def count_leaves_leaves)
  from rotate_panes_eq [OF assms(1) r two, of True] obtain r1 where
    r1: "rotate_panes True t = (True, t\<lparr>root := Some r1\<rparr>)"
      "leaves r1 = zip (map fst (leaves r)) (rotated_panes True (map snd (leaves r)))" by metis
  have wf1: "tree_wf (t\<lparr>root := Some r1\<rparr>)" using rotate_panes_wf [OF assms(1), of True] r1 by simp
  have ids: "map fst (leaves r1) = map fst (leaves r)"
    and ps: "map snd (leaves r1) = rotated_panes True (map snd (leaves r))"
    using r1(2) by simp_all
  have "2 \<le> length (leaves r1)" using r1(2) two by simp
  from rotate_panes_eq [OF wf1 _ this, of False] obtain r2 where
    r2: "rotate_panes False (t\<lparr>root := Some r1\<rparr>) = (True, t\<lparr>root := Some r1, root := Some r2\<rparr>)"
      "leaves r2 = zip (map fst (leaves r1)) (rotated_panes False (map snd (leaves r1)))"
    by auto
  have "leaves r2 = leaves r"
    using r2(2) ids ps rotated_inverse(1) [of "map snd (leaves r)"] by (simp add: zip_map_fst_snd)
  with r1 r2 r ps show ?thesis
    by (simp add: all_panes_entries entries_def rotated_forward)
qed

theorem rotate_back_and_forth_witness:
  "all_panes (snd (rotate_panes True two_panes)) = [mk_pane 2, mk_pane 1]"
  using rotate_back_and_forth [OF two_panes_wf] two_panes_simps
  by (simp add: all_panes_entries tree_len_def)

text \<open>C6: a focus set to an identifier that is no leaf (as the remote control operation that
  focuses a surface by index does) makes the next split report a fresh leaf while the new pane is
  dropped: no leaf shows it, and the focused pane reads as the null pane.\<close>

theorem dangling_focus_loses_pane:
  assumes "tree_wf t" and "root t \<noteq> None" and "i \<notin> fst ` set (entries t)"
  shows "fst (split_focused_with_ratio d p r (set_focus i t)) = Some (next_id t)
     \<and> entries (snd (split_focused_with_ratio d p r (set_focus i t))) = entries t
     \<and> focused_pane (snd (split_focused_with_ratio d p r (set_focus i t))) = pane_null"
proof -
  obtain rr where rr: "root t = Some rr" using assms(2) by auto
  have "next_id t \<notin> fst ` set (leaves rr)"
    using tree_wfD(1) [OF assms(1) rr] by (auto simp: ids_ok_def)
  then have "map_of (leaves rr) (next_id t) = None" by (simp add: map_of_eq_None_iff)
  with assms(3) rr show ?thesis
    by (simp add: split_focused_with_ratio_def set_focus_def Let_def focused_pane_entries entries_def
        leaves_split_node insert_after_notin)
qed

theorem dangling_focus_loses_pane_witness:
  "fst (split_focused_with_ratio Vertical (mk_pane 9) 0.5 (set_focus 5 two_panes)) = Some 2
     \<and> all_panes (snd (split_focused_with_ratio Vertical (mk_pane 9) 0.5 (set_focus 5 two_panes)))
       = [mk_pane 1, mk_pane 2]"
  using dangling_focus_loses_pane [OF two_panes_wf, of 5 Vertical "mk_pane 9" "0.5"] two_panes_simps
  by (simp add: all_panes_entries)

text \<open>a drag that starts on the divider of a nested split moves the divider of the outermost
  split on the same axis instead: the hit test finds the inner divider, and the drag changes only
  the outer ratio.\<close>

theorem drag_moves_outer_divider:
  assumes "divider_at_node (Split Horizontal q b c) (snd (split_frame f Horizontal r)) (x, y)
             = Some Horizontal"
    and "rect_y f \<le> y" and "y \<le> rect_y f + rect_h f"
  shows "divider_at_node (Split Horizontal r (Leaf i p) (Split Horizontal q b c)) f (x, y) = Some Horizontal
     \<and> snd (resize_drag_node (Split Horizontal r (Leaf i p) (Split Horizontal q b c)) f Horizontal (x, y))
         = Split Horizontal (f64_clamp ((x - rect_x f) / max (rect_w f) 1) 0.1 0.9) (Leaf i p)
             (Split Horizontal q b c)"
  using assms
  by (simp add: divider_at_node.simps(2) [of Horizontal r] case_prod_beta Let_def
      del: divider_at_node.simps(2))

theorem drag_moves_outer_divider_witness:
  "divider_at_node (Split Horizontal 0.5 (Leaf 0 (mk_pane 1))
         (Split Horizontal 0.5 (Leaf 1 (mk_pane 2)) (Leaf 2 (mk_pane 3))))
         (mk_rect (mk_point 0 0) (mk_size 1000 100)) (750, 50) = Some Horizontal
     \<and> snd (resize_drag_node (Split Horizontal 0.5 (Leaf 0 (mk_pane 1))
         (Split Horizontal 0.5 (Leaf 1 (mk_pane 2)) (Leaf 2 (mk_pane 3))))
         (mk_rect (mk_point 0 0) (mk_size 1000 100)) Horizontal (750, 50)) = Split Horizontal 0.75
           (Leaf 0 (mk_pane 1)) (Split Horizontal 0.5 (Leaf 1 (mk_pane 2)) (Leaf 2 (mk_pane 3)))"
proof -
  have "divider_at_node (Split Horizontal 0.5 (Leaf 1 (mk_pane 2)) (Leaf 2 (mk_pane 3)))
      (snd (split_frame (mk_rect (mk_point 0 0) (mk_size 1000 100)) Horizontal 0.5)) (750, 50)
      = Some Horizontal"
    by (simp add: geometry_defs split_frame_def SPLIT_BORDER_def DIVIDER_HIT_MARGIN_def Let_def)
  from drag_moves_outer_divider [OF this, of 0 "mk_pane 1"] show ?thesis
    by (simp add: geometry_defs f64_clamp_def)
qed

end
