(* ===== verification/Layout.thy ===== *)
theory Layout
  imports SplitTree
begin

text \<open>
  Named layouts (\<open>src/layout.rs\<close>): the sequence of splits that arranges a number of panes.
\<close>

datatype tab_layout =
    Manual
  | EvenHorizontal
  | EvenVertical
  | MainHorizontal
  | MainVertical
  | Tiled

datatype split_dir = Right | Down

record split_spec =
  sp_direction :: split_dir
  sp_ratio :: f64

abbreviation spec :: "split_dir \<Rightarrow> f64 \<Rightarrow> split_spec" where
  "spec d r \<equiv> \<lparr>sp_direction = d, sp_ratio = r\<rparr>"

definition layout_splits :: "tab_layout \<Rightarrow> nat \<Rightarrow> split_spec list" where
  "layout_splits layout n =
     (if n \<le> 1 then []
      else case layout of
        Manual \<Rightarrow> map (\<lambda>_. spec Down 0.5) [1..<n]
      | EvenHorizontal \<Rightarrow>
          map (\<lambda>i. let remaining = n - i + 1 in spec Right (1 / real remaining)) [1..<n]
      | EvenVertical \<Rightarrow>
          map (\<lambda>i. let remaining = n - i + 1 in spec Down (1 / real remaining)) [1..<n]
      | MainVertical \<Rightarrow>
          spec Right 0.6 #
          map (\<lambda>i. let remaining = n - i + 1 in spec Down (1 / real remaining)) [2..<n]
      | MainHorizontal \<Rightarrow>
          spec Down 0.6 #
          map (\<lambda>i. let remaining = n - i + 1 in spec Right (1 / real remaining)) [2..<n]
      | Tiled \<Rightarrow>
          map (\<lambda>i. let remaining = n - i + 1;
                       dir = (if i mod 2 = 1 then Right else Down)
                   in spec dir (1 / real remaining)) [1..<n])"

text \<open>The direction of the split tree that a layout direction asks for.\<close>

definition split_direction :: "split_dir \<Rightarrow> direction" where
  "split_direction d = (case d of Right \<Rightarrow> Horizontal | Down \<Rightarrow> Vertical)"

lemma layout_splits_length: "length (layout_splits l n) = n - 1"
  by (cases l) (auto simp: layout_splits_def)

lemma layout_splits_ratio:
  assumes "s \<in> set (layout_splits l n)"
  shows "0 < sp_ratio s \<and> sp_ratio s < 1"
proof -
  have q: "0 < 1 / (real (n - i) + 1) \<and> 1 / (real (n - i) + 1) < 1" if "i < n" for i
    using that by (simp add: field_simps)
  show ?thesis
    using assms by (cases l) (auto simp: layout_splits_def q Let_def split: if_splits)
qed

end
