(* ===== verification/Tabs.thy ===== *)
theory Tabs
  imports SplitProps Layout
begin

text \<open>
  The tab manager (\<open>src/tabs.rs\<close>): a list of tabs, each with its own split tree, and the
  visibility of the native views, which the manager switches when the active tab changes.
  Methods that reach \<open>set_hidden\<close> take and return the state of the views. Indexing with
  \<open>tabs[i]\<close> panics out of range: those methods return an option, \<open>None\<close> being the panic.
\<close>

section \<open>Data\<close>

record running_cmd =
  command :: "rust_string option"

record tab =
  tab_id :: u32
  tree :: split_tree
  title :: rust_string
  layout :: tab_layout
  running_command :: "running_cmd option"

record tab_manager =
  tabs :: "tab list"
  active :: nat
  prev_active :: nat
  next_tab_id :: u32

record tab_identity_info =
  ti_id :: u32
  ti_index :: nat
  ti_title :: rust_string

record tab_info =
  inf_index :: nat
  inf_active :: bool
  inf_title :: rust_string
  inf_surfaces :: nat

definition tabs_new :: tab_manager where
  "tabs_new = \<lparr>tabs = [], active = 0, prev_active = 0, next_tab_id = 1\<rparr>"

text \<open>\<open>slice::get\<close>.\<close>

definition get_at :: "'a list \<Rightarrow> nat \<Rightarrow> 'a option" where
  "get_at xs i = (if i < length xs then Some (xs ! i) else None)"

section \<open>Operations\<close>

definition allocate_tab_id :: "tab_manager \<Rightarrow> u32 \<times> tab_manager" where
  "allocate_tab_id m = (next_tab_id m, m\<lparr>next_tab_id := next_tab_id m + 1\<rparr>)"

definition fresh_tab :: "u32 \<Rightarrow> pane_handle \<Rightarrow> tab" where
  "fresh_tab i pane =
     \<lparr>tab_id = i, tree = snd (add_root pane tree_new), title = [], layout = Manual,
      running_command = None\<rparr>"

definition add_initial_tab :: "pane_handle \<Rightarrow> tab_manager \<Rightarrow> tab_manager" where
  "add_initial_tab pane m =
     (let (i, m1) = allocate_tab_id m in m1\<lparr>tabs := tabs m1 @ [fresh_tab i pane]\<rparr>)"

definition new_tab :: "pane_handle \<Rightarrow> tab_manager \<times> views \<Rightarrow> nat \<times> tab_manager \<times> views" where
  "new_tab pane mv =
     (let (m, vs) = mv;
          vs1 = (case get_at (tabs m) (active m) of
                   Some t \<Rightarrow> set_hidden (tree t) True vs | None \<Rightarrow> vs);
          idx = length (tabs m);
          (i, m1) = allocate_tab_id m
      in (idx, m1\<lparr>tabs := tabs m1 @ [fresh_tab i pane], active := idx\<rparr>, vs1))"

definition goto_tab :: "nat \<Rightarrow> tab_manager \<times> views \<Rightarrow> (bool \<times> tab_manager \<times> views) option" where
  "goto_tab index mv =
     (let (m, vs) = mv
      in if index \<ge> length (tabs m) \<or> index = active m then Some (False, m, vs)
         else if active m \<ge> length (tabs m) then None
         else
           let vs1 = set_hidden (tree (tabs m ! active m)) True vs;
               m1 = m\<lparr>prev_active := active m, active := index\<rparr>;
               vs2 = set_hidden (tree (tabs m1 ! active m1)) False vs1
           in Some (True, m1, vs2))"

definition next_tab :: "tab_manager \<times> views \<Rightarrow> (bool \<times> tab_manager \<times> views) option" where
  "next_tab mv =
     (let m = fst mv
      in if length (tabs m) \<le> 1 then Some (False, mv)
         else goto_tab ((active m + 1) mod length (tabs m)) mv)"

definition prev_tab :: "tab_manager \<times> views \<Rightarrow> (bool \<times> tab_manager \<times> views) option" where
  "prev_tab mv =
     (let m = fst mv
      in if length (tabs m) \<le> 1 then Some (False, mv)
         else goto_tab (if active m = 0 then length (tabs m) - 1 else active m - 1) mv)"

definition remove_at :: "nat \<Rightarrow> 'a list \<Rightarrow> 'a list" where
  "remove_at i xs = take i xs @ drop (Suc i) xs"

definition remove_tab ::
  "nat \<Rightarrow> tab_manager \<times> views \<Rightarrow> pane_handle list \<times> tab_manager \<times> views" where
  "remove_tab index mv =
     (let (m, vs) = mv
      in if index \<ge> length (tabs m) then ([], m, vs)
         else
           let t = tabs m ! index;
               m1 = m\<lparr>tabs := remove_at index (tabs m)\<rparr>;
               vs1 = set_hidden (tree t) True vs;
               panes = all_panes (tree t);
               m2 = (if tabs m1 = [] then m1\<lparr>active := 0\<rparr>
                     else if active m1 \<ge> length (tabs m1) then m1\<lparr>active := length (tabs m1) - 1\<rparr>
                     else if active m1 > index then m1\<lparr>active := active m1 - 1\<rparr>
                     else m1);
               vs2 = (case get_at (tabs m2) (active m2) of
                        Some t \<Rightarrow> set_hidden (tree t) False vs1 | None \<Rightarrow> vs1)
           in (panes, m2, vs2))"

definition active_tree :: "tab_manager \<Rightarrow> split_tree option" where
  "active_tree m = map_option tree (get_at (tabs m) (active m))"

definition update_active_tab :: "(tab \<Rightarrow> 'a \<times> tab) \<Rightarrow> 'a \<Rightarrow> tab_manager \<Rightarrow> 'a \<times> tab_manager" where
  "update_active_tab f none m =
     (case get_at (tabs m) (active m) of
        None \<Rightarrow> (none, m)
      | Some t \<Rightarrow> (let (r, t') = f t in (r, m\<lparr>tabs := (tabs m)[active m := t']\<rparr>)))"

definition tabs_focused_pane :: "tab_manager \<Rightarrow> pane_handle" where
  "tabs_focused_pane m = (case active_tree m of Some t \<Rightarrow> focused_pane t | None \<Rightarrow> pane_null)"

definition focus_active_pane_by_id :: "pane_id_t \<Rightarrow> tab_manager \<Rightarrow> bool \<times> tab_manager" where
  "focus_active_pane_by_id pid =
     update_active_tab (\<lambda>t. let (ok, tr) = set_focus_to_pane pid (tree t) in (ok, t\<lparr>tree := tr\<rparr>)) False"

definition previous_active :: "tab_manager \<Rightarrow> nat" where
  "previous_active m = min (prev_active m) (length (tabs m) - 1)"

definition active_tab_id :: "tab_manager \<Rightarrow> u32 option" where
  "active_tab_id m = map_option tab_id (get_at (tabs m) (active m))"

definition set_active_title :: "rust_string \<Rightarrow> tab_manager \<Rightarrow> tab_manager" where
  "set_active_title s m = snd (update_active_tab (\<lambda>t. ((), t\<lparr>title := s\<rparr>)) () m)"

definition active_layout :: "tab_manager \<Rightarrow> tab_layout option" where
  "active_layout m = map_option layout (get_at (tabs m) (active m))"

definition apply_layout_to_active :: "tab_layout \<Rightarrow> tab_manager \<Rightarrow> bool \<times> tab_manager" where
  "apply_layout_to_active l =
     update_active_tab (\<lambda>t.
       let panes = all_panes (tree t)
       in if length panes \<le> 1 then (False, t\<lparr>layout := l\<rparr>)
          else
            let focused_pane_id = pane_id (focused_pane (tree t));
                specs = map (\<lambda>s. (split_direction (sp_direction s), sp_ratio s))
                          (layout_splits l (length panes));
                (changed, tr) = rebuild_from_panes panes specs focused_pane_id (tree t)
            in (changed, t\<lparr>tree := tr, layout := l\<rparr>)) False"

definition cycle_layouts :: "tab_layout list" where
  "cycle_layouts = [EvenHorizontal, EvenVertical, MainHorizontal, MainVertical, Tiled]"

definition cycle_active_layout :: "bool \<Rightarrow> tab_manager \<Rightarrow> bool \<times> tab_manager" where
  "cycle_active_layout forward m =
     (let current = (case active_layout m of Some l \<Rightarrow> l | None \<Rightarrow> Manual);
          pos = (case position (\<lambda>l. l = current) cycle_layouts of Some p \<Rightarrow> p | None \<Rightarrow> 0);
          nxt = (if forward then cycle_layouts ! ((pos + 1) mod length cycle_layouts)
                 else cycle_layouts ! ((pos + length cycle_layouts - 1) mod length cycle_layouts))
      in apply_layout_to_active nxt m)"

definition rotate_active_panes :: "bool \<Rightarrow> tab_manager \<Rightarrow> bool \<times> tab_manager" where
  "rotate_active_panes forward =
     update_active_tab (\<lambda>t. let (ok, tr) = rotate_panes forward (tree t)
                            in (ok, t\<lparr>layout := Manual, tree := tr\<rparr>)) False"

definition swap_active_pane_with_adjacent :: "bool \<Rightarrow> tab_manager \<Rightarrow> bool \<times> tab_manager" where
  "swap_active_pane_with_adjacent nxt =
     update_active_tab (\<lambda>t. let (ok, tr) = swap_focused_with_adjacent nxt (tree t)
                            in (ok, t\<lparr>layout := Manual, tree := tr\<rparr>)) False"

definition break_active_pane_to_tab ::
  "tab_manager \<times> views \<Rightarrow> nat option \<times> tab_manager \<times> views" where
  "break_active_pane_to_tab mv =
     (let (m, vs) = mv
      in case get_at (tabs m) (active m) of
           None \<Rightarrow> (None, m, vs)
         | Some t \<Rightarrow>
             (case remove_focused (tree t) of
                (None, tr) \<Rightarrow> (None, m\<lparr>tabs := (tabs m)[active m := t\<lparr>tree := tr\<rparr>]\<rparr>, vs)
              | (Some pane, tr) \<Rightarrow>
                  (let m1 = m\<lparr>tabs := (tabs m)[active m := t\<lparr>tree := tr, layout := Manual\<rparr>]\<rparr>;
                       mv2 = (if tree_len tr = 0 then snd (remove_tab (active m) (m1, vs)) else (m1, vs));
                       (idx, mv3) = new_tab pane mv2
                   in (Some idx, mv3))))"

definition rebalance_active_layout :: "tab_manager \<Rightarrow> bool \<times> tab_manager" where
  "rebalance_active_layout =
     update_active_tab (\<lambda>t. let (ok, tr) = rebalance (tree t) in (ok, t\<lparr>tree := tr\<rparr>)) False"

definition set_running_command_for_pane ::
  "pane_id_t \<Rightarrow> running_cmd option \<Rightarrow> tab_manager \<Rightarrow> bool \<times> tab_manager" where
  "set_running_command_for_pane pid rc m =
     (let hit = (\<lambda>t. pane_id (focused_pane (tree t)) = pid \<and> running_command t \<noteq> rc)
      in (list_ex hit (tabs m),
          m\<lparr>tabs := map (\<lambda>t. if hit t then t\<lparr>running_command := rc\<rparr> else t) (tabs m)\<rparr>))"

definition display_title :: "tab_manager \<Rightarrow> nat \<Rightarrow> rust_string option \<Rightarrow> rust_string" where
  "display_title m index spinner =
     (case get_at (tabs m) index of
        None \<Rightarrow> []
      | Some t \<Rightarrow>
          (let base = (case Option.bind (running_command t) command of
                         Some c \<Rightarrow> (if c \<noteq> [] then c else title t) | None \<Rightarrow> title t)
           in case spinner of
                Some s \<Rightarrow> (if s \<noteq> [] then (if base = [] then s else s @ [0x20] @ base) else base)
              | None \<Rightarrow> base))"

definition spinner_for :: "nat \<Rightarrow> rust_string" where
  "spinner_for frame = (let frames = [[0x2D], [0x5C], [0x7C], [0x2F]] in frames ! (frame mod length frames))"

definition tab_info_with_spinner :: "nat \<Rightarrow> tab_manager \<Rightarrow> tab_info list" where
  "tab_info_with_spinner spinner_frame m =
     map (\<lambda>(i, t). \<lparr>inf_index = i, inf_active = (i = active m),
            inf_title = display_title m i (map_option (\<lambda>_. spinner_for spinner_frame) (running_command t)),
            inf_surfaces = tree_len (tree t)\<rparr>) (enumerate 0 (tabs m))"

definition tab_identity_list :: "tab_manager \<Rightarrow> tab_identity_info list" where
  "tab_identity_list m =
     map (\<lambda>(i, t). \<lparr>ti_id = tab_id t, ti_index = i, ti_title = display_title m i None\<rparr>)
       (enumerate 0 (tabs m))"

definition tab_id_for_index :: "tab_manager \<Rightarrow> nat \<Rightarrow> u32 option" where
  "tab_id_for_index m i = map_option tab_id (get_at (tabs m) i)"

definition find_index_by_tab_id :: "tab_manager \<Rightarrow> u32 \<Rightarrow> nat option" where
  "find_index_by_tab_id m i = position (\<lambda>t. tab_id t = i) (tabs m)"

fun find_pane_location_from :: "nat \<Rightarrow> tab list \<Rightarrow> pane_id_t \<Rightarrow> (nat \<times> leaf_id_t) option" where
  "find_pane_location_from i [] pid = None"
| "find_pane_location_from i (t # ts) pid =
     or_else (map_option (\<lambda>e. (i, ex_leaf_id e))
                (List.find (\<lambda>e. pane_id (ex_pane e) = pid) (export_panes (tree t))))
       (find_pane_location_from (i + 1) ts pid)"

definition find_pane_location :: "tab_manager \<Rightarrow> pane_id_t \<Rightarrow> (nat \<times> leaf_id_t) option" where
  "find_pane_location m pid = find_pane_location_from 0 (tabs m) pid"

definition remove_pane_by_id ::
  "pane_id_t \<Rightarrow> tab_manager \<times> views \<Rightarrow> pane_handle option \<times> tab_manager \<times> views" where
  "remove_pane_by_id pid mv =
     (let (m, vs) = mv
      in case find_pane_location m pid of
           None \<Rightarrow> (None, m, vs)
         | Some (tab_index, _) \<Rightarrow>
             (let t = tabs m ! tab_index
              in case remove_pane pid (tree t) of
                   (None, tr) \<Rightarrow> (None, m\<lparr>tabs := (tabs m)[tab_index := t\<lparr>tree := tr\<rparr>]\<rparr>, vs)
                 | (Some pane, tr) \<Rightarrow>
                     (let t1 = t\<lparr>tree := tr, layout := Manual\<rparr>;
                          m1 = m\<lparr>tabs := (tabs m)[tab_index := t1]\<rparr>
                      in if tree_len tr = 0 then (Some pane, snd (remove_tab tab_index (m1, vs)))
                         else if tab_index = active m then
                           let tr2 = snd (set_focus_to_pane (pane_id (focused_pane tr)) tr)
                           in (Some pane, m1\<lparr>tabs := (tabs m1)[tab_index := t1\<lparr>tree := tr2\<rparr>]\<rparr>, vs)
                         else (Some pane, m1, vs))))"

definition tabs_all_panes :: "tab_manager \<Rightarrow> pane_handle list" where
  "tabs_all_panes m = concat (map (\<lambda>t. all_panes (tree t)) (tabs m))"

definition layout_active ::
  "tab_manager \<Rightarrow> rect \<Rightarrow> f64 \<Rightarrow> view_frames \<Rightarrow> view_frames \<times> (pane_handle \<times> u32 \<times> u32) list" where
  "layout_active m frame scale vf =
     (case active_tree m of Some t \<Rightarrow> tree_layout t frame scale vf | None \<Rightarrow> (vf, []))"

end
