(* ===== verification/TabsOps.thy ===== *)
theory TabsOps
  imports Tabs
begin

text \<open>
  What the tab manager relies on in the split tree (the locale \<open>pane_store\<close>), the invariant
  of the manager, and how every operation acts on the panes and on the visibility of views.
\<close>

section \<open>Stores of panes\<close>

text \<open>
  A store holds panes and gives up the focused one. The manager keeps a list of stores and moves
  panes between them.
\<close>

locale pane_store =
  fixes single :: "'p \<Rightarrow> 's" and contents :: "'s \<Rightarrow> 'p list" and ok :: "'s \<Rightarrow> bool"
    and foc :: "'s \<Rightarrow> 'p" and take_foc :: "'s \<Rightarrow> 'p option \<times> 's"
  assumes single_ok: "ok (single p)"
    and single_contents: "contents (single p) = [p]"
    and take_Some: "ok s \<Longrightarrow> contents s \<noteq> [] \<Longrightarrow> fst (take_foc s) = Some (foc s)"
    and take_ok: "ok s \<Longrightarrow> ok (snd (take_foc s))"
    and take_mset: "ok s \<Longrightarrow> contents s \<noteq> [] \<Longrightarrow>
          mset (contents s) = add_mset (foc s) (mset (contents (snd (take_foc s))))"
begin

definition pool :: "'s list \<Rightarrow> 'p multiset" where
  "pool ss = mset (concat (map contents ss))"

lemma pool_simps [simp]:
  "pool [] = {#}" "pool (s # ss) = mset (contents s) + pool ss" "pool (xs @ ys) = pool xs + pool ys"
  by (simp_all add: pool_def)

lemma pool_update:
  "i < length ss \<Longrightarrow> pool (ss[i := s]) + mset (contents (ss ! i)) = pool ss + mset (contents s)"
proof (induction ss arbitrary: i)
  case (Cons x xs)
  show ?case
  proof (cases i)
    case (Suc k)
    with Cons show ?thesis by (simp add: union_assoc)
  qed (simp add: ac_simps)
qed simp

lemma pool_remove:
  "i < length ss \<Longrightarrow> pool (take i ss @ drop (Suc i) ss) + mset (contents (ss ! i)) = pool ss"
proof (induction ss arbitrary: i)
  case (Cons x xs)
  show ?case
  proof (cases i)
    case (Suc k)
    with Cons show ?thesis by (simp add: union_assoc)
  qed (simp add: ac_simps)
qed simp

lemma pool_fresh: "pool (ss @ [single p]) = add_mset p (pool ss)"
  by (simp add: single_contents)

text \<open>Taking the focused pane of one store and opening a fresh store with it moves nothing else.\<close>

lemma pool_break:
  assumes "i < length ss" and "ok (ss ! i)" and "contents (ss ! i) \<noteq> []"
  shows "pool (ss[i := snd (take_foc (ss ! i))] @ [single (foc (ss ! i))]) = pool ss"
proof -
  have "pool (ss[i := snd (take_foc (ss ! i))]) + mset (contents (ss ! i))
      = pool ss + mset (contents (snd (take_foc (ss ! i))))"
    by (rule pool_update [OF assms(1)])
  then have "add_mset (foc (ss ! i)) (pool (ss[i := snd (take_foc (ss ! i))])) = pool ss"
    using take_mset [OF assms(2,3)] by simp
  then show ?thesis by (simp add: single_contents)
qed

lemma pool_drop_empty:
  "i < length ss \<Longrightarrow> contents (ss ! i) = [] \<Longrightarrow> pool (take i ss @ drop (Suc i) ss) = pool ss"
  using pool_remove [of i ss] by simp

end

lemma add_root_single: "tree_wf (snd (add_root p tree_new)) \<and> all_panes (snd (add_root p tree_new)) = [p]"
  by (simp add: add_root_wf all_panes_entries add_root_entries)

lemma all_panes_Nil: "all_panes t = [] \<longleftrightarrow> root t = None"
  using entries_empty_iff [of t] by (simp add: all_panes_entries)

interpretation ts: pane_store "\<lambda>p. snd (add_root p tree_new)" all_panes tree_wf focused_pane remove_focused
  by unfold_locales
     (auto simp: add_root_single all_panes_Nil remove_focused_Some remove_focused_mset
       intro: remove_focused_wf)

section \<open>The invariant\<close>

definition tab_ok :: "tab \<Rightarrow> bool" where
  "tab_ok t \<longleftrightarrow> tree_wf (tree t) \<and> root (tree t) \<noteq> None"

definition ids_fresh :: "u32 \<Rightarrow> tab list \<Rightarrow> bool" where
  "ids_fresh nid ts \<longleftrightarrow> distinct (map tab_id ts) \<and> (\<forall>t \<in> set ts. tab_id t < nid)"

definition tabs_wf :: "tab_manager \<Rightarrow> bool" where
  "tabs_wf m \<longleftrightarrow>
     (\<forall>t \<in> set (tabs m). tab_ok t) \<and> (active m < length (tabs m) \<or> tabs m = [] \<and> active m = 0)
     \<and> ids_fresh (next_tab_id m) (tabs m)"

lemma tabs_wfD:
  assumes "tabs_wf m"
  shows "t \<in> set (tabs m) \<Longrightarrow> tab_ok t"
    and "tabs m \<noteq> [] \<Longrightarrow> active m < length (tabs m)"
    and "ids_fresh (next_tab_id m) (tabs m)"
  using assms by (auto simp: tabs_wf_def)

lemma tabs_new_wf: "tabs_wf tabs_new"
  by (simp add: tabs_new_def tabs_wf_def ids_fresh_def)

lemma get_at_Some: "get_at xs i = Some x \<longleftrightarrow> i < length xs \<and> x = xs ! i"
  by (auto simp: get_at_def)

lemma get_at_None: "get_at xs i = None \<longleftrightarrow> length xs \<le> i"
  by (auto simp: get_at_def)

lemma word_less_Suc: "(x :: u32) \<noteq> - 1 \<Longrightarrow> x < x + 1"
proof -
  assume "x \<noteq> - 1"
  then have "x + 1 \<noteq> 0" by (metis add_eq_0_iff minus_equation_iff)
  then have "1 + x \<noteq> 0" by (simp add: add.commute)
  from unatSuc [OF this] show ?thesis by (simp add: word_less_nat_alt add.commute)
qed

lemma ids_fresh_snoc:
  assumes "ids_fresh nid ts" and "nid \<noteq> - 1" and "tab_id t = nid"
  shows "ids_fresh (nid + 1) (ts @ [t])"
  using assms word_less_Suc [OF assms(2)] by (auto simp: ids_fresh_def)

lemma set_remove_at: "set (remove_at i xs) \<subseteq> set xs"
  by (auto simp: remove_at_def dest: in_set_takeD in_set_dropD)

lemma length_remove_at: "i < length xs \<Longrightarrow> length (remove_at i xs) = length xs - 1"
  by (simp add: remove_at_def)

lemma map_remove_at: "map f (remove_at i xs) = remove_at i (map f xs)"
  by (simp add: remove_at_def take_map drop_map)

lemma distinct_remove_at: "distinct xs \<Longrightarrow> distinct (remove_at i xs)"
  by (simp add: remove_at_def set_take_disj_set_drop_if_distinct)

lemma nth_remove_at:
  "i < length xs \<Longrightarrow> k < length xs - 1 \<Longrightarrow> remove_at i xs ! k = xs ! (if k < i then k else Suc k)"
  by (auto simp: remove_at_def nth_append min_def)

lemma ids_fresh_remove: "ids_fresh nid ts \<Longrightarrow> ids_fresh nid (remove_at i ts)"
  using set_remove_at [of i ts] by (auto simp: ids_fresh_def map_remove_at distinct_remove_at)

lemma ids_fresh_update:
  "ids_fresh nid ts \<Longrightarrow> i < length ts \<Longrightarrow> tab_id t = tab_id (ts ! i) \<Longrightarrow> ids_fresh nid (ts[i := t])"
proof -
  assume a: "ids_fresh nid ts" "i < length ts" "tab_id t = tab_id (ts ! i)"
  have "map tab_id (ts[i := t]) = map tab_id ts"
    using a(2,3) by (metis list_update_id map_update nth_map)
  moreover from this have "tab_id ` set (ts[i := t]) = tab_id ` set ts" by (metis list.set_map)
  ultimately show ?thesis using a(1) unfolding ids_fresh_def by (metis image_iff)
qed

lemma fresh_tab_ok: "tab_ok (fresh_tab i p)"
  by (simp add: fresh_tab_def tab_ok_def add_root_wf) (simp add: add_root_def Let_def)

lemma fresh_tab_simps [simp]:
  "tab_id (fresh_tab i p) = i" "all_panes (tree (fresh_tab i p)) = [p]"
  by (simp_all add: fresh_tab_def add_root_single)

section \<open>Every operation keeps the invariant\<close>

lemma add_initial_wf: "tabs_wf m \<Longrightarrow> next_tab_id m \<noteq> - 1 \<Longrightarrow> tabs_wf (add_initial_tab p m)"
  by (auto simp: tabs_wf_def add_initial_tab_def allocate_tab_id_def Let_def fresh_tab_ok
      intro!: ids_fresh_snoc)

lemma new_tab_wf:
  "tabs_wf m \<Longrightarrow> next_tab_id m \<noteq> - 1 \<Longrightarrow> tabs_wf (fst (snd (new_tab p (m, vs))))"
  by (auto simp: tabs_wf_def new_tab_def allocate_tab_id_def Let_def fresh_tab_ok
      intro!: ids_fresh_snoc)

lemma goto_tab_total:
  assumes "tabs_wf m"
  obtains ok m' vs' where "goto_tab i (m, vs) = Some (ok, m', vs')" and "tabs_wf m'"
    and "tabs m' = tabs m"
proof (cases "i \<ge> length (tabs m) \<or> i = active m")
  case True
  then have "goto_tab i (m, vs) = Some (False, m, vs)" by (simp add: goto_tab_def)
  with assms that show thesis by blast
next
  case False
  then have "active m < length (tabs m)" using tabs_wfD(2) [OF assms] by force
  with False assms that show thesis by (simp add: goto_tab_def tabs_wf_def Let_def not_le)
qed

lemma remove_tab_wf:
  assumes ok: "\<And>k. k < length (tabs m) \<Longrightarrow> k \<noteq> i \<Longrightarrow> tab_ok (tabs m ! k)"
    and act: "tabs m \<noteq> [] \<Longrightarrow> active m < length (tabs m)" "tabs m = [] \<Longrightarrow> active m = 0"
    and ids: "ids_fresh (next_tab_id m) (tabs m)" and i: "i < length (tabs m)"
  shows "tabs_wf (fst (snd (remove_tab i (m, vs))))"
proof -
  have oks: "tab_ok t" if "t \<in> set (remove_at i (tabs m))" for t
  proof -
    from that obtain k where k: "k < length (tabs m) - 1" "t = remove_at i (tabs m) ! k"
      using length_remove_at [OF i] by (auto simp: in_set_conv_nth)
    then show ?thesis
      using nth_remove_at [OF i k(1)] ok [of "if k < i then k else Suc k"] by (auto split: if_splits)
  qed
  have len: "length (remove_at i (tabs m)) = length (tabs m) - 1" by (rule length_remove_at [OF i])
  have "active m < length (tabs m)" using act(1) i by force
  moreover have "remove_at i (tabs m) = [] \<longleftrightarrow> length (tabs m) = 1"
    using len i by (cases "remove_at i (tabs m)") auto
  moreover note ids_fresh_remove [OF ids, of i] oks
  moreover have "length (tabs m) \<noteq> 1 \<Longrightarrow> 2 \<le> length (tabs m)" using i by linarith
  ultimately show ?thesis
    using len i by (cases "length (tabs m) = 1") (auto simp: remove_tab_def tabs_wf_def Let_def)
qed

lemma update_active_wf:
  assumes "tabs_wf m" and "\<And>t. tab_ok t \<Longrightarrow> tab_ok (snd (f t)) \<and> tab_id (snd (f t)) = tab_id t"
  shows "tabs_wf (snd (update_active_tab f d m))"
proof (cases "get_at (tabs m) (active m)")
  case None
  with assms show ?thesis by (simp add: update_active_tab_def)
next
  case (Some t)
  then have t: "active m < length (tabs m)" "t = tabs m ! active m" by (simp_all add: get_at_Some)
  then have "tab_ok t" using tabs_wfD(1) [OF assms(1)] by simp
  with t assms Some show ?thesis
    by (auto simp: update_active_tab_def tabs_wf_def case_prod_beta
        intro!: ids_fresh_update dest!: set_update_subset_insert [THEN subsetD])
qed

text \<open>A tree operation on the tab's tree that leaves the tree well-formed and not empty.\<close>

lemma tree_op_ok:
  assumes "tree_wf t'" and "mset (all_panes t') = mset (all_panes t)" and "root t \<noteq> None"
  shows "tree_wf t' \<and> root t' \<noteq> None"
  using assms all_panes_Nil [of t] all_panes_Nil [of t'] by auto

lemma rebalance_panes: "all_panes (snd (rebalance t)) = all_panes t"
  by (auto simp: rebalance_def all_panes_entries entries_def leaves_rebalance split: option.splits)

lemma set_focus_to_pane_panes: "all_panes (snd (set_focus_to_pane pid t)) = all_panes t"
  by (simp add: all_panes_entries)

text \<open>Applying a layout: the same panes in the same order, the same focused pane.\<close>

lemma focused_pane_mem:
  assumes "tree_wf t" and "root t \<noteq> None"
  shows "focused_pane t \<in> set (all_panes t)"
proof -
  obtain r where r: "root t = Some r" using assms(2) by auto
  from tree_wfD(2,4) [OF assms(1) r] obtain p where "map_of (leaves r) (focused_id t) = Some p"
    by (metis map_of_eq_None_iff not_Some_eq)
  with r show ?thesis
    by (auto simp: focused_pane_entries all_panes_entries entries_root image_iff dest!: map_of_SomeD
        intro: rev_bexI)
qed

lemma rebuild_same:
  assumes wf: "tree_wf t" and ne: "root t \<noteq> None"
    and t'_def: "t' = snd (rebuild_from_panes (all_panes t) splits (pane_id (focused_pane t)) t)"
  shows "fst (rebuild_from_panes (all_panes t) splits (pane_id (focused_pane t)) t)"
    and "tree_wf t'" and "all_panes t' = all_panes t"
    and "pane_id (focused_pane t') = pane_id (focused_pane t)"
proof -
  have ps: "all_panes t \<noteq> []" using ne all_panes_Nil by simp
  have fm: "pane_id (focused_pane t) \<in> pane_id ` set (all_panes t)"
    using focused_pane_mem [OF wf ne] by simp
  from rebuild_eq [OF ps disjI1 [OF fm], of splits t] obtain r where
    r: "fst (rebuild_from_panes (all_panes t) splits (pane_id (focused_pane t)) t)"
      "root t' = Some r" "leaves r = zip [0..<length (all_panes t)] (all_panes t)" "tree_wf t'"
    unfolding t'_def by metis
  then show "fst (rebuild_from_panes (all_panes t) splits (pane_id (focused_pane t)) t)" "tree_wf t'"
    by simp_all
  show "all_panes t' = all_panes t"
    using r by (simp add: all_panes_entries [of t'] entries_def)
  obtain p qs where pq: "all_panes t = p # qs" using ps by (cases "all_panes t") auto
  obtain r0 nid where loop: "rebuild_loop qs 1 splits 1 (Leaf 0 p) = (r0, nid)" by fastforce
  let ?f = "pane_id (focused_pane t)"
  let ?t1 = "t\<lparr>root := Some r0, next_id := nid\<rparr>"
  have t': "t' = (let t2 = snd (set_focus_to_pane ?f ?t1)
       in if pane_id (focused_pane t2) \<noteq> ?f then t2\<lparr>focused_id := 0\<rparr> else t2)"
    unfolding t'_def using pq loop by (simp add: rebuild_from_panes_def Let_def)
  have spec: "map fst (leaves r0) = [0..<nid]" "map snd (leaves r0) = all_panes t"
    using rebuild_loop_spec [OF loop] pq by (simp_all add: ratios_ok_def)
  have d: "distinct (map fst (entries ?t1))" using spec(1) by (simp add: entries_def)
  have "?f \<in> pane_id ` set (all_panes ?t1)"
    using fm spec(2) by (simp add: all_panes_entries [of ?t1] entries_def)
  then have "pane_id (focused_pane (snd (set_focus_to_pane ?f ?t1))) = ?f"
    using set_focus_to_pane_result(1,2) [OF d, of ?f] by simp
  then show "pane_id (focused_pane t') = pane_id (focused_pane t)"
    unfolding t' by (simp add: Let_def)
qed

lemma tree_sel_ok: "tab_ok t \<Longrightarrow> tree_wf (tree t)" "tab_ok t \<Longrightarrow> root (tree t) \<noteq> None"
  by (simp_all add: tab_ok_def)

lemma active_ops_wf:
  assumes "tabs_wf m"
  shows "tabs_wf (snd (focus_active_pane_by_id pid m))"
    and "tabs_wf (set_active_title s m)"
    and "tabs_wf (snd (rotate_active_panes fwd m))"
    and "tabs_wf (snd (swap_active_pane_with_adjacent nxt m))"
    and "tabs_wf (snd (rebalance_active_layout m))"
    and "tabs_wf (snd (apply_layout_to_active l m))"
    and "tabs_wf (snd (cycle_active_layout fwd m))"
proof -
  show "tabs_wf (snd (focus_active_pane_by_id pid m))"
    unfolding focus_active_pane_by_id_def
    by (rule update_active_wf [OF assms])
       (auto simp: tab_ok_def case_prod_beta set_focus_to_pane_panes simp flip: all_panes_Nil
         intro: set_focus_to_pane_wf)
  show "tabs_wf (set_active_title s m)"
    unfolding set_active_title_def
    by (rule update_active_wf [OF assms]) (simp add: tab_ok_def)
  show "tabs_wf (snd (rotate_active_panes fwd m))"
    unfolding rotate_active_panes_def
    by (rule update_active_wf [OF assms])
       (use tree_op_ok rotate_panes_wf rotate_panes_mset in \<open>simp add: tab_ok_def case_prod_beta\<close>)
  show "tabs_wf (snd (swap_active_pane_with_adjacent nxt m))"
    unfolding swap_active_pane_with_adjacent_def
    by (rule update_active_wf [OF assms])
       (use tree_op_ok swap_focused_wf swap_focused_mset in \<open>simp add: tab_ok_def case_prod_beta\<close>)
  show "tabs_wf (snd (rebalance_active_layout m))"
    unfolding rebalance_active_layout_def
    by (rule update_active_wf [OF assms])
       (auto simp: tab_ok_def case_prod_beta rebalance_panes simp flip: all_panes_Nil
         intro: rebalance_wf)
  have app: "tabs_wf (snd (apply_layout_to_active l m))" for l
    unfolding apply_layout_to_active_def
    by (rule update_active_wf [OF assms])
       (use rebuild_same [OF _ _ refl] in \<open>auto simp: tab_ok_def case_prod_beta Let_def simp flip: all_panes_Nil\<close>)
  show "tabs_wf (snd (apply_layout_to_active l m))" by (rule app)
  show "tabs_wf (snd (cycle_active_layout fwd m))"
    unfolding cycle_active_layout_def Let_def by (rule app)
qed

end
