(* ===== verification/TabsProps.thy ===== *)
theory TabsProps
  imports TabsOps
begin

text \<open>
  The tab manager as a state machine: no sequence of its operations panics or breaks the
  invariant, panes move between tabs without loss, and exactly the active tab is visible.
\<close>

section \<open>Finding panes\<close>

lemma export_panes_find:
  "List.find (\<lambda>e. pane_id (ex_pane e) = pid) (export_panes t) = None
     \<longleftrightarrow> pid \<notin> pane_id ` set (all_panes t)"
proof -
  have "ex_pane ` set (export_panes t) = set (all_panes t)"
    using arg_cong [OF export_entries(1) [of t], of "\<lambda>l. set (map snd l)"]
    by (simp add: all_panes_entries image_image)
  then show ?thesis unfolding find_None_iff by (metis (no_types, lifting) imageE imageI)
qed

lemma find_pane_location_from_spec:
  "case find_pane_location_from k ts pid of
     None \<Rightarrow> \<forall>t \<in> set ts. pid \<notin> pane_id ` set (all_panes (tree t))
   | Some (i, l) \<Rightarrow> k \<le> i \<and> i - k < length ts \<and> pid \<in> pane_id ` set (all_panes (tree (ts ! (i - k))))
       \<and> (\<forall>j < i - k. pid \<notin> pane_id ` set (all_panes (tree (ts ! j))))"
proof (induction ts arbitrary: k)
  case Nil
  then show ?case by simp
next
  case (Cons t ts)
  show ?case
  proof (cases "List.find (\<lambda>e. pane_id (ex_pane e) = pid) (export_panes (tree t))")
    case None
    then have nt: "pid \<notin> pane_id ` set (all_panes (tree t))" by (simp add: export_panes_find)
    show ?thesis
    proof (cases "find_pane_location_from (k + 1) ts pid")
      case None': None
      with Cons.IH [of "k + 1"] None nt show ?thesis by simp
    next
      case (Some il)
      obtain i l where il: "il = (i, l)" by fastforce
      from Cons.IH [of "k + 1"] Some il have *: "k + 1 \<le> i" "i - (k + 1) < length ts"
        "pid \<in> pane_id ` set (all_panes (tree (ts ! (i - (k + 1)))))"
        "\<forall>j < i - (k + 1). pid \<notin> pane_id ` set (all_panes (tree (ts ! j)))" by simp_all
      then have ik: "i - k = Suc (i - (k + 1))" by simp
      have "\<forall>j < i - k. pid \<notin> pane_id ` set (all_panes (tree ((t # ts) ! j)))"
        unfolding ik using *(4) nt by (auto simp: less_Suc_eq_0_disj)
      with * ik Some il None show ?thesis by (simp del: image_iff)
    qed
  next
    case (Some e)
    then have "pid \<in> pane_id ` set (all_panes (tree t))"
      using export_panes_find [of pid "tree t"] by (metis option.distinct(1))
    with Some show ?thesis by simp
  qed
qed

lemma find_pane_location_None:
  "find_pane_location m pid = None \<longleftrightarrow> pid \<notin> pane_id ` set (tabs_all_panes m)"
proof -
  have mem: "pid \<in> pane_id ` set (tabs_all_panes m)
      \<longleftrightarrow> (\<exists>t \<in> set (tabs m). pid \<in> pane_id ` set (all_panes (tree t)))"
    by (auto simp: tabs_all_panes_def)
  show ?thesis
  proof (cases "find_pane_location m pid")
    case None
    then show ?thesis
      using find_pane_location_from_spec [where k = 0 and ts = "tabs m" and pid = pid] mem by (simp add: find_pane_location_def)
  next
    case (Some il)
    then obtain i l where "find_pane_location_from 0 (tabs m) pid = Some (i, l)"
      by (cases il) (simp add: find_pane_location_def)
    then show ?thesis
      using find_pane_location_from_spec [where k = 0 and ts = "tabs m" and pid = pid] mem Some by auto
  qed
qed

lemma find_pane_location_Some:
  "find_pane_location m pid = Some (i, l) \<Longrightarrow>
     i < length (tabs m) \<and> pid \<in> pane_id ` set (all_panes (tree (tabs m ! i)))"
  using find_pane_location_from_spec [where k = 0 and ts = "tabs m" and pid = pid] by (simp add: find_pane_location_def)

section \<open>Moving and removing panes\<close>

lemma pool_tabs: "ts.pool (map tree (tabs m)) = mset (tabs_all_panes m)"
  by (simp add: ts.pool_def tabs_all_panes_def comp_def)

lemma remove_tab_tabs:
  "i < length (tabs m) \<Longrightarrow> tabs (fst (snd (remove_tab i (m, vs)))) = remove_at i (tabs m)"
  "i < length (tabs m) \<Longrightarrow> fst (remove_tab i (m, vs)) = all_panes (tree (tabs m ! i))"
  "i < length (tabs m) \<Longrightarrow> next_tab_id (fst (snd (remove_tab i (m, vs)))) = next_tab_id m"
  by (simp_all add: remove_tab_def Let_def)

lemma new_tab_tabs:
  "tabs (fst (snd (new_tab p (m, vs)))) = tabs m @ [fresh_tab (next_tab_id m) p]"
  "fst (new_tab p (m, vs)) = length (tabs m)"
  by (simp_all add: new_tab_def allocate_tab_id_def Let_def)

lemma tabs_pool_update:
  assumes "i < length (tabs m)"
  shows "mset (tabs_all_panes (m\<lparr>tabs := (tabs m)[i := t]\<rparr>)) + mset (all_panes (tree (tabs m ! i)))
       = mset (tabs_all_panes m) + mset (all_panes (tree t))"
  using ts.pool_update [of i "map tree (tabs m)" "tree t"] assms pool_tabs [of m]
    pool_tabs [of "m\<lparr>tabs := (tabs m)[i := t]\<rparr>"] by (simp add: map_update)

lemma tabs_pool_remove:
  assumes "i < length (tabs m)"
  shows "mset (tabs_all_panes (fst (snd (remove_tab i (m, vs))))) + mset (all_panes (tree (tabs m ! i)))
       = mset (tabs_all_panes m)"
  using ts.pool_remove [of i "map tree (tabs m)"] assms pool_tabs [of m]
    pool_tabs [of "fst (snd (remove_tab i (m, vs)))"] remove_tab_tabs(1) [OF assms]
  by (simp add: map_remove_at remove_at_def take_map drop_map)

lemma tabs_pool_new:
  "mset (tabs_all_panes (fst (snd (new_tab p (m, vs))))) = add_mset p (mset (tabs_all_panes m))"
  using ts.pool_fresh [of "map tree (tabs m)" p] pool_tabs [of m]
    pool_tabs [of "fst (snd (new_tab p (m, vs)))"] new_tab_tabs(1) [of p m vs]
  by (simp add: fresh_tab_def)

lemma update_active_panes:
  assumes "tabs_wf m" and "\<And>t. tab_ok t \<Longrightarrow> mset (all_panes (tree (snd (f t)))) = mset (all_panes (tree t))"
  shows "mset (tabs_all_panes (snd (update_active_tab f d m))) = mset (tabs_all_panes m)"
proof (cases "get_at (tabs m) (active m)")
  case None
  then show ?thesis by (simp add: update_active_tab_def)
next
  case (Some t)
  then have t: "active m < length (tabs m)" "t = tabs m ! active m" by (simp_all add: get_at_Some)
  then have "tab_ok t" using tabs_wfD(1) [OF assms(1)] by simp
  with tabs_pool_update [OF t(1), of "snd (f t)"] assms(2) [of t] t Some show ?thesis
    by (simp add: update_active_tab_def case_prod_beta)
qed

lemma layout_panes_same:
  assumes "tabs_wf m"
  shows "mset (tabs_all_panes (snd (apply_layout_to_active l m))) = mset (tabs_all_panes m)"
  unfolding apply_layout_to_active_def
  by (rule update_active_panes [OF assms])
     (use rebuild_same [OF _ _ refl] in \<open>auto simp: tab_ok_def case_prod_beta Let_def\<close>)

lemma active_ops_panes:
  assumes "tabs_wf m"
  shows "mset (tabs_all_panes (snd (focus_active_pane_by_id pid m))) = mset (tabs_all_panes m)"
    and "mset (tabs_all_panes (set_active_title s m)) = mset (tabs_all_panes m)"
    and "mset (tabs_all_panes (snd (rotate_active_panes fwd m))) = mset (tabs_all_panes m)"
    and "mset (tabs_all_panes (snd (swap_active_pane_with_adjacent nxt m))) = mset (tabs_all_panes m)"
    and "mset (tabs_all_panes (snd (rebalance_active_layout m))) = mset (tabs_all_panes m)"
    and "mset (tabs_all_panes (snd (cycle_active_layout fwd m))) = mset (tabs_all_panes m)"
  unfolding focus_active_pane_by_id_def set_active_title_def rotate_active_panes_def
    swap_active_pane_with_adjacent_def rebalance_active_layout_def
  by (rule update_active_panes [OF assms], simp add: tab_ok_def case_prod_beta set_focus_to_pane_panes
        rotate_panes_mset swap_focused_mset rebalance_panes)+
     (simp add: cycle_active_layout_def Let_def layout_panes_same [OF assms])

text \<open>Breaking a pane out: the states in the middle of the method.\<close>

lemma break_eq:
  assumes wf: "tabs_wf m" and ne: "tabs m \<noteq> []"
  obtains tr where "remove_focused (tree (tabs m ! active m)) = (Some (tabs_focused_pane m), tr)"
    and "tree_wf tr"
    and "break_active_pane_to_tab (m, vs) =
      (let m1 = m\<lparr>tabs := (tabs m)[active m := (tabs m ! active m)\<lparr>tree := tr, layout := Manual\<rparr>]\<rparr>;
           mv2 = (if all_panes tr = [] then snd (remove_tab (active m) (m1, vs)) else (m1, vs));
           (idx, mv3) = new_tab (tabs_focused_pane m) mv2
       in (Some idx, mv3))"
proof -
  let ?t = "tree (tabs m ! active m)"
  have act: "active m < length (tabs m)" using tabs_wfD(2) [OF wf ne] .
  then have ok: "tab_ok (tabs m ! active m)" using tabs_wfD(1) [OF wf] by simp
  have g: "get_at (tabs m) (active m) = Some (tabs m ! active m)" using act by (simp add: get_at_Some)
  obtain tr where rm: "remove_focused ?t = (Some (focused_pane ?t), tr)"
    using remove_focused_Some(1) [of ?t] tree_sel_ok [OF ok] by (metis prod.collapse)
  have foc: "tabs_focused_pane m = focused_pane ?t"
    using g by (simp add: tabs_focused_pane_def active_tree_def)
  have "tree_len tr = 0 \<longleftrightarrow> all_panes tr = []"
    by (simp add: tree_len_entries all_panes_entries)
  moreover have "tree_wf tr" using remove_focused_wf [of ?t] tree_sel_ok [OF ok] rm by simp
  ultimately show thesis
    using that [of tr] rm foc g by (simp add: break_active_pane_to_tab_def Let_def)
qed

lemma break_panes:
  assumes wf: "tabs_wf m"
  shows "mset (tabs_all_panes (fst (snd (break_active_pane_to_tab (m, vs))))) = mset (tabs_all_panes m)"
proof (cases "tabs m = []")
  case True
  then show ?thesis by (simp add: break_active_pane_to_tab_def get_at_def)
next
  case False
  have act: "active m < length (tabs m)" using tabs_wfD(2) [OF wf False] .
  then have ok: "tab_ok (tabs m ! active m)" using tabs_wfD(1) [OF wf] by simp
  from break_eq [OF wf False, of vs] obtain tr where
    rm: "remove_focused (tree (tabs m ! active m)) = (Some (tabs_focused_pane m), tr)"
    and eq: "break_active_pane_to_tab (m, vs) =
      (let m1 = m\<lparr>tabs := (tabs m)[active m := (tabs m ! active m)\<lparr>tree := tr, layout := Manual\<rparr>]\<rparr>;
           mv2 = (if all_panes tr = [] then snd (remove_tab (active m) (m1, vs)) else (m1, vs));
           (idx, mv3) = new_tab (tabs_focused_pane m) mv2
       in (Some idx, mv3))" by metis
  define m1 where "m1 = m\<lparr>tabs := (tabs m)[active m := (tabs m ! active m)\<lparr>tree := tr, layout := Manual\<rparr>]\<rparr>"
  have "mset (all_panes (tree (tabs m ! active m))) = add_mset (tabs_focused_pane m) (mset (all_panes tr))"
    using remove_focused_mset [of "tree (tabs m ! active m)"] remove_focused_Some(1) tree_sel_ok [OF ok] rm
    by (metis fst_conv option.inject snd_conv)
  then have m1: "add_mset (tabs_focused_pane m) (mset (tabs_all_panes m1)) = mset (tabs_all_panes m)"
    using tabs_pool_update [OF act, of "(tabs m ! active m)\<lparr>tree := tr, layout := Manual\<rparr>"]
    by (simp add: m1_def)
  have m2: "mset (tabs_all_panes (fst (snd (remove_tab (active m) (m1, vs))))) = mset (tabs_all_panes m1)"
    if "all_panes tr = []"
    using tabs_pool_remove [of "active m" m1 vs] act that by (simp add: m1_def)
  show ?thesis
    unfolding eq Let_def m1_def [symmetric]
    using m1 m2 tabs_pool_new [of "tabs_focused_pane m"]
    by (cases "all_panes tr = []") (simp_all add: case_prod_beta split: prod.splits, metis prod.collapse)
qed

lemma new_tab_wf_pair:
  "tabs_wf (fst mv) \<Longrightarrow> next_tab_id (fst mv) \<noteq> - 1 \<Longrightarrow> tabs_wf (fst (snd (new_tab p mv)))"
  by (cases mv) (simp add: new_tab_wf)

lemma tab_update_commute: "t\<lparr>layout := l, tree := tr\<rparr> = t\<lparr>tree := tr, layout := l\<rparr>"
  by (cases t) simp

lemma break_wf:
  assumes wf: "tabs_wf m" and nid: "next_tab_id m \<noteq> - 1"
  shows "tabs_wf (fst (snd (break_active_pane_to_tab (m, vs))))"
proof (cases "tabs m = []")
  case True
  with wf show ?thesis by (simp add: break_active_pane_to_tab_def get_at_def)
next
  case False
  have act: "active m < length (tabs m)" using tabs_wfD(2) [OF wf False] .
  from break_eq [OF wf False, of vs] obtain tr where
    tr: "tree_wf tr"
    and eq: "break_active_pane_to_tab (m, vs) =
      (let m1 = m\<lparr>tabs := (tabs m)[active m := (tabs m ! active m)\<lparr>tree := tr, layout := Manual\<rparr>]\<rparr>;
           mv2 = (if all_panes tr = [] then snd (remove_tab (active m) (m1, vs)) else (m1, vs));
           (idx, mv3) = new_tab (tabs_focused_pane m) mv2
       in (Some idx, mv3))" by metis
  let ?t = "(tabs m ! active m)\<lparr>tree := tr, layout := Manual\<rparr>"
  define m1 where "m1 = m\<lparr>tabs := (tabs m)[active m := ?t]\<rparr>"
  have ids: "ids_fresh (next_tab_id m1) (tabs m1)"
    using ids_fresh_update [OF tabs_wfD(3) [OF wf] act, of ?t] by (simp add: m1_def)
  have m2: "tabs_wf (fst (if all_panes tr = [] then snd (remove_tab (active m) (m1, vs)) else (m1, vs)))"
  proof (cases "all_panes tr = []")
    case True
    have "tabs_wf (fst (snd (remove_tab (active m) (m1, vs))))"
      by (rule remove_tab_wf) (use act ids tabs_wfD(1) [OF wf] in \<open>auto simp: m1_def nth_list_update\<close>)
    with True show ?thesis by simp
  next
    case False
    then have "tab_ok ?t" using tr all_panes_Nil [of tr] by (simp add: tab_ok_def)
    with False act ids tabs_wfD(1) [OF wf] show ?thesis
      by (auto simp: m1_def tabs_wf_def dest!: set_update_subset_insert [THEN subsetD])
  qed
  have nid2: "next_tab_id (fst (if all_panes tr = [] then snd (remove_tab (active m) (m1, vs)) else (m1, vs))) \<noteq> - 1"
    using nid act remove_tab_tabs(3) [of "active m" m1 vs] by (simp add: m1_def)
  show ?thesis
    unfolding eq Let_def m1_def [symmetric]
    using new_tab_wf_pair [OF m2 nid2, of "tabs_focused_pane m"] by (simp only: case_prod_beta fst_conv snd_conv)
qed

text \<open>Removal by identifier reaches the tab that holds the pane.\<close>

lemma remove_pane_by_id_cases:
  assumes wf: "tabs_wf m" and loc: "find_pane_location m pid = Some (i, l)"
  obtains p tr where "remove_pane pid (tree (tabs m ! i)) = (Some p, tr)" and "pane_id p = pid"
    and "p \<in> set (all_panes (tree (tabs m ! i)))" and "tree_wf tr" and "i < length (tabs m)"
    and "mset (all_panes (tree (tabs m ! i))) = add_mset p (mset (all_panes tr))"
proof -
  note f = find_pane_location_Some [OF loc]
  then have ok: "tab_ok (tabs m ! i)" using tabs_wfD(1) [OF wf] by simp
  let ?t = "tree (tabs m ! i)"
  note sp = remove_pane_spec [OF tree_sel_ok(1) [OF ok], of pid]
  obtain p where p: "fst (remove_pane pid ?t) = Some p"
  proof (cases "fst (remove_pane pid ?t)")
    case None
    then have "\<not> (\<exists>p. p \<in> set (all_panes ?t) \<and> pane_id p = pid)"
      using sp(1) by (simp add: find_None_iff)
    then show thesis using f by blast
  qed
  then have "pane_id p = pid" "p \<in> set (all_panes ?t)"
    using sp(1) by (auto simp: find_Some_iff)
  moreover have "remove_pane pid ?t = (Some p, snd (remove_pane pid ?t))" using p by (metis prod.collapse)
  moreover have "tree_wf (snd (remove_pane pid ?t))"
    using remove_pane_wf tree_sel_ok(1) [OF ok] by blast
  ultimately show thesis using that sp(2) [OF p] f by blast
qed

lemma remove_pane_by_id_eq:
  assumes wf: "tabs_wf m" and loc: "find_pane_location m pid = Some (i, l)"
    and rm: "remove_pane pid (tree (tabs m ! i)) = (Some p, tr)" and tr: "tree_wf tr"
  obtains tr2 where "tree_wf tr2" and "all_panes tr2 = all_panes tr"
    and "remove_pane_by_id pid (m, vs) = (Some p,
      (let m1 = m\<lparr>tabs := (tabs m)[i := (tabs m ! i)\<lparr>tree := tr2, layout := Manual\<rparr>]\<rparr>
       in if all_panes tr = [] then snd (remove_tab i (m1, vs)) else (m1, vs)))"
proof -
  let ?tr2 = "if tree_len tr = 0 then tr else if i = active m
     then snd (set_focus_to_pane (pane_id (focused_pane tr)) tr) else tr"
  have len: "tree_len tr = 0 \<longleftrightarrow> all_panes tr = []"
    by (simp add: tree_len_entries all_panes_entries)
  have "tree_wf ?tr2" using tr set_focus_to_pane_wf by simp
  moreover have "all_panes ?tr2 = all_panes tr" by (simp add: set_focus_to_pane_panes)
  moreover have "remove_pane_by_id pid (m, vs) = (Some p,
      (let m1 = m\<lparr>tabs := (tabs m)[i := (tabs m ! i)\<lparr>tree := ?tr2, layout := Manual\<rparr>]\<rparr>
       in if all_panes tr = [] then snd (remove_tab i (m1, vs)) else (m1, vs)))"
    using loc rm len by (simp add: remove_pane_by_id_def Let_def tab_update_commute)
  ultimately show thesis by (rule that)
qed

lemma remove_pane_by_id_wf:
  assumes wf: "tabs_wf m"
  shows "tabs_wf (fst (snd (remove_pane_by_id pid (m, vs))))"
    and "mset (tabs_all_panes (fst (snd (remove_pane_by_id pid (m, vs)))))
          + mset (case fst (remove_pane_by_id pid (m, vs)) of None \<Rightarrow> [] | Some p \<Rightarrow> [p])
        = mset (tabs_all_panes m)"
    and "case fst (remove_pane_by_id pid (m, vs)) of
           None \<Rightarrow> pid \<notin> pane_id ` set (tabs_all_panes m) \<and> snd (remove_pane_by_id pid (m, vs)) = (m, vs)
         | Some p \<Rightarrow> pane_id p = pid \<and> p \<in> set (tabs_all_panes m)"
proof -
  have "tabs_wf (fst (snd (remove_pane_by_id pid (m, vs)))) \<and>
    mset (tabs_all_panes (fst (snd (remove_pane_by_id pid (m, vs)))))
          + mset (case fst (remove_pane_by_id pid (m, vs)) of None \<Rightarrow> [] | Some p \<Rightarrow> [p])
        = mset (tabs_all_panes m) \<and>
    (case fst (remove_pane_by_id pid (m, vs)) of
           None \<Rightarrow> pid \<notin> pane_id ` set (tabs_all_panes m) \<and> snd (remove_pane_by_id pid (m, vs)) = (m, vs)
         | Some p \<Rightarrow> pane_id p = pid \<and> p \<in> set (tabs_all_panes m))"
  proof (cases "find_pane_location m pid")
    case None
    with wf find_pane_location_None [of m pid] show ?thesis by (simp add: remove_pane_by_id_def)
  next
    case (Some il)
    obtain i l where loc: "find_pane_location m pid = Some (i, l)" using Some by (cases il) auto
    from remove_pane_by_id_cases [OF wf loc] obtain p tr where
      rm: "remove_pane pid (tree (tabs m ! i)) = (Some p, tr)" and pid: "pane_id p = pid"
      and mem: "p \<in> set (all_panes (tree (tabs m ! i)))" and tr: "tree_wf tr"
      and i: "i < length (tabs m)"
      and ms: "mset (all_panes (tree (tabs m ! i))) = add_mset p (mset (all_panes tr))" by metis
    from remove_pane_by_id_eq [OF wf loc rm tr, of vs] obtain tr2 where
      tr2: "tree_wf tr2" "all_panes tr2 = all_panes tr"
      and eq: "remove_pane_by_id pid (m, vs) = (Some p,
      (let m1 = m\<lparr>tabs := (tabs m)[i := (tabs m ! i)\<lparr>tree := tr2, layout := Manual\<rparr>]\<rparr>
       in if all_panes tr = [] then snd (remove_tab i (m1, vs)) else (m1, vs)))" by metis
    let ?t = "(tabs m ! i)\<lparr>tree := tr2, layout := Manual\<rparr>"
    define m1 where "m1 = m\<lparr>tabs := (tabs m)[i := ?t]\<rparr>"
    have ids: "ids_fresh (next_tab_id m1) (tabs m1)"
      using ids_fresh_update [OF tabs_wfD(3) [OF wf] i, of ?t] by (simp add: m1_def)
    have act: "active m1 < length (tabs m1)" using tabs_wfD(2) [OF wf] i by (force simp: m1_def)
    have m1p: "add_mset p (mset (tabs_all_panes m1)) = mset (tabs_all_panes m)"
      using tabs_pool_update [OF i, of ?t] ms tr2(2) by (simp add: m1_def)
    have w: "tabs_wf (fst (if all_panes tr = [] then snd (remove_tab i (m1, vs)) else (m1, vs)))"
    proof (cases "all_panes tr = []")
      case True
      have "tabs_wf (fst (snd (remove_tab i (m1, vs))))"
        by (rule remove_tab_wf)
           (use act i ids tabs_wfD(1) [OF wf] in \<open>auto simp: m1_def nth_list_update\<close>)
      with True show ?thesis by simp
    next
      case False
      then have "tab_ok ?t" using tr2 all_panes_Nil [of tr2] by (simp add: tab_ok_def)
      with False act ids tabs_wfD(1) [OF wf] show ?thesis
        by (auto simp: m1_def tabs_wf_def dest!: set_update_subset_insert [THEN subsetD])
    qed
    have q: "mset (tabs_all_panes (fst (if all_panes tr = [] then snd (remove_tab i (m1, vs)) else (m1, vs))))
        = mset (tabs_all_panes m1)"
      using tabs_pool_remove [of i m1 vs] i tr2(2) by (auto simp: m1_def)
    have "p \<in> set (tabs_all_panes m)" using mem i by (auto simp: tabs_all_panes_def)
    then show ?thesis
      unfolding eq m1_def [symmetric] Let_def using w q m1p pid by simp
  qed
  then show "tabs_wf (fst (snd (remove_pane_by_id pid (m, vs))))"
    and "mset (tabs_all_panes (fst (snd (remove_pane_by_id pid (m, vs)))))
          + mset (case fst (remove_pane_by_id pid (m, vs)) of None \<Rightarrow> [] | Some p \<Rightarrow> [p])
        = mset (tabs_all_panes m)"
    and "case fst (remove_pane_by_id pid (m, vs)) of
           None \<Rightarrow> pid \<notin> pane_id ` set (tabs_all_panes m) \<and> snd (remove_pane_by_id pid (m, vs)) = (m, vs)
         | Some p \<Rightarrow> pane_id p = pid \<and> p \<in> set (tabs_all_panes m)"
    by blast+
qed

section \<open>Visibility\<close>

definition shows_active :: "tab_manager \<Rightarrow> views \<Rightarrow> bool" where
  "shows_active m vs \<longleftrightarrow>
     (\<forall>i < length (tabs m). \<forall>p \<in> set (all_panes (tree (tabs m ! i))).
        view p \<noteq> 0 \<longrightarrow> vs (view p) = (i \<noteq> active m))"

text \<open>Panes without a native view have the null view; the others have a view of their own.\<close>

abbreviation native_views :: "pane_handle list \<Rightarrow> u64 list" where
  "native_views ps \<equiv> filter (\<lambda>v. v \<noteq> 0) (map view ps)"

definition views_distinct :: "tab_manager \<Rightarrow> bool" where
  "views_distinct m \<longleftrightarrow> distinct (native_views (tabs_all_panes m))"

lemma set_hidden_views:
  "set_hidden t h vs v = (if v \<in> view ` set (all_panes t) then h else vs v)"
proof -
  have "set_hidden_recursive n h vs v = (if v \<in> view ` snd ` set (leaves n) then h else vs v)" for n
    by (induction n arbitrary: vs) auto
  then show ?thesis
    by (auto simp: set_hidden_def all_panes_entries entries_def split: option.splits)
qed

lemma views_distinct_disjoint:
  assumes "views_distinct m" and "i < length (tabs m)" and "j < length (tabs m)" and "i \<noteq> j"
    and "p \<in> set (all_panes (tree (tabs m ! i)))" and "view p \<noteq> 0"
  shows "view p \<notin> view ` set (all_panes (tree (tabs m ! j)))"
proof -
  have "distinct (concat (map (\<lambda>t. native_views (all_panes (tree t))) (tabs m)))"
    using assms(1) by (simp add: views_distinct_def tabs_all_panes_def map_concat filter_concat comp_def)
  from distinct_concat_disjoint [OF this, of i j] assms(2-6) show ?thesis by auto
qed

lemma views_distinct_sub:
  assumes "views_distinct m" and "mset (tabs_all_panes m') \<subseteq># mset (tabs_all_panes m)"
  shows "views_distinct m'"
proof -
  have "mset (native_views (tabs_all_panes m')) \<subseteq># mset (native_views (tabs_all_panes m))"
    using multiset_filter_mono [OF image_mset_subseteq_mono [OF assms(2), of view], of "\<lambda>v. v \<noteq> 0"] by simp
  then show ?thesis
    using assms(1) unfolding views_distinct_def distinct_count_atmost_1
    by (metis (no_types, lifting) count_greater_zero_iff le_antisym less_one mset_subset_eq_count
        not_le set_mset_mset not_in_iff linorder_not_less le_zero_eq)
qed

lemma shows_new_tab:
  assumes sh: "shows_active m vs" and act: "tabs m \<noteq> [] \<Longrightarrow> active m < length (tabs m)"
    and p: "view p \<noteq> 0 \<Longrightarrow> \<not> vs (view p)" "view p \<noteq> 0 \<Longrightarrow> view p \<notin> view ` set (tabs_all_panes m)"
  shows "shows_active (fst (snd (new_tab p (m, vs)))) (snd (snd (new_tab p (m, vs))))"
proof -
  let ?vs = "snd (snd (new_tab p (m, vs)))"
  have vs: "?vs v = (if active m < length (tabs m) \<and> v \<in> view ` set (all_panes (tree (tabs m ! active m)))
      then True else vs v)" for v
    by (auto simp: new_tab_def allocate_tab_id_def Let_def get_at_def set_hidden_views)
  have hid: "?vs (view q)" if "i < length (tabs m)" "q \<in> set (all_panes (tree (tabs m ! i)))" "view q \<noteq> 0" for i q
    using that sh act by (cases "i = active m") (auto simp: vs shows_active_def)
  have "view p \<notin> view ` set (all_panes (tree (tabs m ! active m)))" if "active m < length (tabs m)" "view p \<noteq> 0"
  proof -
    have "set (all_panes (tree (tabs m ! active m))) \<subseteq> set (tabs_all_panes m)"
      using nth_mem [OF that(1)] by (auto simp: tabs_all_panes_def)
    then show ?thesis using p(2) that(2) by blast
  qed
  then have "view p \<noteq> 0 \<Longrightarrow> \<not> ?vs (view p)" using p(1) by (auto simp: vs)
  moreover have "active (fst (snd (new_tab p (m, vs)))) = length (tabs m)"
    by (simp add: new_tab_def allocate_tab_id_def Let_def)
  ultimately show ?thesis
    using hid by (auto simp: shows_active_def new_tab_tabs nth_append less_Suc_eq)
qed

lemma shows_goto:
  assumes "shows_active m vs" and d: "views_distinct m" and "goto_tab i (m, vs) = Some (ok, m', vs')"
  shows "shows_active m' vs'"
proof (cases "i \<ge> length (tabs m) \<or> i = active m")
  case True
  then have "goto_tab i (m, vs) = Some (False, m, vs)" by (simp add: goto_tab_def)
  with assms show ?thesis by simp
next
  case False
  with assms(3) have act: "active m < length (tabs m)" and i: "i < length (tabs m)" "i \<noteq> active m"
    and m': "m' = m\<lparr>prev_active := active m, active := i\<rparr>"
    and vs': "vs' = set_hidden (tree (tabs m ! i)) False (set_hidden (tree (tabs m ! active m)) True vs)"
    by (auto simp: goto_tab_def Let_def split: if_splits)
  show ?thesis
    unfolding shows_active_def
  proof (intro allI impI ballI)
    fix k q
    assume k: "k < length (tabs m')" and q: "q \<in> set (all_panes (tree (tabs m' ! k)))" and q0: "view q \<noteq> 0"
    show "vs' (view q) = (k \<noteq> active m')"
    proof (cases "k = i")
      case True
      with q m' show ?thesis by (simp add: vs' set_hidden_views)
    next
      case False
      with views_distinct_disjoint [OF d _ i(1) _ _ q0] k q m'
      have ni: "view q \<notin> view ` set (all_panes (tree (tabs m ! i)))" by simp
      show ?thesis
        using ni False k q q0 m' assms(1) by (cases "k = active m") (auto simp: vs' set_hidden_views shows_active_def)
    qed
  qed
qed

lemma shows_remove_tab:
  assumes sh: "\<And>k q. k < length (tabs m) \<Longrightarrow> q \<in> set (all_panes (tree (tabs m ! k))) \<Longrightarrow>
      view q \<noteq> 0 \<Longrightarrow> vs (view q) = (k \<noteq> active m)"
    and d: "views_distinct m" and i: "i < length (tabs m)" and act: "active m < length (tabs m)"
  shows "shows_active (fst (snd (remove_tab i (m, vs)))) (snd (snd (remove_tab i (m, vs))))"
proof -
  let ?m = "fst (snd (remove_tab i (m, vs)))" and ?vs = "snd (snd (remove_tab i (m, vs)))"
  let ?up = "\<lambda>k. if k < i then k else Suc k"
  have len: "length (tabs ?m) = length (tabs m) - 1"
    using i by (simp add: remove_tab_tabs length_remove_at)
  have at: "tabs ?m ! k = tabs m ! ?up k" if "k < length (tabs m) - 1" for k
    using that i by (simp add: remove_tab_tabs nth_remove_at)
  have am: "active ?m = (if length (tabs m) = 1 then 0 else if active m \<ge> length (tabs m) - 1
      then length (tabs m) - 2 else if active m > i then active m - 1 else active m)"
    using len i by (auto simp: remove_tab_def Let_def length_remove_at)
  have vs: "?vs v = (if active ?m < length (tabs m) - 1 \<and>
        v \<in> view ` set (all_panes (tree (tabs ?m ! active ?m))) then False
      else if v \<in> view ` set (all_panes (tree (tabs m ! i))) then True else vs v)" for v
    using len i by (auto simp: remove_tab_def Let_def get_at_def set_hidden_views length_remove_at)
  show ?thesis
    unfolding shows_active_def
  proof (intro allI impI ballI)
    fix k q
    assume k: "k < length (tabs ?m)" and q: "q \<in> set (all_panes (tree (tabs ?m ! k)))" and q0: "view q \<noteq> 0"
    then have kl: "k < length (tabs m) - 1" "?up k < length (tabs m)" using len by auto
    have q': "q \<in> set (all_panes (tree (tabs m ! ?up k)))" using q at [OF kl(1)] by simp
    show "?vs (view q) = (k \<noteq> active ?m)"
    proof (cases "k = active ?m")
      case True
      with q k len show ?thesis unfolding vs by simp
    next
      case False
      have a': "active ?m < length (tabs m) - 1" using kl(1) am act by auto
      have "?up k \<noteq> ?up (active ?m)" using False by auto
      moreover have "?up (active ?m) < length (tabs m)" using a' by auto
      ultimately have n1: "view q \<notin> view ` set (all_panes (tree (tabs ?m ! active ?m)))"
        using views_distinct_disjoint [OF d kl(2) _ _ q' q0] at [OF a'] by simp
      have n2: "view q \<notin> view ` set (all_panes (tree (tabs m ! i)))"
        using views_distinct_disjoint [OF d kl(2) i _ q' q0] by auto
      have "?up k \<noteq> active m" using False am kl(1) act i by (auto split: if_splits)
      then have "vs (view q)" using sh [OF kl(2) q' q0] by simp
      with n1 n2 False show ?thesis unfolding vs by simp
    qed
  qed
qed

lemma shows_update_at:
  assumes "shows_active m vs" and "i < length (tabs m)"
    and "\<And>p. p \<in> set (all_panes (tree t)) \<Longrightarrow>
           view p \<noteq> 0 \<Longrightarrow> p \<in> set (all_panes (tree (tabs m ! i))) \<or> i = active m \<and> \<not> vs (view p)"
  shows "shows_active (m\<lparr>tabs := (tabs m)[i := t]\<rparr>) vs"
  unfolding shows_active_def
proof (intro allI impI ballI)
  fix k p
  assume k: "k < length (tabs (m\<lparr>tabs := (tabs m)[i := t]\<rparr>))"
    and p: "p \<in> set (all_panes (tree (tabs (m\<lparr>tabs := (tabs m)[i := t]\<rparr>) ! k)))" and p0: "view p \<noteq> 0"
  show "vs (view p) = (k \<noteq> active (m\<lparr>tabs := (tabs m)[i := t]\<rparr>))"
  proof (cases "k = i")
    case True
    with p assms(2) have "p \<in> set (all_panes (tree t))" by simp
    from assms(3) [OF this p0] show ?thesis using True p0 assms(1,2) by (auto simp: shows_active_def)
  next
    case False
    with k p p0 assms(1) show ?thesis by (auto simp: shows_active_def)
  qed
qed

lemma shows_update_active:
  assumes "shows_active m vs"
    and "\<And>t p. get_at (tabs m) (active m) = Some t \<Longrightarrow> p \<in> set (all_panes (tree (snd (f t)))) \<Longrightarrow>
           view p \<noteq> 0 \<Longrightarrow> p \<in> set (all_panes (tree t)) \<or> \<not> vs (view p)"
  shows "shows_active (snd (update_active_tab f d m)) vs"
proof (cases "get_at (tabs m) (active m)")
  case None
  with assms show ?thesis by (simp add: update_active_tab_def)
next
  case (Some t)
  then have t: "active m < length (tabs m)" "t = tabs m ! active m" by (simp_all add: get_at_Some)
  have "shows_active (m\<lparr>tabs := (tabs m)[active m := snd (f t)]\<rparr>) vs"
    by (rule shows_update_at [OF assms(1) t(1)]) (use assms(2) [OF Some] t in auto)
  with Some show ?thesis by (simp add: update_active_tab_def case_prod_beta)
qed

section \<open>Operations as commands\<close>

datatype tab_cmd =
    MInitial pane_handle
  | MNew pane_handle
  | MGoto nat
  | MNext
  | MPrev
  | MRemoveTab nat
  | MRemovePane pane_id_t
  | MBreak
  | MFocusPane pane_id_t
  | MTitle rust_string
  | MLayout tab_layout
  | MCycle bool
  | MRotate bool
  | MSwap bool
  | MRebalance
  | MRunning pane_id_t "running_cmd option"
  | MTree tree_cmd

text \<open>An operation on the tree of the active tab, through \<open>active_tree_mut\<close>.\<close>

definition tree_mut :: "tree_cmd \<Rightarrow> tab_manager \<Rightarrow> tab_manager" where
  "tree_mut c m = snd (update_active_tab (\<lambda>t. ((), t\<lparr>tree := tree_step c (tree t)\<rparr>)) () m)"

definition opt_list :: "'a option \<Rightarrow> 'a list" where
  "opt_list x = (case x of None \<Rightarrow> [] | Some y \<Rightarrow> [y])"

text \<open>One call: the panes it returns to the caller and the next state, \<open>None\<close> for a panic.\<close>

fun tab_step :: "tab_cmd \<Rightarrow> tab_manager \<times> views \<Rightarrow> (pane_handle list \<times> tab_manager \<times> views) option" where
  "tab_step (MInitial p) (m, vs) = Some ([], add_initial_tab p m, vs)"
| "tab_step (MNew p) (m, vs) = Some ([], snd (new_tab p (m, vs)))"
| "tab_step (MGoto i) (m, vs) = map_option (\<lambda>r. ([], snd r)) (goto_tab i (m, vs))"
| "tab_step MNext (m, vs) = map_option (\<lambda>r. ([], snd r)) (next_tab (m, vs))"
| "tab_step MPrev (m, vs) = map_option (\<lambda>r. ([], snd r)) (prev_tab (m, vs))"
| "tab_step (MRemoveTab i) (m, vs) = Some (remove_tab i (m, vs))"
| "tab_step (MRemovePane pid) (m, vs) =
     (let (p, mv) = remove_pane_by_id pid (m, vs) in Some (opt_list p, mv))"
| "tab_step MBreak (m, vs) = Some ([], snd (break_active_pane_to_tab (m, vs)))"
| "tab_step (MFocusPane pid) (m, vs) = Some ([], snd (focus_active_pane_by_id pid m), vs)"
| "tab_step (MTitle s) (m, vs) = Some ([], set_active_title s m, vs)"
| "tab_step (MLayout l) (m, vs) = Some ([], snd (apply_layout_to_active l m), vs)"
| "tab_step (MCycle fwd) (m, vs) = Some ([], snd (cycle_active_layout fwd m), vs)"
| "tab_step (MRotate fwd) (m, vs) = Some ([], snd (rotate_active_panes fwd m), vs)"
| "tab_step (MSwap nxt) (m, vs) = Some ([], snd (swap_active_pane_with_adjacent nxt m), vs)"
| "tab_step MRebalance (m, vs) = Some ([], snd (rebalance_active_layout m), vs)"
| "tab_step (MRunning pid rc) (m, vs) = Some ([], snd (set_running_command_for_pane pid rc m), vs)"
| "tab_step (MTree c) (m, vs) =
     Some (case active_tree m of None \<Rightarrow> [] | Some t \<Rightarrow> panes_out c t, tree_mut c m, vs)"

text \<open>The panes a call brings in.\<close>

fun tab_ins :: "tab_cmd \<Rightarrow> tab_manager \<Rightarrow> pane_handle list" where
  "tab_ins (MInitial p) m = [p]"
| "tab_ins (MNew p) m = [p]"
| "tab_ins (MTree c) m = (case active_tree m of None \<Rightarrow> [] | Some t \<Rightarrow> panes_in c t)"
| "tab_ins c m = []"

text \<open>
  What the callers provide: identifiers left in the 32-bit counter; a first tab only once; a tree
  operation that neither replaces nor empties the tree and focuses leaves of it only; new panes without a
  native view, or with one that is shown and not in use.
\<close>

fun tab_guard :: "tab_cmd \<Rightarrow> tab_manager \<Rightarrow> bool" where
  "tab_guard (MInitial p) m = (tabs m = [] \<and> next_tab_id m \<noteq> - 1)"
| "tab_guard (MNew p) m = (next_tab_id m \<noteq> - 1)"
| "tab_guard MBreak m = (next_tab_id m \<noteq> - 1)"
| "tab_guard (MTree c) m =
     (\<not> resets_tree c \<and> (case active_tree m of None \<Rightarrow> True
        | Some t \<Rightarrow> tree_guard c t \<and> root (tree_step c t) \<noteq> None))"
| "tab_guard c m = True"

definition ins_fresh :: "tab_cmd \<Rightarrow> tab_manager \<Rightarrow> views \<Rightarrow> bool" where
  "ins_fresh c m vs \<longleftrightarrow>
     (\<forall>p \<in> set (tab_ins c m). view p \<noteq> 0 \<longrightarrow> \<not> vs (view p) \<and> view p \<notin> view ` set (tabs_all_panes m))"

inductive tab_reach :: "tab_manager \<times> views \<Rightarrow> bool" where
  mr_new: "tab_reach (tabs_new, vs)"
| mr_step: "tab_reach (m, vs) \<Longrightarrow> tab_guard c m \<Longrightarrow> ins_fresh c m vs \<Longrightarrow>
     tab_step c (m, vs) = Some (outs, mv') \<Longrightarrow> tab_reach mv'"

section \<open>Every call is total, keeps the invariant and the panes\<close>

lemma goto_tab_pool:
  assumes "tabs_wf m"
  obtains ok m' vs' where "goto_tab i (m, vs) = Some (ok, m', vs')" and "tabs_wf m'"
    and "tabs_all_panes m' = tabs_all_panes m"
  using goto_tab_total [OF assms, of i vs] by (metis tabs_all_panes_def)

lemma next_prev_goto:
  "\<exists>i. next_tab (m, vs) = goto_tab i (m, vs)" "\<exists>i. prev_tab (m, vs) = goto_tab i (m, vs)"
proof -
  have stay: "goto_tab (active m) (m, vs) = Some (False, m, vs)" by (simp add: goto_tab_def)
  show "\<exists>i. next_tab (m, vs) = goto_tab i (m, vs)"
    using stay [symmetric] by (cases "length (tabs m) \<le> 1") (auto simp: next_tab_def simp del: One_nat_def)
  show "\<exists>i. prev_tab (m, vs) = goto_tab i (m, vs)"
    using stay [symmetric] by (cases "length (tabs m) \<le> 1") (auto simp: prev_tab_def simp del: One_nat_def)
qed

lemma mset_balance: "A + T = M + S \<Longrightarrow> S + U = T + I \<Longrightarrow> A + U = M + (I :: 'a multiset)"
proof -
  assume 1: "A + T = M + S" and 2: "S + U = T + I"
  have "(A + U) + T = M + (S + U)" using 1 by (simp add: ac_simps)
  also have "\<dots> = (M + I) + T" using 2 by (simp add: ac_simps)
  finally show ?thesis by simp
qed

lemma map_tabs_wf:
  "tabs_wf m \<Longrightarrow> (\<And>t. tab_ok t \<Longrightarrow> tab_ok (g t)) \<Longrightarrow> (\<And>t. tab_id (g t) = tab_id t) \<Longrightarrow>
     tabs_wf (m\<lparr>tabs := map g (tabs m)\<rparr>)"
  by (simp add: tabs_wf_def ids_fresh_def comp_def)

lemma running_tabs:
  "tabs_all_panes (snd (set_running_command_for_pane pid rc m)) = tabs_all_panes m"
  "tabs_wf m \<Longrightarrow> tabs_wf (snd (set_running_command_for_pane pid rc m))"
proof -
  let ?f = "\<lambda>t. if pane_id (focused_pane (tree t)) = pid \<and> running_command t \<noteq> rc
                then t\<lparr>running_command := rc\<rparr> else t"
  have eq: "snd (set_running_command_for_pane pid rc m) = m\<lparr>tabs := map ?f (tabs m)\<rparr>"
    by (simp add: set_running_command_for_pane_def Let_def)
  have f: "tree (?f t) = tree t" "tab_id (?f t) = tab_id t" for t by simp_all
  show "tabs_all_panes (snd (set_running_command_for_pane pid rc m)) = tabs_all_panes m"
    unfolding eq by (simp add: tabs_all_panes_def comp_def f)
  assume wf: "tabs_wf m"
  show "tabs_wf (snd (set_running_command_for_pane pid rc m))"
    unfolding eq by (rule map_tabs_wf [OF wf]) (simp_all add: tab_ok_def)
qed

lemma tree_mut_step:
  assumes wf: "tabs_wf m" and g: "tab_guard (MTree c) m"
  shows "tabs_wf (tree_mut c m)"
    and "mset (tabs_all_panes (tree_mut c m))
           + mset (case active_tree m of None \<Rightarrow> [] | Some t \<Rightarrow> panes_out c t)
         = mset (tabs_all_panes m) + mset (tab_ins (MTree c) m)"
proof -
  have "tabs_wf (tree_mut c m) \<and> mset (tabs_all_panes (tree_mut c m))
           + mset (case active_tree m of None \<Rightarrow> [] | Some t \<Rightarrow> panes_out c t)
         = mset (tabs_all_panes m) + mset (tab_ins (MTree c) m)"
  proof (cases "get_at (tabs m) (active m)")
    case None
    with wf show ?thesis by (simp add: tree_mut_def update_active_tab_def active_tree_def)
  next
    case (Some t)
    then have t: "active m < length (tabs m)" "t = tabs m ! active m" by (simp_all add: get_at_Some)
    then have ok: "tab_ok t" using tabs_wfD(1) [OF wf] by simp
    let ?t = "t\<lparr>tree := tree_step c (tree t)\<rparr>"
    have eq: "tree_mut c m = m\<lparr>tabs := (tabs m)[active m := ?t]\<rparr>" and a: "active_tree m = Some (tree t)"
      using Some by (simp_all add: tree_mut_def update_active_tab_def active_tree_def)
    have nr: "\<not> resets_tree c" and tg: "tree_guard c (tree t)" and ne: "root (tree_step c (tree t)) \<noteq> None"
      using g a by simp_all
    have "tab_ok ?t"
      using tree_step_wf [OF tree_sel_ok(1) [OF ok] tg] ne
      by (simp add: tab_ok_def)
    then have "tabs_wf (tree_mut c m)"
      using wf t unfolding eq
      by (auto simp: tabs_wf_def intro!: ids_fresh_update dest!: set_update_subset_insert [THEN subsetD])
    moreover have "mset (tabs_all_panes (tree_mut c m)) + mset (all_panes (tree t))
        = mset (tabs_all_panes m) + mset (all_panes (tree_step c (tree t)))"
      using tabs_pool_update [OF t(1), of ?t] t(2) unfolding eq by simp
    ultimately show ?thesis
      using mset_balance [OF _ tree_step_conserves [OF tree_sel_ok(1) [OF ok] nr]] a by simp
  qed
  then show "tabs_wf (tree_mut c m)"
    and "mset (tabs_all_panes (tree_mut c m))
           + mset (case active_tree m of None \<Rightarrow> [] | Some t \<Rightarrow> panes_out c t)
         = mset (tabs_all_panes m) + mset (tab_ins (MTree c) m)" by blast+
qed

lemma goto_step:
  assumes wf: "tabs_wf m"
  shows "\<exists>outs mv'. map_option (\<lambda>r. ([], snd r)) (goto_tab i (m, vs)) = Some (outs, mv') \<and>
    tabs_wf (fst mv') \<and> mset (tabs_all_panes (fst mv')) + mset outs = mset (tabs_all_panes m)"
proof -
  from goto_tab_pool [OF wf, of i vs] obtain ok m' vs' where
    "goto_tab i (m, vs) = Some (ok, m', vs')" "tabs_wf m'" "tabs_all_panes m' = tabs_all_panes m"
    by metis
  then show ?thesis by simp
qed

lemma tab_step_ok:
  assumes wf: "tabs_wf m" and g: "tab_guard c m"
  shows "\<exists>outs mv'. tab_step c (m, vs) = Some (outs, mv') \<and> tabs_wf (fst mv') \<and>
    mset (tabs_all_panes (fst mv')) + mset outs = mset (tabs_all_panes m) + mset (tab_ins c m)"
proof (cases c)
  case (MInitial p)
  then show ?thesis
    using add_initial_wf [OF wf] g tabs_pool_new [of p m vs]
    by (simp add: add_initial_tab_def tabs_all_panes_def Let_def allocate_tab_id_def)
next
  case (MNew p)
  then show ?thesis
    using new_tab_wf [OF wf, of p vs] g tabs_pool_new [of p m vs] by (cases "snd (new_tab p (m, vs))") auto
next
  case (MGoto i)
  then show ?thesis using goto_step [OF wf] by simp
next
  case MNext
  then show ?thesis using goto_step [OF wf] next_prev_goto(1) [of m vs] by auto
next
  case MPrev
  then show ?thesis using goto_step [OF wf] next_prev_goto(2) [of m vs] by auto
next
  case (MRemoveTab i)
  show ?thesis
  proof (cases "i < length (tabs m)")
    case True
    have "tabs_wf (fst (snd (remove_tab i (m, vs))))"
      by (rule remove_tab_wf) (use wf True tabs_wfD [OF wf] in \<open>auto simp: tabs_wf_def\<close>)
    with MRemoveTab show ?thesis
      using tabs_pool_remove [OF True, of vs] remove_tab_tabs(2) [OF True, of vs]
      by (cases "remove_tab i (m, vs)") auto
  next
    case False
    with MRemoveTab wf show ?thesis by (simp add: remove_tab_def)
  qed
next
  case (MRemovePane pid)
  then show ?thesis
    using remove_pane_by_id_wf(1,2) [OF wf, of pid vs]
    by (cases "remove_pane_by_id pid (m, vs)") (auto simp: opt_list_def)
next
  case MBreak
  then show ?thesis
    using break_wf [OF wf, of vs] break_panes [OF wf, of vs] g
    by (cases "snd (break_active_pane_to_tab (m, vs))") auto
next
  case (MTree tc)
  then show ?thesis using tree_mut_step [OF wf] g by simp
qed (use active_ops_wf [OF wf] active_ops_panes [OF wf] layout_panes_same [OF wf] running_tabs wf in simp_all)

section \<open>Every call keeps the visibility\<close>

lemma mset_set_eq: "mset xs = mset ys \<Longrightarrow> set xs = set ys"
  by (metis set_mset_mset)

lemma shows_update_same:
  assumes wf: "tabs_wf m" and "shows_active m vs"
    and "\<And>t. tab_ok t \<Longrightarrow> mset (all_panes (tree (snd (f t)))) = mset (all_panes (tree t))"
  shows "shows_active (snd (update_active_tab f d m)) vs"
proof (rule shows_update_active [OF assms(2)])
  fix t p
  assume g: "get_at (tabs m) (active m) = Some t" and p: "p \<in> set (all_panes (tree (snd (f t))))"
  then have "t \<in> set (tabs m)" by (auto simp: get_at_Some)
  then have "mset (all_panes (tree (snd (f t)))) = mset (all_panes (tree t))"
    using assms(3) tabs_wfD(1) [OF wf] by blast
  with p show "p \<in> set (all_panes (tree t)) \<or> \<not> vs (view p)" using mset_set_eq by blast
qed

lemma shows_active_ops:
  assumes wf: "tabs_wf m" and sh: "shows_active m vs"
  shows "shows_active (snd (focus_active_pane_by_id pid m)) vs"
    and "shows_active (set_active_title s m) vs"
    and "shows_active (snd (rotate_active_panes fwd m)) vs"
    and "shows_active (snd (swap_active_pane_with_adjacent nxt m)) vs"
    and "shows_active (snd (rebalance_active_layout m)) vs"
    and "shows_active (snd (apply_layout_to_active l m)) vs"
    and "shows_active (snd (cycle_active_layout fwd m)) vs"
proof -
  show "shows_active (snd (focus_active_pane_by_id pid m)) vs"
    and "shows_active (set_active_title s m) vs"
    and "shows_active (snd (rotate_active_panes fwd m)) vs"
    and "shows_active (snd (swap_active_pane_with_adjacent nxt m)) vs"
    and "shows_active (snd (rebalance_active_layout m)) vs"
    unfolding focus_active_pane_by_id_def set_active_title_def rotate_active_panes_def
      swap_active_pane_with_adjacent_def rebalance_active_layout_def
    by (rule shows_update_same [OF wf sh], simp add: tab_ok_def case_prod_beta set_focus_to_pane_panes
        rotate_panes_mset swap_focused_mset rebalance_panes)+
  have app: "shows_active (snd (apply_layout_to_active l m)) vs" for l
    unfolding apply_layout_to_active_def
    by (rule shows_update_same [OF wf sh])
       (use rebuild_same [OF _ _ refl] in \<open>auto simp: tab_ok_def case_prod_beta Let_def\<close>)
  show "shows_active (snd (apply_layout_to_active l m)) vs" by (rule app)
  show "shows_active (snd (cycle_active_layout fwd m)) vs"
    unfolding cycle_active_layout_def Let_def by (rule app)
qed

lemma remove_tab_view:
  assumes i: "i < length (tabs m)" and "v \<notin> view ` set (all_panes (tree (tabs m ! i)))"
    and "\<And>t. t \<in> set (remove_at i (tabs m)) \<Longrightarrow> v \<notin> view ` set (all_panes (tree t))"
  shows "snd (snd (remove_tab i (m, vs))) v = vs v"
proof -
  define m2 where "m2 = fst (snd (remove_tab i (m, vs)))"
  have m2: "tabs m2 = remove_at i (tabs m)" using i by (simp add: m2_def remove_tab_tabs)
  have eq: "snd (snd (remove_tab i (m, vs))) =
      (case get_at (tabs m2) (active m2) of
         Some t \<Rightarrow> set_hidden (tree t) False (set_hidden (tree (tabs m ! i)) True vs)
       | None \<Rightarrow> set_hidden (tree (tabs m ! i)) True vs)"
    using i unfolding m2_def by (simp add: remove_tab_def Let_def)
  show ?thesis
  proof (cases "get_at (tabs m2) (active m2)")
    case None
    with eq assms(2) show ?thesis by (simp add: set_hidden_views)
  next
    case (Some t)
    then have "t \<in> set (remove_at i (tabs m))" using m2 by (auto simp: get_at_Some)
    from assms(3) [OF this] Some eq assms(2) show ?thesis by (simp add: set_hidden_views)
  qed
qed

text \<open>Dropping panes from one tab, and the tab with them when it is empty.\<close>

lemma shows_shrink:
  assumes wf: "tabs_wf m" and sh: "shows_active m vs" and d: "views_distinct m" and i: "i < length (tabs m)"
    and sub: "set (all_panes tr) \<subseteq> set (all_panes (tree (tabs m ! i)))"
    and ms: "mset (all_panes tr) \<subseteq># mset (all_panes (tree (tabs m ! i)))"
  defines "m1 \<equiv> m\<lparr>tabs := (tabs m)[i := (tabs m ! i)\<lparr>tree := tr, layout := Manual\<rparr>]\<rparr>"
  defines "r \<equiv> (if all_panes tr = [] then snd (remove_tab i (m1, vs)) else (m1, vs))"
  shows "shows_active (fst r) (snd r)"
    and "set (tabs_all_panes (fst r)) \<subseteq> set (tabs_all_panes m1)"
    and "\<And>v. v \<notin> view ` set (tabs_all_panes m1) \<Longrightarrow> snd r v = vs v"
proof -
  have s1: "shows_active m1 vs"
    unfolding m1_def by (rule shows_update_at [OF sh i]) (use sub in auto)
  have act: "active m1 < length (tabs m1)" and i1: "i < length (tabs m1)"
    using tabs_wfD(2) [OF wf] i by (force simp: m1_def)+
  have "mset (tabs_all_panes m1) \<subseteq># mset (tabs_all_panes m)"
    using tabs_pool_update [OF i, of "(tabs m ! i)\<lparr>tree := tr, layout := Manual\<rparr>"] ms
    unfolding m1_def by simp
      (metis (no_types, lifting) add.commute mset_subset_eq_mono_add_left_cancel mset_subset_eq_mono_add
        subset_mset.order_refl)
  then have d1: "views_distinct m1" using views_distinct_sub [OF d] by blast
  show "shows_active (fst r) (snd r)"
    using s1 shows_remove_tab [OF _ d1 i1 act, of vs] unfolding r_def
    by (auto simp: shows_active_def)
  show "set (tabs_all_panes (fst r)) \<subseteq> set (tabs_all_panes m1)"
  proof (cases "all_panes tr = []")
    case True
    have "mset (tabs_all_panes (fst (snd (remove_tab i (m1, vs))))) \<subseteq># mset (tabs_all_panes m1)"
      using tabs_pool_remove [OF i1, of vs] by (metis mset_subset_eq_add_left)
    from set_mset_mono [OF this] True show ?thesis by (simp add: r_def)
  qed (simp add: r_def)
  have gm: "v \<in> view ` set (all_panes (tree t)) \<Longrightarrow> t \<in> set (tabs m1) \<Longrightarrow> v \<in> view ` set (tabs_all_panes m1)" for v t
    by (auto simp: tabs_all_panes_def)
  show "snd r v = vs v" if v: "v \<notin> view ` set (tabs_all_panes m1)" for v
  proof (cases "all_panes tr = []")
    case True
    have nt: "v \<notin> view ` set (all_panes (tree t))" if "t \<in> set (tabs m1)" for t using gm that v by blast
    have "snd (snd (remove_tab i (m1, vs))) v = vs v"
    proof (rule remove_tab_view [OF i1])
      show "v \<notin> view ` set (all_panes (tree (tabs m1 ! i)))" by (rule nt [OF nth_mem [OF i1]])
      show "v \<notin> view ` set (all_panes (tree t))" if "t \<in> set (remove_at i (tabs m1))" for t
        by (rule nt [OF subsetD [OF set_remove_at that]])
    qed
    with True show ?thesis by (simp add: r_def)
  qed (simp add: r_def)
qed

lemma remove_pane_shows:
  assumes wf: "tabs_wf m" and sh: "shows_active m vs" and d: "views_distinct m"
  shows "shows_active (fst (snd (remove_pane_by_id pid (m, vs)))) (snd (snd (remove_pane_by_id pid (m, vs))))"
proof (cases "find_pane_location m pid")
  case None
  with sh show ?thesis by (simp add: remove_pane_by_id_def)
next
  case (Some il)
  obtain i l where loc: "find_pane_location m pid = Some (i, l)" using Some by (cases il) auto
  from remove_pane_by_id_cases [OF wf loc] obtain p tr where
    rm: "remove_pane pid (tree (tabs m ! i)) = (Some p, tr)" and tr: "tree_wf tr"
    and i: "i < length (tabs m)"
    and ms: "mset (all_panes (tree (tabs m ! i))) = add_mset p (mset (all_panes tr))" by metis
  from remove_pane_by_id_eq [OF wf loc rm tr, of vs] obtain tr2 where
    tr2: "all_panes tr2 = all_panes tr"
    and eq: "remove_pane_by_id pid (m, vs) = (Some p,
      (let m1 = m\<lparr>tabs := (tabs m)[i := (tabs m ! i)\<lparr>tree := tr2, layout := Manual\<rparr>]\<rparr>
       in if all_panes tr = [] then snd (remove_tab i (m1, vs)) else (m1, vs)))" by metis
  have sub: "set (all_panes tr2) \<subseteq> set (all_panes (tree (tabs m ! i)))"
    using arg_cong [OF ms, of set_mset] tr2 by auto
  have "mset (all_panes tr2) \<subseteq># mset (all_panes (tree (tabs m ! i)))" using ms tr2 by simp
  from shows_shrink(1) [OF wf sh d i sub this] show ?thesis
    unfolding eq Let_def using tr2 by simp
qed

lemma break_shows:
  assumes wf: "tabs_wf m" and sh: "shows_active m vs" and d: "views_distinct m"
    and nid: "next_tab_id m \<noteq> - 1"
  shows "shows_active (fst (snd (break_active_pane_to_tab (m, vs)))) (snd (snd (break_active_pane_to_tab (m, vs))))"
proof (cases "tabs m = []")
  case True
  with sh show ?thesis by (simp add: break_active_pane_to_tab_def get_at_def)
next
  case False
  let ?p = "tabs_focused_pane m"
  have act: "active m < length (tabs m)" using tabs_wfD(2) [OF wf False] .
  then have ok: "tab_ok (tabs m ! active m)" using tabs_wfD(1) [OF wf] by simp
  from break_eq [OF wf False, of vs] obtain tr where
    rm: "remove_focused (tree (tabs m ! active m)) = (Some ?p, tr)" and tr: "tree_wf tr"
    and eq: "break_active_pane_to_tab (m, vs) =
      (let m1 = m\<lparr>tabs := (tabs m)[active m := (tabs m ! active m)\<lparr>tree := tr, layout := Manual\<rparr>]\<rparr>;
           mv2 = (if all_panes tr = [] then snd (remove_tab (active m) (m1, vs)) else (m1, vs));
           (idx, mv3) = new_tab ?p mv2
       in (Some idx, mv3))" by metis
  let ?t = "(tabs m ! active m)\<lparr>tree := tr, layout := Manual\<rparr>"
  define m1 where "m1 = m\<lparr>tabs := (tabs m)[active m := ?t]\<rparr>"
  define r where "r = (if all_panes tr = [] then snd (remove_tab (active m) (m1, vs)) else (m1, vs))"
  have ms: "mset (all_panes (tree (tabs m ! active m))) = add_mset ?p (mset (all_panes tr))"
    using remove_focused_mset [of "tree (tabs m ! active m)"] remove_focused_Some(1) tree_sel_ok [OF ok] rm
    by (metis fst_conv option.inject snd_conv)
  have sub: "set (all_panes tr) \<subseteq> set (all_panes (tree (tabs m ! active m)))"
    using arg_cong [OF ms, of set_mset] by auto
  have "mset (all_panes tr) \<subseteq># mset (all_panes (tree (tabs m ! active m)))" using ms by simp
  note shr = shows_shrink [OF wf sh d act sub this, folded m1_def, folded r_def]
  have "add_mset ?p (mset (tabs_all_panes m1)) = mset (tabs_all_panes m)"
    using tabs_pool_update [OF act, of ?t] ms by (simp add: m1_def)
  from arg_cong [OF this, of "\<lambda>M. filter_mset (\<lambda>v. v \<noteq> 0) (image_mset view M)"]
  have "mset (native_views (tabs_all_panes m)) = mset (native_views (?p # tabs_all_panes m1))" by (auto split: if_splits)
  then have "distinct (native_views (?p # tabs_all_panes m1))"
    using d mset_eq_imp_distinct_iff unfolding views_distinct_def by blast
  then have np: "view ?p \<notin> view ` set (tabs_all_panes m1)" if "view ?p \<noteq> 0" using that by auto
  have "?p \<in> set (all_panes (tree (tabs m ! active m)))" using arg_cong [OF ms, of set_mset] by auto
  then have "\<not> vs (view ?p)" if "view ?p \<noteq> 0" using sh act that by (simp add: shows_active_def)
  then have vp: "\<not> snd r (view ?p)" if "view ?p \<noteq> 0" using shr(3) [OF np [OF that]] that by simp
  have np': "view ?p \<notin> view ` set (tabs_all_panes (fst r))" if "view ?p \<noteq> 0" using np [OF that] shr(2) by blast
  have ids: "ids_fresh (next_tab_id m1) (tabs m1)"
    using ids_fresh_update [OF tabs_wfD(3) [OF wf] act, of ?t] by (simp add: m1_def)
  have "tabs_wf (fst r)"
  proof (cases "all_panes tr = []")
    case True
    have "tabs_wf (fst (snd (remove_tab (active m) (m1, vs))))"
      by (rule remove_tab_wf) (use act ids tabs_wfD(1) [OF wf] in \<open>auto simp: m1_def nth_list_update\<close>)
    with True show ?thesis by (simp add: r_def)
  next
    case False
    then have "tab_ok ?t" using tr all_panes_Nil [of tr] by (simp add: tab_ok_def)
    with False act ids tabs_wfD(1) [OF wf] show ?thesis
      by (auto simp: m1_def r_def tabs_wf_def dest!: set_update_subset_insert [THEN subsetD])
  qed
  from shows_new_tab [OF shr(1) tabs_wfD(2) [OF this] vp np'] show ?thesis
    unfolding eq Let_def m1_def [symmetric] r_def [symmetric]
    by (simp add: case_prod_beta)
qed

lemma running_shows:
  "shows_active m vs \<Longrightarrow> shows_active (snd (set_running_command_for_pane pid rc m)) vs"
  by (auto simp: shows_active_def set_running_command_for_pane_def Let_def)

lemma tree_mut_shows:
  assumes wf: "tabs_wf m" and g: "tab_guard (MTree c) m" and sh: "shows_active m vs"
    and fr: "ins_fresh (MTree c) m vs"
  shows "shows_active (tree_mut c m) vs"
  unfolding tree_mut_def
proof (rule shows_update_active [OF sh])
  fix t p
  assume t: "get_at (tabs m) (active m) = Some t"
    and p: "p \<in> set (all_panes (tree (snd ((), t\<lparr>tree := tree_step c (tree t)\<rparr>))))" and p0: "view p \<noteq> 0"
  then have ok: "tab_ok t" using tabs_wfD(1) [OF wf] by (auto simp: get_at_Some)
  have a: "active_tree m = Some (tree t)" using t by (simp add: active_tree_def)
  then have "\<not> resets_tree c" using g by simp
  from tree_step_conserves [OF tree_sel_ok(1) [OF ok] this]
  have "mset (all_panes (tree_step c (tree t))) \<subseteq># mset (all_panes (tree t)) + mset (panes_in c (tree t))"
    by (metis mset_subset_eq_add_left)
  from set_mset_mono [OF this] p have "p \<in> set (all_panes (tree t)) \<or> p \<in> set (panes_in c (tree t))" by auto
  then show "p \<in> set (all_panes (tree t)) \<or> \<not> vs (view p)"
    using fr a p0 by (auto simp: ins_fresh_def)
qed

lemma tab_step_shows:
  assumes wf: "tabs_wf m" and sh: "shows_active m vs" and d: "views_distinct m"
    and g: "tab_guard c m" and fr: "ins_fresh c m vs"
    and st: "tab_step c (m, vs) = Some (outs, mv')"
  shows "shows_active (fst mv') (snd mv')"
proof (cases c)
  case (MInitial p)
  then show ?thesis
    using st g fr by (auto simp: add_initial_tab_def allocate_tab_id_def shows_active_def ins_fresh_def
        tabs_wf_def Let_def intro: wf [unfolded tabs_wf_def, THEN conjunct2, THEN conjunct1])
      (use wf g in \<open>auto simp: tabs_wf_def\<close>)
next
  case (MNew p)
  then show ?thesis
    using st fr shows_new_tab [OF sh tabs_wfD(2) [OF wf], of p] by (auto simp: ins_fresh_def)
next
  case (MGoto i)
  then show ?thesis using st shows_goto [OF sh d, of i] by auto
next
  case MNext
  then show ?thesis using st shows_goto [OF sh d] next_prev_goto(1) [of m vs] by fastforce
next
  case MPrev
  then show ?thesis using st shows_goto [OF sh d] next_prev_goto(2) [of m vs] by fastforce
next
  case (MRemoveTab i)
  show ?thesis
  proof (cases "i < length (tabs m)")
    case True
    have act: "active m < length (tabs m)" using tabs_wfD(2) [OF wf] True by force
    have "shows_active (fst (snd (remove_tab i (m, vs)))) (snd (snd (remove_tab i (m, vs))))"
      by (rule shows_remove_tab [OF _ d True act]) (use sh in \<open>auto simp: shows_active_def\<close>)
    with MRemoveTab st show ?thesis by auto
  next
    case False
    with MRemoveTab st sh show ?thesis by (auto simp: remove_tab_def)
  qed
next
  case (MRemovePane pid)
  then show ?thesis
    using st remove_pane_shows [OF wf sh d, of pid] by (auto simp: case_prod_beta)
next
  case MBreak
  then show ?thesis using st g break_shows [OF wf sh d] by auto
next
  case (MTree tc)
  then show ?thesis using st tree_mut_shows [OF wf _ sh] g fr by auto
qed (use st sh shows_active_ops [OF wf sh] running_shows [OF sh] in auto)

lemma tab_step_distinct:
  assumes wf: "tabs_wf m" and d: "views_distinct m" and g: "tab_guard c m" and fr: "ins_fresh c m vs"
    and st: "tab_step c (m, vs) = Some (outs, mv')"
  shows "views_distinct (fst mv')"
proof -
  from tab_step_ok [OF wf g, of vs] st
  have ms: "mset (tabs_all_panes (fst mv')) + mset outs = mset (tabs_all_panes m) + mset (tab_ins c m)"
    by auto
  have len: "length (tab_ins c m) \<le> 1"
  proof (cases c)
    case (MTree tc)
    have "length (panes_in tc t) \<le> 1" for t by (cases tc) auto
    with MTree show ?thesis by (auto split: option.splits)
  qed auto
  define l where "l = tabs_all_panes m @ tab_ins c m"
  have "distinct (native_views l)"
    using d fr len by (cases "tab_ins c m") (auto simp: l_def views_distinct_def ins_fresh_def)
  moreover have "mset (tabs_all_panes (fst mv')) \<subseteq># mset l"
    using ms by (metis l_def mset_append mset_subset_eq_add_left)
  then obtain rest where "mset l = mset (tabs_all_panes (fst mv')) + mset rest"
    by (metis ex_mset mset_subset_eq_exists_conv)
  from arg_cong [OF this, of "\<lambda>M. filter_mset (\<lambda>v. v \<noteq> 0) (image_mset view M)"]
  have "mset (native_views l) = mset (native_views (tabs_all_panes (fst mv') @ rest))" by simp
  ultimately have "distinct (native_views (tabs_all_panes (fst mv') @ rest))"
    using mset_eq_imp_distinct_iff by blast
  then show ?thesis by (simp add: views_distinct_def)
qed

lemma tab_reach_inv:
  "tab_reach mv \<Longrightarrow> tabs_wf (fst mv) \<and> shows_active (fst mv) (snd mv) \<and> views_distinct (fst mv)"
proof (induction rule: tab_reach.induct)
  case (mr_new vs)
  then show ?case using tabs_new_wf by (simp add: tabs_new_def shows_active_def views_distinct_def tabs_all_panes_def)
next
  case (mr_step m vs c outs mv')
  then have wf: "tabs_wf m" and sh: "shows_active m vs" and d: "views_distinct m" by simp_all
  from tab_step_ok [OF wf mr_step.hyps(2), of vs] mr_step.hyps(4) have "tabs_wf (fst mv')" by auto
  with tab_step_shows [OF wf sh d mr_step.hyps(2-4)] tab_step_distinct [OF wf d mr_step.hyps(2-4)]
  show ?case by simp
qed

section \<open>A concrete manager\<close>

definition one_tab :: tab_manager where
  "one_tab = add_initial_tab (mk_pane 1) tabs_new"

definition two_tabs :: "tab_manager \<times> views" where
  "two_tabs = snd (new_tab (mk_pane 2) (one_tab, \<lambda>_. False))"

lemma one_tab_reach: "tab_reach (one_tab, \<lambda>_. False)"
  by (rule mr_step [OF mr_new, of "MInitial (mk_pane 1)" "\<lambda>_. False" "[]"])
     (simp_all add: one_tab_def tabs_new_def ins_fresh_def tabs_all_panes_def)

lemma one_tab_simps:
  "tabs one_tab = [fresh_tab 1 (mk_pane 1)]" "active one_tab = 0" "next_tab_id one_tab = 2"
  by (simp_all add: one_tab_def add_initial_tab_def allocate_tab_id_def tabs_new_def Let_def)

lemma two_tabs_reach: "tab_reach two_tabs"
  by (rule mr_step [OF one_tab_reach, of "MNew (mk_pane 2)" "[]"])
     (simp_all add: two_tabs_def one_tab_simps ins_fresh_def tabs_all_panes_def mk_pane_def)

lemma two_tabs_simps:
  "tabs (fst two_tabs) = [fresh_tab 1 (mk_pane 1), fresh_tab 2 (mk_pane 2)]"
  "active (fst two_tabs) = 1" "next_tab_id (fst two_tabs) = 3"
  by (simp_all add: two_tabs_def new_tab_def one_tab_simps allocate_tab_id_def Let_def)

lemma two_tabs_pair: "tab_reach (fst two_tabs, snd two_tabs)"
  using two_tabs_reach by simp

section \<open>Properties\<close>

text \<open>C7: the tab manager never indexes out of range and never reaches an inconsistent state: in every state
  that calls reach which keep their callers' obligations, the active index is in range, the tab identifiers are
  distinct and below the counter, every tab has a well-formed non-empty tree, and every further such call
  returns. The obligations: the 32-bit counter of identifiers is not used up, the first tab is added once, a
  direct operation on the active tree neither replaces nor empties it and gives \<open>set_focus\<close> a leaf of it,
  and a new pane has no native view, as on Linux, or a visible one that no other pane has.\<close>

theorem tab_manager_safe:
  assumes "tab_reach (m, vs)"
  shows "tabs_wf m \<and> (\<forall>c. tab_guard c m \<longrightarrow> tab_step c (m, vs) \<noteq> None)"
proof -
  have wf: "tabs_wf m" using tab_reach_inv [OF assms] by simp
  show ?thesis
  proof (intro conjI allI impI wf)
    fix c assume "tab_guard c m"
    from tab_step_ok [OF wf this, of vs] show "tab_step c (m, vs) \<noteq> None" by auto
  qed
qed

theorem tab_manager_safe_witness: "tab_step MNext (fst two_tabs, snd two_tabs) \<noteq> None"
  using tab_manager_safe [OF two_tabs_pair] by simp

text \<open>C8: panes move between tabs without loss. For every call of the tab manager, in a state that satisfies its
  invariant and with the obligations of the callers kept (identifiers left, the first tab once, direct operations
  on the active tree neither replace nor empty it and focus leaves of it only), the panes of all tabs afterwards
  and those returned to the caller are the panes before and those brought in, with multiplicity; in particular
  breaking a pane out to a new tab keeps them all.\<close>

theorem tab_panes_conserved:
  assumes "tabs_wf m" and "tab_guard c m" and "tab_step c (m, vs) = Some (outs, mv')"
  shows "mset (tabs_all_panes (fst mv')) + mset outs = mset (tabs_all_panes m) + mset (tab_ins c m)"
  using tab_step_ok [OF assms(1,2), of vs] assms(3) by auto

theorem tab_panes_conserved_witness:
  "\<exists>mv'. tab_step MBreak (fst two_tabs, snd two_tabs) = Some ([], mv')
     \<and> mset (tabs_all_panes (fst mv')) = {# mk_pane 1, mk_pane 2 #}"
proof -
  have wf: "tabs_wf (fst two_tabs)" using tab_reach_inv [OF two_tabs_pair] by simp
  have g: "tab_guard MBreak (fst two_tabs)" by (simp add: two_tabs_simps)
  have st: "tab_step MBreak (fst two_tabs, snd two_tabs)
      = Some ([], snd (break_active_pane_to_tab two_tabs))"
    unfolding tab_step.simps by simp
  have "mset (tabs_all_panes (fst (snd (break_active_pane_to_tab two_tabs)))) = {# mk_pane 1, mk_pane 2 #}"
    using tab_panes_conserved [OF wf g st] by (simp add: two_tabs_simps tabs_all_panes_def)
  with st show ?thesis by blast
qed

text \<open>C9: exactly the panes of the active tab are visible: in every state that is reached by calls whose callers
  keep their obligations, the native view of a pane that has one is hidden if and only if its tab is not the
  active one. New panes either have no native view, as on Linux and without a window, or a visible one of their
  own; both may be mixed.\<close>

theorem only_active_visible:
  assumes "tab_reach (m, vs)" and "i < length (tabs m)" and "p \<in> set (all_panes (tree (tabs m ! i)))"
    and "view p \<noteq> 0"
  shows "vs (view p) \<longleftrightarrow> i \<noteq> active m"
  using tab_reach_inv [OF assms(1)] assms(2-4) by (simp add: shows_active_def)

theorem only_active_visible_witness: "snd two_tabs (view (mk_pane 1)) \<and> \<not> snd two_tabs (view (mk_pane 2))"
  using only_active_visible [OF two_tabs_pair, of 0 "mk_pane 1"]
    only_active_visible [OF two_tabs_pair, of 1 "mk_pane 2"]
  by (simp add: two_tabs_simps mk_pane_def)

text \<open>removing a pane by its identifier succeeds exactly when some tab shows it, returns a pane
  with that identifier, takes exactly that pane away and leaves no tab without panes; otherwise
  nothing changes.\<close>

theorem remove_pane_by_id_result:
  assumes "tabs_wf m"
  shows "(fst (remove_pane_by_id pid (m, vs)) \<noteq> None \<longleftrightarrow> pid \<in> pane_id ` set (tabs_all_panes m))
     \<and> (\<forall>p. fst (remove_pane_by_id pid (m, vs)) = Some p \<longrightarrow> pane_id p = pid \<and>
          add_mset p (mset (tabs_all_panes (fst (snd (remove_pane_by_id pid (m, vs))))))
            = mset (tabs_all_panes m))
     \<and> (fst (remove_pane_by_id pid (m, vs)) = None \<longrightarrow> snd (remove_pane_by_id pid (m, vs)) = (m, vs))
     \<and> (\<forall>t \<in> set (tabs (fst (snd (remove_pane_by_id pid (m, vs))))). all_panes (tree t) \<noteq> [])"
proof -
  note w = remove_pane_by_id_wf [OF assms, of pid vs]
  have "all_panes (tree t) \<noteq> []" if "t \<in> set (tabs (fst (snd (remove_pane_by_id pid (m, vs)))))" for t
    using tabs_wfD(1) [OF w(1) that] by (simp add: tab_ok_def all_panes_Nil)
  with w(2,3) show ?thesis by (cases "fst (remove_pane_by_id pid (m, vs))") auto
qed

theorem remove_pane_by_id_result_witness:
  "\<exists>p. fst (remove_pane_by_id 2 two_tabs) = Some p \<and> pane_id p = 2"
proof -
  have "tabs_wf (fst two_tabs)" using tab_reach_inv [OF two_tabs_pair] by simp
  from remove_pane_by_id_result [OF this, of 2 "snd two_tabs"] show ?thesis
    by (auto simp: two_tabs_simps tabs_all_panes_def mk_pane_def)
qed

text \<open>applying a named layout to the active tab rearranges the panes only: the same panes in the
  same order, the same focused pane, the ratios within range, and the other tabs untouched.\<close>

theorem apply_layout_keeps_panes:
  assumes "tabs_wf m" and "tabs m \<noteq> []"
  shows "map (\<lambda>t. all_panes (tree t)) (tabs (snd (apply_layout_to_active l m)))
           = map (\<lambda>t. all_panes (tree t)) (tabs m)
     \<and> pane_id (tabs_focused_pane (snd (apply_layout_to_active l m))) = pane_id (tabs_focused_pane m)
     \<and> active_layout (snd (apply_layout_to_active l m)) = Some l
     \<and> (\<forall>t. active_tree (snd (apply_layout_to_active l m)) = Some t \<longrightarrow> tree_wf t)
     \<and> (\<forall>i. i \<noteq> active m \<longrightarrow> get_at (tabs (snd (apply_layout_to_active l m))) i = get_at (tabs m) i)"
proof -
  have act: "active m < length (tabs m)" using tabs_wfD(2) [OF assms] .
  let ?t = "tabs m ! active m"
  have ok: "tab_ok ?t" using tabs_wfD(1) [OF assms(1)] act by simp
  define t' where "t' = (if length (all_panes (tree ?t)) \<le> 1 then ?t\<lparr>layout := l\<rparr>
     else ?t\<lparr>tree := snd (rebuild_from_panes (all_panes (tree ?t))
        (map (\<lambda>s. (split_direction (sp_direction s), sp_ratio s)) (layout_splits l (length (all_panes (tree ?t)))))
        (pane_id (focused_pane (tree ?t))) (tree ?t)), layout := l\<rparr>)"
  have eq: "snd (apply_layout_to_active l m) = m\<lparr>tabs := (tabs m)[active m := t']\<rparr>"
    using act by (simp add: apply_layout_to_active_def update_active_tab_def get_at_def t'_def Let_def
        case_prod_beta)
  have t': "all_panes (tree t') = all_panes (tree ?t)" "layout t' = l" "tree_wf (tree t')"
    "pane_id (focused_pane (tree t')) = pane_id (focused_pane (tree ?t))"
    using rebuild_same(2-4) [OF tree_sel_ok [OF ok] refl] tree_sel_ok(1) [OF ok] by (simp_all add: t'_def)
  have "map (\<lambda>t. all_panes (tree t)) ((tabs m)[active m := t']) = map (\<lambda>t. all_panes (tree t)) (tabs m)"
    using act t'(1) by (simp add: map_update list_update_same_conv)
  then show ?thesis
    unfolding eq using act t' by (auto simp: tabs_focused_pane_def active_tree_def active_layout_def get_at_def)
qed

theorem apply_layout_keeps_panes_witness:
  "active_layout (snd (apply_layout_to_active Tiled (fst two_tabs))) = Some Tiled"
proof -
  have wf: "tabs_wf (fst two_tabs)" using tab_reach_inv [OF two_tabs_pair] by simp
  show ?thesis
    using apply_layout_keeps_panes [OF wf] by (simp add: two_tabs_simps)
qed

end
