(* ===== verification/Codec.thy ===== *)
theory Codec
  imports Prelude
begin

text \<open>
  Bytes: little-endian integers (\<open>to_le_bytes\<close>, \<open>from_le_bytes\<close>), the validity check of UTF-8
  text, and the contract of an encoder and a decoder that reads at an offset of a payload.
\<close>

section \<open>Little-endian integers\<close>

fun nat_le :: "nat \<Rightarrow> nat \<Rightarrow> bytes" where
  "nat_le 0 n = []"
| "nat_le (Suc k) n = word_of_nat (n mod 256) # nat_le k (n div 256)"

fun le_nat :: "bytes \<Rightarrow> nat" where
  "le_nat [] = 0"
| "le_nat (b # bs) = unat b + 256 * le_nat bs"

definition le16 :: "u16 \<Rightarrow> bytes" where "le16 w = nat_le 2 (unat w)"
definition le32 :: "u32 \<Rightarrow> bytes" where "le32 w = nat_le 4 (unat w)"
definition le64 :: "u64 \<Rightarrow> bytes" where "le64 w = nat_le 8 (unat w)"

text \<open>\<open>from_le_bytes\<close> of the bytes at a position, for a value of \<open>k\<close> bytes.\<close>

definition le_at :: "nat \<Rightarrow> bytes \<Rightarrow> nat \<Rightarrow> nat" where
  "le_at k payload offset = le_nat (take k (drop offset payload))"

definition u16_at :: "bytes \<Rightarrow> nat \<Rightarrow> u16" where "u16_at p i = word_of_nat (le_at 2 p i)"
definition u32_at :: "bytes \<Rightarrow> nat \<Rightarrow> u32" where "u32_at p i = word_of_nat (le_at 4 p i)"
definition u64_at :: "bytes \<Rightarrow> nat \<Rightarrow> u64" where "u64_at p i = word_of_nat (le_at 8 p i)"

lemma nat_le_numeral:
  "nat_le (numeral k) n = word_of_nat (n mod 256) # nat_le (pred_numeral k) (n div 256)"
  by (simp only: numeral_eq_Suc [of k] nat_le.simps)

lemma length_nat_le [simp]: "length (nat_le k n) = k"
  by (induction k arbitrary: n) auto

lemma length_le [simp]: "length (le16 a) = 2" "length (le32 b) = 4" "length (le64 c) = 8"
  by (simp_all add: le16_def le32_def le64_def)

lemma le_nonempty [simp]: "le16 a \<noteq> []" "le32 b \<noteq> []" "le64 c \<noteq> []"
  using length_le by (metis list.size(3) zero_neq_numeral)+

lemma le_nat_nat_le: "le_nat (nat_le k n) = n mod 256 ^ k"
proof (induction k arbitrary: n)
  case (Suc k)
  have "unat (word_of_nat (n mod 256) :: u8) = n mod 256" by (simp add: unat_of_nat)
  with Suc show ?case by (simp add: mod_mult2_eq)
qed simp

lemma le_nat_less: "le_nat bs < 256 ^ length bs"
proof (induction bs)
  case (Cons b bs)
  have "unat b < 256" using unat_lt [of b] by simp
  with Cons show ?case by simp
qed simp

lemma nat_le_le_nat: "nat_le (length bs) (le_nat bs) = bs"
proof (induction bs)
  case (Cons b bs)
  have "unat b < 256" using unat_lt [of b] by simp
  with Cons show ?case by simp
qed simp

lemma take_drop_mid: "take (length m) (drop (length pre) (pre @ m @ rest)) = m"
  by simp

lemma le_at_mid: "length m = k \<Longrightarrow> le_at k (pre @ m @ rest) (length pre) = le_nat m"
  by (simp add: le_at_def)

lemma u16_at_mid [codec_simps]: "u16_at (pre @ le16 w @ rest) (length pre) = w"
  using unat_lt [of w] by (simp add: u16_at_def le_at_mid le16_def le_nat_nat_le)

lemma u32_at_mid [codec_simps]: "u32_at (pre @ le32 w @ rest) (length pre) = w"
  using unat_lt [of w] by (simp add: u32_at_def le_at_mid le32_def le_nat_nat_le)

lemma u64_at_mid [codec_simps]: "u64_at (pre @ le64 w @ rest) (length pre) = w"
  using unat_lt [of w] by (simp add: u64_at_def le_at_mid le64_def le_nat_nat_le)

lemma u16_at_0 [codec_simps]: "u16_at (le16 w @ rest) 0 = w" "u16_at (le16 w) 0 = w"
  using u16_at_mid [of "[]" w rest] u16_at_mid [of "[]" w "[]"] by simp_all

lemma u32_at_0 [codec_simps]: "u32_at (le32 w @ rest) 0 = w" "u32_at (le32 w) 0 = w"
  using u32_at_mid [of "[]" w rest] u32_at_mid [of "[]" w "[]"] by simp_all

lemma u64_at_0 [codec_simps]: "u64_at (le64 w @ rest) 0 = w" "u64_at (le64 w) 0 = w"
  using u64_at_mid [of "[]" w rest] u64_at_mid [of "[]" w "[]"] by simp_all

text \<open>Reading behind a prefix of known length.\<close>

lemma at_append [codec_simps]:
  "length pre \<le> i \<Longrightarrow> u16_at (pre @ p) i = u16_at p (i - length pre)"
  "length pre \<le> i \<Longrightarrow> u32_at (pre @ p) i = u32_at p (i - length pre)"
  "length pre \<le> i \<Longrightarrow> u64_at (pre @ p) i = u64_at p (i - length pre)"
  by (simp_all add: u16_at_def u32_at_def u64_at_def le_at_def)

lemma at_Cons [codec_simps]:
  "u16_at (b # p) (Suc i) = u16_at p i" "u32_at (b # p) (Suc i) = u32_at p i"
  "u64_at (b # p) (Suc i) = u64_at p i"
  "u16_at (b # p) (numeral k) = u16_at p (pred_numeral k)"
  "u32_at (b # p) (numeral k) = u32_at p (pred_numeral k)"
  "u64_at (b # p) (numeral k) = u64_at p (pred_numeral k)"
  by (simp_all add: u16_at_def u32_at_def u64_at_def le_at_def)

lemma at_drop: "u16_at (drop k p) i = u16_at p (k + i)" "u32_at (drop k p) i = u32_at p (k + i)"
  "u64_at (drop k p) i = u64_at p (k + i)"
  by (simp_all add: u16_at_def u32_at_def u64_at_def le_at_def add.commute)

lemma le_inject: "le16 a = le16 b \<longleftrightarrow> a = b" "le32 c = le32 d \<longleftrightarrow> c = d" "le64 e = le64 f \<longleftrightarrow> e = f"
  using u16_at_0(2) u32_at_0(2) u64_at_0(2) by metis+

text \<open>The word a byte sequence of the right length encodes.\<close>

lemma le_of_at: "length bs = 2 \<Longrightarrow> le16 (u16_at bs 0) = bs" "length bs = 4 \<Longrightarrow> le32 (u32_at bs 0) = bs"
  "length bs = 8 \<Longrightarrow> le64 (u64_at bs 0) = bs"
proof -
  have n: "le_nat bs < 256 ^ length bs" "nat_le (length bs) (le_nat bs) = bs"
    by (rule le_nat_less) (rule nat_le_le_nat)
  show "length bs = 2 \<Longrightarrow> le16 (u16_at bs 0) = bs" "length bs = 4 \<Longrightarrow> le32 (u32_at bs 0) = bs"
    "length bs = 8 \<Longrightarrow> le64 (u64_at bs 0) = bs"
    using n by (simp_all add: le16_def le32_def le64_def u16_at_def u32_at_def u64_at_def le_at_def
        unat_of_nat)
qed

section \<open>UTF-8\<close>

definition cont_byte :: "u8 \<Rightarrow> bool" where
  "cont_byte b \<longleftrightarrow> 0x80 \<le> b \<and> b \<le> 0xBF"

text \<open>The sequences \<open>std::str::from_utf8\<close> accepts.\<close>

fun valid_utf8 :: "bytes \<Rightarrow> bool" where
  "valid_utf8 [] = True"
| "valid_utf8 (a # bs) =
     (if a < 0x80 then valid_utf8 bs
      else if 0xC2 \<le> a \<and> a \<le> 0xDF then
        (case bs of b # r \<Rightarrow> cont_byte b \<and> valid_utf8 r | _ \<Rightarrow> False)
      else if 0xE0 \<le> a \<and> a \<le> 0xEF then
        (case bs of b # c # r \<Rightarrow>
           cont_byte b \<and> (a = 0xE0 \<longrightarrow> 0xA0 \<le> b) \<and> (a = 0xED \<longrightarrow> b \<le> 0x9F) \<and>
           cont_byte c \<and> valid_utf8 r
         | _ \<Rightarrow> False)
      else if 0xF0 \<le> a \<and> a \<le> 0xF4 then
        (case bs of b # c # d # r \<Rightarrow>
           cont_byte b \<and> (a = 0xF0 \<longrightarrow> 0x90 \<le> b) \<and> (a = 0xF4 \<longrightarrow> b \<le> 0x8F) \<and>
           cont_byte c \<and> cont_byte d \<and> valid_utf8 r
         | _ \<Rightarrow> False)
      else False)"

text \<open>The sequences by the length their first byte announces.\<close>

definition utf8_len :: "u8 \<Rightarrow> nat" where
  "utf8_len a = (if a < 0x80 then 1 else if 0xC2 \<le> a \<and> a \<le> 0xDF then 2
     else if 0xE0 \<le> a \<and> a \<le> 0xEF then 3 else if 0xF0 \<le> a \<and> a \<le> 0xF4 then 4 else 0)"

lemma valid_utf8_by_len:
  "utf8_len a = 0 \<Longrightarrow> \<not> valid_utf8 (a # bs)"
  "utf8_len a = 1 \<Longrightarrow> valid_utf8 (a # bs) = valid_utf8 bs"
  "utf8_len a = 2 \<Longrightarrow> valid_utf8 (a # bs) = (case bs of b # r \<Rightarrow> cont_byte b \<and> valid_utf8 r | _ \<Rightarrow> False)"
  "utf8_len a = 3 \<Longrightarrow> valid_utf8 (a # bs) =
     (case bs of b # c # r \<Rightarrow>
           cont_byte b \<and> (a = 0xE0 \<longrightarrow> 0xA0 \<le> b) \<and> (a = 0xED \<longrightarrow> b \<le> 0x9F) \<and>
           cont_byte c \<and> valid_utf8 r
         | _ \<Rightarrow> False)"
  "utf8_len a = 4 \<Longrightarrow> valid_utf8 (a # bs) =
     (case bs of b # c # d # r \<Rightarrow>
           cont_byte b \<and> (a = 0xF0 \<longrightarrow> 0x90 \<le> b) \<and> (a = 0xF4 \<longrightarrow> b \<le> 0x8F) \<and>
           cont_byte c \<and> cont_byte d \<and> valid_utf8 r
         | _ \<Rightarrow> False)"
  unfolding valid_utf8.simps utf8_len_def by (simp_all only: split: if_splits) simp_all

lemma utf8_len_cases: "utf8_len a \<in> {0, 1, 2, 3, 4}"
  by (auto simp: utf8_len_def)

lemma valid_utf8_ascii: "(\<forall>b \<in> set bs. b < 0x80) \<Longrightarrow> valid_utf8 bs"
  by (induction bs) auto

lemma valid_utf8_append: "valid_utf8 xs \<Longrightarrow> valid_utf8 ys \<Longrightarrow> valid_utf8 (xs @ ys)"
proof (induction xs rule: length_induct)
  case (1 xs)
  show ?case
  proof (cases xs)
    case Nil
    with 1 show ?thesis by simp
  next
    case (Cons a bs)
    have v: "valid_utf8 (a # bs)" using 1 Cons by simp
    have IH: "valid_utf8 (r @ ys)" if "length r < length xs" "valid_utf8 r" for r
      using 1 that by blast
    consider "utf8_len a = 0" | "utf8_len a = 1" | "utf8_len a = 2" | "utf8_len a = 3" | "utf8_len a = 4"
      using utf8_len_cases [of a] by auto
    then show ?thesis
    proof cases
      case l: 3
      from v obtain b r where bs: "bs = b # r" unfolding valid_utf8_by_len(3) [OF l] by (cases bs) auto
      with v IH [of r] Cons show ?thesis
        by (simp add: valid_utf8_by_len(3) [OF l] del: valid_utf8.simps(2))
    next
      case l: 4
      from v obtain b c r where bs: "bs = b # c # r"
        unfolding valid_utf8_by_len(4) [OF l] by (cases bs; cases "tl bs") auto
      with v IH [of r] Cons show ?thesis
        by (simp add: valid_utf8_by_len(4) [OF l] del: valid_utf8.simps(2))
    next
      case l: 5
      from v obtain b c d r where bs: "bs = b # c # d # r"
        unfolding valid_utf8_by_len(5) [OF l] by (cases bs; cases "tl bs"; cases "tl (tl bs)") auto
      with v IH [of r] Cons show ?thesis
        by (simp add: valid_utf8_by_len(5) [OF l] del: valid_utf8.simps(2))
    qed (use v IH [of bs] Cons valid_utf8_by_len(1,2) [of a] in \<open>simp_all del: valid_utf8.simps(2)\<close>)
  qed
qed

text \<open>\<open>String::from_utf8\<close>.\<close>

definition from_utf8 :: "bytes \<Rightarrow> rust_string option" where
  "from_utf8 bs = (if valid_utf8 bs then Some bs else None)"

section \<open>Decoders at an offset\<close>

datatype wire_error =
    PayloadTooShort
  | PayloadTruncated
  | InvalidUtf8
  | TrailingBytes
  | LengthMismatch

type_synonym 'a reader = "bytes \<Rightarrow> nat \<Rightarrow> wire_error + 'a \<times> nat"

fun read_many :: "'a reader \<Rightarrow> nat \<Rightarrow> bytes \<Rightarrow> nat \<Rightarrow> wire_error + 'a list \<times> nat" where
  "read_many rd 0 payload offset = Inr ([], offset)"
| "read_many rd (Suc n) payload offset =
     (case rd payload offset of
        Inl e \<Rightarrow> Inl e
      | Inr (x, offset1) \<Rightarrow>
          (case read_many rd n payload offset1 of
             Inl e \<Rightarrow> Inl e
           | Inr (xs, offset2) \<Rightarrow> Inr (x # xs, offset2)))"

text \<open>
  The contract between an encoder and a reader: the reader finds the value behind any prefix,
  stops right after it, and never reads past the end of the payload.
\<close>

locale offset_codec =
  fixes enc :: "'a \<Rightarrow> bytes" and rd :: "'a reader" and encodable :: "'a \<Rightarrow> bool"
  assumes read_back: "encodable x \<Longrightarrow> rd (pre @ enc x @ rest) (length pre) = Inr (x, length pre + length (enc x))"
    and in_bounds: "rd p i = Inr (x, j) \<Longrightarrow> i \<le> length p \<Longrightarrow> i \<le> j \<and> j \<le> length p"
begin

lemma read_many_back:
  "\<forall>x \<in> set xs. encodable x \<Longrightarrow>
     read_many rd (length xs) (pre @ concat (map enc xs) @ rest) (length pre)
       = Inr (xs, length pre + length (concat (map enc xs)))"
proof (induction xs arbitrary: pre)
  case (Cons x xs)
  have 1: "rd (pre @ enc x @ (concat (map enc xs) @ rest)) (length pre) = Inr (x, length (pre @ enc x))"
    using read_back [of x pre "concat (map enc xs) @ rest"] Cons.prems by simp
  have 2: "read_many rd (length xs) ((pre @ enc x) @ concat (map enc xs) @ rest) (length (pre @ enc x))
      = Inr (xs, length (pre @ enc x) + length (concat (map enc xs)))"
    by (rule Cons.IH) (use Cons.prems in simp)
  show ?case using 1 2 by (simp add: add.assoc)
qed simp

lemma read_many_in_bounds:
  "read_many rd n p i = Inr (xs, j) \<Longrightarrow> i \<le> length p \<Longrightarrow> length xs = n \<and> i \<le> j \<and> j \<le> length p"
proof (induction n arbitrary: i xs j)
  case (Suc n)
  from Suc.prems(1) obtain x k ys where 1: "rd p i = Inr (x, k)" and
    2: "read_many rd n p k = Inr (ys, j)" and 3: "xs = x # ys"
    by (auto split: sum.splits prod.splits)
  have "i \<le> k" "k \<le> length p" using in_bounds [OF 1 Suc.prems(2)] by simp_all
  with Suc.IH [OF 2] 3 show ?case by auto
qed auto

text \<open>Two lists of the same length with the same encoding are equal: the format is unambiguous.\<close>

lemma enc_list_inject:
  assumes "concat (map enc xs) @ r = concat (map enc ys) @ s" and "length xs = length ys"
    and "\<forall>x \<in> set xs. encodable x" and "\<forall>y \<in> set ys. encodable y"
  shows "xs = ys"
  using read_many_back [OF assms(3), of "[]" r] read_many_back [OF assms(4), of "[]" s] assms(1,2)
  by simp

end

end
