(* ===== verification/Wire.thy ===== *)
theory Wire
  imports Codec
begin

text \<open>
  The wire format of the remote protocol (\<open>src/remote_wire.rs\<close>): message and error codes,
  frames and the functions that read them from a stream, the handshake, the tab list and the
  request payloads. Text is UTF-8 bytes; error messages that the code formats for the user are
  constructors here.
\<close>

section \<open>Constants and codes\<close>

definition MAGIC :: bytes where "MAGIC = [0x47, 0x53]"

definition HEADER_LEN :: nat where "HEADER_LEN = 7"

definition REMOTE_PROTOCOL_VERSION :: u16 where "REMOTE_PROTOCOL_VERSION = 1"

definition REMOTE_CAPABILITY_SCREEN_DELTAS :: u32 where
  "REMOTE_CAPABILITY_SCREEN_DELTAS = push_bit 1 1"
definition REMOTE_CAPABILITY_UI_STATE :: u32 where
  "REMOTE_CAPABILITY_UI_STATE = push_bit 2 1"
definition REMOTE_CAPABILITY_IMAGES :: u32 where
  "REMOTE_CAPABILITY_IMAGES = push_bit 3 1"
definition REMOTE_CAPABILITY_HEARTBEAT :: u32 where
  "REMOTE_CAPABILITY_HEARTBEAT = push_bit 4 1"
definition REMOTE_CAPABILITY_ROW_REPLICA :: u32 where
  "REMOTE_CAPABILITY_ROW_REPLICA = push_bit 5 1"
definition REMOTE_CAPABILITY_QUIC_DIRECT_TRANSPORT :: u32 where
  "REMOTE_CAPABILITY_QUIC_DIRECT_TRANSPORT = push_bit 7 1"

unbundle bit_operations_syntax

definition REMOTE_CAPABILITIES :: u32 where
  "REMOTE_CAPABILITIES =
     REMOTE_CAPABILITY_SCREEN_DELTAS OR REMOTE_CAPABILITY_UI_STATE OR REMOTE_CAPABILITY_IMAGES OR
     REMOTE_CAPABILITY_HEARTBEAT OR REMOTE_CAPABILITY_ROW_REPLICA OR
     REMOTE_CAPABILITY_QUIC_DIRECT_TRANSPORT"

datatype message_type =
    MsgAuth
  | MsgListTabs
  | MsgCreate
  | MsgInput
  | MsgResize
  | MsgDestroy
  | MsgScroll
  | MsgKey
  | MsgExecuteCommand
  | MsgAppAction
  | MsgAppKeyEvent
  | MsgFocusPane
  | MsgAppMouseEvent
  | MsgHeartbeat
  | MsgRuntimeAction
  | MsgRenderAck
  | MsgRowRangeRequest
  | MsgAuthOk
  | MsgAuthFail
  | MsgTabList
  | MsgFullState
  | MsgDelta
  | MsgErrorMsg
  | MsgTabCreated
  | MsgTabExited
  | MsgScrollData
  | MsgClipboard
  | MsgImage
  | MsgUiRuntimeState
  | MsgUiAppearance
  | MsgUiPaneFullState
  | MsgUiPaneDelta
  | MsgHeartbeatAck
  | MsgUiPaneRows

fun message_code :: "message_type \<Rightarrow> u8" where
  "message_code MsgAuth = 0x01"
| "message_code MsgListTabs = 0x02"
| "message_code MsgCreate = 0x05"
| "message_code MsgInput = 0x06"
| "message_code MsgResize = 0x07"
| "message_code MsgDestroy = 0x08"
| "message_code MsgScroll = 0x0A"
| "message_code MsgKey = 0x0B"
| "message_code MsgExecuteCommand = 0x0C"
| "message_code MsgAppAction = 0x0D"
| "message_code MsgAppKeyEvent = 0x0E"
| "message_code MsgFocusPane = 0x0F"
| "message_code MsgAppMouseEvent = 0x10"
| "message_code MsgHeartbeat = 0x11"
| "message_code MsgRuntimeAction = 0x12"
| "message_code MsgRenderAck = 0x13"
| "message_code MsgRowRangeRequest = 0x14"
| "message_code MsgAuthOk = 0x80"
| "message_code MsgAuthFail = 0x81"
| "message_code MsgTabList = 0x82"
| "message_code MsgFullState = 0x83"
| "message_code MsgDelta = 0x84"
| "message_code MsgErrorMsg = 0x87"
| "message_code MsgTabCreated = 0x88"
| "message_code MsgTabExited = 0x89"
| "message_code MsgScrollData = 0x8A"
| "message_code MsgClipboard = 0x8B"
| "message_code MsgImage = 0x8C"
| "message_code MsgUiRuntimeState = 0x8D"
| "message_code MsgUiAppearance = 0x8E"
| "message_code MsgUiPaneFullState = 0x90"
| "message_code MsgUiPaneDelta = 0x91"
| "message_code MsgHeartbeatAck = 0x92"
| "message_code MsgUiPaneRows = 0x93"

text \<open>\<open>MessageType::try_from\<close>.\<close>

definition message_try_from :: "u8 \<Rightarrow> message_type option" where
  "message_try_from value =
     (if value = 0x01 then Some MsgAuth
     else if value = 0x02 then Some MsgListTabs
     else if value = 0x05 then Some MsgCreate
     else if value = 0x06 then Some MsgInput
     else if value = 0x07 then Some MsgResize
     else if value = 0x08 then Some MsgDestroy
     else if value = 0x0A then Some MsgScroll
     else if value = 0x0B then Some MsgKey
     else if value = 0x0C then Some MsgExecuteCommand
     else if value = 0x0D then Some MsgAppAction
     else if value = 0x0E then Some MsgAppKeyEvent
     else if value = 0x0F then Some MsgFocusPane
     else if value = 0x10 then Some MsgAppMouseEvent
     else if value = 0x11 then Some MsgHeartbeat
     else if value = 0x12 then Some MsgRuntimeAction
     else if value = 0x13 then Some MsgRenderAck
     else if value = 0x14 then Some MsgRowRangeRequest
     else if value = 0x80 then Some MsgAuthOk
     else if value = 0x81 then Some MsgAuthFail
     else if value = 0x82 then Some MsgTabList
     else if value = 0x83 then Some MsgFullState
     else if value = 0x84 then Some MsgDelta
     else if value = 0x87 then Some MsgErrorMsg
     else if value = 0x88 then Some MsgTabCreated
     else if value = 0x89 then Some MsgTabExited
     else if value = 0x8A then Some MsgScrollData
     else if value = 0x8B then Some MsgClipboard
     else if value = 0x8C then Some MsgImage
     else if value = 0x8D then Some MsgUiRuntimeState
     else if value = 0x8E then Some MsgUiAppearance
     else if value = 0x90 then Some MsgUiPaneFullState
     else if value = 0x91 then Some MsgUiPaneDelta
     else if value = 0x92 then Some MsgHeartbeatAck
     else if value = 0x93 then Some MsgUiPaneRows
     else None)"

datatype logical_channel = Control | RuntimeStream | InputControl | Health

fun logical_channel_for_message_type :: "message_type \<Rightarrow> logical_channel" where
  "logical_channel_for_message_type MsgAuth = Control"
| "logical_channel_for_message_type MsgListTabs = Control"
| "logical_channel_for_message_type MsgCreate = Control"
| "logical_channel_for_message_type MsgInput = InputControl"
| "logical_channel_for_message_type MsgResize = InputControl"
| "logical_channel_for_message_type MsgDestroy = Control"
| "logical_channel_for_message_type MsgScroll = InputControl"
| "logical_channel_for_message_type MsgKey = InputControl"
| "logical_channel_for_message_type MsgExecuteCommand = InputControl"
| "logical_channel_for_message_type MsgAppAction = InputControl"
| "logical_channel_for_message_type MsgAppKeyEvent = InputControl"
| "logical_channel_for_message_type MsgFocusPane = InputControl"
| "logical_channel_for_message_type MsgAppMouseEvent = InputControl"
| "logical_channel_for_message_type MsgHeartbeat = Health"
| "logical_channel_for_message_type MsgRuntimeAction = InputControl"
| "logical_channel_for_message_type MsgRenderAck = InputControl"
| "logical_channel_for_message_type MsgRowRangeRequest = InputControl"
| "logical_channel_for_message_type MsgAuthOk = Control"
| "logical_channel_for_message_type MsgAuthFail = Control"
| "logical_channel_for_message_type MsgTabList = Control"
| "logical_channel_for_message_type MsgFullState = RuntimeStream"
| "logical_channel_for_message_type MsgDelta = RuntimeStream"
| "logical_channel_for_message_type MsgErrorMsg = Control"
| "logical_channel_for_message_type MsgTabCreated = Control"
| "logical_channel_for_message_type MsgTabExited = Control"
| "logical_channel_for_message_type MsgScrollData = RuntimeStream"
| "logical_channel_for_message_type MsgClipboard = RuntimeStream"
| "logical_channel_for_message_type MsgImage = RuntimeStream"
| "logical_channel_for_message_type MsgUiRuntimeState = RuntimeStream"
| "logical_channel_for_message_type MsgUiAppearance = RuntimeStream"
| "logical_channel_for_message_type MsgUiPaneFullState = RuntimeStream"
| "logical_channel_for_message_type MsgUiPaneDelta = RuntimeStream"
| "logical_channel_for_message_type MsgHeartbeatAck = Health"
| "logical_channel_for_message_type MsgUiPaneRows = RuntimeStream"

datatype remote_error_code =
    ErrUnknown
  | ErrAuthenticationFailed
  | ErrUnknownTab
  | ErrFailedCreateTab
  | ErrNoActiveTab
  | ErrCannotDestroyLastTab
  | ErrHeartbeatTimeout

fun error_code :: "remote_error_code \<Rightarrow> u16" where
  "error_code ErrUnknown = 0"
| "error_code ErrAuthenticationFailed = 1"
| "error_code ErrUnknownTab = 2"
| "error_code ErrFailedCreateTab = 3"
| "error_code ErrNoActiveTab = 4"
| "error_code ErrCannotDestroyLastTab = 5"
| "error_code ErrHeartbeatTimeout = 11"

definition error_try_from :: "u16 \<Rightarrow> remote_error_code option" where
  "error_try_from value =
     (if value = 0 then Some ErrUnknown
     else if value = 1 then Some ErrAuthenticationFailed
     else if value = 2 then Some ErrUnknownTab
     else if value = 3 then Some ErrFailedCreateTab
     else if value = 4 then Some ErrNoActiveTab
     else if value = 5 then Some ErrCannotDestroyLastTab
     else if value = 11 then Some ErrHeartbeatTimeout
     else None)"

fun default_message :: "remote_error_code \<Rightarrow> rust_string" where
  "default_message ErrUnknown =
     [0x72, 0x65, 0x6D, 0x6F, 0x74, 0x65, 0x20, 0x65, 0x72, 0x72, 0x6F, 0x72]"
| "default_message ErrAuthenticationFailed =
     [0x41, 0x75, 0x74, 0x68, 0x65, 0x6E, 0x74, 0x69, 0x63, 0x61, 0x74, 0x69, 0x6F, 0x6E, 0x20, 0x66, 0x61, 0x69, 0x6C, 0x65, 0x64]"
| "default_message ErrUnknownTab =
     [0x75, 0x6E, 0x6B, 0x6E, 0x6F, 0x77, 0x6E, 0x20, 0x74, 0x61, 0x62]"
| "default_message ErrFailedCreateTab =
     [0x66, 0x61, 0x69, 0x6C, 0x65, 0x64, 0x20, 0x74, 0x6F, 0x20, 0x63, 0x72, 0x65, 0x61, 0x74, 0x65, 0x20, 0x74, 0x61, 0x62]"
| "default_message ErrNoActiveTab =
     [0x6E, 0x6F, 0x20, 0x61, 0x63, 0x74, 0x69, 0x76, 0x65, 0x20, 0x74, 0x61, 0x62]"
| "default_message ErrCannotDestroyLastTab =
     [0x63, 0x61, 0x6E, 0x6E, 0x6F, 0x74, 0x20, 0x64, 0x65, 0x73, 0x74, 0x72, 0x6F, 0x79, 0x20, 0x6C, 0x61, 0x73, 0x74, 0x20, 0x74, 0x61, 0x62]"
| "default_message ErrHeartbeatTimeout =
     [0x68, 0x65, 0x61, 0x72, 0x74, 0x62, 0x65, 0x61, 0x74, 0x20, 0x74, 0x69, 0x6D, 0x65, 0x6F, 0x75, 0x74]"

definition encode_error_payload :: "remote_error_code \<Rightarrow> rust_string \<Rightarrow> bytes" where
  "encode_error_payload code message = le16 (error_code code) @ message"

definition decode_error_payload :: "bytes \<Rightarrow> wire_error + remote_error_code \<times> rust_string" where
  "decode_error_payload payload =
     (if length payload < 2 then Inl PayloadTooShort
      else
        let raw = u16_at payload 0;
            code = (case error_try_from raw of Some c \<Rightarrow> c | None \<Rightarrow> ErrUnknown)
        in case from_utf8 (drop 2 payload) of
             None \<Rightarrow> Inl InvalidUtf8
           | Some message \<Rightarrow> Inr (code, message))"

lemma message_try_from_code [simp]: "message_try_from (message_code ty) = Some ty"
  by (cases ty) (simp_all add: message_try_from_def)

lemma message_code_inject: "message_code a = message_code b \<longleftrightarrow> a = b"
  by (metis message_try_from_code option.inject)

lemma message_try_from_Some: "message_try_from v = Some ty \<Longrightarrow> v = message_code ty"
  by (auto simp: message_try_from_def split: if_splits)

lemma error_try_from_code [simp]: "error_try_from (error_code c) = Some c"
  by (cases c) (simp_all add: error_try_from_def)

section \<open>Frames\<close>

definition encode_message :: "message_type \<Rightarrow> bytes \<Rightarrow> bytes" where
  "encode_message ty payload = MAGIC @ [message_code ty] @ le32 (word_of_nat (length payload)) @ payload"

text \<open>
  A stream is the script of what its \<open>read\<close> calls find: bytes that have arrived, or an error.
  A read of at most \<open>n\<close> bytes takes a prefix of the next chunk; the end of the script, and an
  empty chunk, are the end of the file.
\<close>

datatype io_kind = TimedOut | WouldBlock | Interrupted | UnexpectedEof | InvalidData | OtherKind

datatype read_event = Chunk bytes | Fail io_kind

type_synonym stream = "read_event list"

fun stream_read :: "nat \<Rightarrow> stream \<Rightarrow> (io_kind + bytes) \<times> stream" where
  "stream_read n [] = (Inr [], [])"
| "stream_read n (Fail k # s) = (Inl k, s)"
| "stream_read n (Chunk bs # s) =
     (if length bs \<le> n then (Inr bs, s) else (Inr (take n bs), Chunk (drop n bs) # s))"

text \<open>What is left of a script: its events, and the bytes in them.\<close>

fun stream_size :: "stream \<Rightarrow> nat" where
  "stream_size [] = 0"
| "stream_size (Fail k # s) = Suc (stream_size s)"
| "stream_size (Chunk bs # s) = Suc (length bs) + stream_size s"

lemma stream_read_Inl: "stream_read n s = (Inl k, s') \<Longrightarrow> s = Fail k # s'"
  by (cases "(n, s)" rule: stream_read.cases) (auto split: if_splits)

lemma stream_read_Inr:
  "stream_read n s = (Inr bs, s') \<Longrightarrow> length bs \<le> n \<and> stream_size s' \<le> stream_size s"
  by (cases "(n, s)" rule: stream_read.cases) (auto split: if_splits)

lemma stream_read_smaller:
  "(Inl k, s') = stream_read n s \<Longrightarrow> stream_size s' < stream_size s"
  "(Inr bs, s') = stream_read n s \<Longrightarrow> stream_size s' \<le> stream_size s"
  subgoal using stream_read_Inl [of n s k s'] by simp
  subgoal using stream_read_Inr [of n s bs s'] by simp
  done

text \<open>\<open>Read::read_exact\<close> of the standard library: it retries only interrupted reads.\<close>

function read_exact :: "nat \<Rightarrow> stream \<Rightarrow> (io_kind + bytes) \<times> stream" where
  "read_exact n s =
     (if n = 0 then (Inr [], s)
      else
        case stream_read n s of
          (Inl k, s') \<Rightarrow> if k = Interrupted then read_exact n s' else (Inl k, s')
        | (Inr bs, s') \<Rightarrow>
            if bs = [] then (Inl UnexpectedEof, s')
            else
              (case read_exact (n - length bs) s' of
                 (Inr r, s'') \<Rightarrow> (Inr (bs @ r), s'')
               | (Inl k, s'') \<Rightarrow> (Inl k, s'')))"
  by pat_completeness auto
termination
proof (relation "measure (\<lambda>(n, s). n + stream_size s)")
  show "wf (measure (\<lambda>(n, s). n + stream_size s))" by simp
next
  fix n :: nat and s :: stream and x :: "io_kind + bytes" and s' k
  assume "(x, s') = stream_read n s" "x = Inl k"
  then show "((n, s'), n, s) \<in> measure (\<lambda>(n, s). n + stream_size s)"
    using stream_read_smaller(1) [of k s' n s] by simp
next
  fix n :: nat and s :: stream and x :: "io_kind + bytes" and s' bs
  assume n: "n \<noteq> 0" and x: "(x, s') = stream_read n s" "x = Inr bs" and bs: "bs \<noteq> []"
  have "n - length bs < n" using n bs by simp
  then show "((n - length bs, s'), n, s) \<in> measure (\<lambda>(n, s). n + stream_size s)"
    using stream_read_smaller(2) [of bs s' n s] x by simp
qed

declare read_exact.simps [simp del]

definition is_idle_error :: "io_kind \<Rightarrow> bool" where
  "is_idle_error k \<longleftrightarrow> k = TimedOut \<or> k = WouldBlock"

text \<open>The loop of \<open>read_exact_retrying\<close>: the bytes read so far, and the errors since then.\<close>

function read_exact_retrying ::
  "nat \<Rightarrow> nat \<Rightarrow> bytes \<Rightarrow> nat \<Rightarrow> stream \<Rightarrow> (io_kind + bytes) \<times> stream" where
  "read_exact_retrying n max_idle_errors buf idle_errors s =
     (if \<not> length buf < n then (Inr buf, s)
      else
        case stream_read (n - length buf) s of
          (Inr bs, s') \<Rightarrow>
            if bs = [] then (Inl UnexpectedEof, s')
            else read_exact_retrying n max_idle_errors (buf @ bs) 0 s'
        | (Inl k, s') \<Rightarrow>
            if is_idle_error k then
              if length buf = 0 then (Inl k, s')
              else if idle_errors + 1 > max_idle_errors then (Inl k, s')
              else read_exact_retrying n max_idle_errors buf (idle_errors + 1) s'
            else (Inl k, s'))"
  by pat_completeness auto
termination
proof (relation "measure (\<lambda>(n, m, buf, i, s). (n - length buf) + stream_size s)")
  show "wf (measure (\<lambda>(n, m, buf, i, s). (n - length buf) + stream_size s))" by simp
next
  fix n m i :: nat and buf bs :: bytes and s :: stream and x :: "io_kind + bytes" and s'
  assume n: "\<not> \<not> length buf < n" and x: "(x, s') = stream_read (n - length buf) s" "x = Inr bs"
    and bs: "bs \<noteq> []"
  have "0 < length bs" using bs by simp
  then have "n - length (buf @ bs) < n - length buf" using n unfolding length_append by linarith
  then show "((n, m, buf @ bs, 0, s'), n, m, buf, i, s)
      \<in> measure (\<lambda>(n, m, buf, i, s). (n - length buf) + stream_size s)"
    using stream_read_smaller(2) [of bs s' "n - length buf" s] x by simp
next
  fix n m i :: nat and buf :: bytes and s :: stream and x :: "io_kind + bytes" and s' k
  assume "(x, s') = stream_read (n - length buf) s" "x = Inl k"
  then show "((n, m, buf, i + 1, s'), n, m, buf, i, s)
      \<in> measure (\<lambda>(n, m, buf, i, s). (n - length buf) + stream_size s)"
    using stream_read_smaller(1) [of k s' "n - length buf" s] by simp
qed

declare read_exact_retrying.simps [simp del]

text \<open>The checks both readers make on a header, and the length it announces.\<close>

definition parse_header :: "bytes \<Rightarrow> io_kind + message_type \<times> nat" where
  "parse_header header =
     (if take 2 header \<noteq> MAGIC then Inl InvalidData
      else
        case message_try_from (header ! 2) of
          None \<Rightarrow> Inl InvalidData
        | Some ty \<Rightarrow> Inr (ty, unat (u32_at header 3)))"

definition read_message :: "stream \<Rightarrow> (io_kind + message_type \<times> bytes) \<times> stream" where
  "read_message s =
     (case read_exact HEADER_LEN s of
        (Inl k, s1) \<Rightarrow> (Inl k, s1)
      | (Inr header, s1) \<Rightarrow>
          (case parse_header header of
             Inl k \<Rightarrow> (Inl k, s1)
           | Inr (ty, payload_len) \<Rightarrow>
               if payload_len > 0 then
                 (case read_exact payload_len s1 of
                    (Inl k, s2) \<Rightarrow> (Inl k, s2)
                  | (Inr payload, s2) \<Rightarrow> (Inr (ty, payload), s2))
               else (Inr (ty, []), s1)))"

definition read_message_retrying ::
  "nat \<Rightarrow> stream \<Rightarrow> (io_kind + message_type \<times> bytes) \<times> stream" where
  "read_message_retrying max_idle_errors s =
     (case read_exact_retrying HEADER_LEN max_idle_errors [] 0 s of
        (Inl k, s1) \<Rightarrow> (Inl k, s1)
      | (Inr header, s1) \<Rightarrow>
          (case parse_header header of
             Inl k \<Rightarrow> (Inl k, s1)
           | Inr (ty, payload_len) \<Rightarrow>
               if payload_len > 0 then
                 (case read_exact_retrying payload_len max_idle_errors [] 0 s1 of
                    (Inl k, s2) \<Rightarrow> (Inl k, s2)
                  | (Inr payload, s2) \<Rightarrow> (Inr (ty, payload), s2))
               else (Inr (ty, []), s1)))"

section \<open>The handshake\<close>

text \<open>The package version, 0.1.0.\<close>

definition CARGO_PKG_VERSION :: rust_string where
  "CARGO_PKG_VERSION = [0x30, 0x2E, 0x31, 0x2E, 0x30]"

definition encode_auth_ok_payload :: "rust_string \<Rightarrow> bytes" where
  "encode_auth_ok_payload server_instance_id =
     (let build_id = CARGO_PKG_VERSION
      in le16 REMOTE_PROTOCOL_VERSION @ le32 REMOTE_CAPABILITIES @
         le16 (word_of_nat (length build_id)) @ build_id @
         le16 (word_of_nat (length server_instance_id)) @ server_instance_id)"

type_synonym auth_ok_parts = "u16 \<times> u32 \<times> rust_string option \<times> rust_string option"

definition decode_auth_ok_payload :: "bytes \<Rightarrow> auth_ok_parts option" where
  "decode_auth_ok_payload payload =
     (if payload = [] then None
      else if length payload < 6 then None
      else
        let version = u16_at payload 0; capabilities = u32_at payload 2
        in if length payload < 8 then Some (version, capabilities, None, None)
        else
          let build_len = unat (u16_at payload 6)
          in if length payload < 8 + build_len then None
          else
            let build_id = from_utf8 (take build_len (drop 8 payload))
            in if length payload < 10 + build_len then Some (version, capabilities, build_id, None)
            else
              let instance_offset = 8 + build_len;
                  instance_len = unat (u16_at payload instance_offset)
              in if length payload < instance_offset + 2 + instance_len then None
              else
                let server_instance_id =
                      from_utf8 (take instance_len (drop (instance_offset + 2) payload))
                in Some (version, capabilities, build_id, server_instance_id))"

datatype auth_error =
    Malformed
  | UnsupportedVersion u16
  | NoHeartbeat
  | NoQuicDirect
  | MissingBuild
  | MissingInstance

text \<open>\<open>is_none_or(str::is_empty)\<close>.\<close>

definition none_or_empty :: "rust_string option \<Rightarrow> bool" where
  "none_or_empty s = (case s of None \<Rightarrow> True | Some t \<Rightarrow> t = [])"

definition validate_auth_ok_payload :: "bytes \<Rightarrow> auth_error + unit" where
  "validate_auth_ok_payload payload =
     (case decode_auth_ok_payload payload of
        None \<Rightarrow> Inl Malformed
      | Some (version, capabilities, build_id, server_instance_id) \<Rightarrow>
          if version \<noteq> REMOTE_PROTOCOL_VERSION then Inl (UnsupportedVersion version)
          else if capabilities AND REMOTE_CAPABILITY_HEARTBEAT = 0 then Inl NoHeartbeat
          else if capabilities AND REMOTE_CAPABILITY_QUIC_DIRECT_TRANSPORT = 0 then Inl NoQuicDirect
          else if none_or_empty build_id then Inl MissingBuild
          else if none_or_empty server_instance_id then Inl MissingInstance
          else Inr ())"

section \<open>Waiting for one reply\<close>

datatype probe_error =
    ReadFailed io_kind
  | ProbeAuthFailed
  | ProbeReported rust_string
  | UnexpectedReply message_type
  | ProbeTimedOut

text \<open>Updates a server may send unasked, which both probes skip.\<close>

definition is_unsolicited :: "message_type \<Rightarrow> bool" where
  "is_unsolicited ty \<longleftrightarrow> ty \<in> {MsgTabList, MsgFullState, MsgDelta, MsgUiRuntimeState,
     MsgUiAppearance, MsgUiPaneFullState, MsgUiPaneDelta, MsgUiPaneRows}"

text \<open>The first argument counts the remaining rounds of the loop \<open>for _ in 0..8\<close>.\<close>

fun read_probe_reply_loop ::
  "nat \<Rightarrow> message_type \<Rightarrow> stream \<Rightarrow> (probe_error + message_type \<times> bytes) \<times> stream" where
  "read_probe_reply_loop 0 expected s = (Inl ProbeTimedOut, s)"
| "read_probe_reply_loop (Suc rounds) expected s =
     (case read_message_retrying 2 s of
        (Inl k, s') \<Rightarrow>
          if is_idle_error k then read_probe_reply_loop rounds expected s'
          else (Inl (ReadFailed k), s')
      | (Inr (ty, payload), s') \<Rightarrow>
          if ty = expected then (Inr (ty, payload), s')
          else if is_unsolicited ty then read_probe_reply_loop rounds expected s'
          else if ty = MsgAuthFail then (Inl ProbeAuthFailed, s')
          else if ty = MsgErrorMsg then
            (let message = (case decode_error_payload payload of
                              Inr (_, m) \<Rightarrow> m | Inl _ \<Rightarrow> default_message ErrUnknown)
             in (Inl (ProbeReported message), s'))
          else (Inl (UnexpectedReply ty), s'))"

definition read_probe_reply ::
  "message_type \<Rightarrow> stream \<Rightarrow> (probe_error + message_type \<times> bytes) \<times> stream" where
  "read_probe_reply expected s = read_probe_reply_loop 8 expected s"

fun read_probe_auth_reply_loop ::
  "nat \<Rightarrow> stream \<Rightarrow> (probe_error + message_type \<times> bytes) \<times> stream" where
  "read_probe_auth_reply_loop 0 s = (Inl ProbeTimedOut, s)"
| "read_probe_auth_reply_loop (Suc rounds) s =
     (case read_message_retrying 2 s of
        (Inl k, s') \<Rightarrow>
          if is_idle_error k then read_probe_auth_reply_loop rounds s'
          else (Inl (ReadFailed k), s')
      | (Inr (ty, payload), s') \<Rightarrow>
          if ty = MsgAuthOk \<or> ty = MsgAuthFail then (Inr (ty, payload), s')
          else if is_unsolicited ty then read_probe_auth_reply_loop rounds s'
          else (Inl (UnexpectedReply ty), s'))"

definition read_probe_auth_reply :: "stream \<Rightarrow> (probe_error + message_type \<times> bytes) \<times> stream" where
  "read_probe_auth_reply s = read_probe_auth_reply_loop 8 s"

section \<open>The tab list\<close>

record remote_tab_info =
  rt_id :: u32
  rt_name :: rust_string
  rt_title :: rust_string
  rt_pwd :: rust_string
  rt_active :: bool
  rt_child_exited :: bool

definition push_string :: "bytes \<Rightarrow> rust_string \<Rightarrow> bytes" where
  "push_string payload text =
     (let len = min (length text) 65535
      in payload @ le16 (word_of_nat len) @ take len text)"

definition encode_tab_info :: "bytes \<Rightarrow> remote_tab_info \<Rightarrow> bytes" where
  "encode_tab_info payload tab =
     (let p1 = payload @ le32 (rt_id tab);
          p2 = push_string p1 (rt_name tab);
          p3 = push_string p2 (rt_title tab);
          p4 = push_string p3 (rt_pwd tab);
          f1 = (if rt_active tab then 0 OR 1 else 0);
          f2 = (if rt_child_exited tab then f1 OR 2 else f1)
      in p4 @ [f2])"

definition encode_tab_list :: "remote_tab_info list \<Rightarrow> bytes" where
  "encode_tab_list tabs = foldl encode_tab_info (le32 (word_of_nat (length tabs))) tabs"

definition read_u32 :: "u32 reader" where
  "read_u32 payload offset =
     (if length payload < offset + 4 then Inl PayloadTruncated
      else Inr (u32_at payload offset, offset + 4))"

definition read_u16 :: "u16 reader" where
  "read_u16 payload offset =
     (if length payload < offset + 2 then Inl PayloadTruncated
      else Inr (u16_at payload offset, offset + 2))"

definition read_string :: "rust_string reader" where
  "read_string payload offset =
     (case read_u16 payload offset of
        Inl e \<Rightarrow> Inl e
      | Inr (l, offset1) \<Rightarrow>
          (let len = unat l
           in if length payload < offset1 + len then Inl PayloadTruncated
              else case from_utf8 (take len (drop offset1 payload)) of
                     None \<Rightarrow> Inl InvalidUtf8
                   | Some value \<Rightarrow> Inr (value, offset1 + len)))"

text \<open>One round of the loop of \<open>decode_tab_list_payload\<close>.\<close>

definition read_tab_info :: "remote_tab_info reader" where
  "read_tab_info payload offset =
     (case read_u32 payload offset of
        Inl e \<Rightarrow> Inl e
      | Inr (i, offset) \<Rightarrow>
     (case read_string payload offset of
        Inl e \<Rightarrow> Inl e
      | Inr (name, offset) \<Rightarrow>
     (case read_string payload offset of
        Inl e \<Rightarrow> Inl e
      | Inr (title, offset) \<Rightarrow>
     (case read_string payload offset of
        Inl e \<Rightarrow> Inl e
      | Inr (pwd, offset) \<Rightarrow>
          if \<not> offset < length payload then Inl PayloadTruncated
          else
            let flags = payload ! offset
            in Inr (\<lparr>rt_id = i, rt_name = name, rt_title = title, rt_pwd = pwd,
                     rt_active = (flags AND 1 \<noteq> 0), rt_child_exited = (flags AND 2 \<noteq> 0)\<rparr>,
                    offset + 1)))))"

definition decode_tab_list_payload :: "bytes \<Rightarrow> wire_error + remote_tab_info list" where
  "decode_tab_list_payload payload =
     (if length payload < 4 then Inl PayloadTooShort
      else
        let count = unat (u32_at payload 0)
        in case read_many read_tab_info count payload 4 of
             Inl e \<Rightarrow> Inl e
           | Inr (tabs, offset) \<Rightarrow> if offset \<noteq> length payload then Inl TrailingBytes else Inr tabs)"

section \<open>Request payloads\<close>

definition parse_tab_id :: "bytes \<Rightarrow> u32 option" where
  "parse_tab_id payload = (if length payload \<ge> 4 then Some (u32_at payload 0) else None)"

definition parse_created_tab_id :: "bytes \<Rightarrow> u32 option" where
  "parse_created_tab_id payload = parse_tab_id payload"

definition parse_pane_id :: "bytes \<Rightarrow> u64 option" where
  "parse_pane_id payload = (if length payload \<ge> 8 then Some (u64_at payload 0) else None)"

definition parse_resize :: "bytes \<Rightarrow> (u16 \<times> u16) option" where
  "parse_resize payload =
     (if length payload \<ge> 4 then Some (u16_at payload 0, u16_at payload 2) else None)"

record row_range_request =
  rr_pane_id :: u64
  rr_epoch :: u64
  rr_start_row_id :: u64
  rr_end_row_id :: u64

definition parse_row_range_request :: "bytes \<Rightarrow> row_range_request option" where
  "parse_row_range_request payload =
     (if length payload < 32 then None
      else Some \<lparr>rr_pane_id = u64_at payload 0, rr_epoch = u64_at payload 8,
                 rr_start_row_id = u64_at payload 16, rr_end_row_id = u64_at payload 24\<rparr>)"

definition parse_input_payload :: "bytes \<Rightarrow> bool \<Rightarrow> (u64 option \<times> bytes) option" where
  "parse_input_payload payload is_local =
     (if is_local then
        if length payload < 8 then None
        else Some (Some (u64_at payload 0), drop 8 payload)
      else Some (None, payload))"

definition parse_key_payload :: "bytes \<Rightarrow> bool \<Rightarrow> (u64 option \<times> bytes) option" where
  "parse_key_payload payload is_local = parse_input_payload payload is_local"

definition encode_ui_pane_update_payload ::
  "u32 \<Rightarrow> u64 \<Rightarrow> u64 \<Rightarrow> u64 \<Rightarrow> bytes \<Rightarrow> bytes" where
  "encode_ui_pane_update_payload tab_id pane_id pane_revision runtime_revision payload =
     le32 tab_id @ le64 pane_id @ le64 pane_revision @ le64 runtime_revision @ payload"

end
