(* ===== verification/WireState.thy ===== *)
theory WireState
  imports Wire
begin

text \<open>
  Screen states on the wire (\<open>src/remote_wire.rs\<close>): cells, full states, deltas between two
  states, the row-identity trailer and row ranges. A slice out of range panics in the source;
  the encoder of deltas therefore returns \<open>None\<close> for a panic, around the source's own option.
\<close>

section \<open>Cells and states\<close>

type_synonym rgb = "u8 \<times> u8 \<times> u8"

record remote_cell =
  codepoint :: u32
  cell_fg :: rgb
  cell_bg :: rgb
  style_flags :: u8
  wide :: bool

record remote_full_state =
  fs_epoch :: u64
  viewport_top :: u64
  scrollback_total :: u64
  fs_rows :: u16
  fs_cols :: u16
  fs_cursor_x :: u16
  fs_cursor_y :: u16
  fs_cursor_visible :: bool
  fs_cursor_blinking :: bool
  fs_cursor_style :: i32
  fs_cells :: "remote_cell list"

record row_range_response =
  rs_pane_id :: u64
  rs_epoch :: u64
  rs_cols :: u16
  rs_start_row_id :: u64
  rs_rows :: "(u64 \<times> remote_cell list) list"

definition LOCAL_INPUT_SEQ_LEN :: nat where "LOCAL_INPUT_SEQ_LEN = 8"
definition REMOTE_FULL_STATE_HEADER_LEN :: nat where "REMOTE_FULL_STATE_HEADER_LEN = 14"
definition REMOTE_DELTA_HEADER_LEN :: nat where "REMOTE_DELTA_HEADER_LEN = 13"
definition REMOTE_CELL_ENCODED_LEN :: nat where "REMOTE_CELL_ENCODED_LEN = 12"
definition UI_PANE_UPDATE_HEADER_LEN :: nat where "UI_PANE_UPDATE_HEADER_LEN = 28"

text \<open>\<open>BRR1\<close> and \<open>BRR2\<close>.\<close>

definition ROW_REPLICA_TRAILER_MAGIC :: bytes where
  "ROW_REPLICA_TRAILER_MAGIC = [0x42, 0x52, 0x52, 0x31]"
definition ROW_RANGE_RESPONSE_MAGIC :: bytes where
  "ROW_RANGE_RESPONSE_MAGIC = [0x42, 0x52, 0x52, 0x32]"

text \<open>\<open>u8::from(bool)\<close>.\<close>

definition bool_byte :: "bool \<Rightarrow> u8" where
  "bool_byte b = (if b then 1 else 0)"

definition rgb_bytes :: "rgb \<Rightarrow> bytes" where
  "rgb_bytes c = [fst c, fst (snd c), snd (snd c)]"

definition encode_cell :: "remote_cell \<Rightarrow> bytes" where
  "encode_cell c =
     le32 (codepoint c) @ rgb_bytes (cell_fg c) @ rgb_bytes (cell_bg c) @
     [style_flags c, bool_byte (wide c)]"

definition append_row_replica_trailer :: "bytes \<Rightarrow> remote_full_state \<Rightarrow> u64 list \<Rightarrow> bytes" where
  "append_row_replica_trailer payload state row_ids =
     payload @ ROW_REPLICA_TRAILER_MAGIC @ le64 (fs_epoch state) @ le64 (viewport_top state) @
     le64 (scrollback_total state) @
     le64 (sat_add_u64 (viewport_top state) (ucast (fs_cursor_y state))) @
     le16 (word_of_nat (min (length row_ids) 65535)) @
     concat (map le64 (take 65535 row_ids))"

definition input_seq_prefix :: "u64 option \<Rightarrow> bool \<Rightarrow> bytes" where
  "input_seq_prefix latest_input_seq local =
     (if local then le64 (case latest_input_seq of Some n \<Rightarrow> n | None \<Rightarrow> 0) else [])"

definition encode_full_state :: "remote_full_state \<Rightarrow> u64 option \<Rightarrow> bool \<Rightarrow> bytes" where
  "encode_full_state state latest_input_seq local =
     (let payload =
        input_seq_prefix latest_input_seq local @
        le16 (fs_rows state) @ le16 (fs_cols state) @ le16 (fs_cursor_x state) @
        le16 (fs_cursor_y state) @ [bool_byte (fs_cursor_visible state)] @
        [bool_byte (fs_cursor_blinking state)] @ le32 (fs_cursor_style state) @
        concat (map encode_cell (fs_cells state));
          row_ids = map (\<lambda>row. sat_add_u64 (viewport_top state) (word_of_nat row))
                      [0..<unat (fs_rows state)]
      in append_row_replica_trailer payload state row_ids)"

section \<open>Deltas\<close>

text \<open>Slicing \<open>xs[start..stop]\<close>; \<open>None\<close> is the panic.\<close>

definition slice :: "'a list \<Rightarrow> nat \<Rightarrow> nat \<Rightarrow> 'a list option" where
  "slice xs start stop =
     (if start \<le> stop \<and> stop \<le> length xs then Some (take (stop - start) (drop start xs)) else None)"

text \<open>\<open>Iterator::rposition\<close>: the index of the last element that satisfies the predicate.\<close>

definition rposition :: "('a \<Rightarrow> bool) \<Rightarrow> 'a list \<Rightarrow> nat option" where
  "rposition P xs = map_option (\<lambda>i. length xs - 1 - i) (position P (rev xs))"

definition changed_segment :: "remote_cell list \<Rightarrow> remote_cell list \<Rightarrow> nat \<times> remote_cell list" where
  "changed_segment previous current =
     (case position (\<lambda>(a, b). a \<noteq> b) (zip previous current) of
        None \<Rightarrow> (0, [])
      | Some first \<Rightarrow>
          (let last = (case rposition (\<lambda>(a, b). a \<noteq> b) (zip previous current) of
                         Some l \<Rightarrow> l | None \<Rightarrow> first)
           in (first, take (Suc last - first) (drop first current))))"

text \<open>The loop over the rows that collects the changed ones, from row \<open>row\<close> on.\<close>

fun changed_rows ::
  "nat \<Rightarrow> remote_cell list \<Rightarrow> remote_cell list \<Rightarrow> nat list \<Rightarrow> (u16 \<times> nat \<times> remote_cell list) list option" where
  "changed_rows cols previous current [] = Some []"
| "changed_rows cols previous current (row # rows) =
     (let start = row * cols; stop = start + cols
      in case slice previous start stop of
           None \<Rightarrow> None
         | Some p \<Rightarrow>
             (case slice current start stop of
                None \<Rightarrow> None
              | Some c \<Rightarrow>
                  (case changed_rows cols previous current rows of
                     None \<Rightarrow> None
                   | Some rest \<Rightarrow>
                       Some (if p \<noteq> c then (word_of_nat row, changed_segment p c) # rest else rest))))"

text \<open>The header all three forms of a delta share, with the number of rows and no flags.\<close>

definition delta_header :: "remote_full_state \<Rightarrow> u64 option \<Rightarrow> bool \<Rightarrow> nat \<Rightarrow> bytes" where
  "delta_header current latest_input_seq local row_count =
     input_seq_prefix latest_input_seq local @ le16 (word_of_nat row_count) @
     le16 (fs_cursor_x current) @ le16 (fs_cursor_y current) @
     [bool_byte (fs_cursor_visible current)] @ [bool_byte (fs_cursor_blinking current)] @ [0] @
     le32 (fs_cursor_style current)"

definition encode_row_delta :: "u16 \<times> nat \<times> remote_cell list \<Rightarrow> bytes" where
  "encode_row_delta r =
     (case r of (row, start_col, cells) \<Rightarrow>
        le16 row @ le16 (word_of_nat start_col) @ le16 (word_of_nat (length cells)) @
        concat (map encode_cell cells))"

definition encode_delta ::
  "remote_full_state \<Rightarrow> remote_full_state \<Rightarrow> u64 option \<Rightarrow> bool \<Rightarrow> bytes option option" where
  "encode_delta previous current latest_input_seq local =
     (if fs_rows previous \<noteq> fs_rows current \<or> fs_cols previous \<noteq> fs_cols current then Some None
      else if previous = current then
        Some (Some (append_row_replica_trailer (delta_header current latest_input_seq local 0) current []))
      else
        let cols = unat (fs_cols current); rows = unat (fs_rows current)
        in case changed_rows cols (fs_cells previous) (fs_cells current) [0..<rows] of
             None \<Rightarrow> None
           | Some changed \<Rightarrow>
               if changed = [] then
                 Some (Some (append_row_replica_trailer
                   (delta_header current latest_input_seq local 0) current []))
               else if length changed = rows \<and>
                       list_all (\<lambda>(_, start_col, cells). start_col = 0 \<and> length cells = cols) changed
               then Some None
               else
                 let changed_row_ids =
                       map (\<lambda>(row, _). sat_add_u64 (viewport_top current) (ucast row)) changed;
                     payload = delta_header current latest_input_seq local (length changed) @
                       concat (map encode_row_delta changed)
                 in Some (Some (append_row_replica_trailer payload current changed_row_ids)))"

section \<open>Row ranges\<close>

definition encode_row_range_response :: "row_range_response \<Rightarrow> bytes" where
  "encode_row_range_response response =
     (let row_count = min (length (rs_rows response)) 65535
      in ROW_RANGE_RESPONSE_MAGIC @ le64 (rs_pane_id response) @ le64 (rs_epoch response) @
         le16 (rs_cols response) @ le64 (rs_start_row_id response) @ le16 (word_of_nat row_count) @
         concat (map (\<lambda>(row_id, cells).
             le64 row_id @ le16 (word_of_nat (min (length cells) 65535)) @
             concat (map encode_cell (take 65535 cells)))
           (take row_count (rs_rows response))))"

end
