(* ===== verification/ClientDecode.thy ===== *)
theory ClientDecode
  imports WireState
begin

text \<open>
  The client's side of the screen stream (\<open>src/client_gui.rs\<close>): decoding full states and deltas,
  turning a state into a terminal snapshot, and applying a delta to a snapshot in place. The
  snapshot types are those of \<open>src/vt_backend_core.rs\<close> and \<open>src/vt.rs\<close>.
\<close>

section \<open>Snapshots\<close>

datatype cursor_style = Bar | Block | Underline | BlockHollow | UnknownStyle i32

definition cursor_style_from :: "i32 \<Rightarrow> cursor_style" where
  "cursor_style_from style =
     (if style = 0 then Bar else if style = 1 then Block else if style = 2 then Underline
      else if style = 3 then BlockHollow else UnknownStyle style)"

record cell_snapshot =
  cs_text :: rust_string
  cs_display_width :: u8
  cs_fg :: rgb
  cs_bg :: rgb
  cs_bg_is_default :: bool
  cs_bold :: bool
  cs_italic :: bool
  cs_underline :: i32
  cs_hyperlink :: bool

definition default_cell :: cell_snapshot where
  "default_cell = \<lparr>cs_text = [], cs_display_width = 0, cs_fg = (0, 0, 0), cs_bg = (0, 0, 0),
     cs_bg_is_default = True, cs_bold = False, cs_italic = False, cs_underline = 0,
     cs_hyperlink = False\<rparr>"

record cursor_snapshot =
  cu_visible :: bool
  cu_blinking :: bool
  cu_x :: u16
  cu_y :: u16
  cu_style :: cursor_style

record scrollbar =
  sb_total :: u64
  sb_offset :: u64
  sb_len :: u64

record render_colors =
  background :: rgb
  foreground :: rgb
  cursor_color :: rgb
  cursor_has_value :: bool
  palette :: "rgb list"

record terminal_snapshot =
  ts_cols :: u16
  ts_rows :: u16
  ts_title :: rust_string
  ts_pwd :: rust_string
  ts_cursor :: cursor_snapshot
  rows_data :: "cell_snapshot list list"
  row_revisions :: "u64 list"
  ts_scrollbar :: scrollbar
  ts_colors :: render_colors

text \<open>
  \<open>char::from_u32\<close> followed by \<open>to_string\<close>: the UTF-8 bytes of a scalar value, nothing for a
  surrogate or a number beyond the last scalar value.
\<close>

definition char_utf8 :: "u32 \<Rightarrow> rust_string option" where
  "char_utf8 cp =
     (let n = unat cp; b = (\<lambda>x. word_of_nat x :: u8)
      in if n < 0x80 then Some [b n]
         else if n < 0x800 then Some [b (0xC0 + n div 64), b (0x80 + n mod 64)]
         else if 0xD800 \<le> n \<and> n \<le> 0xDFFF then None
         else if n < 0x10000 then
           Some [b (0xE0 + n div 4096), b (0x80 + n div 64 mod 64), b (0x80 + n mod 64)]
         else if n \<le> 0x10FFFF then
           Some [b (0xF0 + n div 262144), b (0x80 + n div 4096 mod 64), b (0x80 + n div 64 mod 64),
                 b (0x80 + n mod 64)]
         else None)"

unbundle bit_operations_syntax

definition remote_cell_to_snapshot :: "remote_cell \<Rightarrow> rgb \<Rightarrow> rgb \<Rightarrow> cell_snapshot" where
  "remote_cell_to_snapshot cell default_fg default_bg =
     \<lparr>cs_text = (if codepoint cell = 0 then []
                 else (case char_utf8 (codepoint cell) of Some s \<Rightarrow> s | None \<Rightarrow> [])),
      cs_display_width = (if wide cell then 2 else 1),
      cs_fg = (if style_flags cell AND 0x20 \<noteq> 0 then cell_fg cell else default_fg),
      cs_bg = (if style_flags cell AND 0x40 \<noteq> 0 then cell_bg cell else default_bg),
      cs_bg_is_default = (style_flags cell AND 0x40 = 0),
      cs_bold = (style_flags cell AND 0x01 \<noteq> 0),
      cs_italic = (style_flags cell AND 0x02 \<noteq> 0),
      cs_underline = 0,
      cs_hyperlink = (style_flags cell AND 0x04 \<noteq> 0)\<rparr>"

definition DEFAULT_TERMINAL_FOREGROUND :: rgb where
  "DEFAULT_TERMINAL_FOREGROUND = (0xF0, 0xF0, 0xF0)"
definition DEFAULT_TERMINAL_BACKGROUND :: rgb where
  "DEFAULT_TERMINAL_BACKGROUND = (0x00, 0x00, 0x00)"

definition remote_cell_to_snapshot_default :: "remote_cell \<Rightarrow> cell_snapshot" where
  "remote_cell_to_snapshot_default cell =
     remote_cell_to_snapshot cell DEFAULT_TERMINAL_FOREGROUND DEFAULT_TERMINAL_BACKGROUND"

text \<open>\<open>slice::chunks\<close>; the source never passes 0.\<close>

function list_chunks :: "nat \<Rightarrow> 'a list \<Rightarrow> 'a list list" where
  "list_chunks n xs = (if xs = [] \<or> n = 0 then [] else take n xs # list_chunks n (drop n xs))"
  by pat_completeness auto
termination by (relation "measure (\<lambda>(n, xs). length xs)") auto

declare list_chunks.simps [simp del]

definition remote_full_state_to_vt_snapshot ::
  "remote_full_state \<Rightarrow> u64 \<Rightarrow> rgb \<Rightarrow> rgb \<Rightarrow> rgb \<Rightarrow> terminal_snapshot" where
  "remote_full_state_to_vt_snapshot state revision_seed fg bg cursor =
     (let cols = unat (fs_cols state)
      in \<lparr>ts_cols = fs_cols state, ts_rows = fs_rows state, ts_title = [], ts_pwd = [],
          ts_cursor = \<lparr>cu_visible = fs_cursor_visible state, cu_blinking = fs_cursor_blinking state,
            cu_x = fs_cursor_x state, cu_y = fs_cursor_y state,
            cu_style = cursor_style_from (fs_cursor_style state)\<rparr>,
          rows_data = map (map (\<lambda>cell. remote_cell_to_snapshot cell fg bg))
            (list_chunks (max cols 1) (fs_cells state)),
          row_revisions = map (\<lambda>index. revision_seed + word_of_nat index) [0..<unat (fs_rows state)],
          ts_scrollbar = \<lparr>sb_total = 0, sb_offset = 0, sb_len = 0\<rparr>,
          ts_colors = \<lparr>background = bg, foreground = fg, cursor_color = cursor,
            cursor_has_value = True, palette = replicate 256 (0, 0, 0)\<rparr>\<rparr>)"

section \<open>Decoding\<close>

type_synonym 'a opt_reader = "bytes \<Rightarrow> nat \<Rightarrow> ('a \<times> nat) option"

fun opt_read_many :: "'a opt_reader \<Rightarrow> nat \<Rightarrow> bytes \<Rightarrow> nat \<Rightarrow> ('a list \<times> nat) option" where
  "opt_read_many rd 0 payload offset = Some ([], offset)"
| "opt_read_many rd (Suc n) payload offset =
     (case rd payload offset of
        None \<Rightarrow> None
      | Some (x, offset1) \<Rightarrow>
          (case opt_read_many rd n payload offset1 of
             None \<Rightarrow> None
           | Some (xs, offset2) \<Rightarrow> Some (x # xs, offset2)))"

definition decode_u32 :: "bytes \<Rightarrow> u32 option" where
  "decode_u32 payload = (if length payload \<ge> 4 then Some (u32_at payload 0) else None)"

definition decode_remote_string :: "rust_string opt_reader" where
  "decode_remote_string payload offset =
     (if offset + 2 > length payload then None
      else
        let len = unat (u16_at payload offset); offset1 = offset + 2
        in if offset1 + len > length payload then None
           else case from_utf8 (take len (drop offset1 payload)) of
                  None \<Rightarrow> None
                | Some value \<Rightarrow> Some (value, offset1 + len))"

definition decode_tab_entry :: "remote_tab_info opt_reader" where
  "decode_tab_entry payload offset =
     (if offset + 4 > length payload then None
      else
        let i = u32_at payload offset
        in case decode_remote_string payload (offset + 4) of
             None \<Rightarrow> None
           | Some (name, offset1) \<Rightarrow>
        (case decode_remote_string payload offset1 of
             None \<Rightarrow> None
           | Some (title, offset2) \<Rightarrow>
        (case decode_remote_string payload offset2 of
             None \<Rightarrow> None
           | Some (pwd, offset3) \<Rightarrow>
               if offset3 \<ge> length payload then None
               else
                 let flags = payload ! offset3
                 in Some (\<lparr>rt_id = i, rt_name = name, rt_title = title, rt_pwd = pwd,
                      rt_active = (flags AND 1 \<noteq> 0), rt_child_exited = (flags AND 2 \<noteq> 0)\<rparr>,
                    offset3 + 1))))"

definition decode_remote_tab_list :: "bytes \<Rightarrow> remote_tab_info list option" where
  "decode_remote_tab_list payload =
     (if length payload < 4 then None
      else
        let count = unat (u32_at payload 0)
        in map_option fst (opt_read_many decode_tab_entry count payload 4))"

text \<open>The cell at an offset that has been checked against the length.\<close>

definition cell_at :: "bytes \<Rightarrow> nat \<Rightarrow> remote_cell" where
  "cell_at payload offset =
     \<lparr>codepoint = u32_at payload offset,
      cell_fg = (payload ! (offset + 4), payload ! (offset + 5), payload ! (offset + 6)),
      cell_bg = (payload ! (offset + 7), payload ! (offset + 8), payload ! (offset + 9)),
      style_flags = payload ! (offset + 10),
      wide = (payload ! (offset + 11) \<noteq> 0)\<rparr>"

definition LOCAL_FULL_STATE_HEADER_LEN :: nat where
  "LOCAL_FULL_STATE_HEADER_LEN = LOCAL_INPUT_SEQ_LEN + REMOTE_FULL_STATE_HEADER_LEN"
definition LOCAL_DELTA_HEADER_LEN :: nat where
  "LOCAL_DELTA_HEADER_LEN = LOCAL_INPUT_SEQ_LEN + REMOTE_DELTA_HEADER_LEN"

definition decode_remote_full_state :: "bytes \<Rightarrow> (u64 option \<times> remote_full_state) option" where
  "decode_remote_full_state payload =
     (if length payload < LOCAL_FULL_STATE_HEADER_LEN then None
      else
        let ack_input_seq = u64_at payload 0;
            rows = u16_at payload 8; cols = u16_at payload 10;
            cursor_x = u16_at payload 12; cursor_y = u16_at payload 14;
            cursor_visible = (payload ! 16 \<noteq> 0); cursor_blinking = (payload ! 17 \<noteq> 0);
            cursor_style = u32_at payload 18;
            cell_count = unat rows * unat cols
        in if length payload < LOCAL_FULL_STATE_HEADER_LEN + cell_count * REMOTE_CELL_ENCODED_LEN
           then None
           else
             let cells = map (\<lambda>i. cell_at payload (LOCAL_FULL_STATE_HEADER_LEN + i * 12)) [0..<cell_count]
             in Some (if ack_input_seq \<noteq> 0 then Some ack_input_seq else None,
                  \<lparr>fs_epoch = 0, viewport_top = 0, scrollback_total = 0, fs_rows = rows,
                   fs_cols = cols, fs_cursor_x = cursor_x, fs_cursor_y = cursor_y,
                   fs_cursor_visible = cursor_visible, fs_cursor_blinking = cursor_blinking,
                   fs_cursor_style = cursor_style, fs_cells = cells\<rparr>))"

definition decode_remote_pane_full_state :: "bytes \<Rightarrow> (u64 \<times> u64 \<times> remote_full_state) option" where
  "decode_remote_pane_full_state payload =
     (if length payload < UI_PANE_UPDATE_HEADER_LEN then None
      else
        case decode_remote_full_state (drop UI_PANE_UPDATE_HEADER_LEN payload) of
          None \<Rightarrow> None
        | Some (_, state) \<Rightarrow> Some (u64_at payload 4, u64_at payload 20, state))"

record remote_row_delta =
  rd_row :: u16
  rd_start_col :: u16
  rd_cells :: "remote_cell list"

record remote_delta =
  dl_cursor_x :: u16
  dl_cursor_y :: u16
  dl_cursor_visible :: bool
  dl_cursor_blinking :: bool
  dl_cursor_style :: i32
  dl_scroll_rows :: i16
  dl_changed_rows :: "remote_row_delta list"

definition read_cell :: "remote_cell opt_reader" where
  "read_cell payload offset =
     (if offset + 12 > length payload then None else Some (cell_at payload offset, offset + 12))"

definition read_row_delta :: "remote_row_delta opt_reader" where
  "read_row_delta payload offset =
     (if offset + 6 > length payload then None
      else
        let row = u16_at payload offset; start_col = u16_at payload (offset + 2);
            cols = unat (u16_at payload (offset + 4))
        in case opt_read_many read_cell cols payload (offset + 6) of
             None \<Rightarrow> None
           | Some (cells, offset1) \<Rightarrow>
               Some (\<lparr>rd_row = row, rd_start_col = start_col, rd_cells = cells\<rparr>, offset1))"

definition decode_remote_delta :: "bytes \<Rightarrow> (u64 option \<times> remote_delta) option" where
  "decode_remote_delta payload =
     (if length payload < LOCAL_DELTA_HEADER_LEN then None
      else
        let ack_input_seq = u64_at payload 0;
            row_count = unat (u16_at payload 8);
            cursor_x = u16_at payload 10; cursor_y = u16_at payload 12;
            cursor_visible = (payload ! 14 \<noteq> 0); cursor_blinking = (payload ! 15 \<noteq> 0);
            flags = payload ! 16;
            cursor_style = u32_at payload 17;
            scroll = (if flags AND 1 \<noteq> 0 then
                        if LOCAL_DELTA_HEADER_LEN + 2 > length payload then None
                        else Some (u16_at payload LOCAL_DELTA_HEADER_LEN, LOCAL_DELTA_HEADER_LEN + 2)
                      else Some (0, LOCAL_DELTA_HEADER_LEN))
        in case scroll of
             None \<Rightarrow> None
           | Some (scroll_rows, offset) \<Rightarrow>
               (case opt_read_many read_row_delta row_count payload offset of
                  None \<Rightarrow> None
                | Some (rows, _) \<Rightarrow>
                    Some (if ack_input_seq \<noteq> 0 then Some ack_input_seq else None,
                      \<lparr>dl_cursor_x = cursor_x, dl_cursor_y = cursor_y,
                       dl_cursor_visible = cursor_visible, dl_cursor_blinking = cursor_blinking,
                       dl_cursor_style = cursor_style, dl_scroll_rows = scroll_rows,
                       dl_changed_rows = rows\<rparr>)))"

definition decode_remote_pane_delta :: "bytes \<Rightarrow> (u64 \<times> u64 \<times> remote_delta) option" where
  "decode_remote_pane_delta payload =
     (if length payload < UI_PANE_UPDATE_HEADER_LEN then None
      else
        case decode_remote_delta (drop UI_PANE_UPDATE_HEADER_LEN payload) of
          None \<Rightarrow> None
        | Some (_, delta) \<Rightarrow> Some (u64_at payload 4, u64_at payload 20, delta))"

section \<open>Applying a delta\<close>

text \<open>\<open>Vec::resize\<close>.\<close>

definition list_resize :: "'a list \<Rightarrow> nat \<Rightarrow> 'a \<Rightarrow> 'a list" where
  "list_resize xs n x = take n xs @ replicate (n - length xs) x"

definition rotate_left :: "nat \<Rightarrow> 'a list \<Rightarrow> 'a list" where
  "rotate_left k xs = drop k xs @ take k xs"

definition rotate_right :: "nat \<Rightarrow> 'a list \<Rightarrow> 'a list" where
  "rotate_right k xs = rotate_left (length xs - k) xs"

text \<open>Blanking the rows of a scrolled region: the row and its revision, for each index.\<close>

definition blank_rows :: "nat list \<Rightarrow> nat \<Rightarrow> terminal_snapshot \<Rightarrow> terminal_snapshot" where
  "blank_rows indices cols snapshot =
     foldl (\<lambda>s i. s\<lparr>rows_data := (rows_data s)[i := replicate cols default_cell],
                    row_revisions := (row_revisions s)[i := row_revisions s ! i + 1]\<rparr>)
       snapshot indices"

definition apply_snapshot_scroll :: "i16 \<Rightarrow> terminal_snapshot \<Rightarrow> terminal_snapshot" where
  "apply_snapshot_scroll scroll_rows snapshot =
     (let rows = length (rows_data snapshot)
      in if rows = 0 then snapshot
         else
           let cols = unat (ts_cols snapshot);
               s1 = (if length (row_revisions snapshot) \<noteq> rows
                     then snapshot\<lparr>row_revisions := list_resize (row_revisions snapshot) rows 1\<rparr>
                     else snapshot)
           in if sint scroll_rows > 0 then
                let shift = min (nat (sint scroll_rows)) rows
                in blank_rows [rows - shift..<rows] cols
                     (s1\<lparr>rows_data := rotate_left shift (rows_data s1),
                         row_revisions := rotate_left shift (row_revisions s1)\<rparr>)
              else
                let shift = min (nat (- sint scroll_rows)) rows
                in blank_rows [0..<shift] cols
                     (s1\<lparr>rows_data := rotate_right shift (rows_data s1),
                         row_revisions := rotate_right shift (row_revisions s1)\<rparr>))"

text \<open>Writing cells from a column on, one position after the other.\<close>

fun write_cells :: "nat \<Rightarrow> remote_cell list \<Rightarrow> cell_snapshot list \<Rightarrow> cell_snapshot list" where
  "write_cells col [] row = row"
| "write_cells col (c # cs) row = write_cells (col + 1) cs (row[col := remote_cell_to_snapshot_default c])"

definition apply_row_delta :: "terminal_snapshot \<Rightarrow> remote_row_delta \<Rightarrow> terminal_snapshot" where
  "apply_row_delta snapshot row_delta =
     (let cols = unat (ts_cols snapshot); row_index = unat (rd_row row_delta)
      in if row_index \<ge> length (rows_data snapshot) then snapshot
         else
           let target = rows_data snapshot ! row_index;
               target1 = (if length target < cols then list_resize target cols default_cell else target);
               s1 = snapshot\<lparr>rows_data := (rows_data snapshot)[row_index := target1]\<rparr>;
               start_col = unat (rd_start_col row_delta)
           in if start_col \<ge> cols then s1
              else
                let target2 = write_cells start_col (take (cols - start_col) (rd_cells row_delta)) target1;
                    s2 = s1\<lparr>rows_data := (rows_data s1)[row_index := target2]\<rparr>
                in if row_index < length (row_revisions s2)
                   then s2\<lparr>row_revisions := (row_revisions s2)[row_index := row_revisions s2 ! row_index + 1]\<rparr>
                   else s2)"

definition apply_remote_delta_snapshot :: "remote_delta \<Rightarrow> terminal_snapshot \<Rightarrow> terminal_snapshot" where
  "apply_remote_delta_snapshot delta snapshot =
     (let s1 = snapshot\<lparr>ts_cursor := \<lparr>cu_visible = dl_cursor_visible delta,
                  cu_blinking = dl_cursor_blinking delta, cu_x = dl_cursor_x delta,
                  cu_y = dl_cursor_y delta, cu_style = cursor_style_from (dl_cursor_style delta)\<rparr>\<rparr>;
          s2 = (if length (row_revisions s1) \<noteq> length (rows_data s1)
                then s1\<lparr>row_revisions := list_resize (row_revisions s1) (length (rows_data s1)) 1\<rparr> else s1);
          s3 = (if dl_scroll_rows delta \<noteq> 0 then apply_snapshot_scroll (dl_scroll_rows delta) s2 else s2)
      in foldl apply_row_delta s3 (dl_changed_rows delta))"

end
