(* ===== verification/WireProps.thy ===== *)
theory WireProps
  imports Wire
begin

text \<open>
  Properties of the wire format: frames survive any chunking of the stream, what was encoded is
  decoded, and the cases in which the code does not achieve that.
\<close>

section \<open>Reading a stream\<close>

fun stream_bytes :: "stream \<Rightarrow> bytes" where
  "stream_bytes [] = []"
| "stream_bytes (Chunk bs # s) = bs @ stream_bytes s"
| "stream_bytes (Fail k # s) = stream_bytes s"

text \<open>A stream that delivers its bytes in some chunks, at worst interrupted by signals.\<close>

fun live :: "stream \<Rightarrow> bool" where
  "live [] = True"
| "live (Chunk bs # s) = (bs \<noteq> [] \<and> live s)"
| "live (Fail k # s) = (k = Interrupted \<and> live s)"

text \<open>A stream that is idle at most \<open>m\<close> times in a row, \<open>i\<close> of which have passed.\<close>

fun patient :: "nat \<Rightarrow> nat \<Rightarrow> stream \<Rightarrow> bool" where
  "patient m i [] = True"
| "patient m i (Chunk bs # s) = (bs \<noteq> [] \<and> patient m 0 s)"
| "patient m i (Fail k # s) = (is_idle_error k \<and> i < m \<and> patient m (i + 1) s)"

lemma take_append_take: "length bs \<le> n \<Longrightarrow> take n (bs @ xs) = bs @ take (n - length bs) xs"
  by simp

lemma read_exact_live:
  assumes "live s" and "n \<le> length (stream_bytes s)"
  shows "\<exists>s'. read_exact n s = (Inr (take n (stream_bytes s)), s') \<and> live s' \<and>
           stream_bytes s' = drop n (stream_bytes s)"
  using assms
proof (induction s arbitrary: n rule: stream_bytes.induct)
  case 1
  then show ?case by (simp add: read_exact.simps)
next
  case (2 bs s)
  show ?case
  proof (cases "n = 0")
    case True
    with 2 show ?thesis by (simp add: read_exact.simps)
  next
    case n: False
    show ?thesis
    proof (cases "length bs \<le> n")
      case True
      have "n - length bs \<le> length (stream_bytes s)" using 2 True by simp
      with 2 obtain s' where "read_exact (n - length bs) s = (Inr (take (n - length bs) (stream_bytes s)), s')"
        "live s'" "stream_bytes s' = drop (n - length bs) (stream_bytes s)" by fastforce
      with 2 True n show ?thesis by (simp add: read_exact.simps [of n])
    next
      case False
      have "read_exact 0 t = (Inr [], t)" for t by (simp add: read_exact.simps)
      with 2 False n show ?thesis by (simp add: read_exact.simps [of n])
    qed
  qed
next
  case (3 k s)
  show ?case
  proof (cases "n = 0")
    case True
    with 3 show ?thesis by (simp add: read_exact.simps)
  next
    case False
    with 3 show ?thesis by (simp add: read_exact.simps [of n "Fail Interrupted # s"])
  qed
qed

lemma read_exact_retrying_patient:
  assumes "patient m i s" and "buf \<noteq> [] \<or> (\<exists>bs s0. s = Chunk bs # s0)" and "length buf \<le> n"
    and "n \<le> length buf + length (stream_bytes s)"
  shows "\<exists>s'. read_exact_retrying n m buf i s = (Inr (take n (buf @ stream_bytes s)), s') \<and>
           stream_bytes s' = drop n (buf @ stream_bytes s)"
  using assms
proof (induction s arbitrary: buf i rule: stream_bytes.induct)
  case 1
  then show ?case by (simp add: read_exact_retrying.simps)
next
  case (2 bs s)
  show ?case
  proof (cases "length buf < n")
    case False
    with 2 show ?thesis by (simp add: read_exact_retrying.simps [of n])
  next
    case True
    show ?thesis
    proof (cases "length bs \<le> n - length buf")
      case le: True
      have "\<exists>s'. read_exact_retrying n m (buf @ bs) 0 s = (Inr (take n ((buf @ bs) @ stream_bytes s)), s') \<and>
           stream_bytes s' = drop n ((buf @ bs) @ stream_bytes s)"
        by (rule "2.IH") (use 2 le True in auto)
      with 2 le True show ?thesis by (simp add: read_exact_retrying.simps [of n m buf])
    next
      case False
      have "length (buf @ take (n - length buf) bs) = n" using False True by simp
      then have "read_exact_retrying n m (buf @ take (n - length buf) bs) 0 t
          = (Inr (buf @ take (n - length buf) bs), t)" for t
        by (simp add: read_exact_retrying.simps [of n m "buf @ take (n - length buf) bs"])
      with 2 False True show ?thesis by (auto simp: read_exact_retrying.simps [of n m buf])
    qed
  qed
next
  case (3 k s)
  show ?case
  proof (cases "length buf < n")
    case False
    with 3 show ?thesis by (simp add: read_exact_retrying.simps [of n])
  next
    case True
    have "\<exists>s'. read_exact_retrying n m buf (i + 1) s = (Inr (take n (buf @ stream_bytes s)), s') \<and>
         stream_bytes s' = drop n (buf @ stream_bytes s)"
      by (rule "3.IH") (use 3 in auto)
    with 3 True show ?thesis by (simp add: read_exact_retrying.simps [of n m buf i])
  qed
qed

lemma retrying_chunk:
  "length h = n \<Longrightarrow> 0 < n \<Longrightarrow> read_exact_retrying n m [] 0 (Chunk h # s) = (Inr h, s)"
  by (subst read_exact_retrying.simps) (auto simp: read_exact_retrying.simps [of n m h])

lemma retrying_idle:
  "0 < n \<Longrightarrow> is_idle_error k \<Longrightarrow> read_exact_retrying n m [] 0 (Fail k # s) = (Inl k, s)"
  by (subst read_exact_retrying.simps) simp

text \<open>A stream that delivers its bytes in some chunks, and nothing else.\<close>

fun steady :: "stream \<Rightarrow> bool" where
  "steady [] = True"
| "steady (Chunk bs # s) = (bs \<noteq> [] \<and> steady s)"
| "steady (Fail k # s) = False"

lemma steady_empty: "steady s \<Longrightarrow> stream_bytes s = [] \<Longrightarrow> s = []"
  by (cases s rule: steady.cases) auto

lemma read_exact_retrying_steady:
  assumes "steady cs" and "length buf \<le> n" and "n \<le> length buf + length (stream_bytes cs)"
  shows "\<exists>cs'. read_exact_retrying n m buf i (cs @ s) = (Inr (take n (buf @ stream_bytes cs)), cs' @ s)
    \<and> steady cs' \<and> stream_bytes cs' = drop n (buf @ stream_bytes cs)"
  using assms
proof (induction cs arbitrary: buf i rule: steady.induct)
  case 1
  then have "n = length buf" by simp
  then show ?case by (intro exI [of _ "[]"]) (simp add: read_exact_retrying.simps [of "length buf" m buf])
next
  case (2 bs cs)
  show ?case
  proof (cases "length buf < n")
    case False
    with 2 show ?thesis
      by (intro exI [of _ "Chunk bs # cs"]) (simp add: read_exact_retrying.simps [of n m buf])
  next
    case True
    show ?thesis
    proof (cases "length bs \<le> n - length buf")
      case le: True
      have "\<exists>cs'. read_exact_retrying n m (buf @ bs) 0 (cs @ s)
          = (Inr (take n ((buf @ bs) @ stream_bytes cs)), cs' @ s) \<and> steady cs'
          \<and> stream_bytes cs' = drop n ((buf @ bs) @ stream_bytes cs)"
        by (rule "2.IH") (use 2 le True in auto)
      with 2 le True show ?thesis by (simp add: read_exact_retrying.simps [of n m buf i])
    next
      case False
      have "length (buf @ take (n - length buf) bs) = n" using False True by simp
      then have "read_exact_retrying n m (buf @ take (n - length buf) bs) 0 t
          = (Inr (buf @ take (n - length buf) bs), t)" for t
        by (simp add: read_exact_retrying.simps [of n m "buf @ take (n - length buf) bs"])
      with 2 False True show ?thesis
        by (intro exI [of _ "Chunk (drop (n - length buf) bs) # cs"])
           (simp add: read_exact_retrying.simps [of n m buf i])
    qed
  qed
qed simp

lemma read_idle: "is_idle_error k \<Longrightarrow> read_message_retrying m (Fail k # s) = (Inl k, s)"
  using retrying_idle [of HEADER_LEN k m s] by (simp add: read_message_retrying_def HEADER_LEN_def)

section \<open>Frames\<close>

lemma length_encode_message: "length (encode_message ty payload) = HEADER_LEN + length payload"
  by (simp add: encode_message_def MAGIC_def HEADER_LEN_def)

lemma unat_word_of_nat32: "n < 2 ^ 32 \<Longrightarrow> unat (word_of_nat n :: u32) = n"
  by (simp add: unat_of_nat)

lemma unat_word_of_nat16: "n < 2 ^ 16 \<Longrightarrow> unat (word_of_nat n :: u16) = n"
  by (simp add: unat_of_nat)

lemma parse_header_frame:
  assumes "length payload < 2 ^ 32"
  shows "parse_header (take HEADER_LEN (encode_message ty payload @ rest)) = Inr (ty, length payload)"
proof -
  have "take HEADER_LEN (encode_message ty payload @ rest)
      = MAGIC @ [message_code ty] @ le32 (word_of_nat (length payload))"
    by (simp add: encode_message_def MAGIC_def HEADER_LEN_def)
  moreover have "u32_at (MAGIC @ [message_code ty] @ le32 (word_of_nat (length payload))) 3
      = word_of_nat (length payload)"
    using u32_at_mid [of "MAGIC @ [message_code ty]" _ "[]"] by (simp add: MAGIC_def numeral_3_eq_3)
  ultimately show ?thesis
    using unat_word_of_nat32 [OF assms] by (simp add: parse_header_def MAGIC_def)
qed

lemma drop_header_frame:
  "drop HEADER_LEN (encode_message ty payload @ rest) = payload @ rest"
  by (simp add: encode_message_def MAGIC_def HEADER_LEN_def)

lemma read_message_live:
  assumes "live s" and "stream_bytes s = encode_message ty payload @ rest" and "length payload < 2 ^ 32"
  shows "\<exists>s'. read_message s = (Inr (ty, payload), s') \<and> live s' \<and> stream_bytes s' = rest"
proof -
  have "HEADER_LEN \<le> length (stream_bytes s)" using assms(2) by (simp add: length_encode_message)
  from read_exact_live [OF assms(1) this] obtain s1 where
    h: "read_exact HEADER_LEN s = (Inr (take HEADER_LEN (stream_bytes s)), s1)"
      "live s1" "stream_bytes s1 = payload @ rest"
    using assms(2) drop_header_frame by metis
  have ph: "parse_header (take HEADER_LEN (stream_bytes s)) = Inr (ty, length payload)"
    using parse_header_frame [OF assms(3)] assms(2) by metis
  show ?thesis
  proof (cases "payload = []")
    case True
    with h ph show ?thesis by (simp add: read_message_def)
  next
    case False
    have "length payload \<le> length (stream_bytes s1)" using h(3) by simp
    from read_exact_live [OF h(2) this] obtain s2 where
      "read_exact (length payload) s1 = (Inr payload, s2)" "live s2" "stream_bytes s2 = rest"
      using h(3) by auto
    with False h ph show ?thesis by (simp add: read_message_def)
  qed
qed

text \<open>Reading a number of messages in turn.\<close>

fun read_messages :: "nat \<Rightarrow> stream \<Rightarrow> (io_kind + (message_type \<times> bytes) list) \<times> stream" where
  "read_messages 0 s = (Inr [], s)"
| "read_messages (Suc n) s =
     (case read_message s of
        (Inl k, s') \<Rightarrow> (Inl k, s')
      | (Inr m, s') \<Rightarrow>
          (case read_messages n s' of
             (Inl k, s'') \<Rightarrow> (Inl k, s'')
           | (Inr ms, s'') \<Rightarrow> (Inr (m # ms), s'')))"

lemma read_messages_live:
  assumes "live s" and "stream_bytes s = concat (map (\<lambda>(ty, p). encode_message ty p) ms) @ rest"
    and "\<forall>(ty, p) \<in> set ms. length p < 2 ^ 32"
  shows "\<exists>s'. read_messages (length ms) s = (Inr ms, s') \<and> live s' \<and> stream_bytes s' = rest"
  using assms
proof (induction ms arbitrary: s)
  case Nil
  then show ?case by simp
next
  case (Cons m ms)
  obtain ty p where m: "m = (ty, p)" by fastforce
  from read_message_live [of s ty p "concat (map (\<lambda>(ty, p). encode_message ty p) ms) @ rest"] Cons.prems m
  obtain s1 where 1: "read_message s = (Inr (ty, p), s1)" "live s1"
    "stream_bytes s1 = concat (map (\<lambda>(ty, p). encode_message ty p) ms) @ rest" by auto
  from Cons.IH [OF 1(2,3)] Cons.prems(3) 1 m show ?case by auto
qed

section \<open>Strings and the tab list\<close>

interpretation u16c: offset_codec le16 read_u16 "\<lambda>_. True"
proof
  show "read_u16 (pre @ le16 x @ rest) (length pre) = Inr (x, length pre + length (le16 x))" for x pre rest
    by (simp add: read_u16_def u16_at_mid)
  show "i \<le> j \<and> j \<le> length p" if "read_u16 p i = Inr (x, j)" for p i x j
    using that by (auto simp: read_u16_def split: if_splits)
qed

interpretation u32c: offset_codec le32 read_u32 "\<lambda>_. True"
proof
  show "read_u32 (pre @ le32 x @ rest) (length pre) = Inr (x, length pre + length (le32 x))" for x pre rest
    by (simp add: read_u32_def u32_at_mid)
  show "i \<le> j \<and> j \<le> length p" if "read_u32 p i = Inr (x, j)" for p i x j
    using that by (auto simp: read_u32_def split: if_splits)
qed

definition string_ok :: "rust_string \<Rightarrow> bool" where
  "string_ok s \<longleftrightarrow> length s \<le> 65535 \<and> valid_utf8 s"

lemma push_string_append: "push_string p s = p @ push_string [] s"
  by (simp add: push_string_def Let_def)

lemma push_string_ok: "length s \<le> 65535 \<Longrightarrow> push_string [] s = le16 (word_of_nat (length s)) @ s"
  by (simp add: push_string_def)

lemma read_string_step:
  assumes "length s \<le> 65535"
  shows "read_string (pre @ le16 (word_of_nat (length s)) @ s @ rest) (length pre) =
    (case from_utf8 s of None \<Rightarrow> Inl InvalidUtf8 | Some v \<Rightarrow> Inr (v, length pre + 2 + length s))"
proof -
  have u: "unat (word_of_nat (length s) :: u16) = length s"
    using assms by (intro unat_word_of_nat16) simp
  have r: "read_u16 (pre @ le16 (word_of_nat (length s)) @ s @ rest) (length pre)
      = Inr (word_of_nat (length s), length pre + 2)"
    using u16c.read_back [where x = "word_of_nat (length s)" and pre = pre and rest = "s @ rest"] by simp
  show ?thesis unfolding read_string_def r sum.case prod.case Let_def u by simp
qed

interpretation strc: offset_codec "push_string []" read_string string_ok
proof
  show "read_string (pre @ push_string [] x @ rest) (length pre)
      = Inr (x, length pre + length (push_string [] x))" if "string_ok x" for x pre rest
    using that read_string_step [of x pre rest] push_string_ok [of x]
    by (simp add: string_ok_def from_utf8_def)
  show "i \<le> j \<and> j \<le> length p" if "read_string p i = Inr (x, j)" "i \<le> length p" for p i x j
    using that u16c.in_bounds [of p i]
    by (auto simp: read_string_def Let_def split: sum.splits prod.splits if_splits option.splits)
qed

definition tab_encodable :: "remote_tab_info \<Rightarrow> bool" where
  "tab_encodable t \<longleftrightarrow> string_ok (rt_name t) \<and> string_ok (rt_title t) \<and> string_ok (rt_pwd t)"

definition tab_flags :: "remote_tab_info \<Rightarrow> u8" where
  "tab_flags t = (if rt_child_exited t then (if rt_active t then 1 else 0) OR 2
     else if rt_active t then 1 else 0)"

lemma tab_flags_bits: "(tab_flags t AND 1 \<noteq> 0) = rt_active t" "(tab_flags t AND 2 \<noteq> 0) = rt_child_exited t"
  by (simp_all add: tab_flags_def)

lemma encode_tab_info_eq:
  "encode_tab_info p t = p @ le32 (rt_id t) @ push_string [] (rt_name t) @ push_string [] (rt_title t)
     @ push_string [] (rt_pwd t) @ [tab_flags t]"
  unfolding encode_tab_info_def Let_def
  by (subst push_string_append, subst push_string_append, subst push_string_append)
     (simp add: tab_flags_def)

interpretation tabc: offset_codec "encode_tab_info []" read_tab_info tab_encodable
proof
  fix x pre rest
  assume ok: "tab_encodable x"
  let ?n = "push_string [] (rt_name x)" and ?t = "push_string [] (rt_title x)"
    and ?w = "push_string [] (rt_pwd x)" and ?i = "le32 (rt_id x)"
  let ?p = "pre @ ?i @ ?n @ ?t @ ?w @ [tab_flags x] @ rest"
  have sok: "string_ok (rt_name x)" "string_ok (rt_title x)" "string_ok (rt_pwd x)"
    using ok by (simp_all add: tab_encodable_def)
  have 1: "read_u32 ?p (length pre) = Inr (rt_id x, length (pre @ ?i))"
    using u32c.read_back [where x = "rt_id x" and pre = pre] by simp
  have 2: "read_string ?p (length (pre @ ?i)) = Inr (rt_name x, length (pre @ ?i @ ?n))"
    using strc.read_back [OF sok(1), where pre = "pre @ ?i"] by (simp add: add.assoc)
  have 3: "read_string ?p (length (pre @ ?i @ ?n)) = Inr (rt_title x, length (pre @ ?i @ ?n @ ?t))"
    using strc.read_back [OF sok(2), where pre = "pre @ ?i @ ?n"] by (simp add: add.assoc)
  have 4: "read_string ?p (length (pre @ ?i @ ?n @ ?t)) = Inr (rt_pwd x, length (pre @ ?i @ ?n @ ?t @ ?w))"
    using strc.read_back [OF sok(3), where pre = "pre @ ?i @ ?n @ ?t"] by (simp add: add.assoc)
  have "?p ! length (pre @ ?i @ ?n @ ?t @ ?w) = tab_flags x"
    using nth_append_length [of "pre @ ?i @ ?n @ ?t @ ?w" "tab_flags x" rest] by simp
  then have "read_tab_info ?p (length pre) = Inr (x, length (pre @ ?i @ ?n @ ?t @ ?w) + 1)"
    unfolding read_tab_info_def 1 2 3 4 sum.case prod.case
    using tab_flags_bits [of x] by (simp add: Let_def)
  then show "read_tab_info (pre @ encode_tab_info [] x @ rest) (length pre)
      = Inr (x, length pre + length (encode_tab_info [] x))"
    by (simp add: encode_tab_info_eq add.assoc)
next
  fix p i x j
  assume r: "read_tab_info p i = Inr (x, j)" and i: "i \<le> length p"
  from r obtain a k1 b k2 c k3 d k4 where
    1: "read_u32 p i = Inr (a, k1)" and 2: "read_string p k1 = Inr (b, k2)"
    and 3: "read_string p k2 = Inr (c, k3)" and 4: "read_string p k3 = Inr (d, k4)"
    and 5: "k4 < length p" "j = k4 + 1"
    by (auto simp: read_tab_info_def Let_def split: sum.splits prod.splits if_splits)
  from u32c.in_bounds [OF 1 i] strc.in_bounds [OF 2] strc.in_bounds [OF 3] strc.in_bounds [OF 4] 5
  show "i \<le> j \<and> j \<le> length p" by simp
qed

lemma encode_tab_list_eq:
  "encode_tab_list tabs = le32 (word_of_nat (length tabs)) @ concat (map (encode_tab_info []) tabs)"
proof -
  have "foldl encode_tab_info p ts = p @ concat (map (encode_tab_info []) ts)" for p ts
  proof (induction ts arbitrary: p)
    case (Cons t ts)
    then show ?case using encode_tab_info_eq [of p t] encode_tab_info_eq [of "[]" t] by simp
  qed simp
  then show ?thesis by (simp add: encode_tab_list_def)
qed

section \<open>Properties\<close>

text \<open>C27: framing is transparent to how the stream delivers its bytes. Any sequence of messages
  written as frames, cut into chunks at any places and interrupted by any number of signals, is
  read back message by message, and the stream is left right behind the last frame.\<close>

theorem frames_read_back:
  assumes "live s" and "stream_bytes s = concat (map (\<lambda>(ty, p). encode_message ty p) ms) @ rest"
    and "\<forall>(ty, p) \<in> set ms. length p < 2 ^ 32"
  shows "\<exists>s'. read_messages (length ms) s = (Inr ms, s') \<and> stream_bytes s' = rest"
  using read_messages_live [OF assms] by blast

theorem frames_read_back_witness:
  "\<exists>s'. read_messages 1 [Chunk [0x47], Fail Interrupted, Chunk [0x53, 0x11, 2, 0], Chunk [0, 0, 8, 9, 7]]
     = (Inr [(MsgHeartbeat, [8, 9])], s') \<and> stream_bytes s' = [7]"
proof -
  let ?s = "[Chunk [0x47], Fail Interrupted, Chunk [0x53, 0x11, 2, 0], Chunk [0, 0, 8, 9, 7]]"
  have "stream_bytes ?s = concat (map (\<lambda>(ty, p). encode_message ty p) [(MsgHeartbeat, [8, 9])]) @ [7]"
    by (simp add: encode_message_def MAGIC_def le32_def nat_le_numeral)
  from frames_read_back [OF _ this] show ?thesis by simp
qed

text \<open>the retrying read tolerates idle timeouts inside a message: if the first bytes are there and
  the stream is never idle more than the allowed number of times in a row, it returns exactly the
  bytes asked for and leaves the rest.\<close>

theorem retrying_read_complete:
  assumes "patient m 0 (Chunk b # s)" and "n \<le> length (stream_bytes (Chunk b # s))"
  shows "\<exists>s'. read_exact_retrying n m [] 0 (Chunk b # s) = (Inr (take n (stream_bytes (Chunk b # s))), s')
     \<and> stream_bytes s' = drop n (stream_bytes (Chunk b # s))"
  using read_exact_retrying_patient [OF assms(1), of "[]" n] assms(2) by auto

theorem retrying_read_complete_witness:
  "\<exists>s'. read_exact_retrying 3 1 [] 0 [Chunk [1, 2], Fail TimedOut, Chunk [3, 4]] = (Inr [1, 2, 3], s')
     \<and> stream_bytes s' = [4]"
  using retrying_read_complete [of 1 "[1, 2]" "[Fail TimedOut, Chunk [3, 4]]" 3]
  by (simp add: is_idle_error_def)

text \<open>A probe sits out idle reads between messages, one round of its loop for each.\<close>

lemma probe_idle:
  "\<forall>k \<in> set ks. is_idle_error k \<Longrightarrow>
   read_probe_reply_loop (length ks + rounds) ty (map Fail ks @ s) = read_probe_reply_loop rounds ty s"
  by (induction ks) (simp_all add: read_idle)

text \<open>C28: An idle read between the header of a message and its payload loses the header. A probe waits
  for a message; the header arrives, in any chunks, then the read is idle once or up to seven times,
  and then the payload arrives complete, in any chunks and with anything behind it. The retrying
  reader has consumed the header when it reports the first idle read, and the probe, which carries on,
  takes the first bytes of the payload for the next header. Unless they happen to start with the magic
  bytes (and if there are enough for a header), it fails with invalid data, although the message it
  waits for has arrived.\<close>

theorem late_payload_desynchronises:
  assumes "steady header" and "stream_bytes header = take HEADER_LEN (encode_message expected payload)"
    and "idles \<noteq> []" and "length idles \<le> 7" and "\<forall>k \<in> set idles. is_idle_error k"
    and "steady late" and "stream_bytes late = payload @ rest" and "payload \<noteq> []" and "length payload < 2 ^ 32"
    and "HEADER_LEN \<le> length (payload @ rest)" and "take 2 (payload @ rest) \<noteq> MAGIC"
  shows "\<exists>s. read_probe_reply expected (header @ map Fail idles @ late) = (Inl (ReadFailed InvalidData), s)
    \<and> stream_bytes s = drop HEADER_LEN (payload @ rest)"
proof -
  let ?h = "take HEADER_LEN (encode_message expected payload)"
  have lh: "length ?h = HEADER_LEN" by (simp add: length_encode_message)
  have ph: "parse_header ?h = Inr (expected, length payload)"
    using parse_header_frame [of payload expected "[]"] assms(9) by simp
  obtain k ks where ks: "idles = k # ks" using assms(3) by (cases idles) auto
  let ?s = "map Fail ks @ late"
  have r1: "read_exact_retrying HEADER_LEN 2 [] 0 (header @ Fail k # ?s) = (Inr ?h, Fail k # ?s)"
    using read_exact_retrying_steady [OF assms(1), of "[]" HEADER_LEN 2 0 "Fail k # ?s"] assms(2) lh steady_empty
    by fastforce
  have r2: "read_exact_retrying (length payload) 2 [] 0 (Fail k # ?s) = (Inl k, ?s)"
    by (rule retrying_idle) (use assms(5,8) ks in simp_all)
  have m1: "read_message_retrying 2 (header @ Fail k # ?s) = (Inl k, ?s)"
    using ph r1 r2 assms(8) by (simp add: read_message_retrying_def)
  obtain s where r3: "read_exact_retrying HEADER_LEN 2 [] 0 late = (Inr (take HEADER_LEN (payload @ rest)), s)"
    "stream_bytes s = drop HEADER_LEN (payload @ rest)"
    using read_exact_retrying_steady [OF assms(6), of "[]" HEADER_LEN 2 0 "[]"] assms(7,10) by auto
  have "parse_header (take HEADER_LEN (payload @ rest)) = Inl InvalidData"
    using assms(11) by (simp add: parse_header_def HEADER_LEN_def del: take_append)
  then have m2: "read_message_retrying 2 late = (Inl InvalidData, s)"
    using r3(1) by (simp add: read_message_retrying_def)
  have "length ks < 7" using assms(4) ks by simp
  then obtain n where n: "7 = length ks + Suc n" by (metis add_Suc_right less_iff_Suc_add)
  have "read_probe_reply expected (header @ map Fail idles @ late) = read_probe_reply_loop 7 expected ?s"
    using m1 assms(5) by (simp add: read_probe_reply_def ks eval_nat_numeral)
  also have "\<dots> = read_probe_reply_loop (Suc n) expected late"
    unfolding n by (rule probe_idle) (use assms(5) ks in simp)
  also have "\<dots> = (Inl (ReadFailed InvalidData), s)" using m2 by (simp add: is_idle_error_def)
  finally show ?thesis using r3(2) by blast
qed

theorem late_payload_desynchronises_witness:
  "\<exists>s. read_probe_reply MsgHeartbeatAck
     [Chunk [0x47, 0x53, 0x92], Chunk [8, 0, 0, 0], Fail TimedOut, Fail WouldBlock,
      Chunk [1, 2, 3], Chunk [4, 5, 6, 7, 8, 9]]
     = (Inl (ReadFailed InvalidData), s) \<and> stream_bytes s = [8, 9]"
  using late_payload_desynchronises [of "[Chunk [0x47, 0x53, 0x92], Chunk [8, 0, 0, 0]]" MsgHeartbeatAck
      "[1, 2, 3, 4, 5, 6, 7, 8]" "[TimedOut, WouldBlock]" "[Chunk [1, 2, 3], Chunk [4, 5, 6, 7, 8, 9]]" "[9]"]
  by (simp add: MAGIC_def is_idle_error_def encode_message_def HEADER_LEN_def le32_def nat_le_numeral)

text \<open>the handshake round trip. What the server sends decodes to its protocol version, its
  capabilities, the build and the instance, and the client accepts it.\<close>

theorem auth_ok_round_trip:
  assumes "valid_utf8 instance_id" and "length instance_id < 2 ^ 16" and "instance_id \<noteq> []"
  shows "decode_auth_ok_payload (encode_auth_ok_payload instance_id)
           = Some (REMOTE_PROTOCOL_VERSION, REMOTE_CAPABILITIES, Some CARGO_PKG_VERSION, Some instance_id)
     \<and> validate_auth_ok_payload (encode_auth_ok_payload instance_id) = Inr ()"
proof -
  let ?b = "CARGO_PKG_VERSION" and ?v = "le16 REMOTE_PROTOCOL_VERSION" and ?c = "le32 REMOTE_CAPABILITIES"
  let ?bl = "le16 (word_of_nat (length ?b))" and ?il = "le16 (word_of_nat (length instance_id))"
  let ?p = "encode_auth_ok_payload instance_id"
  have p: "?p = ?v @ ?c @ ?bl @ ?b @ ?il @ instance_id" by (simp add: encode_auth_ok_payload_def)
  have lb: "length ?b = 5" by (simp add: CARGO_PKG_VERSION_def)
  have bl: "unat (word_of_nat (length ?b) :: u16) = 5" using lb by simp
  have il: "unat (word_of_nat (length instance_id) :: u16) = length instance_id"
    by (rule unat_word_of_nat16 [OF assms(2)])
  have len: "length ?p = 15 + length instance_id" using lb p by simp
  have a: "u16_at ?p 0 = REMOTE_PROTOCOL_VERSION" "u32_at ?p 2 = REMOTE_CAPABILITIES"
    "u16_at ?p 6 = word_of_nat (length ?b)" "u16_at ?p 13 = word_of_nat (length instance_id)"
    using lb unfolding p by (simp_all add: codec_simps)
  have d: "take 5 (drop 8 ?p) = ?b" "take (length instance_id) (drop 15 ?p) = instance_id"
    using lb unfolding p by simp_all
  have vb: "valid_utf8 ?b" by (rule valid_utf8_ascii) (simp add: CARGO_PKG_VERSION_def)
  have dec: "decode_auth_ok_payload ?p
      = Some (REMOTE_PROTOCOL_VERSION, REMOTE_CAPABILITIES, Some ?b, Some instance_id)"
    unfolding decode_auth_ok_payload_def len a Let_def bl
    using d vb assms(1) il len a(4) by (simp add: from_utf8_def flip: length_0_conv)
  have "REMOTE_CAPABILITIES AND REMOTE_CAPABILITY_HEARTBEAT \<noteq> 0"
    "REMOTE_CAPABILITIES AND REMOTE_CAPABILITY_QUIC_DIRECT_TRANSPORT \<noteq> 0"
    by (simp_all add: REMOTE_CAPABILITIES_def REMOTE_CAPABILITY_HEARTBEAT_def
        REMOTE_CAPABILITY_QUIC_DIRECT_TRANSPORT_def REMOTE_CAPABILITY_SCREEN_DELTAS_def
        REMOTE_CAPABILITY_UI_STATE_def REMOTE_CAPABILITY_IMAGES_def REMOTE_CAPABILITY_ROW_REPLICA_def)
  then have "validate_auth_ok_payload ?p = Inr ()"
    using dec assms(3) by (simp add: validate_auth_ok_payload_def none_or_empty_def CARGO_PKG_VERSION_def)
  with dec show ?thesis by simp
qed

theorem auth_ok_round_trip_witness:
  "validate_auth_ok_payload (encode_auth_ok_payload [0x61, 0x62]) = Inr ()"
  using auth_ok_round_trip [of "[0x61, 0x62]"] by simp

text \<open>the tab list round trip. A list of tabs whose texts are valid UTF-8 of at most 65535 bytes
  is decoded to the same list.\<close>

theorem tab_list_round_trip:
  assumes "\<forall>t \<in> set tabs. tab_encodable t" and "length tabs < 2 ^ 32"
  shows "decode_tab_list_payload (encode_tab_list tabs) = Inr tabs"
proof -
  let ?n = "le32 (word_of_nat (length tabs))"
  have e: "encode_tab_list tabs = ?n @ concat (map (encode_tab_info []) tabs)"
    by (rule encode_tab_list_eq)
  have "unat (u32_at (encode_tab_list tabs) 0) = length tabs"
    using unat_word_of_nat32 [OF assms(2)] e by (simp add: codec_simps)
  moreover have "read_many read_tab_info (length tabs) (encode_tab_list tabs) 4
      = Inr (tabs, length (encode_tab_list tabs))"
    using tabc.read_many_back [OF assms(1), of ?n "[]"] e by simp
  ultimately show ?thesis using e by (simp add: decode_tab_list_payload_def)
qed

theorem tab_list_round_trip_witness:
  "decode_tab_list_payload (encode_tab_list
     [\<lparr>rt_id = 7, rt_name = [0x54], rt_title = [], rt_pwd = [0xC3, 0xA9], rt_active = True,
       rt_child_exited = False\<rparr>])
   = Inr [\<lparr>rt_id = 7, rt_name = [0x54], rt_title = [], rt_pwd = [0xC3, 0xA9], rt_active = True,
       rt_child_exited = False\<rparr>]"
  by (rule tab_list_round_trip) (simp_all add: tab_encodable_def string_ok_def cont_byte_def)

text \<open>a title whose 65535th byte is the first of a multi-byte character breaks the whole tab list:
  the encoder cuts the text in the middle of the character, and the decoder rejects the list.\<close>

theorem truncated_text_breaks_tab_list:
  assumes "length pre = 65534" and "\<forall>b \<in> set pre. b < 0x80" and "valid_utf8 (0xC3 # b # rest)"
  shows "valid_utf8 (pre @ 0xC3 # b # rest)
     \<and> decode_tab_list_payload (encode_tab_list [\<lparr>rt_id = i, rt_name = pre @ 0xC3 # b # rest,
          rt_title = t, rt_pwd = w, rt_active = x, rt_child_exited = y\<rparr>]) = Inl InvalidUtf8"
proof -
  let ?s = "pre @ 0xC3 # b # rest"
  let ?tab = "\<lparr>rt_id = i, rt_name = ?s, rt_title = t, rt_pwd = w, rt_active = x, rt_child_exited = y\<rparr>"
  have v: "valid_utf8 ?s"
    using valid_utf8_append [OF valid_utf8_ascii [OF assms(2)] assms(3)] by simp
  have tk: "take 65535 ?s = pre @ [0xC3]" using assms(1) by (simp add: take_Suc_conv_app_nth)
  have inv: "\<not> valid_utf8 (pre @ [0xC3])"
    using assms(2) by (induction pre) auto
  have ps: "push_string [] ?s = le16 (word_of_nat (length (pre @ [0xC3]))) @ (pre @ [0xC3])"
    using assms(1) tk by (simp add: push_string_def)
  obtain z where e: "encode_tab_list [?tab] = (le32 1 @ le32 i) @ push_string [] ?s @ z"
    by (simp add: encode_tab_list_eq encode_tab_info_eq)
  have "read_u32 (encode_tab_list [?tab]) 4 = Inr (i, 8)"
    unfolding e using u32c.read_back [where x = i and pre = "le32 1"] by simp
  moreover have "read_string (encode_tab_list [?tab]) 8 = Inl InvalidUtf8"
    unfolding e ps using read_string_step [of "pre @ [0xC3]" "le32 1 @ le32 i" z] assms(1) inv
    by (simp add: from_utf8_def)
  ultimately have r: "read_tab_info (encode_tab_list [?tab]) 4 = Inl InvalidUtf8"
    by (simp add: read_tab_info_def)
  have c: "unat (u32_at (encode_tab_list [?tab]) 0) = 1" unfolding e by (simp add: codec_simps)
  have l: "\<not> length (encode_tab_list [?tab]) < 4" unfolding e by simp
  have "decode_tab_list_payload (encode_tab_list [?tab]) = Inl InvalidUtf8"
    unfolding decode_tab_list_payload_def Let_def c using r l by simp
  with v show ?thesis by simp
qed

theorem truncated_text_breaks_tab_list_witness:
  "decode_tab_list_payload (encode_tab_list [\<lparr>rt_id = 1, rt_name = replicate 65534 0x61 @ [0xC3, 0xA9],
          rt_title = [], rt_pwd = [], rt_active = True, rt_child_exited = False\<rparr>]) = Inl InvalidUtf8"
  using truncated_text_breaks_tab_list [of "replicate 65534 0x61" "0xA9" "[]" 1 "[]" "[]" True False]
  by (simp add: cont_byte_def)

text \<open>the codes are unambiguous: every message type and every error code is recovered from its
  number, no other byte is a message type, and an error payload gives back its code and text.\<close>

theorem codes_round_trip:
  "message_try_from (message_code ty) = Some ty \<and>
   (message_try_from v = Some ty \<longrightarrow> v = message_code ty) \<and>
   error_try_from (error_code c) = Some c \<and>
   (valid_utf8 m \<longrightarrow> decode_error_payload (encode_error_payload c m) = Inr (c, m))"
  using message_try_from_Some [of v ty]
  by (simp add: decode_error_payload_def encode_error_payload_def from_utf8_def codec_simps)

theorem codes_round_trip_witness:
  "decode_error_payload (encode_error_payload ErrUnknownTab [0x6E]) = Inr (ErrUnknownTab, [0x6E])"
  using codes_round_trip [of MsgAuth 0 ErrUnknownTab "[0x6E]"] by simp

end
