(* ===== verification/ScreenCodec.thy ===== *)
theory ScreenCodec
  imports ClientDecode WireProps
begin

text \<open>
  The screen codec: what the server encodes, the client decodes. Cells and row deltas satisfy the
  contract of \<open>offset_codec\<close>; full states and deltas follow from its list lemma.
\<close>

section \<open>Option readers as readers\<close>

definition lift_reader :: "'a opt_reader \<Rightarrow> 'a reader" where
  "lift_reader rd payload offset =
     (case rd payload offset of None \<Rightarrow> Inl PayloadTruncated | Some x \<Rightarrow> Inr x)"

lemma lift_reader_cases:
  "rd p i = None \<Longrightarrow> lift_reader rd p i = Inl PayloadTruncated"
  "rd p i = Some x \<Longrightarrow> lift_reader rd p i = Inr x"
  by (simp_all add: lift_reader_def)

lemma lift_read_many:
  "lift_reader (opt_read_many rd n) payload offset = read_many (lift_reader rd) n payload offset"
proof (induction n arbitrary: offset)
  case 0
  show ?case by (simp add: lift_reader_cases)
next
  case (Suc n)
  show ?case
  proof (cases "rd payload offset")
    case None
    then show ?thesis by (simp add: lift_reader_cases)
  next
    case (Some x)
    obtain y k where x: "x = (y, k)" by fastforce
    show ?thesis
      using Some x Suc.IH [of k]
      by (cases "opt_read_many rd n payload k") (auto simp: lift_reader_cases dest: sym)
  qed
qed

lemma lift_reader_Some: "lift_reader rd p i = Inr x \<longleftrightarrow> rd p i = Some x"
  by (auto simp: lift_reader_def split: option.splits)

lemma opt_read_many_Some:
  "opt_read_many rd n p i = Some x \<longleftrightarrow> read_many (lift_reader rd) n p i = Inr x"
  using lift_read_many [of rd n p i] by (metis lift_reader_Some)

section \<open>Cells\<close>

lemma length_encode_cell [simp]: "length (encode_cell c) = 12"
  by (simp add: encode_cell_def rgb_bytes_def)

lemma length_encode_cells [simp]: "length (concat (map encode_cell cs)) = 12 * length cs"
  by (induction cs) auto

lemma nth_mid: "i < length m \<Longrightarrow> (pre @ m @ rest) ! (length pre + i) = m ! i"
  by (simp add: nth_append)

lemma bool_byte_nonzero [simp]: "(bool_byte b \<noteq> 0) = b" "(bool_byte b = 0) = (\<not> b)"
  by (simp_all add: bool_byte_def)

lemma cell_at_mid: "cell_at (pre @ encode_cell c @ rest) (length pre) = c"
proof -
  let ?cp = "le32 (codepoint c)"
  have b: "(pre @ encode_cell c @ rest) ! (length pre + (4 + i))
      = (rgb_bytes (cell_fg c) @ rgb_bytes (cell_bg c) @ [style_flags c, bool_byte (wide c)]) ! i"
    if "i < 8" for i
  proof -
    have "(pre @ encode_cell c @ rest) ! (length pre + (4 + i)) = encode_cell c ! (4 + i)"
      using that by (intro nth_mid) simp
    also have "\<dots> = (rgb_bytes (cell_fg c) @ rgb_bytes (cell_bg c) @ [style_flags c, bool_byte (wide c)]) ! i"
      using nth_append [of ?cp _ "4 + i"] by (simp add: encode_cell_def)
    finally show ?thesis .
  qed
  have u: "u32_at (pre @ encode_cell c @ rest) (length pre) = codepoint c"
    unfolding encode_cell_def append_assoc by (rule u32_at_mid)
  show ?thesis
    using b [of 0] b [of 1] b [of 2] b [of 3] b [of 4] b [of 5] b [of 6] b [of 7] u
    by (simp add: cell_at_def rgb_bytes_def nth_Cons')
qed

lemma cells_at_mid:
  "map (\<lambda>i. cell_at (pre @ concat (map encode_cell cs) @ rest) (length pre + i * 12)) [0..<length cs] = cs"
proof (rule nth_equalityI)
  fix i assume "i < length (map (\<lambda>i. cell_at (pre @ concat (map encode_cell cs) @ rest) (length pre + i * 12))
      [0..<length cs])"
  then have i: "i < length cs" by simp
  have "concat (map encode_cell cs) = concat (map encode_cell (take i cs)) @ encode_cell (cs ! i)
      @ concat (map encode_cell (drop (Suc i) cs))"
    using arg_cong [OF id_take_nth_drop [OF i], of "\<lambda>x. concat (map encode_cell x)"] by simp
  then have e: "pre @ concat (map encode_cell cs) @ rest = (pre @ concat (map encode_cell (take i cs)))
      @ encode_cell (cs ! i) @ (concat (map encode_cell (drop (Suc i) cs)) @ rest)" by simp
  have l: "length pre + i * 12 = length (pre @ concat (map encode_cell (take i cs)))"
    using i by (simp add: min_def)
  have "cell_at (pre @ concat (map encode_cell cs) @ rest) (length pre + i * 12) = cs ! i"
    unfolding e l by (rule cell_at_mid)
  then show "map (\<lambda>i. cell_at (pre @ concat (map encode_cell cs) @ rest) (length pre + i * 12)) [0..<length cs] ! i
      = cs ! i"
    using i by simp
qed simp

lemma read_cell_mid:
  "read_cell (pre @ encode_cell c @ rest) (length pre) = Some (c, length pre + 12)"
  using cell_at_mid [of pre c rest] by (simp add: read_cell_def del: concat.simps)

lemma read_cell_bounds: "read_cell p i = Some (c, j) \<Longrightarrow> i \<le> j \<and> j \<le> length p"
  by (simp add: read_cell_def split: if_splits)

interpretation cellc: offset_codec encode_cell "lift_reader read_cell" "\<lambda>_. True"
proof
  show "lift_reader read_cell (pre @ encode_cell x @ rest) (length pre)
      = Inr (x, length pre + length (encode_cell x))" for x pre rest
    unfolding lift_reader_Some length_encode_cell by (rule read_cell_mid)
  show "i \<le> j \<and> j \<le> length p" if "lift_reader read_cell p i = Inr (x, j)" for p i x j
    using that unfolding lift_reader_Some by (rule read_cell_bounds)
qed

section \<open>Full states\<close>

definition fs_wf :: "remote_full_state \<Rightarrow> bool" where
  "fs_wf st \<longleftrightarrow> length (fs_cells st) = unat (fs_rows st) * unat (fs_cols st)"

text \<open>What a client learns from an acknowledged input sequence: 0 stands for none.\<close>

definition ack_of :: "u64 option \<Rightarrow> u64 option" where
  "ack_of seq = (case seq of Some n \<Rightarrow> (if n \<noteq> 0 then Some n else None) | None \<Rightarrow> None)"

lemma ack_of_prefix:
  "(if (case seq of Some n \<Rightarrow> n | None \<Rightarrow> 0) \<noteq> (0 :: u64) then Some (case seq of Some n \<Rightarrow> n | None \<Rightarrow> 0) else None)
     = ack_of seq"
  by (auto simp: ack_of_def split: option.splits)

lemma full_state_round_trip_aux:
  assumes "fs_wf st"
  shows "decode_remote_full_state (encode_full_state st seq True)
    = Some (ack_of seq, st\<lparr>fs_epoch := 0, viewport_top := 0, scrollback_total := 0\<rparr>)"
proof -
  let ?n = "case seq of Some n \<Rightarrow> n | None \<Rightarrow> 0"
  let ?h = "le64 ?n @ le16 (fs_rows st) @ le16 (fs_cols st) @ le16 (fs_cursor_x st) @ le16 (fs_cursor_y st)
     @ [bool_byte (fs_cursor_visible st)] @ [bool_byte (fs_cursor_blinking st)] @ le32 (fs_cursor_style st)"
  let ?p = "encode_full_state st seq True"
  obtain z where p: "?p = ?h @ concat (map encode_cell (fs_cells st)) @ z"
    by (simp add: encode_full_state_def append_row_replica_trailer_def input_seq_prefix_def Let_def)
  have lh: "length ?h = 22" by simp
  have cs: "map (\<lambda>i. cell_at ?p (22 + i * 12)) [0..<length (fs_cells st)] = fs_cells st"
    using cells_at_mid [of ?h "fs_cells st" z] unfolding p lh .
  have at: "u64_at ?p 0 = ?n" "u16_at ?p 8 = fs_rows st" "u16_at ?p 10 = fs_cols st"
    "u16_at ?p 12 = fs_cursor_x st" "u16_at ?p 14 = fs_cursor_y st" "u32_at ?p 18 = fs_cursor_style st"
    unfolding p by (simp_all add: codec_simps)
  have bs: "?p ! 16 = bool_byte (fs_cursor_visible st)" "?p ! 17 = bool_byte (fs_cursor_blinking st)"
    unfolding p by (simp_all add: nth_append)
  have len: "length ?p = 22 + 12 * length (fs_cells st) + length z" unfolding p by simp
  have "LOCAL_FULL_STATE_HEADER_LEN = 22"
    by (simp add: LOCAL_FULL_STATE_HEADER_LEN_def LOCAL_INPUT_SEQ_LEN_def REMOTE_FULL_STATE_HEADER_LEN_def)
  then show ?thesis
    unfolding decode_remote_full_state_def at bs Let_def
    using assms cs len ack_of_prefix [of seq]
    by (simp add: fs_wf_def REMOTE_CELL_ENCODED_LEN_def mult.commute)
qed

lemma pane_update_header:
  assumes q_def: "q = encode_ui_pane_update_payload tab pane prev rr p"
  shows "length q = 28 + length p" and "drop UI_PANE_UPDATE_HEADER_LEN q = p"
    and "u64_at q 4 = pane" and "u64_at q 20 = rr" and "u32_at q 0 = tab" and "u64_at q 12 = prev"
  unfolding q_def encode_ui_pane_update_payload_def UI_PANE_UPDATE_HEADER_LEN_def
  by (simp_all add: codec_simps)

section \<open>Row deltas\<close>

definition row_delta_of :: "u16 \<times> nat \<times> remote_cell list \<Rightarrow> remote_row_delta" where
  "row_delta_of r = (case r of (row, start_col, cells) \<Rightarrow>
     \<lparr>rd_row = row, rd_start_col = word_of_nat start_col, rd_cells = cells\<rparr>)"

definition row_delta_ok :: "u16 \<times> nat \<times> remote_cell list \<Rightarrow> bool" where
  "row_delta_ok r \<longleftrightarrow> length (snd (snd r)) < 2 ^ 16"

definition enc_row :: "remote_row_delta \<Rightarrow> bytes" where
  "enc_row d = encode_row_delta (rd_row d, unat (rd_start_col d), rd_cells d)"

lemma encode_row_delta_enc: "fst (snd r) < 2 ^ 16 \<Longrightarrow> encode_row_delta r = enc_row (row_delta_of r)"
  by (cases r) (simp add: enc_row_def row_delta_of_def encode_row_delta_def unat_of_nat)

interpretation rowc: offset_codec enc_row "lift_reader read_row_delta" "\<lambda>d. length (rd_cells d) < 2 ^ 16"
proof
  fix d :: remote_row_delta and pre rest
  assume ok: "length (rd_cells d) < 2 ^ 16"
  let ?h = "le16 (rd_row d) @ le16 (rd_start_col d) @ le16 (word_of_nat (length (rd_cells d)))"
  let ?p = "pre @ enc_row d @ rest"
  have p: "?p = (pre @ ?h) @ concat (map encode_cell (rd_cells d)) @ rest"
    by (simp add: enc_row_def encode_row_delta_def)
  have at: "u16_at ?p (length pre) = rd_row d" "u16_at ?p (length pre + 2) = rd_start_col d"
    "u16_at ?p (length pre + 4) = word_of_nat (length (rd_cells d))"
    unfolding p by (simp_all add: codec_simps)
  have "read_many (lift_reader read_cell) (length (rd_cells d)) ?p (length (pre @ ?h))
      = Inr (rd_cells d, length (pre @ ?h) + length (concat (map encode_cell (rd_cells d))))"
    unfolding p by (rule cellc.read_many_back) simp
  then have "opt_read_many read_cell (length (rd_cells d)) ?p (length pre + 6)
      = Some (rd_cells d, length pre + 6 + 12 * length (rd_cells d))"
    by (simp add: opt_read_many_Some)
  moreover have "unat (word_of_nat (length (rd_cells d)) :: u16) = length (rd_cells d)"
    by (rule unat_word_of_nat16 [OF ok])
  moreover have "length (enc_row d) = 6 + 12 * length (rd_cells d)"
    by (simp add: enc_row_def encode_row_delta_def)
  ultimately show "lift_reader read_row_delta ?p (length pre) = Inr (d, length pre + length (enc_row d))"
    unfolding lift_reader_Some read_row_delta_def at Let_def by simp
next
  fix p i j and d :: remote_row_delta
  assume "lift_reader read_row_delta p i = Inr (d, j)" and "i \<le> length p"
  then obtain cols cells where "i + 6 \<le> length p" "opt_read_many read_cell cols p (i + 6) = Some (cells, j)"
    by (auto simp: lift_reader_Some read_row_delta_def Let_def split: if_splits option.splits)
  then show "i \<le> j \<and> j \<le> length p"
    using cellc.read_many_in_bounds [of cols p "i + 6" cells j] by (simp add: opt_read_many_Some)
qed

lemma decode_delta_aux:
  assumes "length ds < 2 ^ 16" and "\<forall>d \<in> set ds. length (rd_cells d) < 2 ^ 16"
  shows "decode_remote_delta (delta_header cur seq True (length ds) @ concat (map enc_row ds) @ z)
    = Some (ack_of seq, \<lparr>dl_cursor_x = fs_cursor_x cur, dl_cursor_y = fs_cursor_y cur,
        dl_cursor_visible = fs_cursor_visible cur, dl_cursor_blinking = fs_cursor_blinking cur,
        dl_cursor_style = fs_cursor_style cur, dl_scroll_rows = 0, dl_changed_rows = ds\<rparr>)"
proof -
  let ?n = "case seq of Some n \<Rightarrow> n | None \<Rightarrow> 0"
  let ?h = "delta_header cur seq True (length ds)"
  let ?p = "?h @ concat (map enc_row ds) @ z"
  have h: "?h = le64 ?n @ le16 (word_of_nat (length ds)) @ le16 (fs_cursor_x cur) @ le16 (fs_cursor_y cur)
     @ [bool_byte (fs_cursor_visible cur)] @ [bool_byte (fs_cursor_blinking cur)] @ [0]
     @ le32 (fs_cursor_style cur)"
    by (simp add: delta_header_def input_seq_prefix_def)
  have lh: "length ?h = 21" unfolding h by simp
  have at: "u64_at ?p 0 = ?n" "u16_at ?p 8 = word_of_nat (length ds)" "u16_at ?p 10 = fs_cursor_x cur"
    "u16_at ?p 12 = fs_cursor_y cur" "u32_at ?p 17 = fs_cursor_style cur"
    unfolding h by (simp_all add: codec_simps)
  have bs: "?p ! 14 = bool_byte (fs_cursor_visible cur)" "?p ! 15 = bool_byte (fs_cursor_blinking cur)"
    "?p ! 16 = 0"
    unfolding h by (simp_all add: nth_append)
  have "read_many (lift_reader read_row_delta) (length ds) ?p (length ?h)
      = Inr (ds, length ?h + length (concat (map enc_row ds)))"
    by (rule rowc.read_many_back [OF assms(2)])
  then have rd: "opt_read_many read_row_delta (length ds) ?p 21
      = Some (ds, 21 + length (concat (map enc_row ds)))"
    unfolding lh opt_read_many_Some .
  have un: "unat (word_of_nat (length ds) :: u16) = length ds" by (rule unat_word_of_nat16 [OF assms(1)])
  have hl: "LOCAL_DELTA_HEADER_LEN = 21"
    by (simp add: LOCAL_DELTA_HEADER_LEN_def LOCAL_INPUT_SEQ_LEN_def REMOTE_DELTA_HEADER_LEN_def)
  have nl: "\<not> length ?p < 21" using lh by simp
  show ?thesis
    unfolding decode_remote_delta_def hl at bs Let_def un
    using rd nl ack_of_prefix [of seq] by simp
qed

end
