(* ===== verification/ScreenSync.thy ===== *)
theory ScreenSync
  imports ScreenCodec
begin

text \<open>
  Deltas: the segment of a row that changed, the rows that changed, and the effect of applying a
  decoded delta to the client's snapshot of the previous state.
\<close>

section \<open>Changed segments\<close>

lemma rposition_SomeD:
  assumes "rposition P xs = Some i"
  shows "i < length xs \<and> P (xs ! i) \<and> (\<forall>j < length xs. i < j \<longrightarrow> \<not> P (xs ! j))"
proof -
  from assms obtain k where k: "position P (rev xs) = Some k" and i: "i = length xs - 1 - k"
    by (auto simp: rposition_def)
  note p = position_SomeD [OF k]
  have kl: "k < length xs" using p by simp
  have "\<not> P (xs ! j)" if "j < length xs" "i < j" for j
  proof -
    have "length xs - 1 - j < k" using that i kl by linarith
    with p have "\<not> P (rev xs ! (length xs - 1 - j))" by blast
    then show ?thesis using that by (simp add: rev_nth)
  qed
  moreover have "P (xs ! i)" using p i kl by (simp add: rev_nth)
  ultimately show ?thesis using i kl by auto
qed

lemma rposition_None: "rposition P xs = None \<longleftrightarrow> (\<forall>x \<in> set xs. \<not> P x)"
  by (simp add: rposition_def position_None)

lemma changed_segment_spec:
  assumes len: "length p = length c" and ne: "p \<noteq> c" and seg: "changed_segment p c = (first, cells)"
  shows "first + length cells \<le> length c" and "cells \<noteq> []"
    and "take first p @ cells @ drop (first + length cells) p = c"
proof -
  let ?d = "\<lambda>(a, b). a \<noteq> b"
  obtain f where f: "position ?d (zip p c) = Some f"
  proof (cases "position ?d (zip p c)")
    case None
    then have "\<forall>x \<in> set (zip p c). fst x = snd x" by (auto simp: position_None)
    then have "p = c" using len by (auto simp: list_eq_iff_zip_eq)
    with ne show thesis by simp
  qed
  note pf = position_SomeD [OF f]
  have fl: "f < length c" using pf len by simp
  obtain l where l: "rposition ?d (zip p c) = Some l"
  proof (cases "rposition ?d (zip p c)")
    case None
    then have "\<forall>x \<in> set (zip p c). \<not> ?d x" by (simp add: rposition_None)
    then have "\<not> ?d (zip p c ! f)" using pf by (meson nth_mem)
    with pf show thesis by blast
  qed
  note pl = rposition_SomeD [OF l]
  have ll: "l < length c" using pl len by simp
  have fle: "f \<le> l"
  proof (rule ccontr)
    assume "\<not> f \<le> l"
    then have "\<not> ?d (zip p c ! f)" using pl pf by (meson not_le)
    with pf show False by blast
  qed
  have fc: "first = f" "cells = take (Suc l - f) (drop f c)"
    using seg f l by (auto simp: changed_segment_def)
  have lc: "length cells = Suc l - f" using fc ll by simp
  show "first + length cells \<le> length c" using fc lc fle ll by simp
  show "cells \<noteq> []" using lc fle by auto
  have same: "p ! j = c ! j" if "j < length c" "j < f \<or> l < j" for j
  proof -
    have "\<not> ?d (zip p c ! j)" using that pf pl len by auto
    then show ?thesis using that len by simp
  qed
  show "take first p @ cells @ drop (first + length cells) p = c"
  proof (rule nth_equalityI)
    show "length (take first p @ cells @ drop (first + length cells) p) = length c"
      using fc lc fle ll len by simp
    fix j assume "j < length (take first p @ cells @ drop (first + length cells) p)"
    then have j: "j < length c" using fc lc fle ll len by simp
    show "(take first p @ cells @ drop (first + length cells) p) ! j = c ! j"
      using same [OF j] fc lc fle ll len j by (auto simp: nth_append min_def not_less)
  qed
qed

section \<open>Changed rows\<close>

definition row_of :: "nat \<Rightarrow> 'a list \<Rightarrow> nat \<Rightarrow> 'a list" where
  "row_of cols cells k = take cols (drop (k * cols) cells)"

definition changed_list :: "nat \<Rightarrow> remote_cell list \<Rightarrow> remote_cell list \<Rightarrow> nat list \<Rightarrow> (u16 \<times> nat \<times> remote_cell list) list" where
  "changed_list cols p c ks =
     map (\<lambda>k. (word_of_nat k, changed_segment (row_of cols p k) (row_of cols c k)))
       (filter (\<lambda>k. row_of cols p k \<noteq> row_of cols c k) ks)"

lemma row_in_grid: "k < rows \<Longrightarrow> k * cols + cols \<le> rows * (cols :: nat)"
proof -
  assume "k < rows"
  then have "Suc k * cols \<le> rows * cols" by (intro mult_le_mono1) simp
  then show ?thesis by simp
qed

lemma changed_rows_eq:
  assumes "\<forall>k \<in> set ks. k < rows" and "length p = rows * cols" and "length c = rows * cols"
  shows "changed_rows cols p c ks = Some (changed_list cols p c ks)"
  using assms(1)
proof (induction ks)
  case Nil
  then show ?case by (simp add: changed_list_def)
next
  case (Cons k ks)
  have "k * cols + cols \<le> rows * cols" using Cons.prems row_in_grid [of k rows cols] by simp
  with assms(2,3) Cons show ?case
    by (simp add: slice_def row_of_def changed_list_def Let_def)
qed

lemma length_row_of: "length p = rows * cols \<Longrightarrow> k < rows \<Longrightarrow> length (row_of cols p k) = cols"
  using row_in_grid [of k rows cols] by (simp add: row_of_def)

text \<open>The rows of a grid, from the chunks of its cells.\<close>

lemma list_chunks_rows:
  "length cells = rows * cols \<Longrightarrow> 0 < cols \<Longrightarrow> list_chunks cols cells = map (row_of cols cells) [0..<rows]"
proof (induction rows arbitrary: cells)
  case 0
  then show ?case by (simp add: list_chunks.simps)
next
  case (Suc n)
  have "cells \<noteq> []" using Suc.prems by auto
  then have "list_chunks cols cells = take cols cells # list_chunks cols (drop cols cells)"
    using Suc.prems(2) by (simp add: list_chunks.simps [of cols cells])
  also have "list_chunks cols (drop cols cells) = map (row_of cols (drop cols cells)) [0..<n]"
    by (rule Suc.IH) (use Suc.prems in simp_all)
  also have "\<dots> = map (\<lambda>k. row_of cols cells (Suc k)) [0..<n]"
    by (simp add: row_of_def add.commute)
  also have "take cols cells = row_of cols cells 0" by (simp add: row_of_def)
  finally have "list_chunks cols cells = map (row_of cols cells) (0 # map Suc [0..<n])"
    by (simp add: comp_def)
  then show ?case by (simp add: map_Suc_upt upt_conv_Cons del: upt_Suc)
qed

section \<open>Applying row deltas\<close>

abbreviation snap :: "remote_cell \<Rightarrow> cell_snapshot" where
  "snap \<equiv> remote_cell_to_snapshot_default"

lemma write_cells_eq:
  "col + length cs \<le> length row \<Longrightarrow>
     write_cells col cs row = take col row @ map snap cs @ drop (col + length cs) row"
proof (induction cs arbitrary: col row)
  case Nil
  then show ?case by simp
next
  case (Cons c cs)
  have "write_cells col (c # cs) row = write_cells (col + 1) cs (row[col := snap c])" by simp
  also have "\<dots> = take (col + 1) (row[col := snap c]) @ map snap cs
      @ drop (col + 1 + length cs) (row[col := snap c])"
    by (rule Cons.IH) (use Cons.prems in simp)
  also have "take (col + 1) (row[col := snap c]) = take col row @ [snap c]"
    using Cons.prems by (simp add: take_Suc_conv_app_nth)
  also have "drop (col + 1 + length cs) (row[col := snap c]) = drop (col + 1 + length cs) row"
    by simp
  finally show ?case by simp
qed

definition bump :: "nat \<Rightarrow> u64 list \<Rightarrow> u64 list" where
  "bump k rs = rs[k := rs ! k + 1]"

lemma apply_row_delta_changed:
  assumes rows: "length (rows_data s) = unat (ts_rows s)" "length (row_revisions s) = unat (ts_rows s)"
    and cols: "cols = unat (ts_cols s)"
    and k: "k < unat (ts_rows s)" and tgt: "rows_data s ! k = map snap p"
    and len: "length p = cols" "length c = cols" and ne: "p \<noteq> c"
    and seg: "changed_segment p c = (first, cells)"
  shows "apply_row_delta s (row_delta_of (word_of_nat k, first, cells))
    = s\<lparr>rows_data := (rows_data s)[k := map snap c], row_revisions := bump k (row_revisions s)\<rparr>"
proof -
  note sp = changed_segment_spec [OF _ ne seg] 
  have sp1: "first + length cells \<le> cols" "cells \<noteq> []"
    "take first p @ cells @ drop (first + length cells) p = c" using sp len by simp_all
  have "unat (ts_rows s) < 2 ^ 16" "unat (ts_cols s) < 2 ^ 16" using unat_lt [of "ts_rows s"] unat_lt [of "ts_cols s"] by simp_all
  then have uk: "unat (word_of_nat k :: u16) = k" and uf: "unat (word_of_nat first :: u16) = first"
    and fl: "first < cols"
    using k sp1(1,2) cols by (auto intro!: unat_word_of_nat16 simp flip: length_greater_0_conv)
  have tk: "take (cols - first) cells = cells" using sp1(1) by simp
  have "write_cells first cells (map snap p)
      = take first (map snap p) @ map snap cells @ drop (first + length cells) (map snap p)"
    by (rule write_cells_eq) (use sp1 len in simp)
  also have "\<dots> = map snap (take first p @ cells @ drop (first + length cells) p)"
    by (simp add: take_map drop_map)
  also have "\<dots> = map snap c" using sp1(3) by simp
  finally have w: "write_cells first cells (map snap p) = map snap c" .
  show ?thesis
    using rows k tgt len fl w tk cols
    by (simp add: apply_row_delta_def row_delta_of_def uk uf Let_def bump_def)
qed

text \<open>Folding the deltas of a list of distinct rows.\<close>

lemma apply_changed_rows:
  assumes "distinct ks" and "\<forall>k \<in> set ks. k < unat (ts_rows s)"
    and "length (rows_data s) = unat (ts_rows s)" and "length (row_revisions s) = unat (ts_rows s)"
    and "cols = unat (ts_cols s)"
    and "length p = unat (ts_rows s) * cols" and "length c = unat (ts_rows s) * cols"
    and "\<forall>k \<in> set ks. rows_data s ! k = map snap (row_of cols p k)"
  shows "\<exists>rd rr. foldl apply_row_delta s (map row_delta_of (changed_list cols p c ks))
      = s\<lparr>rows_data := rd, row_revisions := rr\<rparr>
    \<and> length rd = unat (ts_rows s) \<and> length rr = unat (ts_rows s)
    \<and> (\<forall>k < unat (ts_rows s). rd ! k = (if k \<in> set ks then map snap (row_of cols c k) else rows_data s ! k))
    \<and> (\<forall>k < unat (ts_rows s). rr ! k = row_revisions s ! k +
          (if k \<in> set ks \<and> row_of cols p k \<noteq> row_of cols c k then 1 else 0))"
  using assms
proof (induction ks arbitrary: s)
  case Nil
  show ?case
    by (intro exI [of _ "rows_data s"] exI [of _ "row_revisions s"]) (use Nil in \<open>simp add: changed_list_def\<close>)
next
  case (Cons k ks)
  have lp: "length (row_of cols p k) = cols" and lc: "length (row_of cols c k) = cols"
    using Cons.prems(2,6,7) by (auto intro: length_row_of)
  show ?case
  proof (cases "row_of cols p k = row_of cols c k")
    case True
    then have "changed_list cols p c (k # ks) = changed_list cols p c ks" by (simp add: changed_list_def)
    moreover from Cons.IH [of s] Cons.prems obtain rd rr where
      "foldl apply_row_delta s (map row_delta_of (changed_list cols p c ks)) = s\<lparr>rows_data := rd, row_revisions := rr\<rparr>"
      "length rd = unat (ts_rows s)" "length rr = unat (ts_rows s)"
      "\<forall>k < unat (ts_rows s). rd ! k = (if k \<in> set ks then map snap (row_of cols c k) else rows_data s ! k)"
      "\<forall>k < unat (ts_rows s). rr ! k = row_revisions s ! k +
          (if k \<in> set ks \<and> row_of cols p k \<noteq> row_of cols c k then 1 else 0)" by auto
    ultimately show ?thesis using Cons.prems(1,8) True by (auto intro!: exI [of _ rd] exI [of _ rr])
  next
    case False
    obtain first cells where seg: "changed_segment (row_of cols p k) (row_of cols c k) = (first, cells)"
      by fastforce
    let ?s = "s\<lparr>rows_data := (rows_data s)[k := map snap (row_of cols c k)],
      row_revisions := bump k (row_revisions s)\<rparr>"
    have ap: "apply_row_delta s (row_delta_of (word_of_nat k, first, cells)) = ?s"
      by (rule apply_row_delta_changed [OF _ _ _ _ _ lp lc False seg]) (use Cons.prems in auto)
    have cl: "changed_list cols p c (k # ks) = (word_of_nat k, first, cells) # changed_list cols p c ks"
      using False seg by (simp add: changed_list_def)
    have "\<exists>rd rr. foldl apply_row_delta ?s (map row_delta_of (changed_list cols p c ks))
        = ?s\<lparr>rows_data := rd, row_revisions := rr\<rparr>
      \<and> length rd = unat (ts_rows ?s) \<and> length rr = unat (ts_rows ?s)
      \<and> (\<forall>k < unat (ts_rows ?s). rd ! k = (if k \<in> set ks then map snap (row_of cols c k) else rows_data ?s ! k))
      \<and> (\<forall>k < unat (ts_rows ?s). rr ! k = row_revisions ?s ! k +
          (if k \<in> set ks \<and> row_of cols p k \<noteq> row_of cols c k then 1 else 0))"
      by (rule Cons.IH) (use Cons.prems in \<open>auto simp: bump_def nth_list_update\<close>)
    then obtain rd rr where
      r: "foldl apply_row_delta ?s (map row_delta_of (changed_list cols p c ks)) = s\<lparr>rows_data := rd, row_revisions := rr\<rparr>"
      "length rd = unat (ts_rows s)" "length rr = unat (ts_rows s)"
      "\<forall>j < unat (ts_rows s). rd ! j = (if j \<in> set ks then map snap (row_of cols c j) else rows_data ?s ! j)"
      "\<forall>j < unat (ts_rows s). rr ! j = row_revisions ?s ! j +
          (if j \<in> set ks \<and> row_of cols p j \<noteq> row_of cols c j then 1 else 0)" by auto
    have "k \<notin> set ks" using Cons.prems(1) by simp
    then show ?thesis
      using r Cons.prems(2-4) False unfolding cl
      by (auto simp: ap bump_def nth_list_update intro!: exI [of _ rd] exI [of _ rr])
  qed
qed

section \<open>Encoding a delta and applying it\<close>

definition same_grid :: "remote_full_state \<Rightarrow> remote_full_state \<Rightarrow> bool" where
  "same_grid a b \<longleftrightarrow> fs_rows a = fs_rows b \<and> fs_cols a = fs_cols b"

text \<open>The rows in which two states of the same size differ.\<close>

definition delta_rows :: "remote_full_state \<Rightarrow> remote_full_state \<Rightarrow> (u16 \<times> nat \<times> remote_cell list) list" where
  "delta_rows previous current =
     changed_list (unat (fs_cols current)) (fs_cells previous) (fs_cells current)
       [0..<unat (fs_rows current)]"

text \<open>All cells of every row are covered by the changed segments.\<close>

definition delta_covers_all :: "remote_full_state \<Rightarrow> remote_full_state \<Rightarrow> bool" where
  "delta_covers_all previous current \<longleftrightarrow>
     length (delta_rows previous current) = unat (fs_rows current) \<and>
     (\<forall>(row, start_col, cells) \<in> set (delta_rows previous current).
        start_col = 0 \<and> length cells = unat (fs_cols current))"

lemma delta_rows_same: "delta_rows st st = []"
  by (simp add: delta_rows_def changed_list_def)

lemma encode_delta_eq:
  assumes "fs_wf previous" and "fs_wf current" and "same_grid previous current"
  shows "encode_delta previous current seq local =
    (if delta_rows previous current \<noteq> [] \<and> delta_covers_all previous current then Some None
     else Some (Some (append_row_replica_trailer
       (delta_header current seq local (length (delta_rows previous current))
          @ concat (map encode_row_delta (delta_rows previous current))) current
       (map (\<lambda>(row, _). sat_add_u64 (viewport_top current) (ucast row)) (delta_rows previous current)))))"
proof -
  let ?cols = "unat (fs_cols current)" and ?rows = "unat (fs_rows current)"
  have len: "length (fs_cells previous) = ?rows * ?cols" "length (fs_cells current) = ?rows * ?cols"
    using assms by (simp_all add: fs_wf_def same_grid_def)
  have ch: "changed_rows ?cols (fs_cells previous) (fs_cells current) [0..<?rows]
      = Some (delta_rows previous current)"
    unfolding delta_rows_def by (rule changed_rows_eq [OF _ len]) simp
  have all: "list_all (\<lambda>(_, start_col, cells). start_col = 0 \<and> length cells = ?cols) (delta_rows previous current)
      \<longleftrightarrow> (\<forall>(row, start_col, cells) \<in> set (delta_rows previous current). start_col = 0 \<and> length cells = ?cols)"
    by (simp add: list_all_iff)
  show ?thesis
    using assms(3) ch delta_rows_same [of current]
    by (cases "previous = current"; cases "delta_rows previous current = []")
       (auto simp: encode_delta_def same_grid_def delta_covers_all_def all Let_def)
qed

lemma delta_rows_bounds:
  assumes "fs_wf previous" and "fs_wf current" and "same_grid previous current"
    and "r \<in> set (delta_rows previous current)"
  shows "fst (snd r) < 2 ^ 16 \<and> length (snd (snd r)) < 2 ^ 16"
proof -
  let ?cols = "unat (fs_cols current)" and ?rows = "unat (fs_rows current)"
  have len: "length (fs_cells previous) = ?rows * ?cols" "length (fs_cells current) = ?rows * ?cols"
    using assms by (simp_all add: fs_wf_def same_grid_def)
  from assms(4) obtain k where k: "k < ?rows"
    and ne: "row_of ?cols (fs_cells previous) k \<noteq> row_of ?cols (fs_cells current) k"
    and r: "snd r = changed_segment (row_of ?cols (fs_cells previous) k) (row_of ?cols (fs_cells current) k)"
    by (auto simp: delta_rows_def changed_list_def)
  have l: "length (row_of ?cols (fs_cells previous) k) = ?cols" "length (row_of ?cols (fs_cells current) k) = ?cols"
    by (rule length_row_of [OF len(1) k], rule length_row_of [OF len(2) k])
  obtain f cs where fc: "snd r = (f, cs)" by fastforce
  have sp: "f + length cs \<le> ?cols" "cs \<noteq> []"
    using changed_segment_spec(1,2) [OF _ ne, of f cs] l r fc by simp_all
  have "?cols < 2 ^ 16" using unat_lt [of "fs_cols current"] by simp
  with sp fc show ?thesis by (simp flip: length_greater_0_conv)
qed

lemma length_delta_rows: "length (delta_rows previous current) < 2 ^ 16"
proof -
  have "length (delta_rows previous current) \<le> unat (fs_rows current)"
    by (simp add: delta_rows_def changed_list_def) (metis length_filter_le length_upt minus_nat.diff_0)
  also have "\<dots> < 2 ^ 16" using unat_lt [of "fs_rows current"] by simp
  finally show ?thesis .
qed

text \<open>The delta a client decodes from what the server encoded.\<close>

definition delta_of :: "remote_full_state \<Rightarrow> remote_full_state \<Rightarrow> remote_delta" where
  "delta_of previous current =
     \<lparr>dl_cursor_x = fs_cursor_x current, dl_cursor_y = fs_cursor_y current,
      dl_cursor_visible = fs_cursor_visible current, dl_cursor_blinking = fs_cursor_blinking current,
      dl_cursor_style = fs_cursor_style current, dl_scroll_rows = 0,
      dl_changed_rows = map row_delta_of (delta_rows previous current)\<rparr>"

lemma decode_encoded_delta:
  assumes "fs_wf previous" and "fs_wf current" and "same_grid previous current"
    and "encode_delta previous current seq True = Some (Some payload)"
  shows "decode_remote_delta payload = Some (ack_of seq, delta_of previous current)"
proof -
  let ?rs = "delta_rows previous current"
  obtain z where z: "payload = delta_header current seq True (length ?rs) @ concat (map encode_row_delta ?rs) @ z"
    using assms(4) unfolding encode_delta_eq [OF assms(1-3)] append_row_replica_trailer_def
    by (auto split: if_splits)
  let ?ds = "map row_delta_of ?rs"
  have m: "concat (map enc_row ?ds) = concat (map encode_row_delta ?rs)"
    using delta_rows_bounds [OF assms(1-3)] encode_row_delta_enc
    by (intro arg_cong [of _ _ concat]) (simp add: comp_def)
  have b: "\<forall>d \<in> set ?ds. length (rd_cells d) < 2 ^ 16"
    using delta_rows_bounds [OF assms(1-3)] by (auto simp: row_delta_of_def)
  have l: "length ?ds < 2 ^ 16" using length_delta_rows [of previous current] by (simp only: length_map)
  from decode_delta_aux [OF l b, of current seq z] show ?thesis
    unfolding z m length_map delta_of_def .
qed

text \<open>A client's mirror of a state, up to the revisions of its rows, with the default colours.\<close>

definition mirrors :: "terminal_snapshot \<Rightarrow> remote_full_state \<Rightarrow> rgb \<Rightarrow> bool" where
  "mirrors snapshot st cursor \<longleftrightarrow>
     (\<exists>rr. snapshot = (remote_full_state_to_vt_snapshot st 0 DEFAULT_TERMINAL_FOREGROUND
         DEFAULT_TERMINAL_BACKGROUND cursor)\<lparr>row_revisions := rr\<rparr>
       \<and> (0 < unat (fs_cols st) \<longrightarrow> length rr = unat (fs_rows st)))"

lemma view_rows:
  assumes "fs_wf st" and "0 < unat (fs_cols st)"
  shows "rows_data (remote_full_state_to_vt_snapshot st seed fg bg cursor)
    = map (\<lambda>k. map (\<lambda>c. remote_cell_to_snapshot c fg bg) (row_of (unat (fs_cols st)) (fs_cells st) k))
        [0..<unat (fs_rows st)]"
proof -
  have "max (unat (fs_cols st)) 1 = unat (fs_cols st)" using assms(2) by simp
  with list_chunks_rows [of "fs_cells st" "unat (fs_rows st)" "unat (fs_cols st)"] assms show ?thesis
    by (simp add: remote_full_state_to_vt_snapshot_def Let_def fs_wf_def comp_def)
qed

lemma view_rows_empty:
  assumes "fs_wf st" and "unat (fs_cols st) = 0"
  shows "rows_data (remote_full_state_to_vt_snapshot st seed fg bg cursor) = []"
  using assms by (simp add: remote_full_state_to_vt_snapshot_def Let_def fs_wf_def list_chunks.simps)

lemma mirrors_full:
  "mirrors (remote_full_state_to_vt_snapshot st seed DEFAULT_TERMINAL_FOREGROUND
      DEFAULT_TERMINAL_BACKGROUND cursor) st cursor"
  unfolding mirrors_def remote_full_state_to_vt_snapshot_def Let_def
  by (intro exI [of _ "map (\<lambda>index. seed + word_of_nat index) [0..<unat (fs_rows st)]"]) simp

lemma snapshot_eqI:
  "ts_cols a = ts_cols b \<Longrightarrow> ts_rows a = ts_rows b \<Longrightarrow> ts_title a = ts_title b \<Longrightarrow> ts_pwd a = ts_pwd b \<Longrightarrow>
   ts_cursor a = ts_cursor b \<Longrightarrow> rows_data a = rows_data b \<Longrightarrow> row_revisions a = row_revisions b \<Longrightarrow>
   ts_scrollbar a = ts_scrollbar b \<Longrightarrow> ts_colors a = ts_colors b \<Longrightarrow> a = (b :: terminal_snapshot)"
  by (cases a; cases b) simp

lemma delta_refines_aux:
  assumes wf: "fs_wf previous" "fs_wf current" and grid: "same_grid previous current"
    and mir: "mirrors snapshot previous cursor"
  shows "mirrors (apply_remote_delta_snapshot (delta_of previous current) snapshot) current cursor
    \<and> (0 < unat (fs_cols current) \<longrightarrow> (\<forall>k < unat (fs_rows current).
         row_revisions (apply_remote_delta_snapshot (delta_of previous current) snapshot) ! k
           = row_revisions snapshot ! k +
             (if row_of (unat (fs_cols current)) (fs_cells previous) k
                \<noteq> row_of (unat (fs_cols current)) (fs_cells current) k then 1 else 0)))"
proof -
  let ?V = "\<lambda>st. remote_full_state_to_vt_snapshot st 0 DEFAULT_TERMINAL_FOREGROUND
      DEFAULT_TERMINAL_BACKGROUND cursor"
  let ?cols = "unat (fs_cols current)" and ?rows = "unat (fs_rows current)"
  have g: "fs_rows previous = fs_rows current" "fs_cols previous = fs_cols current"
    using grid by (simp_all add: same_grid_def)
  from mir obtain rr where sn: "snapshot = (?V previous)\<lparr>row_revisions := rr\<rparr>"
    and lrr: "0 < ?cols \<longrightarrow> length rr = ?rows"
    using g by (auto simp: mirrors_def)
  define s1 where "s1 = snapshot\<lparr>ts_cursor := ts_cursor (?V current)\<rparr>"
  have s1: "ts_cols s1 = fs_cols current" "ts_rows s1 = fs_rows current" "row_revisions s1 = rr"
    "rows_data s1 = rows_data (?V previous)" "ts_cursor s1 = ts_cursor (?V current)"
    "ts_title s1 = ts_title (?V current)" "ts_pwd s1 = ts_pwd (?V current)"
    "ts_scrollbar s1 = ts_scrollbar (?V current)" "ts_colors s1 = ts_colors (?V current)"
    using sn g by (simp_all add: s1_def remote_full_state_to_vt_snapshot_def Let_def)
  have ap: "apply_remote_delta_snapshot (delta_of previous current) snapshot =
      foldl apply_row_delta
        (if length (row_revisions s1) \<noteq> length (rows_data s1)
         then s1\<lparr>row_revisions := list_resize (row_revisions s1) (length (rows_data s1)) 1\<rparr> else s1)
        (map row_delta_of (delta_rows previous current))"
    by (simp add: apply_remote_delta_snapshot_def delta_of_def s1_def
        remote_full_state_to_vt_snapshot_def Let_def)
  show ?thesis
  proof (cases "?cols = 0")
    case True
    have r0: "rows_data s1 = []" using view_rows_empty [OF wf(1)] True g s1(4) by simp
    have "fs_cells previous = []" "fs_cells current = []" using wf True g by (simp_all add: fs_wf_def)
    then have "delta_rows previous current = []" by (simp add: delta_rows_def changed_list_def row_of_def)
    with ap r0 have fin: "apply_remote_delta_snapshot (delta_of previous current) snapshot
        = s1\<lparr>row_revisions := []\<rparr>"
      by (auto simp: list_resize_def intro!: snapshot_eqI)
    have "s1\<lparr>row_revisions := []\<rparr> = (?V current)\<lparr>row_revisions := []\<rparr>"
      using s1 r0 view_rows_empty [OF wf(2) True] by (intro snapshot_eqI)
        (simp_all add: remote_full_state_to_vt_snapshot_def Let_def)
    with fin True show ?thesis by (auto simp: mirrors_def)
  next
    case False
    then have pos: "0 < ?cols" by simp
    have rd: "rows_data s1 = map (\<lambda>k. map snap (row_of ?cols (fs_cells previous) k)) [0..<?rows]"
      using view_rows [OF wf(1)] pos g s1(4) by (simp add: remote_cell_to_snapshot_default_def)
    have lr: "length (rows_data s1) = ?rows" "length rr = ?rows" using rd lrr pos by simp_all
    have rdk: "\<forall>k \<in> set [0..<?rows]. rows_data s1 ! k = map snap (row_of ?cols (fs_cells previous) k)"
      unfolding rd by simp
    have "\<exists>rd rr'. foldl apply_row_delta s1 (map row_delta_of (changed_list ?cols (fs_cells previous)
          (fs_cells current) [0..<?rows])) = s1\<lparr>rows_data := rd, row_revisions := rr'\<rparr>
      \<and> length rd = unat (ts_rows s1) \<and> length rr' = unat (ts_rows s1)
      \<and> (\<forall>k < unat (ts_rows s1). rd ! k = (if k \<in> set [0..<?rows]
            then map snap (row_of ?cols (fs_cells current) k) else rows_data s1 ! k))
      \<and> (\<forall>k < unat (ts_rows s1). rr' ! k = row_revisions s1 ! k +
            (if k \<in> set [0..<?rows] \<and> row_of ?cols (fs_cells previous) k
               \<noteq> row_of ?cols (fs_cells current) k then 1 else 0))"
      by (rule apply_changed_rows [OF _ _ _ _ _ _ _ rdk])
         (use wf g s1(1-3) lr in \<open>simp_all add: fs_wf_def\<close>)
    then obtain rd' rr' where
      f: "foldl apply_row_delta s1 (map row_delta_of (delta_rows previous current))
        = s1\<lparr>rows_data := rd', row_revisions := rr'\<rparr>"
      "length rd' = ?rows" "length rr' = ?rows"
      "\<forall>k < ?rows. rd' ! k = map snap (row_of ?cols (fs_cells current) k)"
      "\<forall>k < ?rows. rr' ! k = rr ! k + (if row_of ?cols (fs_cells previous) k
               \<noteq> row_of ?cols (fs_cells current) k then 1 else 0)"
      using s1 unfolding delta_rows_def by auto
    have fin: "apply_remote_delta_snapshot (delta_of previous current) snapshot
        = s1\<lparr>rows_data := rd', row_revisions := rr'\<rparr>"
      using ap f(1) lr s1(3) by simp
    have "rd' = rows_data (?V current)"
      using view_rows [OF wf(2) pos] f(2,4)
      by (intro nth_equalityI) (simp_all add: remote_cell_to_snapshot_default_def)
    then have "s1\<lparr>rows_data := rd', row_revisions := rr'\<rparr> = (?V current)\<lparr>row_revisions := rr'\<rparr>"
      using s1 by (intro snapshot_eqI)
        (simp_all add: remote_full_state_to_vt_snapshot_def Let_def)
    with fin f(3,5) sn show ?thesis by (auto simp: mirrors_def)
  qed
qed

end
