(* ===== verification/ScreenProps.thy ===== *)
theory ScreenProps
  imports ScreenSync
begin

text \<open>
  The properties of the screen protocol: full states and tab lists survive the wire, the delta
  encoder is total and says when a full state is needed, and a delta moves the client's mirror of
  one state to the next.
\<close>

section \<open>The client's tab list decoder\<close>

lemma decode_remote_string_read:
  "decode_remote_string p i = (case read_string p i of Inl e \<Rightarrow> None | Inr x \<Rightarrow> Some x)"
  by (auto simp: decode_remote_string_def read_string_def read_u16_def Let_def split: option.splits)

lemma read_string_no_trailing: "read_string p i \<noteq> Inl TrailingBytes"
  by (auto simp: read_string_def read_u16_def Let_def split: option.splits)

lemma decode_tab_entry_read:
  "decode_tab_entry p i = (case read_tab_info p i of Inl e \<Rightarrow> None | Inr x \<Rightarrow> Some x)"
  by (auto simp: decode_tab_entry_def read_tab_info_def read_u32_def decode_remote_string_read Let_def
      split: sum.splits option.splits prod.splits)

lemma read_tab_info_no_trailing: "read_tab_info p i \<noteq> Inl TrailingBytes"
  using read_string_no_trailing
  by (auto simp: read_tab_info_def read_u32_def Let_def split: sum.splits prod.splits if_splits)

lemma opt_read_many_tabs:
  "opt_read_many decode_tab_entry n p i = (case read_many read_tab_info n p i of Inl e \<Rightarrow> None | Inr x \<Rightarrow> Some x)
   \<and> read_many read_tab_info n p i \<noteq> Inl TrailingBytes"
proof (induction n arbitrary: i)
  case (Suc n)
  show ?case
    using Suc.IH read_tab_info_no_trailing [of p i]
    by (auto simp: decode_tab_entry_read split: sum.splits prod.splits)
qed simp

section \<open>Properties\<close>

text \<open>The two tab list decoders agree: the client accepts exactly the payloads that the strict
  decoder of the command-line client accepts or rejects only for trailing bytes, and decodes the same
  tabs.\<close>

theorem tab_decoders_agree:
  "(\<forall>tabs. decode_tab_list_payload p = Inr tabs \<longrightarrow> decode_remote_tab_list p = Some tabs)
   \<and> (decode_remote_tab_list p = None
        \<longleftrightarrow> (\<exists>e. decode_tab_list_payload p = Inl e \<and> e \<noteq> TrailingBytes))"
proof (cases "length p < 4")
  case True
  then show ?thesis by (simp add: decode_tab_list_payload_def decode_remote_tab_list_def)
next
  case False
  note m = opt_read_many_tabs [of "unat (u32_at p 0)" p 4]
  show ?thesis
    using m False
    by (cases "read_many read_tab_info (unat (u32_at p 0)) p 4")
       (auto simp: decode_tab_list_payload_def decode_remote_tab_list_def split: if_splits)
qed

text \<open>A tab list that holds no tab, with and without a trailing byte.\<close>

lemma tab_decoders_agree_witness:
  "decode_remote_tab_list [0, 0, 0, 0] = Some []
   \<and> (decode_remote_tab_list [0, 0, 0, 0, 7] = None
        \<longleftrightarrow> (\<exists>e. decode_tab_list_payload [0, 0, 0, 0, 7] = Inl e \<and> e \<noteq> TrailingBytes))"
proof -
  have "decode_tab_list_payload [0, 0, 0, 0] = Inr []"
    by (simp add: decode_tab_list_payload_def u32_at_def le_at_def eval_nat_numeral)
  then show ?thesis
    using tab_decoders_agree [of "[0, 0, 0, 0]"] tab_decoders_agree [of "[0, 0, 0, 0, 7]"] by blast
qed

text \<open>C29: A full state survives the wire, alone with its input acknowledgement and behind the header
  of a pane update: the client recovers the grid, the cursor and every cell; the epoch and the
  scrollback position, which travel in the trailer, are the fields it does not read.\<close>

theorem full_state_round_trip:
  assumes "fs_wf st"
  shows "decode_remote_full_state (encode_full_state st seq True)
      = Some (ack_of seq, st\<lparr>fs_epoch := 0, viewport_top := 0, scrollback_total := 0\<rparr>)
    \<and> decode_remote_pane_full_state
        (encode_ui_pane_update_payload tab pane revision runtime (encode_full_state st seq True))
      = Some (pane, runtime, st\<lparr>fs_epoch := 0, viewport_top := 0, scrollback_total := 0\<rparr>)"
proof -
  let ?q = "encode_ui_pane_update_payload tab pane revision runtime (encode_full_state st seq True)"
  note h = pane_update_header [of ?q, OF refl]
  note f = full_state_round_trip_aux [OF assms, of seq]
  have "decode_remote_pane_full_state ?q
      = Some (pane, runtime, st\<lparr>fs_epoch := 0, viewport_top := 0, scrollback_total := 0\<rparr>)"
    unfolding decode_remote_pane_full_state_def h f using h(1) by (simp add: UI_PANE_UPDATE_HEADER_LEN_def)
  with f show ?thesis by simp
qed

definition tiny_cell :: "u32 \<Rightarrow> remote_cell" where
  "tiny_cell cp = \<lparr>codepoint = cp, cell_fg = (1, 2, 3), cell_bg = (0, 0, 0), style_flags = 0x21, wide = False\<rparr>"

definition tiny_state :: "u32 \<Rightarrow> u32 \<Rightarrow> u32 \<Rightarrow> remote_full_state" where
  "tiny_state a b c = \<lparr>fs_epoch = 0, viewport_top = 0, scrollback_total = 0, fs_rows = 1, fs_cols = 3,
     fs_cursor_x = 1, fs_cursor_y = 0, fs_cursor_visible = True, fs_cursor_blinking = False,
     fs_cursor_style = 1, fs_cells = [tiny_cell a, tiny_cell b, tiny_cell c]\<rparr>"

lemma tiny_state_wf [simp]: "fs_wf (tiny_state a b c)"
  by (simp add: fs_wf_def tiny_state_def)

lemma full_state_round_trip_witness:
  "decode_remote_full_state (encode_full_state (tiny_state 65 66 67) (Some 9) True)
    = Some (Some 9, tiny_state 65 66 67)"
  using full_state_round_trip [OF tiny_state_wf, of 65 66 67 "Some 9" 0 0 0 0]
  by (simp add: ack_of_def tiny_state_def)

text \<open>The delta encoder never panics on two well-formed states, and asks for a full state in
  exactly two cases: the grid changed its size, or every row changed over its whole width.\<close>

theorem encode_delta_total:
  assumes "fs_wf previous" and "fs_wf current"
  shows "encode_delta previous current seq local \<noteq> None
    \<and> (encode_delta previous current seq local = Some None
        \<longleftrightarrow> \<not> same_grid previous current
            \<or> (delta_rows previous current \<noteq> [] \<and> delta_covers_all previous current))"
proof (cases "same_grid previous current")
  case True
  then show ?thesis unfolding encode_delta_eq [OF assms True] by simp
next
  case False
  then show ?thesis by (auto simp: encode_delta_def same_grid_def)
qed

lemma encode_delta_total_witness:
  "encode_delta (tiny_state 65 66 67) (tiny_state 65 66 68) None True \<noteq> None"
  using encode_delta_total [of "tiny_state 65 66 67" "tiny_state 65 66 68" None True] by simp

text \<open>C30: Refinement of the screen by deltas. A client with the default colours draws the previous
  state, its rows having any revisions; the screen has at least one column. When the server encodes a
  delta, the client decodes it, and applying it in place gives exactly the snapshot that the client
  would draw from the full new state, except that its rows keep their revisions, which grow by one for
  exactly the rows that changed. (A client with other colours draws a full state in them, but the cells
  of a delta always in the default ones.)\<close>

theorem delta_refines:
  assumes "fs_wf previous" and "fs_wf current" and "0 < unat (fs_cols current)"
    and "length revisions = unat (fs_rows previous)"
    and "encode_delta previous current seq True = Some (Some payload)"
  shows "\<exists>delta. decode_remote_delta payload = Some (ack_of seq, delta)
    \<and> apply_remote_delta_snapshot delta ((remote_full_state_to_vt_snapshot previous seed
          DEFAULT_TERMINAL_FOREGROUND DEFAULT_TERMINAL_BACKGROUND cursor)\<lparr>row_revisions := revisions\<rparr>)
      = (remote_full_state_to_vt_snapshot current seed
          DEFAULT_TERMINAL_FOREGROUND DEFAULT_TERMINAL_BACKGROUND cursor)
          \<lparr>row_revisions := map (\<lambda>k. revisions ! k +
             (if row_of (unat (fs_cols current)) (fs_cells previous) k
                \<noteq> row_of (unat (fs_cols current)) (fs_cells current) k then 1 else 0))
             [0..<unat (fs_rows current)]\<rparr>"
proof -
  have g: "same_grid previous current"
    using assms(5) by (auto simp: encode_delta_def same_grid_def split: if_splits)
  let ?V = "\<lambda>seed st. remote_full_state_to_vt_snapshot st seed
      DEFAULT_TERMINAL_FOREGROUND DEFAULT_TERMINAL_BACKGROUND cursor"
  let ?S = "(?V seed previous)\<lparr>row_revisions := revisions\<rparr>"
  have mir: "mirrors ?S previous cursor"
    using assms(4) unfolding mirrors_def
    by (intro exI [of _ revisions]) (simp add: remote_full_state_to_vt_snapshot_def Let_def)
  note r = delta_refines_aux [OF assms(1,2) g mir]
  from r obtain rr where rr: "apply_remote_delta_snapshot (delta_of previous current) ?S = (?V 0 current)\<lparr>row_revisions := rr\<rparr>"
      "length rr = unat (fs_rows current)"
    using assms(3) by (auto simp: mirrors_def)
  have "rr = map (\<lambda>k. revisions ! k + (if row_of (unat (fs_cols current)) (fs_cells previous) k
                \<noteq> row_of (unat (fs_cols current)) (fs_cells current) k then 1 else 0)) [0..<unat (fs_rows current)]"
    using r [THEN conjunct2] assms(3) rr by (intro nth_equalityI) simp_all
  moreover have "(?V 0 current)\<lparr>row_revisions := rr\<rparr> = (?V seed current)\<lparr>row_revisions := rr\<rparr>"
    by (simp add: remote_full_state_to_vt_snapshot_def Let_def)
  ultimately show ?thesis using rr(1) decode_encoded_delta [OF assms(1,2) g assms(5)] by auto
qed

lemma tiny_segment: "c \<noteq> d \<Longrightarrow> changed_segment [a, b, c] [a, b, d] = (2, [d])"
  by (simp add: changed_segment_def rposition_def Let_def)

lemma tiny_rows:
  "delta_rows (tiny_state 65 66 67) (tiny_state 65 66 68) = [(0, 2, [tiny_cell 68])]"
proof -
  have "tiny_cell 67 \<noteq> tiny_cell 68" by (simp add: tiny_cell_def)
  then show ?thesis
    by (simp add: delta_rows_def changed_list_def row_of_def tiny_state_def tiny_segment)
qed

lemma tiny_delta:
  "\<exists>payload. encode_delta (tiny_state 65 66 67) (tiny_state 65 66 68) None True = Some (Some payload)"
proof -
  have "same_grid (tiny_state 65 66 67) (tiny_state 65 66 68)" by (simp add: same_grid_def tiny_state_def)
  then show ?thesis
    by (simp add: encode_delta_eq tiny_rows delta_covers_all_def)
qed

lemma delta_refines_witness:
  "\<exists>payload delta. encode_delta (tiny_state 65 66 67) (tiny_state 65 66 68) None True = Some (Some payload)
    \<and> decode_remote_delta payload = Some (None, delta)
    \<and> apply_remote_delta_snapshot delta ((remote_full_state_to_vt_snapshot (tiny_state 65 66 67) 5
        DEFAULT_TERMINAL_FOREGROUND DEFAULT_TERMINAL_BACKGROUND (9, 9, 9))\<lparr>row_revisions := [7]\<rparr>)
      = (remote_full_state_to_vt_snapshot (tiny_state 65 66 68) 5
        DEFAULT_TERMINAL_FOREGROUND DEFAULT_TERMINAL_BACKGROUND (9, 9, 9))\<lparr>row_revisions := [8]\<rparr>"
proof -
  obtain payload where p: "encode_delta (tiny_state 65 66 67) (tiny_state 65 66 68) None True = Some (Some payload)"
    using tiny_delta by blast
  have f: "fs_rows (tiny_state a b c) = 1" "fs_cols (tiny_state a b c) = 3"
    "fs_cells (tiny_state a b c) = [tiny_cell a, tiny_cell b, tiny_cell c]" for a b c
    by (simp_all add: tiny_state_def)
  have "tiny_cell 67 \<noteq> tiny_cell 68" by (simp add: tiny_cell_def)
  with delta_refines [OF tiny_state_wf tiny_state_wf _ _ p, of "[7]" 5 "(9, 9, 9)"] p show ?thesis
    by (simp add: ack_of_def f row_of_def)
qed

end
