(* ===== verification/Batcher.thy ===== *)
theory Batcher
  imports Wire
begin

text \<open>
  The write side of a connection (\<open>src/remote_batcher.rs\<close>): the messages queued for a client,
  the frames a batch of them is turned into, and the loop that writes the batches. Counters that
  the source keeps as \<open>usize\<close> count queued messages and are natural numbers here.
\<close>

section \<open>Messages and pending frames\<close>

datatype outbound_message =
    Frame bytes
  | ScreenUpdate bytes
  | PaneUpdate u64 bool bytes

datatype frame_kind = KTabList | KUiRuntimeState | KUiAppearance

record pending_outbound_frames =
  pof_order :: "frame_kind list"
  pof_tab_list :: "bytes option"
  pof_ui_runtime_state :: "bytes option"
  pof_ui_appearance :: "bytes option"

definition pof_default :: pending_outbound_frames where
  "pof_default = \<lparr>pof_order = [], pof_tab_list = None, pof_ui_runtime_state = None,
     pof_ui_appearance = None\<rparr>"

definition push_kind_once :: "frame_kind \<Rightarrow> pending_outbound_frames \<Rightarrow> pending_outbound_frames" where
  "push_kind_once kind self =
     (if kind \<in> set (pof_order self) then self else self\<lparr>pof_order := pof_order self @ [kind]\<rparr>)"

fun pof_slot :: "frame_kind \<Rightarrow> pending_outbound_frames \<Rightarrow> bytes option" where
  "pof_slot KTabList self = pof_tab_list self"
| "pof_slot KUiRuntimeState self = pof_ui_runtime_state self"
| "pof_slot KUiAppearance self = pof_ui_appearance self"

fun pof_update :: "frame_kind \<Rightarrow> bytes option \<Rightarrow> pending_outbound_frames \<Rightarrow> pending_outbound_frames" where
  "pof_update KTabList v self = self\<lparr>pof_tab_list := v\<rparr>"
| "pof_update KUiRuntimeState v self = self\<lparr>pof_ui_runtime_state := v\<rparr>"
| "pof_update KUiAppearance v self = self\<lparr>pof_ui_appearance := v\<rparr>"

definition pof_set :: "frame_kind \<Rightarrow> bytes \<Rightarrow> pending_outbound_frames \<Rightarrow> pending_outbound_frames" where
  "pof_set kind frame self = pof_update kind (Some frame) (push_kind_once kind self)"

text \<open>\<open>take_all\<close>: the loop over the drained order, then the emptied value.\<close>

fun pof_take_loop ::
  "frame_kind list \<Rightarrow> bytes list \<Rightarrow> pending_outbound_frames \<Rightarrow> bytes list \<times> pending_outbound_frames" where
  "pof_take_loop [] frames self = (frames, self)"
| "pof_take_loop (kind # kinds) frames self =
     (let frame = pof_slot kind self; self1 = pof_update kind None self
      in pof_take_loop kinds (case frame of Some f \<Rightarrow> frames @ [f] | None \<Rightarrow> frames) self1)"

definition pof_take_all :: "pending_outbound_frames \<Rightarrow> bytes list \<times> pending_outbound_frames" where
  "pof_take_all self = pof_take_loop (pof_order self) [] (self\<lparr>pof_order := []\<rparr>)"

record pending_pane_frames =
  ppf_order :: "u64 list"
  ppf_frames :: "u64 \<rightharpoonup> bytes"
  ppf_coalesced :: nat

definition ppf_default :: pending_pane_frames where
  "ppf_default = \<lparr>ppf_order = [], ppf_frames = Map.empty, ppf_coalesced = 0\<rparr>"

definition ppf_set :: "u64 \<Rightarrow> bytes \<Rightarrow> pending_pane_frames \<Rightarrow> pending_pane_frames" where
  "ppf_set pane_id frame self =
     (let s1 = self\<lparr>ppf_frames := (ppf_frames self)(pane_id \<mapsto> frame)\<rparr>
      in if ppf_frames self pane_id \<noteq> None
         then s1\<lparr>ppf_coalesced := ppf_coalesced s1 + 1\<rparr>
         else s1\<lparr>ppf_order := ppf_order s1 @ [pane_id]\<rparr>)"

fun ppf_take_loop ::
  "u64 list \<Rightarrow> bytes list \<Rightarrow> pending_pane_frames \<Rightarrow> bytes list \<times> pending_pane_frames" where
  "ppf_take_loop [] frames self = (frames, self)"
| "ppf_take_loop (pane_id # ids) frames self =
     (case ppf_frames self pane_id of
        Some f \<Rightarrow> ppf_take_loop ids (frames @ [f]) (self\<lparr>ppf_frames := (ppf_frames self)(pane_id := None)\<rparr>)
      | None \<Rightarrow> ppf_take_loop ids frames self)"

definition ppf_take_all :: "pending_pane_frames \<Rightarrow> bytes list \<times> pending_pane_frames" where
  "ppf_take_all self = ppf_take_loop (ppf_order self) [] (self\<lparr>ppf_order := []\<rparr>)"

section \<open>Frame kinds\<close>

text \<open>\<open>frame.get(2).copied().and_then(|value| MessageType::try_from(value).ok())\<close>.\<close>

definition frame_type :: "bytes \<Rightarrow> message_type option" where
  "frame_type frame = (if 2 < length frame then message_try_from (frame ! 2) else None)"

definition priority_frame :: "bytes \<Rightarrow> bool" where
  "priority_frame frame =
     (case frame_type frame of
        None \<Rightarrow> False
      | Some ty \<Rightarrow> ty \<in> {MsgAuthOk, MsgAuthFail, MsgErrorMsg, MsgHeartbeatAck, MsgTabCreated})"

definition coalescible_frame_kind :: "bytes \<Rightarrow> frame_kind option" where
  "coalescible_frame_kind frame =
     (case frame_type frame of
        Some MsgTabList \<Rightarrow> Some KTabList
      | Some MsgUiRuntimeState \<Rightarrow> Some KUiRuntimeState
      | Some MsgUiAppearance \<Rightarrow> Some KUiAppearance
      | _ \<Rightarrow> None)"

section \<open>Collecting a batch\<close>

record collector =
  c_frames :: "bytes list"
  pending_screen :: "bytes option"
  pending_focused_panes :: pending_pane_frames
  pending_passive_panes :: pending_pane_frames
  pending_control :: pending_outbound_frames
  c_message_count :: nat
  screen_updates :: nat
  emitted_screen_frames :: nat
  c_coalesced_control_frames :: nat

definition collector_init :: collector where
  "collector_init = \<lparr>c_frames = [], pending_screen = None, pending_focused_panes = ppf_default,
     pending_passive_panes = ppf_default, pending_control = pof_default, c_message_count = 0,
     screen_updates = 0, emitted_screen_frames = 0, c_coalesced_control_frames = 0\<rparr>"

text \<open>\<open>for pending in pending_control.take_all() { frames.push(pending); }\<close>\<close>

definition flush_control :: "collector \<Rightarrow> collector" where
  "flush_control s =
     (let (fs, pc) = pof_take_all (pending_control s)
      in s\<lparr>c_frames := c_frames s @ fs, pending_control := pc\<rparr>)"

definition flush_focused :: "collector \<Rightarrow> collector" where
  "flush_focused s =
     (let (fs, p) = ppf_take_all (pending_focused_panes s)
      in s\<lparr>c_frames := c_frames s @ fs, pending_focused_panes := p\<rparr>)"

definition flush_screen :: "collector \<Rightarrow> collector" where
  "flush_screen s =
     (case pending_screen s of
        Some screen \<Rightarrow> s\<lparr>c_frames := c_frames s @ [screen], pending_screen := None,
                         emitted_screen_frames := emitted_screen_frames s + 1\<rparr>
      | None \<Rightarrow> s)"

definition flush_passive :: "collector \<Rightarrow> collector" where
  "flush_passive s =
     (let (fs, p) = ppf_take_all (pending_passive_panes s)
      in s\<lparr>c_frames := c_frames s @ fs, pending_passive_panes := p\<rparr>)"

text \<open>The closure \<open>flush_pane_updates\<close>: focused panes, the screen, then the passive panes.\<close>

definition flush_pane_updates :: "collector \<Rightarrow> collector" where
  "flush_pane_updates s = flush_passive (flush_screen (flush_focused s))"

definition push_frame :: "bytes \<Rightarrow> collector \<Rightarrow> collector" where
  "push_frame frame s = s\<lparr>c_frames := c_frames s @ [frame]\<rparr>"

text \<open>The closure \<open>push\<close>.\<close>

fun batch_push :: "bool \<Rightarrow> collector \<Rightarrow> outbound_message \<Rightarrow> collector" where
  "batch_push coalesce s (Frame frame) =
     (let s1 = s\<lparr>c_message_count := c_message_count s + 1\<rparr>
      in case coalescible_frame_kind frame of
           Some kind \<Rightarrow>
             (let replaced = (pof_slot kind (pending_control s1) \<noteq> None);
                  s2 = (if replaced
                        then s1\<lparr>c_coalesced_control_frames := c_coalesced_control_frames s1 + 1\<rparr> else s1)
              in s2\<lparr>pending_control := pof_set kind frame (pending_control s2)\<rparr>)
         | None \<Rightarrow>
             (let s2 = flush_control s1
              in if priority_frame frame then push_frame frame s2
                 else push_frame frame (flush_pane_updates s2)))"
| "batch_push coalesce s (ScreenUpdate frame) =
     (let s1 = s\<lparr>c_message_count := c_message_count s + 1, screen_updates := screen_updates s + 1\<rparr>
      in if coalesce then s1\<lparr>pending_screen := Some frame\<rparr>
         else
           let s2 = push_frame frame (flush_screen (flush_control s1))
           in s2\<lparr>emitted_screen_frames := emitted_screen_frames s2 + 1\<rparr>)"
| "batch_push coalesce s (PaneUpdate pane_id focused frame) =
     (let s1 = s\<lparr>c_message_count := c_message_count s + 1\<rparr>
      in if focused
         then s1\<lparr>pending_focused_panes := ppf_set pane_id frame (pending_focused_panes s1)\<rparr>
         else if coalesce
         then s1\<lparr>pending_passive_panes := ppf_set pane_id frame (pending_passive_panes s1)\<rparr>
         else push_frame frame (flush_pane_updates (flush_control s1)))"

record outbound_batch =
  ob_frames :: "bytes list"
  ob_message_count :: nat
  ob_coalesced_screen_updates :: nat
  ob_coalesced_pane_updates :: nat
  ob_coalesced_control_frames :: nat

text \<open>The batch a collector is finished into; the subtraction of \<open>nat\<close> saturates.\<close>

definition finish_batch :: "collector \<Rightarrow> outbound_batch" where
  "finish_batch s =
     (let s1 = flush_passive (flush_screen (flush_focused (flush_control s)))
      in \<lparr>ob_frames = c_frames s1, ob_message_count = c_message_count s1,
          ob_coalesced_screen_updates = screen_updates s1 - emitted_screen_frames s1,
          ob_coalesced_pane_updates =
            ppf_coalesced (pending_focused_panes s1) + ppf_coalesced (pending_passive_panes s1),
          ob_coalesced_control_frames = c_coalesced_control_frames s1\<rparr>)"

text \<open>
  \<open>collect_outbound_batch\<close>: the first message and the messages that \<open>try_recv\<close> finds in the
  channel before it is empty.
\<close>

definition collect_outbound_batch :: "outbound_message \<Rightarrow> outbound_message list \<Rightarrow> bool \<Rightarrow> outbound_batch" where
  "collect_outbound_batch first queued coalesce =
     finish_batch (foldl (batch_push coalesce) collector_init (first # queued))"

fun message_frame :: "outbound_message \<Rightarrow> bytes" where
  "message_frame (Frame frame) = frame"
| "message_frame (ScreenUpdate frame) = frame"
| "message_frame (PaneUpdate pane_id focused frame) = frame"

definition collect_single_outbound_message :: "outbound_message \<Rightarrow> outbound_batch" where
  "collect_single_outbound_message message =
     \<lparr>ob_frames = [message_frame message], ob_message_count = 1, ob_coalesced_screen_updates = 0,
      ob_coalesced_pane_updates = 0, ob_coalesced_control_frames = 0\<rparr>"

section \<open>Writing\<close>

text \<open>
  The stream the loop writes to: the bytes that reached it, and what happens to the coming
  writes and flushes, \<open>None\<close> for success and \<open>Some k\<close> for a failure after \<open>k\<close> more bytes. When the
  list is used up, writes succeed.
\<close>

record out_stream =
  written :: bytes
  outcomes :: "nat option list"

definition write_all :: "bytes \<Rightarrow> out_stream \<Rightarrow> bool \<times> out_stream" where
  "write_all frame s =
     (case outcomes s of
        Some k # rest \<Rightarrow> (False, \<lparr>written = written s @ take k frame, outcomes = rest\<rparr>)
      | None # rest \<Rightarrow> (True, \<lparr>written = written s @ frame, outcomes = rest\<rparr>)
      | [] \<Rightarrow> (True, s\<lparr>written := written s @ frame\<rparr>))"

fun write_frames :: "bytes list \<Rightarrow> out_stream \<Rightarrow> bool \<times> out_stream" where
  "write_frames [] s = (True, s)"
| "write_frames (frame # frames) s =
     (case write_all frame s of
        (True, s1) \<Rightarrow> write_frames frames s1
      | (False, s1) \<Rightarrow> (False, s1))"

definition flush_stream :: "out_stream \<Rightarrow> bool \<times> out_stream" where
  "flush_stream s = write_all [] s"

text \<open>
  \<open>writer_loop\<close>: \<open>rx\<close> is every message the channel delivers until it is closed. \<open>ready\<close> says, for
  each batch, how many further messages \<open>try_recv\<close> finds before the channel is empty.
\<close>

function writer_loop ::
  "out_stream \<Rightarrow> outbound_message list \<Rightarrow> nat list \<Rightarrow> bool \<Rightarrow> bool \<Rightarrow> out_stream" where
  "writer_loop stream [] ready coalesce_screen_updates batch_messages = stream"
| "writer_loop stream (message # rx) ready coalesce_screen_updates batch_messages =
     (let n = (if batch_messages then (case ready of k # _ \<Rightarrow> k | [] \<Rightarrow> 0) else 0);
          batch = (if batch_messages
                   then collect_outbound_batch message (take n rx) coalesce_screen_updates
                   else collect_single_outbound_message message)
      in case write_frames (ob_frames batch) stream of
           (False, s1) \<Rightarrow> s1
         | (True, s1) \<Rightarrow>
             (case flush_stream s1 of
                (False, s2) \<Rightarrow> s2
              | (True, s2) \<Rightarrow>
                  writer_loop s2 (drop n rx) (tl ready) coalesce_screen_updates batch_messages))"
  by pat_completeness auto
termination by (relation "measure (\<lambda>(_, rx, _). length rx)") auto

end
