(* ===== verification/BatcherProps.thy ===== *)
theory BatcherProps
  imports Batcher "HOL-Library.Multiset" "HOL-Library.Sublist"
begin

text \<open>
  What a batch keeps: its accounting, the frames that are never dropped, the latest frame of each
  coalesced stream, and the order of frames. Pending frames are addressed by entries, so that one
  argument covers control frames, the screen, and focused and passive panes.
\<close>

section \<open>Pending frames\<close>

definition pof_ok :: "pending_outbound_frames \<Rightarrow> bool" where
  "pof_ok p \<longleftrightarrow> distinct (pof_order p) \<and> (\<forall>k. pof_slot k p \<noteq> None \<longleftrightarrow> k \<in> set (pof_order p))"

definition pof_list :: "pending_outbound_frames \<Rightarrow> bytes list" where
  "pof_list p = map (\<lambda>k. the (pof_slot k p)) (pof_order p)"

definition ppf_ok :: "pending_pane_frames \<Rightarrow> bool" where
  "ppf_ok p \<longleftrightarrow> distinct (ppf_order p) \<and> dom (ppf_frames p) = set (ppf_order p)"

definition ppf_list :: "pending_pane_frames \<Rightarrow> bytes list" where
  "ppf_list p = map (\<lambda>i. the (ppf_frames p i)) (ppf_order p)"

lemma pof_slot_update [simp]:
  "pof_slot k (pof_update k' v p) = (if k = k' then v else pof_slot k p)"
  "pof_order (pof_update k v p) = pof_order p"
  "pof_slot k (p\<lparr>pof_order := ks\<rparr>) = pof_slot k p"
  by (cases k; cases k'; simp) (cases k; simp)+

lemma pof_default_ok [simp]: "pof_ok pof_default" "pof_list pof_default = []" "pof_slot k pof_default = None"
proof -
  show "pof_slot k pof_default = None" for k by (cases k) (simp_all add: pof_default_def)
  then show "pof_ok pof_default" "pof_list pof_default = []"
    by (simp_all add: pof_ok_def pof_list_def pof_default_def)
qed

lemma ppf_default_ok [simp]: "ppf_ok ppf_default" "ppf_list ppf_default = []"
  by (simp_all add: ppf_ok_def ppf_list_def ppf_default_def)

lemma pof_set_slot [simp]:
  "pof_slot k (pof_set k' f p) = (if k = k' then Some f else pof_slot k p)"
  by (simp add: pof_set_def push_kind_once_def)

lemma pof_set_order:
  "pof_order (pof_set k f p) = (if k \<in> set (pof_order p) then pof_order p else pof_order p @ [k])"
  by (simp add: pof_set_def push_kind_once_def)

lemma pof_set_ok [simp]: "pof_ok p \<Longrightarrow> pof_ok (pof_set k f p)"
  by (auto simp: pof_ok_def pof_set_order)

lemma ppf_set_ok [simp]: "ppf_ok p \<Longrightarrow> ppf_ok (ppf_set i f p)"
  by (cases "ppf_frames p i") (auto simp: ppf_ok_def ppf_set_def Let_def)

lemma pof_take_loop_eq:
  "distinct ks \<Longrightarrow> \<forall>k \<in> set ks. pof_slot k p \<noteq> None \<Longrightarrow>
   \<exists>p'. pof_take_loop ks fs p = (fs @ map (\<lambda>k. the (pof_slot k p)) ks, p')
      \<and> pof_order p' = pof_order p \<and> (\<forall>k. pof_slot k p' = (if k \<in> set ks then None else pof_slot k p))"
proof (induction ks arbitrary: fs p)
  case (Cons k ks)
  then obtain f where f: "pof_slot k p = Some f" by auto
  have "\<exists>p'. pof_take_loop ks (fs @ [f]) (pof_update k None p)
      = ((fs @ [f]) @ map (\<lambda>k'. the (pof_slot k' (pof_update k None p))) ks, p')
      \<and> pof_order p' = pof_order (pof_update k None p)
      \<and> (\<forall>k'. pof_slot k' p' = (if k' \<in> set ks then None else pof_slot k' (pof_update k None p)))"
    by (rule Cons.IH) (use Cons.prems in auto)
  moreover have "map (\<lambda>k'. the (pof_slot k' (pof_update k None p))) ks = map (\<lambda>k'. the (pof_slot k' p)) ks"
    using Cons.prems(1) by (intro map_cong) auto
  ultimately show ?case using f by (auto simp: Let_def)
qed simp

lemma pof_eqI: "pof_order p = pof_order q \<Longrightarrow> (\<And>k. pof_slot k p = pof_slot k q) \<Longrightarrow> p = q"
  by (metis (full_types) pending_outbound_frames.equality old.unit.exhaust pof_slot.simps)

lemma pof_take_all_eq:
  assumes "pof_ok p"
  shows "pof_take_all p = (pof_list p, pof_default)"
proof -
  have "\<exists>p'. pof_take_loop (pof_order p) [] (p\<lparr>pof_order := []\<rparr>)
      = ([] @ map (\<lambda>k. the (pof_slot k (p\<lparr>pof_order := []\<rparr>))) (pof_order p), p')
      \<and> pof_order p' = pof_order (p\<lparr>pof_order := []\<rparr>)
      \<and> (\<forall>k. pof_slot k p' = (if k \<in> set (pof_order p) then None else pof_slot k (p\<lparr>pof_order := []\<rparr>)))"
    by (rule pof_take_loop_eq) (use assms in \<open>auto simp: pof_ok_def\<close>)
  then obtain p' where p': "pof_take_all p = (pof_list p, p')" "pof_order p' = []"
    "\<And>k. pof_slot k p' = (if k \<in> set (pof_order p) then None else pof_slot k p)"
    by (auto simp: pof_take_all_def pof_list_def)
  have "p' = pof_default"
  proof (rule pof_eqI)
    show "pof_order p' = pof_order pof_default" using p'(2) by (simp add: pof_default_def)
    show "pof_slot k p' = pof_slot k pof_default" for k
      using p'(3) [of k] assms by (cases "pof_slot k p") (auto simp: pof_ok_def)
  qed
  with p'(1) show ?thesis by simp
qed

lemma ppf_take_loop_eq:
  "distinct ks \<Longrightarrow> set ks \<subseteq> dom (ppf_frames p) \<Longrightarrow>
   ppf_take_loop ks fs p = (fs @ map (\<lambda>k. the (ppf_frames p k)) ks,
     p\<lparr>ppf_frames := ppf_frames p |` (- set ks)\<rparr>)"
proof (induction ks arbitrary: fs p)
  case (Cons k ks)
  then obtain f where f: "ppf_frames p k = Some f" by auto
  let ?p = "p\<lparr>ppf_frames := (ppf_frames p)(k := None)\<rparr>"
  have "ppf_take_loop ks (fs @ [f]) ?p = ((fs @ [f]) @ map (\<lambda>k. the (ppf_frames ?p k)) ks,
     ?p\<lparr>ppf_frames := ppf_frames ?p |` (- set ks)\<rparr>)"
    by (rule Cons.IH) (use Cons.prems in auto)
  moreover have "map (\<lambda>k'. the (ppf_frames ?p k')) ks = map (\<lambda>k'. the (ppf_frames p k')) ks"
    using Cons.prems(1) by (intro map_cong) auto
  moreover have "ppf_frames ?p |` (- set ks) = ppf_frames p |` (- set (k # ks))"
    by (rule ext) (auto simp: restrict_map_def)
  ultimately show ?case using f by simp
qed (simp add: restrict_map_def)

lemma ppf_take_all_eq:
  assumes "ppf_ok p"
  shows "ppf_take_all p = (ppf_list p, ppf_default\<lparr>ppf_coalesced := ppf_coalesced p\<rparr>)"
proof -
  have "ppf_take_all p = ([] @ ppf_list p,
      p\<lparr>ppf_order := [], ppf_frames := ppf_frames p |` (- set (ppf_order p))\<rparr>)"
    unfolding ppf_take_all_def ppf_list_def
    by (subst ppf_take_loop_eq) (use assms in \<open>auto simp: ppf_ok_def\<close>)
  moreover have "ppf_frames p |` (- set (ppf_order p)) = Map.empty"
    using assms by (intro ext) (auto simp: ppf_ok_def restrict_map_def)
  ultimately show ?thesis by (simp add: ppf_default_def)
qed

section \<open>Entries\<close>

datatype entry = EControl frame_kind | EScreen | EFocused u64 | EPassive u64

fun pend :: "entry \<Rightarrow> collector \<Rightarrow> bytes option" where
  "pend (EControl k) s = pof_slot k (pending_control s)"
| "pend EScreen s = pending_screen s"
| "pend (EFocused i) s = ppf_frames (pending_focused_panes s) i"
| "pend (EPassive i) s = ppf_frames (pending_passive_panes s) i"

text \<open>The entry a message is kept in; \<open>None\<close> when it is put into the batch at once.\<close>

fun target :: "bool \<Rightarrow> outbound_message \<Rightarrow> entry option" where
  "target coalesce (Frame f) = map_option EControl (coalescible_frame_kind f)"
| "target coalesce (ScreenUpdate f) = (if coalesce then Some EScreen else None)"
| "target coalesce (PaneUpdate i focused f) =
     (if focused then Some (EFocused i) else if coalesce then Some (EPassive i) else None)"

definition collector_ok :: "collector \<Rightarrow> bool" where
  "collector_ok s \<longleftrightarrow> pof_ok (pending_control s) \<and> ppf_ok (pending_focused_panes s)
     \<and> ppf_ok (pending_passive_panes s)"

definition screen_list :: "collector \<Rightarrow> bytes list" where
  "screen_list s = (case pending_screen s of Some f \<Rightarrow> [f] | None \<Rightarrow> [])"

definition pend_ms :: "collector \<Rightarrow> bytes multiset" where
  "pend_ms s = mset (pof_list (pending_control s)) + mset (ppf_list (pending_focused_panes s))
     + mset (screen_list s) + mset (ppf_list (pending_passive_panes s))"

text \<open>The pending frames that satisfy a predicate are all in one entry.\<close>

definition only :: "entry \<Rightarrow> (bytes \<Rightarrow> bool) \<Rightarrow> collector \<Rightarrow> bool" where
  "only e P s \<longleftrightarrow> (\<forall>e' f. pend e' s = Some f \<longrightarrow> P f \<longrightarrow> e' = e)"

definition pend_list :: "entry \<Rightarrow> (bytes \<Rightarrow> bool) \<Rightarrow> collector \<Rightarrow> bytes list" where
  "pend_list e P s = (case pend e s of Some f \<Rightarrow> filter P [f] | None \<Rightarrow> [])"

definition coalesced_panes :: "collector \<Rightarrow> nat" where
  "coalesced_panes s = ppf_coalesced (pending_focused_panes s) + ppf_coalesced (pending_passive_panes s)"

definition flushes :: "collector \<Rightarrow> collector \<Rightarrow> bool" where
  "flushes s s' \<longleftrightarrow> collector_ok s'
     \<and> (\<exists>fs. c_frames s' = c_frames s @ fs \<and> mset fs + pend_ms s' = pend_ms s
          \<and> (\<forall>e P. only e P s \<longrightarrow> filter P fs @ pend_list e P s' = pend_list e P s))
     \<and> (\<forall>e. pend e s' = pend e s \<or> pend e s' = None)
     \<and> c_message_count s' = c_message_count s \<and> coalesced_panes s' = coalesced_panes s
     \<and> c_coalesced_control_frames s' = c_coalesced_control_frames s
     \<and> screen_updates s' = screen_updates s
     \<and> emitted_screen_frames s' + length (screen_list s') = emitted_screen_frames s + length (screen_list s)"

lemma flushes_refl: "collector_ok s \<Longrightarrow> flushes s s"
  by (auto simp: flushes_def)

lemma only_flushes: "only e P s \<Longrightarrow> flushes s s' \<Longrightarrow> only e P s'"
  unfolding only_def flushes_def by (metis option.distinct(1))

lemma flushes_ok: "flushes s s' \<Longrightarrow> collector_ok s'"
  by (simp add: flushes_def)

lemma flushes_trans [trans]:
  assumes "flushes s s'" and "flushes s' s''"
  shows "flushes s s''"
proof -
  from assms(1) obtain fs where fs: "c_frames s' = c_frames s @ fs" "mset fs + pend_ms s' = pend_ms s"
    "\<And>e P. only e P s \<Longrightarrow> filter P fs @ pend_list e P s' = pend_list e P s"
    by (auto simp: flushes_def)
  from assms(2) obtain gs where gs: "c_frames s'' = c_frames s' @ gs" "mset gs + pend_ms s'' = pend_ms s'"
    "\<And>e P. only e P s' \<Longrightarrow> filter P gs @ pend_list e P s'' = pend_list e P s'"
    by (auto simp: flushes_def)
  have "filter P (fs @ gs) @ pend_list e P s'' = pend_list e P s" if "only e P s" for e P
    using fs(3) [OF that] gs(3) [OF only_flushes [OF that assms(1)]] by simp
  moreover have "mset (fs @ gs) + pend_ms s'' = pend_ms s"
    by (simp only: mset_append add.assoc gs(2) fs(2))
  moreover have "c_frames s'' = c_frames s @ (fs @ gs)" using fs(1) gs(1) by simp
  moreover have "\<forall>e. pend e s'' = pend e s \<or> pend e s'' = None"
    using assms unfolding flushes_def by metis
  ultimately show ?thesis using assms unfolding flushes_def by metis
qed

lemma filter_map_one:
  "distinct ks \<Longrightarrow> (\<And>k'. k' \<in> set ks \<Longrightarrow> P (g k') \<Longrightarrow> k' = k) \<Longrightarrow>
   filter P (map g ks) = (if k \<in> set ks then filter P [g k] else [])"
  by (induction ks) (auto simp: filter_empty_conv)

lemma pof_ok_slot: "pof_ok p \<Longrightarrow> k \<in> set (pof_order p) \<Longrightarrow> pof_slot k p = Some (the (pof_slot k p))"
  by (auto simp: pof_ok_def)

lemma ppf_ok_slot: "ppf_ok p \<Longrightarrow> k \<in> set (ppf_order p) \<Longrightarrow> ppf_frames p k = Some (the (ppf_frames p k))"
  unfolding ppf_ok_def by (metis domIff option.collapse)

lemma filter_pof_list:
  assumes "pof_ok p" and "\<And>k' f. pof_slot k' p = Some f \<Longrightarrow> P f \<Longrightarrow> k' = k"
  shows "filter P (pof_list p) = (case pof_slot k p of Some f \<Rightarrow> filter P [f] | None \<Rightarrow> [])"
proof -
  have "filter P (pof_list p) = (if k \<in> set (pof_order p) then filter P [the (pof_slot k p)] else [])"
    unfolding pof_list_def
    using assms(1) by (intro filter_map_one assms(2) [OF pof_ok_slot]) (simp_all add: pof_ok_def)
  moreover have "k \<in> set (pof_order p) \<longleftrightarrow> pof_slot k p \<noteq> None" using assms(1) by (simp add: pof_ok_def)
  ultimately show ?thesis by (cases "pof_slot k p") simp_all
qed

lemma filter_ppf_list:
  assumes "ppf_ok p" and "\<And>k' f. ppf_frames p k' = Some f \<Longrightarrow> P f \<Longrightarrow> k' = k"
  shows "filter P (ppf_list p) = (case ppf_frames p k of Some f \<Rightarrow> filter P [f] | None \<Rightarrow> [])"
proof -
  have "filter P (ppf_list p) = (if k \<in> set (ppf_order p) then filter P [the (ppf_frames p k)] else [])"
    unfolding ppf_list_def
    using assms(1) by (intro filter_map_one assms(2) [OF ppf_ok_slot]) (simp_all add: ppf_ok_def)
  moreover have "k \<in> set (ppf_order p) \<longleftrightarrow> ppf_frames p k \<noteq> None" using assms(1) unfolding ppf_ok_def by (metis domIff)
  ultimately show ?thesis by (cases "ppf_frames p k") simp_all
qed

lemma pof_list_None: "pof_ok p \<Longrightarrow> (\<And>k f. pof_slot k p = Some f \<Longrightarrow> \<not> P f) \<Longrightarrow> filter P (pof_list p) = []"
  by (auto simp: filter_empty_conv pof_list_def dest: pof_ok_slot)

lemma ppf_list_None: "ppf_ok p \<Longrightarrow> (\<And>k f. ppf_frames p k = Some f \<Longrightarrow> \<not> P f) \<Longrightarrow> filter P (ppf_list p) = []"
  by (auto simp: filter_empty_conv ppf_list_def dest: ppf_ok_slot)

section \<open>Flushing\<close>

lemma onlyD: "only e P s \<Longrightarrow> pend e' s = Some f \<Longrightarrow> P f \<Longrightarrow> e' = e"
  by (simp add: only_def)

lemma pend_list_id: "pend e s' = pend e s \<Longrightarrow> pend_list e P s' = pend_list e P s"
  by (simp add: pend_list_def)

lemma flushes_control:
  assumes ok: "collector_ok s"
  shows "flushes s (flush_control s)"
proof -
  let ?fs = "pof_list (pending_control s)"
  have eq: "flush_control s = s\<lparr>c_frames := c_frames s @ ?fs, pending_control := pof_default\<rparr>"
    using ok by (simp add: flush_control_def collector_ok_def pof_take_all_eq)
  have "filter P ?fs @ pend_list e P (flush_control s) = pend_list e P s" if o: "only e P s" for e P
  proof (cases e)
    case (EControl k)
    have "filter P ?fs = (case pof_slot k (pending_control s) of Some f \<Rightarrow> filter P [f] | None \<Rightarrow> [])"
      by (rule filter_pof_list) (use ok onlyD [OF o, of "EControl _"] EControl in \<open>auto simp: collector_ok_def\<close>)
    then show ?thesis using EControl by (simp add: pend_list_def eq)
  next
    case EScreen
    have "filter P ?fs = []"
      by (rule pof_list_None) (use ok onlyD [OF o, of "EControl _"] EScreen in \<open>auto simp: collector_ok_def\<close>)
    then show ?thesis using EScreen by (simp add: pend_list_def eq)
  next
    case (EFocused i)
    have "filter P ?fs = []"
      by (rule pof_list_None) (use ok onlyD [OF o, of "EControl _"] EFocused in \<open>auto simp: collector_ok_def\<close>)
    then show ?thesis using EFocused by (simp add: pend_list_def eq)
  next
    case (EPassive i)
    have "filter P ?fs = []"
      by (rule pof_list_None) (use ok onlyD [OF o, of "EControl _"] EPassive in \<open>auto simp: collector_ok_def\<close>)
    then show ?thesis using EPassive by (simp add: pend_list_def eq)
  qed
  moreover have "pend e (flush_control s) = pend e s \<or> pend e (flush_control s) = None" for e
    by (cases e) (simp_all add: eq)
  ultimately show ?thesis
    using ok by (auto simp: flushes_def eq collector_ok_def pend_ms_def screen_list_def coalesced_panes_def)
qed

lemma ppf_default_simps [simp]:
  "ppf_ok (ppf_default\<lparr>ppf_coalesced := n\<rparr>)" "ppf_list (ppf_default\<lparr>ppf_coalesced := n\<rparr>) = []"
  "ppf_frames (ppf_default\<lparr>ppf_coalesced := n\<rparr>) = Map.empty"
  "ppf_coalesced (ppf_default\<lparr>ppf_coalesced := n\<rparr>) = n"
  by (simp_all add: ppf_ok_def ppf_list_def ppf_default_def)

lemma flushes_focused:
  assumes ok: "collector_ok s"
  shows "flushes s (flush_focused s)"
proof -
  let ?fs = "ppf_list (pending_focused_panes s)"
  have eq: "flush_focused s = s\<lparr>c_frames := c_frames s @ ?fs, pending_focused_panes :=
      ppf_default\<lparr>ppf_coalesced := ppf_coalesced (pending_focused_panes s)\<rparr>\<rparr>"
    using ok by (simp add: flush_focused_def collector_ok_def ppf_take_all_eq)
  have none: "filter P ?fs = []" if "only e P s" "\<And>i. e \<noteq> EFocused i" for e P
    by (rule ppf_list_None) (use ok onlyD [OF that(1), of "EFocused _"] that(2) in \<open>auto simp: collector_ok_def\<close>)
  have "filter P ?fs @ pend_list e P (flush_focused s) = pend_list e P s" if o: "only e P s" for e P
  proof (cases e)
    case (EFocused i)
    have "filter P ?fs = (case ppf_frames (pending_focused_panes s) i of Some f \<Rightarrow> filter P [f] | None \<Rightarrow> [])"
      by (rule filter_ppf_list) (use ok onlyD [OF o, of "EFocused _"] EFocused in \<open>auto simp: collector_ok_def\<close>)
    then show ?thesis using EFocused by (simp add: pend_list_def eq)
  qed (use none [OF o] in \<open>simp_all add: pend_list_def eq\<close>)
  moreover have "pend e (flush_focused s) = pend e s \<or> pend e (flush_focused s) = None" for e
    by (cases e) (simp_all add: eq)
  ultimately show ?thesis
    using ok by (auto simp: flushes_def eq collector_ok_def pend_ms_def screen_list_def coalesced_panes_def)
qed

lemma flushes_passive:
  assumes ok: "collector_ok s"
  shows "flushes s (flush_passive s)"
proof -
  let ?fs = "ppf_list (pending_passive_panes s)"
  have eq: "flush_passive s = s\<lparr>c_frames := c_frames s @ ?fs, pending_passive_panes :=
      ppf_default\<lparr>ppf_coalesced := ppf_coalesced (pending_passive_panes s)\<rparr>\<rparr>"
    using ok by (simp add: flush_passive_def collector_ok_def ppf_take_all_eq)
  have none: "filter P ?fs = []" if "only e P s" "\<And>i. e \<noteq> EPassive i" for e P
    by (rule ppf_list_None) (use ok onlyD [OF that(1), of "EPassive _"] that(2) in \<open>auto simp: collector_ok_def\<close>)
  have "filter P ?fs @ pend_list e P (flush_passive s) = pend_list e P s" if o: "only e P s" for e P
  proof (cases e)
    case (EPassive i)
    have "filter P ?fs = (case ppf_frames (pending_passive_panes s) i of Some f \<Rightarrow> filter P [f] | None \<Rightarrow> [])"
      by (rule filter_ppf_list) (use ok onlyD [OF o, of "EPassive _"] EPassive in \<open>auto simp: collector_ok_def\<close>)
    then show ?thesis using EPassive by (simp add: pend_list_def eq)
  qed (use none [OF o] in \<open>simp_all add: pend_list_def eq\<close>)
  moreover have "pend e (flush_passive s) = pend e s \<or> pend e (flush_passive s) = None" for e
    by (cases e) (simp_all add: eq)
  ultimately show ?thesis
    using ok by (auto simp: flushes_def eq collector_ok_def pend_ms_def screen_list_def coalesced_panes_def)
qed

lemma flushes_screen:
  assumes ok: "collector_ok s"
  shows "flushes s (flush_screen s)"
proof (cases "pending_screen s")
  case None
  then show ?thesis using flushes_refl [OF ok] by (simp add: flush_screen_def)
next
  case (Some f)
  have eq: "flush_screen s = s\<lparr>c_frames := c_frames s @ [f], pending_screen := None,
      emitted_screen_frames := emitted_screen_frames s + 1\<rparr>"
    using Some by (simp add: flush_screen_def)
  have "filter P [f] @ pend_list e P (flush_screen s) = pend_list e P s" if o: "only e P s" for e P
    using onlyD [OF o, of EScreen f] Some by (cases e) (auto simp: pend_list_def eq)
  moreover have "pend e (flush_screen s) = pend e s \<or> pend e (flush_screen s) = None" for e
    by (cases e) (simp_all add: eq)
  ultimately show ?thesis
    using ok Some by (auto simp: flushes_def eq collector_ok_def pend_ms_def screen_list_def coalesced_panes_def)
qed

lemma flushes_pane_updates: "collector_ok s \<Longrightarrow> flushes s (flush_pane_updates s)"
  unfolding flush_pane_updates_def
  by (meson flushes_focused flushes_screen flushes_passive flushes_ok flushes_trans)

text \<open>After a flush of everything nothing is pending.\<close>

definition drained :: "collector \<Rightarrow> collector" where
  "drained s = flush_passive (flush_screen (flush_focused (flush_control s)))"

lemma flushes_drained: "collector_ok s \<Longrightarrow> flushes s (drained s)"
  unfolding drained_def
  by (meson flushes_control flushes_focused flushes_screen flushes_passive flushes_ok flushes_trans)

lemma drained_empty:
  assumes "collector_ok s"
  shows "pend e (drained s) = None"
proof -
  let ?s1 = "flush_control s" and ?s2 = "flush_focused (flush_control s)"
  let ?s3 = "flush_screen ?s2"
  have 1: "flushes s ?s1" by (rule flushes_control [OF assms])
  have 2: "flushes ?s1 ?s2" by (rule flushes_focused [OF flushes_ok [OF 1]])
  have 3: "flushes ?s2 ?s3" by (rule flushes_screen [OF flushes_ok [OF 2]])
  have 4: "flushes ?s3 (drained s)" unfolding drained_def by (rule flushes_passive [OF flushes_ok [OF 3]])
  have keep: "pend e b = None" if "flushes a b" "pend e a = None" for a b
    using that unfolding flushes_def by metis
  show ?thesis
  proof (cases e)
    case (EControl k)
    have "pend e ?s1 = None"
      using assms EControl by (simp add: flush_control_def collector_ok_def pof_take_all_eq)
    then show ?thesis using keep 2 3 4 by blast
  next
    case (EFocused i)
    have "pend e ?s2 = None"
      using flushes_ok [OF 1] EFocused by (simp add: flush_focused_def collector_ok_def ppf_take_all_eq)
    then show ?thesis using keep 3 4 by blast
  next
    case EScreen
    have "pend e ?s3 = None" using EScreen by (simp add: flush_screen_def split: option.splits)
    then show ?thesis using keep 4 by blast
  next
    case (EPassive i)
    show ?thesis
      using flushes_ok [OF 3] EPassive
      by (simp add: drained_def flush_passive_def collector_ok_def ppf_take_all_eq)
  qed
qed

lemma collect_frames:
  "ob_frames (collect_outbound_batch first queued coalesce)
     = c_frames (drained (foldl (batch_push coalesce) collector_init (first # queued)))"
  by (simp add: collect_outbound_batch_def finish_batch_def drained_def Let_def)

section \<open>One message\<close>

lemma mset_map_update:
  "distinct ks \<Longrightarrow> k \<in> set ks \<Longrightarrow> (\<And>k'. k' \<noteq> k \<Longrightarrow> g' k' = g k') \<Longrightarrow>
   mset (map g' ks) + {#g k#} = mset (map g ks) + {#g' k#}"
proof (induction ks)
  case (Cons x ks)
  show ?case
  proof (cases "x = k")
    case True
    then have "map g' ks = map g ks" using Cons.prems by (intro map_cong refl) (metis distinct.simps(2))
    then have "mset (map g' ks) = mset (map g ks)" by (rule arg_cong)
    then show ?thesis using True by (simp del: mset_map)
  next
    case False
    then show ?thesis using Cons by simp
  qed
qed simp

lemma pof_set_ms:
  assumes "pof_ok p"
  shows "mset (pof_list (pof_set k f p)) + (case pof_slot k p of Some g \<Rightarrow> {#g#} | None \<Rightarrow> {#})
    = mset (pof_list p) + {#f#}"
proof (cases "pof_slot k p")
  case None
  then have "k \<notin> set (pof_order p)" using assms unfolding pof_ok_def by blast
  then have "pof_list (pof_set k f p) = pof_list p @ [f]"
    by (auto simp: pof_list_def pof_set_order)
  then show ?thesis using None by simp
next
  case (Some g)
  then have k: "k \<in> set (pof_order p)" using assms by (auto simp: pof_ok_def)
  have "mset (map (\<lambda>k'. the (pof_slot k' (pof_set k f p))) (pof_order p)) + {#the (pof_slot k p)#}
      = mset (map (\<lambda>k'. the (pof_slot k' p)) (pof_order p)) + {#the (pof_slot k (pof_set k f p))#}"
    by (rule mset_map_update) (use assms k in \<open>auto simp: pof_ok_def\<close>)
  then show ?thesis using Some k by (simp add: pof_list_def pof_set_order)
qed

lemma ppf_set_simps [simp]:
  "ppf_frames (ppf_set i f p) = (ppf_frames p)(i \<mapsto> f)"
  "ppf_coalesced (ppf_set i f p) = ppf_coalesced p + (if ppf_frames p i = None then 0 else 1)"
  by (simp_all add: ppf_set_def Let_def)

lemma ppf_set_ms:
  assumes "ppf_ok p"
  shows "mset (ppf_list (ppf_set i f p)) + (case ppf_frames p i of Some g \<Rightarrow> {#g#} | None \<Rightarrow> {#})
    = mset (ppf_list p) + {#f#}"
proof (cases "ppf_frames p i")
  case None
  then have "i \<notin> set (ppf_order p)" using assms unfolding ppf_ok_def by (metis domIff)
  then have "ppf_list (ppf_set i f p) = ppf_list p @ [f]"
    using None by (auto simp: ppf_list_def ppf_set_def Let_def)
  then show ?thesis using None by simp
next
  case (Some g)
  then have i: "i \<in> set (ppf_order p)" using assms unfolding ppf_ok_def by auto
  have "mset (map (\<lambda>k'. the (ppf_frames (ppf_set i f p) k')) (ppf_order p)) + {#the (ppf_frames p i)#}
      = mset (map (\<lambda>k'. the (ppf_frames p k')) (ppf_order p)) + {#the (ppf_frames (ppf_set i f p) i)#}"
    by (rule mset_map_update) (use assms i in \<open>auto simp: ppf_ok_def\<close>)
  then show ?thesis using Some by (simp add: ppf_list_def ppf_set_def Let_def)
qed

lemma pend_updates:
  "pend e (s\<lparr>c_message_count := n\<rparr>) = pend e s" "pend e (s\<lparr>screen_updates := n\<rparr>) = pend e s"
  "pend e (s\<lparr>emitted_screen_frames := n\<rparr>) = pend e s" "pend e (s\<lparr>c_frames := fs\<rparr>) = pend e s"
  "pend e (s\<lparr>c_coalesced_control_frames := n\<rparr>) = pend e s"
  by (cases e; simp)+

text \<open>The frame of a message that is kept replaces the pending frame of its entry.\<close>

lemma push_kept:
  assumes "target coalesce m = Some e"
  shows "c_frames (batch_push coalesce s m) = c_frames s"
    and "pend e' (batch_push coalesce s m) = (if e' = e then Some (message_frame m) else pend e' s)"
  using assms
  by (cases m; cases e'; auto simp: Let_def pend_updates split: if_splits)+

text \<open>A message that is not kept flushes some pending frames and is then put into the batch.\<close>

lemma push_direct:
  assumes ok: "collector_ok s" and t: "target coalesce m = None"
  obtains s0 s1 where "pend_ms s0 = pend_ms s" "collector_ok s0" "c_frames s0 = c_frames s"
    "\<And>e. pend e s0 = pend e s" "flushes s0 s1"
    "c_frames (batch_push coalesce s m) = c_frames s1 @ [message_frame m]"
    "\<And>e. pend e (batch_push coalesce s m) = pend e s1"
    "collector_ok (batch_push coalesce s m)" "pend_ms (batch_push coalesce s m) = pend_ms s1"
    "c_message_count s0 = Suc (c_message_count s)"
    "c_message_count (batch_push coalesce s m) = c_message_count s1"
    "coalesced_panes s0 = coalesced_panes s"
    "coalesced_panes (batch_push coalesce s m) = coalesced_panes s1"
    "c_coalesced_control_frames s0 = c_coalesced_control_frames s"
    "c_coalesced_control_frames (batch_push coalesce s m) = c_coalesced_control_frames s1"
    "screen_list s0 = screen_list s" "screen_list (batch_push coalesce s m) = screen_list s1"
    "emitted_screen_frames s0 = emitted_screen_frames s"
    "screen_updates (batch_push coalesce s m) + emitted_screen_frames s1
       = screen_updates s + emitted_screen_frames (batch_push coalesce s m)"
    "emitted_screen_frames s1 \<le> emitted_screen_frames (batch_push coalesce s m)"
proof (cases m)
  case (Frame f)
  let ?s0 = "s\<lparr>c_message_count := c_message_count s + 1\<rparr>"
  have ok0: "collector_ok ?s0" using ok by (simp add: collector_ok_def)
  define s1 where "s1 = (if priority_frame f then flush_control ?s0 else flush_pane_updates (flush_control ?s0))"
  have fl: "flushes ?s0 s1"
    unfolding s1_def
    using flushes_control [OF ok0] flushes_pane_updates [of "flush_control ?s0"]
    by (auto dest: flushes_ok intro: flushes_trans)
  have k: "coalescible_frame_kind f = None" using t Frame by simp
  have eq: "batch_push coalesce s m = s1\<lparr>c_frames := c_frames s1 @ [f]\<rparr>"
    using k Frame by (simp add: s1_def push_frame_def Let_def)
  have mf: "message_frame m = f" using Frame by simp
  have su: "screen_updates s1 = screen_updates s" using fl by (simp add: flushes_def)
  show thesis
    by (rule that [of ?s0 s1])
       (use ok0 fl flushes_ok [OF fl] mf su in \<open>simp_all add: eq pend_updates pend_ms_def
          screen_list_def collector_ok_def coalesced_panes_def\<close>)
next
  case (ScreenUpdate f)
  let ?s0 = "s\<lparr>c_message_count := c_message_count s + 1, screen_updates := screen_updates s + 1\<rparr>"
  have ok0: "collector_ok ?s0" using ok by (simp add: collector_ok_def)
  define s1 where "s1 = flush_screen (flush_control ?s0)"
  have fl: "flushes ?s0 s1"
    unfolding s1_def
    using flushes_control [OF ok0] flushes_screen [of "flush_control ?s0"]
    by (auto dest: flushes_ok intro: flushes_trans)
  have eq: "batch_push coalesce s m = s1\<lparr>c_frames := c_frames s1 @ [f],
      emitted_screen_frames := emitted_screen_frames s1 + 1\<rparr>"
    using t ScreenUpdate by (simp add: s1_def push_frame_def Let_def split: if_splits)
  have mf: "message_frame m = f" using ScreenUpdate by simp
  have su: "screen_updates s1 = Suc (screen_updates s)" using fl by (simp add: flushes_def)
  show thesis
    by (rule that [of ?s0 s1])
       (use ok0 fl flushes_ok [OF fl] mf su in \<open>simp_all add: eq pend_updates pend_ms_def
          screen_list_def collector_ok_def coalesced_panes_def\<close>)
next
  case (PaneUpdate i focused f)
  let ?s0 = "s\<lparr>c_message_count := c_message_count s + 1\<rparr>"
  have ok0: "collector_ok ?s0" using ok by (simp add: collector_ok_def)
  define s1 where "s1 = flush_pane_updates (flush_control ?s0)"
  have fl: "flushes ?s0 s1"
    unfolding s1_def
    using flushes_control [OF ok0] flushes_pane_updates [of "flush_control ?s0"]
    by (auto dest: flushes_ok intro: flushes_trans)
  have eq: "batch_push coalesce s m = s1\<lparr>c_frames := c_frames s1 @ [f]\<rparr>"
    using t PaneUpdate by (simp add: s1_def push_frame_def Let_def split: if_splits)
  have mf: "message_frame m = f" using PaneUpdate by simp
  have su: "screen_updates s1 = screen_updates s" using fl by (simp add: flushes_def)
  show thesis
    by (rule that [of ?s0 s1])
       (use ok0 fl flushes_ok [OF fl] mf su in \<open>simp_all add: eq pend_updates pend_ms_def
          screen_list_def collector_ok_def coalesced_panes_def\<close>)
qed

section \<open>Accounting\<close>

lemma mset_swap:
  fixes a :: "'a multiset"
  assumes "a' + x = a + {#f#}"
  shows "a' + b + c + d + x = a + b + c + d + {#f#}"
    and "b + a' + c + d + x = b + a + c + d + {#f#}"
    and "b + c + d + a' + x = b + c + d + a + {#f#}"
proof -
  have s: "y + (a' + x) = y + (a + {#f#})" for y by (simp only: assms)
  show "a' + b + c + d + x = a + b + c + d + {#f#}" using s [of "b + c + d"] by (simp only: ac_simps)
  show "b + a' + c + d + x = b + a + c + d + {#f#}" using s [of "b + c + d"] by (simp only: ac_simps)
  show "b + c + d + a' + x = b + c + d + a + {#f#}" using s [of "b + c + d"] by (simp only: ac_simps)
qed

text \<open>
  After a sequence of messages, everything received is in the batch, pending, or dropped, and the
  counters count what was dropped.
\<close>

definition accounts :: "outbound_message list \<Rightarrow> collector \<Rightarrow> bool" where
  "accounts msgs s \<longleftrightarrow> collector_ok s \<and> c_message_count s = length msgs
     \<and> emitted_screen_frames s + length (screen_list s) \<le> screen_updates s
     \<and> (\<exists>lost. mset (map message_frame msgs) = mset (c_frames s) + pend_ms s + lost
          \<and> size lost = coalesced_panes s + c_coalesced_control_frames s
              + (screen_updates s - (emitted_screen_frames s + length (screen_list s))))"

lemma collector_init_ok [simp]: "collector_ok collector_init"
  by (simp add: collector_init_def collector_ok_def)

lemma pend_init [simp]: "pend e collector_init = None"
  by (cases e) (simp_all add: collector_init_def ppf_default_def)

lemma accounts_init: "accounts [] collector_init"
  by (simp add: accounts_def) (simp add: collector_init_def pend_ms_def screen_list_def coalesced_panes_def ppf_default_def
      ppf_list_def)

lemma accounts_flushes:
  assumes "accounts msgs s" and "flushes s s'"
  shows "accounts msgs s'"
proof -
  from assms(2) obtain fs where fs: "c_frames s' = c_frames s @ fs" "mset fs + pend_ms s' = pend_ms s"
    by (auto simp: flushes_def)
  then have "mset (c_frames s') + pend_ms s' = mset (c_frames s) + pend_ms s"
    by (simp add: add.assoc)
  then show ?thesis using assms unfolding accounts_def flushes_def by metis
qed

lemma accounts_kept:
  assumes acc: "accounts msgs s" and t: "target coalesce m = Some e"
  shows "accounts (msgs @ [m]) (batch_push coalesce s m)"
proof -
  let ?s = "batch_push coalesce s m"
  from acc obtain lost where ok: "collector_ok s" and n: "c_message_count s = length msgs"
    and le: "emitted_screen_frames s + length (screen_list s) \<le> screen_updates s"
    and l: "mset (map message_frame msgs) = mset (c_frames s) + pend_ms s + lost"
    and sz: "size lost = coalesced_panes s + c_coalesced_control_frames s
              + (screen_updates s - (emitted_screen_frames s + length (screen_list s)))"
    by (auto simp: accounts_def)
  let ?old = "case pend e s of Some g \<Rightarrow> {#g#} | None \<Rightarrow> {#}"
  have ms: "pend_ms ?s + ?old = pend_ms s + {#message_frame m#}"
    and ok': "collector_ok ?s" and n': "c_message_count ?s = Suc (length msgs)"
    and le': "emitted_screen_frames ?s + length (screen_list ?s) \<le> screen_updates ?s"
    and sz': "size lost + size ?old = coalesced_panes ?s + c_coalesced_control_frames ?s
              + (screen_updates ?s - (emitted_screen_frames ?s + length (screen_list ?s)))"
  proof -
    show "pend_ms ?s + ?old = pend_ms s + {#message_frame m#}"
    proof (cases m)
      case (Frame f)
      then obtain k where k: "coalescible_frame_kind f = Some k" "e = EControl k" using t by auto
      have p: "pend_ms ?s = mset (pof_list (pof_set k f (pending_control s)))
          + mset (ppf_list (pending_focused_panes s)) + mset (screen_list s) + mset (ppf_list (pending_passive_panes s))"
        using k(1) Frame by (simp add: pend_ms_def Let_def screen_list_def)
      have q: "mset (pof_list (pof_set k f (pending_control s))) + ?old
          = mset (pof_list (pending_control s)) + {#message_frame m#}"
        using pof_set_ms [of "pending_control s" k f] ok k(2) Frame by (simp add: collector_ok_def)
      show ?thesis unfolding p pend_ms_def [of s] by (rule mset_swap(1) [OF q])
    next
      case (ScreenUpdate f)
      then show ?thesis using t
        by (cases "pending_screen s") (auto simp: pend_ms_def Let_def screen_list_def split: if_splits)
    next
      case (PaneUpdate i focused f)
      show ?thesis
      proof (cases focused)
        case True
        have p: "pend_ms ?s = mset (pof_list (pending_control s))
            + mset (ppf_list (ppf_set i f (pending_focused_panes s))) + mset (screen_list s)
            + mset (ppf_list (pending_passive_panes s))"
          using True PaneUpdate by (simp add: pend_ms_def Let_def screen_list_def)
        have q: "mset (ppf_list (ppf_set i f (pending_focused_panes s))) + ?old
            = mset (ppf_list (pending_focused_panes s)) + {#message_frame m#}"
          using ppf_set_ms [of "pending_focused_panes s" i f] ok t PaneUpdate True by (auto simp: collector_ok_def)
        show ?thesis unfolding p pend_ms_def [of s] by (rule mset_swap(2) [OF q])
      next
        case False
        have p: "pend_ms ?s = mset (pof_list (pending_control s))
            + mset (ppf_list (pending_focused_panes s)) + mset (screen_list s)
            + mset (ppf_list (ppf_set i f (pending_passive_panes s)))"
          using False PaneUpdate t by (simp add: pend_ms_def Let_def screen_list_def split: if_splits)
        have q: "mset (ppf_list (ppf_set i f (pending_passive_panes s))) + ?old
            = mset (ppf_list (pending_passive_panes s)) + {#message_frame m#}"
          using ppf_set_ms [of "pending_passive_panes s" i f] ok t PaneUpdate False
          by (auto simp: collector_ok_def split: if_splits)
        show ?thesis unfolding p pend_ms_def [of s] by (rule mset_swap(3) [OF q])
      qed
    qed
    show "collector_ok ?s" "c_message_count ?s = Suc (length msgs)"
      using ok n t by (cases m; auto simp: collector_ok_def Let_def split: if_splits)+
    show "emitted_screen_frames ?s + length (screen_list ?s) \<le> screen_updates ?s"
      using le t by (cases m; auto simp: screen_list_def Let_def split: if_splits option.splits)
    show "size lost + size ?old = coalesced_panes ?s + c_coalesced_control_frames ?s
              + (screen_updates ?s - (emitted_screen_frames ?s + length (screen_list ?s)))"
      using le sz t
      by (cases m; auto simp: screen_list_def coalesced_panes_def Let_def split: if_splits option.splits)
  qed
  have "mset (map message_frame (msgs @ [m])) = mset (c_frames ?s) + pend_ms ?s + (lost + ?old)"
  proof -
    have "mset (c_frames ?s) + pend_ms ?s + (lost + ?old) = mset (c_frames s) + lost + (pend_ms ?s + ?old)"
      using push_kept(1) [OF t, of s] by (simp only: ac_simps)
    also have "\<dots> = mset (c_frames s) + lost + (pend_ms s + {#message_frame m#})" by (simp only: ms)
    also have "\<dots> = mset (map message_frame (msgs @ [m]))" using l by (simp add: ac_simps)
    finally show ?thesis by (rule sym)
  qed
  then show ?thesis
    unfolding accounts_def using ok' n' le' sz' by (intro conjI exI [of _ "lost + ?old"]) simp_all
qed

lemma accounts_direct:
  assumes acc: "accounts msgs s" and t: "target coalesce m = None"
  shows "accounts (msgs @ [m]) (batch_push coalesce s m)"
proof -
  let ?s = "batch_push coalesce s m"
  from acc obtain lost where ok: "collector_ok s" and n: "c_message_count s = length msgs"
    and le: "emitted_screen_frames s + length (screen_list s) \<le> screen_updates s"
    and l: "mset (map message_frame msgs) = mset (c_frames s) + pend_ms s + lost"
    and sz: "size lost = coalesced_panes s + c_coalesced_control_frames s
              + (screen_updates s - (emitted_screen_frames s + length (screen_list s)))"
    by (auto simp: accounts_def)
  from push_direct [OF ok t] obtain s0 s1 where
    s0: "pend_ms s0 = pend_ms s" "c_frames s0 = c_frames s" "flushes s0 s1"
    and fr: "c_frames ?s = c_frames s1 @ [message_frame m]" and ok': "collector_ok ?s"
    and pm: "pend_ms ?s = pend_ms s1"
    and c: "c_message_count s0 = Suc (c_message_count s)" "c_message_count ?s = c_message_count s1"
      "coalesced_panes s0 = coalesced_panes s" "coalesced_panes ?s = coalesced_panes s1"
      "c_coalesced_control_frames s0 = c_coalesced_control_frames s"
      "c_coalesced_control_frames ?s = c_coalesced_control_frames s1"
      "screen_list s0 = screen_list s" "screen_list ?s = screen_list s1"
      "emitted_screen_frames s0 = emitted_screen_frames s"
      "screen_updates ?s + emitted_screen_frames s1 = screen_updates s + emitted_screen_frames ?s"
      "emitted_screen_frames s1 \<le> emitted_screen_frames ?s"
    by metis
  from s0(3) have f: "c_message_count s1 = c_message_count s0" "coalesced_panes s1 = coalesced_panes s0"
    "c_coalesced_control_frames s1 = c_coalesced_control_frames s0"
    "emitted_screen_frames s1 + length (screen_list s1) = emitted_screen_frames s0 + length (screen_list s0)"
    unfolding flushes_def by simp_all
  from s0(3) obtain fs where fs: "c_frames s1 = c_frames s0 @ fs" "mset fs + pend_ms s1 = pend_ms s0"
    by (auto simp: flushes_def)
  have "mset (map message_frame (msgs @ [m])) = mset (c_frames ?s) + pend_ms ?s + lost"
  proof -
    have "mset (c_frames ?s) + pend_ms ?s = mset (c_frames s) + {#message_frame m#} + (mset fs + pend_ms s1)"
      unfolding fr pm fs(1) s0(2) by (simp add: ac_simps)
    also have "\<dots> = mset (c_frames s) + {#message_frame m#} + pend_ms s" by (simp only: fs(2) s0(1))
    finally show ?thesis using l by (simp add: ac_simps)
  qed
  then show ?thesis
    unfolding accounts_def using ok' n le sz c f by (intro conjI exI [of _ lost]) simp_all
qed

lemma accounts_push: "accounts msgs s \<Longrightarrow> accounts (msgs @ [m]) (batch_push coalesce s m)"
  by (cases "target coalesce m") (simp_all add: accounts_direct accounts_kept)

lemma accounts_foldl: "accounts msgs s \<Longrightarrow> accounts (msgs @ ms) (foldl (batch_push coalesce) s ms)"
proof (induction ms arbitrary: msgs s)
  case (Cons m ms)
  from Cons.IH [OF accounts_push [OF Cons.prems, of m coalesce]] show ?case by simp
qed simp

definition collected :: "bool \<Rightarrow> outbound_message list \<Rightarrow> collector" where
  "collected coalesce ms = foldl (batch_push coalesce) collector_init ms"

lemma accounts_collected: "accounts ms (collected coalesce ms)"
  using accounts_foldl [OF accounts_init] by (simp add: collected_def)

lemma collected_ok: "collector_ok (collected coalesce ms)"
  using accounts_collected by (simp add: accounts_def)

lemma collected_snoc: "collected coalesce (ms @ [m]) = batch_push coalesce (collected coalesce ms) m"
  by (simp add: collected_def)

lemma pend_ms_empty:
  assumes "collector_ok s" and "\<And>e. pend e s = None"
  shows "pend_ms s = {#}" and "screen_list s = []"
proof -
  have "pof_order (pending_control s) = []"
    using assms(1) assms(2) [of "EControl _"] by (cases "pof_order (pending_control s)") (auto simp: collector_ok_def pof_ok_def)
  moreover have "ppf_frames (pending_focused_panes s) = Map.empty" "ppf_frames (pending_passive_panes s) = Map.empty"
    using assms(2) [of "EFocused _"] assms(2) [of "EPassive _"] by auto
  then have "ppf_order (pending_focused_panes s) = []" "ppf_order (pending_passive_panes s) = []"
    using assms(1) by (simp_all add: collector_ok_def ppf_ok_def)
  moreover show "screen_list s = []" using assms(2) [of EScreen] by (simp add: screen_list_def)
  ultimately show "pend_ms s = {#}" by (simp add: pend_ms_def pof_list_def ppf_list_def)
qed

lemma batch_accounts_aux:
  assumes "b = collect_outbound_batch first queued coalesce"
  shows "ob_message_count b = Suc (length queued)
    \<and> (\<exists>lost. mset (map message_frame (first # queued)) = mset (ob_frames b) + lost
        \<and> size lost = ob_coalesced_screen_updates b + ob_coalesced_pane_updates b
            + ob_coalesced_control_frames b)"
proof -
  let ?s = "drained (collected coalesce (first # queued))"
  have acc: "accounts (first # queued) ?s"
    by (rule accounts_flushes [OF accounts_collected flushes_drained [OF collected_ok]])
  have pe: "pend_ms ?s = {#}" "screen_list ?s = []"
    using pend_ms_empty [OF flushes_ok [OF flushes_drained [OF collected_ok]] drained_empty [OF collected_ok]] .
  have b: "b = \<lparr>ob_frames = c_frames ?s, ob_message_count = c_message_count ?s,
      ob_coalesced_screen_updates = screen_updates ?s - emitted_screen_frames ?s,
      ob_coalesced_pane_updates = coalesced_panes ?s,
      ob_coalesced_control_frames = c_coalesced_control_frames ?s\<rparr>"
    unfolding assms collect_outbound_batch_def finish_batch_def drained_def collected_def coalesced_panes_def
    by (simp add: Let_def)
  from acc pe show ?thesis unfolding b accounts_def by auto
qed

section \<open>Order within a stream of frames\<close>

lemma direct_frames:
  assumes "\<And>m. m \<in> set ms \<Longrightarrow> P (message_frame m) \<Longrightarrow> target coalesce m = None"
  shows "filter P (c_frames (collected coalesce ms)) = filter P (map message_frame ms)
    \<and> (\<forall>e f. pend e (collected coalesce ms) = Some f \<longrightarrow> \<not> P f)"
  using assms
proof (induction ms rule: rev_induct)
  case Nil
  then show ?case by (simp add: collected_def) (simp add: collector_init_def)
next
  case (snoc m ms)
  let ?s = "collected coalesce ms"
  have IH: "filter P (c_frames ?s) = filter P (map message_frame ms)" "\<And>e f. pend e ?s = Some f \<Longrightarrow> \<not> P f"
    using snoc by auto
  show ?case
  proof (cases "target coalesce m")
    case (Some e)
    then have "\<not> P (message_frame m)" using snoc.prems by force
    then show ?thesis using IH Some by (auto simp: collected_snoc push_kept [OF Some])
  next
    case None
    from push_direct [OF collected_ok [of coalesce ms] None] obtain s0 s1 where
      s: "c_frames s0 = c_frames ?s" "\<And>e. pend e s0 = pend e ?s" "flushes s0 s1"
      "c_frames (batch_push coalesce ?s m) = c_frames s1 @ [message_frame m]"
      "\<And>e. pend e (batch_push coalesce ?s m) = pend e s1"
      by metis
    from s(3) obtain fs where fs: "c_frames s1 = c_frames s0 @ fs"
      "\<And>e P. only e P s0 \<Longrightarrow> filter P fs @ pend_list e P s1 = pend_list e P s0"
      by (auto simp: flushes_def)
    have np: "\<not> P f" if "pend e s0 = Some f" for e f using IH(2) s(2) that by simp
    then have "only EScreen P s0" by (auto simp: only_def)
    moreover have "pend_list EScreen P s0 = []" using np [of EScreen] by (simp add: pend_list_def split: option.splits)
    ultimately have "filter P fs = []" using fs(2) by fastforce
    moreover have "\<not> P f" if "pend e s1 = Some f" for e f
      using s(3) np that unfolding flushes_def by (metis option.distinct(1))
    ultimately show ?thesis using IH(1) s fs(1) by (auto simp: collected_snoc)
  qed
qed

text \<open>A stream whose frames all go to one entry: its pending frame follows the ones in the batch.\<close>

definition stream_of :: "entry \<Rightarrow> (bytes \<Rightarrow> bool) \<Rightarrow> collector \<Rightarrow> bytes list" where
  "stream_of e P s = filter P (c_frames s) @ pend_list e P s"

definition thins :: "bytes list \<Rightarrow> bytes list \<Rightarrow> bool" where
  "thins xs ys \<longleftrightarrow> subseq xs ys \<and> (ys \<noteq> [] \<longrightarrow> xs \<noteq> [] \<and> last xs = last ys)"

lemma thins_snoc: "subseq xs ys \<Longrightarrow> thins (xs @ [x]) (ys @ [x])"
  by (simp add: thins_def)

lemma stream_flushes:
  assumes "flushes s s'" and "only e P s"
  shows "stream_of e P s' = stream_of e P s"
  using assms by (auto simp: flushes_def stream_of_def)

lemma kept_frames:
  assumes "\<And>m. m \<in> set ms \<Longrightarrow> P (message_frame m) \<longleftrightarrow> target coalesce m = Some e"
  shows "only e P (collected coalesce ms)
    \<and> thins (stream_of e P (collected coalesce ms)) (filter P (map message_frame ms))"
  using assms
proof (induction ms rule: rev_induct)
  case Nil
  then show ?case by (simp add: collected_def only_def stream_of_def pend_list_def thins_def) (simp add: collector_init_def)
next
  case (snoc m ms)
  let ?s = "collected coalesce ms" and ?s' = "batch_push coalesce (collected coalesce ms) m"
  have IH: "only e P ?s" "thins (stream_of e P ?s) (filter P (map message_frame ms))"
    using snoc by auto
  have iff: "P (message_frame m) \<longleftrightarrow> target coalesce m = Some e" using snoc.prems by simp
  show ?case
  proof (cases "target coalesce m")
    case (Some e')
    note kept = push_kept [OF Some, where s = ?s]
    have on: "only e P ?s'" using IH(1) iff Some by (auto simp: only_def kept)
    show ?thesis
    proof (cases "e' = e")
      case True
      then have "stream_of e P ?s' = filter P (c_frames ?s) @ [message_frame m]"
        using iff Some by (simp add: stream_of_def pend_list_def kept)
      moreover have "subseq (filter P (c_frames ?s)) (filter P (map message_frame ms))"
        using IH(2) unfolding thins_def stream_of_def by (meson subseq_order.trans list_emb_append2 subseq_rev_drop_many subseq_order.refl)
      ultimately show ?thesis using on iff Some True by (simp add: collected_snoc thins_snoc)
    next
      case False
      then have "stream_of e P ?s' = stream_of e P ?s"
        by (simp add: stream_of_def pend_list_def kept)
      then show ?thesis using on iff Some False IH(2) by (simp add: collected_snoc)
    qed
  next
    case None
    from push_direct [OF collected_ok [of coalesce ms] None] obtain s0 s1 where
      s: "c_frames s0 = c_frames ?s" "\<And>e. pend e s0 = pend e ?s" "flushes s0 s1"
      "c_frames ?s' = c_frames s1 @ [message_frame m]"
      "\<And>e. pend e ?s' = pend e s1"
      by metis
    have o0: "only e P s0" using IH(1) s(2) by (simp add: only_def)
    have "stream_of e P s1 = stream_of e P s0" by (rule stream_flushes [OF s(3) o0])
    moreover have "stream_of e P s0 = stream_of e P ?s" using s(1,2) by (simp add: stream_of_def pend_list_def)
    moreover have np: "\<not> P (message_frame m)" using iff None by simp
    moreover have "stream_of e P ?s' = stream_of e P s1" using s(4,5) np by (simp add: stream_of_def pend_list_def)
    moreover have "only e P ?s'" using only_flushes [OF o0 s(3)] s(5) by (simp add: only_def)
    ultimately show ?thesis using IH(2) by (simp add: collected_snoc)
  qed
qed

lemma batch_frames:
  "ob_frames (collect_outbound_batch first queued coalesce) = c_frames (drained (collected coalesce (first # queued)))"
  by (simp add: collect_frames collected_def)

end
