(* ===== verification/BatcherSpec.thy ===== *)
theory BatcherSpec
  imports BatcherProps
begin

text \<open>
  The properties of the outbound batcher: nothing is invented and everything dropped is counted,
  replies keep their order, a coalesced stream ends with its latest frame, health frames overtake
  queued screen updates, and what the writer loop puts on the wire. The last property is about
  pane updates queued across a change of focus.
\<close>

section \<open>Frames only grow\<close>

lemma flushes_prefix: "flushes s s' \<Longrightarrow> prefix (c_frames s) (c_frames s')"
  by (auto simp: flushes_def)

lemma push_prefix:
  assumes "collector_ok s"
  shows "prefix (c_frames s) (c_frames (batch_push coalesce s m))"
proof (cases "target coalesce m")
  case None
  from push_direct [OF assms None] obtain s0 s1 where
    s: "c_frames s0 = c_frames s" "flushes s0 s1"
    "c_frames (batch_push coalesce s m) = c_frames s1 @ [message_frame m]"
    by metis
  show ?thesis using flushes_prefix [OF s(2)] s(1,3) by (simp add: prefix_def) force
next
  case (Some e)
  then show ?thesis using push_kept(1) [OF Some, of s] by simp
qed

lemma collected_prefix: "prefix (c_frames (collected coalesce ms)) (c_frames (collected coalesce (ms @ ms')))"
proof (induction ms' rule: rev_induct)
  case (snoc m ms')
  have "prefix (c_frames (collected coalesce (ms @ ms'))) (c_frames (collected coalesce ((ms @ ms') @ [m])))"
    unfolding collected_snoc by (rule push_prefix [OF collected_ok])
  with snoc.IH show ?case by (metis append_assoc prefix_order.trans)
qed simp

text \<open>Before anything but control frames and priority frames has been emitted.\<close>

lemma frames_of_replies:
  assumes "\<And>m. m \<in> set ms \<Longrightarrow> target coalesce m = None \<Longrightarrow> \<exists>g. m = Frame g \<and> priority_frame g"
  shows "(\<forall>x \<in> set (c_frames (collected coalesce ms)). Frame x \<in> set ms)
    \<and> (\<forall>k x. pof_slot k (pending_control (collected coalesce ms)) = Some x \<longrightarrow> Frame x \<in> set ms)"
  using assms
proof (induction ms rule: rev_induct)
  case Nil
  then show ?case by (simp add: collected_def) (simp add: collector_init_def)
next
  case (snoc m ms)
  let ?s = "collected coalesce ms"
  have IH: "\<forall>x \<in> set (c_frames ?s). Frame x \<in> set ms"
    "\<forall>k x. pof_slot k (pending_control ?s) = Some x \<longrightarrow> Frame x \<in> set ms"
    using snoc by auto
  show ?case
  proof (cases "target coalesce m")
    case (Some e)
    have "pof_slot k (pending_control (batch_push coalesce ?s m)) = Some x \<Longrightarrow> Frame x \<in> set (ms @ [m])" for k x
      using IH(2) Some push_kept(2) [OF Some, where s = ?s and e' = "EControl k"]
      by (cases m) (auto split: if_splits)
    then show ?thesis using IH(1) push_kept(1) [OF Some, of ?s] by (auto simp: collected_snoc)
  next
    case None
    then obtain g where g: "m = Frame g" "priority_frame g" "coalescible_frame_kind g = None"
      using snoc.prems [of m] by auto
    have ok: "pof_ok (pending_control ?s)" using collected_ok by (simp add: collector_ok_def)
    have "x \<in> set (pof_list (pending_control ?s)) \<Longrightarrow> Frame x \<in> set ms" for x
      using IH(2) ok by (auto simp: pof_list_def dest: pof_ok_slot)
    then show ?thesis using IH(1) g ok
      by (auto simp: collected_snoc Let_def flush_control_def push_frame_def pof_take_all_eq)
  qed
qed

lemma priority_not_coalescible: "priority_frame f \<Longrightarrow> coalescible_frame_kind f = None"
  by (auto simp: priority_frame_def coalescible_frame_kind_def split: option.splits message_type.splits)

section \<open>Properties\<close>

text \<open>C31: Every frame of a batch is the frame of a message that was queued, each message
  contributes at most one frame, and the frames that are missing are exactly counted by the three
  coalescing counters of the batch.\<close>

theorem batch_accounts:
  "ob_message_count (collect_outbound_batch first queued coalesce) = Suc (length queued)
    \<and> (\<exists>lost. mset (map message_frame (first # queued))
          = mset (ob_frames (collect_outbound_batch first queued coalesce)) + lost
        \<and> size lost = ob_coalesced_screen_updates (collect_outbound_batch first queued coalesce)
            + ob_coalesced_pane_updates (collect_outbound_batch first queued coalesce)
            + ob_coalesced_control_frames (collect_outbound_batch first queued coalesce))"
  by (rule batch_accounts_aux [OF refl])

text \<open>C32: Frames that are never coalesced (replies, errors, acknowledgements, and every screen and
  passive pane update when coalescing is off) are all in the batch, in the order in which they were
  queued, whatever is queued between them.\<close>

theorem batch_keeps_replies:
  assumes "\<forall>m \<in> set (first # queued). P (message_frame m) \<longrightarrow> target coalesce m = None"
  shows "filter P (ob_frames (collect_outbound_batch first queued coalesce))
    = filter P (map message_frame (first # queued))"
proof -
  let ?s = "collected coalesce (first # queued)"
  have d: "filter P (c_frames ?s) = filter P (map message_frame (first # queued))"
    and n: "\<And>e f. pend e ?s = Some f \<Longrightarrow> \<not> P f"
    using direct_frames [of "first # queued" P coalesce] assms by auto
  have o: "only EScreen P ?s" using n by (auto simp: only_def)
  have "stream_of EScreen P (drained ?s) = stream_of EScreen P ?s"
    by (rule stream_flushes [OF flushes_drained [OF collected_ok] o])
  moreover have "pend_list EScreen P ?s = []" using n [of EScreen] by (simp add: pend_list_def split: option.splits)
  moreover have "pend_list EScreen P (drained ?s) = []" by (simp add: pend_list_def drained_empty [OF collected_ok])
  ultimately show ?thesis using d by (simp add: stream_of_def batch_frames)
qed

lemma batch_keeps_replies_witness:
  "filter (\<lambda>f. frame_type f = Some MsgHeartbeatAck)
     (ob_frames (collect_outbound_batch (ScreenUpdate [1]) [Frame [0x47, 0x53, 0x92, 1], PaneUpdate 3 True [2],
        Frame [0x47, 0x53, 0x92, 2]] True)) = [[0x47, 0x53, 0x92, 1], [0x47, 0x53, 0x92, 2]]"
  using batch_keeps_replies [of "ScreenUpdate [1]" "[Frame [0x47, 0x53, 0x92, 1], PaneUpdate 3 True [2],
        Frame [0x47, 0x53, 0x92, 2]]" "\<lambda>f. frame_type f = Some MsgHeartbeatAck" True]
  by (simp add: frame_type_def message_try_from_def coalescible_frame_kind_def)

text \<open>C33: For a stream of frames that is coalesced (one kind of control frame, the screen, one
  focused pane or one passive pane), the batch has a subsequence of the queued frames of the stream
  that ends with the latest one: older frames may be dropped, the latest one never is and nothing of
  the stream comes after it.\<close>

theorem batch_ends_with_latest:
  assumes "\<forall>m \<in> set (first # queued). P (message_frame m) \<longleftrightarrow> target coalesce m = Some e"
  shows "thins (filter P (ob_frames (collect_outbound_batch first queued coalesce)))
    (filter P (map message_frame (first # queued)))"
proof -
  let ?s = "collected coalesce (first # queued)"
  have k: "only e P ?s" "thins (stream_of e P ?s) (filter P (map message_frame (first # queued)))"
    using kept_frames [of "first # queued" P coalesce e] assms by auto
  have "stream_of e P (drained ?s) = stream_of e P ?s"
    by (rule stream_flushes [OF flushes_drained [OF collected_ok] k(1)])
  moreover have "stream_of e P (drained ?s) = filter P (c_frames (drained ?s))"
    by (simp add: stream_of_def pend_list_def drained_empty [OF collected_ok])
  ultimately show ?thesis using k(2) by (simp add: batch_frames)
qed

lemma batch_ends_with_latest_witness:
  "thins (filter (\<lambda>f. f \<in> {[1], [2]}) (ob_frames (collect_outbound_batch (ScreenUpdate [1])
     [Frame [9], ScreenUpdate [2], PaneUpdate 3 True [7]] True))) [[1], [2]]"
  using batch_ends_with_latest [of "ScreenUpdate [1]" "[Frame [9], ScreenUpdate [2], PaneUpdate 3 True [7]]"
     "\<lambda>f. f \<in> {[1], [2]}" True EScreen]
  by (simp add: frame_type_def coalescible_frame_kind_def)

text \<open>A health or handshake frame (an authentication reply, an error, a heartbeat
  acknowledgement, a created tab) waits for no screen or pane update that is still pending: when the
  messages queued before it hold only updates that are kept back and other frames of that class,
  everything written before it is the frame of a plain message.\<close>

theorem priority_overtakes:
  assumes "first # queued = pre @ Frame f # post" and "priority_frame f"
    and "\<forall>m \<in> set pre. target coalesce m = None \<longrightarrow> (\<exists>g. m = Frame g \<and> priority_frame g)"
  shows "\<exists>xs ys. ob_frames (collect_outbound_batch first queued coalesce) = xs @ f # ys
    \<and> (\<forall>x \<in> set xs. Frame x \<in> set pre)"
proof -
  let ?s = "collected coalesce pre"
  let ?xs = "c_frames ?s @ pof_list (pending_control ?s)"
  have ok: "pof_ok (pending_control ?s)" using collected_ok by (simp add: collector_ok_def)
  have f: "c_frames (collected coalesce (pre @ [Frame f])) = ?xs @ [f]"
    using assms(2) priority_not_coalescible [OF assms(2)] ok
    by (simp add: collected_snoc Let_def flush_control_def push_frame_def pof_take_all_eq)
  have "prefix (?xs @ [f]) (c_frames (collected coalesce ((pre @ [Frame f]) @ post)))"
    using collected_prefix [of coalesce "pre @ [Frame f]" post] unfolding f .
  also have "(pre @ [Frame f]) @ post = first # queued" using assms(1) by simp
  also have "prefix (c_frames (collected coalesce (first # queued)))
      (ob_frames (collect_outbound_batch first queued coalesce))"
    unfolding batch_frames by (rule flushes_prefix [OF flushes_drained [OF collected_ok]])
  finally obtain ys where "ob_frames (collect_outbound_batch first queued coalesce) = ?xs @ f # ys"
    by (auto simp: prefix_def)
  moreover have "\<forall>x \<in> set ?xs. Frame x \<in> set pre"
    using frames_of_replies [of pre coalesce] assms(3) ok by (auto simp: pof_list_def dest: pof_ok_slot)
  ultimately show ?thesis by blast
qed

lemma priority_overtakes_witness:
  "\<exists>xs ys. ob_frames (collect_outbound_batch (ScreenUpdate [1]) [PaneUpdate 3 False [2],
       Frame [0x47, 0x53, 0x92]] True) = xs @ [0x47, 0x53, 0x92] # ys
    \<and> (\<forall>x \<in> set xs. Frame x \<in> set [ScreenUpdate [1], PaneUpdate 3 False [2]])"
  by (rule priority_overtakes [where post = "[]"])
     (simp_all add: priority_frame_def frame_type_def message_try_from_def)

text \<open>When a pane gets the focus while an update of it is still queued, the batch writes the
  newer update of that pane before the older one, so the client ends with the older content; the
  frames of one pane are ordered only while its focus does not change.\<close>

theorem focus_change_reorders:
  "ob_frames (collect_outbound_batch (PaneUpdate pane_id False older) [PaneUpdate pane_id True newer] True)
    = [newer, older]"
  by (simp add: collect_outbound_batch_def finish_batch_def collector_init_def flush_control_def
      flush_focused_def flush_screen_def flush_passive_def pof_take_all_def ppf_take_all_def ppf_set_def
      pof_default_def ppf_default_def Let_def)

section \<open>The writer loop\<close>

text \<open>The frames that the loop hands to the stream when nothing fails.\<close>

function batch_stream :: "outbound_message list \<Rightarrow> nat list \<Rightarrow> bool \<Rightarrow> bool \<Rightarrow> bytes list" where
  "batch_stream [] ready coalesce batching = []"
| "batch_stream (message # rx) ready coalesce batching =
     (let n = (if batching then (case ready of k # _ \<Rightarrow> k | [] \<Rightarrow> 0) else 0)
      in (if batching then ob_frames (collect_outbound_batch message (take n rx) coalesce)
          else [message_frame message]) @ batch_stream (drop n rx) (tl ready) coalesce batching)"
  by pat_completeness auto
termination by (relation "measure (\<lambda>(rx, _). length rx)") auto

lemma batch_stream_single: "batch_stream rx ready coalesce False = map message_frame rx"
  by (induction rx arbitrary: ready) (simp_all add: Let_def)

lemma write_all_prefix:
  "write_all fr s = (ok, s') \<Longrightarrow> prefix (written s) (written s') \<and> prefix (written s') (written s @ fr)
     \<and> (ok \<longrightarrow> written s' = written s @ fr) \<and> (outcomes s = [] \<longrightarrow> ok \<and> outcomes s' = [])"
  by (auto simp: write_all_def take_is_prefix split: list.splits option.splits)

lemma write_frames_prefix:
  "write_frames frs s = (ok, s') \<Longrightarrow> prefix (written s) (written s') \<and> prefix (written s') (written s @ concat frs)
     \<and> (ok \<longrightarrow> written s' = written s @ concat frs) \<and> (outcomes s = [] \<longrightarrow> ok \<and> outcomes s' = [])"
proof (induction frs arbitrary: s)
  case (Cons fr frs)
  obtain ok1 s1 where w: "write_all fr s = (ok1, s1)" by fastforce
  note w1 = write_all_prefix [OF w]
  show ?case
  proof (cases ok1)
    case True
    then have "write_frames frs s1 = (ok, s')" using Cons.prems w by simp
    from Cons.IH [OF this] w1 True show ?thesis by (auto simp: prefix_def)
  next
    case False
    then have "ok = False" "s' = s1" using Cons.prems w by simp_all
    then show ?thesis using w1 False by (auto simp: prefix_def)
  qed
qed simp

text \<open>C34: Whatever the socket does, the bytes the writer loop puts on the wire are a prefix of the
  concatenated frames of its batches, so a failing write never splices two frames together; if
  nothing fails they are all of them. With batching off, as for clients on the local socket, that is
  every queued frame once and in order.\<close>

theorem writer_prefix:
  "prefix (written (writer_loop stream rx ready coalesce batching))
      (written stream @ concat (batch_stream rx ready coalesce batching))
   \<and> (outcomes stream = [] \<longrightarrow> written (writer_loop stream rx ready coalesce batching)
        = written stream @ concat (batch_stream rx ready coalesce batching))
   \<and> batch_stream rx ready coalesce False = map message_frame rx"
proof -
  have "prefix (written (writer_loop stream rx ready coalesce batching))
      (written stream @ concat (batch_stream rx ready coalesce batching))
   \<and> (outcomes stream = [] \<longrightarrow> written (writer_loop stream rx ready coalesce batching)
        = written stream @ concat (batch_stream rx ready coalesce batching))"
  proof (induction rx ready coalesce batching arbitrary: stream rule: batch_stream.induct)
    case (2 message rx ready coalesce batching)
    define n where "n = (if batching then (case ready of k # _ \<Rightarrow> k | [] \<Rightarrow> 0) else 0)"
    define frs where "frs = (if batching then ob_frames (collect_outbound_batch message (take n rx) coalesce)
          else [message_frame message])"
    obtain ok1 s1 where w: "write_frames frs stream = (ok1, s1)" by fastforce
    obtain ok2 s2 where f: "flush_stream s1 = (ok2, s2)" by fastforce
    have st: "batch_stream (message # rx) ready coalesce batching
        = frs @ batch_stream (drop n rx) (tl ready) coalesce batching"
      by (simp add: n_def frs_def Let_def)
    have wl: "writer_loop stream (message # rx) ready coalesce batching
        = (if \<not> ok1 then s1 else if \<not> ok2 then s2
           else writer_loop s2 (drop n rx) (tl ready) coalesce batching)"
      using w f by (simp add: n_def frs_def Let_def collect_single_outbound_message_def split: if_splits)
    note w1 = write_frames_prefix [OF w] and f1 = write_all_prefix [OF f [unfolded flush_stream_def]]
    have IH: "prefix (written (writer_loop s2 (drop n rx) (tl ready) coalesce batching))
      (written s2 @ concat (batch_stream (drop n rx) (tl ready) coalesce batching))
     \<and> (outcomes s2 = [] \<longrightarrow> written (writer_loop s2 (drop n rx) (tl ready) coalesce batching)
        = written s2 @ concat (batch_stream (drop n rx) (tl ready) coalesce batching))"
      using "2.IH" n_def by blast
    have longer: "prefix x (written stream @ concat (frs @ rest))"
      if "prefix x (written stream @ concat frs)" for x rest
      using prefix_prefix [OF that, of "concat rest"] by simp
    consider (first) "\<not> ok1" | (flush) "ok1" "\<not> ok2" | (both) "ok1" "ok2" by blast
    then show ?case
    proof cases
      case first
      then show ?thesis using w1 longer unfolding st wl by simp
    next
      case flush
      then have "prefix (written s2) (written stream @ concat frs)" using w1 f1 by simp
      then show ?thesis using flush w1 f1 longer unfolding st wl by auto
    next
      case both
      then have "written s2 = written stream @ concat frs" using w1 f1 by simp
      moreover have "outcomes stream = [] \<longrightarrow> outcomes s2 = []" using w1 f1 by blast
      ultimately show ?thesis using both IH unfolding st wl by simp
    qed
  qed simp
  then show ?thesis using batch_stream_single by blast
qed

lemma writer_prefix_witness:
  "prefix (written (writer_loop \<lparr>written = [], outcomes = [None, None, Some 1]\<rparr>
       [Frame [1, 2], Frame [3, 4], Frame [5]] [] False False)) [1, 2, 3, 4, 5]
    \<and> written (writer_loop \<lparr>written = [], outcomes = []\<rparr> [Frame [1, 2], Frame [3, 4], Frame [5]] [] False False)
        = [1, 2, 3, 4, 5]"
  using writer_prefix [of "\<lparr>written = [], outcomes = [None, None, Some 1]\<rparr>" "[Frame [1, 2], Frame [3, 4], Frame [5]]"
      "[]" False False]
    writer_prefix [of "\<lparr>written = [], outcomes = []\<rparr>" "[Frame [1, 2], Frame [3, 4], Frame [5]]" "[]" False False]
  by simp

end
