(* ===== verification/RemoteState.thy ===== *)
theory RemoteState
  imports Batcher WireState
begin

text \<open>
  The state that the daemon keeps per connection and the operations on it: the runtime view of a
  client (\<open>src/remote_state.rs\<close>), the screens published to it (\<open>src/remote_server_stream.rs\<close>), the
  cached control payloads (\<open>src/remote_server_control.rs\<close>), the sets of clients a broadcast goes to
  (\<open>src/remote_server_targets.rs\<close>) and the methods of \<open>RemoteServer\<close> (\<open>src/remote.rs\<close>).

  A client's end of its channel is the list of the messages sent to it so far. Instants are
  milliseconds. A hash map is a map; where the source iterates over one, the order of its keys is an
  argument \<open>order\<close>, a list of client identifiers.
\<close>

section \<open>The runtime view of a client\<close>

type_synonym instant = nat

record client_runtime_view =
  view_id :: u64
  subscribed_to_runtime :: bool
  view_revision :: u64
  viewed_tab_id :: "u32 option"
  focused_pane_id :: "u64 option"
  viewport_cols :: "u16 option"
  viewport_rows :: "u16 option"
  visible_pane_ids :: "u64 list"
  ui_attached :: bool
  detached_at :: "instant option"
  acked_client_action_id :: "u64 option"
  last_render_ack_at :: "instant option"
  last_rendered_pane_id :: "u64 option"
  last_rendered_pane_revision :: "u64 option"
  last_rendered_runtime_revision :: "u64 option"
  scroll_offset_rows :: i64
  copy_mode_active :: bool
  search_active :: bool
  search_query :: rust_string
  last_tab_list_payload :: "bytes option"
  last_ui_runtime_state_payload :: "bytes option"
  last_ui_appearance_payload :: "bytes option"
  last_state :: "remote_full_state option"
  pane_states :: "u64 \<rightharpoonup> remote_full_state"
  latest_input_seq :: "u64 option"

definition view_idle :: client_runtime_view where
  "view_idle = \<lparr>view_id = 0, subscribed_to_runtime = False, view_revision = 1, viewed_tab_id = None,
     focused_pane_id = None, viewport_cols = None, viewport_rows = None, visible_pane_ids = [],
     ui_attached = True, detached_at = None, acked_client_action_id = None, last_render_ack_at = None,
     last_rendered_pane_id = None, last_rendered_pane_revision = None,
     last_rendered_runtime_revision = None, scroll_offset_rows = 0, copy_mode_active = False,
     search_active = False, search_query = [], last_tab_list_payload = None,
     last_ui_runtime_state_payload = None, last_ui_appearance_payload = None, last_state = None,
     pane_states = Map.empty, latest_input_seq = None\<rparr>"

definition clear_stream_state :: "client_runtime_view \<Rightarrow> client_runtime_view" where
  "clear_stream_state v = v\<lparr>last_state := None, pane_states := Map.empty, latest_input_seq := None\<rparr>"

definition touch_view :: "client_runtime_view \<Rightarrow> client_runtime_view" where
  "touch_view v = clear_stream_state (v\<lparr>view_revision := max (view_revision v + 1) 1\<rparr>)"

definition attach_ui :: "client_runtime_view \<Rightarrow> client_runtime_view" where
  "attach_ui v = touch_view (v\<lparr>ui_attached := True, detached_at := None\<rparr>)"

definition detach_ui :: "instant \<Rightarrow> client_runtime_view \<Rightarrow> client_runtime_view" where
  "detach_ui now v = touch_view (v\<lparr>ui_attached := False, detached_at := Some now\<rparr>)"

section \<open>Clients and the shared state\<close>

record client_state =
  outbound :: "outbound_message list"
  authenticated :: bool
  connected_at :: instant
  authenticated_at :: "instant option"
  last_heartbeat_at :: "instant option"
  runtime_view :: client_runtime_view
  is_local :: bool

record remote_state =
  clients :: "u64 \<rightharpoonup> client_state"
  server_instance_id :: rust_string

text \<open>\<open>outbound.send(message)\<close>\<close>

definition send_outbound :: "outbound_message \<Rightarrow> client_state \<Rightarrow> client_state" where
  "send_outbound message c = c\<lparr>outbound := outbound c @ [message]\<rparr>"

definition update_client :: "u64 \<Rightarrow> (client_state \<Rightarrow> client_state) \<Rightarrow> remote_state \<Rightarrow> remote_state" where
  "update_client client_id update st =
     (case clients st client_id of
        Some c \<Rightarrow> st\<lparr>clients := (clients st)(client_id \<mapsto> update c)\<rparr>
      | None \<Rightarrow> st)"

definition update_client_view ::
  "u64 \<Rightarrow> (client_runtime_view \<Rightarrow> client_runtime_view) \<Rightarrow> remote_state \<Rightarrow> remote_state" where
  "update_client_view client_id update st =
     update_client client_id (\<lambda>c. c\<lparr>runtime_view := update (runtime_view c)\<rparr>) st"

definition AUTH_CHALLENGE_WINDOW :: instant where "AUTH_CHALLENGE_WINDOW = 30000"
definition DIRECT_CLIENT_HEARTBEAT_WINDOW :: instant where "DIRECT_CLIENT_HEARTBEAT_WINDOW = 20000"
definition VIEW_IDLE_TIMEOUT :: instant where "VIEW_IDLE_TIMEOUT = 30000"

datatype disconnect_reason = HeartbeatTimeoutReason | AuthTimeoutReason

text \<open>\<open>saturating_duration_since\<close> is the subtraction of \<open>nat\<close>.\<close>

definition should_disconnect_idle_client ::
  "remote_state \<Rightarrow> u64 \<Rightarrow> instant \<Rightarrow> instant \<Rightarrow> instant \<Rightarrow> disconnect_reason option" where
  "should_disconnect_idle_client st client_id auth_challenge_window heartbeat_window now =
     (case clients st client_id of
        None \<Rightarrow> None
      | Some client \<Rightarrow>
          if authenticated client then
            if is_local client then None
            else (case (case last_heartbeat_at client of Some t \<Rightarrow> Some t | None \<Rightarrow> authenticated_at client) of
                    None \<Rightarrow> None
                  | Some last_liveness \<Rightarrow>
                      if now - last_liveness > heartbeat_window then Some HeartbeatTimeoutReason else None)
          else if now - connected_at client > auth_challenge_window then Some AuthTimeoutReason
          else None)"

definition send_direct_frame :: "u64 \<Rightarrow> message_type \<Rightarrow> bytes \<Rightarrow> remote_state \<Rightarrow> remote_state" where
  "send_direct_frame client_id ty payload st =
     update_client client_id (send_outbound (Frame (encode_message ty payload))) st"

definition send_direct_error :: "u64 \<Rightarrow> remote_error_code \<Rightarrow> rust_string \<Rightarrow> remote_state \<Rightarrow> remote_state" where
  "send_direct_error client_id code message st =
     send_direct_frame client_id MsgErrorMsg (encode_error_payload code message) st"

section \<open>Publishing screens\<close>

text \<open>
  Both functions lock the state twice: once to read what was sent last and once to record what is
  sent now. Each lock is a definition of its own; the first returns what the second needs. \<open>None\<close> is
  a panic of the encoder.
\<close>

record publish_input =
  pi_previous :: "remote_full_state option"
  pi_input_seq :: "u64 option"
  pi_local :: bool
  pi_focused :: bool

definition read_publish_state :: "remote_state \<Rightarrow> u64 \<Rightarrow> publish_input option" where
  "read_publish_state st client_id =
     (case clients st client_id of
        None \<Rightarrow> None
      | Some client \<Rightarrow>
          if \<not> subscribed_to_runtime (runtime_view client) then None
          else Some \<lparr>pi_previous = last_state (runtime_view client),
                     pi_input_seq = latest_input_seq (runtime_view client),
                     pi_local = is_local client, pi_focused = False\<rparr>)"

text \<open>The message type and payload: a delta when the encoder gives one, else the full state.\<close>

definition encode_publish ::
  "message_type \<Rightarrow> message_type \<Rightarrow> remote_full_state option \<Rightarrow> remote_full_state \<Rightarrow> u64 option \<Rightarrow> bool
     \<Rightarrow> (message_type \<times> bytes) option" where
  "encode_publish delta_ty full_ty previous next_state input_seq local =
     (case previous of
        None \<Rightarrow> Some (full_ty, encode_full_state next_state input_seq local)
      | Some prev \<Rightarrow>
          (case encode_delta prev next_state input_seq local of
             None \<Rightarrow> None
           | Some (Some delta) \<Rightarrow> Some (delta_ty, delta)
           | Some None \<Rightarrow> Some (full_ty, encode_full_state next_state input_seq local)))"

definition commit_state ::
  "u64 \<Rightarrow> remote_full_state \<Rightarrow> message_type \<Rightarrow> bytes \<Rightarrow> remote_state \<Rightarrow> remote_state" where
  "commit_state client_id next_state ty payload st =
     (case clients st client_id of
        None \<Rightarrow> st
      | Some client \<Rightarrow>
          if \<not> subscribed_to_runtime (runtime_view client) then st
          else update_client client_id
                 (\<lambda>c. send_outbound (ScreenUpdate (encode_message ty payload))
                        (c\<lparr>runtime_view := (runtime_view c)\<lparr>last_state := Some next_state\<rparr>\<rparr>)) st)"

definition send_state_to_client :: "u64 \<Rightarrow> remote_full_state \<Rightarrow> remote_state \<Rightarrow> remote_state option" where
  "send_state_to_client client_id next_state st =
     (case read_publish_state st client_id of
        None \<Rightarrow> Some st
      | Some p \<Rightarrow>
          (case encode_publish MsgDelta MsgFullState (pi_previous p) next_state (pi_input_seq p) (pi_local p) of
             None \<Rightarrow> None
           | Some (ty, payload) \<Rightarrow> Some (commit_state client_id next_state ty payload st)))"

definition read_publish_pane :: "remote_state \<Rightarrow> u64 \<Rightarrow> u64 \<Rightarrow> publish_input option" where
  "read_publish_pane st client_id pane_id =
     (case clients st client_id of
        None \<Rightarrow> None
      | Some client \<Rightarrow>
          if \<not> subscribed_to_runtime (runtime_view client) then None
          else Some \<lparr>pi_previous = pane_states (runtime_view client) pane_id, pi_input_seq = None,
                     pi_local = True, pi_focused = (focused_pane_id (runtime_view client) = Some pane_id)\<rparr>)"

definition commit_pane_state ::
  "u64 \<Rightarrow> u32 \<Rightarrow> u64 \<Rightarrow> u64 \<Rightarrow> u64 \<Rightarrow> remote_full_state \<Rightarrow> bool \<Rightarrow> message_type \<Rightarrow> bytes \<Rightarrow> remote_state \<Rightarrow> remote_state" where
  "commit_pane_state client_id tab_id pane_id pane_revision runtime_revision next_state focused ty payload st =
     (case clients st client_id of
        None \<Rightarrow> st
      | Some client \<Rightarrow>
          if \<not> subscribed_to_runtime (runtime_view client) then st
          else update_client client_id
                 (\<lambda>c. send_outbound
                        (PaneUpdate pane_id focused
                          (encode_message ty
                            (encode_ui_pane_update_payload tab_id pane_id pane_revision runtime_revision payload)))
                        (c\<lparr>runtime_view := (runtime_view c)\<lparr>pane_states :=
                            (pane_states (runtime_view c))(pane_id \<mapsto> next_state)\<rparr>\<rparr>)) st)"

definition send_pane_state_to_client ::
  "u64 \<Rightarrow> u32 \<Rightarrow> u64 \<Rightarrow> u64 \<Rightarrow> u64 \<Rightarrow> remote_full_state \<Rightarrow> remote_state \<Rightarrow> remote_state option" where
  "send_pane_state_to_client client_id tab_id pane_id pane_revision runtime_revision next_state st =
     (case read_publish_pane st client_id pane_id of
        None \<Rightarrow> Some st
      | Some p \<Rightarrow>
          (case encode_publish MsgUiPaneDelta MsgUiPaneFullState (pi_previous p) next_state None True of
             None \<Rightarrow> None
           | Some (ty, payload) \<Rightarrow>
               Some (commit_pane_state client_id tab_id pane_id pane_revision runtime_revision next_state
                       (pi_focused p) ty payload st)))"

section \<open>Targets of a broadcast\<close>

definition client_ids_where :: "(client_state \<Rightarrow> bool) \<Rightarrow> u64 list \<Rightarrow> remote_state \<Rightarrow> u64 list" where
  "client_ids_where P order st =
     filter (\<lambda>client_id. case clients st client_id of Some client \<Rightarrow> P client | None \<Rightarrow> False) order"

definition local_viewer_client_ids :: "u64 list \<Rightarrow> remote_state \<Rightarrow> u64 list" where
  "local_viewer_client_ids order st =
     client_ids_where (\<lambda>client. is_local client \<and> subscribed_to_runtime (runtime_view client)) order st"

definition local_client_ids :: "u64 list \<Rightarrow> remote_state \<Rightarrow> u64 list" where
  "local_client_ids order st = client_ids_where is_local order st"

definition viewer_client_ids :: "u64 list \<Rightarrow> remote_state \<Rightarrow> u64 list" where
  "viewer_client_ids order st =
     client_ids_where (\<lambda>client. subscribed_to_runtime (runtime_view client)) order st"

text \<open>A loop over \<open>values_mut()\<close>: every client is visited once.\<close>

definition update_all_clients :: "(client_state \<Rightarrow> client_state) \<Rightarrow> remote_state \<Rightarrow> remote_state" where
  "update_all_clients update st = st\<lparr>clients := (\<lambda>i. map_option update (clients st i))\<rparr>"

definition retain_local_viewer_pane_states :: "u64 list \<Rightarrow> remote_state \<Rightarrow> remote_state" where
  "retain_local_viewer_pane_states visible st =
     update_all_clients (\<lambda>client.
       if is_local client \<and> subscribed_to_runtime (runtime_view client)
       then client\<lparr>runtime_view := (runtime_view client)\<lparr>pane_states :=
              pane_states (runtime_view client) |` set visible\<rparr>\<rparr>
       else client) st"

section \<open>Cached control payloads\<close>

datatype cached_control_payload = CacheTabList | CacheUiRuntimeState | CacheUiAppearance

fun cache_slot :: "cached_control_payload \<Rightarrow> client_runtime_view \<Rightarrow> bytes option" where
  "cache_slot CacheTabList v = last_tab_list_payload v"
| "cache_slot CacheUiRuntimeState v = last_ui_runtime_state_payload v"
| "cache_slot CacheUiAppearance v = last_ui_appearance_payload v"

fun set_cache_slot :: "cached_control_payload \<Rightarrow> bytes \<Rightarrow> client_runtime_view \<Rightarrow> client_runtime_view" where
  "set_cache_slot CacheTabList payload v = v\<lparr>last_tab_list_payload := Some payload\<rparr>"
| "set_cache_slot CacheUiRuntimeState payload v = v\<lparr>last_ui_runtime_state_payload := Some payload\<rparr>"
| "set_cache_slot CacheUiAppearance payload v = v\<lparr>last_ui_appearance_payload := Some payload\<rparr>"

definition send_cached_control_payload_bytes ::
  "u64 \<Rightarrow> message_type \<Rightarrow> bytes \<Rightarrow> cached_control_payload \<Rightarrow> remote_state \<Rightarrow> remote_state" where
  "send_cached_control_payload_bytes client_id ty payload slot st =
     (case clients st client_id of
        None \<Rightarrow> st
      | Some client \<Rightarrow>
          if cache_slot slot (runtime_view client) = Some payload then st
          else update_client client_id
                 (\<lambda>c. send_outbound (Frame (encode_message ty payload))
                        (c\<lparr>runtime_view := set_cache_slot slot payload (runtime_view c)\<rparr>)) st)"

definition send_tab_list :: "u64 \<Rightarrow> remote_tab_info list \<Rightarrow> remote_state \<Rightarrow> remote_state" where
  "send_tab_list client_id tabs st =
     send_cached_control_payload_bytes client_id MsgTabList (encode_tab_list tabs) CacheTabList st"

definition reply_tab_list :: "u64 \<Rightarrow> remote_tab_info list \<Rightarrow> remote_state \<Rightarrow> remote_state" where
  "reply_tab_list client_id tabs st =
     update_client client_id (send_outbound (Frame (encode_message MsgTabList (encode_tab_list tabs)))) st"

text \<open>A broadcast: one operation for every client of a list, in order.\<close>

definition send_each :: "(u64 \<Rightarrow> remote_state \<Rightarrow> remote_state) \<Rightarrow> u64 list \<Rightarrow> remote_state \<Rightarrow> remote_state" where
  "send_each send client_ids st = foldl (\<lambda>s client_id. send client_id s) st client_ids"

definition send_tab_list_to_local_clients :: "u64 list \<Rightarrow> remote_tab_info list \<Rightarrow> remote_state \<Rightarrow> remote_state" where
  "send_tab_list_to_local_clients order tabs st =
     send_each (\<lambda>client_id. send_cached_control_payload_bytes client_id MsgTabList (encode_tab_list tabs) CacheTabList)
       (local_client_ids order st) st"

definition send_tab_list_to_viewers :: "u64 list \<Rightarrow> remote_tab_info list \<Rightarrow> remote_state \<Rightarrow> remote_state" where
  "send_tab_list_to_viewers order tabs st =
     send_each (\<lambda>client_id. send_tab_list client_id tabs) (viewer_client_ids order st) st"

text \<open>
  Runtime states and appearances are serialised by \<open>serde_json\<close>; the argument \<open>payload\<close> is its
  result, \<open>None\<close> when it fails.
\<close>

definition send_ui_runtime_state :: "u64 \<Rightarrow> bytes option \<Rightarrow> remote_state \<Rightarrow> remote_state" where
  "send_ui_runtime_state client_id payload st =
     (case payload of
        None \<Rightarrow> st
      | Some p \<Rightarrow> send_cached_control_payload_bytes client_id MsgUiRuntimeState p CacheUiRuntimeState st)"

definition send_ui_runtime_state_to_local_viewers :: "u64 list \<Rightarrow> bytes option \<Rightarrow> remote_state \<Rightarrow> remote_state" where
  "send_ui_runtime_state_to_local_viewers order payload st =
     (case payload of
        None \<Rightarrow> st
      | Some p \<Rightarrow>
          send_each (\<lambda>client_id. send_cached_control_payload_bytes client_id MsgUiRuntimeState p CacheUiRuntimeState)
            (local_viewer_client_ids order st) st)"

definition send_ui_runtime_state_to_viewers :: "u64 list \<Rightarrow> bytes option \<Rightarrow> remote_state \<Rightarrow> remote_state" where
  "send_ui_runtime_state_to_viewers order payload st =
     send_each (\<lambda>client_id. send_ui_runtime_state client_id payload) (viewer_client_ids order st) st"

definition send_ui_appearance :: "u64 \<Rightarrow> bytes option \<Rightarrow> remote_state \<Rightarrow> remote_state" where
  "send_ui_appearance client_id payload st =
     (case payload of
        None \<Rightarrow> st
      | Some p \<Rightarrow> send_cached_control_payload_bytes client_id MsgUiAppearance p CacheUiAppearance st)"

definition send_ui_appearance_to_local_clients :: "u64 list \<Rightarrow> bytes option \<Rightarrow> remote_state \<Rightarrow> remote_state" where
  "send_ui_appearance_to_local_clients order payload st =
     (case payload of
        None \<Rightarrow> st
      | Some p \<Rightarrow>
          send_each (\<lambda>client_id. send_cached_control_payload_bytes client_id MsgUiAppearance p CacheUiAppearance)
            (local_client_ids order st) st)"

definition send_ui_appearance_to_viewers :: "u64 list \<Rightarrow> bytes option \<Rightarrow> remote_state \<Rightarrow> remote_state" where
  "send_ui_appearance_to_viewers order payload st =
     send_each (\<lambda>client_id. send_ui_appearance client_id payload) (viewer_client_ids order st) st"

section \<open>The server's methods\<close>

definition has_runtime_viewers :: "u64 list \<Rightarrow> remote_state \<Rightarrow> bool" where
  "has_runtime_viewers order st \<longleftrightarrow> viewer_client_ids order st \<noteq> []"

definition has_local_runtime_viewers :: "u64 list \<Rightarrow> remote_state \<Rightarrow> bool" where
  "has_local_runtime_viewers order st \<longleftrightarrow> local_viewer_client_ids order st \<noteq> []"

definition client_subscribed_to_runtime :: "u64 \<Rightarrow> remote_state \<Rightarrow> bool" where
  "client_subscribed_to_runtime client_id st \<longleftrightarrow>
     (case clients st client_id of Some client \<Rightarrow> subscribed_to_runtime (runtime_view client) | None \<Rightarrow> False)"

definition has_client :: "u64 \<Rightarrow> remote_state \<Rightarrow> bool" where
  "has_client client_id st \<longleftrightarrow> clients st client_id \<noteq> None"

definition initialize_client_view ::
  "u64 \<Rightarrow> u32 option \<Rightarrow> u64 option \<Rightarrow> u64 list \<Rightarrow> remote_state \<Rightarrow> remote_state" where
  "initialize_client_view client_id tab_id pane_id visible st =
     update_client_view client_id (\<lambda>v.
       let v1 = (if view_id v = 0 then v\<lparr>view_id := client_id\<rparr> else v)
       in touch_view (v1\<lparr>viewed_tab_id := tab_id, focused_pane_id := pane_id, visible_pane_ids := visible,
            ui_attached := True, detached_at := None\<rparr>)) st"

definition subscribe_client_to_runtime :: "u64 \<Rightarrow> remote_state \<Rightarrow> remote_state" where
  "subscribe_client_to_runtime client_id st =
     update_client_view client_id (\<lambda>v.
       if \<not> subscribed_to_runtime v then clear_stream_state (v\<lparr>subscribed_to_runtime := True\<rparr>) else v) st"

definition unsubscribe_client_from_runtime :: "u64 \<Rightarrow> remote_state \<Rightarrow> remote_state" where
  "unsubscribe_client_from_runtime client_id st =
     update_client_view client_id (\<lambda>v. clear_stream_state (v\<lparr>subscribed_to_runtime := False\<rparr>)) st"

definition view_expired :: "instant \<Rightarrow> instant \<Rightarrow> client_runtime_view \<Rightarrow> bool" where
  "view_expired idle_timeout now v \<longleftrightarrow>
     (case detached_at v of None \<Rightarrow> False | Some t \<Rightarrow> \<not> ui_attached v \<and> \<not> now - t < idle_timeout)"

definition expire_view :: "client_runtime_view \<Rightarrow> client_runtime_view" where
  "expire_view v = touch_view (clear_stream_state (v\<lparr>subscribed_to_runtime := False, viewed_tab_id := None,
     focused_pane_id := None, visible_pane_ids := [], viewport_cols := None, viewport_rows := None,
     detached_at := None\<rparr>))"

definition sweep_idle_views :: "u64 list \<Rightarrow> instant \<Rightarrow> instant \<Rightarrow> remote_state \<Rightarrow> u64 list \<times> remote_state" where
  "sweep_idle_views order idle_timeout now st =
     (client_ids_where (\<lambda>client. view_expired idle_timeout now (runtime_view client)) order st,
      update_all_clients (\<lambda>client.
        if view_expired idle_timeout now (runtime_view client)
        then client\<lparr>runtime_view := expire_view (runtime_view client)\<rparr> else client) st)"

definition send_to_client :: "u64 \<Rightarrow> message_type \<Rightarrow> bytes \<Rightarrow> remote_state \<Rightarrow> remote_state" where
  "send_to_client client_id ty payload st =
     update_client client_id (send_outbound (Frame (encode_message ty payload))) st"

definition send_error :: "u64 \<Rightarrow> remote_error_code \<Rightarrow> rust_string \<Rightarrow> remote_state \<Rightarrow> remote_state" where
  "send_error client_id code message st =
     send_to_client client_id MsgErrorMsg (encode_error_payload code message) st"

definition send_tab_created :: "u64 \<Rightarrow> u32 \<Rightarrow> remote_state \<Rightarrow> remote_state" where
  "send_tab_created client_id tab_id st = send_to_client client_id MsgTabCreated (le32 tab_id) st"

definition send_pane_rows_to_client ::
  "u64 \<Rightarrow> u32 \<Rightarrow> u64 \<Rightarrow> u64 \<Rightarrow> u64 \<Rightarrow> row_range_response \<Rightarrow> remote_state \<Rightarrow> remote_state" where
  "send_pane_rows_to_client client_id tab_id pane_id pane_revision runtime_revision response st =
     send_to_client client_id MsgUiPaneRows
       (encode_ui_pane_update_payload tab_id pane_id pane_revision runtime_revision
         (encode_row_range_response response)) st"

definition record_input_seq :: "u64 \<Rightarrow> u64 option \<Rightarrow> remote_state \<Rightarrow> remote_state" where
  "record_input_seq client_id input_seq st =
     update_client_view client_id (\<lambda>v.
       case input_seq of Some n \<Rightarrow> v\<lparr>latest_input_seq := Some n\<rparr> | None \<Rightarrow> v) st"

text \<open>Publishing to several clients stops at the first panic.\<close>

fun publish_each :: "(u64 \<Rightarrow> remote_state \<Rightarrow> remote_state option) \<Rightarrow> u64 list \<Rightarrow> remote_state \<Rightarrow> remote_state option" where
  "publish_each publish [] st = Some st"
| "publish_each publish (client_id # ids) st =
     (case publish client_id st of None \<Rightarrow> None | Some st1 \<Rightarrow> publish_each publish ids st1)"

definition send_full_state_to_viewers :: "u64 list \<Rightarrow> remote_full_state \<Rightarrow> remote_state \<Rightarrow> remote_state option" where
  "send_full_state_to_viewers order next_state st =
     publish_each (\<lambda>client_id. send_state_to_client client_id next_state) (viewer_client_ids order st) st"

definition send_pane_state_to_local_viewers ::
  "u64 list \<Rightarrow> u32 \<Rightarrow> u64 \<Rightarrow> u64 \<Rightarrow> u64 \<Rightarrow> remote_full_state \<Rightarrow> remote_state \<Rightarrow> remote_state option" where
  "send_pane_state_to_local_viewers order tab_id pane_id pane_revision runtime_revision next_state st =
     publish_each (\<lambda>client_id. send_pane_state_to_client client_id tab_id pane_id pane_revision runtime_revision next_state)
       (local_viewer_client_ids order st) st"

text \<open>A new connection, on the local socket or on a direct transport.\<close>

definition register_client :: "bool \<Rightarrow> instant \<Rightarrow> u64 \<Rightarrow> remote_state \<Rightarrow> u64 \<times> u64 \<times> remote_state" where
  "register_client local now next_client_id st =
     (next_client_id, next_client_id + 1,
      st\<lparr>clients := (clients st)(next_client_id \<mapsto>
        \<lparr>outbound = [], authenticated = True, connected_at = now, authenticated_at = Some now,
         last_heartbeat_at = None, runtime_view = view_idle, is_local = local\<rparr>)\<rparr>)"

end
