(* ===== verification/RemoteFanout.thy ===== *)
theory RemoteFanout
  imports RemoteState
begin

text \<open>
  What an operation on one client does to the others, and what a broadcast does to each client. The
  interface is a locale: an operation that acts on the client it names and on nothing else; a second
  one adds that acting twice is acting once, which holds for the cached payloads.
\<close>

section \<open>Operations on one client\<close>

locale client_op =
  fixes send :: "u64 \<Rightarrow> remote_state \<Rightarrow> remote_state" and act :: "client_state \<Rightarrow> client_state"
  assumes clients_send: "clients (send i st) = (clients st)(i := map_option act (clients st i))"
    and instance_send: "server_instance_id (send i st) = server_instance_id st"
begin

lemma send_other: "j \<noteq> i \<Longrightarrow> clients (send i st) j = clients st j"
  by (simp add: clients_send)

lemma send_same: "clients (send i st) i = map_option act (clients st i)"
  by (simp add: clients_send)

lemma send_each_Cons: "send_each send (i # is) st = send_each send is (send i st)"
  by (simp add: send_each_def)

lemma send_each_instance: "server_instance_id (send_each send is st) = server_instance_id st"
  by (induction "is" arbitrary: st) (simp_all add: send_each_Cons instance_send, simp add: send_each_def)

lemma send_each_clients:
  "distinct is \<Longrightarrow> clients (send_each send is st) j =
     (if j \<in> set is then map_option act (clients st j) else clients st j)"
proof (induction "is" arbitrary: st)
  case Nil
  then show ?case by (simp add: send_each_def)
next
  case (Cons i "is")
  then show ?case by (auto simp: send_each_Cons clients_send)
qed

text \<open>A broadcast to the clients that satisfy a condition, in any order of the keys.\<close>

lemma broadcast_clients:
  assumes "distinct order" and "set order = dom (clients st)"
  shows "clients (send_each send (client_ids_where P order st) st) j
    = map_option (\<lambda>c. if P c then act c else c) (clients st j)"
proof -
  have d: "distinct (client_ids_where P order st)" using assms(1) by (simp add: client_ids_where_def)
  have m: "j \<in> set (client_ids_where P order st) \<longleftrightarrow> (\<exists>c. clients st j = Some c \<and> P c)"
    using assms(2) by (auto simp: client_ids_where_def domI split: option.splits)
  show ?thesis
    unfolding send_each_clients [OF d] m by (cases "clients st j") simp_all
qed

end

locale cached_op = client_op +
  assumes act_again: "act (act c) = act c"
begin

lemma send_again: "clients (send i (send i st)) = clients (send i st)"
  by (cases "clients st i") (simp_all add: clients_send act_again)

end

section \<open>The operations of the server\<close>

lemma update_client_clients:
  "clients (update_client i f st) = (clients st)(i := map_option f (clients st i))"
  by (auto simp: update_client_def split: option.splits)

lemma update_client_instance: "server_instance_id (update_client i f st) = server_instance_id st"
  by (simp add: update_client_def split: option.splits)

interpretation upd: client_op "\<lambda>i. update_client i f" f for f
  by unfold_locales (simp_all add: update_client_clients update_client_instance)

definition cached_act :: "message_type \<Rightarrow> bytes \<Rightarrow> cached_control_payload \<Rightarrow> client_state \<Rightarrow> client_state" where
  "cached_act ty payload slot c =
     (if cache_slot slot (runtime_view c) = Some payload then c
      else send_outbound (Frame (encode_message ty payload))
             (c\<lparr>runtime_view := set_cache_slot slot payload (runtime_view c)\<rparr>))"

lemma cache_slot_set: "cache_slot slot (set_cache_slot slot payload v) = Some payload"
  by (cases slot) simp_all

lemma cached_send_clients:
  "clients (send_cached_control_payload_bytes i ty payload slot st)
    = (clients st)(i := map_option (cached_act ty payload slot) (clients st i))"
  by (cases "clients st i")
     (auto simp: send_cached_control_payload_bytes_def update_client_clients cached_act_def)

lemma cached_send_instance:
  "server_instance_id (send_cached_control_payload_bytes i ty payload slot st) = server_instance_id st"
  by (simp add: send_cached_control_payload_bytes_def update_client_instance split: option.splits)

interpretation cached: cached_op "\<lambda>i. send_cached_control_payload_bytes i ty payload slot"
    "cached_act ty payload slot" for ty payload slot
  by unfold_locales
     (simp_all add: cached_send_clients cached_send_instance, simp add: cached_act_def send_outbound_def cache_slot_set)

text \<open>The broadcasts, on each client.\<close>

lemma local_broadcast_clients:
  assumes "distinct order" and "set order = dom (clients st)"
  shows "clients (send_tab_list_to_local_clients order tabs st) j
    = map_option (\<lambda>c. if is_local c then cached_act MsgTabList (encode_tab_list tabs) CacheTabList c else c)
        (clients st j)"
  unfolding send_tab_list_to_local_clients_def local_client_ids_def
  by (rule cached.broadcast_clients [OF assms])

lemma viewer_broadcast_clients:
  assumes "distinct order" and "set order = dom (clients st)"
  shows "clients (send_ui_runtime_state_to_local_viewers order (Some payload) st) j
    = map_option (\<lambda>c. if is_local c \<and> subscribed_to_runtime (runtime_view c)
        then cached_act MsgUiRuntimeState payload CacheUiRuntimeState c else c) (clients st j)"
  unfolding send_ui_runtime_state_to_local_viewers_def local_viewer_client_ids_def option.case
  by (rule cached.broadcast_clients [OF assms])

lemma appearance_broadcast_clients:
  assumes "distinct order" and "set order = dom (clients st)"
  shows "clients (send_ui_appearance_to_viewers order (Some payload) st) j
    = map_option (\<lambda>c. if subscribed_to_runtime (runtime_view c)
        then cached_act MsgUiAppearance payload CacheUiAppearance c else c) (clients st j)"
  unfolding send_ui_appearance_to_viewers_def viewer_client_ids_def send_ui_appearance_def option.case
  by (rule cached.broadcast_clients [OF assms])

section \<open>Properties\<close>

text \<open>C37: A broadcast of the tab list reaches exactly the local clients that do not have it: each gets one
  frame and has the list on record afterwards, every other client is untouched, whatever the order in
  which the clients are visited; and sending it again sends nothing.\<close>

theorem tab_list_broadcast:
  assumes "distinct order" and "set order = dom (clients st)"
    and "st' = send_tab_list_to_local_clients order tabs st"
  shows "dom (clients st') = dom (clients st)
    \<and> (\<forall>j c. clients st j = Some c \<longrightarrow> is_local c \<longrightarrow>
          last_tab_list_payload (runtime_view c) \<noteq> Some (encode_tab_list tabs) \<longrightarrow>
          (\<exists>c'. clients st' j = Some c'
             \<and> outbound c' = outbound c @ [Frame (encode_message MsgTabList (encode_tab_list tabs))]
             \<and> runtime_view c' = (runtime_view c)\<lparr>last_tab_list_payload := Some (encode_tab_list tabs)\<rparr>))
    \<and> (\<forall>j c. clients st j = Some c \<longrightarrow>
          \<not> is_local c \<or> last_tab_list_payload (runtime_view c) = Some (encode_tab_list tabs) \<longrightarrow>
          clients st' j = Some c)
    \<and> clients (send_tab_list_to_local_clients order tabs st') = clients st'"
proof -
  let ?act = "cached_act MsgTabList (encode_tab_list tabs) CacheTabList"
  have b: "clients st' j = map_option (\<lambda>c. if is_local c then ?act c else c) (clients st j)" for j
    unfolding assms(3) by (rule local_broadcast_clients [OF assms(1,2)])
  have d: "dom (clients st') = dom (clients st)" using b by (auto simp: dom_def)
  then have o: "set order = dom (clients st')" using assms(2) by simp
  have l: "is_local (?act c) = is_local c" for c by (simp add: cached_act_def send_outbound_def)
  have "clients (send_tab_list_to_local_clients order tabs st') j = clients st' j" for j
    unfolding local_broadcast_clients [OF assms(1) o] b
    by (cases "clients st j") (simp_all add: l cached.act_again)
  then have again: "clients (send_tab_list_to_local_clients order tabs st') = clients st'" by blast
  have hit: "\<exists>c'. clients st' j = Some c'
             \<and> outbound c' = outbound c @ [Frame (encode_message MsgTabList (encode_tab_list tabs))]
             \<and> runtime_view c' = (runtime_view c)\<lparr>last_tab_list_payload := Some (encode_tab_list tabs)\<rparr>"
    if "clients st j = Some c" "is_local c" "last_tab_list_payload (runtime_view c) \<noteq> Some (encode_tab_list tabs)" for j c
    using b [of j] that by (simp add: cached_act_def send_outbound_def)
  have miss: "clients st' j = Some c"
    if "clients st j = Some c" "\<not> is_local c \<or> last_tab_list_payload (runtime_view c) = Some (encode_tab_list tabs)" for j c
    using b [of j] that by (auto simp: cached_act_def)
  show ?thesis using d again hit miss by blast
qed

lemma tab_list_broadcast_witness:
  "\<exists>st' c'. st' = send_tab_list_to_local_clients [7] []
        (snd (snd (register_client True 0 7 \<lparr>clients = Map.empty, server_instance_id = []\<rparr>)))
     \<and> clients st' 7 = Some c' \<and> outbound c' = [Frame (encode_message MsgTabList (encode_tab_list []))]"
proof -
  let ?st = "snd (snd (register_client True 0 7 \<lparr>clients = Map.empty, server_instance_id = []\<rparr>))"
  have d: "set [7] = dom (clients ?st)" by (simp add: register_client_def)
  obtain c where c: "clients ?st 7 = Some c" "is_local c" "outbound c = []"
    "last_tab_list_payload (runtime_view c) = None"
    by (simp add: register_client_def view_idle_def)
  from tab_list_broadcast [OF _ d refl, of "[]"] c show ?thesis by fastforce
qed

text \<open>A reply to a request for the tabs is not recorded: when the list then goes back to the one on
  record, nothing is sent, and the client keeps showing the list of the reply.\<close>

lemma reply_hides_tab_list:
  assumes "clients st i = Some c" and "last_tab_list_payload (runtime_view c) = Some (encode_tab_list old)"
  shows "send_tab_list i old (reply_tab_list i new st) = reply_tab_list i new st
    \<and> (\<exists>c'. clients (reply_tab_list i new st) i = Some c'
         \<and> outbound c' = outbound c @ [Frame (encode_message MsgTabList (encode_tab_list new))])"
  using assms
  by (simp add: send_tab_list_def reply_tab_list_def send_cached_control_payload_bytes_def
      update_client_clients send_outbound_def)

end
