(* ===== verification/StreamProgress.thy ===== *)
theory StreamProgress
  imports Wire
begin

text \<open>
  Reading a message uses up part of the stream: what is left of the script gets smaller with every
  message and with every error reported as idle, so the loops over messages end.
\<close>

lemma stream_read_progress:
  "stream_read n s = (Inr bs, s') \<Longrightarrow> bs \<noteq> [] \<Longrightarrow> stream_size s' < stream_size s"
  by (cases "(n, s)" rule: stream_read.cases) (auto split: if_splits)

lemma read_exact_size:
  "read_exact n s = (r, s') \<Longrightarrow> stream_size s' \<le> stream_size s
     \<and> (n \<noteq> 0 \<longrightarrow> (\<exists>bs. r = Inr bs) \<longrightarrow> stream_size s' < stream_size s)"
proof (induction n s arbitrary: r s' rule: read_exact.induct)
  case (1 n s)
  show ?case
  proof (cases "n = 0")
    case True
    then show ?thesis using "1.prems" by (simp add: read_exact.simps [of 0 s])
  next
    case False
    obtain x s1 where x: "stream_read n s = (x, s1)" by fastforce
    show ?thesis
    proof (cases x)
      case (Inl k)
      then have lt: "stream_size s1 < stream_size s" using stream_read_smaller(1) [of k s1 n s] x by simp
      show ?thesis
      proof (cases "k = Interrupted")
        case True
        then have "read_exact n s1 = (r, s')" using "1.prems" False x Inl by (simp add: read_exact.simps [of n s])
        then have "stream_size s' \<le> stream_size s1"
          using "1.IH"(1) [OF False x [symmetric] Inl True] by blast
        then show ?thesis using lt by simp
      next
        case False': False
        then have "s' = s1 \<and> r = Inl k" using "1.prems" False x Inl by (simp add: read_exact.simps [of n s])
        then show ?thesis using lt by simp
      qed
    next
      case (Inr bs)
      show ?thesis
      proof (cases "bs = []")
        case True
        then have "s' = s1 \<and> r = Inl UnexpectedEof"
          using "1.prems" False x Inr by (simp add: read_exact.simps [of n s])
        then show ?thesis using stream_read_Inr [of n s bs s1] x Inr by simp
      next
        case ne: False
        have lt: "stream_size s1 < stream_size s" using stream_read_progress [of n s bs s1] x Inr ne by simp
        obtain y s2 where y: "read_exact (n - length bs) s1 = (y, s2)" by fastforce
        have "stream_size s2 \<le> stream_size s1"
          using "1.IH"(2) [OF False x [symmetric] Inr ne y] by blast
        moreover have "s' = s2"
          using "1.prems" False x Inr ne y by (cases y) (simp_all add: read_exact.simps [of n s])
        ultimately show ?thesis using lt by simp
      qed
    qed
  qed
qed

lemma read_exact_retrying_size:
  "read_exact_retrying n m buf i s = (r, s') \<Longrightarrow> stream_size s' \<le> stream_size s
     \<and> (length buf < n \<longrightarrow> (\<forall>k. r = Inl k \<longrightarrow> is_idle_error k) \<longrightarrow> stream_size s' < stream_size s)"
proof (induction n m buf i s arbitrary: r s' rule: read_exact_retrying.induct)
  case (1 n m buf i s)
  show ?case
  proof (cases "length buf < n")
    case False
    then show ?thesis using "1.prems" by (simp add: read_exact_retrying.simps [of n m buf i s])
  next
    case True
    then have T: "\<not> \<not> length buf < n" by simp
    obtain x s1 where x: "stream_read (n - length buf) s = (x, s1)" by fastforce
    show ?thesis
    proof (cases x)
      case (Inr bs)
      show ?thesis
      proof (cases "bs = []")
        case e: True
        then have "s' = s1 \<and> r = Inl UnexpectedEof"
          using "1.prems" True x Inr by (simp add: read_exact_retrying.simps [of n m buf i s])
        then show ?thesis using stream_read_Inr [of "n - length buf" s bs s1] x Inr by (simp add: is_idle_error_def)
      next
        case ne: False
        have lt: "stream_size s1 < stream_size s"
          using stream_read_progress [of "n - length buf" s bs s1] x Inr ne by simp
        have "read_exact_retrying n m (buf @ bs) 0 s1 = (r, s')"
          using "1.prems" True x Inr ne by (simp add: read_exact_retrying.simps [of n m buf i s])
        then have "stream_size s' \<le> stream_size s1"
          using "1.IH"(2) [OF T x [symmetric] Inr ne] by blast
        then show ?thesis using lt by simp
      qed
    next
      case (Inl k)
      have lt: "stream_size s1 < stream_size s"
        using stream_read_smaller(1) [of k s1 "n - length buf" s] x Inl by simp
      show ?thesis
      proof (cases "is_idle_error k \<and> length buf \<noteq> 0 \<and> \<not> i + 1 > m")
        case c: True
        then have "read_exact_retrying n m buf (i + 1) s1 = (r, s')"
          using "1.prems" True x Inl by (simp add: read_exact_retrying.simps [of n m buf i s])
        then have "stream_size s' \<le> stream_size s1"
          using "1.IH"(1) [OF T x [symmetric] Inl] c by blast
        then show ?thesis using lt by simp
      next
        case c: False
        then have "s' = s1 \<and> r = Inl k"
          using "1.prems" True x Inl by (auto simp: read_exact_retrying.simps [of n m buf i s] split: if_splits)
        then show ?thesis using lt by simp
      qed
    qed
  qed
qed

text \<open>A message, or an idle error, leaves less of the stream.\<close>

lemma read_message_progress:
  assumes "read_message s = (Inr m, s')"
  shows "stream_size s' < stream_size s"
proof -
  obtain h s1 where h: "read_exact HEADER_LEN s = (h, s1)" by fastforce
  with assms obtain header where hd: "h = Inr header" by (cases h) (auto simp: read_message_def)
  have lt: "stream_size s1 < stream_size s"
    using read_exact_size [OF h] hd by (simp add: HEADER_LEN_def)
  have "stream_size s' \<le> stream_size s1"
    using assms h hd read_exact_size [of _ s1]
    by (auto simp: read_message_def split: sum.splits prod.splits if_splits)
  with lt show ?thesis by simp
qed

lemma read_message_retrying_progress:
  assumes "read_message_retrying m s = (r, s')" and "\<forall>k. r = Inl k \<longrightarrow> is_idle_error k"
  shows "stream_size s' < stream_size s"
proof -
  obtain h s1 where h: "read_exact_retrying HEADER_LEN m [] 0 s = (h, s1)" by fastforce
  show ?thesis
  proof (cases h)
    case (Inl k)
    then have "s' = s1 \<and> r = Inl k" using assms(1) h by (simp add: read_message_retrying_def)
    then show ?thesis using read_exact_retrying_size [OF h] Inl assms(2) by (simp add: HEADER_LEN_def)
  next
    case (Inr header)
    have lt: "stream_size s1 < stream_size s"
      using read_exact_retrying_size [OF h] Inr by (simp add: HEADER_LEN_def)
    have "stream_size s' \<le> stream_size s1"
      using assms(1) h Inr read_exact_retrying_size [of _ m "[]" 0 s1]
      by (auto simp: read_message_retrying_def split: sum.splits prod.splits if_splits)
    with lt show ?thesis by simp
  qed
qed

end
