(* ===== verification/RemoteAuth.thy ===== *)
theory RemoteAuth
  imports RemoteState StreamProgress
begin

text \<open>
  The inbound side of a connection (\<open>src/remote_auth.rs\<close>): the handshake, the translation of
  messages into commands for the runtime (\<open>RemoteCmd\<close> and \<open>RuntimeAction\<close> of \<open>src/remote.rs\<close>) and the
  read loop. The events and actions that travel as JSON are decoded by functions of the record
  \<open>json_codec\<close>, which stand for \<open>serde_json\<close>.
\<close>

section \<open>Commands\<close>

datatype runtime_action =
    SetViewedTab u64 u32
  | ActFocusPane u64 u32 u64
  | NewTab u64 "u16 option" "u16 option"
  | CloseTab u64 "u32 option"
  | NextTab u64
  | PrevTab u64
  | AttachView u64
  | DetachView u64
  | NewSplit u64 "rust_string option"
  | ResizeSplit u64 rust_string u16 "f64 option"
  | ScrollFocusedPane u64 i64
  | SetCopyMode u64 bool
  | SetSearchQuery u64 rust_string
  | NavigateSearch u64 rust_string
  | Noop u64

datatype ('key, 'mouse, 'action) remote_cmd =
    Connected u64
  | ListTabs u64
  | Create u64 u16 u16
  | CmdInput u64 bytes "u64 option"
  | CmdKey u64 rust_string "u64 option"
  | Resize u64 u16 u16
  | ExecuteCommand u64 rust_string
  | CmdAppKeyEvent u64 'key
  | CmdAppMouseEvent u64 'mouse
  | CmdAppAction u64 'action
  | FocusPane u64 u64
  | Destroy u64 "u32 option"
  | CmdRuntimeAction u64 "u64 option" runtime_action
  | RenderAck u64 u64 u32 u64 u64 u64
  | CmdRowRangeRequest u64 row_range_request

record ('key, 'mouse, 'action) json_codec =
  json_key_event :: "bytes \<Rightarrow> 'key option"
  json_mouse_event :: "bytes \<Rightarrow> 'mouse option"
  json_app_action :: "bytes \<Rightarrow> 'action option"
  json_action_envelope :: "bytes \<Rightarrow> (u64 \<times> runtime_action) option"
  json_runtime_action :: "bytes \<Rightarrow> runtime_action option"

definition decode_runtime_action_payload ::
  "('key, 'mouse, 'action) json_codec \<Rightarrow> bytes \<Rightarrow> (u64 option \<times> runtime_action) option" where
  "decode_runtime_action_payload json payload =
     (case json_action_envelope json payload of
        Some (client_action_id, action) \<Rightarrow> Some (Some client_action_id, action)
      | None \<Rightarrow> map_option (\<lambda>action. (None, action)) (json_runtime_action json payload))"

definition parse_render_ack :: "bytes \<Rightarrow> (u64 \<times> u32 \<times> u64 \<times> u64 \<times> u64) option" where
  "parse_render_ack payload =
     (if length payload < 36 then None
      else Some (u64_at payload 0, u32_at payload 8, u64_at payload 12, u64_at payload 20, u64_at payload 28))"

definition decode_command ::
  "('key, 'mouse, 'action) json_codec \<Rightarrow> u64 \<Rightarrow> bool \<Rightarrow> message_type \<Rightarrow> bytes \<Rightarrow> ('key, 'mouse, 'action) remote_cmd option" where
  "decode_command json client_id local ty payload =
     (case ty of
        MsgListTabs \<Rightarrow> Some (ListTabs client_id)
      | MsgCreate \<Rightarrow> map_option (\<lambda>(cols, rows). Create client_id cols rows) (parse_resize payload)
      | MsgInput \<Rightarrow>
          map_option (\<lambda>(input_seq, bs). CmdInput client_id bs input_seq) (parse_input_payload payload local)
      | MsgKey \<Rightarrow>
          (case parse_key_payload payload local of
             None \<Rightarrow> None
           | Some (input_seq, p) \<Rightarrow> map_option (\<lambda>keyspec. CmdKey client_id keyspec input_seq) (from_utf8 p))
      | MsgResize \<Rightarrow> map_option (\<lambda>(cols, rows). Resize client_id cols rows) (parse_resize payload)
      | MsgExecuteCommand \<Rightarrow> map_option (ExecuteCommand client_id) (from_utf8 payload)
      | MsgAppKeyEvent \<Rightarrow> map_option (CmdAppKeyEvent client_id) (json_key_event json payload)
      | MsgAppMouseEvent \<Rightarrow> map_option (CmdAppMouseEvent client_id) (json_mouse_event json payload)
      | MsgAppAction \<Rightarrow> map_option (CmdAppAction client_id) (json_app_action json payload)
      | MsgFocusPane \<Rightarrow> map_option (FocusPane client_id) (parse_pane_id payload)
      | MsgDestroy \<Rightarrow> Some (Destroy client_id (parse_tab_id payload))
      | MsgRuntimeAction \<Rightarrow>
          map_option (\<lambda>(client_action_id, action). CmdRuntimeAction client_id client_action_id action)
            (decode_runtime_action_payload json payload)
      | MsgRenderAck \<Rightarrow>
          map_option (\<lambda>(view, tab_id, pane_id, pane_revision, runtime_revision).
              RenderAck client_id view tab_id pane_id pane_revision runtime_revision) (parse_render_ack payload)
      | MsgRowRangeRequest \<Rightarrow> map_option (CmdRowRangeRequest client_id) (parse_row_range_request payload)
      | _ \<Rightarrow> None)"

section \<open>The handshake\<close>

datatype auth_handling = Authenticated | Disconnect

definition handle_auth_message :: "u64 \<Rightarrow> instant \<Rightarrow> remote_state \<Rightarrow> auth_handling \<times> remote_state" where
  "handle_auth_message client_id now st =
     (case clients st client_id of
        None \<Rightarrow> (Disconnect, st)
      | Some client \<Rightarrow>
          (Authenticated, update_client client_id
             (\<lambda>c. send_outbound (Frame (encode_message MsgAuthOk (encode_auth_ok_payload (server_instance_id st))))
                    (c\<lparr>authenticated := True, authenticated_at := Some now\<rparr>)) st))"

section \<open>One message\<close>

text \<open>\<open>"authentication required"\<close> and \<open>"invalid payload"\<close>.\<close>

definition AUTHENTICATION_REQUIRED :: rust_string where
  "AUTHENTICATION_REQUIRED = map (\<lambda>c. of_char c) ''authentication required''"
definition INVALID_PAYLOAD :: rust_string where
  "INVALID_PAYLOAD = map (\<lambda>c. of_char c) ''invalid payload''"

text \<open>
  What the loop does after a message: send a command whether or not the runtime still listens, send
  a command and stop when it does not, go on, or stop.
\<close>

datatype 'c outcome = Notify 'c | Submit 'c | GoOn | Stop

definition handle_frame ::
  "('key, 'mouse, 'action) json_codec \<Rightarrow> u64 \<Rightarrow> instant \<Rightarrow> message_type \<Rightarrow> bytes \<Rightarrow> remote_state
     \<Rightarrow> ('key, 'mouse, 'action) remote_cmd outcome \<times> remote_state" where
  "handle_frame json client_id now ty payload st =
     (let (auth, local) = (case clients st client_id of
            Some client \<Rightarrow> (authenticated client, is_local client) | None \<Rightarrow> (False, False))
      in if ty = MsgAuth then
           (case handle_auth_message client_id now st of
              (Authenticated, st1) \<Rightarrow> (Notify (Connected client_id), st1)
            | (Disconnect, st1) \<Rightarrow> (Stop, st1))
         else if \<not> auth then
           (GoOn, send_direct_error client_id ErrAuthenticationFailed AUTHENTICATION_REQUIRED st)
         else if ty = MsgHeartbeat then
           (GoOn, send_direct_frame client_id MsgHeartbeatAck payload
             (update_client client_id (\<lambda>c. c\<lparr>last_heartbeat_at := Some now\<rparr>) st))
         else
           (case decode_command json client_id local ty payload of
              Some command \<Rightarrow> (Submit command, st)
            | None \<Rightarrow> (GoOn, send_direct_error client_id ErrUnknown INVALID_PAYLOAD st)))"

definition disconnect_idle :: "u64 \<Rightarrow> disconnect_reason \<Rightarrow> remote_state \<Rightarrow> remote_state" where
  "disconnect_idle client_id reason st =
     (case reason of
        HeartbeatTimeoutReason \<Rightarrow>
          send_direct_error client_id ErrHeartbeatTimeout (default_message ErrHeartbeatTimeout) st
      | AuthTimeoutReason \<Rightarrow> send_direct_frame client_id MsgAuthFail [] st)"

section \<open>The loop\<close>

text \<open>
  The surroundings of the loop, by the number of the round: the clock, whether the runtime still
  receives commands, and what other threads do to the shared state while the loop waits.
\<close>

record loop_env =
  env_clock :: "nat \<Rightarrow> instant"
  env_receives :: "nat \<Rightarrow> bool"
  env_others :: "nat \<Rightarrow> remote_state \<Rightarrow> remote_state"

definition remove_client :: "u64 \<Rightarrow> remote_state \<Rightarrow> remote_state" where
  "remove_client client_id st = st\<lparr>clients := (clients st)(client_id := None)\<rparr>"

function read_loop ::
  "loop_env \<Rightarrow> ('key, 'mouse, 'action) json_codec \<Rightarrow> u64 \<Rightarrow> nat \<Rightarrow> stream \<Rightarrow> remote_state
     \<Rightarrow> ('key, 'mouse, 'action) remote_cmd list \<Rightarrow> remote_state \<times> ('key, 'mouse, 'action) remote_cmd list" where
  "read_loop env json client_id n s st cmds =
     (case read_message_retrying 10 s of
        (Inl k, s1) \<Rightarrow>
          (let st1 = env_others env n st
           in if is_idle_error k then
                (case should_disconnect_idle_client st1 client_id AUTH_CHALLENGE_WINDOW
                        DIRECT_CLIENT_HEARTBEAT_WINDOW (env_clock env n) of
                   Some reason \<Rightarrow> (remove_client client_id (disconnect_idle client_id reason st1), cmds)
                 | None \<Rightarrow> read_loop env json client_id (n + 1) s1 st1 cmds)
              else (remove_client client_id st1, cmds))
      | (Inr (ty, payload), s1) \<Rightarrow>
          (case handle_frame json client_id (env_clock env n) ty payload (env_others env n st) of
             (Stop, st1) \<Rightarrow> (remove_client client_id st1, cmds)
           | (GoOn, st1) \<Rightarrow> read_loop env json client_id (n + 1) s1 st1 cmds
           | (Notify command, st1) \<Rightarrow>
               read_loop env json client_id (n + 1) s1 st1
                 (if env_receives env n then cmds @ [command] else cmds)
           | (Submit command, st1) \<Rightarrow>
               if env_receives env n
               then read_loop env json client_id (n + 1) s1 st1 (cmds @ [command])
               else (remove_client client_id st1, cmds)))"
  by pat_completeness auto
termination
  by (relation "measure (\<lambda>(env, json, client_id, n, s, st, cmds). stream_size s)")
     (auto dest: sym [THEN read_message_retrying_progress])

declare read_loop.simps [simp del]

end
