(* ===== verification/ClientApp.thy ===== *)
theory ClientApp
  imports ClientDecode RemoteAuth
begin

text \<open>
  The desktop client (\<open>src/client_gui.rs\<close>): the state of \<open>ClientApp\<close> that the stream of the server
  changes, the loop that turns messages into events, and the handler of each event. The snapshot
  types are those of \<open>src/control.rs\<close> and \<open>src/status_components.rs\<close>. Sizes are natural numbers,
  \<open>f32\<close> and \<open>f64\<close> are reals, instants are milliseconds. The field prefix \<open>ca_\<close> stands for \<open>self\<close>.
\<close>

section \<open>What the server tells\<close>

record status_style =
  ss_fg :: "rust_string option"
  ss_bg :: "rust_string option"
  ss_bold :: bool
  ss_italic :: bool
  ss_underline :: "rust_string option"
  ss_strikethrough :: bool

record status_click =
  sc_id :: rust_string
  sc_action :: "rust_string option"

record ui_status_component =
  usc_source :: rust_string
  usc_text :: rust_string
  usc_style :: status_style
  usc_click :: "status_click option"

record ui_status_bar =
  sb_left :: "ui_status_component list"
  sb_right :: "ui_status_component list"

definition status_bar_default :: ui_status_bar where
  "status_bar_default = \<lparr>sb_left = [], sb_right = []\<rparr>"

record ui_tab_snapshot =
  ut_tab_id :: u32
  ut_index :: nat
  ut_active :: bool
  ut_title :: rust_string
  ut_pane_count :: nat
  ut_focused_pane :: "u64 option"
  ut_pane_ids :: "u64 list"

record ui_rect =
  ur_x :: f64
  ur_y :: f64
  ur_width :: f64
  ur_height :: f64

record ui_pane_snapshot =
  up_leaf_index :: nat
  up_leaf_id :: nat
  up_pane_id :: u64
  up_focused :: bool
  up_frame :: ui_rect
  up_split_direction :: "rust_string option"
  up_split_ratio :: "f64 option"

record ui_mouse_selection =
  um_active :: bool
  um_pane_id :: "u64 option"
  um_selection_rects :: "ui_rect list"

record ui_runtime_state =
  rs_active_tab :: nat
  rs_focused_pane :: u64
  rs_tabs :: "ui_tab_snapshot list"
  rs_visible_panes :: "ui_pane_snapshot list"
  rs_mouse_selection :: ui_mouse_selection
  rs_status_bar :: ui_status_bar
  rs_pwd :: rust_string
  rs_runtime_revision :: u64
  rs_view_revision :: u64
  rs_view_id :: u64
  rs_viewed_tab_id :: "u32 option"
  rs_viewport_cols :: "u16 option"
  rs_viewport_rows :: "u16 option"
  rs_visible_pane_ids :: "u64 list"
  rs_acked_client_action_id :: "u64 option"

record ui_appearance =
  ap_font_families :: "rust_string list"
  ap_font_size :: real
  ap_background_opacity :: real
  ap_background_opacity_cells :: bool
  ap_terminal_foreground :: rgb
  ap_terminal_background :: rgb
  ap_cursor_color :: rgb
  ap_selection_background :: rgb
  ap_selection_foreground :: rgb
  ap_cursor_text_color :: rgb
  ap_url_color :: rgb
  ap_active_tab_foreground :: rgb
  ap_active_tab_background :: rgb
  ap_inactive_tab_foreground :: rgb
  ap_inactive_tab_background :: rgb
  ap_cursor_style :: "i32 option"
  ap_cursor_blink :: bool
  ap_cursor_blink_interval_ns :: u64

section \<open>The state of the client\<close>

datatype client_mode = Bootstrapping | Active | Recovering

record client_tab_state =
  ct_index :: nat
  ct_tab_id :: "u32 option"
  ct_active :: bool
  ct_title :: rust_string
  ct_pane_count :: nat

record client_ui_state =
  cui_tabs :: "client_tab_state list"
  cui_active_tab :: nat
  cui_pwd :: rust_string
  cui_pane_count :: nat
  cui_status_bar :: ui_status_bar

datatype ('key, 'mouse) stream_command =
    StreamRuntimeAction runtime_action
  | StreamAppKeyEvent 'key
  | StreamAppMouseEvent 'mouse
  | StreamExecuteCommand rust_string
  | StreamInput u64 bytes
  | StreamKey u64 rust_string

text \<open>
  \<open>stream_tx\<close> is the list of the commands sent on it so far. The pending input latencies are a map
  from sequence numbers to instants.
\<close>

record ('key, 'mouse) client_app =
  ca_stream_tx :: "('key, 'mouse) stream_command list option"
  ca_bootstrapped :: bool
  ca_ui_state :: client_ui_state
  ca_visible_panes :: "ui_pane_snapshot list"
  ca_mouse_selection :: ui_mouse_selection
  ca_mode :: client_mode
  ca_runtime_view_id :: u64
  ca_runtime_revision :: u64
  ca_view_revision :: u64
  ca_active_remote_tab_id :: "u32 option"
  ca_pane_snapshots :: "u64 \<rightharpoonup> terminal_snapshot"
  ca_focused_pane_id :: u64
  ca_last_error :: "rust_string option"
  ca_font_families :: "rust_string list"
  ca_cell_size :: "f64 \<times> f64"
  ca_font_size :: real
  ca_background_opacity :: real
  ca_background_opacity_cells :: bool
  ca_terminal_foreground :: rgb
  ca_terminal_background :: rgb
  ca_cursor_color :: rgb
  ca_selection_background :: rgb
  ca_selection_foreground :: rgb
  ca_cursor_text_color :: rgb
  ca_url_color :: rgb
  ca_active_tab_foreground :: rgb
  ca_active_tab_background :: rgb
  ca_inactive_tab_foreground :: rgb
  ca_inactive_tab_background :: rgb
  ca_cursor_blink_interval_ns :: u64
  ca_cursor_blink_epoch :: instant
  ca_focused_cursor_position :: "(u64 \<times> u16 \<times> u16) option"
  ca_next_input_seq :: u64
  ca_pending_input_latencies :: "u64 \<rightharpoonup> instant"
  ca_should_exit :: bool
  ca_terminal_snapshot_generation :: u64
  ca_appearance_revision :: u64
  ca_next_full_snapshot_revision :: u64
  ca_next_snapshot_generation :: u64

text \<open>
  The default colours (\<open>src/main.rs\<close>) and the state a client starts in. \<open>terminal_metrics\<close> measures the
  font; it is an argument.
\<close>

definition DEFAULT_CURSOR_COLOR :: rgb where "DEFAULT_CURSOR_COLOR = (0xFF, 0xFF, 0xFF)"
definition DEFAULT_SELECTION_BACKGROUND :: rgb where "DEFAULT_SELECTION_BACKGROUND = (0xA6, 0xB8, 0xF2)"
definition DEFAULT_SELECTION_FOREGROUND :: rgb where "DEFAULT_SELECTION_FOREGROUND = DEFAULT_TERMINAL_BACKGROUND"
definition DEFAULT_CURSOR_TEXT_COLOR :: rgb where "DEFAULT_CURSOR_TEXT_COLOR = DEFAULT_TERMINAL_BACKGROUND"
definition DEFAULT_URL_COLOR :: rgb where "DEFAULT_URL_COLOR = DEFAULT_TERMINAL_FOREGROUND"
definition DEFAULT_ACTIVE_TAB_FOREGROUND :: rgb where "DEFAULT_ACTIVE_TAB_FOREGROUND = (0xEB, 0xEB, 0xEB)"
definition DEFAULT_ACTIVE_TAB_BACKGROUND :: rgb where "DEFAULT_ACTIVE_TAB_BACKGROUND = (0x3D, 0x52, 0x9E)"
definition DEFAULT_INACTIVE_TAB_FOREGROUND :: rgb where "DEFAULT_INACTIVE_TAB_FOREGROUND = (0xB8, 0xB8, 0xB8)"
definition DEFAULT_INACTIVE_TAB_BACKGROUND :: rgb where "DEFAULT_INACTIVE_TAB_BACKGROUND = (0x1A, 0x1A, 0x1A)"
definition DEFAULT_FONT_SIZE :: real where "DEFAULT_FONT_SIZE = 14"
definition DEFAULT_CURSOR_BLINK_INTERVAL :: u64 where "DEFAULT_CURSOR_BLINK_INTERVAL = 600000000"

definition client_new :: "(real \<Rightarrow> rust_string option \<Rightarrow> f64 \<times> f64) \<Rightarrow> instant \<Rightarrow> ('k, 'm) client_app" where
  "client_new terminal_metrics now =
     \<lparr>ca_stream_tx = None, ca_bootstrapped = False,
      ca_ui_state = \<lparr>cui_tabs = [], cui_active_tab = 0, cui_pwd = [], cui_pane_count = 0,
        cui_status_bar = status_bar_default\<rparr>,
      ca_visible_panes = [],
      ca_mouse_selection = \<lparr>um_active = False, um_pane_id = None, um_selection_rects = []\<rparr>,
      ca_mode = Bootstrapping, ca_runtime_view_id = 0, ca_runtime_revision = 0, ca_view_revision = 0,
      ca_active_remote_tab_id = None, ca_pane_snapshots = Map.empty, ca_focused_pane_id = 0,
      ca_last_error = None, ca_font_families = [], ca_cell_size = terminal_metrics DEFAULT_FONT_SIZE None,
      ca_font_size = DEFAULT_FONT_SIZE, ca_background_opacity = 1, ca_background_opacity_cells = False,
      ca_terminal_foreground = DEFAULT_TERMINAL_FOREGROUND,
      ca_terminal_background = DEFAULT_TERMINAL_BACKGROUND, ca_cursor_color = DEFAULT_CURSOR_COLOR,
      ca_selection_background = DEFAULT_SELECTION_BACKGROUND,
      ca_selection_foreground = DEFAULT_SELECTION_FOREGROUND,
      ca_cursor_text_color = DEFAULT_CURSOR_TEXT_COLOR, ca_url_color = DEFAULT_URL_COLOR,
      ca_active_tab_foreground = DEFAULT_ACTIVE_TAB_FOREGROUND,
      ca_active_tab_background = DEFAULT_ACTIVE_TAB_BACKGROUND,
      ca_inactive_tab_foreground = DEFAULT_INACTIVE_TAB_FOREGROUND,
      ca_inactive_tab_background = DEFAULT_INACTIVE_TAB_BACKGROUND,
      ca_cursor_blink_interval_ns = DEFAULT_CURSOR_BLINK_INTERVAL, ca_cursor_blink_epoch = now,
      ca_focused_cursor_position = None, ca_next_input_seq = 1, ca_pending_input_latencies = Map.empty,
      ca_should_exit = False, ca_terminal_snapshot_generation = 1, ca_appearance_revision = 1,
      ca_next_full_snapshot_revision = 1, ca_next_snapshot_generation = 2\<rparr>"

section \<open>Interface state\<close>

definition from_remote_tabs :: "remote_tab_info list \<Rightarrow> u32 option \<Rightarrow> client_ui_state" where
  "from_remote_tabs remote_tabs active_remote_tab_id =
     (let active_index = (case active_remote_tab_id of
            None \<Rightarrow> 0
          | Some tab_id \<Rightarrow> (case position (\<lambda>tab. rt_id tab = tab_id) remote_tabs of Some i \<Rightarrow> i | None \<Rightarrow> 0));
          tabs = map (\<lambda>(index, tab). \<lparr>ct_index = index, ct_tab_id = Some (rt_id tab),
                   ct_active = (index = active_index),
                   ct_title = (if rt_title tab = [] then rt_name tab else rt_title tab), ct_pane_count = 1\<rparr>)
                 (enumerate 0 remote_tabs)
      in \<lparr>cui_tabs = tabs, cui_active_tab = min active_index (length tabs - 1),
          cui_pwd = (if active_index < length remote_tabs then rt_pwd (remote_tabs ! active_index) else []),
          cui_pane_count = (if tabs = [] then 0 else 1), cui_status_bar = status_bar_default\<rparr>)"

definition from_runtime_state :: "ui_runtime_state \<Rightarrow> client_ui_state" where
  "from_runtime_state state =
     \<lparr>cui_tabs = map (\<lambda>tab. \<lparr>ct_index = ut_index tab, ct_tab_id = Some (ut_tab_id tab),
        ct_active = ut_active tab, ct_title = ut_title tab, ct_pane_count = ut_pane_count tab\<rparr>) (rs_tabs state),
      cui_active_tab = rs_active_tab state, cui_pwd = rs_pwd state,
      cui_pane_count = length (rs_visible_panes state), cui_status_bar = rs_status_bar state\<rparr>"

definition focused_cursor_position :: "u64 \<Rightarrow> (u64 \<rightharpoonup> terminal_snapshot) \<Rightarrow> (u64 \<times> u16 \<times> u16) option" where
  "focused_cursor_position focused snapshots =
     map_option (\<lambda>s. (focused, cu_x (ts_cursor s), cu_y (ts_cursor s))) (snapshots focused)"

definition observe_focused_cursor_position :: "instant \<Rightarrow> ('k, 'm) client_app \<Rightarrow> ('k, 'm) client_app" where
  "observe_focused_cursor_position now app =
     (let current = focused_cursor_position (ca_focused_pane_id app) (ca_pane_snapshots app);
          app1 = (if current \<noteq> None \<and> ca_focused_cursor_position app \<noteq> current
                  then app\<lparr>ca_cursor_blink_epoch := now\<rparr> else app)
      in app1\<lparr>ca_focused_cursor_position := current\<rparr>)"

definition allocate_full_snapshot_revision_seed :: "nat \<Rightarrow> ('k, 'm) client_app \<Rightarrow> u64 \<times> ('k, 'm) client_app" where
  "allocate_full_snapshot_revision_seed row_count app =
     (ca_next_full_snapshot_revision app,
      app\<lparr>ca_next_full_snapshot_revision := ca_next_full_snapshot_revision app + word_of_nat (max row_count 1)\<rparr>)"

definition allocate_snapshot_generation :: "('k, 'm) client_app \<Rightarrow> u64 \<times> ('k, 'm) client_app" where
  "allocate_snapshot_generation app =
     (ca_next_snapshot_generation app,
      app\<lparr>ca_next_snapshot_generation := ca_next_snapshot_generation app + 1\<rparr>)"

text \<open>
  \<open>split_off\<close> keeps the sequence numbers from \<open>ack + 1\<close> on, where the addition wraps; the rest is
  acknowledged.
\<close>

definition remaining_input_latencies :: "u64 \<Rightarrow> (u64 \<rightharpoonup> instant) \<Rightarrow> (u64 \<rightharpoonup> instant)" where
  "remaining_input_latencies ack_input_seq pending = pending |` {s. ack_input_seq + 1 \<le> s}"

definition acknowledge_input_latency :: "u64 option \<Rightarrow> ('k, 'm) client_app \<Rightarrow> ('k, 'm) client_app" where
  "acknowledge_input_latency ack_input_seq app =
     (case ack_input_seq of
        None \<Rightarrow> app
      | Some ack \<Rightarrow> app\<lparr>ca_pending_input_latencies := remaining_input_latencies ack (ca_pending_input_latencies app)\<rparr>)"

definition record_pending_input :: "instant \<Rightarrow> ('k, 'm) client_app \<Rightarrow> u64 \<times> ('k, 'm) client_app" where
  "record_pending_input now app =
     (let input_seq = ca_next_input_seq app
      in (input_seq, app\<lparr>ca_next_input_seq := input_seq + 1,
            ca_pending_input_latencies := (ca_pending_input_latencies app)(input_seq \<mapsto> now)\<rparr>))"

definition send_stream_command :: "('k, 'm) stream_command \<Rightarrow> ('k, 'm) client_app \<Rightarrow> ('k, 'm) client_app" where
  "send_stream_command command app =
     (case ca_stream_tx app of
        Some sent \<Rightarrow> app\<lparr>ca_stream_tx := Some (sent @ [command])\<rparr>
      | None \<Rightarrow> app)"

definition send_runtime_action :: "runtime_action \<Rightarrow> ('k, 'm) client_app \<Rightarrow> ('k, 'm) client_app" where
  "send_runtime_action action app = send_stream_command (StreamRuntimeAction action) app"

definition has_paintable_terminal :: "('k, 'm) client_app \<Rightarrow> bool" where
  "has_paintable_terminal app \<longleftrightarrow> ca_pane_snapshots app \<noteq> Map.empty"

definition stream_ready_for_terminal_io :: "('k, 'm) client_app \<Rightarrow> bool" where
  "stream_ready_for_terminal_io app \<longleftrightarrow> ca_stream_tx app \<noteq> None \<and> ca_mode app = Active"

definition apply_remote_tabs :: "remote_tab_info list \<Rightarrow> ('k, 'm) client_app \<Rightarrow> ('k, 'm) client_app" where
  "apply_remote_tabs tabs app =
     app\<lparr>ca_ui_state := from_remote_tabs tabs (ca_active_remote_tab_id app)\<rparr>"

definition apply_ui_runtime_state :: "instant \<Rightarrow> ui_runtime_state \<Rightarrow> ('k, 'm) client_app \<Rightarrow> ('k, 'm) client_app" where
  "apply_ui_runtime_state now state app =
     (let app1 = (if ca_view_revision app \<noteq> 0 \<and> rs_view_revision state \<noteq> ca_view_revision app
                  then app\<lparr>ca_pane_snapshots := Map.empty\<rparr> else app);
          app2 = app1\<lparr>ca_runtime_view_id := rs_view_id state, ca_runtime_revision := rs_runtime_revision state,
                   ca_view_revision := rs_view_revision state\<rparr>;
          ui_state = from_runtime_state state;
          app3 = (case (if cui_active_tab ui_state < length (cui_tabs ui_state)
                        then ct_tab_id (cui_tabs ui_state ! cui_active_tab ui_state) else None) of
                    Some active_tab_id \<Rightarrow>
                      app2\<lparr>ca_active_remote_tab_id := Some active_tab_id, ca_should_exit := False\<rparr>
                  | None \<Rightarrow> app2);
          app4 = app3\<lparr>ca_ui_state := ui_state, ca_visible_panes := rs_visible_panes state,
                   ca_mouse_selection := rs_mouse_selection state, ca_focused_pane_id := rs_focused_pane state\<rparr>
      in (observe_focused_cursor_position now app4)\<lparr>ca_last_error := None\<rparr>)"

text \<open>\<open>terminal_metrics\<close> measures the font; it is an argument.\<close>

definition apply_ui_appearance ::
  "(real \<Rightarrow> rust_string option \<Rightarrow> f64 \<times> f64) \<Rightarrow> instant \<Rightarrow> ui_appearance \<Rightarrow> ('k, 'm) client_app \<Rightarrow> ('k, 'm) client_app" where
  "apply_ui_appearance terminal_metrics now ap app =
     (let size = max (ap_font_size ap) 8; families = ap_font_families ap
      in app\<lparr>ca_font_size := size, ca_font_families := families,
           ca_background_opacity := ap_background_opacity ap,
           ca_background_opacity_cells := ap_background_opacity_cells ap,
           ca_terminal_foreground := ap_terminal_foreground ap,
           ca_terminal_background := ap_terminal_background ap, ca_cursor_color := ap_cursor_color ap,
           ca_selection_background := ap_selection_background ap,
           ca_selection_foreground := ap_selection_foreground ap,
           ca_cursor_text_color := ap_cursor_text_color ap, ca_url_color := ap_url_color ap,
           ca_active_tab_foreground := ap_active_tab_foreground ap,
           ca_active_tab_background := ap_active_tab_background ap,
           ca_inactive_tab_foreground := ap_inactive_tab_foreground ap,
           ca_inactive_tab_background := ap_inactive_tab_background ap,
           ca_cursor_blink_interval_ns := ap_cursor_blink_interval_ns ap,
           ca_cursor_blink_epoch := now,
           ca_cell_size := terminal_metrics size (case families of [] \<Rightarrow> None | f # _ \<Rightarrow> Some f),
           ca_appearance_revision := ca_appearance_revision app + 1\<rparr>)"

end
