(* ===== verification/ClientStream.thy ===== *)
theory ClientStream
  imports ClientApp
begin

text \<open>
  The client's end of the stream (\<open>src/client_gui.rs\<close>): the messages it sends, the loop that reads
  messages and emits events, and the handler of the events.
\<close>

section \<open>Sending\<close>

text \<open>The JSON renderings of actions and events are arguments; \<open>None\<close> is a serialisation error.\<close>

definition stream_command_message ::
  "(runtime_action \<Rightarrow> bytes option) \<Rightarrow> ('k \<Rightarrow> bytes option) \<Rightarrow> ('m \<Rightarrow> bytes option)
     \<Rightarrow> ('k, 'm) stream_command \<Rightarrow> (message_type \<times> bytes) option" where
  "stream_command_message render_action render_key render_mouse command =
     (case command of
        StreamRuntimeAction action \<Rightarrow> map_option (Pair MsgRuntimeAction) (render_action action)
      | StreamAppKeyEvent event \<Rightarrow> map_option (Pair MsgAppKeyEvent) (render_key event)
      | StreamAppMouseEvent event \<Rightarrow> map_option (Pair MsgAppMouseEvent) (render_mouse event)
      | StreamExecuteCommand input \<Rightarrow> Some (MsgExecuteCommand, input)
      | StreamInput input_seq bs \<Rightarrow> Some (MsgInput, le64 input_seq @ bs)
      | StreamKey input_seq keyspec \<Rightarrow> Some (MsgKey, le64 input_seq @ keyspec))"

text \<open>\<open>write_stream_message\<close>: the frame, then a flush.\<close>

definition write_stream_message :: "message_type \<Rightarrow> bytes \<Rightarrow> out_stream \<Rightarrow> bool \<times> out_stream" where
  "write_stream_message ty payload s =
     (case write_all (encode_message ty payload) s of
        (False, s1) \<Rightarrow> (False, s1)
      | (True, s1) \<Rightarrow> flush_stream s1)"

text \<open>The writer thread: the commands in order; \<open>False\<close> when it ends with a \<open>Disconnected\<close> event.\<close>

fun stream_writer ::
  "(runtime_action \<Rightarrow> bytes option) \<Rightarrow> ('k \<Rightarrow> bytes option) \<Rightarrow> ('m \<Rightarrow> bytes option)
     \<Rightarrow> ('k, 'm) stream_command list \<Rightarrow> out_stream \<Rightarrow> bool \<times> out_stream" where
  "stream_writer ra rk rm [] s = (True, s)"
| "stream_writer ra rk rm (command # commands) s =
     (case stream_command_message ra rk rm command of
        None \<Rightarrow> (False, s)
      | Some (ty, payload) \<Rightarrow>
          (case write_stream_message ty payload s of
             (False, s1) \<Rightarrow> (False, s1)
           | (True, s1) \<Rightarrow> stream_writer ra rk rm commands s1))"

section \<open>Lossy text\<close>

text \<open>The replacement character, and \<open>String::from_utf8_lossy\<close>: each maximal bad prefix is replaced.\<close>

definition REPLACEMENT :: bytes where "REPLACEMENT = [0xEF, 0xBF, 0xBD]"

definition second_ok :: "u8 \<Rightarrow> u8 \<Rightarrow> bool" where
  "second_ok a b \<longleftrightarrow> cont_byte b \<and> (a = 0xE0 \<longrightarrow> 0xA0 \<le> b) \<and> (a = 0xED \<longrightarrow> b \<le> 0x9F)
     \<and> (a = 0xF0 \<longrightarrow> 0x90 \<le> b) \<and> (a = 0xF4 \<longrightarrow> b \<le> 0x8F)"

text \<open>How many continuation bytes of a sequence are there, at most the given number.\<close>

fun good_prefix :: "nat \<Rightarrow> bytes \<Rightarrow> nat" where
  "good_prefix (Suc n) (b # bs) = (if cont_byte b then Suc (good_prefix n bs) else 0)"
| "good_prefix n bs = 0"

definition tail_len :: "u8 \<Rightarrow> bytes \<Rightarrow> nat" where
  "tail_len a bs =
     (case bs of
        [] \<Rightarrow> 0
      | b # r \<Rightarrow> if second_ok a b then Suc (good_prefix (utf8_len a - 2) r) else 0)"

function from_utf8_lossy :: "bytes \<Rightarrow> rust_string" where
  "from_utf8_lossy [] = []"
| "from_utf8_lossy (a # bs) =
     (if utf8_len a = 1 then a # from_utf8_lossy bs
      else if utf8_len a = 0 then REPLACEMENT @ from_utf8_lossy bs
      else
        let k = tail_len a bs
        in if k = utf8_len a - 1 then a # take k bs @ from_utf8_lossy (drop k bs)
           else REPLACEMENT @ from_utf8_lossy (drop k bs))"
  by pat_completeness auto
termination by (relation "measure length") auto

section \<open>Events\<close>

datatype local_stream_event =
    EvTabList "remote_tab_info list"
  | EvUiRuntimeState ui_runtime_state
  | EvUiAppearance ui_appearance
  | EvUiPaneFullState u64 u64 remote_full_state
  | EvUiPaneDelta u64 u64 remote_delta
  | EvTabExited
  | EvDisconnected
  | EvFullState "u64 option" remote_full_state
  | EvDelta "u64 option" remote_delta
  | EvError rust_string

text \<open>The JSON decoders of the two interface messages are arguments.\<close>

definition decode_stream_event ::
  "(bytes \<Rightarrow> ui_runtime_state option) \<Rightarrow> (bytes \<Rightarrow> ui_appearance option)
     \<Rightarrow> message_type \<Rightarrow> bytes \<Rightarrow> local_stream_event option" where
  "decode_stream_event json_runtime json_appearance ty payload =
     (case ty of
        MsgTabList \<Rightarrow> map_option EvTabList (decode_remote_tab_list payload)
      | MsgUiRuntimeState \<Rightarrow> map_option EvUiRuntimeState (json_runtime payload)
      | MsgUiAppearance \<Rightarrow> map_option EvUiAppearance (json_appearance payload)
      | MsgUiPaneFullState \<Rightarrow>
          map_option (\<lambda>(pane_id, runtime_revision, state). EvUiPaneFullState pane_id runtime_revision state)
            (decode_remote_pane_full_state payload)
      | MsgUiPaneDelta \<Rightarrow>
          map_option (\<lambda>(pane_id, runtime_revision, delta). EvUiPaneDelta pane_id runtime_revision delta)
            (decode_remote_pane_delta payload)
      | MsgTabExited \<Rightarrow> map_option (\<lambda>_. EvTabExited) (decode_u32 payload)
      | MsgFullState \<Rightarrow>
          map_option (\<lambda>(ack_input_seq, state). EvFullState ack_input_seq state) (decode_remote_full_state payload)
      | MsgDelta \<Rightarrow>
          map_option (\<lambda>(ack_input_seq, delta). EvDelta ack_input_seq delta) (decode_remote_delta payload)
      | MsgErrorMsg \<Rightarrow> Some (EvError (from_utf8_lossy payload))
      | _ \<Rightarrow> None)"

function read_local_stream_loop ::
  "(bytes \<Rightarrow> ui_runtime_state option) \<Rightarrow> (bytes \<Rightarrow> ui_appearance option) \<Rightarrow> stream \<Rightarrow> local_stream_event list" where
  "read_local_stream_loop jr ja s =
     (case read_message s of
        (Inl k, s1) \<Rightarrow> [EvDisconnected]
      | (Inr (ty, payload), s1) \<Rightarrow>
          (case decode_stream_event jr ja ty payload of
             Some event \<Rightarrow> event # read_local_stream_loop jr ja s1
           | None \<Rightarrow> read_local_stream_loop jr ja s1))"
  by pat_completeness auto
termination
  by (relation "measure (\<lambda>(jr, ja, s). stream_size s)") (auto dest: sym [THEN read_message_progress])

declare read_local_stream_loop.simps [simp del]

text \<open>\<open>"boo server stream disconnected"\<close>\<close>

definition STREAM_DISCONNECTED :: rust_string where
  "STREAM_DISCONNECTED = map (\<lambda>c. of_char c) ''boo server stream disconnected''"

text \<open>Inserting the view of a full state under a pane, with fresh row revisions.\<close>

definition insert_full_snapshot :: "u64 \<Rightarrow> remote_full_state \<Rightarrow> u64 \<Rightarrow> ('k, 'm) client_app \<Rightarrow> ('k, 'm) client_app" where
  "insert_full_snapshot pane_id state revision_seed app =
     app\<lparr>ca_pane_snapshots := (ca_pane_snapshots app)(pane_id \<mapsto>
       remote_full_state_to_vt_snapshot state revision_seed (ca_terminal_foreground app)
         (ca_terminal_background app) (ca_cursor_color app))\<rparr>"

definition apply_delta_to_pane :: "u64 \<Rightarrow> remote_delta \<Rightarrow> ('k, 'm) client_app \<Rightarrow> ('k, 'm) client_app" where
  "apply_delta_to_pane pane_id delta app =
     (case ca_pane_snapshots app pane_id of
        Some snapshot \<Rightarrow>
          app\<lparr>ca_pane_snapshots := (ca_pane_snapshots app)(pane_id \<mapsto> apply_remote_delta_snapshot delta snapshot)\<rparr>
      | None \<Rightarrow> app)"

fun handle_stream_event ::
  "(real \<Rightarrow> rust_string option \<Rightarrow> f64 \<times> f64) \<Rightarrow> instant \<Rightarrow> local_stream_event \<Rightarrow> ('k, 'm) client_app \<Rightarrow> ('k, 'm) client_app" where
  "handle_stream_event metrics now (EvTabList tabs) app =
     (let live_tabs = filter (\<lambda>tab. \<not> rt_child_exited tab) tabs;
          app1 = apply_remote_tabs tabs app
      in if ca_mode app1 = Active
            \<and> (case ca_active_remote_tab_id app1 of
                 Some tab_id \<Rightarrow> list_ex (\<lambda>tab. rt_id tab = tab_id) live_tabs | None \<Rightarrow> False)
         then app1\<lparr>ca_should_exit := False\<rparr>
         else if ca_mode app1 = Bootstrapping \<and> \<not> has_paintable_terminal app1 \<and> live_tabs = []
         then send_runtime_action (NewTab (ca_runtime_view_id app1) None None) app1
         else app1\<lparr>ca_should_exit := (live_tabs = [])\<rparr>)"
| "handle_stream_event metrics now (EvUiRuntimeState state) app =
     (let app1 = apply_ui_runtime_state now state app
      in if ca_mode app1 = Bootstrapping \<and> \<not> has_paintable_terminal app1 \<and> cui_tabs (ca_ui_state app1) = []
         then send_runtime_action (NewTab (ca_runtime_view_id app1) None None) app1
         else app1)"
| "handle_stream_event metrics now (EvUiAppearance appearance) app =
     apply_ui_appearance metrics now appearance app"
| "handle_stream_event metrics now (EvUiPaneFullState pane_id runtime_revision state) app =
     (if runtime_revision \<noteq> 0 \<and> runtime_revision < ca_runtime_revision app then app
      else
        let (revision_seed, app1) = allocate_full_snapshot_revision_seed (unat (fs_rows state)) app;
            (generation, app2) = allocate_snapshot_generation app1;
            app3 = insert_full_snapshot pane_id state revision_seed
                     (app2\<lparr>ca_terminal_snapshot_generation := generation\<rparr>)
        in observe_focused_cursor_position now (app3\<lparr>ca_bootstrapped := True, ca_last_error := None\<rparr>))"
| "handle_stream_event metrics now (EvUiPaneDelta pane_id runtime_revision delta) app =
     (if runtime_revision \<noteq> 0 \<and> runtime_revision \<noteq> ca_runtime_revision app then app
      else observe_focused_cursor_position now (apply_delta_to_pane pane_id delta app))"
| "handle_stream_event metrics now EvTabExited app = app"
| "handle_stream_event metrics now EvDisconnected app =
     app\<lparr>ca_stream_tx := None, ca_mode := Recovering, ca_pending_input_latencies := Map.empty,
         ca_should_exit := False, ca_last_error := Some STREAM_DISCONNECTED\<rparr>"
| "handle_stream_event metrics now (EvFullState ack_input_seq state) app =
     (let (revision_seed, app1) = allocate_full_snapshot_revision_seed (unat (fs_rows state))
            (app\<lparr>ca_mode := Active\<rparr>);
          (generation, app2) = allocate_snapshot_generation app1;
          app3 = app2\<lparr>ca_terminal_snapshot_generation := generation\<rparr>;
          app4 = (if ca_focused_pane_id app3 \<noteq> 0
                  then insert_full_snapshot (ca_focused_pane_id app3) state revision_seed app3 else app3)
      in acknowledge_input_latency ack_input_seq
           (observe_focused_cursor_position now (app4\<lparr>ca_bootstrapped := True, ca_last_error := None\<rparr>)))"
| "handle_stream_event metrics now (EvDelta ack_input_seq delta) app =
     acknowledge_input_latency ack_input_seq
       (observe_focused_cursor_position now (apply_delta_to_pane (ca_focused_pane_id app) delta app))"
| "handle_stream_event metrics now (EvError error) app = app\<lparr>ca_last_error := Some error\<rparr>"

definition handle_stream_events ::
  "(real \<Rightarrow> rust_string option \<Rightarrow> f64 \<times> f64) \<Rightarrow> instant \<Rightarrow> local_stream_event list \<Rightarrow> ('k, 'm) client_app \<Rightarrow> ('k, 'm) client_app" where
  "handle_stream_events metrics now events app =
     foldl (\<lambda>a e. handle_stream_event metrics now e a) app events"

definition activate_tab :: "u32 \<Rightarrow> ('k, 'm) client_app \<Rightarrow> ('k, 'm) client_app" where
  "activate_tab tab_id app =
     (let ui = ca_ui_state app;
          ui1 = (case position (\<lambda>tab. ct_tab_id tab = Some tab_id) (cui_tabs ui) of
                   Some index \<Rightarrow> ui\<lparr>cui_active_tab := index,
                      cui_tabs := map (\<lambda>tab. tab\<lparr>ct_active := (ct_tab_id tab = Some tab_id)\<rparr>) (cui_tabs ui)\<rparr>
                 | None \<Rightarrow> ui);
          app1 = app\<lparr>ca_ui_state := ui1, ca_active_remote_tab_id := Some tab_id\<rparr>
      in send_runtime_action (SetViewedTab (ca_runtime_view_id app1) tab_id) app1)"

end
