(* ===== verification/SessionSync.thy ===== *)
theory SessionSync
  imports RemoteFanout ClientStream ScreenProps WireProps
begin

text \<open>
  A session: the daemon on one side of a local socket, the desktop client on the other. The client
  reads the messages of its connection in the order they were queued (a local socket has its own
  writer, which does not coalesce). The invariant says that the client's panes show what the server
  believes to have shown; the inductive relations say under which discipline it holds.
\<close>

section \<open>Frames and events\<close>

type_synonym runtime_json = "bytes \<Rightarrow> ui_runtime_state option"
type_synonym appearance_json = "bytes \<Rightarrow> ui_appearance option"

text \<open>The event the client makes of one queued message.\<close>

definition frame_event :: "runtime_json \<Rightarrow> appearance_json \<Rightarrow> outbound_message \<Rightarrow> local_stream_event option" where
  "frame_event jr ja m =
     (case read_message [Chunk (message_frame m)] of
        (Inl k, s) \<Rightarrow> None
      | (Inr (ty, payload), s) \<Rightarrow> decode_stream_event jr ja ty payload)"

lemma frame_event_encode:
  assumes "message_frame m = encode_message ty payload" and "length payload < 2 ^ 32"
  shows "frame_event jr ja m = decode_stream_event jr ja ty payload"
proof -
  have "live [Chunk (message_frame m)]" "stream_bytes [Chunk (message_frame m)] = encode_message ty payload @ []"
    using assms(1) by (simp_all add: encode_message_def MAGIC_def)
  from read_message_live [OF this assms(2)] obtain s' where
    "read_message [Chunk (message_frame m)] = (Inr (ty, payload), s')" by blast
  then show ?thesis by (simp add: frame_event_def)
qed

lemma read_exact_eof: "live s \<Longrightarrow> stream_bytes s = [] \<Longrightarrow> 0 < n \<Longrightarrow> fst (read_exact n s) = Inl UnexpectedEof"
  by (induction s rule: stream_bytes.induct) (simp_all add: read_exact.simps [of n])

lemma read_message_eof: "live s \<Longrightarrow> stream_bytes s = [] \<Longrightarrow> fst (read_message s) = Inl UnexpectedEof"
  using read_exact_eof [of s HEADER_LEN]
  by (auto simp: read_message_def HEADER_LEN_def split: prod.splits sum.splits)

text \<open>The reader thread on a stream that carries these frames emits these events, and then says that
  the connection is gone.\<close>

lemma reader_events:
  assumes "live s" and "stream_bytes s = concat (map (\<lambda>(ty, p). encode_message ty p) ms)"
    and "\<forall>(ty, p) \<in> set ms. length p < 2 ^ 32"
  shows "read_local_stream_loop jr ja s
    = List.map_filter (\<lambda>(ty, p). decode_stream_event jr ja ty p) ms @ [EvDisconnected]"
  using assms
proof (induction ms arbitrary: s)
  case Nil
  have "fst (read_message s) = Inl UnexpectedEof"
    using read_message_eof [of s] Nil.prems(1,2) by simp
  then show ?case
    by (cases "read_message s") (simp add: read_local_stream_loop.simps [of jr ja s] map_filter_def)
next
  case (Cons m ms)
  obtain ty p where m: "m = (ty, p)" by fastforce
  from read_message_live [of s ty p "concat (map (\<lambda>(ty, p). encode_message ty p) ms)"] Cons.prems m
  obtain s1 where s1: "read_message s = (Inr (ty, p), s1)" "live s1"
    "stream_bytes s1 = concat (map (\<lambda>(ty, p). encode_message ty p) ms)" by auto
  have "read_local_stream_loop jr ja s1
      = List.map_filter (\<lambda>(ty, p). decode_stream_event jr ja ty p) ms @ [EvDisconnected]"
    by (rule Cons.IH [OF s1(2,3)]) (use Cons.prems(3) in simp)
  then show ?case
    using s1(1) m by (simp add: read_local_stream_loop.simps [of jr ja s] map_filter_def split: option.splits)
qed

text \<open>What a client has become when it has handled the events of some messages.\<close>

definition deliver ::
  "runtime_json \<Rightarrow> appearance_json \<Rightarrow> (real \<Rightarrow> rust_string option \<Rightarrow> f64 \<times> f64) \<Rightarrow> instant
     \<Rightarrow> outbound_message list \<Rightarrow> ('k, 'm) client_app \<Rightarrow> ('k, 'm) client_app" where
  "deliver jr ja metrics now msgs app =
     handle_stream_events metrics now (List.map_filter (frame_event jr ja) msgs) app"

lemma deliver_Nil [simp]: "deliver jr ja metrics now [] app = app"
  by (simp add: deliver_def handle_stream_events_def map_filter_def)

lemma deliver_one:
  "deliver jr ja metrics now [m] app =
     (case frame_event jr ja m of None \<Rightarrow> app | Some e \<Rightarrow> handle_stream_event metrics now e app)"
  by (simp add: deliver_def handle_stream_events_def map_filter_def split: option.splits)

section \<open>The part of the client's state that screens depend on\<close>

definition screen_of :: "('k, 'm) client_app \<Rightarrow>
    (u64 \<rightharpoonup> terminal_snapshot) \<times> u64 \<times> u64 \<times> u64 \<times> rgb \<times> rgb" where
  "screen_of app = (ca_pane_snapshots app, ca_focused_pane_id app, ca_view_revision app,
     ca_runtime_revision app, ca_terminal_foreground app, ca_terminal_background app)"

lemma screen_observe [simp]: "screen_of (observe_focused_cursor_position now app) = screen_of app"
  by (simp add: screen_of_def observe_focused_cursor_position_def Let_def)

lemma screen_acknowledge [simp]: "screen_of (acknowledge_input_latency ack app) = screen_of app"
  by (simp add: screen_of_def acknowledge_input_latency_def split: option.splits)

lemma screen_send_action [simp]: "screen_of (send_runtime_action action app) = screen_of app"
  by (simp add: screen_of_def send_runtime_action_def send_stream_command_def split: option.splits)

lemma screen_remote_tabs [simp]: "screen_of (apply_remote_tabs tabs app) = screen_of app"
  by (simp add: screen_of_def apply_remote_tabs_def)

lemma screen_exit [simp]: "screen_of (app\<lparr>ca_should_exit := b\<rparr>) = screen_of app"
  by (simp add: screen_of_def)

lemma screen_error [simp]: "screen_of (app\<lparr>ca_last_error := e\<rparr>) = screen_of app"
  by (simp add: screen_of_def)

lemma screen_tab_list: "screen_of (handle_stream_event metrics now (EvTabList tabs) app) = screen_of app"
  by (simp add: Let_def)

lemma screen_runtime_state:
  "screen_of (handle_stream_event metrics now (EvUiRuntimeState state) app) =
     (if ca_view_revision app \<noteq> 0 \<and> rs_view_revision state \<noteq> ca_view_revision app then Map.empty
        else ca_pane_snapshots app,
      rs_focused_pane state, rs_view_revision state, rs_runtime_revision state,
      ca_terminal_foreground app, ca_terminal_background app)"
proof -
  have "screen_of (apply_ui_runtime_state now state app) =
     (if ca_view_revision app \<noteq> 0 \<and> rs_view_revision state \<noteq> ca_view_revision app then Map.empty
        else ca_pane_snapshots app,
      rs_focused_pane state, rs_view_revision state, rs_runtime_revision state,
      ca_terminal_foreground app, ca_terminal_background app)"
    by (simp add: screen_of_def apply_ui_runtime_state_def observe_focused_cursor_position_def Let_def
        split: option.splits)
  then show ?thesis by (simp add: Let_def)
qed

lemma screen_appearance:
  "screen_of (handle_stream_event metrics now (EvUiAppearance ap) app) =
     (ca_pane_snapshots app, ca_focused_pane_id app, ca_view_revision app, ca_runtime_revision app,
      ap_terminal_foreground ap, ap_terminal_background ap)"
  by (simp add: screen_of_def apply_ui_appearance_def Let_def)

lemma screen_full:
  "ca_focused_pane_id app \<noteq> 0 \<Longrightarrow>
   screen_of (handle_stream_event metrics now (EvFullState ack state) app) =
     ((ca_pane_snapshots app)(ca_focused_pane_id app \<mapsto>
         remote_full_state_to_vt_snapshot state (ca_next_full_snapshot_revision app)
           (ca_terminal_foreground app) (ca_terminal_background app) (ca_cursor_color app)),
      ca_focused_pane_id app, ca_view_revision app, ca_runtime_revision app,
      ca_terminal_foreground app, ca_terminal_background app)"
  by (simp add: Let_def allocate_full_snapshot_revision_seed_def allocate_snapshot_generation_def
      insert_full_snapshot_def) (simp add: screen_of_def)

lemma screen_pane_full:
  "\<not> (runtime_revision \<noteq> 0 \<and> runtime_revision < ca_runtime_revision app) \<Longrightarrow>
   screen_of (handle_stream_event metrics now (EvUiPaneFullState pane runtime_revision state) app) =
     ((ca_pane_snapshots app)(pane \<mapsto>
         remote_full_state_to_vt_snapshot state (ca_next_full_snapshot_revision app)
           (ca_terminal_foreground app) (ca_terminal_background app) (ca_cursor_color app)),
      ca_focused_pane_id app, ca_view_revision app, ca_runtime_revision app,
      ca_terminal_foreground app, ca_terminal_background app)"
  unfolding handle_stream_event.simps if_not_P
  by (simp add: Let_def allocate_full_snapshot_revision_seed_def allocate_snapshot_generation_def
      insert_full_snapshot_def) (simp add: screen_of_def)

lemma screen_delta:
  "ca_pane_snapshots app pane = Some snapshot \<Longrightarrow>
   screen_of (apply_delta_to_pane pane delta app) =
     ((ca_pane_snapshots app)(pane \<mapsto> apply_remote_delta_snapshot delta snapshot),
      ca_focused_pane_id app, ca_view_revision app, ca_runtime_revision app,
      ca_terminal_foreground app, ca_terminal_background app)"
  by (simp add: screen_of_def apply_delta_to_pane_def)

end
