(* ===== verification/SessionInv.thy ===== *)
theory SessionInv
  imports SessionSync
begin

text \<open>
  The steps of a session and its invariant: what the server records of a client (\<open>last_state\<close> for the
  focused pane, \<open>pane_states\<close> for the others) is what the client shows.
\<close>

section \<open>Sizes of screen frames\<close>

text \<open>A frame has a 32-bit length; the grids considered have at most \<open>2 ^ 24\<close> cells.\<close>

definition sendable :: "remote_full_state \<Rightarrow> bool" where
  "sendable st \<longleftrightarrow> fs_wf st \<and> unat (fs_rows st) * unat (fs_cols st) \<le> 2 ^ 24"

lemma length_concat_le: "(\<forall>x \<in> set xs. length (f x) \<le> b) \<Longrightarrow> length (concat (map f xs)) \<le> length xs * b"
  by (induction xs) auto

lemma length_trailer:
  "length (append_row_replica_trailer p st ids) \<le> length p + 600000"
proof -
  have "length (concat (map le64 (take 65535 ids))) \<le> length (take 65535 ids) * 8"
    by (rule length_concat_le) simp
  also have "\<dots> \<le> 65535 * 8" by (intro mult_le_mono1) simp
  finally show ?thesis
    by (simp add: append_row_replica_trailer_def ROW_REPLICA_TRAILER_MAGIC_def)
qed

lemma length_encode_full_state:
  assumes "sendable st" shows "length (encode_full_state st seq local) < 2 ^ 31"
proof -
  have "length (fs_cells st) \<le> 2 ^ 24" using assms by (simp add: sendable_def fs_wf_def)
  moreover have "length (encode_full_state st seq local) \<le> 22 + 12 * length (fs_cells st) + 600000"
    unfolding encode_full_state_def Let_def
    by (rule order_trans [OF length_trailer]) (simp add: input_seq_prefix_def)
  ultimately show ?thesis by simp
qed

lemma length_encode_delta:
  assumes "sendable previous" and "sendable current"
    and "encode_delta previous current seq local = Some (Some payload)"
  shows "length payload < 2 ^ 31"
proof -
  have g: "same_grid previous current"
    using assms(3) by (auto simp: encode_delta_def same_grid_def split: if_splits)
  have wf: "fs_wf previous" "fs_wf current" using assms(1,2) by (simp_all add: sendable_def)
  let ?rs = "delta_rows previous current" and ?rows = "unat (fs_rows current)" and ?cols = "unat (fs_cols current)"
  have len: "length (fs_cells previous) = ?rows * ?cols" "length (fs_cells current) = ?rows * ?cols"
    using wf g by (simp_all add: fs_wf_def same_grid_def)
  have seg: "length (encode_row_delta r) \<le> 6 + 12 * ?cols" if r: "r \<in> set ?rs" for r
  proof -
    from r obtain k where k: "k < ?rows"
      and ne: "row_of ?cols (fs_cells previous) k \<noteq> row_of ?cols (fs_cells current) k"
      and rk: "snd r = changed_segment (row_of ?cols (fs_cells previous) k) (row_of ?cols (fs_cells current) k)"
      by (auto simp: delta_rows_def changed_list_def)
    have l: "length (row_of ?cols (fs_cells previous) k) = ?cols" "length (row_of ?cols (fs_cells current) k) = ?cols"
      by (rule length_row_of [OF len(1) k], rule length_row_of [OF len(2) k])
    obtain f cs where fc: "snd r = (f, cs)" by fastforce
    have "f + length cs \<le> ?cols" using changed_segment_spec(1) [OF _ ne, of f cs] l rk fc by simp
    then show ?thesis using fc by (cases r) (simp add: encode_row_delta_def)
  qed
  have lr: "length ?rs \<le> ?rows"
    by (simp add: delta_rows_def changed_list_def) (metis length_filter_le length_upt minus_nat.diff_0)
  have "length (concat (map encode_row_delta ?rs)) \<le> length ?rs * (6 + 12 * ?cols)"
    by (rule length_concat_le) (use seg in blast)
  also have "\<dots> \<le> ?rows * (6 + 12 * ?cols)" using lr by (rule mult_le_mono1)
  also have "\<dots> = 6 * ?rows + 12 * (?rows * ?cols)" by (simp add: algebra_simps)
  also have "\<dots> \<le> 6 * 65536 + 12 * 2 ^ 24"
    using assms(2) unat_lt [of "fs_rows current"] by (simp add: sendable_def)
  finally have c: "length (concat (map encode_row_delta ?rs)) \<le> 6 * 65536 + 12 * 2 ^ 24" .
  obtain ids where p: "payload = append_row_replica_trailer
      (delta_header current seq local (length ?rs) @ concat (map encode_row_delta ?rs)) current ids"
    using assms(3) unfolding encode_delta_eq [OF wf g] by (auto split: if_splits)
  have "length payload \<le> length (delta_header current seq local (length ?rs)
      @ concat (map encode_row_delta ?rs)) + 600000"
    unfolding p by (rule length_trailer)
  also have "\<dots> \<le> 21 + (6 * 65536 + 12 * 2 ^ 24) + 600000"
    using c by (simp add: delta_header_def input_seq_prefix_def)
  also have "\<dots> < 2 ^ 31" by simp
  finally show ?thesis .
qed

section \<open>The invariant\<close>

text \<open>A snapshot mirrors a screen, whatever colour its cursor was drawn in. The client shows a screen in a
  pane.\<close>

definition mirrored :: "terminal_snapshot \<Rightarrow> remote_full_state \<Rightarrow> bool" where
  "mirrored snapshot st \<longleftrightarrow> (\<exists>cursor. mirrors snapshot st cursor)"

definition shows_screen :: "('k, 'm) client_app \<Rightarrow> u64 \<Rightarrow> remote_full_state \<Rightarrow> bool" where
  "shows_screen app pane st \<longleftrightarrow>
     (\<exists>snapshot. ca_pane_snapshots app pane = Some snapshot \<and> mirrored snapshot st)"

text \<open>The runtime state sent to the client last, and whether it has the current revision of the view.\<close>

definition announced :: "runtime_json \<Rightarrow> client_runtime_view \<Rightarrow> ui_runtime_state option" where
  "announced jr v = (case last_ui_runtime_state_payload v of None \<Rightarrow> None | Some p \<Rightarrow> jr p)"

definition up_to_date :: "runtime_json \<Rightarrow> client_runtime_view \<Rightarrow> bool" where
  "up_to_date jr v \<longleftrightarrow> (\<exists>rs. announced jr v = Some rs \<and> rs_view_revision rs = view_revision v)"

definition default_theme :: "('k, 'm) client_app \<Rightarrow> bool" where
  "default_theme app \<longleftrightarrow> ca_terminal_foreground app = DEFAULT_TERMINAL_FOREGROUND
     \<and> ca_terminal_background app = DEFAULT_TERMINAL_BACKGROUND"

definition heard :: "runtime_json \<Rightarrow> client_runtime_view \<Rightarrow> ('k, 'm) client_app \<Rightarrow> bool" where
  "heard jr v app \<longleftrightarrow>
     (last_ui_runtime_state_payload v \<noteq> None \<longrightarrow>
        (\<exists>rs. announced jr v = Some rs \<and> ca_view_revision app = rs_view_revision rs
           \<and> ca_runtime_revision app = rs_runtime_revision rs \<and> ca_focused_pane_id app = rs_focused_pane rs))"

definition focused_synced :: "runtime_json \<Rightarrow> client_runtime_view \<Rightarrow> ('k, 'm) client_app \<Rightarrow> bool" where
  "focused_synced jr v app \<longleftrightarrow>
     (\<forall>st. last_state v = Some st \<longrightarrow> up_to_date jr v \<and> sendable st \<and> ca_focused_pane_id app \<noteq> 0
        \<and> shows_screen app (ca_focused_pane_id app) st)"

definition panes_synced :: "runtime_json \<Rightarrow> client_runtime_view \<Rightarrow> ('k, 'm) client_app \<Rightarrow> bool" where
  "panes_synced jr v app \<longleftrightarrow>
     (\<forall>pane st. pane_states v pane = Some st \<longrightarrow> up_to_date jr v \<and> sendable st
        \<and> pane \<noteq> ca_focused_pane_id app \<and> shows_screen app pane st)"

definition in_sync :: "runtime_json \<Rightarrow> client_runtime_view \<Rightarrow> ('k, 'm) client_app \<Rightarrow> bool" where
  "in_sync jr v app \<longleftrightarrow> default_theme app \<and> heard jr v app \<and> focused_synced jr v app \<and> panes_synced jr v app"

lemmas sync_defs = in_sync_def default_theme_def heard_def focused_synced_def panes_synced_def
  up_to_date_def announced_def shows_screen_def

lemma in_sync_screen: "screen_of app = screen_of app' \<Longrightarrow> in_sync jr v app \<Longrightarrow> in_sync jr v app'"
  by (simp add: screen_of_def sync_defs)

text \<open>What of a view the invariant looks at.\<close>

definition stream_part :: "client_runtime_view \<Rightarrow>
    remote_full_state option \<times> (u64 \<rightharpoonup> remote_full_state) \<times> u64 \<times> bytes option" where
  "stream_part v = (last_state v, pane_states v, view_revision v, last_ui_runtime_state_payload v)"

lemma in_sync_view: "stream_part v = stream_part v' \<Longrightarrow> in_sync jr v app \<Longrightarrow> in_sync jr v' app"
  by (simp add: stream_part_def sync_defs)

text \<open>Forgetting screens keeps the invariant, whatever becomes of the revision.\<close>

lemma in_sync_clear:
  "in_sync jr v app \<Longrightarrow> last_ui_runtime_state_payload v' = last_ui_runtime_state_payload v \<Longrightarrow>
   last_state v' = None \<Longrightarrow> pane_states v' = Map.empty \<Longrightarrow> in_sync jr v' app"
  by (simp add: sync_defs)

lemma in_sync_retain:
  "in_sync jr v app \<Longrightarrow> in_sync jr (v\<lparr>pane_states := pane_states v |` visible\<rparr>) app"
  by (auto simp: sync_defs restrict_map_def)

end
