(* ===== verification/SessionSteps.thy ===== *)
theory SessionSteps
  imports SessionInv
begin

text \<open>
  The steps of the server towards one client, each as an operation of the model with the discipline
  under which the client stays in step, and the proof that it does.
\<close>

section \<open>Publishing a screen\<close>

lemma mirrors_trailer:
  "mirrors snapshot (st\<lparr>fs_epoch := 0, viewport_top := 0, scrollback_total := 0\<rparr>) cursor
    = mirrors snapshot st cursor"
  by (simp add: mirrors_def remote_full_state_to_vt_snapshot_def Let_def)

lemma shows_after_delta:
  assumes "sendable previous" and "sendable current"
    and "encode_delta previous current seq True = Some (Some payload)"
    and "mirrored snapshot previous"
  shows "mirrored (apply_remote_delta_snapshot (delta_of previous current) snapshot) current"
    and "decode_remote_delta payload = Some (ack_of seq, delta_of previous current)"
proof -
  have wf: "fs_wf previous" "fs_wf current" using assms(1,2) by (simp_all add: sendable_def)
  have g: "same_grid previous current"
    using assms(3) by (auto simp: encode_delta_def same_grid_def split: if_splits)
  show "mirrored (apply_remote_delta_snapshot (delta_of previous current) snapshot) current"
    using assms(4) delta_refines_aux [OF wf g] unfolding mirrored_def by blast
  show "decode_remote_delta payload = Some (ack_of seq, delta_of previous current)"
    by (rule decode_encoded_delta [OF wf g assms(3)])
qed

text \<open>What is published: the full state, or a delta against the state sent before.\<close>

lemma encode_publish_cases:
  assumes "encode_publish delta_ty full_ty previous nxt seq local = Some (ty, payload)"
  obtains (full) "ty = full_ty" "payload = encode_full_state nxt seq local"
    | (delta) prev where "previous = Some prev" "ty = delta_ty" "encode_delta prev nxt seq local = Some (Some payload)"
  using assms by (auto simp: encode_publish_def split: option.splits)

text \<open>A snapshot of the client is replaced by one that mirrors a new state.\<close>

definition pane_shown :: "('k, 'm) client_app \<Rightarrow> u64 \<Rightarrow> terminal_snapshot \<Rightarrow> ('k, 'm) client_app \<Rightarrow> bool" where
  "pane_shown app pane snapshot app' \<longleftrightarrow> screen_of app' =
     ((ca_pane_snapshots app)(pane \<mapsto> snapshot), ca_focused_pane_id app, ca_view_revision app,
      ca_runtime_revision app, ca_terminal_foreground app, ca_terminal_background app)"

lemma in_sync_show_focused:
  assumes "in_sync jr v app" and "up_to_date jr v" and "ca_focused_pane_id app \<noteq> 0" and "sendable nxt"
    and "pane_shown app (ca_focused_pane_id app) snapshot app'" and "mirrored snapshot nxt"
  shows "in_sync jr (v\<lparr>last_state := Some nxt\<rparr>) app'"
  using assms by (auto simp: pane_shown_def screen_of_def sync_defs)

lemma in_sync_show_pane:
  assumes "in_sync jr v app" and "up_to_date jr v" and "pane \<noteq> ca_focused_pane_id app" and "sendable nxt"
    and "pane_shown app pane snapshot app'" and "mirrored snapshot nxt"
  shows "in_sync jr (v\<lparr>pane_states := (pane_states v)(pane \<mapsto> nxt)\<rparr>) app'"
  using assms by (auto simp: pane_shown_def screen_of_def sync_defs)

lemma default_view_mirrors:
  "default_theme app \<Longrightarrow>
   mirrored (remote_full_state_to_vt_snapshot (st\<lparr>fs_epoch := 0, viewport_top := 0, scrollback_total := 0\<rparr>) seed
     (ca_terminal_foreground app) (ca_terminal_background app) cursor) st"
  using mirrors_full [of "st\<lparr>fs_epoch := 0, viewport_top := 0, scrollback_total := 0\<rparr>" seed cursor]
  unfolding mirrored_def default_theme_def mirrors_trailer by metis

lemma focused_published:
  assumes sync: "in_sync jr v app" and cur: "up_to_date jr v" and foc: "ca_focused_pane_id app \<noteq> 0"
    and nx: "sendable nxt"
    and enc: "encode_publish MsgDelta MsgFullState (last_state v) nxt seq True = Some (ty, payload)"
  shows "\<exists>e. decode_stream_event jr ja ty payload = Some e \<and> length payload < 2 ^ 32
    \<and> in_sync jr (v\<lparr>last_state := Some nxt\<rparr>) (handle_stream_event metrics now e app)"
  using enc
proof (cases rule: encode_publish_cases)
  case full
  let ?st = "nxt\<lparr>fs_epoch := 0, viewport_top := 0, scrollback_total := 0\<rparr>"
  let ?e = "EvFullState (ack_of seq) ?st"
  have wf: "fs_wf nxt" using nx by (simp add: sendable_def)
  have ev: "decode_stream_event jr ja ty payload = Some ?e"
    using full full_state_round_trip_aux [OF wf, of seq] by (simp add: decode_stream_event_def)
  have "default_theme app" using sync by (simp add: in_sync_def)
  from in_sync_show_focused [OF sync cur foc nx _ default_view_mirrors [OF this]]
  have "in_sync jr (v\<lparr>last_state := Some nxt\<rparr>) (handle_stream_event metrics now ?e app)"
    using screen_full [OF foc, of metrics now "ack_of seq" ?st] unfolding pane_shown_def by blast
  moreover have "length payload < 2 ^ 32" using length_encode_full_state [OF nx, of seq True] full by simp
  ultimately show ?thesis using ev by blast
next
  case (delta prev)
  have old: "sendable prev" "shows_screen app (ca_focused_pane_id app) prev"
    using sync delta(1) by (simp_all add: in_sync_def focused_synced_def)
  from old(2) obtain snapshot where sn: "ca_pane_snapshots app (ca_focused_pane_id app) = Some snapshot"
    "mirrored snapshot prev" by (auto simp: shows_screen_def)
  note d = shows_after_delta [OF old(1) nx delta(3) sn(2)]
  let ?e = "EvDelta (ack_of seq) (delta_of prev nxt)"
  have ev: "decode_stream_event jr ja ty payload = Some ?e"
    using delta(2) d(2) by (simp add: decode_stream_event_def)
  have "pane_shown app (ca_focused_pane_id app) (apply_remote_delta_snapshot (delta_of prev nxt) snapshot)
      (handle_stream_event metrics now ?e app)"
    using screen_delta [OF sn(1)] by (simp add: pane_shown_def)
  from in_sync_show_focused [OF sync cur foc nx this d(1)]
  have "in_sync jr (v\<lparr>last_state := Some nxt\<rparr>) (handle_stream_event metrics now ?e app)" .
  moreover have "length payload < 2 ^ 32" using length_encode_delta [OF old(1) nx delta(3)] by simp
  ultimately show ?thesis using ev by blast
qed

lemma pane_published:
  assumes sync: "in_sync jr v app" and cur: "up_to_date jr v" and other: "pane \<noteq> ca_focused_pane_id app"
    and rev: "runtime_revision = ca_runtime_revision app" and nx: "sendable nxt"
    and enc: "encode_publish MsgUiPaneDelta MsgUiPaneFullState (pane_states v pane) nxt None True = Some (ty, payload)"
    and q: "q = encode_ui_pane_update_payload tab pane revision runtime_revision payload"
  shows "\<exists>e. decode_stream_event jr ja ty q = Some e \<and> length q < 2 ^ 32
    \<and> in_sync jr (v\<lparr>pane_states := (pane_states v)(pane \<mapsto> nxt)\<rparr>) (handle_stream_event metrics now e app)"
  using enc
proof (cases rule: encode_publish_cases)
  case full
  let ?st = "nxt\<lparr>fs_epoch := 0, viewport_top := 0, scrollback_total := 0\<rparr>"
  let ?e = "EvUiPaneFullState pane runtime_revision ?st"
  have wf: "fs_wf nxt" using nx by (simp add: sendable_def)
  note h = pane_update_header [OF q]
  have ev: "decode_stream_event jr ja ty q = Some ?e"
    using full full_state_round_trip_aux [OF wf, of None] h
    by (simp add: decode_stream_event_def decode_remote_pane_full_state_def UI_PANE_UPDATE_HEADER_LEN_def)
  have nr: "\<not> (runtime_revision \<noteq> 0 \<and> runtime_revision < ca_runtime_revision app)" using rev by simp
  have "default_theme app" using sync by (simp add: in_sync_def)
  from in_sync_show_pane [OF sync cur other nx _ default_view_mirrors [OF this]]
  have "in_sync jr (v\<lparr>pane_states := (pane_states v)(pane \<mapsto> nxt)\<rparr>) (handle_stream_event metrics now ?e app)"
    using screen_pane_full [OF nr, of metrics now pane ?st] unfolding pane_shown_def by blast
  moreover have "length q < 2 ^ 32" using length_encode_full_state [OF nx, of None True] full h(1) by simp
  ultimately show ?thesis using ev by blast
next
  case (delta prev)
  have old: "sendable prev" "shows_screen app pane prev"
    using sync delta(1) by (simp_all add: in_sync_def panes_synced_def)
  from old(2) obtain snapshot where sn: "ca_pane_snapshots app pane = Some snapshot"
    "mirrored snapshot prev" by (auto simp: shows_screen_def)
  note d = shows_after_delta [OF old(1) nx delta(3) sn(2)]
  note h = pane_update_header [OF q]
  let ?e = "EvUiPaneDelta pane runtime_revision (delta_of prev nxt)"
  have ev: "decode_stream_event jr ja ty q = Some ?e"
    using delta(2) d(2) h
    by (simp add: decode_stream_event_def decode_remote_pane_delta_def UI_PANE_UPDATE_HEADER_LEN_def)
  have "pane_shown app pane (apply_remote_delta_snapshot (delta_of prev nxt) snapshot)
      (handle_stream_event metrics now ?e app)"
    using screen_delta [OF sn(1)] rev by (simp add: pane_shown_def)
  from in_sync_show_pane [OF sync cur other nx this d(1)]
  have "in_sync jr (v\<lparr>pane_states := (pane_states v)(pane \<mapsto> nxt)\<rparr>) (handle_stream_event metrics now ?e app)" .
  moreover have "length q < 2 ^ 32" using length_encode_delta [OF old(1) nx delta(3)] h(1) by simp
  ultimately show ?thesis using ev by blast
qed

section \<open>Steps\<close>

text \<open>The messages an operation has queued for a client.\<close>

definition fresh_messages :: "u64 \<Rightarrow> remote_state \<Rightarrow> remote_state \<Rightarrow> outbound_message list" where
  "fresh_messages i st st' =
     (case (clients st i, clients st' i) of
        (Some c, Some c') \<Rightarrow> drop (length (outbound c)) (outbound c')
      | _ \<Rightarrow> [])"

text \<open>The messages that change no screen: their events leave panes, focus, revisions and colours alone.\<close>

definition screenless :: "message_type \<Rightarrow> bool" where
  "screenless ty \<longleftrightarrow>
     ty \<notin> {MsgFullState, MsgDelta, MsgUiPaneFullState, MsgUiPaneDelta, MsgUiRuntimeState, MsgUiAppearance, MsgTabExited}"

definition default_appearance :: "ui_appearance \<Rightarrow> bool" where
  "default_appearance ap \<longleftrightarrow> ap_terminal_foreground ap = DEFAULT_TERMINAL_FOREGROUND
     \<and> ap_terminal_background ap = DEFAULT_TERMINAL_BACKGROUND"

text \<open>
  The operations of the server, seen from one client. A screen is published only when the runtime
  state that the client has been told carries the current revision of its view, a pane update with
  the runtime revision the client has been told, and the focus moves only together with a new view.
\<close>

inductive server_step :: "runtime_json \<Rightarrow> appearance_json \<Rightarrow> u64 \<Rightarrow> remote_state \<Rightarrow> remote_state \<Rightarrow> bool"
  for jr ja i where
  other: "clients st' i = clients st i \<Longrightarrow> server_step jr ja i st st'"
| publish_focused:
    "clients st i = Some c \<Longrightarrow> announced jr (runtime_view c) = Some rs \<Longrightarrow>
     rs_view_revision rs = view_revision (runtime_view c) \<Longrightarrow> rs_focused_pane rs \<noteq> 0 \<Longrightarrow> sendable nxt \<Longrightarrow>
     send_state_to_client i nxt st = Some st' \<Longrightarrow> server_step jr ja i st st'"
| publish_pane:
    "clients st i = Some c \<Longrightarrow> announced jr (runtime_view c) = Some rs \<Longrightarrow>
     rs_view_revision rs = view_revision (runtime_view c) \<Longrightarrow> pane \<noteq> rs_focused_pane rs \<Longrightarrow> sendable nxt \<Longrightarrow>
     send_pane_state_to_client i tab pane revision (rs_runtime_revision rs) nxt st = Some st' \<Longrightarrow>
     server_step jr ja i st st'"
| announce:
    "clients st i = Some c \<Longrightarrow> jr payload = Some rs \<Longrightarrow> length payload < 2 ^ 32 \<Longrightarrow>
     rs_view_revision rs = view_revision (runtime_view c) \<Longrightarrow>
     (last_state (runtime_view c) = None \<and> pane_states (runtime_view c) = Map.empty)
       \<or> (\<exists>old. announced jr (runtime_view c) = Some old \<and> rs_focused_pane old = rs_focused_pane rs) \<Longrightarrow>
     server_step jr ja i st (send_ui_runtime_state i (Some payload) st)"
| appearance:
    "\<forall>ap. ja payload = Some ap \<longrightarrow> default_appearance ap \<Longrightarrow> length payload < 2 ^ 32 \<Longrightarrow>
     server_step jr ja i st (send_ui_appearance i (Some payload) st)"
| tab_list: "length (encode_tab_list tabs) < 2 ^ 32 \<Longrightarrow> server_step jr ja i st (send_tab_list i tabs st)"
| tab_list_reply: "length (encode_tab_list tabs) < 2 ^ 32 \<Longrightarrow> server_step jr ja i st (reply_tab_list i tabs st)"
| direct: "screenless ty \<Longrightarrow> length payload < 2 ^ 32 \<Longrightarrow> server_step jr ja i st (send_to_client i ty payload st)"
| note_view:
    "\<forall>v. stream_part (update v) = stream_part v \<Longrightarrow> server_step jr ja i st (update_client_view i update st)"
| touch:
    "\<forall>v. last_ui_runtime_state_payload (update v) = last_ui_runtime_state_payload v \<Longrightarrow>
     server_step jr ja i st (update_client_view i (\<lambda>v. touch_view (update v)) st)"
| input_seq: "server_step jr ja i st (record_input_seq i seq st)"
| subscribe: "server_step jr ja i st (subscribe_client_to_runtime i st)"
| unsubscribe: "server_step jr ja i st (unsubscribe_client_from_runtime i st)"
| initialize: "server_step jr ja i st (initialize_client_view i tab pane visible st)"
| sweep: "server_step jr ja i st (snd (sweep_idle_views order timeout now st))"
| retain: "server_step jr ja i st (retain_local_viewer_pane_states visible st)"

definition synced :: "runtime_json \<Rightarrow> u64 \<Rightarrow> remote_state \<Rightarrow> ('k, 'm) client_app \<Rightarrow> bool" where
  "synced jr i st app \<longleftrightarrow>
     (\<exists>c. clients st i = Some c \<and> is_local c \<and> in_sync jr (runtime_view c) app)"

text \<open>An operation either queues nothing or one message.\<close>

lemma synced_silent:
  assumes "clients st i = Some c" and "clients st' i = Some c'" and "outbound c' = outbound c" and "is_local c'"
    and "in_sync jr (runtime_view c') app"
  shows "synced jr i st' (deliver jr ja metrics now (fresh_messages i st st') app)"
  using assms by (simp add: synced_def fresh_messages_def)

lemma synced_message:
  assumes "clients st i = Some c" and "clients st' i = Some c'" and "outbound c' = outbound c @ [m]"
    and "is_local c'" and "message_frame m = encode_message ty payload" and "length payload < 2 ^ 32"
    and "in_sync jr (runtime_view c')
      (case decode_stream_event jr ja ty payload of None \<Rightarrow> app | Some e \<Rightarrow> handle_stream_event metrics now e app)"
  shows "synced jr i st' (deliver jr ja metrics now (fresh_messages i st st') app)"
proof -
  have "fresh_messages i st st' = [m]" using assms(1-3) by (simp add: fresh_messages_def)
  then show ?thesis
    using assms(2,4,7) frame_event_encode [OF assms(5,6), of jr ja]
    by (simp add: synced_def deliver_one)
qed

lemma synced_view:
  assumes "clients st i = Some c" and "is_local c" and "in_sync jr (f (runtime_view c)) app"
  shows "synced jr i (update_client_view i f st)
    (deliver jr ja metrics now (fresh_messages i st (update_client_view i f st)) app)"
  by (rule synced_silent [OF assms(1), where c' = "c\<lparr>runtime_view := f (runtime_view c)\<rparr>"])
     (use assms in \<open>simp_all add: update_client_view_def update_client_clients\<close>)

text \<open>A cached control payload: nothing when the client has it, else one frame.\<close>

lemma synced_cached:
  assumes c: "clients st i = Some c" and l: "is_local c" and s: "in_sync jr (runtime_view c) app"
    and len: "length payload < 2 ^ 32"
    and ev: "cache_slot slot (runtime_view c) \<noteq> Some payload \<Longrightarrow>
      in_sync jr (set_cache_slot slot payload (runtime_view c))
        (case decode_stream_event jr ja ty payload of None \<Rightarrow> app | Some e \<Rightarrow> handle_stream_event metrics now e app)"
    and st': "st' = send_cached_control_payload_bytes i ty payload slot st"
  shows "synced jr i st' (deliver jr ja metrics now (fresh_messages i st st') app)"
proof (cases "cache_slot slot (runtime_view c) = Some payload")
  case True
  then have "clients st' i = Some c" using c by (simp add: st' cached_send_clients cached_act_def)
  with c l s show ?thesis by (intro synced_silent) auto
next
  case False
  then have "clients st' i = Some (send_outbound (Frame (encode_message ty payload))
      (c\<lparr>runtime_view := set_cache_slot slot payload (runtime_view c)\<rparr>))"
    using c by (simp add: st' cached_send_clients cached_act_def)
  from synced_message [OF c this _ _ _ len, where m = "Frame (encode_message ty payload)" and ty = ty]
  show ?thesis using l ev [OF False] by (simp add: send_outbound_def)
qed

lemma screenless_event:
  assumes "screenless ty" and "decode_stream_event jr ja ty payload = Some e"
  shows "screen_of (handle_stream_event metrics now e app) = screen_of app"
proof -
  have "(\<exists>tabs. e = EvTabList tabs) \<or> (\<exists>text. e = EvError text)"
    using assms by (cases ty) (auto simp: decode_stream_event_def screenless_def)
  then show ?thesis using screen_tab_list [of metrics now _ app] by auto
qed

lemma in_sync_screenless:
  assumes "in_sync jr v app" and "screenless ty"
  shows "in_sync jr v
    (case decode_stream_event jr ja ty payload of None \<Rightarrow> app | Some e \<Rightarrow> handle_stream_event metrics now e app)"
proof (cases "decode_stream_event jr ja ty payload")
  case (Some e)
  from in_sync_screen [OF screenless_event [OF assms(2) Some, symmetric] assms(1)] Some show ?thesis by simp
qed (use assms in simp)

section \<open>Every step keeps the invariant\<close>

lemma heard_announced: "in_sync jr v app \<Longrightarrow> announced jr v = Some rs \<Longrightarrow>
    ca_view_revision app = rs_view_revision rs \<and> ca_runtime_revision app = rs_runtime_revision rs
    \<and> ca_focused_pane_id app = rs_focused_pane rs"
  by (auto simp: in_sync_def heard_def announced_def split: option.splits)

lemma publish_focused_keeps:
  assumes c: "clients st i = Some c" and l: "is_local c" and s: "in_sync jr (runtime_view c) app"
    and a: "announced jr (runtime_view c) = Some rs" and r: "rs_view_revision rs = view_revision (runtime_view c)"
    and f: "rs_focused_pane rs \<noteq> 0" and nx: "sendable nxt" and p: "send_state_to_client i nxt st = Some st'"
  shows "synced jr i st' (deliver jr ja metrics now (fresh_messages i st st') app)"
proof (cases "subscribed_to_runtime (runtime_view c)")
  case False
  then have "st' = st" using p c by (simp add: send_state_to_client_def read_publish_state_def)
  with c l s show ?thesis by (intro synced_silent) auto
next
  case True
  let ?v = "runtime_view c"
  from p c True l obtain ty payload where
    e: "encode_publish MsgDelta MsgFullState (last_state ?v) nxt (latest_input_seq ?v) True = Some (ty, payload)"
    and st': "st' = commit_state i nxt ty payload st"
    by (auto simp: send_state_to_client_def read_publish_state_def split: option.splits prod.splits)
  have cur: "up_to_date jr ?v" using a r by (simp add: up_to_date_def)
  have foc: "ca_focused_pane_id app \<noteq> 0" using heard_announced [OF s a] f by simp
  from focused_published [OF s cur foc nx e, of ja metrics now] obtain ev where
    ev: "decode_stream_event jr ja ty payload = Some ev" "length payload < 2 ^ 32"
      "in_sync jr (?v\<lparr>last_state := Some nxt\<rparr>) (handle_stream_event metrics now ev app)" by blast
  have c': "clients st' i = Some (send_outbound (ScreenUpdate (encode_message ty payload))
      (c\<lparr>runtime_view := ?v\<lparr>last_state := Some nxt\<rparr>\<rparr>))"
    using c True by (simp add: st' commit_state_def update_client_clients)
  show ?thesis
    by (rule synced_message [OF c c', where m = "ScreenUpdate (encode_message ty payload)" and ty = ty
        and payload = payload]) (use l ev in \<open>simp_all add: send_outbound_def\<close>)
qed

lemma publish_pane_keeps:
  assumes c: "clients st i = Some c" and l: "is_local c" and s: "in_sync jr (runtime_view c) app"
    and a: "announced jr (runtime_view c) = Some rs" and r: "rs_view_revision rs = view_revision (runtime_view c)"
    and f: "pane \<noteq> rs_focused_pane rs" and nx: "sendable nxt"
    and p: "send_pane_state_to_client i tab pane revision (rs_runtime_revision rs) nxt st = Some st'"
  shows "synced jr i st' (deliver jr ja metrics now (fresh_messages i st st') app)"
proof (cases "subscribed_to_runtime (runtime_view c)")
  case False
  then have "st' = st" using p c by (simp add: send_pane_state_to_client_def read_publish_pane_def)
  with c l s show ?thesis by (intro synced_silent) auto
next
  case True
  let ?v = "runtime_view c" and ?foc = "focused_pane_id (runtime_view c) = Some pane"
  from p c True obtain ty payload where
    e: "encode_publish MsgUiPaneDelta MsgUiPaneFullState (pane_states ?v pane) nxt None True = Some (ty, payload)"
    and st': "st' = commit_pane_state i tab pane revision (rs_runtime_revision rs) nxt ?foc ty payload st"
    by (auto simp: send_pane_state_to_client_def read_publish_pane_def split: option.splits prod.splits)
  let ?q = "encode_ui_pane_update_payload tab pane revision (rs_runtime_revision rs) payload"
  note h = heard_announced [OF s a]
  have cur: "up_to_date jr ?v" using a r by (simp add: up_to_date_def)
  have oth: "pane \<noteq> ca_focused_pane_id app" and rev: "rs_runtime_revision rs = ca_runtime_revision app"
    using h f by simp_all
  from pane_published [OF s cur oth rev nx e refl, where ja = ja and metrics = metrics and now = now] obtain ev where
    ev: "decode_stream_event jr ja ty ?q = Some ev" "length ?q < 2 ^ 32"
      "in_sync jr (?v\<lparr>pane_states := (pane_states ?v)(pane \<mapsto> nxt)\<rparr>) (handle_stream_event metrics now ev app)"
    by blast
  have c': "clients st' i = Some (send_outbound (PaneUpdate pane ?foc (encode_message ty ?q))
      (c\<lparr>runtime_view := ?v\<lparr>pane_states := (pane_states ?v)(pane \<mapsto> nxt)\<rparr>\<rparr>))"
    using c True by (simp add: st' commit_pane_state_def update_client_clients)
  show ?thesis
    by (rule synced_message [OF c c', where m = "PaneUpdate pane ?foc (encode_message ty ?q)" and ty = ty
        and payload = ?q]) (use l ev in \<open>simp_all add: send_outbound_def\<close>)
qed

lemma announce_keeps:
  assumes c: "clients st i = Some c" and l: "is_local c" and s: "in_sync jr (runtime_view c) app"
    and j: "jr payload = Some rs" and len: "length payload < 2 ^ 32"
    and r: "rs_view_revision rs = view_revision (runtime_view c)"
    and f: "(last_state (runtime_view c) = None \<and> pane_states (runtime_view c) = Map.empty)
       \<or> (\<exists>old. announced jr (runtime_view c) = Some old \<and> rs_focused_pane old = rs_focused_pane rs)"
    and st': "st' = send_ui_runtime_state i (Some payload) st"
  shows "synced jr i st' (deliver jr ja metrics now (fresh_messages i st st') app)"
proof (rule synced_cached [OF c l s len])
  show "st' = send_cached_control_payload_bytes i MsgUiRuntimeState payload CacheUiRuntimeState st"
    using st' by (simp add: send_ui_runtime_state_def)
  let ?v = "runtime_view c" and ?v' = "set_cache_slot CacheUiRuntimeState payload (runtime_view c)"
  let ?app = "handle_stream_event metrics now (EvUiRuntimeState rs) app"
  have "decode_stream_event jr ja MsgUiRuntimeState payload = Some (EvUiRuntimeState rs)"
    using j by (simp add: decode_stream_event_def)
  moreover have "in_sync jr ?v' ?app"
  proof (cases "last_state ?v = None \<and> pane_states ?v = Map.empty")
    case True
    then show ?thesis
      using s j screen_runtime_state [of metrics now rs app]
      by (simp add: screen_of_def sync_defs del: handle_stream_event.simps)
  next
    case False
    then obtain old where o: "announced jr ?v = Some old" "rs_focused_pane old = rs_focused_pane rs" using f by blast
    have "up_to_date jr ?v" using False s by (auto simp: in_sync_def focused_synced_def panes_synced_def)
    then have vr: "ca_view_revision app = rs_view_revision rs"
      using heard_announced [OF s] o r by (auto simp: up_to_date_def)
    have sc: "screen_of ?app = (ca_pane_snapshots app, ca_focused_pane_id app, rs_view_revision rs,
        rs_runtime_revision rs, ca_terminal_foreground app, ca_terminal_background app)"
      using screen_runtime_state [of metrics now rs app] vr heard_announced [OF s o(1)] o(2) by simp
    show ?thesis
      using s j r sc heard_announced [OF s o(1)] o(2)
      by (simp add: screen_of_def sync_defs del: handle_stream_event.simps)
  qed
  ultimately show "in_sync jr ?v' (case decode_stream_event jr ja MsgUiRuntimeState payload of
      None \<Rightarrow> app | Some e \<Rightarrow> handle_stream_event metrics now e app)" by simp
qed

lemma appearance_keeps:
  assumes c: "clients st i = Some c" and l: "is_local c" and s: "in_sync jr (runtime_view c) app"
    and d: "\<forall>ap. ja payload = Some ap \<longrightarrow> default_appearance ap" and len: "length payload < 2 ^ 32"
    and st': "st' = send_ui_appearance i (Some payload) st"
  shows "synced jr i st' (deliver jr ja metrics now (fresh_messages i st st') app)"
proof (rule synced_cached [OF c l s len])
  show "st' = send_cached_control_payload_bytes i MsgUiAppearance payload CacheUiAppearance st"
    using st' by (simp add: send_ui_appearance_def)
  have v: "in_sync jr (set_cache_slot CacheUiAppearance payload (runtime_view c)) app"
    by (rule in_sync_view [OF _ s]) (simp add: stream_part_def)
  show "in_sync jr (set_cache_slot CacheUiAppearance payload (runtime_view c))
      (case decode_stream_event jr ja MsgUiAppearance payload of
        None \<Rightarrow> app | Some e \<Rightarrow> handle_stream_event metrics now e app)"
  proof (cases "ja payload")
    case None
    with v show ?thesis by (simp add: decode_stream_event_def)
  next
    case (Some ap)
    have th: "default_theme app" using s by (simp add: in_sync_def)
    have "screen_of app = screen_of (handle_stream_event metrics now (EvUiAppearance ap) app)"
      unfolding screen_appearance using d Some th
      by (simp add: screen_of_def default_appearance_def default_theme_def)
    from in_sync_screen [OF this v] Some show ?thesis by (simp add: decode_stream_event_def)
  qed
qed

lemma direct_keeps:
  assumes c: "clients st i = Some c" and l: "is_local c" and s: "in_sync jr (runtime_view c) app"
    and ty: "screenless ty" and len: "length payload < 2 ^ 32"
    and st': "st' = update_client i (send_outbound (Frame (encode_message ty payload))) st"
  shows "synced jr i st' (deliver jr ja metrics now (fresh_messages i st st') app)"
proof -
  have c': "clients st' i = Some (send_outbound (Frame (encode_message ty payload)) c)"
    using c by (simp add: st' update_client_clients)
  show ?thesis
    by (rule synced_message [OF c c', where m = "Frame (encode_message ty payload)" and ty = ty and payload = payload])
       (use l len in_sync_screenless [OF s ty] in \<open>simp_all add: send_outbound_def\<close>)
qed

end
