(* ===== verification/SessionProps.thy ===== *)
theory SessionProps
  imports SessionSteps
begin

text \<open>
  Sessions as an inductive relation, the theorem that the client stays in step in every reachable one,
  and the two ways in which the running code leaves the discipline of the steps.
\<close>

section \<open>Sessions\<close>

lemma server_step_keeps:
  assumes "server_step jr ja i st st'" and "synced jr i st app"
  shows "synced jr i st' (deliver jr ja metrics now (fresh_messages i st st') app)"
proof -
  from assms(2) obtain c where c: "clients st i = Some c" "is_local c" "in_sync jr (runtime_view c) app"
    by (auto simp: synced_def)
  let ?v = "runtime_view c"
  have clear: "in_sync jr (f ?v) app"
    if "last_ui_runtime_state_payload (f ?v) = last_ui_runtime_state_payload ?v"
      "last_state (f ?v) = None" "pane_states (f ?v) = Map.empty" for f
    using in_sync_clear [OF c(3) that] .
  show ?thesis
    using assms(1)
  proof cases
    case other
    then show ?thesis using c by (intro synced_silent [OF c(1)]) auto
  next
    case (publish_focused c' rs nxt)
    then show ?thesis using c by (intro publish_focused_keeps [OF c]) auto
  next
    case (publish_pane c' rs pane nxt tab revision)
    then show ?thesis using c by (intro publish_pane_keeps [OF c, where pane = pane]) auto
  next
    case (announce c' payload rs)
    then show ?thesis using c by (intro announce_keeps [OF c]) auto
  next
    case (appearance payload)
    then show ?thesis by (intro appearance_keeps [OF c])
  next
    case (tab_list tabs)
    have v: "in_sync jr (set_cache_slot CacheTabList (encode_tab_list tabs) ?v) app"
      by (rule in_sync_view [OF _ c(3)]) (simp add: stream_part_def)
    show ?thesis
      by (rule synced_cached [OF c tab_list(2) in_sync_screenless [OF v]])
         (simp_all add: tab_list(1) send_tab_list_def screenless_def)
  next
    case (tab_list_reply tabs)
    show ?thesis
      by (rule direct_keeps [OF c _ tab_list_reply(2), of MsgTabList])
         (simp_all add: tab_list_reply(1) reply_tab_list_def screenless_def)
  next
    case (direct ty payload)
    show ?thesis
      by (rule direct_keeps [OF c direct(2,3)]) (simp add: direct(1) send_to_client_def)
  next
    case (note_view update)
    have "stream_part ?v = stream_part (update ?v)" using note_view(2) by simp
    from in_sync_view [OF this c(3)] show ?thesis unfolding note_view(1) by (rule synced_view [OF c(1,2)])
  next
    case (touch update)
    show ?thesis unfolding touch(1)
      by (rule synced_view [OF c(1,2)], rule clear)
         (use touch(2) in \<open>simp_all add: touch_view_def clear_stream_state_def\<close>)
  next
    case (input_seq seq)
    have "in_sync jr (case seq of Some n \<Rightarrow> ?v\<lparr>latest_input_seq := Some n\<rparr> | None \<Rightarrow> ?v) app"
      by (rule in_sync_view [OF _ c(3)]) (simp add: stream_part_def split: option.splits)
    then show ?thesis unfolding input_seq record_input_seq_def by (rule synced_view [OF c(1,2)])
  next
    case subscribe
    have "in_sync jr (if \<not> subscribed_to_runtime ?v
        then clear_stream_state (?v\<lparr>subscribed_to_runtime := True\<rparr>) else ?v) app"
      using c(3) by (auto simp: clear_stream_state_def intro: in_sync_clear [OF c(3)])
    then show ?thesis unfolding subscribe subscribe_client_to_runtime_def by (rule synced_view [OF c(1,2)])
  next
    case unsubscribe
    show ?thesis unfolding unsubscribe unsubscribe_client_from_runtime_def
      by (rule synced_view [OF c(1,2)], rule clear) (simp_all add: clear_stream_state_def)
  next
    case (initialize tab pane visible)
    show ?thesis unfolding initialize initialize_client_view_def
      by (rule synced_view [OF c(1,2)], rule clear)
         (simp_all add: touch_view_def clear_stream_state_def Let_def)
  next
    case (sweep order timeout now)
    show ?thesis
      by (rule synced_silent [OF c(1), where c' = "if view_expired timeout now ?v
            then c\<lparr>runtime_view := expire_view ?v\<rparr> else c"])
         (use c in \<open>auto simp: sweep sweep_idle_views_def update_all_clients_def expire_view_def touch_view_def
            clear_stream_state_def intro: in_sync_clear [OF c(3)]\<close>)
  next
    case (retain visible)
    show ?thesis
      by (rule synced_silent [OF c(1), where c' = "if is_local c \<and> subscribed_to_runtime ?v
            then c\<lparr>runtime_view := ?v\<lparr>pane_states := pane_states ?v |` set visible\<rparr>\<rparr> else c"])
         (use c in_sync_retain [OF c(3)] in \<open>auto simp: retain retain_local_viewer_pane_states_def update_all_clients_def\<close>)
  qed
qed

text \<open>
  A session of a local client: it starts with the registration of the connection; the server takes a
  step and the client handles what it was sent; or the client acts on its own, without touching the
  part of its state that screens depend on.
\<close>

inductive session ::
  "runtime_json \<Rightarrow> appearance_json \<Rightarrow> (real \<Rightarrow> rust_string option \<Rightarrow> f64 \<times> f64) \<Rightarrow> u64
     \<Rightarrow> remote_state \<Rightarrow> ('k, 'm) client_app \<Rightarrow> bool"
  for jr ja metrics i where
  start: "register_client True now i st = (i, n, st') \<Longrightarrow> default_theme app \<Longrightarrow> session jr ja metrics i st' app"
| server: "session jr ja metrics i st app \<Longrightarrow> server_step jr ja i st st' \<Longrightarrow>
     session jr ja metrics i st' (deliver jr ja metrics now (fresh_messages i st st') app)"
| client: "session jr ja metrics i st app \<Longrightarrow> screen_of app' = screen_of app \<Longrightarrow> session jr ja metrics i st app'"

lemma session_synced: "session jr ja metrics i st app \<Longrightarrow> synced jr i st app"
proof (induction rule: session.induct)
  case (start now st n st' app)
  then show ?case by (auto simp: register_client_def synced_def sync_defs view_idle_def)
next
  case (server st app st' now)
  then show ?case by (intro server_step_keeps)
next
  case (client st app app')
  then show ?case using in_sync_screen [OF client(2) [symmetric]] by (auto simp: synced_def)
qed

section \<open>The runtime state shared by all local clients\<close>

text \<open>
  \<open>ui_runtime_state\<close> (\<open>src/runtime_ui.rs\<close>), the state that \<open>publish_local_gui_runtime_state_for_active_tab\<close>
  sends to every local viewer. What the runtime reads from its own state is passed as arguments.
\<close>

definition ui_runtime_state_shared ::
  "nat \<Rightarrow> u64 \<Rightarrow> ui_tab_snapshot list \<Rightarrow> ui_pane_snapshot list \<Rightarrow> ui_mouse_selection \<Rightarrow> ui_status_bar
     \<Rightarrow> rust_string \<Rightarrow> u32 option \<Rightarrow> ui_runtime_state" where
  "ui_runtime_state_shared active focused tabs visible_panes selection status_bar pwd active_tab_id =
     \<lparr>rs_active_tab = active, rs_focused_pane = focused, rs_tabs = tabs, rs_visible_panes = visible_panes,
      rs_mouse_selection = selection, rs_status_bar = status_bar, rs_pwd = pwd, rs_runtime_revision = 1,
      rs_view_revision = 1, rs_view_id = 0, rs_viewed_tab_id = active_tab_id, rs_viewport_cols = None,
      rs_viewport_rows = None, rs_visible_pane_ids = map up_pane_id visible_panes,
      rs_acked_client_action_id = None\<rparr>"

section \<open>Properties\<close>

text \<open>C1: A client that is told before it is shown stays in step. In every reachable session of a local
  client the focused pane shows the screen the server recorded as sent last, and every other pane the
  screen recorded for it, so that the next delta is applied to the screen it was computed from; the
  encoder and the decoder run on the bytes of the frames. The sessions are those that keep an order:
  the server sends a screen only when the runtime state told last has the current revision of the
  view, with the runtime revision and the focused pane of that state, and tells another focused pane
  only when it has no screen on record; a screen is well formed with at most 2 to the 24 cells, and
  appearances have the default colours; the client handles every
  message before the next step, and what it does on its own leaves its screens, its focus and its
  revisions alone. The daemon does not always keep this order: the runtime state it shares among all
  local viewers breaks it.\<close>

theorem session_in_sync:
  assumes "session jr ja metrics i st app" and "clients st i = Some c"
  shows "(\<forall>screen. last_state (runtime_view c) = Some screen \<longrightarrow> shows_screen app (ca_focused_pane_id app) screen)
    \<and> (\<forall>pane screen. pane_states (runtime_view c) pane = Some screen \<longrightarrow> shows_screen app pane screen)"
  using session_synced [OF assms(1)] assms(2)
  by (auto simp: synced_def in_sync_def focused_synced_def panes_synced_def)

text \<open>A client that connects, gets its view, is told a runtime state, subscribes and is sent screens.\<close>

definition shared_demo :: ui_runtime_state where
  "shared_demo = ui_runtime_state_shared 0 5 [] [] \<lparr>um_active = False, um_pane_id = None, um_selection_rects = []\<rparr>
     status_bar_default [] None"

definition demo_state :: ui_runtime_state where
  "demo_state = shared_demo\<lparr>rs_runtime_revision := 3, rs_view_revision := 2\<rparr>"

definition demo_json :: runtime_json where
  "demo_json p = (if p = [1] then Some demo_state else if p = [2] then Some shared_demo else None)"

definition no_server :: remote_state where
  "no_server = \<lparr>clients = Map.empty, server_instance_id = []\<rparr>"

definition connected :: remote_state where
  "connected = snd (snd (register_client True 0 7 no_server))"

definition subscribed :: remote_state where
  "subscribed = subscribe_client_to_runtime 7
     (send_ui_runtime_state 7 (Some [1]) (initialize_client_view 7 (Some 1) (Some 5) [5, 9] connected))"

abbreviation demo_session :: "remote_state \<Rightarrow> (unit, unit) client_app \<Rightarrow> bool" where
  "demo_session \<equiv> session demo_json (\<lambda>_. None) (\<lambda>_ _. (8, 16)) 7"

lemma demo_fields: "rs_focused_pane demo_state = 5" "rs_view_revision demo_state = 2"
    "rs_runtime_revision demo_state = 3"
  by (simp_all add: demo_state_def shared_demo_def ui_runtime_state_shared_def)

lemma initialized_view:
  "\<exists>c. clients (initialize_client_view 7 (Some 1) (Some 5) [5, 9] connected) 7 = Some c
     \<and> last_state (runtime_view c) = None \<and> pane_states (runtime_view c) = Map.empty \<and> view_revision (runtime_view c) = 2"
  by (simp add: connected_def register_client_def no_server_def initialize_client_view_def update_client_view_def
      update_client_clients view_idle_def touch_view_def clear_stream_state_def)

lemma subscribed_view:
  "\<exists>c. clients subscribed 7 = Some c \<and> is_local c \<and> subscribed_to_runtime (runtime_view c)
     \<and> last_state (runtime_view c) = None \<and> pane_states (runtime_view c) = Map.empty
     \<and> view_revision (runtime_view c) = 2 \<and> announced demo_json (runtime_view c) = Some demo_state
     \<and> last_ui_runtime_state_payload (runtime_view c) = Some [1]"
  by (simp add: subscribed_def connected_def register_client_def no_server_def send_ui_runtime_state_def
      cached_send_clients cached_act_def view_idle_def subscribe_client_to_runtime_def update_client_view_def
      update_client_clients send_outbound_def clear_stream_state_def announced_def demo_json_def
      initialize_client_view_def touch_view_def)

lemma subscribed_dom: "dom (clients subscribed) = {7}"
  by (simp add: subscribed_def connected_def register_client_def no_server_def send_ui_runtime_state_def
      cached_send_clients subscribe_client_to_runtime_def update_client_view_def
      update_client_clients initialize_client_view_def)

lemma subscribed_session: "\<exists>app. demo_session subscribed app"
proof -
  have "register_client True 0 7 no_server = (7, 8, connected)" by (simp add: connected_def register_client_def)
  moreover have "default_theme (client_new (\<lambda>_ _. (8, 16)) 0 :: (unit, unit) client_app)"
    by (simp add: default_theme_def client_new_def)
  ultimately have 1: "demo_session connected (client_new (\<lambda>_ _. (8, 16)) 0)" by (rule session.start)
  from session.server [OF 1 server_step.initialize, where now = 0] obtain app1 where
    2: "demo_session (initialize_client_view 7 (Some 1) (Some 5) [5, 9] connected) app1" by blast
  let ?st = "initialize_client_view 7 (Some 1) (Some 5) [5, 9] connected"
  from initialized_view obtain c where c: "clients ?st 7 = Some c" "last_state (runtime_view c) = None"
    "pane_states (runtime_view c) = Map.empty" "view_revision (runtime_view c) = 2" by blast
  have "server_step demo_json (\<lambda>_. None) 7 ?st (send_ui_runtime_state 7 (Some [1]) ?st)"
    by (rule server_step.announce [OF c(1), where rs = demo_state])
       (simp_all add: c demo_json_def demo_fields)
  from session.server [OF 2 this, where now = 0] obtain app2 where
    3: "demo_session (send_ui_runtime_state 7 (Some [1]) ?st) app2" by blast
  from session.server [OF 3 server_step.subscribe] show ?thesis unfolding subscribed_def by blast
qed

lemma tiny_sendable [simp]: "sendable (tiny_state a b c)"
  by (simp add: sendable_def) (simp add: tiny_state_def)

text \<open>The first screens of the focused pane and of another pane.\<close>

lemma demo_published:
  "\<exists>st app c. demo_session st app \<and> clients st 7 = Some c \<and> is_local c \<and> subscribed_to_runtime (runtime_view c)
     \<and> last_state (runtime_view c) = Some (tiny_state 65 66 67)
     \<and> pane_states (runtime_view c) 9 = Some (tiny_state 65 66 67)
     \<and> announced demo_json (runtime_view c) = Some demo_state
     \<and> last_ui_runtime_state_payload (runtime_view c) = Some [1] \<and> dom (clients st) = {7}"
proof -
  let ?t = "tiny_state 65 66 67"
  obtain app where 1: "demo_session subscribed app" using subscribed_session by blast
  obtain c where c: "clients subscribed 7 = Some c" "is_local c" "subscribed_to_runtime (runtime_view c)"
    "last_state (runtime_view c) = None" "pane_states (runtime_view c) = Map.empty" "view_revision (runtime_view c) = 2"
    "announced demo_json (runtime_view c) = Some demo_state"
    "last_ui_runtime_state_payload (runtime_view c) = Some [1]" using subscribed_view by blast
  obtain st where st: "send_state_to_client 7 ?t subscribed = Some st"
    and c1: "\<exists>c1. clients st 7 = Some c1 \<and> is_local c1 \<and> runtime_view c1 = (runtime_view c)\<lparr>last_state := Some ?t\<rparr>"
    and d1: "dom (clients st) = {7}"
    using c subscribed_dom by (simp add: send_state_to_client_def read_publish_state_def encode_publish_def commit_state_def
        update_client_clients send_outbound_def)
  have "server_step demo_json (\<lambda>_. None) 7 subscribed st"
    by (rule server_step.publish_focused [OF c(1,7) _ _ tiny_sendable st]) (simp_all add: demo_fields c(6))
  from session.server [OF 1 this, where now = 0] obtain app1 where 2: "demo_session st app1" by blast
  from c1 obtain c1 where c1: "clients st 7 = Some c1" "is_local c1"
    "runtime_view c1 = (runtime_view c)\<lparr>last_state := Some ?t\<rparr>" by blast
  obtain st2 where st2: "send_pane_state_to_client 7 1 9 1 3 ?t st = Some st2"
    and c2: "\<exists>c2. clients st2 7 = Some c2 \<and> is_local c2
      \<and> runtime_view c2 = (runtime_view c)\<lparr>last_state := Some ?t, pane_states := [9 \<mapsto> ?t]\<rparr>"
    and d2: "dom (clients st2) = {7}"
    using c c1 d1 by (simp add: send_pane_state_to_client_def read_publish_pane_def encode_publish_def
        commit_pane_state_def update_client_clients send_outbound_def)
  have a: "announced demo_json (runtime_view c1) = Some demo_state" using c1(3) c(7) by (simp add: announced_def)
  have "server_step demo_json (\<lambda>_. None) 7 st st2"
    by (rule server_step.publish_pane [OF c1(1) a _ _ tiny_sendable])
       (use st2 c1(3) c(6) in \<open>simp_all add: demo_fields\<close>)
  from session.server [OF 2 this, where now = 0] obtain app2 where 3: "demo_session st2 app2" by blast
  from c2 obtain c2 where "clients st2 7 = Some c2" "is_local c2"
    "runtime_view c2 = (runtime_view c)\<lparr>last_state := Some ?t, pane_states := [9 \<mapsto> ?t]\<rparr>" by blast
  with 3 c d2 show ?thesis
    by (intro exI [of _ st2] exI [of _ app2] exI [of _ c2]) (simp add: announced_def)
qed

lemma session_in_sync_witness:
  "\<exists>st app. demo_session st app \<and> shows_screen app (ca_focused_pane_id app) (tiny_state 65 66 67)
     \<and> shows_screen app 9 (tiny_state 65 66 67)"
proof -
  obtain st app c where s: "demo_session st app" "clients st 7 = Some c"
    "last_state (runtime_view c) = Some (tiny_state 65 66 67)"
    "pane_states (runtime_view c) 9 = Some (tiny_state 65 66 67)" using demo_published by blast
  from session_in_sync [OF s(1,2)] s show ?thesis by blast
qed

text \<open>C39: The shared runtime state blanks the client (the state always has view revision 1, whatever the
  views of the clients are): a local viewer that has been told another view revision drops all its
  snapshots, the server still believes its screens to be shown, and deltas computed from them leave
  the client blank.\<close>

theorem shared_state_blanks_client:
  assumes "session jr ja metrics i st app" and "clients st i = Some c"
    and "subscribed_to_runtime (runtime_view c)" and "distinct order" and "set order = dom (clients st)"
    and "jr payload = Some (ui_runtime_state_shared active focused tabs visible selection bar pwd tab_id)"
    and "length payload < 2 ^ 32" and "last_ui_runtime_state_payload (runtime_view c) \<noteq> Some payload"
    and "ca_view_revision app \<notin> {0, 1}"
    and "st' = send_ui_runtime_state_to_local_viewers order (Some payload) st"
    and "app' = deliver jr ja metrics now (fresh_messages i st st') app"
  shows "(\<exists>c'. clients st' i = Some c' \<and> last_state (runtime_view c') = last_state (runtime_view c)
        \<and> pane_states (runtime_view c') = pane_states (runtime_view c))
    \<and> ca_pane_snapshots app' = Map.empty
    \<and> ca_pane_snapshots (handle_stream_event metrics later (EvDelta ack delta) app') = Map.empty
    \<and> ca_pane_snapshots (handle_stream_event metrics later (EvUiPaneDelta pane revision delta) app') = Map.empty"
proof -
  let ?rs = "ui_runtime_state_shared active focused tabs visible selection bar pwd tab_id"
  have l: "is_local c" using session_synced [OF assms(1)] assms(2) by (auto simp: synced_def)
  let ?c' = "send_outbound (Frame (encode_message MsgUiRuntimeState payload))
      (c\<lparr>runtime_view := set_cache_slot CacheUiRuntimeState payload (runtime_view c)\<rparr>)"
  have c': "clients st' i = Some ?c'"
    using viewer_broadcast_clients [OF assms(4,5), of payload i] assms(2,3,8) l
    by (simp add: assms(10) cached_act_def)
  have "fresh_messages i st st' = [Frame (encode_message MsgUiRuntimeState payload)]"
    using assms(2) c' by (simp add: fresh_messages_def send_outbound_def)
  then have "app' = handle_stream_event metrics now (EvUiRuntimeState ?rs) app"
    using frame_event_encode [of "Frame (encode_message MsgUiRuntimeState payload)" MsgUiRuntimeState payload jr ja] assms(6,7)
    by (simp add: assms(11) deliver_one decode_stream_event_def del: handle_stream_event.simps)
  then have blank: "ca_pane_snapshots app' = Map.empty"
    using screen_runtime_state [of metrics now ?rs app] assms(9)
    by (simp add: screen_of_def ui_runtime_state_shared_def del: handle_stream_event.simps)
  have same: "apply_delta_to_pane q delta app' = app'" for q using blank by (simp add: apply_delta_to_pane_def)
  have obs: "ca_pane_snapshots (observe_focused_cursor_position later app') = Map.empty"
    using screen_observe [of later app'] blank by (simp add: screen_of_def)
  have "ca_pane_snapshots (handle_stream_event metrics later (EvDelta ack delta) app') = Map.empty"
    using obs screen_acknowledge [of ack "observe_focused_cursor_position later app'"]
    by (simp add: same screen_of_def)
  moreover have "ca_pane_snapshots (handle_stream_event metrics later (EvUiPaneDelta pane revision delta) app') = Map.empty"
    using obs blank by (simp add: same)
  ultimately show ?thesis using c' blank by (simp add: send_outbound_def)
qed

lemma shared_state_blanks_client_witness:
  "\<exists>st app app'. demo_session st app \<and> shows_screen app 9 (tiny_state 65 66 67)
     \<and> app' = deliver demo_json (\<lambda>_. None) (\<lambda>_ _. (8, 16)) 0
         (fresh_messages 7 st (send_ui_runtime_state_to_local_viewers [7] (Some [2]) st)) app
     \<and> ca_pane_snapshots app' = Map.empty"
proof -
  obtain st app c where s: "demo_session st app" "clients st 7 = Some c" "subscribed_to_runtime (runtime_view c)"
    "pane_states (runtime_view c) 9 = Some (tiny_state 65 66 67)"
    "announced demo_json (runtime_view c) = Some demo_state"
    "last_ui_runtime_state_payload (runtime_view c) = Some [1]" "dom (clients st) = {7}"
    using demo_published by blast
  have y: "in_sync demo_json (runtime_view c) app" using session_synced [OF s(1)] s(2) by (auto simp: synced_def)
  have r: "ca_view_revision app \<notin> {0, 1}" using heard_announced [OF y s(5)] demo_fields by simp
  have sh: "shows_screen app 9 (tiny_state 65 66 67)" using y s(4) by (simp add: in_sync_def panes_synced_def)
  have j: "demo_json [2] = Some (ui_runtime_state_shared 0 5 [] []
      \<lparr>um_active = False, um_pane_id = None, um_selection_rects = []\<rparr> status_bar_default [] None)"
    by (simp add: demo_json_def shared_demo_def)
  have "ca_pane_snapshots (deliver demo_json (\<lambda>_. None) (\<lambda>_ _. (8, 16)) 0
      (fresh_messages 7 st (send_ui_runtime_state_to_local_viewers [7] (Some [2]) st)) app) = Map.empty"
    using shared_state_blanks_client [OF s(1-3) _ _ j _ _ r refl refl, of "[7]"] s(6,7) by simp
  with s(1) sh show ?thesis by blast
qed

text \<open>A runtime revision that a viewer has not been told loses updates: the viewer drops the delta,
  while the server records the new screen as shown, so that the next delta is computed from a screen
  the client never had.\<close>

theorem untold_revision_loses_delta:
  assumes "session jr ja metrics i st app" and "clients st i = Some c"
    and "subscribed_to_runtime (runtime_view c)" and "pane_states (runtime_view c) pane = Some prev"
    and "sendable nxt" and "encode_delta prev nxt None True = Some (Some payload)"
    and "revision \<noteq> 0" and "revision \<noteq> ca_runtime_revision app"
    and "send_pane_state_to_client i tab pane pane_revision revision nxt st = Some st'"
  shows "(\<exists>c'. clients st' i = Some c' \<and> pane_states (runtime_view c') pane = Some nxt)
    \<and> ca_pane_snapshots (deliver jr ja metrics now (fresh_messages i st st') app) = ca_pane_snapshots app"
proof -
  let ?v = "runtime_view c" and ?foc = "focused_pane_id (runtime_view c) = Some pane"
  let ?q = "encode_ui_pane_update_payload tab pane pane_revision revision payload"
  let ?c' = "send_outbound (PaneUpdate pane ?foc (encode_message MsgUiPaneDelta ?q))
      (c\<lparr>runtime_view := ?v\<lparr>pane_states := (pane_states ?v)(pane \<mapsto> nxt)\<rparr>\<rparr>)"
  have c': "clients st' i = Some ?c'"
    using assms(2-4,6,9) by (auto simp: send_pane_state_to_client_def read_publish_pane_def encode_publish_def
        commit_pane_state_def update_client_clients)
  have fm: "fresh_messages i st st' = [PaneUpdate pane ?foc (encode_message MsgUiPaneDelta ?q)]"
    using assms(2) c' by (simp add: fresh_messages_def send_outbound_def)
  have old: "sendable prev" "shows_screen app pane prev"
    using session_synced [OF assms(1)] assms(2,4) by (auto simp: synced_def in_sync_def panes_synced_def)
  from old(2) obtain snapshot where sn: "mirrored snapshot prev" by (auto simp: shows_screen_def)
  note h = pane_update_header [OF refl, of tab pane pane_revision revision payload]
  have len: "length ?q < 2 ^ 32" using length_encode_delta [OF old(1) assms(5,6)] h(1) by simp
  have ev: "decode_stream_event jr ja MsgUiPaneDelta ?q = Some (EvUiPaneDelta pane revision (delta_of prev nxt))"
    using shows_after_delta(2) [OF old(1) assms(5,6) sn] h
    by (simp add: decode_stream_event_def decode_remote_pane_delta_def UI_PANE_UPDATE_HEADER_LEN_def)
  have "deliver jr ja metrics now (fresh_messages i st st') app = app"
    using frame_event_encode [OF _ len, of "PaneUpdate pane ?foc (encode_message MsgUiPaneDelta ?q)" MsgUiPaneDelta jr ja]
      ev assms(7,8)
    by (simp add: fm deliver_one)
  then show ?thesis using c' by (simp add: send_outbound_def)
qed

lemma untold_revision_loses_delta_witness:
  "\<exists>st app st'. demo_session st app \<and> shows_screen app 9 (tiny_state 65 66 67)
     \<and> send_pane_state_to_client 7 1 9 2 4 (tiny_state 65 66 68) st = Some st'
     \<and> ca_pane_snapshots (deliver demo_json (\<lambda>_. None) (\<lambda>_ _. (8, 16)) 0 (fresh_messages 7 st st') app)
         = ca_pane_snapshots app"
proof -
  obtain st app c where s: "demo_session st app" "clients st 7 = Some c" "subscribed_to_runtime (runtime_view c)"
    "pane_states (runtime_view c) 9 = Some (tiny_state 65 66 67)"
    "announced demo_json (runtime_view c) = Some demo_state" using demo_published by blast
  have y: "in_sync demo_json (runtime_view c) app" using session_synced [OF s(1)] s(2) by (auto simp: synced_def)
  have r: "4 \<noteq> ca_runtime_revision app" using heard_announced [OF y s(5)] demo_fields by simp
  have sh: "shows_screen app 9 (tiny_state 65 66 67)" using y s(4) by (simp add: in_sync_def panes_synced_def)
  obtain payload where d: "encode_delta (tiny_state 65 66 67) (tiny_state 65 66 68) None True = Some (Some payload)"
    using tiny_delta by blast
  then obtain st' where st': "send_pane_state_to_client 7 1 9 2 4 (tiny_state 65 66 68) st = Some st'"
    using s by (simp add: send_pane_state_to_client_def read_publish_pane_def encode_publish_def)
  from untold_revision_loses_delta [OF s(1-4) tiny_sendable d _ r st'] s(1) sh st' show ?thesis by auto
qed

end
