(* ===== verification/InboundProps.thy ===== *)
theory InboundProps
  imports RemoteAuth RemoteFanout ClientStream WireProps
begin

text \<open>
  The inbound side of a connection: every message is turned into one command or answered with one
  frame, the loop always ends with the client removed, and the commands of the desktop client arrive
  at the runtime as they were sent.
\<close>

section \<open>Commands name their client\<close>

fun cmd_client :: "('key, 'mouse, 'action) remote_cmd \<Rightarrow> u64" where
  "cmd_client (Connected i) = i"
| "cmd_client (ListTabs i) = i"
| "cmd_client (Create i cols rows) = i"
| "cmd_client (CmdInput i bs seq) = i"
| "cmd_client (CmdKey i k seq) = i"
| "cmd_client (Resize i cols rows) = i"
| "cmd_client (ExecuteCommand i input) = i"
| "cmd_client (CmdAppKeyEvent i e) = i"
| "cmd_client (CmdAppMouseEvent i e) = i"
| "cmd_client (CmdAppAction i a) = i"
| "cmd_client (FocusPane i pane) = i"
| "cmd_client (Destroy i tab) = i"
| "cmd_client (CmdRuntimeAction i action_id a) = i"
| "cmd_client (RenderAck i view tab pane pane_revision runtime_revision) = i"
| "cmd_client (CmdRowRangeRequest i request) = i"

lemma decode_command_client: "decode_command json i local ty payload = Some cmd \<Longrightarrow> cmd_client cmd = i"
  by (cases ty) (auto simp: decode_command_def split: option.splits)

lemma handle_frame_client:
  assumes "handle_frame json i now ty payload st = (out, st')" and "out = Notify cmd \<or> out = Submit cmd"
  shows "cmd_client cmd = i"
  using assms decode_command_client
  by (auto simp: handle_frame_def Let_def split: prod.splits auth_handling.splits if_splits option.splits)

lemma handle_frame_unknown:
  assumes "clients st i = None"
  shows "handle_frame json i now ty payload st = (if ty = MsgAuth then Stop else GoOn, st)"
  using assms
  by (simp add: handle_frame_def handle_auth_message_def send_direct_error_def send_direct_frame_def
      update_client_def)

section \<open>One message\<close>

text \<open>One frame is queued for the client, and nothing else changes in its queue.\<close>

definition answered :: "u64 \<Rightarrow> client_state \<Rightarrow> remote_state \<Rightarrow> bool" where
  "answered i c st' \<longleftrightarrow> (\<exists>c' ty payload. clients st' i = Some c'
     \<and> outbound c' = outbound c @ [Frame (encode_message ty payload)] \<and> runtime_view c' = runtime_view c)"

lemma answered_update:
  "clients st i = Some c \<Longrightarrow> outbound (f c) = outbound c @ [Frame (encode_message ty payload)] \<Longrightarrow>
   runtime_view (f c) = runtime_view c \<Longrightarrow> answered i c (update_client i f st)"
  by (auto simp: answered_def update_client_clients)

lemma update_update: "update_client i f (update_client i g st) = update_client i (\<lambda>c. f (g c)) st"
  by (cases "clients st i") (simp_all add: update_client_def)

text \<open>C35: Every message of a connected client is turned into one command or answered with exactly one
  frame; other clients are not touched. Commands other than the notice of the connection are given
  only for an authenticated client, and change no state.\<close>

theorem every_message_answered:
  assumes "clients st i = Some c" and "handle_frame json i now ty payload st = (out, st')"
  shows "(\<forall>j. j \<noteq> i \<longrightarrow> clients st' j = clients st j)
    \<and> (case out of
         Submit cmd \<Rightarrow> authenticated c \<and> decode_command json i (is_local c) ty payload = Some cmd \<and> st' = st
       | Notify cmd \<Rightarrow> ty = MsgAuth \<and> cmd = Connected i \<and> answered i c st'
       | GoOn \<Rightarrow> answered i c st'
       | Stop \<Rightarrow> False)"
proof (cases "ty = MsgAuth")
  case True
  then show ?thesis
    using assms by (auto simp: handle_frame_def handle_auth_message_def upd.send_other send_outbound_def intro!: answered_update)
next
  case False
  show ?thesis
  proof (cases "authenticated c \<and> ty \<noteq> MsgHeartbeat")
    case True
    then show ?thesis
      using assms False
      by (auto simp: handle_frame_def send_direct_error_def send_direct_frame_def upd.send_other send_outbound_def
          split: option.splits intro!: answered_update)
  next
    case f: False
    then show ?thesis
      using assms False
      by (auto simp: handle_frame_def send_direct_error_def send_direct_frame_def upd.send_other send_outbound_def
          update_update split: if_splits intro!: answered_update)
  qed
qed

definition plain_client :: client_state where
  "plain_client = \<lparr>outbound = [], authenticated = True, connected_at = 0, authenticated_at = Some 0,
     last_heartbeat_at = None, runtime_view = view_idle, is_local = True\<rparr>"

definition one_client :: remote_state where
  "one_client = \<lparr>clients = [7 \<mapsto> plain_client], server_instance_id = []\<rparr>"

definition no_json :: "(unit, unit, unit) json_codec" where
  "no_json = \<lparr>json_key_event = Map.empty, json_mouse_event = Map.empty, json_app_action = Map.empty,
     json_action_envelope = Map.empty, json_runtime_action = Map.empty\<rparr>"

lemma every_message_answered_witness:
  "\<exists>st'. handle_frame no_json 7 0 MsgScroll [] one_client = (GoOn, st') \<and> answered 7 plain_client st'"
proof -
  have "fst (handle_frame no_json 7 0 MsgScroll [] one_client) = GoOn"
    by (simp add: handle_frame_def one_client_def plain_client_def decode_command_def)
  then obtain st' where h: "handle_frame no_json 7 0 MsgScroll [] one_client = (GoOn, st')"
    by (cases "handle_frame no_json 7 0 MsgScroll [] one_client") simp
  from every_message_answered [OF _ h, of plain_client] h show ?thesis by (simp add: one_client_def)
qed

section \<open>The loop\<close>

lemma remove_client_gone: "clients (remove_client i st) i = None"
  by (simp add: remove_client_def)

text \<open>The four ways in which a round goes on, as equations.\<close>

lemma read_loop_error:
  assumes "read_message_retrying 10 s = (Inl k, s1)" and "\<not> is_idle_error k"
  shows "read_loop env json i n s st cmds = (remove_client i (env_others env n st), cmds)"
  using assms by (simp add: read_loop.simps [of env json i n s])

lemma read_loop_idle:
  assumes "read_message_retrying 10 s = (Inl k, s1)" and "is_idle_error k"
    and "should_disconnect_idle_client (env_others env n st) i AUTH_CHALLENGE_WINDOW
      DIRECT_CLIENT_HEARTBEAT_WINDOW (env_clock env n) = None"
  shows "read_loop env json i n s st cmds = read_loop env json i (n + 1) s1 (env_others env n st) cmds"
  using assms by (subst read_loop.simps) simp

lemma read_loop_submit:
  assumes "read_message_retrying 10 s = (Inr (ty, payload), s1)"
    and "handle_frame json i (env_clock env n) ty payload (env_others env n st) = (Submit cmd, st1)"
    and "env_receives env n"
  shows "read_loop env json i n s st cmds = read_loop env json i (n + 1) s1 st1 (cmds @ [cmd])"
  using assms by (subst read_loop.simps) simp

text \<open>C36: However the connection ends - a failed read, an idle timeout, a runtime that has gone - the
  read loop returns, the client is gone from the state, and the commands that were sent all carry the
  identifier of this connection; a connection that is not registered sends none.\<close>

theorem read_loop_cleans_up:
  "clients (fst (read_loop env json i n s st cmds)) i = None
   \<and> (\<exists>new. snd (read_loop env json i n s st cmds) = cmds @ new \<and> (\<forall>cmd \<in> set new. cmd_client cmd = i)
       \<and> ((\<forall>n st. clients (env_others env n st) i = None) \<longrightarrow> new = []))"
proof (induction env json i n s st cmds rule: read_loop.induct)
  case (1 env json i n s st cmds)
  let ?P = "\<lambda>r cmds. clients (fst r) i = None \<and> (\<exists>new. snd r = cmds @ new \<and> (\<forall>cmd \<in> set new. cmd_client cmd = i)
      \<and> ((\<forall>n st. clients (env_others env n st) i = None) \<longrightarrow> new = []))"
  obtain x s1 where x: "read_message_retrying 10 s = (x, s1)" by fastforce
  show ?case
  proof (cases x)
    case (Inl k)
    show ?thesis
    proof (cases "is_idle_error k")
      case False
      then show ?thesis using x Inl by (simp add: read_loop_error remove_client_gone)
    next
      case True
      show ?thesis
      proof (cases "should_disconnect_idle_client (env_others env n st) i AUTH_CHALLENGE_WINDOW
          DIRECT_CLIENT_HEARTBEAT_WINDOW (env_clock env n)")
        case None
        have "?P (read_loop env json i (n + 1) s1 (env_others env n st) cmds) cmds"
          by (rule "1.IH"(1) [OF x [symmetric] Inl refl True None])
        then show ?thesis unfolding read_loop_idle [OF x [unfolded Inl] True None] .
      next
        case (Some r)
        then show ?thesis using x Inl True
          by (simp add: read_loop.simps [of env json i n s st cmds] remove_client_gone)
      qed
    qed
  next
    case (Inr m)
    obtain ty payload where m: "m = (ty, payload)" by fastforce
    obtain out st1 where h: "handle_frame json i (env_clock env n) ty payload (env_others env n st) = (out, st1)"
      by fastforce
    have unk: "out = Stop \<or> out = GoOn" if "\<forall>n st. clients (env_others env n st) i = None"
      using h that handle_frame_unknown [of "env_others env n st" i json "env_clock env n" ty payload]
      by (simp split: if_splits)
    have one: "?P r cmds" if "?P r (cmds @ [cmd])" "out = Notify cmd \<or> out = Submit cmd" for r cmd
    proof -
      from that(1) obtain new where "clients (fst r) i = None" "snd r = (cmds @ [cmd]) @ new"
        "\<forall>cmd \<in> set new. cmd_client cmd = i" by blast
      moreover have "cmd_client cmd = i" using handle_frame_client [OF h that(2)] .
      moreover have "\<not> (\<forall>n st. clients (env_others env n st) i = None)" using unk that(2) by blast
      ultimately show ?thesis by (intro conjI exI [of _ "cmd # new"]) auto
    qed
    show ?thesis
    proof (cases out)
      case (Notify cmd)
      have "?P (read_loop env json i (n + 1) s1 st1 (if env_receives env n then cmds @ [cmd] else cmds))
          (if env_receives env n then cmds @ [cmd] else cmds)"
        by (rule "1.IH"(2) [OF x [symmetric] Inr m [symmetric] h [symmetric] Notify])
      then show ?thesis
        using x Inr m h Notify one [of "read_loop env json i (n + 1) s1 st1 (cmds @ [cmd])" cmd]
        by (cases "env_receives env n") (simp_all add: read_loop.simps [of env json i n s st cmds])
    next
      case (Submit cmd)
      show ?thesis
      proof (cases "env_receives env n")
        case True
        have "?P (read_loop env json i (n + 1) s1 st1 (cmds @ [cmd])) (cmds @ [cmd])"
          by (rule "1.IH"(3) [OF x [symmetric] Inr m [symmetric] h [symmetric] Submit True])
        from one [OF this] Submit show ?thesis
          using read_loop_submit [OF x [unfolded Inr m] h [unfolded Submit] True] by simp
      next
        case False
        then show ?thesis using x Inr m h Submit
          by (simp add: read_loop.simps [of env json i n s st cmds] remove_client_gone)
      qed
    next
      case GoOn
      have "?P (read_loop env json i (n + 1) s1 st1 cmds) cmds"
        by (rule "1.IH"(4) [OF x [symmetric] Inr m [symmetric] h [symmetric] GoOn])
      then show ?thesis using x Inr m h GoOn by (simp add: read_loop.simps [of env json i n s st cmds])
    next
      case Stop
      then show ?thesis using x Inr m h
        by (simp add: read_loop.simps [of env json i n s st cmds] remove_client_gone)
    qed
  qed
qed

definition closed_env :: loop_env where
  "closed_env = \<lparr>env_clock = (\<lambda>_. 0), env_receives = (\<lambda>_. True),
     env_others = (\<lambda>_ st. st\<lparr>clients := Map.empty\<rparr>)\<rparr>"

lemma read_loop_cleans_up_witness:
  "snd (read_loop closed_env no_json 7 0 [Chunk [0x47, 0x53, 2, 0, 0, 0, 0]] one_client []) = []
   \<and> clients (fst (read_loop closed_env no_json 7 0 [Chunk [0x47, 0x53, 2, 0, 0, 0, 0]] one_client [])) 7 = None"
  using read_loop_cleans_up [of closed_env no_json 7 0 "[Chunk [0x47, 0x53, 2, 0, 0, 0, 0]]" one_client "[]"]
  by (simp add: closed_env_def)

section \<open>From the client to the runtime\<close>

text \<open>
  A stream that carries messages: it delivers the bytes of some messages in chunks, cut at any places,
  then the read is idle, and so on. (Idle times inside a message are the subject of the retrying reads.)
\<close>

abbreviation frames_of :: "(message_type \<times> bytes) list \<Rightarrow> bytes" where
  "frames_of ms \<equiv> concat (map (\<lambda>(ty, payload). encode_message ty payload) ms)"

inductive carries :: "stream \<Rightarrow> (message_type \<times> bytes) list \<Rightarrow> bool" where
  finished: "carries [] []"
| idle: "is_idle_error k \<Longrightarrow> carries s ms \<Longrightarrow> carries (Fail k # s) ms"
| messages: "steady cs \<Longrightarrow> stream_bytes cs = frames_of ms \<Longrightarrow> \<forall>m \<in> set ms. length (snd m) < 2 ^ 32 \<Longrightarrow>
    carries s ms' \<Longrightarrow> carries (cs @ s) (ms @ ms')"

lemma read_message_retrying_steady:
  assumes "steady cs" and "stream_bytes cs = encode_message ty payload @ rest" and "length payload < 2 ^ 32"
  shows "\<exists>cs'. read_message_retrying m (cs @ s) = (Inr (ty, payload), cs' @ s) \<and> steady cs' \<and> stream_bytes cs' = rest"
proof -
  have "HEADER_LEN \<le> length (stream_bytes cs)" using assms(2) by (simp add: length_encode_message)
  with read_exact_retrying_steady [OF assms(1), of "[]" HEADER_LEN m 0 s] obtain cs1 where
    h: "read_exact_retrying HEADER_LEN m [] 0 (cs @ s) = (Inr (take HEADER_LEN (stream_bytes cs)), cs1 @ s)"
      "steady cs1" "stream_bytes cs1 = payload @ rest"
    using assms(2) drop_header_frame [of ty payload rest] by auto
  have ph: "parse_header (take HEADER_LEN (stream_bytes cs)) = Inr (ty, length payload)"
    using parse_header_frame [OF assms(3), of ty rest] assms(2) by simp
  show ?thesis
  proof (cases "payload = []")
    case True
    with h ph show ?thesis by (simp add: read_message_retrying_def)
  next
    case False
    from read_exact_retrying_steady [OF h(2), of "[]" "length payload" m 0 s] h(3) obtain cs2 where
      p: "read_exact_retrying (length payload) m [] 0 (cs1 @ s) = (Inr payload, cs2 @ s)" "steady cs2"
        "stream_bytes cs2 = rest" by auto
    with False h ph show ?thesis by (simp add: read_message_retrying_def)
  qed
qed

text \<open>The commands as the runtime sees them, and the surroundings in which they get there.\<close>

fun command_for :: "u64 \<Rightarrow> ('key, 'mouse) stream_command \<Rightarrow> ('key, 'mouse, 'action) remote_cmd" where
  "command_for i (StreamRuntimeAction action) = CmdRuntimeAction i None action"
| "command_for i (StreamAppKeyEvent event) = CmdAppKeyEvent i event"
| "command_for i (StreamAppMouseEvent event) = CmdAppMouseEvent i event"
| "command_for i (StreamExecuteCommand input) = ExecuteCommand i input"
| "command_for i (StreamInput seq bs) = CmdInput i bs (Some seq)"
| "command_for i (StreamKey seq keyspec) = CmdKey i keyspec (Some seq)"

fun text_valid :: "('key, 'mouse) stream_command \<Rightarrow> bool" where
  "text_valid (StreamExecuteCommand input) = valid_utf8 input"
| "text_valid (StreamKey seq keyspec) = valid_utf8 keyspec"
| "text_valid command = True"

definition ready_client :: "u64 \<Rightarrow> remote_state \<Rightarrow> bool" where
  "ready_client i st \<longleftrightarrow> (\<exists>c. clients st i = Some c \<and> authenticated c \<and> is_local c)"

definition serves :: "loop_env \<Rightarrow> u64 \<Rightarrow> bool" where
  "serves env i \<longleftrightarrow> (\<forall>n. env_receives env n)
     \<and> (\<forall>n st. ready_client i st \<longrightarrow> ready_client i (env_others env n st))"

text \<open>The decoders of the daemon read what the client's \<open>serde_json::to_vec\<close> wrote; an action is no
  envelope.\<close>

definition json_agrees ::
  "(runtime_action \<Rightarrow> bytes option) \<Rightarrow> ('k \<Rightarrow> bytes option) \<Rightarrow> ('m \<Rightarrow> bytes option) \<Rightarrow> ('k, 'm, 'a) json_codec \<Rightarrow> bool" where
  "json_agrees ra rk rm json \<longleftrightarrow>
     (\<forall>a p. ra a = Some p \<longrightarrow> json_action_envelope json p = None \<and> json_runtime_action json p = Some a)
     \<and> (\<forall>e p. rk e = Some p \<longrightarrow> json_key_event json p = Some e)
     \<and> (\<forall>e p. rm e = Some p \<longrightarrow> json_mouse_event json p = Some e)"

lemma command_decoded:
  assumes "stream_command_message ra rk rm command = Some (ty, payload)" and "text_valid command"
    and "json_agrees ra rk rm json"
  shows "decode_command json i True ty payload = Some (command_for i command)"
proof -
  have u: "u64_at (le64 seq @ bs) 0 = seq" for seq bs using u64_at_mid [of "[]" seq bs] by simp
  show ?thesis
    using assms
    by (cases command)
       (auto simp: stream_command_message_def decode_command_def json_agrees_def decode_runtime_action_payload_def
          parse_input_payload_def parse_key_payload_def from_utf8_def u)
qed

lemma command_type:
  "stream_command_message ra rk rm command = Some (ty, payload) \<Longrightarrow> ty \<noteq> MsgAuth \<and> ty \<noteq> MsgHeartbeat"
  by (cases command) (auto simp: stream_command_message_def)

lemma ready_submits:
  assumes "ready_client i st" and "stream_command_message ra rk rm command = Some (ty, payload)"
    and "text_valid command" and "json_agrees ra rk rm json"
  shows "handle_frame json i now ty payload st = (Submit (command_for i command), st)"
  using assms(1) command_decoded [OF assms(2-4), of i] command_type [OF assms(2)]
  by (auto simp: ready_client_def handle_frame_def)

lemma ready_not_disconnected:
  "ready_client i st \<Longrightarrow> should_disconnect_idle_client st i w h now = None"
  by (auto simp: ready_client_def should_disconnect_idle_client_def)

lemma read_end: "read_message_retrying m [] = (Inl UnexpectedEof, [])"
proof -
  have "read_exact_retrying HEADER_LEN m [] 0 [] = (Inl UnexpectedEof, [])"
    by (subst read_exact_retrying.simps) (simp add: HEADER_LEN_def)
  then show ?thesis by (simp add: read_message_retrying_def)
qed

text \<open>The messages of one steady piece of the stream.\<close>

lemma steady_commands:
  assumes "steady cs" and "stream_bytes cs = frames_of ms" and "\<forall>m \<in> set ms. length (snd m) < 2 ^ 32"
    and "map (stream_command_message ra rk rm) commands = map Some ms"
    and "\<forall>command \<in> set commands. text_valid command" and "json_agrees ra rk rm json"
    and "serves env i" and "ready_client i st"
  shows "\<exists>n' st'. ready_client i st' \<and> read_loop env json i n (cs @ s) st cmds
    = read_loop env json i n' s st' (cmds @ map (command_for i) commands)"
  using assms(1-5,8)
proof (induction ms arbitrary: cs commands n st cmds)
  case Nil
  then have "cs = []" "commands = []" using steady_empty [of cs] by simp_all
  with Nil.prems(6) show ?case by auto
next
  case (Cons m ms)
  obtain ty payload where m: "m = (ty, payload)" by fastforce
  from Cons.prems(4) obtain command rest where c: "commands = command # rest"
    "stream_command_message ra rk rm command = Some (ty, payload)"
    "map (stream_command_message ra rk rm) rest = map Some ms" by (cases commands) (auto simp: m)
  have b: "stream_bytes cs = encode_message ty payload @ frames_of ms" "length payload < 2 ^ 32"
    using Cons.prems(2,3) by (simp_all add: m)
  from read_message_retrying_steady [OF Cons.prems(1) b, of 10 s] obtain cs' where
    cs': "read_message_retrying 10 (cs @ s) = (Inr (ty, payload), cs' @ s)" "steady cs'"
      "stream_bytes cs' = frames_of ms" by blast
  have r: "ready_client i (env_others env n st)" using assms(7) Cons.prems(6) by (simp add: serves_def)
  have v: "text_valid command" "\<forall>command \<in> set rest. text_valid command" using Cons.prems(5) c(1) by simp_all
  have "read_loop env json i n (cs @ s) st cmds
      = read_loop env json i (n + 1) (cs' @ s) (env_others env n st) (cmds @ [command_for i command])"
    by (rule read_loop_submit [OF cs'(1) ready_submits [OF r c(2) v(1) assms(6)]])
       (use assms(7) in \<open>simp add: serves_def\<close>)
  with Cons.IH [OF cs'(2,3) _ c(3) v(2) r, of "n + 1" "cmds @ [command_for i command]"] Cons.prems(3) c(1)
  show ?case by simp
qed

text \<open>C2: What the client sends is what the runtime gets. The commands of the desktop client are written
  as frames, one after the other, and the stream delivers their bytes in chunks that are cut at any
  places; the read may be idle any number of times, but not inside a frame. Then exactly these
  commands arrive, in order and with their contents and input sequence numbers, and when the stream
  ends the client is gone. (The texts in them are valid UTF-8, the daemon's JSON decoders read what
  the client's encoders write, and meanwhile the runtime takes commands and the client stays
  registered, local and authenticated.)\<close>

theorem commands_arrive:
  assumes "carries s msgs" and "map (stream_command_message ra rk rm) commands = map Some msgs"
    and "\<forall>command \<in> set commands. text_valid command" and "json_agrees ra rk rm json"
    and "serves env i" and "ready_client i st"
  shows "snd (read_loop env json i n s st cmds) = cmds @ map (command_for i) commands
    \<and> clients (fst (read_loop env json i n s st cmds)) i = None"
  using assms(1,2,3,6)
proof (induction arbitrary: commands n st cmds rule: carries.induct)
  case finished
  then show ?case by (simp add: read_loop_error [OF read_end] is_idle_error_def remove_client_gone)
next
  case (idle k s ms)
  have r: "ready_client i (env_others env n st)" using assms(5) idle.prems(3) by (simp add: serves_def)
  have "read_loop env json i n (Fail k # s) st cmds
      = read_loop env json i (n + 1) s (env_others env n st) cmds"
    by (rule read_loop_idle [OF read_idle [OF idle.hyps(1)] idle.hyps(1)]) (rule ready_not_disconnected [OF r])
  then show ?case using idle.IH [OF idle.prems(1,2) r, of "n + 1" cmds] by simp
next
  case (messages cs ms s ms')
  from messages.prems(1) obtain cs1 cs2 where c: "commands = cs1 @ cs2"
    "map (stream_command_message ra rk rm) cs1 = map Some ms" "map (stream_command_message ra rk rm) cs2 = map Some ms'"
    by (auto simp: map_eq_append_conv)
  have v: "\<forall>command \<in> set cs1. text_valid command" "\<forall>command \<in> set cs2. text_valid command"
    using messages.prems(2) c(1) by auto
  from steady_commands [OF messages.hyps(1-3) c(2) v(1) assms(4,5) messages.prems(3), of n s cmds] obtain n' st' where
    "ready_client i st'" "read_loop env json i n (cs @ s) st cmds
      = read_loop env json i n' s st' (cmds @ map (command_for i) cs1)" by blast
  with messages.IH [OF c(3) v(2), of st' n' "cmds @ map (command_for i) cs1"] c(1) show ?case by simp
qed

definition open_env :: loop_env where
  "open_env = \<lparr>env_clock = (\<lambda>_. 0), env_receives = (\<lambda>_. True), env_others = (\<lambda>_ st. st)\<rparr>"

lemma commands_arrive_witness:
  "snd (read_loop open_env no_json 7 0
      [Fail TimedOut, Chunk (MAGIC @ [6]), Chunk (le32 10 @ le64 5 @ [104, 105] @ MAGIC), Chunk ([6] @ le32 9 @ le64 6 @ [33])]
      one_client []) = [CmdInput 7 [104, 105] (Some 5), CmdInput 7 [33] (Some 6)]
   \<and> clients (fst (read_loop open_env no_json 7 0
      [Fail TimedOut, Chunk (MAGIC @ [6]), Chunk (le32 10 @ le64 5 @ [104, 105] @ MAGIC), Chunk ([6] @ le32 9 @ le64 6 @ [33])]
      one_client [])) 7 = None"
proof -
  let ?ms = "[(MsgInput, le64 5 @ [104, 105]), (MsgInput, le64 6 @ [33])]"
  let ?cs = "[Chunk (MAGIC @ [6]), Chunk (le32 10 @ le64 5 @ [104, 105] @ MAGIC), Chunk ([6] @ le32 9 @ le64 6 @ [33])]"
  have "stream_bytes ?cs = frames_of ?ms" by (simp add: encode_message_def)
  from carries.messages [OF _ this _ carries.finished] have "carries ?cs ?ms"
    by (simp add: MAGIC_def le32_def)
  then have 1: "carries (Fail TimedOut # ?cs) ?ms"
    by (intro carries.idle) (simp_all add: is_idle_error_def)
  have 2: "map (stream_command_message (\<lambda>_. None) (\<lambda>_. None) (\<lambda>_. None)) [StreamInput 5 [104, 105], StreamInput 6 [33]] = map Some ?ms"
    by (simp add: stream_command_message_def)
  have 3: "json_agrees (\<lambda>_. None) (\<lambda>_. None) (\<lambda>_. None) no_json" by (simp add: json_agrees_def)
  have 4: "serves open_env 7" by (simp add: serves_def open_env_def)
  have 5: "ready_client 7 one_client" by (simp add: ready_client_def one_client_def plain_client_def)
  from commands_arrive [OF 1 2 _ 3 4 5, of 0 "[]"] show ?thesis by simp
qed

end
