(* ===== verification/CoalesceProps.thy ===== *)
theory CoalesceProps
  imports SessionSteps BatcherSpec
begin

text \<open>
  What the coalescing of screen updates does to deltas. A delta is computed from the screen recorded
  as sent last, but a batch may drop the frame of that screen.
\<close>

section \<open>Rows a delta does not name\<close>

lemma unnamed_row:
  assumes "k < unat (fs_rows current)"
    and "row_of (unat (fs_cols current)) (fs_cells previous) k = row_of (unat (fs_cols current)) (fs_cells current) k"
    and "r \<in> set (delta_rows previous current)"
  shows "k \<noteq> unat (fst r)"
proof -
  from assms(3) obtain q where q: "q < unat (fs_rows current)" "fst r = word_of_nat q"
    "row_of (unat (fs_cols current)) (fs_cells previous) q \<noteq> row_of (unat (fs_cols current)) (fs_cells current) q"
    by (auto simp: delta_rows_def changed_list_def)
  have "unat (word_of_nat q :: u16) = q"
    by (rule unat_word_of_nat16) (use q(1) unat_lt [of "fs_rows current"] in simp)
  with q assms(2) show ?thesis by auto
qed

text \<open>The frame for a client of the direct transport is the one for a local client without the eight
  bytes of the input sequence number, so the local decoder reads it behind eight zeros.\<close>

lemma encode_delta_direct:
  assumes "fs_wf previous" and "fs_wf current" and "encode_delta previous current seq False = Some (Some payload)"
  shows "decode_remote_delta (le64 0 @ payload) = Some (None, delta_of previous current)"
proof -
  have g: "same_grid previous current"
    using assms(3) by (auto simp: encode_delta_def same_grid_def split: if_splits)
  have "encode_delta previous current None True = Some (Some (le64 0 @ payload))"
    using assms(3) unfolding encode_delta_eq [OF assms(1,2) g]
    by (auto simp: delta_header_def input_seq_prefix_def append_row_replica_trailer_def split: if_splits)
  from decode_encoded_delta [OF assms(1,2) g this] show ?thesis by (simp add: ack_of_def)
qed

lemma delta_of_unnamed:
  assumes "k < unat (fs_rows current)"
    and "row_of (unat (fs_cols current)) (fs_cells previous) k = row_of (unat (fs_cols current)) (fs_cells current) k"
    and "d \<in> set (dl_changed_rows (delta_of previous current))"
  shows "unat (rd_row d) \<noteq> k"
proof -
  from assms(3) obtain r where r: "r \<in> set (delta_rows previous current)" "d = row_delta_of r"
    by (auto simp: delta_of_def)
  have "rd_row d = fst r" by (cases r) (simp add: r(2) row_delta_of_def)
  with unnamed_row [OF assms(1,2) r(1)] show ?thesis by simp
qed

lemma send_delta:
  assumes "clients st i = Some c" and "subscribed_to_runtime (runtime_view c)"
    and "last_state (runtime_view c) = Some prev"
    and "encode_delta prev nxt (latest_input_seq (runtime_view c)) (is_local c) = Some (Some d)"
    and "send_state_to_client i nxt st = Some st'"
  shows "clients st' i = Some (send_outbound (ScreenUpdate (encode_message MsgDelta d))
    (c\<lparr>runtime_view := (runtime_view c)\<lparr>last_state := Some nxt\<rparr>\<rparr>))"
  using assms by (auto simp: send_state_to_client_def read_publish_state_def encode_publish_def
      commit_state_def update_client_clients)

section \<open>Properties\<close>

text \<open>C40: Coalesced deltas lose rows. A client of the direct transport, whose writer coalesces, has the
  screen s0 and an empty queue; the server sends it s1 and then s2, both as deltas, before the writer
  takes the batch. Then only the frame of the second delta is written, although it was computed from
  s1: the rows it names, as they are decoded from its bytes, do not include a row that changed from s0
  to s1 and not again. So the client is never sent the contents of that row, which differ from those
  it has, while the server has s2 on record as sent.\<close>

theorem coalesced_delta_loses_row:
  assumes "clients st i = Some c" and "outbound c = []" and "subscribed_to_runtime (runtime_view c)"
    and "\<not> is_local c" and "last_state (runtime_view c) = Some s0" and "fs_wf s1" and "fs_wf s2"
    and "encode_delta s0 s1 (latest_input_seq (runtime_view c)) False = Some (Some d1)"
    and "encode_delta s1 s2 (latest_input_seq (runtime_view c)) False = Some (Some d2)"
    and "send_state_to_client i s1 st = Some st1" and "send_state_to_client i s2 st1 = Some st2"
    and "k < unat (fs_rows s2)"
    and "row_of (unat (fs_cols s2)) (fs_cells s0) k \<noteq> row_of (unat (fs_cols s2)) (fs_cells s1) k"
    and "row_of (unat (fs_cols s2)) (fs_cells s1) k = row_of (unat (fs_cols s2)) (fs_cells s2) k"
  shows "\<exists>c2 m1 m2 delta. clients st2 i = Some c2 \<and> last_state (runtime_view c2) = Some s2
    \<and> outbound c2 = [m1, m2] \<and> ob_frames (collect_outbound_batch m1 [m2] True) = [encode_message MsgDelta d2]
    \<and> decode_remote_delta (le64 0 @ d2) = Some (None, delta)
    \<and> (\<forall>row \<in> set (dl_changed_rows delta). unat (rd_row row) \<noteq> k)
    \<and> row_of (unat (fs_cols s2)) (fs_cells s0) k \<noteq> row_of (unat (fs_cols s2)) (fs_cells s2) k"
proof -
  let ?m1 = "ScreenUpdate (encode_message MsgDelta d1)" and ?m2 = "ScreenUpdate (encode_message MsgDelta d2)"
  have c1: "clients st1 i = Some (send_outbound ?m1 (c\<lparr>runtime_view := (runtime_view c)\<lparr>last_state := Some s1\<rparr>\<rparr>))"
    using assms(1,3-5,8,10) by (intro send_delta) simp_all
  have "clients st2 i = Some (send_outbound ?m2 ((send_outbound ?m1
      (c\<lparr>runtime_view := (runtime_view c)\<lparr>last_state := Some s1\<rparr>\<rparr>))
      \<lparr>runtime_view := (runtime_view c)\<lparr>last_state := Some s2\<rparr>\<rparr>))"
    using send_delta [OF c1 _ _ _ assms(11)] assms(3,4,9) by (simp add: send_outbound_def)
  then have c2: "clients st2 i = Some (c\<lparr>outbound := [?m1, ?m2], runtime_view := (runtime_view c)\<lparr>last_state := Some s2\<rparr>\<rparr>)"
    using assms(2) by (simp add: send_outbound_def)
  have b: "ob_frames (collect_outbound_batch ?m1 [?m2] True) = [encode_message MsgDelta d2]"
    by (simp add: collect_outbound_batch_def finish_batch_def collector_init_def flush_control_def
        flush_focused_def flush_screen_def flush_passive_def pof_take_all_def ppf_take_all_def
        pof_default_def ppf_default_def Let_def)
  show ?thesis
    using c2 b encode_delta_direct [OF assms(6,7,9)] delta_of_unnamed [OF assms(12,14)] assms(13,14)
    by (intro exI [of _ "c\<lparr>outbound := [?m1, ?m2], runtime_view := (runtime_view c)\<lparr>last_state := Some s2\<rparr>\<rparr>"]
        exI [of _ ?m1] exI [of _ ?m2] exI [of _ "delta_of s1 s2"]) simp
qed

text \<open>A screen of two rows whose first row changes, and then the second.\<close>

definition two_rows :: "u32 \<Rightarrow> u32 \<Rightarrow> remote_full_state" where
  "two_rows a b = (tiny_state 0 0 0)\<lparr>fs_rows := 2, fs_cols := 1, fs_cells := [tiny_cell a, tiny_cell b]\<rparr>"

lemma two_rows_fields [simp]: "fs_rows (two_rows a b) = 2" "fs_cols (two_rows a b) = 1"
    "fs_cells (two_rows a b) = [tiny_cell a, tiny_cell b]"
  by (simp_all add: two_rows_def)

lemma two_rows_wf [simp]: "fs_wf (two_rows a b)"
  by (simp add: fs_wf_def)

lemma two_rows_grid [simp]: "same_grid (two_rows a b) (two_rows c d)"
  by (simp add: same_grid_def)

lemma two_rows_delta:
  assumes "(a = c) \<noteq> (b = d)"
  shows "\<exists>payload. encode_delta (two_rows a b) (two_rows c d) None False = Some (Some payload)"
proof -
  have t: "tiny_cell x = tiny_cell y \<longleftrightarrow> x = y" for x y by (simp add: tiny_cell_def)
  have "[0..<2] = [0, Suc 0]" by (simp add: upt_rec)
  then have "length (delta_rows (two_rows a b) (two_rows c d)) = 1"
    using assms by (auto simp: delta_rows_def changed_list_def row_of_def t)
  then show ?thesis unfolding encode_delta_eq [OF two_rows_wf two_rows_wf two_rows_grid] by (simp add: delta_covers_all_def)
qed

lemma coalesced_delta_loses_row_witness:
  "\<exists>st st1 st2 c2 m1 m2 d2 delta. send_state_to_client 7 (two_rows 66 70) st = Some st1
     \<and> send_state_to_client 7 (two_rows 66 71) st1 = Some st2
     \<and> clients st2 7 = Some c2 \<and> outbound c2 = [m1, m2]
     \<and> ob_frames (collect_outbound_batch m1 [m2] True) = [encode_message MsgDelta d2]
     \<and> decode_remote_delta (le64 0 @ d2) = Some (None, delta)
     \<and> (\<forall>row \<in> set (dl_changed_rows delta). unat (rd_row row) \<noteq> 0)"
proof -
  let ?v = "view_idle\<lparr>subscribed_to_runtime := True, last_state := Some (two_rows 65 70)\<rparr>"
  let ?c = "\<lparr>outbound = [], authenticated = True, connected_at = 0, authenticated_at = Some 0,
      last_heartbeat_at = None, runtime_view = ?v, is_local = False\<rparr>"
  let ?st = "\<lparr>clients = [7 \<mapsto> ?c], server_instance_id = []\<rparr>"
  obtain d1 where d1: "encode_delta (two_rows 65 70) (two_rows 66 70) None False = Some (Some d1)"
    using two_rows_delta [of 65 66 70 70] by auto
  obtain d2 where d2: "encode_delta (two_rows 66 70) (two_rows 66 71) None False = Some (Some d2)"
    using two_rows_delta [of 66 66 70 71] by auto
  obtain st1 where st1: "send_state_to_client 7 (two_rows 66 70) ?st = Some st1"
    and v1: "\<exists>c1. clients st1 7 = Some c1 \<and> is_local c1 = False \<and> runtime_view c1 = ?v\<lparr>last_state := Some (two_rows 66 70)\<rparr>"
    using d1 by (simp add: send_state_to_client_def read_publish_state_def encode_publish_def commit_state_def
        update_client_clients send_outbound_def view_idle_def)
  obtain st2 where st2: "send_state_to_client 7 (two_rows 66 71) st1 = Some st2"
    using v1 d2 by (auto simp: send_state_to_client_def read_publish_state_def encode_publish_def view_idle_def)
  have c: "clients ?st 7 = Some ?c" by simp
  have cells: "tiny_cell 65 \<noteq> tiny_cell 66" by (simp add: tiny_cell_def)
  from coalesced_delta_loses_row [OF c _ _ _ _ two_rows_wf two_rows_wf _ _ st1 st2, of "two_rows 65 70" d1 d2 0] d1 d2 cells
  have "\<exists>c2 m1 m2 delta. clients st2 7 = Some c2 \<and> outbound c2 = [m1, m2]
    \<and> ob_frames (collect_outbound_batch m1 [m2] True) = [encode_message MsgDelta d2]
    \<and> decode_remote_delta (le64 0 @ d2) = Some (None, delta)
    \<and> (\<forall>row \<in> set (dl_changed_rows delta). unat (rd_row row) \<noteq> 0)"
    by (simp add: view_idle_def row_of_def) blast
  then show ?thesis using st1 st2 by blast
qed

end
