(* ===== verification/RowCache.thy ===== *)
theory RowCache
  imports ScreenProps
begin

text \<open>
  The rows that the daemon keeps of a pane (\<open>src/runtime_server.rs\<close>, \<open>src/main.rs\<close>): every screen that
  is published passes through the cache, and clients ask for ranges of rows by their identifiers. A
  \<open>BTreeMap\<close> is the list of its entries in the order of the keys.
\<close>

section \<open>Ordered maps\<close>

fun btree_insert :: "'k::linorder \<Rightarrow> 'v \<Rightarrow> ('k \<times> 'v) list \<Rightarrow> ('k \<times> 'v) list" where
  "btree_insert k v [] = [(k, v)]"
| "btree_insert k v ((a, b) # xs) =
     (if k < a then (k, v) # (a, b) # xs else if k = a then (k, v) # xs else (a, b) # btree_insert k v xs)"

definition btree_ok :: "('k::linorder \<times> 'v) list \<Rightarrow> bool" where
  "btree_ok xs \<longleftrightarrow> sorted_wrt (<) (map fst xs)"

lemma btree_insert_keys: "fst ` set (btree_insert k v xs) = insert k (fst ` set xs)"
  by (induction k v xs rule: btree_insert.induct) auto

lemma btree_insert_ok: "btree_ok xs \<Longrightarrow> btree_ok (btree_insert k v xs)"
proof (induction k v xs rule: btree_insert.induct)
  case (2 k v a b xs)
  have "x \<in> insert k (fst ` set xs)" if "x \<in> fst ` set (btree_insert k v xs)" for x
    using that by (simp only: btree_insert_keys)
  then show ?case using 2 by (force simp: btree_ok_def)
qed (simp add: btree_ok_def)

lemma btree_insert_map:
  "btree_ok xs \<Longrightarrow> map_of (btree_insert k v xs) = (map_of xs)(k \<mapsto> v)"
proof (induction k v xs rule: btree_insert.induct)
  case (2 k v a b xs)
  have "k \<notin> fst ` set xs" if "k < a" using 2(2) that by (force simp: btree_ok_def)
  then show ?case using 2 by (auto simp: btree_ok_def fun_eq_iff)
qed simp

lemma btree_distinct: "btree_ok xs \<Longrightarrow> distinct (map fst xs)"
  by (simp add: btree_ok_def strict_sorted_iff)

section \<open>The cache\<close>

record pane_row_cache =
  rc_epoch :: u64
  rc_cols :: u16
  rc_retained_start :: u64
  rc_retained_end :: u64
  rc_rows :: "(u64 \<times> remote_cell list) list"

definition row_cache_default :: pane_row_cache where
  "row_cache_default = \<lparr>rc_epoch = 0, rc_cols = 0, rc_retained_start = 0, rc_retained_end = 0, rc_rows = []\<rparr>"

definition MAX_RETAINED_ROWS :: nat where "MAX_RETAINED_ROWS = 10000"

text \<open>The loop that drops the first row while there are too many.\<close>

fun evict_rows :: "('k \<times> 'v) list \<Rightarrow> ('k \<times> 'v) list" where
  "evict_rows [] = []"
| "evict_rows (x # xs) = (if length (x # xs) > MAX_RETAINED_ROWS then evict_rows xs else x # xs)"

text \<open>The loop that enters the rows of a screen.\<close>

fun enter_rows :: "u64 \<Rightarrow> nat \<Rightarrow> remote_cell list list \<Rightarrow> (u64 \<times> remote_cell list) list \<Rightarrow> (u64 \<times> remote_cell list) list" where
  "enter_rows base n [] rows = rows"
| "enter_rows base n (cells # rest) rows =
     enter_rows base (n + 1) rest (btree_insert (sat_add_u64 base (word_of_nat n)) cells rows)"

definition retained_start_of :: "u64 \<Rightarrow> (u64 \<times> 'v) list \<Rightarrow> u64" where
  "retained_start_of visible_start rows = (case rows of [] \<Rightarrow> visible_start | (k, v) # xs \<Rightarrow> k)"

definition retained_end_of :: "u64 \<Rightarrow> (u64 \<times> 'v) list \<Rightarrow> u64" where
  "retained_end_of visible_end rows = (if rows = [] then visible_end else sat_add_u64 (fst (last rows)) 1)"

text \<open>
  \<open>apply_row_cache_metadata\<close>; \<open>None\<close> is the panic of \<open>chunks(0)\<close>. The bounds of the retained rows that
  the source computes before it drops rows are overwritten afterwards.
\<close>

definition apply_row_cache_metadata ::
  "pane_row_cache \<Rightarrow> remote_full_state \<Rightarrow> (pane_row_cache \<times> remote_full_state) option" where
  "apply_row_cache_metadata cache state =
     (let visible_start = viewport_top state;
          visible_end = sat_add_u64 (viewport_top state) (ucast (fs_rows state));
          cols_changed = (rc_cols cache \<noteq> 0 \<and> rc_cols cache \<noteq> fs_cols state);
          row_ids_regressed = (rc_retained_end cache \<noteq> 0 \<and> visible_end < rc_retained_start cache);
          cache1 = (if cols_changed \<or> row_ids_regressed
                    then cache\<lparr>rc_epoch := max (rc_epoch cache + 1) 1, rc_rows := [], rc_retained_start := 0,
                               rc_retained_end := 0\<rparr>
                    else cache);
          cache2 = cache1\<lparr>rc_cols := fs_cols state\<rparr>;
          cache3 = (if rc_epoch cache2 = 0 then cache2\<lparr>rc_epoch := 1\<rparr> else cache2);
          state1 = state\<lparr>fs_epoch := rc_epoch cache3\<rparr>;
          cols = unat (fs_cols state)
      in if cols = 0 then None
         else
           let rows = evict_rows (enter_rows (viewport_top state) 0 (list_chunks cols (fs_cells state)) (rc_rows cache3));
               cache4 = cache3\<lparr>rc_rows := rows, rc_retained_start := retained_start_of visible_start rows,
                               rc_retained_end := retained_end_of visible_end rows\<rparr>
           in Some (cache4, state1\<lparr>scrollback_total := max (scrollback_total state1) (rc_retained_end cache4)\<rparr>))"

definition remote_row_range_response ::
  "(u64 \<rightharpoonup> pane_row_cache) \<Rightarrow> row_range_request \<Rightarrow> row_range_response option" where
  "remote_row_range_response caches request =
     (case caches (rr_pane_id request) of
        None \<Rightarrow> None
      | Some cache \<Rightarrow>
          if rc_epoch cache \<noteq> rr_epoch request then
            Some \<lparr>rs_pane_id = rr_pane_id request, rs_epoch = rc_epoch cache, rs_cols = rc_cols cache,
                  rs_start_row_id = rr_start_row_id request, rs_rows = []\<rparr>
          else
            let start = min (rr_start_row_id request) (rr_end_row_id request);
                stop = max (rr_end_row_id request) (rr_start_row_id request)
            in Some \<lparr>rs_pane_id = rr_pane_id request, rs_epoch = rc_epoch cache, rs_cols = rc_cols cache,
                     rs_start_row_id = start,
                     rs_rows = filter (\<lambda>(row_id, cells). start \<le> row_id \<and> row_id < stop) (rc_rows cache)\<rparr>)"

section \<open>Lemmas\<close>

lemma evict_rows_drop: "evict_rows xs = drop (length xs - MAX_RETAINED_ROWS) xs"
  by (induction xs) (auto simp: Suc_diff_le)

lemma enter_rows_ok: "btree_ok rows \<Longrightarrow> btree_ok (enter_rows base n css rows)"
  by (induction base n css rows rule: enter_rows.induct) (auto intro: btree_insert_ok)

lemma btree_insert_range: "set (btree_insert k v xs) \<subseteq> insert (k, v) (set xs)"
  by (induction k v xs rule: btree_insert.induct) auto

lemma enter_rows_range: "set (enter_rows base n css rows) \<subseteq> UNIV \<times> set css \<union> set rows"
proof (induction base n css rows rule: enter_rows.induct)
  case (2 base n cells rest rows)
  then show ?case
    using btree_insert_range [of "sat_add_u64 base (word_of_nat n)" cells rows] by auto
qed simp

lemma enter_rows_keys:
  "fst ` set (enter_rows base n css rows)
     \<subseteq> (\<lambda>r. sat_add_u64 base (word_of_nat r)) ` {n..<n + length css} \<union> fst ` set rows"
proof (induction base n css rows rule: enter_rows.induct)
  case (2 base n cells rest rows)
  let ?f = "\<lambda>r. sat_add_u64 base (word_of_nat r)"
  have "fst ` set (enter_rows base n (cells # rest) rows)
      \<subseteq> ?f ` {n + 1..<n + 1 + length rest} \<union> insert (?f n) (fst ` set rows)"
    using 2 by (simp add: btree_insert_keys)
  also have "\<dots> \<subseteq> ?f ` {n..<n + length (cells # rest)} \<union> fst ` set rows" by (auto simp: image_iff)
  finally show ?case .
qed simp

lemma unat_row_id: "unat base + r < 2 ^ 64 \<Longrightarrow> unat (sat_add_u64 base (word_of_nat r)) = unat base + r"
  by (simp add: unat_sat_add_u64 unat_of_nat)

lemma enter_rows_other:
  "btree_ok rows \<Longrightarrow> unat base + n + length css < 2 ^ 64 \<Longrightarrow>
   unat row_id < unat base + n \<or> unat base + n + length css \<le> unat row_id \<Longrightarrow>
   map_of (enter_rows base n css rows) row_id = map_of rows row_id"
proof (induction base n css rows rule: enter_rows.induct)
  case (2 base n cells rest rows)
  have "sat_add_u64 base (word_of_nat n) \<noteq> row_id" using unat_row_id [of base n] 2(3,4) by auto
  then show ?case using 2 by (auto simp add: btree_insert_ok btree_insert_map)
qed simp

lemma enter_rows_lookup:
  "btree_ok rows \<Longrightarrow> unat base + n + length css < 2 ^ 64 \<Longrightarrow> r < length css \<Longrightarrow>
   map_of (enter_rows base n css rows) (sat_add_u64 base (word_of_nat (n + r))) = Some (css ! r)"
proof (induction base n css rows arbitrary: r rule: enter_rows.induct)
  case (2 base n cells rest rows)
  let ?rows = "btree_insert (sat_add_u64 base (word_of_nat n)) cells rows"
  have ok: "btree_ok ?rows" using 2(2) by (rule btree_insert_ok)
  show ?case
  proof (cases r)
    case 0
    have "map_of (enter_rows base (n + 1) rest ?rows) (sat_add_u64 base (word_of_nat n))
        = map_of ?rows (sat_add_u64 base (word_of_nat n))"
      by (rule enter_rows_other [OF ok]) (use 2(3) unat_row_id [of base n] in simp_all)
    then show ?thesis using 0 btree_insert_map [OF 2(2)] by simp
  next
    case (Suc q)
    then show ?thesis using "2.IH" [OF ok, of q] 2(3,4) by simp
  qed
qed simp

text \<open>Dropping keeps exactly the rows above which there are fewer than the maximum.\<close>

lemma above_count:
  fixes keys :: "'k::linorder list"
  assumes "sorted_wrt (<) keys" and "j < length keys"
  shows "card {a \<in> set keys. keys ! j < a} = length keys - Suc j"
proof -
  let ?lo = "take (Suc j) keys" and ?hi = "drop (Suc j) keys"
  have s: "sorted_wrt (<) (?lo @ ?hi)" using assms(1) by simp
  have "a \<le> keys ! j" if "a \<in> set ?lo" for a
    using that assms by (auto simp: in_set_conv_nth less_Suc_eq sorted_wrt_iff_nth_less order_le_less)
  moreover have "keys ! j < a" if "a \<in> set ?hi" for a
    using s that assms(2) unfolding sorted_wrt_append
    by (metis in_set_conv_nth length_take lessI min.absorb4 nth_take Suc_leI min.absorb2)
  ultimately have "{a \<in> set keys. keys ! j < a} = set ?hi"
    using set_append [of ?lo ?hi] by fastforce
  moreover have "distinct ?hi" using assms(1) by (simp add: strict_sorted_iff)
  ultimately show ?thesis by (simp add: distinct_card)
qed

lemma in_drop: "x \<in> set (drop n xs) \<longleftrightarrow> (\<exists>j. n \<le> j \<and> j < length xs \<and> xs ! j = x)"
proof
  assume "x \<in> set (drop n xs)"
  then obtain m where "m < length (drop n xs)" "drop n xs ! m = x" unfolding in_set_conv_nth by blast
  then show "\<exists>j. n \<le> j \<and> j < length xs \<and> xs ! j = x" by (intro exI [of _ "n + m"]) auto
next
  assume "\<exists>j. n \<le> j \<and> j < length xs \<and> xs ! j = x"
  then obtain j where "n \<le> j" "j < length xs" "xs ! j = x" by blast
  then show "x \<in> set (drop n xs)" unfolding in_set_conv_nth by (intro exI [of _ "j - n"]) auto
qed

lemma evict_iff:
  assumes ok: "btree_ok xs"
  shows "(k, v) \<in> set (evict_rows xs)
    \<longleftrightarrow> (k, v) \<in> set xs \<and> card {a \<in> fst ` set xs. k < a} < MAX_RETAINED_ROWS"
proof -
  have n: "length xs - MAX_RETAINED_ROWS \<le> j \<longleftrightarrow> card {a \<in> fst ` set xs. k < a} < MAX_RETAINED_ROWS"
    if "j < length xs" "xs ! j = (k, v)" for j
  proof -
    have "card {a \<in> fst ` set xs. k < a} = length xs - Suc j"
      using above_count [of "map fst xs" j] ok that by (simp add: btree_ok_def)
    then show ?thesis using that(1) by (auto simp: MAX_RETAINED_ROWS_def)
  qed
  show ?thesis
  proof
    assume "(k, v) \<in> set (evict_rows xs)"
    then obtain j where "length xs - MAX_RETAINED_ROWS \<le> j" "j < length xs" "xs ! j = (k, v)"
      unfolding evict_rows_drop in_drop by blast
    with n [of j] nth_mem [of j xs] show "(k, v) \<in> set xs \<and> card {a \<in> fst ` set xs. k < a} < MAX_RETAINED_ROWS"
      by simp
  next
    assume r: "(k, v) \<in> set xs \<and> card {a \<in> fst ` set xs. k < a} < MAX_RETAINED_ROWS"
    then obtain j where "j < length xs" "xs ! j = (k, v)" by (auto simp: in_set_conv_nth)
    with n [of j] r show "(k, v) \<in> set (evict_rows xs)" unfolding evict_rows_drop in_drop by blast
  qed
qed

lemma evict_ok: "btree_ok xs \<Longrightarrow> btree_ok (evict_rows xs)"
  by (simp add: btree_ok_def evict_rows_drop drop_map [symmetric] sorted_wrt_drop)

section \<open>The invariant and the service\<close>

text \<open>The rows are ordered, at most the maximum, and all as wide as the screen last seen.\<close>

definition cache_ok :: "pane_row_cache \<Rightarrow> bool" where
  "cache_ok cache \<longleftrightarrow> btree_ok (rc_rows cache) \<and> length (rc_rows cache) \<le> MAX_RETAINED_ROWS
     \<and> (rc_cols cache = 0 \<longrightarrow> rc_rows cache = [])
     \<and> (\<forall>(row_id, cells) \<in> set (rc_rows cache). length cells = unat (rc_cols cache))"

lemma list_chunks_width:
  assumes "fs_wf st" and "0 < unat (fs_cols st)"
  shows "list_chunks (unat (fs_cols st)) (fs_cells st)
      = map (row_of (unat (fs_cols st)) (fs_cells st)) [0..<unat (fs_rows st)]"
    and "\<forall>cells \<in> set (list_chunks (unat (fs_cols st)) (fs_cells st)). length cells = unat (fs_cols st)"
proof -
  have len: "length (fs_cells st) = unat (fs_rows st) * unat (fs_cols st)" using assms(1) by (simp add: fs_wf_def)
  show c: "list_chunks (unat (fs_cols st)) (fs_cells st)
      = map (row_of (unat (fs_cols st)) (fs_cells st)) [0..<unat (fs_rows st)]"
    by (rule list_chunks_rows [OF len assms(2)])
  show "\<forall>cells \<in> set (list_chunks (unat (fs_cols st)) (fs_cells st)). length cells = unat (fs_cols st)"
    unfolding c using length_row_of [OF len] by simp
qed

text \<open>The rows kept from before: none when the width changed or the identifiers went back.\<close>

definition kept_rows :: "pane_row_cache \<Rightarrow> remote_full_state \<Rightarrow> (u64 \<times> remote_cell list) list" where
  "kept_rows cache state =
     (if (rc_cols cache \<noteq> 0 \<and> rc_cols cache \<noteq> fs_cols state)
         \<or> (rc_retained_end cache \<noteq> 0
             \<and> sat_add_u64 (viewport_top state) (ucast (fs_rows state)) < rc_retained_start cache)
      then [] else rc_rows cache)"

lemma apply_row_cache_eq:
  assumes "apply_row_cache_metadata cache state = Some (cache', state')"
  shows "0 < unat (fs_cols state)"
    and "rc_rows cache' = evict_rows (enter_rows (viewport_top state) 0
        (list_chunks (unat (fs_cols state)) (fs_cells state)) (kept_rows cache state))"
    and "rc_cols cache' = fs_cols state" and "rc_epoch cache' \<noteq> 0"
    and "state' = state\<lparr>fs_epoch := rc_epoch cache',
        scrollback_total := max (scrollback_total state) (rc_retained_end cache')\<rparr>"
    and "rc_retained_start cache' = retained_start_of (viewport_top state) (rc_rows cache')"
    and "rc_retained_end cache' = retained_end_of (sat_add_u64 (viewport_top state) (ucast (fs_rows state))) (rc_rows cache')"
proof -
  have m: "max (x + 1) 1 \<noteq> (0 :: u64)" for x by (auto simp: max_def)
  show "0 < unat (fs_cols state)"
    using assms by (auto simp: apply_row_cache_metadata_def Let_def split: if_splits)
  show "rc_rows cache' = evict_rows (enter_rows (viewport_top state) 0
        (list_chunks (unat (fs_cols state)) (fs_cells state)) (kept_rows cache state))"
    using assms by (auto simp: apply_row_cache_metadata_def kept_rows_def Let_def split: if_splits)
  show "rc_cols cache' = fs_cols state"
    using assms by (auto simp: apply_row_cache_metadata_def Let_def split: if_splits)
  show "rc_epoch cache' \<noteq> 0"
    using assms m [of "rc_epoch cache"] by (auto simp: apply_row_cache_metadata_def Let_def split: if_splits)
  show "state' = state\<lparr>fs_epoch := rc_epoch cache',
        scrollback_total := max (scrollback_total state) (rc_retained_end cache')\<rparr>"
    using assms by (auto simp: apply_row_cache_metadata_def Let_def split: if_splits)
  show "rc_retained_start cache' = retained_start_of (viewport_top state) (rc_rows cache')"
    "rc_retained_end cache' = retained_end_of (sat_add_u64 (viewport_top state) (ucast (fs_rows state))) (rc_rows cache')"
    using assms by (auto simp: apply_row_cache_metadata_def Let_def split: if_splits)
qed

lemma kept_rows_ok:
  assumes "cache_ok cache"
  shows "btree_ok (kept_rows cache state)"
    and "\<forall>(row_id, cells) \<in> set (kept_rows cache state). length cells = unat (fs_cols state)"
    and "set (kept_rows cache state) \<subseteq> set (rc_rows cache)"
  using assms by (auto simp: kept_rows_def cache_ok_def btree_ok_def)

lemma row_cache_ok:
  assumes ok: "cache_ok cache" and wf: "fs_wf state"
    and ap: "apply_row_cache_metadata cache state = Some (cache', state')"
  shows "cache_ok cache'"
proof -
  note e = apply_row_cache_eq [OF ap] and k = kept_rows_ok [OF ok, of state]
  let ?css = "list_chunks (unat (fs_cols state)) (fs_cells state)"
  have "rc_cols cache' \<noteq> 0" using e(1,3) by auto
  moreover have "btree_ok (rc_rows cache')" unfolding e(2) by (intro evict_ok enter_rows_ok k(1))
  moreover have "length (rc_rows cache') \<le> MAX_RETAINED_ROWS" unfolding e(2) evict_rows_drop by simp
  moreover have "length cells = unat (rc_cols cache')" if "(row_id, cells) \<in> set (rc_rows cache')" for row_id cells
  proof -
    have "(row_id, cells) \<in> set (enter_rows (viewport_top state) 0 ?css (kept_rows cache state))"
      using that unfolding e(2) evict_rows_drop by (rule in_set_dropD)
    then have "cells \<in> set ?css \<or> (row_id, cells) \<in> set (kept_rows cache state)"
      using enter_rows_range [of "viewport_top state" 0 ?css "kept_rows cache state"] by auto
    then show ?thesis using list_chunks_width(2) [OF wf e(1)] k(2) e(3) by auto
  qed
  ultimately show ?thesis unfolding cache_ok_def by blast
qed

text \<open>The rows that are known when a screen is published: those of the screen, and the rows kept from
  before.\<close>

definition known_row :: "pane_row_cache \<Rightarrow> remote_full_state \<Rightarrow> u64 \<Rightarrow> remote_cell list option" where
  "known_row cache state row_id =
     (if unat (viewport_top state) \<le> unat row_id \<and> unat row_id < unat (viewport_top state) + unat (fs_rows state)
      then Some (row_of (unat (fs_cols state)) (fs_cells state) (unat row_id - unat (viewport_top state)))
      else map_of (kept_rows cache state) row_id)"

lemma enter_rows_known:
  assumes ok: "cache_ok cache" and wf: "fs_wf state" and cols: "0 < unat (fs_cols state)"
    and top: "unat (viewport_top state) + unat (fs_rows state) < 2 ^ 64"
  shows "map_of (enter_rows (viewport_top state) 0 (list_chunks (unat (fs_cols state)) (fs_cells state))
      (kept_rows cache state)) = known_row cache state"
proof
  fix row_id
  let ?css = "list_chunks (unat (fs_cols state)) (fs_cells state)" and ?base = "viewport_top state"
  note k = kept_rows_ok(1) [OF ok, of state] and c = list_chunks_width(1) [OF wf cols]
  show "map_of (enter_rows ?base 0 ?css (kept_rows cache state)) row_id = known_row cache state row_id"
  proof (cases "unat ?base \<le> unat row_id \<and> unat row_id < unat ?base + unat (fs_rows state)")
    case True
    define r where "r = unat row_id - unat ?base"
    have r: "r < unat (fs_rows state)" "unat row_id = unat ?base + r" using True by (auto simp: r_def)
    have "sat_add_u64 ?base (word_of_nat r) = row_id"
      unfolding word_unat_eq_iff using unat_row_id [of ?base r] r top by simp
    then show ?thesis
      using enter_rows_lookup [OF k, of ?base 0 ?css r] top r True c
      by (simp add: known_row_def r_def [symmetric])
  next
    case False
    then show ?thesis
      using enter_rows_other [OF k, of ?base 0 ?css row_id] top c by (auto simp: known_row_def)
  qed
qed

lemma row_cache_rows:
  assumes ok: "cache_ok cache" and wf: "fs_wf state"
    and ap: "apply_row_cache_metadata cache state = Some (cache', state')"
    and top: "unat (viewport_top state) + unat (fs_rows state) < 2 ^ 64"
  shows "(row_id, cells) \<in> set (rc_rows cache') \<longleftrightarrow> known_row cache state row_id = Some cells
    \<and> card {a. known_row cache state a \<noteq> None \<and> row_id < a} < MAX_RETAINED_ROWS"
proof -
  note e = apply_row_cache_eq [OF ap] and k = kept_rows_ok(1) [OF ok, of state]
  let ?all = "enter_rows (viewport_top state) 0 (list_chunks (unat (fs_cols state)) (fs_cells state)) (kept_rows cache state)"
  have all: "btree_ok ?all" by (rule enter_rows_ok [OF k])
  have m: "map_of ?all = known_row cache state" by (rule enter_rows_known [OF ok wf e(1) top])
  have "(row_id, cells) \<in> set ?all \<longleftrightarrow> known_row cache state row_id = Some cells"
    unfolding m [symmetric] using btree_distinct [OF all] by simp
  moreover have "fst ` set ?all = {a. known_row cache state a \<noteq> None}"
    unfolding m [symmetric] using dom_map_of_conv_image_fst [of ?all] by (auto simp: dom_def)
  then have "{a \<in> fst ` set ?all. row_id < a} = {a. known_row cache state a \<noteq> None \<and> row_id < a}" by auto
  ultimately show ?thesis unfolding e(2) evict_iff [OF all] by simp
qed

section \<open>Pane revisions\<close>

text \<open>\<open>pane_terminal_revision\<close> and \<open>forget_pane_terminal_revision\<close> (\<open>src/runtime.rs\<close>).\<close>

definition pane_terminal_revision ::
  "u64 \<Rightarrow> remote_full_state \<Rightarrow> (u64 \<rightharpoonup> u64 \<times> remote_full_state) \<Rightarrow> u64 \<times> (u64 \<rightharpoonup> u64 \<times> remote_full_state)" where
  "pane_terminal_revision pane_id next_state revisions =
     (case revisions pane_id of
        Some (revision, cached_state) \<Rightarrow>
          if cached_state = next_state then (revision, revisions)
          else let revision' = max (revision + 1) 1
               in (revision', revisions(pane_id \<mapsto> (revision', next_state)))
      | None \<Rightarrow> (1, revisions(pane_id \<mapsto> (1, next_state))))"

definition forget_pane_terminal_revision ::
  "u64 \<Rightarrow> (u64 \<rightharpoonup> u64 \<times> remote_full_state) \<Rightarrow> (u64 \<rightharpoonup> u64 \<times> remote_full_state)" where
  "forget_pane_terminal_revision pane_id revisions = revisions(pane_id := None)"

text \<open>A revision stands for a screen: it is positive, and asking again for the same screen changes nothing.\<close>

lemma pane_revision_stable:
  assumes "\<forall>q r s. revisions q = Some (r, s) \<longrightarrow> r \<noteq> 0"
    and "pane_terminal_revision pane_id st revisions = (r, revisions')"
  shows "r \<noteq> 0 \<and> revisions' pane_id = Some (r, st) \<and> pane_terminal_revision pane_id st revisions' = (r, revisions')"
proof -
  have m: "max (x + 1) 1 \<noteq> (0 :: u64)" for x by (auto simp: max_def)
  then show ?thesis
    using assms by (auto simp: pane_terminal_revision_def Let_def split: option.splits prod.splits if_splits)
qed

section \<open>Properties\<close>

text \<open>C38: The row cache serves what it knows. Publishing a screen panics exactly when the screen has no
  columns. Otherwise the cache stays in order, with at most 10000 rows, all as wide as the screen, and
  its epoch, which is not 0, is the one that the published state carries. A request under that epoch is
  answered with exactly the rows in the requested range that are known and among the 10000 last known
  ones, in order and with their cells: the rows of the screen just published, and besides them the rows
  the cache had, unless the width of the screen had changed or its rows lay before all of those. (The
  identifiers of the rows of the screen do not saturate at the end of 64 bits.)\<close>

theorem row_cache_serves:
  assumes "cache_ok cache" and "fs_wf state"
    and "unat (viewport_top state) + unat (fs_rows state) < 2 ^ 64"
  shows "case apply_row_cache_metadata cache state of
      None \<Rightarrow> fs_cols state = 0
    | Some (cache', state') \<Rightarrow> fs_cols state \<noteq> 0 \<and> cache_ok cache' \<and> rc_cols cache' = fs_cols state
        \<and> fs_epoch state' = rc_epoch cache' \<and> rc_epoch cache' \<noteq> 0 \<and> fs_cells state' = fs_cells state
        \<and> (\<forall>caches request. caches (rr_pane_id request) = Some cache' \<and> rr_epoch request = fs_epoch state' \<longrightarrow>
            (\<exists>rows. remote_row_range_response caches request = Some \<lparr>rs_pane_id = rr_pane_id request,
                rs_epoch = fs_epoch state', rs_cols = fs_cols state,
                rs_start_row_id = min (rr_start_row_id request) (rr_end_row_id request), rs_rows = rows\<rparr>
              \<and> sorted_wrt (<) (map fst rows)
              \<and> (\<forall>row_id cells. (row_id, cells) \<in> set rows \<longleftrightarrow>
                  min (rr_start_row_id request) (rr_end_row_id request) \<le> row_id
                  \<and> row_id < max (rr_start_row_id request) (rr_end_row_id request)
                  \<and> known_row cache state row_id = Some cells
                  \<and> card {a. known_row cache state a \<noteq> None \<and> row_id < a} < MAX_RETAINED_ROWS)))"
proof (cases "apply_row_cache_metadata cache state")
  case None
  then show ?thesis
    by (auto simp: apply_row_cache_metadata_def Let_def unat_eq_0 split: if_splits)
next
  case (Some cs)
  obtain cache' state' where cs: "cs = (cache', state')" by fastforce
  note ap = Some [unfolded cs]
  note e = apply_row_cache_eq [OF ap] and ok = row_cache_ok [OF assms(1,2) ap]
  have "sorted_wrt (<) (map fst (filter P (rc_rows cache')))" for P
    using ok by (auto simp: cache_ok_def btree_ok_def sorted_wrt_map intro: sorted_wrt_filter)
  then show ?thesis
    using e(1,3-5) ok row_cache_rows [OF assms(1,2) ap assms(3)]
    by (auto simp: ap remote_row_range_response_def Let_def max.commute)
qed

lemma row_cache_serves_witness:
  "\<exists>cache' state' rows. apply_row_cache_metadata row_cache_default (tiny_state 65 66 67) = Some (cache', state')
    \<and> remote_row_range_response [3 \<mapsto> cache'] \<lparr>rr_pane_id = 3, rr_epoch = fs_epoch state', rr_start_row_id = 5,
        rr_end_row_id = 0\<rparr> = Some \<lparr>rs_pane_id = 3, rs_epoch = fs_epoch state', rs_cols = 3, rs_start_row_id = 0, rs_rows = rows\<rparr>
    \<and> (0, [tiny_cell 65, tiny_cell 66, tiny_cell 67]) \<in> set rows"
proof -
  let ?t = "tiny_state 65 66 67"
  have t: "fs_rows ?t = 1" "fs_cols ?t = 3" "viewport_top ?t = 0"
    "fs_cells ?t = [tiny_cell 65, tiny_cell 66, tiny_cell 67]" by (simp_all add: tiny_state_def)
  have ok: "cache_ok row_cache_default" by (simp add: cache_ok_def row_cache_default_def btree_ok_def)
  obtain cache' state' where ap: "apply_row_cache_metadata row_cache_default ?t = Some (cache', state')"
    using t by (simp add: apply_row_cache_metadata_def Let_def)
  have known: "known_row row_cache_default ?t a = (if a = 0 then Some [tiny_cell 65, tiny_cell 66, tiny_cell 67] else None)" for a
    by (auto simp: known_row_def t row_of_def kept_rows_def row_cache_default_def unat_eq_0)
  let ?req = "\<lparr>rr_pane_id = 3, rr_epoch = fs_epoch state', rr_start_row_id = 5, rr_end_row_id = 0\<rparr>"
  have top: "unat (viewport_top ?t) + unat (fs_rows ?t) < 2 ^ 64" by (simp add: t)
  have none: "{a. known_row row_cache_default ?t a \<noteq> None \<and> 0 < a} = {}" by (auto simp: known)
  from row_cache_serves [OF ok tiny_state_wf top, unfolded ap option.case prod.case]
  have "\<forall>caches request. caches (rr_pane_id request) = Some cache' \<and> rr_epoch request = fs_epoch state' \<longrightarrow>
            (\<exists>rows. remote_row_range_response caches request = Some \<lparr>rs_pane_id = rr_pane_id request,
                rs_epoch = fs_epoch state', rs_cols = fs_cols ?t,
                rs_start_row_id = min (rr_start_row_id request) (rr_end_row_id request), rs_rows = rows\<rparr>
              \<and> sorted_wrt (<) (map fst rows)
              \<and> (\<forall>row_id cells. (row_id, cells) \<in> set rows \<longleftrightarrow>
                  min (rr_start_row_id request) (rr_end_row_id request) \<le> row_id
                  \<and> row_id < max (rr_start_row_id request) (rr_end_row_id request)
                  \<and> known_row row_cache_default ?t row_id = Some cells
                  \<and> card {a. known_row row_cache_default ?t a \<noteq> None \<and> row_id < a} < MAX_RETAINED_ROWS))"
    by blast
  from this [rule_format, of "[3 \<mapsto> cache']" ?req] obtain rows where
    rows: "remote_row_range_response [3 \<mapsto> cache'] ?req = Some \<lparr>rs_pane_id = 3, rs_epoch = fs_epoch state',
       rs_cols = 3, rs_start_row_id = 0, rs_rows = rows\<rparr>"
      "(0, [tiny_cell 65, tiny_cell 66, tiny_cell 67]) \<in> set rows"
    using none by (auto simp: t known MAX_RETAINED_ROWS_def)
  then show ?thesis using ap by blast
qed

end
