(* ===== verification/RemoteScreens.thy ===== *)
theory RemoteScreens
  imports RowCache
begin

text \<open>
  From the terminal of a pane to the screen on the wire (\<open>src/remote_full_state.rs\<close>,
  \<open>remote_full_state_for_pane\<close> in \<open>src/runtime_server.rs\<close>), with the interface snapshots of
  \<open>src/control.rs\<close>. What a client shows of a cell is what the terminal has in it, up to the first
  character and the underline.
\<close>

section \<open>Interface snapshots\<close>

record ui_cursor_snapshot =
  uc_visible :: bool
  uc_blinking :: bool
  uc_x :: u16
  uc_y :: u16
  uc_style :: i32

record ui_terminal_cell =
  utc_text :: rust_string
  utc_display_width :: u8
  utc_fg :: rgb
  utc_bg :: rgb
  utc_bg_is_default :: bool
  utc_bold :: bool
  utc_italic :: bool
  utc_underline :: i32
  utc_hyperlink :: bool

record ui_terminal_row =
  utr_cells :: "ui_terminal_cell list"

record ui_terminal_snapshot =
  uts_cols :: u16
  uts_rows :: u16
  uts_title :: rust_string
  uts_pwd :: rust_string
  uts_cursor :: ui_cursor_snapshot
  uts_rows_data :: "ui_terminal_row list"

section \<open>Cells\<close>

definition STYLE_FLAG_BOLD :: u8 where "STYLE_FLAG_BOLD = 0x01"
definition STYLE_FLAG_ITALIC :: u8 where "STYLE_FLAG_ITALIC = 0x02"
definition STYLE_FLAG_HYPERLINK :: u8 where "STYLE_FLAG_HYPERLINK = 0x04"
definition STYLE_FLAG_EXPLICIT_FG :: u8 where "STYLE_FLAG_EXPLICIT_FG = 0x20"
definition STYLE_FLAG_EXPLICIT_BG :: u8 where "STYLE_FLAG_EXPLICIT_BG = 0x40"

text \<open>\<open>text.chars().next().map(u32::from).unwrap_or(0)\<close> on valid UTF-8.\<close>

definition first_codepoint :: "rust_string \<Rightarrow> u32" where
  "first_codepoint text =
     (case text of
        [] \<Rightarrow> 0
      | a # bs \<Rightarrow>
          let c = (\<lambda>i. unat (bs ! i) - 0x80); n = unat a
          in word_of_nat
               (if utf8_len a = 1 then n
                else if utf8_len a = 2 then (n - 0xC0) * 64 + c 0
                else if utf8_len a = 3 then (n - 0xE0) * 4096 + c 0 * 64 + c 1
                else (n - 0xF0) * 262144 + c 0 * 4096 + c 1 * 64 + c 2))"

unbundle bit_operations_syntax

definition cell_style_flags :: "bool \<Rightarrow> bool \<Rightarrow> bool \<Rightarrow> bool \<Rightarrow> bool \<Rightarrow> u8" where
  "cell_style_flags bold italic hyperlink explicit_fg explicit_bg =
     (let f0 = 0;
          f1 = (if bold then f0 OR STYLE_FLAG_BOLD else f0);
          f2 = (if italic then f1 OR STYLE_FLAG_ITALIC else f1);
          f3 = (if hyperlink then f2 OR STYLE_FLAG_HYPERLINK else f2);
          f4 = (if explicit_fg then f3 OR STYLE_FLAG_EXPLICIT_FG else f3)
      in if explicit_bg then f4 OR STYLE_FLAG_EXPLICIT_BG else f4)"

definition cell_from_ui :: "ui_terminal_cell \<Rightarrow> remote_cell" where
  "cell_from_ui c =
     \<lparr>codepoint = first_codepoint (utc_text c), cell_fg = utc_fg c, cell_bg = utc_bg c,
      style_flags = cell_style_flags (utc_bold c) (utc_italic c) (utc_hyperlink c)
        (utc_fg c \<noteq> (0, 0, 0)) (\<not> utc_bg_is_default c),
      wide = (utc_display_width c > 1)\<rparr>"

definition cell_from_terminal :: "render_colors \<Rightarrow> cell_snapshot \<Rightarrow> remote_cell" where
  "cell_from_terminal colors c =
     \<lparr>codepoint = first_codepoint (cs_text c), cell_fg = cs_fg c, cell_bg = cs_bg c,
      style_flags = cell_style_flags (cs_bold c) (cs_italic c) (cs_hyperlink c)
        (cs_fg c \<noteq> foreground colors) (\<not> cs_bg_is_default c),
      wide = (cs_display_width c > 1)\<rparr>"

section \<open>Screens\<close>

fun cursor_style_raw :: "cursor_style \<Rightarrow> i32" where
  "cursor_style_raw Bar = 0"
| "cursor_style_raw Block = 1"
| "cursor_style_raw Underline = 2"
| "cursor_style_raw BlockHollow = 3"
| "cursor_style_raw (UnknownStyle style) = style"

definition full_state_from_ui :: "ui_terminal_snapshot \<Rightarrow> remote_full_state" where
  "full_state_from_ui snapshot =
     \<lparr>fs_epoch = 0, viewport_top = 0, scrollback_total = ucast (uts_rows snapshot),
      fs_rows = uts_rows snapshot, fs_cols = uts_cols snapshot,
      fs_cursor_x = uc_x (uts_cursor snapshot), fs_cursor_y = uc_y (uts_cursor snapshot),
      fs_cursor_visible = uc_visible (uts_cursor snapshot),
      fs_cursor_blinking = uc_blinking (uts_cursor snapshot),
      fs_cursor_style = uc_style (uts_cursor snapshot),
      fs_cells = map cell_from_ui (concat (map utr_cells (uts_rows_data snapshot)))\<rparr>"

definition full_state_from_terminal :: "terminal_snapshot \<Rightarrow> remote_full_state" where
  "full_state_from_terminal snapshot =
     \<lparr>fs_epoch = 0, viewport_top = sb_offset (ts_scrollbar snapshot),
      scrollback_total = sb_total (ts_scrollbar snapshot),
      fs_rows = ts_rows snapshot, fs_cols = ts_cols snapshot,
      fs_cursor_x = cu_x (ts_cursor snapshot), fs_cursor_y = cu_y (ts_cursor snapshot),
      fs_cursor_visible = cu_visible (ts_cursor snapshot),
      fs_cursor_blinking = cu_blinking (ts_cursor snapshot),
      fs_cursor_style = cursor_style_raw (cu_style (ts_cursor snapshot)),
      fs_cells = map (cell_from_terminal (ts_colors snapshot)) (concat (rows_data snapshot))\<rparr>"

text \<open>
  \<open>remote_full_state_for_pane\<close>: the two backend calls are arguments; the outer \<open>None\<close> is a panic, the
  inner one a pane without a terminal.
\<close>

definition remote_full_state_for_pane ::
  "(u64 \<Rightarrow> terminal_snapshot option) \<Rightarrow> (u64 \<Rightarrow> ui_terminal_snapshot option) \<Rightarrow> u64
     \<Rightarrow> (u64 \<rightharpoonup> pane_row_cache) \<Rightarrow> (remote_full_state option \<times> (u64 \<rightharpoonup> pane_row_cache)) option" where
  "remote_full_state_for_pane render_snapshot terminal_snapshot_of pane_id caches =
     (let found = (case render_snapshot pane_id of
            Some snapshot \<Rightarrow> Some (full_state_from_terminal snapshot)
          | None \<Rightarrow> map_option full_state_from_ui (terminal_snapshot_of pane_id))
      in case found of
           None \<Rightarrow> Some (None, caches)
         | Some state \<Rightarrow>
             (case apply_row_cache_metadata
                 (case caches pane_id of Some cache \<Rightarrow> cache | None \<Rightarrow> row_cache_default) state of
                None \<Rightarrow> None
              | Some (cache, state') \<Rightarrow> Some (Some state', caches(pane_id \<mapsto> cache))))"

section \<open>What a client shows of it\<close>

lemma cursor_style_round_trip: "cursor_style_raw (cursor_style_from style) = style"
  by (simp add: cursor_style_from_def)

lemma cell_style_flags_bits:
  "(cell_style_flags b i h f g AND 0x01 \<noteq> 0) = b" "(cell_style_flags b i h f g AND 0x02 \<noteq> 0) = i"
  "(cell_style_flags b i h f g AND 0x04 \<noteq> 0) = h" "(cell_style_flags b i h f g AND 0x20 \<noteq> 0) = f"
  "(cell_style_flags b i h f g AND 0x40 \<noteq> 0) = g"
  by (cases b; cases i; cases h; cases f; cases g; simp add: cell_style_flags_def STYLE_FLAG_BOLD_def
      STYLE_FLAG_ITALIC_def STYLE_FLAG_HYPERLINK_def STYLE_FLAG_EXPLICIT_FG_def STYLE_FLAG_EXPLICIT_BG_def)+

text \<open>A cell whose text is one character, or none, of width 1 or 2.\<close>

definition single_char_cell :: "cell_snapshot \<Rightarrow> bool" where
  "single_char_cell c \<longleftrightarrow>
     (cs_text c = [] \<or> (first_codepoint (cs_text c) \<noteq> 0 \<and> char_utf8 (first_codepoint (cs_text c)) = Some (cs_text c)))
     \<and> (cs_display_width c = 1 \<or> cs_display_width c = 2)"

lemma ascii_single_char:
  assumes "0 < a" and "a < 0x80" and "cs_text c = [a]" and "cs_display_width c = 1"
  shows "single_char_cell c"
proof -
  have a: "0 < unat a" "unat a < 128" using assms(1,2) by (simp_all add: word_less_nat_alt)
  have u: "unat (ucast a :: u32) = unat a" using a(2) by (simp add: unsigned_ucast_eq take_bit_nat_eq_self)
  have f: "first_codepoint (cs_text c) = ucast a"
    using assms(2,3) by (simp add: first_codepoint_def utf8_len_def Let_def)
  have "(ucast a :: u32) \<noteq> 0" using u a(1) by (auto simp: word_unat_eq_iff)
  moreover have "char_utf8 (ucast a) = Some [a]" using u a(2) by (simp add: char_utf8_def Let_def)
  ultimately show ?thesis using assms(3,4) f by (simp add: single_char_cell_def)
qed

lemma terminal_cell_shown:
  assumes "single_char_cell c" and "fg = foreground colors" and "cs_bg_is_default c \<longrightarrow> cs_bg c = bg"
  shows "remote_cell_to_snapshot (cell_from_terminal colors c) fg bg = c\<lparr>cs_underline := 0\<rparr>"
proof -
  have "cs_text (remote_cell_to_snapshot (cell_from_terminal colors c) fg bg) = cs_text c"
    using assms(1) by (auto simp: remote_cell_to_snapshot_def cell_from_terminal_def single_char_cell_def
        first_codepoint_def [of "[]"])
  moreover have "cs_display_width (remote_cell_to_snapshot (cell_from_terminal colors c) fg bg) = cs_display_width c"
    using assms(1) by (auto simp: remote_cell_to_snapshot_def cell_from_terminal_def single_char_cell_def)
  ultimately show ?thesis
    using assms(2,3) cell_style_flags_bits [of "cs_bold c" "cs_italic c" "cs_hyperlink c"
        "cs_fg c \<noteq> foreground colors" "\<not> cs_bg_is_default c"]
    by (cases c) (auto simp: remote_cell_to_snapshot_def cell_from_terminal_def)
qed

end
