(* ===== verification/RustText.thy ===== *)
theory RustText
  imports Prelude
begin

text \<open>
  The text functions of Rust's standard library that the parsers of the program use. A text is
  its UTF-8 bytes; a HOL character is exactly one byte, so that a literal of the source is a
  literal here. White space is Unicode's \<open>White_Space\<close>, as in \<^verbatim>\<open>str::trim\<close>; a multi-byte character
  is the sequence of its bytes.
\<close>

type_synonym str = string

abbreviation byte :: "char \<Rightarrow> nat" where "byte c \<equiv> of_char c"

abbreviation nl :: char where "nl \<equiv> CHR 0x0A"
abbreviation cr :: char where "cr \<equiv> CHR 0x0D"

section \<open>Prefixes and suffixes\<close>

fun strip_prefix :: "str \<Rightarrow> str \<Rightarrow> str option" where
  "strip_prefix [] s = Some s"
| "strip_prefix (c # p) [] = None"
| "strip_prefix (c # p) (d # s) = (if c = d then strip_prefix p s else None)"

definition starts_with :: "str \<Rightarrow> str \<Rightarrow> bool" where
  "starts_with p s \<longleftrightarrow> strip_prefix p s \<noteq> None"

definition strip_suffix :: "str \<Rightarrow> str \<Rightarrow> str option" where
  "strip_suffix p s = map_option rev (strip_prefix (rev p) (rev s))"

lemma strip_prefix_iff: "strip_prefix p s = Some r \<longleftrightarrow> s = p @ r"
  by (induction p s rule: strip_prefix.induct) auto

lemma strip_prefix_append [simp]: "strip_prefix p (p @ r) = Some r"
  by (simp add: strip_prefix_iff)

lemma strip_prefix_None: "strip_prefix p s = None \<longleftrightarrow> (\<nexists>r. s = p @ r)"
  using strip_prefix_iff [of p s] by (cases "strip_prefix p s") auto

lemma strip_suffix_iff: "strip_suffix p s = Some r \<longleftrightarrow> s = r @ p"
  by (auto simp: strip_suffix_def strip_prefix_iff rev_swap)

lemma strip_suffix_append [simp]: "strip_suffix p (r @ p) = Some r"
  by (simp add: strip_suffix_iff)

lemma starts_with_iff: "starts_with p s \<longleftrightarrow> (\<exists>r. s = p @ r)"
  using strip_prefix_None [of p s] by (auto simp: starts_with_def)

section \<open>Splitting\<close>

text \<open>\<open>str::split_once\<close> at a character of one byte.\<close>

fun split_once :: "char \<Rightarrow> str \<Rightarrow> (str \<times> str) option" where
  "split_once c [] = None"
| "split_once c (d # s) =
     (if d = c then Some ([], s) else map_option (\<lambda>(a, b). (d # a, b)) (split_once c s))"

lemma split_once_iff: "split_once c s = Some (a, b) \<longleftrightarrow> s = a @ c # b \<and> c \<notin> set a"
proof (induction s arbitrary: a)
  case Nil
  then show ?case by simp
next
  case (Cons d s)
  have "split_once c (d # s) = Some (a, b) \<longleftrightarrow>
      (if d = c then a = [] \<and> b = s else \<exists>a'. a = d # a' \<and> split_once c s = Some (a', b))"
    by (cases "split_once c s") auto
  then show ?case by (cases a) (auto simp: Cons.IH)
qed

lemma split_once_None: "split_once c s = None \<longleftrightarrow> c \<notin> set s"
  by (induction s) auto

lemma split_once_append [simp]: "c \<notin> set a \<Longrightarrow> split_once c (a @ c # b) = Some (a, b)"
  by (simp add: split_once_iff)

lemma split_once_length: "split_once c s = Some (a, b) \<Longrightarrow> length b < length s"
  by (simp add: split_once_iff)

text \<open>\<open>str::split\<close> at a character: always at least one part.\<close>

function split_on :: "char \<Rightarrow> str \<Rightarrow> str list" where
  "split_on c s = (case split_once c s of None \<Rightarrow> [s] | Some (a, b) \<Rightarrow> a # split_on c b)"
  by pat_completeness auto
termination
  by (relation "measure (\<lambda>(c, s). length s)") (auto simp: split_once_iff)

declare split_on.simps [simp del]

lemma split_on_None: "c \<notin> set s \<Longrightarrow> split_on c s = [s]"
  by (subst split_on.simps) (simp add: split_once_None [THEN iffD2])

lemma split_on_Some: "c \<notin> set a \<Longrightarrow> split_on c (a @ c # b) = a # split_on c b"
  by (subst split_on.simps) simp

text \<open>\<open>str::lines\<close>: a line ends with a newline, before which one carriage return is dropped; the
  last line needs no newline and then keeps its carriage return.\<close>

definition strip_cr :: "str \<Rightarrow> str" where
  "strip_cr s = (case strip_suffix [cr] s of Some l \<Rightarrow> l | None \<Rightarrow> s)"

function text_lines :: "str \<Rightarrow> str list" where
  "text_lines s = (case split_once nl s of
     None \<Rightarrow> (if s = [] then [] else [s])
   | Some (l, r) \<Rightarrow> strip_cr l # text_lines r)"
  by pat_completeness auto
termination
  by (relation "measure length") (auto simp: split_once_iff)

declare text_lines.simps [simp del]

lemma text_lines_Nil [simp]: "text_lines [] = []"
  by (subst text_lines.simps) simp

definition plain_line :: "str \<Rightarrow> bool" where
  "plain_line s \<longleftrightarrow> nl \<notin> set s \<and> cr \<notin> set s"

lemma plain_line_append [simp]: "plain_line (a @ b) \<longleftrightarrow> plain_line a \<and> plain_line b"
  by (auto simp: plain_line_def)

lemma plain_line_Cons [simp]: "plain_line (c # b) \<longleftrightarrow> c \<noteq> nl \<and> c \<noteq> cr \<and> plain_line b"
  by (auto simp: plain_line_def)

lemma plain_line_Nil [simp]: "plain_line []"
  by (simp add: plain_line_def)

lemma strip_cr_plain: "cr \<notin> set s \<Longrightarrow> strip_cr s = s"
  by (auto simp: strip_cr_def strip_suffix_iff split: option.splits)

lemma text_lines_Cons:
  assumes "plain_line l"
  shows "text_lines (l @ nl # r) = l # text_lines r"
  using assms by (subst text_lines.simps) (simp add: plain_line_def strip_cr_plain)

lemma text_lines_concat:
  assumes "list_all plain_line ls"
  shows "text_lines (concat (map (\<lambda>l. l @ [nl]) ls)) = ls"
  using assms by (induction ls) (simp_all add: text_lines_Cons)

section \<open>White space\<close>

definition ws_chars :: "str list" where
  "ws_chars =
    [[CHR 0x20], [CHR 0x09], [CHR 0x0A], [CHR 0x0B], [CHR 0x0C], [CHR 0x0D],
     [CHR 0xC2, CHR 0x85], [CHR 0xC2, CHR 0xA0], [CHR 0xE1, CHR 0x9A, CHR 0x80],
     [CHR 0xE2, CHR 0x80, CHR 0x80], [CHR 0xE2, CHR 0x80, CHR 0x81],
     [CHR 0xE2, CHR 0x80, CHR 0x82], [CHR 0xE2, CHR 0x80, CHR 0x83],
     [CHR 0xE2, CHR 0x80, CHR 0x84], [CHR 0xE2, CHR 0x80, CHR 0x85],
     [CHR 0xE2, CHR 0x80, CHR 0x86], [CHR 0xE2, CHR 0x80, CHR 0x87],
     [CHR 0xE2, CHR 0x80, CHR 0x88], [CHR 0xE2, CHR 0x80, CHR 0x89],
     [CHR 0xE2, CHR 0x80, CHR 0x8A], [CHR 0xE2, CHR 0x80, CHR 0xA8],
     [CHR 0xE2, CHR 0x80, CHR 0xA9], [CHR 0xE2, CHR 0x80, CHR 0xAF],
     [CHR 0xE2, CHR 0x81, CHR 0x9F], [CHR 0xE3, CHR 0x80, CHR 0x80]]"

text \<open>The rest after the first of several prefixes that matches.\<close>

fun strip_any :: "str list \<Rightarrow> str \<Rightarrow> str option" where
  "strip_any [] s = None"
| "strip_any (p # ps) s = (case strip_prefix p s of Some r \<Rightarrow> Some r | None \<Rightarrow> strip_any ps s)"

lemma strip_any_SomeD: "strip_any ps s = Some r \<Longrightarrow> \<exists>p \<in> set ps. s = p @ r"
  by (induction ps) (auto simp: strip_prefix_iff split: option.splits)

lemma strip_any_None: "strip_any ps s = None \<longleftrightarrow> (\<forall>p \<in> set ps. \<forall>r. s \<noteq> p @ r)"
  by (induction ps) (auto simp: strip_prefix_iff strip_prefix_None split: option.splits)

lemma ws_chars_nonempty: "p \<in> set ws_chars \<Longrightarrow> p \<noteq> []"
  by (auto simp: ws_chars_def)

lemma strip_any_ws: "strip_any ws_chars s = Some r \<Longrightarrow> length r < length s"
  using strip_any_SomeD [of ws_chars s r] ws_chars_nonempty by auto

lemma strip_any_ws_rev: "strip_any (map rev ws_chars) s = Some r \<Longrightarrow> length r < length s"
  using strip_any_SomeD [of "map rev ws_chars" s r] ws_chars_nonempty by auto

function trim_start :: "str \<Rightarrow> str" where
  "trim_start s = (case strip_any ws_chars s of Some r \<Rightarrow> trim_start r | None \<Rightarrow> s)"
  by pat_completeness auto
termination
  by (relation "measure length") (auto dest: strip_any_ws)

function trim_rev :: "str \<Rightarrow> str" where
  "trim_rev s = (case strip_any (map rev ws_chars) s of Some r \<Rightarrow> trim_rev r | None \<Rightarrow> s)"
  by pat_completeness auto
termination
  by (relation "measure length") (auto dest: strip_any_ws_rev)

declare trim_start.simps [simp del] trim_rev.simps [simp del]

definition trim_end :: "str \<Rightarrow> str" where
  "trim_end s = rev (trim_rev (rev s))"

definition trim :: "str \<Rightarrow> str" where
  "trim s = trim_end (trim_start s)"

text \<open>A text that neither starts nor ends with white space, which trimming leaves as it is.\<close>

definition trimmed :: "str \<Rightarrow> bool" where
  "trimmed s \<longleftrightarrow> strip_any ws_chars s = None \<and> strip_any (map rev ws_chars) (rev s) = None"

lemma strip_any_ws_Nil [simp]:
  "strip_any ws_chars [] = None" "strip_any (map rev ws_chars) [] = None"
  by (auto simp: strip_any_None ws_chars_nonempty)

lemma trimmed_Nil [simp]: "trimmed []"
  by (simp add: trimmed_def)

lemma trim_trimmed: "trimmed s \<Longrightarrow> trim s = s"
  by (simp add: trimmed_def trim_def trim_end_def trim_start.simps [of s] trim_rev.simps [of "rev s"])

lemma ws_space: "strip_any ws_chars (CHR '' '' # s) = Some s"
  by (simp add: ws_chars_def)

lemma trim_start_space: "trim_start (CHR '' '' # s) = trim_start s"
  by (subst trim_start.simps) (simp add: ws_space)

lemma trim_start_id: "strip_any ws_chars s = None \<Longrightarrow> trim_start s = s"
  by (subst trim_start.simps) simp

lemma trim_space_trimmed: "trimmed s \<Longrightarrow> trim (CHR '' '' # s) = s"
  using trim_trimmed [of s] by (simp add: trim_def trim_start_space)

lemma ws_rev_space: "strip_any (map rev ws_chars) (CHR '' '' # s) = Some s"
  by (simp add: ws_chars_def)

lemma trim_end_rev_ws: "strip_any (map rev ws_chars) (rev s) = None \<Longrightarrow> trim_end s = s"
  by (simp add: trim_end_def trim_rev.simps [of "rev s"])

text \<open>\<open>str::split_whitespace\<close>: the non-empty parts between white space.\<close>

definition flush :: "str \<Rightarrow> str list \<Rightarrow> str list" where
  "flush cur rest = (if cur = [] then rest else cur # rest)"

function split_ws :: "str \<Rightarrow> str \<Rightarrow> str list" where
  "split_ws cur s = (case strip_any ws_chars s of
     Some r \<Rightarrow> flush cur (split_ws [] r)
   | None \<Rightarrow> (case s of [] \<Rightarrow> flush cur [] | c # r \<Rightarrow> split_ws (cur @ [c]) r))"
  by pat_completeness auto
termination
  by (relation "measure (\<lambda>(cur, s). length s)") (auto dest: strip_any_ws)

declare split_ws.simps [simp del]

definition split_whitespace :: "str \<Rightarrow> str list" where
  "split_whitespace s = split_ws [] s"

text \<open>The number of characters: the bytes that are not continuation bytes.\<close>

definition chars_count :: "str \<Rightarrow> nat" where
  "chars_count s = length (filter (\<lambda>c. byte c div 64 \<noteq> 2) s)"

section \<open>Letters and digits\<close>

definition is_ascii_digit :: "char \<Rightarrow> bool" where
  "is_ascii_digit c \<longleftrightarrow> 48 \<le> byte c \<and> byte c \<le> 57"

definition is_ascii_upper :: "char \<Rightarrow> bool" where
  "is_ascii_upper c \<longleftrightarrow> 65 \<le> byte c \<and> byte c \<le> 90"

definition is_ascii_lower :: "char \<Rightarrow> bool" where
  "is_ascii_lower c \<longleftrightarrow> 97 \<le> byte c \<and> byte c \<le> 122"

definition is_ascii_alphabetic :: "char \<Rightarrow> bool" where
  "is_ascii_alphabetic c \<longleftrightarrow> is_ascii_upper c \<or> is_ascii_lower c"

definition is_ascii_whitespace :: "char \<Rightarrow> bool" where
  "is_ascii_whitespace c \<longleftrightarrow> c \<in> {CHR '' '', CHR 0x09, nl, CHR 0x0C, cr}"

definition ascii_lower :: "char \<Rightarrow> char" where
  "ascii_lower c = (if is_ascii_upper c then char_of (byte c + 32) else c)"

definition to_ascii_lowercase :: "str \<Rightarrow> str" where
  "to_ascii_lowercase s = map ascii_lower s"

text \<open>The value of a digit in a base up to 36, \<open>char::to_digit\<close>.\<close>

definition digit_value :: "nat \<Rightarrow> char \<Rightarrow> nat option" where
  "digit_value base c =
     (let v = if is_ascii_digit c then Some (byte c - 48)
              else if is_ascii_lower c then Some (byte c - 87)
              else if is_ascii_upper c then Some (byte c - 55) else None
      in case v of Some d \<Rightarrow> (if d < base then Some d else None) | None \<Rightarrow> None)"

fun digits_value :: "nat \<Rightarrow> nat \<Rightarrow> str \<Rightarrow> nat option" where
  "digits_value base acc [] = Some acc"
| "digits_value base acc (c # s) =
     (case digit_value base c of Some d \<Rightarrow> digits_value base (acc * base + d) s | None \<Rightarrow> None)"

text \<open>Reading an unsigned integer of a width: an optional plus sign, at least one digit, no
  overflow (\<open>from_str_radix\<close> and \<open>parse\<close>).\<close>

definition parse_uint :: "nat \<Rightarrow> nat \<Rightarrow> str \<Rightarrow> nat option" where
  "parse_uint base width s =
     (let ds = (case s of c # r \<Rightarrow> if c = CHR ''+'' then r else s | [] \<Rightarrow> s)
      in if ds = [] then None
         else case digits_value base 0 ds of
           Some n \<Rightarrow> (if n < 2 ^ width then Some n else None)
         | None \<Rightarrow> None)"

text \<open>Writing a natural number in decimal, as \<open>format!\<close> does.\<close>

definition digit_char :: "nat \<Rightarrow> char" where
  "digit_char d = char_of (48 + d)"

function show_nat :: "nat \<Rightarrow> str" where
  "show_nat n = (if n < 10 then [digit_char n] else show_nat (n div 10) @ [digit_char (n mod 10)])"
  by pat_completeness auto
termination
  by (relation "measure id") auto

declare show_nat.simps [simp del]

lemma byte_digit_char [simp]: "d < 10 \<Longrightarrow> byte (digit_char d) = 48 + d"
  by (simp add: digit_char_def)

lemma digit_value_digit_char: "d < 10 \<Longrightarrow> 10 \<le> base \<Longrightarrow> digit_value base (digit_char d) = Some d"
  by (simp add: digit_value_def is_ascii_digit_def Let_def)

lemma digits_value_append:
  "digits_value base acc (s @ t) =
     (case digits_value base acc s of Some a \<Rightarrow> digits_value base a t | None \<Rightarrow> None)"
  by (induction s arbitrary: acc) (auto split: option.splits)

lemma show_nat_digits: "c \<in> set (show_nat n) \<Longrightarrow> is_ascii_digit c"
proof (induction n rule: show_nat.induct)
  case (1 n)
  then show ?case
    by (subst (asm) show_nat.simps) (auto simp: is_ascii_digit_def split: if_splits)
qed

lemma show_nat_nonempty: "show_nat n \<noteq> []"
  by (subst show_nat.simps) simp

lemma digits_value_show_nat: "digits_value 10 0 (show_nat n) = Some n"
proof (induction n rule: show_nat.induct)
  case (1 n)
  show ?case
  proof (cases "n < 10")
    case True
    then show ?thesis by (subst show_nat.simps) (simp add: digit_value_digit_char)
  next
    case False
    with 1 have "digits_value 10 0 (show_nat (n div 10)) = Some (n div 10)" by simp
    with False show ?thesis
      by (subst show_nat.simps) (simp add: digits_value_append digit_value_digit_char)
  qed
qed

lemma digit_not_plus: "is_ascii_digit c \<Longrightarrow> c \<noteq> CHR ''+''"
  by (auto simp: is_ascii_digit_def)

lemma parse_uint_show_nat: "n < 2 ^ w \<Longrightarrow> parse_uint 10 w (show_nat n) = Some n"
proof -
  assume n: "n < 2 ^ w"
  obtain c r where cr: "show_nat n = c # r" using show_nat_nonempty [of n] by (cases "show_nat n") auto
  then have "c \<noteq> CHR ''+''" using show_nat_digits [of c n] digit_not_plus by simp
  with cr n digits_value_show_nat [of n] show ?thesis by (simp add: parse_uint_def)
qed

lemma parse_uint_bound: "parse_uint base w s = Some n \<Longrightarrow> n < 2 ^ w"
  by (auto simp: parse_uint_def Let_def split: option.splits if_splits)

text \<open>Characters of printable ASCII are no part of white space, so a text that starts and ends
  with them is trimmed.\<close>

definition graphic :: "char \<Rightarrow> bool" where
  "graphic c \<longleftrightarrow> 33 \<le> byte c \<and> byte c \<le> 126"

lemma ws_not_graphic: "p \<in> set ws_chars \<Longrightarrow> c \<in> set p \<Longrightarrow> \<not> graphic c"
  by (auto simp: ws_chars_def graphic_def)

lemma strip_any_graphic:
  "graphic c \<Longrightarrow> strip_any ws_chars (c # s) = None"
  "graphic c \<Longrightarrow> strip_any (map rev ws_chars) (c # s) = None"
  using ws_not_graphic ws_chars_nonempty
  by (auto simp: strip_any_None Cons_eq_append_conv) (metis list.set_intros(1) set_rev rev_is_Nil_conv list.exhaust)+

lemma trimmed_graphic: "s \<noteq> [] \<Longrightarrow> graphic (hd s) \<Longrightarrow> graphic (last s) \<Longrightarrow> trimmed s"
proof -
  assume s: "s \<noteq> []" "graphic (hd s)" "graphic (last s)"
  then have "s = hd s # tl s" and "rev s = last s # rev (butlast s)"
    by (simp_all add: rev_swap)
  with s show "trimmed s" unfolding trimmed_def by (metis strip_any_graphic)
qed

section \<open>Reading decimal numbers\<close>

datatype f64v = Num real | PosInf | NegInf | NotANumber

definition all_digits :: "str \<Rightarrow> bool" where
  "all_digits s \<longleftrightarrow> s \<noteq> [] \<and> list_all is_ascii_digit s"

text \<open>A sign and the rest.\<close>

definition take_sign :: "str \<Rightarrow> bool \<times> str" where
  "take_sign s = (case s of c # r \<Rightarrow>
       if c = CHR ''-'' then (True, r) else if c = CHR ''+'' then (False, r) else (False, s)
     | [] \<Rightarrow> (False, s))"

definition exponent_value :: "str \<Rightarrow> int option" where
  "exponent_value s = (case s of [] \<Rightarrow> Some 0 | c # r \<Rightarrow>
     if c = CHR ''e'' \<or> c = CHR ''E''
     then let (neg, ds) = take_sign r
          in if all_digits ds
             then map_option (\<lambda>n. if neg then - int n else int n) (digits_value 10 0 ds)
             else None
     else None)"

definition scale10 :: "nat \<Rightarrow> int \<Rightarrow> real" where
  "scale10 n k = (if 0 \<le> k then real n * 10 ^ nat k else real n / 10 ^ nat (- k))"

definition decimal_value :: "str \<Rightarrow> real option" where
  "decimal_value s =
     (let i = takeWhile is_ascii_digit s;
          r = dropWhile is_ascii_digit s;
          (f, r') = (case r of c # q \<Rightarrow>
              if c = CHR ''.'' then (takeWhile is_ascii_digit q, dropWhile is_ascii_digit q) else ([], r)
            | [] \<Rightarrow> ([], r))
      in if i = [] \<and> f = [] then None
         else case (digits_value 10 0 (i @ f), exponent_value r') of
           (Some n, Some e) \<Rightarrow> Some (scale10 n (e - int (length f)))
         | _ \<Rightarrow> None)"

definition parse_f64 :: "str \<Rightarrow> f64v option" where
  "parse_f64 s =
     (let (neg, r) = take_sign s
      in if to_ascii_lowercase r = ''nan'' then Some NotANumber
         else if to_ascii_lowercase r \<in> {''inf'', ''infinity''}
         then Some (if neg then NegInf else PosInf)
         else map_option (\<lambda>x. Num (if neg then - x else x)) (decimal_value r))"

section \<open>Texts as bytes of the protocol\<close>

definition utf8_bytes :: "str \<Rightarrow> rust_string" where
  "utf8_bytes s = map of_char s"

definition utf8_str :: "rust_string \<Rightarrow> str" where
  "utf8_str b = map (\<lambda>w. char_of (unat w)) b"

lemma utf8_str_bytes [simp]: "utf8_str (utf8_bytes s) = s"
proof -
  have "char_of (unat (of_char c :: u8)) = c" for c :: char
  proof -
    have "unat (of_nat (of_char c) :: u8) = of_char c mod 256" by (simp only: unat_of_nat) simp
    moreover have "(of_nat (of_char c) :: u8) = of_char c" by (rule of_nat_of_char)
    ultimately have "unat (of_char c :: u8) = of_char c" by simp
    then show ?thesis by simp
  qed
  then show ?thesis by (simp add: utf8_str_def utf8_bytes_def comp_def)
qed

lemma utf8_bytes_Nil [simp]: "utf8_bytes s = [] \<longleftrightarrow> s = []"
  by (simp add: utf8_bytes_def)

end
