(* ===== verification/LayoutFile.thy ===== *)
theory LayoutFile
  imports Layout RustText
begin

text \<open>
  Layout files (\<open>src/layout.rs\<close>): reading a layout from the lines of a file, line by line with
  the state the source keeps in local variables, and writing one. A ratio in a file is read by
  the decimal reader of the standard library, which also knows infinities and NaN; finite values
  are exact.
\<close>

section \<open>Ratios\<close>

definition f64v_div100 :: "f64v \<Rightarrow> f64v" where
  "f64v_div100 v = (case v of Num x \<Rightarrow> Num (x / 100) | w \<Rightarrow> w)"

definition f64v_gt1 :: "f64v \<Rightarrow> bool" where
  "f64v_gt1 v = (case v of Num x \<Rightarrow> 1 < x | PosInf \<Rightarrow> True | NegInf \<Rightarrow> False | NotANumber \<Rightarrow> False)"

definition parse_ratio :: "str \<Rightarrow> f64v" where
  "parse_ratio s = (case strip_suffix ''%'' s of
     Some pct \<Rightarrow> f64v_div100 (case parse_f64 pct of Some v \<Rightarrow> v | None \<Rightarrow> Num 50)
   | None \<Rightarrow> (let v = (case parse_f64 s of Some v \<Rightarrow> v | None \<Rightarrow> Num (1 / 2))
             in if f64v_gt1 v then f64v_div100 v else v))"

section \<open>Layouts\<close>

record layout_spec =
  ls_direction :: split_dir
  ls_ratio :: f64v

record layout_pane =
  lp_command :: "str option"
  lp_working_directory :: "str option"
  lp_split :: "layout_spec option"

record layout_tab =
  lt_title :: str
  lt_layout :: tab_layout
  lt_panes :: "layout_pane list"

record layout_desc =
  ly_name :: str
  ly_tabs :: "layout_tab list"

text \<open>The state of the reader.\<close>

record layout_reader =
  lr_layout :: layout_desc
  lr_working_dir :: "str option"
  lr_pending_split :: "layout_spec option"
  lr_tab_layout :: tab_layout

definition update_last :: "('a \<Rightarrow> 'a) \<Rightarrow> 'a list \<Rightarrow> 'a list" where
  "update_last f xs = (if xs = [] then [] else butlast xs @ [f (last xs)])"

lemma update_last_snoc [simp]: "update_last f (xs @ [x]) = xs @ [f x]"
  by (simp add: update_last_def)

lemma update_last_Nil [simp]: "update_last f [] = []"
  by (simp add: update_last_def)

definition push_tab :: "layout_tab \<Rightarrow> layout_desc \<Rightarrow> layout_desc" where
  "push_tab t l = l\<lparr>ly_tabs := ly_tabs l @ [t]\<rparr>"

definition map_last_tab :: "(layout_tab \<Rightarrow> layout_tab) \<Rightarrow> layout_desc \<Rightarrow> layout_desc" where
  "map_last_tab f l = l\<lparr>ly_tabs := update_last f (ly_tabs l)\<rparr>"

definition shellexpand_home :: "str option \<Rightarrow> str \<Rightarrow> str" where
  "shellexpand_home home path =
     (if starts_with ''~/'' path
      then case home of Some h \<Rightarrow> h @ tl path | None \<Rightarrow> path
      else path)"

definition layout_of_value :: "str \<Rightarrow> tab_layout" where
  "layout_of_value value =
     (if value = ''even-horizontal'' then EvenHorizontal
      else if value = ''even-vertical'' then EvenVertical
      else if value = ''main-horizontal'' then MainHorizontal
      else if value = ''main-vertical'' then MainVertical
      else if value = ''tiled'' then Tiled
      else Manual)"

definition split_key_dir :: "str \<Rightarrow> split_dir" where
  "split_key_dir key = (if key = ''split-right'' then Right else Down)"

definition layout_key :: "str option \<Rightarrow> str \<Rightarrow> str \<Rightarrow> layout_reader \<Rightarrow> layout_reader" where
  "layout_key home key value st =
     (if key = ''layout-name'' then st\<lparr>lr_layout := (lr_layout st)\<lparr>ly_name := value\<rparr>\<rparr>
      else if key = ''working-directory''
      then st\<lparr>lr_working_dir := Some (shellexpand_home home value)\<rparr>
      else if key = ''layout''
      then let l = layout_of_value value
           in st\<lparr>lr_tab_layout := l,
                 lr_layout := map_last_tab (\<lambda>t. t\<lparr>lt_layout := l\<rparr>) (lr_layout st)\<rparr>
      else if key = ''tab''
      then st\<lparr>lr_tab_layout := Manual,
              lr_layout := push_tab \<lparr>lt_title = value, lt_layout = Manual, lt_panes = []\<rparr> (lr_layout st)\<rparr>
      else if key = ''split-right'' \<or> key = ''split-down''
      then st\<lparr>lr_pending_split := Some \<lparr>ls_direction = split_key_dir key,
                ls_ratio = (if value = [] then Num (1 / 2) else parse_ratio value)\<rparr>\<rparr>
      else if key = ''pane''
      then let l = (if ly_tabs (lr_layout st) = []
                    then push_tab \<lparr>lt_title = [], lt_layout = lr_tab_layout st, lt_panes = []\<rparr> (lr_layout st)
                    else lr_layout st);
               pane = \<lparr>lp_command = (if value = [] then None else Some value),
                       lp_working_directory = lr_working_dir st,
                       lp_split = lr_pending_split st\<rparr>
           in st\<lparr>lr_layout := map_last_tab (\<lambda>t. t\<lparr>lt_panes := lt_panes t @ [pane]\<rparr>) l,
                 lr_pending_split := None\<rparr>
      else st)"

definition layout_line :: "str option \<Rightarrow> str \<Rightarrow> layout_reader \<Rightarrow> layout_reader" where
  "layout_line home raw st =
     (let line = trim raw
      in if line = [] \<or> starts_with ''#'' line then st
         else if line = ''split-right'' \<or> line = ''split-down''
         then st\<lparr>lr_pending_split := Some \<lparr>ls_direction = split_key_dir line, ls_ratio = Num (1 / 2)\<rparr>\<rparr>
         else case split_once (CHR ''='') line of
           None \<Rightarrow> st
         | Some (key, value) \<Rightarrow> layout_key home (trim key) (trim value) st)"

definition ensure_pane :: "str option \<Rightarrow> layout_tab \<Rightarrow> layout_tab" where
  "ensure_pane wd t =
     (if lt_panes t = []
      then t\<lparr>lt_panes := [\<lparr>lp_command = None, lp_working_directory = wd, lp_split = None\<rparr>]\<rparr>
      else t)"

definition layout_reader_start :: "str \<Rightarrow> layout_reader" where
  "layout_reader_start name =
     \<lparr>lr_layout = \<lparr>ly_name = name, ly_tabs = []\<rparr>, lr_working_dir = None,
      lr_pending_split = None, lr_tab_layout = Manual\<rparr>"

definition parse_layout :: "str option \<Rightarrow> str \<Rightarrow> str \<Rightarrow> layout_desc" where
  "parse_layout home name content =
     (let st = fold (layout_line home) (text_lines content) (layout_reader_start name)
      in (lr_layout st)\<lparr>ly_tabs := map (ensure_pane (lr_working_dir st)) (ly_tabs (lr_layout st))\<rparr>)"

section \<open>Writing\<close>

text \<open>\<open>{:.0}\<close> rounds to the nearest integer, ties to even, and keeps the sign.\<close>

definition round_half_even :: "real \<Rightarrow> int" where
  "round_half_even x =
     (let f = \<lfloor>x\<rfloor>; d = x - of_int f
      in if d < 1 / 2 then f else if 1 / 2 < d then f + 1 else if even f then f else f + 1)"

definition format_f64_0 :: "f64v \<Rightarrow> str" where
  "format_f64_0 v = (case v of
     Num x \<Rightarrow> (if x < 0 then ''-'' else []) @ show_nat (nat (round_half_even \<bar>x\<bar>))
   | PosInf \<Rightarrow> ''inf'' | NegInf \<Rightarrow> ''-inf'' | NotANumber \<Rightarrow> ''NaN'')"

definition near_half :: "f64v \<Rightarrow> bool" where
  "near_half v = (case v of Num x \<Rightarrow> \<bar>x - 1 / 2\<bar> < 1 / 100 | _ \<Rightarrow> False)"

definition f64v_mul100 :: "f64v \<Rightarrow> f64v" where
  "f64v_mul100 v = (case v of Num x \<Rightarrow> Num (x * 100) | w \<Rightarrow> w)"

definition layout_value :: "tab_layout \<Rightarrow> str" where
  "layout_value l = (case l of EvenHorizontal \<Rightarrow> ''even-horizontal'' | EvenVertical \<Rightarrow> ''even-vertical''
     | MainHorizontal \<Rightarrow> ''main-horizontal'' | MainVertical \<Rightarrow> ''main-vertical''
     | Tiled \<Rightarrow> ''tiled'' | Manual \<Rightarrow> [])"

definition dir_str :: "split_dir \<Rightarrow> str" where
  "dir_str d = (case d of Right \<Rightarrow> ''split-right'' | Down \<Rightarrow> ''split-down'')"

definition split_text :: "layout_spec option \<Rightarrow> str" where
  "split_text sp = (case sp of
     Some s \<Rightarrow> (if near_half (ls_ratio s) then dir_str (ls_direction s) @ [nl]
               else dir_str (ls_direction s) @ '' = '' @ format_f64_0 (f64v_mul100 (ls_ratio s)) @ ''%'' @ [nl])
   | None \<Rightarrow> ''split-down'' @ [nl])"

definition pane_text :: "nat \<Rightarrow> layout_pane \<Rightarrow> str" where
  "pane_text i p =
     (case lp_working_directory p of Some wd \<Rightarrow> ''working-directory = '' @ wd @ [nl] | None \<Rightarrow> []) @
     (if 0 < i then split_text (lp_split p) else []) @
     ''pane = '' @ (case lp_command p of Some c \<Rightarrow> c | None \<Rightarrow> []) @ [nl]"

definition tab_text :: "layout_tab \<Rightarrow> str" where
  "tab_text t =
     ''tab = '' @ lt_title t @ [nl] @
     (if lt_layout t \<noteq> Manual then ''layout = '' @ layout_value (lt_layout t) @ [nl] else []) @
     concat (map (\<lambda>(i, p). pane_text i p) (enumerate 0 (lt_panes t))) @ [nl]"

text \<open>The name of the file below the directory of layouts and what is written to it.\<close>

definition save_layout :: "layout_desc \<Rightarrow> str \<times> str" where
  "save_layout l =
     (ly_name l @ ''.boo'',
      ''layout-name = '' @ ly_name l @ [nl, nl] @ concat (map tab_text (ly_tabs l)))"

text \<open>\<open>load_layout\<close>: files are found by their name; one that cannot be read gives nothing.\<close>

definition load_layout :: "(str \<Rightarrow> str option) \<Rightarrow> str option \<Rightarrow> str \<Rightarrow> layout_desc option" where
  "load_layout files home name = map_option (parse_layout home name) (files (name @ ''.boo''))"

definition list_layouts :: "str list \<Rightarrow> str list" where
  "list_layouts names = List.map_filter (strip_suffix ''.boo'') names"

end
