(* ===== verification/LayoutFileProps.thy ===== *)
theory LayoutFileProps
  imports LayoutFile
begin

text \<open>
  Writing a layout and reading it back (\<open>src/layout.rs\<close>). The text is turned into its lines, each
  line into the update of the reader that it causes, and these compose over the panes and tabs.
\<close>

section \<open>One line\<close>

definition plain_value :: "str \<Rightarrow> bool" where
  "plain_value v \<longleftrightarrow> trimmed v \<and> plain_line v"

definition plain_key :: "str \<Rightarrow> bool" where
  "plain_key k \<longleftrightarrow> k \<noteq> [] \<and> list_all graphic k \<and> CHR ''='' \<notin> set k \<and> hd k \<noteq> CHR ''#''"

lemma space_alone_in_ws: "p \<in> set ws_chars \<Longrightarrow> CHR '' '' \<in> set p \<Longrightarrow> p = '' ''"
  by (auto simp: ws_chars_def)

lemma strip_rev_before_space:
  assumes "strip_any (map rev ws_chars) (rev v) = None" and "v \<noteq> []"
  shows "strip_any (map rev ws_chars) (rev v @ CHR '' '' # x) = None"
proof (rule ccontr)
  assume "strip_any (map rev ws_chars) (rev v @ CHR '' '' # x) \<noteq> None"
  then obtain r where "strip_any (map rev ws_chars) (rev v @ CHR '' '' # x) = Some r" by auto
  from strip_any_SomeD [OF this] obtain p
    where p: "p \<in> set ws_chars" and eq: "rev v @ CHR '' '' # x = rev p @ r" by auto
  show False
  proof (cases "length p \<le> length v")
    case True
    have "take (length v) (rev v @ CHR '' '' # x) = take (length v) (rev p @ r)" by (simp only: eq)
    with True have "rev v = rev p @ take (length v - length p) r" by simp
    with assms(1) p show False by (auto simp: strip_any_None)
  next
    case False
    have "(rev v @ CHR '' '' # x) ! length v = (rev p @ r) ! length v" by (simp only: eq)
    with False have "rev p ! length v = CHR '' ''" by (simp add: nth_append)
    moreover have "rev p ! length v \<in> set (rev p)" using False by (intro nth_mem) simp
    ultimately have "CHR '' '' \<in> set p" by simp
    with p have "p = '' ''" using space_alone_in_ws by simp
    with False assms(2) show False by (cases v) auto
  qed
qed

lemma trim_start_key: "plain_key k \<Longrightarrow> trim_start (k @ x) = k @ x"
  by (cases k) (auto simp: plain_key_def intro!: trim_start_id strip_any_graphic)

lemma trim_end_graphic_space: "graphic c \<Longrightarrow> trim_end (s @ [c, CHR '' '']) = s @ [c]"
  by (simp add: trim_end_def trim_rev.simps [of "CHR '' '' # c # rev s"] ws_rev_space
      trim_rev.simps [of "c # rev s"] strip_any_graphic)

lemma plain_key_last: "plain_key k \<Longrightarrow> \<exists>s c. k = s @ [c] \<and> graphic c"
  by (cases k rule: rev_cases) (auto simp: plain_key_def)

lemma trim_key_space: "plain_key k \<Longrightarrow> trim (k @ '' '') = k"
  using plain_key_last [of k] trim_start_key [of k] trim_end_graphic_space
  by (auto simp: trim_def)

lemma trim_key_eq: "plain_key k \<Longrightarrow> trim (k @ '' = '') = k @ '' =''"
  using trim_end_graphic_space [of "CHR ''=''" "k @ '' ''"]
  by (simp add: trim_def trim_start_key graphic_def)

lemma trim_key_value:
  assumes "plain_key k" and "trimmed v" and "v \<noteq> []"
  shows "trim (k @ '' = '' @ v) = k @ '' = '' @ v"
proof -
  have "strip_any (map rev ws_chars) (rev v @ CHR '' '' # rev (k @ '' ='')) = None"
    using assms(2,3) by (intro strip_rev_before_space) (simp_all add: trimmed_def)
  then have "trim_end (k @ '' = '' @ v) = k @ '' = '' @ v"
    by (intro trim_end_rev_ws) simp
  with assms(1) show ?thesis by (simp add: trim_def trim_start_key)
qed

lemma starts_hash: "starts_with ''#'' (c # s) \<longleftrightarrow> c = CHR ''#''"
  by (simp add: starts_with_def)

lemma layout_line_key:
  assumes k: "plain_key k" and v: "trimmed v"
  shows "layout_line home (k @ '' = '' @ v) st = layout_key home k v st"
proof -
  let ?line = "if v = [] then k @ '' ='' else k @ '' = '' @ v"
  obtain c s where cs: "k = c # s" using k by (cases k) (auto simp: plain_key_def)
  have trim: "trim (k @ '' = '' @ v) = ?line"
    using trim_key_eq [OF k] trim_key_value [OF k v] by simp
  have start: "?line \<noteq> []" "\<not> starts_with ''#'' ?line"
    using k cs by (auto simp: starts_hash plain_key_def)
  have "?line \<noteq> x" if "CHR ''='' \<notin> set x" for x
  proof
    assume eq: "?line = x"
    have "CHR ''='' \<in> set ?line" by simp
    then have "CHR ''='' \<in> set x" by (simp only: eq)
    with that show False by simp
  qed
  then have bare: "?line \<noteq> ''split-right''" "?line \<noteq> ''split-down''" by simp_all
  have nk: "CHR ''='' \<notin> set (k @ '' '')" using k by (simp add: plain_key_def)
  have split: "split_once (CHR ''='') ?line = Some (k @ '' '', if v = [] then [] else CHR '' '' # v)"
    using split_once_append [OF nk, of v] split_once_append [OF nk, of "CHR '' '' # v"] split_once_append [OF nk, of "[]"]
    by simp
  have vals: "trim (k @ '' '') = k" "trim (if v = [] then [] else CHR '' '' # v) = v"
    using trim_key_space [OF k] trim_space_trimmed [OF v] trim_trimmed [of "[]"] by simp_all
  show ?thesis
    unfolding layout_line_def Let_def trim using start bare split vals by simp
qed

lemma layout_line_blank: "layout_line home [] st = st"
  by (simp add: layout_line_def trim_trimmed)

lemma layout_line_split:
  "layout_line home (dir_str d) st =
     st\<lparr>lr_pending_split := Some \<lparr>ls_direction = d, ls_ratio = Num (1 / 2)\<rparr>\<rparr>"
proof -
  have "trimmed (dir_str d)" by (intro trimmed_graphic) (cases d; simp add: dir_str_def graphic_def)+
  then show ?thesis
    by (cases d) (simp_all add: layout_line_def trim_trimmed dir_str_def starts_hash split_key_dir_def)
qed

lemma plain_keys:
  "plain_key ''layout-name''" "plain_key ''tab''" "plain_key ''layout''" "plain_key ''pane''"
  "plain_key (dir_str d)"
  by (simp_all add: plain_key_def graphic_def dir_str_def split: split_dir.splits)

section \<open>Ratios\<close>

lemma show_nat_not_special:
  "to_ascii_lowercase (show_nat n) \<notin> {''nan'', ''inf'', ''infinity''}"
  "take_sign (show_nat n) = (False, show_nat n)"
proof -
  obtain c r where cr: "show_nat n = c # r" using show_nat_nonempty [of n] by (cases "show_nat n") auto
  then have d: "is_ascii_digit c" using show_nat_digits [of c n] by simp
  then have "ascii_lower c = c" by (auto simp: ascii_lower_def is_ascii_upper_def is_ascii_digit_def)
  with cr d show "to_ascii_lowercase (show_nat n) \<notin> {''nan'', ''inf'', ''infinity''}"
    by (auto simp: to_ascii_lowercase_def is_ascii_digit_def)
  from cr d show "take_sign (show_nat n) = (False, show_nat n)"
    by (auto simp: take_sign_def is_ascii_digit_def)
qed

lemma parse_f64_show_nat: "parse_f64 (show_nat n) = Some (Num (real n))"
proof -
  have "\<forall>c \<in> set (show_nat n). is_ascii_digit c" using show_nat_digits by blast
  then have tw: "takeWhile is_ascii_digit (show_nat n) = show_nat n"
    and dw: "dropWhile is_ascii_digit (show_nat n) = []" by simp_all
  have "decimal_value (show_nat n) = Some (real n)"
    unfolding decimal_value_def Let_def tw dw
    by (simp add: show_nat_nonempty digits_value_show_nat exponent_value_def scale10_def)
  then show ?thesis using show_nat_not_special [of n] by (simp add: parse_f64_def)
qed

lemma parse_ratio_percent: "parse_ratio (show_nat n @ ''%'') = Num (real n / 100)"
  by (simp add: parse_ratio_def parse_f64_show_nat f64v_div100_def)

lemma round_half_even_close: "\<bar>x - of_int (round_half_even x)\<bar> \<le> 1 / 2"
  by (simp add: round_half_even_def Let_def)

lemma round_half_even_nonneg: "0 \<le> x \<Longrightarrow> 0 \<le> round_half_even x"
  by (simp add: round_half_even_def Let_def)

text \<open>What a ratio becomes when it is written and read.\<close>

definition saved_ratio :: "real \<Rightarrow> real" where
  "saved_ratio x = (if \<bar>x - 1 / 2\<bar> < 1 / 100 then 1 / 2 else of_int (round_half_even (x * 100)) / 100)"

lemma saved_ratio_close: "\<bar>saved_ratio x - x\<bar> < 1 / 100"
proof (cases "\<bar>x - 1 / 2\<bar> < 1 / 100")
  case False
  have "\<bar>of_int (round_half_even (x * 100)) / 100 - x\<bar> = \<bar>x * 100 - of_int (round_half_even (x * 100))\<bar> / 100"
    by (simp add: abs_if field_simps)
  with False round_half_even_close [of "x * 100"] show ?thesis by (simp add: saved_ratio_def)
qed (simp add: saved_ratio_def abs_minus_commute)

section \<open>Panes and tabs\<close>

text \<open>The layouts that are written as they are meant: names, titles, commands and directories
  without line breaks and outer white space, no command that is empty, and ratios that are finite
  and not negative.\<close>

definition savable_pane :: "layout_pane \<Rightarrow> bool" where
  "savable_pane p \<longleftrightarrow>
     (case lp_working_directory p of Some w \<Rightarrow> plain_value w | None \<Rightarrow> True) \<and>
     (case lp_command p of Some c \<Rightarrow> c \<noteq> [] \<and> plain_value c | None \<Rightarrow> True) \<and>
     (case lp_split p of Some s \<Rightarrow> (case ls_ratio s of Num x \<Rightarrow> 0 \<le> x | _ \<Rightarrow> False) | None \<Rightarrow> True)"

definition savable_tab :: "layout_tab \<Rightarrow> bool" where
  "savable_tab t \<longleftrightarrow> plain_value (lt_title t) \<and> lt_panes t \<noteq> [] \<and> list_all savable_pane (lt_panes t)"

definition saved_split :: "layout_spec option \<Rightarrow> layout_spec" where
  "saved_split sp = (case sp of
     Some s \<Rightarrow> s\<lparr>ls_ratio := (case ls_ratio s of Num x \<Rightarrow> Num (saved_ratio x) | w \<Rightarrow> w)\<rparr>
   | None \<Rightarrow> \<lparr>ls_direction = Down, ls_ratio = Num (1 / 2)\<rparr>)"

text \<open>The directory in force after a pane: its own, with the home directory filled in, or else the
  one before it; the file has no line that ends a directory.\<close>

definition dir_after :: "str option \<Rightarrow> str option \<Rightarrow> layout_pane \<Rightarrow> str option" where
  "dir_after home dir p =
     (case lp_working_directory p of Some w \<Rightarrow> Some (shellexpand_home home w) | None \<Rightarrow> dir)"

definition saved_pane :: "str option \<Rightarrow> str option \<Rightarrow> nat \<Rightarrow> layout_pane \<Rightarrow> layout_pane" where
  "saved_pane home dir i p = p\<lparr>lp_working_directory := dir_after home dir p,
     lp_split := (if 0 < i then Some (saved_split (lp_split p)) else None)\<rparr>"

fun saved_panes :: "str option \<Rightarrow> str option \<Rightarrow> nat \<Rightarrow> layout_pane list \<Rightarrow> layout_pane list" where
  "saved_panes home dir i [] = []"
| "saved_panes home dir i (p # ps) =
     saved_pane home dir i p # saved_panes home (dir_after home dir p) (Suc i) ps"

definition dir_after_panes :: "str option \<Rightarrow> str option \<Rightarrow> layout_pane list \<Rightarrow> str option" where
  "dir_after_panes home dir ps = fold (\<lambda>p d. dir_after home d p) ps dir"

fun saved_tabs :: "str option \<Rightarrow> str option \<Rightarrow> layout_tab list \<Rightarrow> layout_tab list" where
  "saved_tabs home dir [] = []"
| "saved_tabs home dir (t # ts) = t\<lparr>lt_panes := saved_panes home dir 0 (lt_panes t)\<rparr>
     # saved_tabs home (dir_after_panes home dir (lt_panes t)) ts"

lemma saved_panes_eq_Nil [simp]: "saved_panes home dir i ps = [] \<longleftrightarrow> ps = []"
  by (cases ps) simp_all

lemma saved_tabs_have_panes:
  "list_all savable_tab ts \<Longrightarrow> list_all (\<lambda>t. lt_panes t \<noteq> []) (saved_tabs home dir ts)"
  by (induction ts arbitrary: dir) (simp_all add: savable_tab_def)

text \<open>What a text does to the reader, when it consists of whole lines.\<close>

definition read_text :: "str option \<Rightarrow> str \<Rightarrow> layout_reader \<Rightarrow> layout_reader" where
  "read_text home s st = fold (layout_line home) (text_lines s) st"

lemma read_text_line:
  assumes "plain_line l"
  shows "read_text home (l @ nl # r) st = read_text home r (layout_line home l st)"
  using assms by (simp add: read_text_def text_lines_Cons)

lemma read_text_key:
  assumes "plain_key k" "plain_line k" "plain_value v"
  shows "read_text home (k @ '' = '' @ v @ nl # r) st = read_text home r (layout_key home k v st)"
proof -
  have "plain_line (k @ '' = '' @ v)" using assms by (simp add: plain_value_def)
  from read_text_line [OF this, of home r st] layout_line_key [OF assms(1), of v home st] assms
  show ?thesis by (simp add: plain_value_def)
qed

definition pend :: "layout_spec \<Rightarrow> layout_reader \<Rightarrow> layout_reader" where
  "pend s st = st\<lparr>lr_pending_split := Some s\<rparr>"

lemma plain_value_percent: "plain_value (show_nat n @ ''%'')"
proof -
  obtain c r where cr: "show_nat n = c # r" using show_nat_nonempty [of n] by (cases "show_nat n") auto
  then have "graphic c" using show_nat_digits [of c n] by (simp add: graphic_def is_ascii_digit_def)
  with cr have "trimmed (show_nat n @ ''%'')" by (intro trimmed_graphic) (simp_all add: graphic_def)
  moreover have "plain_line (show_nat n)"
    using show_nat_digits [of nl n] show_nat_digits [of cr n]
    by (auto simp: plain_line_def is_ascii_digit_def)
  ultimately show ?thesis by (simp add: plain_value_def)
qed

lemma plain_line_dir_str: "plain_line (dir_str d)"
  by (cases d) (simp_all add: dir_str_def)

lemma layout_key_dir:
  "layout_key home (dir_str d) v st =
     pend \<lparr>ls_direction = d, ls_ratio = (if v = [] then Num (1 / 2) else parse_ratio v)\<rparr> st"
  by (cases d) (simp_all add: layout_key_def dir_str_def split_key_dir_def pend_def)

lemma read_split_text:
  assumes "case sp of Some s \<Rightarrow> (case ls_ratio s of Num x \<Rightarrow> 0 \<le> x | _ \<Rightarrow> False) | None \<Rightarrow> True"
  shows "read_text home (split_text sp @ r) st = read_text home r (pend (saved_split sp) st)"
proof (cases sp)
  case None
  have "layout_line home ''split-down'' st = pend (saved_split sp) st"
    using layout_line_split [of home Down st] None by (simp add: dir_str_def pend_def saved_split_def)
  with None read_text_line [of "''split-down''" home r st] show ?thesis by (simp add: split_text_def)
next
  case (Some s)
  then obtain x where x: "ls_ratio s = Num x" "0 \<le> x" using assms by (cases "ls_ratio s") auto
  show ?thesis
  proof (cases "near_half (ls_ratio s)")
    case True
    have "layout_line home (dir_str (ls_direction s)) st = pend (saved_split sp) st"
      using layout_line_split [of home "ls_direction s" st] Some x True
      by (simp add: pend_def saved_split_def saved_ratio_def near_half_def)
    with Some True read_text_line [OF plain_line_dir_str, of home "ls_direction s" r st] show ?thesis
      by (simp add: split_text_def)
  next
    case False
    let ?n = "nat (round_half_even \<bar>x * 100\<bar>)"
    have fmt: "format_f64_0 (f64v_mul100 (ls_ratio s)) = show_nat ?n"
      using x by (simp add: format_f64_0_def f64v_mul100_def)
    have "real ?n / 100 = saved_ratio x"
      using x False round_half_even_nonneg [of "x * 100"] by (simp add: saved_ratio_def near_half_def)
    then have "layout_key home (dir_str (ls_direction s)) (show_nat ?n @ ''%'') st = pend (saved_split sp) st"
      using Some x by (cases s) (simp add: layout_key_dir parse_ratio_percent pend_def saved_split_def)
    with Some False read_text_key [OF plain_keys(5) plain_line_dir_str plain_value_percent, of home "ls_direction s" ?n r st]
    show ?thesis by (simp add: split_text_def fmt)
  qed
qed

definition enter_dir :: "str option \<Rightarrow> layout_pane \<Rightarrow> layout_reader \<Rightarrow> layout_reader" where
  "enter_dir home p st = st\<lparr>lr_working_dir := dir_after home (lr_working_dir st) p\<rparr>"

definition add_pane :: "layout_pane \<Rightarrow> layout_reader \<Rightarrow> layout_reader" where
  "add_pane p st = st\<lparr>lr_layout := map_last_tab (\<lambda>t. t\<lparr>lt_panes := lt_panes t @ [p]\<rparr>) (lr_layout st),
                     lr_pending_split := None\<rparr>"

lemma enter_dir_simps [simp]:
  "lr_layout (enter_dir home p st) = lr_layout st"
  "lr_pending_split (enter_dir home p st) = lr_pending_split st"
  "lr_working_dir (enter_dir home p st) = dir_after home (lr_working_dir st) p"
  by (simp_all add: enter_dir_def)

lemma read_dir_text:
  assumes "savable_pane p"
  shows "read_text home ((case lp_working_directory p of Some wd \<Rightarrow> ''working-directory = '' @ wd @ [nl]
      | None \<Rightarrow> []) @ r) st = read_text home r (enter_dir home p st)"
proof (cases "lp_working_directory p")
  case None
  then show ?thesis by (simp add: enter_dir_def dir_after_def)
next
  case (Some w)
  with assms have w: "plain_value w" by (simp add: savable_pane_def)
  have "plain_key ''working-directory''" by (simp add: plain_key_def graphic_def)
  from read_text_key [OF this _ w, of home r st] Some show ?thesis
    by (simp add: layout_key_def enter_dir_def dir_after_def)
qed

lemma read_pane_text:
  assumes "savable_pane p" and "ly_tabs (lr_layout st) \<noteq> []" and "lr_pending_split st = None"
  shows "read_text home (pane_text i p @ r) st =
    read_text home r (add_pane (saved_pane home (lr_working_dir st) i p) (enter_dir home p st))"
proof -
  define c where "c = (case lp_command p of Some c \<Rightarrow> c | None \<Rightarrow> [])"
  let ?st = "enter_dir home p st"
  let ?st' = "if 0 < i then pend (saved_split (lp_split p)) ?st else ?st"
  have c: "plain_value c" "lp_command p = (if c = [] then None else Some c)"
    using assms(1) by (auto simp: savable_pane_def plain_value_def c_def split: option.splits)
  have p: "\<lparr>lp_command = if c = [] then None else Some c, lp_working_directory = d, lp_split = s\<rparr>
      = p\<lparr>lp_working_directory := d, lp_split := s\<rparr>" for d s
    using c(2) by (cases p) simp
  have "read_text home (pane_text i p @ r) st = read_text home (''pane'' @ '' = '' @ c @ nl # r) ?st'"
    using read_split_text [of "lp_split p" home "''pane'' @ '' = '' @ c @ nl # r" ?st] assms(1)
      read_dir_text [OF assms(1)]
    by (simp add: pane_text_def savable_pane_def c_def [symmetric])
  also have "\<dots> = read_text home r (layout_key home ''pane'' c ?st')"
    using c(1) by (intro read_text_key plain_keys) simp_all
  also have "layout_key home ''pane'' c ?st' = add_pane (saved_pane home (lr_working_dir st) i p) ?st"
    using assms(2,3) by (cases "0 < i") (simp_all add: layout_key_def add_pane_def saved_pane_def pend_def p)
  finally show ?thesis .
qed

text \<open>The reader after the panes of a tab.\<close>

definition with_panes :: "str option \<Rightarrow> nat \<Rightarrow> layout_pane list \<Rightarrow> layout_reader \<Rightarrow> layout_reader" where
  "with_panes home i ps st = st\<lparr>
     lr_layout := map_last_tab (\<lambda>t. t\<lparr>lt_panes := lt_panes t @ saved_panes home (lr_working_dir st) i ps\<rparr>) (lr_layout st),
     lr_working_dir := dir_after_panes home (lr_working_dir st) ps\<rparr>"

lemma update_last_eq_Nil [simp]: "update_last f xs = [] \<longleftrightarrow> xs = []"
  by (simp add: update_last_def)

lemma update_last_compose: "update_last f (update_last g xs) = update_last (f \<circ> g) xs"
  by (simp add: update_last_def butlast_append)

lemma update_last_same: "update_last (\<lambda>t. t) xs = xs"
  by (simp add: update_last_def)

lemma with_panes_Nil: "with_panes home i [] st = st"
  by (simp add: with_panes_def dir_after_panes_def map_last_tab_def update_last_same)

lemma with_panes_Cons:
  "lr_pending_split st = None \<Longrightarrow>
   with_panes home (Suc i) ps (add_pane (saved_pane home (lr_working_dir st) i p) (enter_dir home p st))
     = with_panes home i (p # ps) st"
  by (simp add: with_panes_def add_pane_def enter_dir_def map_last_tab_def update_last_compose comp_def
      dir_after_panes_def)

lemma read_panes:
  assumes "list_all savable_pane ps" and "ly_tabs (lr_layout st) \<noteq> []" and "lr_pending_split st = None"
  shows "read_text home (concat (map (\<lambda>(i, p). pane_text i p) (enumerate k ps)) @ r) st =
    read_text home r (with_panes home k ps st)"
  using assms
proof (induction ps arbitrary: k st)
  case Nil
  then show ?case by (simp add: with_panes_Nil)
next
  case (Cons p ps)
  let ?st = "add_pane (saved_pane home (lr_working_dir st) k p) (enter_dir home p st)"
  have "ly_tabs (lr_layout ?st) \<noteq> []" "lr_pending_split ?st = None"
    using Cons.prems by (simp_all add: add_pane_def map_last_tab_def)
  with Cons show ?case by (simp add: read_pane_text with_panes_Cons)
qed

text \<open>A text of layout files read from a reader between two tabs.\<close>

definition between_tabs :: "str \<Rightarrow> layout_tab list \<Rightarrow> str option \<Rightarrow> layout_reader \<Rightarrow> bool" where
  "between_tabs n ts dir st \<longleftrightarrow> lr_layout st = \<lparr>ly_name = n, ly_tabs = ts\<rparr> \<and>
     lr_working_dir st = dir \<and> lr_pending_split st = None"

lemma layout_value_plain: "l \<noteq> Manual \<Longrightarrow> plain_value (layout_value l) \<and> layout_of_value (layout_value l) = l"
  by (cases l) (auto simp: layout_value_def layout_of_value_def plain_value_def graphic_def intro!: trimmed_graphic)

lemma read_tab_text:
  assumes t: "savable_tab t" and st: "between_tabs n ts dir st"
  shows "\<exists>st'. read_text home (tab_text t @ r) st = read_text home r st'
    \<and> between_tabs n (ts @ [t\<lparr>lt_panes := saved_panes home dir 0 (lt_panes t)\<rparr>])
        (dir_after_panes home dir (lt_panes t)) st'"
proof -
  let ?panes = "concat (map (\<lambda>(i, p). pane_text i p) (enumerate 0 (lt_panes t))) @ nl # r"
  let ?lay = "if lt_layout t \<noteq> Manual then ''layout = '' @ layout_value (lt_layout t) @ [nl] else []"
  let ?tab = "\<lparr>lt_title = lt_title t, lt_layout = Manual, lt_panes = []\<rparr>"
  define st1 where "st1 = layout_key home ''tab'' (lt_title t) st"
  have lay1: "lr_layout st1 = \<lparr>ly_name = n, ly_tabs = ts @ [?tab]\<rparr>"
    and rest1: "lr_working_dir st1 = dir" "lr_pending_split st1 = None"
    using st by (simp_all add: st1_def layout_key_def push_tab_def between_tabs_def)
  have "read_text home (tab_text t @ r) st = read_text home (?lay @ ?panes) st1"
    using read_text_key [OF plain_keys(2), of "lt_title t" home "?lay @ ?panes" st] t
    by (simp add: tab_text_def st1_def savable_tab_def)
  moreover define st2 where "st2 = (if lt_layout t \<noteq> Manual
      then layout_key home ''layout'' (layout_value (lt_layout t)) st1 else st1)"
  have "read_text home (?lay @ ?panes) st1 = read_text home ?panes st2"
    using read_text_key [OF plain_keys(3), of "layout_value (lt_layout t)" home ?panes st1]
      layout_value_plain [of "lt_layout t"]
    by (simp add: st2_def)
  moreover have lay2: "lr_layout st2 = \<lparr>ly_name = n, ly_tabs = ts @ [?tab\<lparr>lt_layout := lt_layout t\<rparr>]\<rparr>"
    and rest2: "lr_working_dir st2 = dir" "lr_pending_split st2 = None"
    using lay1 rest1 layout_value_plain [of "lt_layout t"]
    by (simp_all add: st2_def layout_key_def map_last_tab_def Let_def)
  moreover define st3 where "st3 = with_panes home 0 (lt_panes t) st2"
  have "read_text home ?panes st2 = read_text home (nl # r) st3"
    using t lay2 rest2 unfolding st3_def by (intro read_panes) (simp_all add: savable_tab_def)
  moreover have "read_text home (nl # r) st3 = read_text home r st3"
    using read_text_line [of "[]" home r st3] by (simp add: layout_line_blank)
  moreover have "between_tabs n (ts @ [t\<lparr>lt_panes := saved_panes home dir 0 (lt_panes t)\<rparr>])
      (dir_after_panes home dir (lt_panes t)) st3"
    unfolding st3_def using rest2 lay2 by (cases t) (simp add: between_tabs_def with_panes_def map_last_tab_def)
  ultimately show ?thesis by metis
qed

lemma read_tabs_text:
  assumes "list_all savable_tab tbs" and "between_tabs n ts dir st"
  shows "\<exists>st' dir'. read_text home (concat (map tab_text tbs)) st = st'
    \<and> between_tabs n (ts @ saved_tabs home dir tbs) dir' st'"
  using assms
proof (induction tbs arbitrary: ts dir st)
  case Nil
  then show ?case by (auto simp: read_text_def)
next
  case (Cons t tbs)
  then obtain st' where st': "read_text home (tab_text t @ concat (map tab_text tbs)) st =
      read_text home (concat (map tab_text tbs)) st'"
    "between_tabs n (ts @ [t\<lparr>lt_panes := saved_panes home dir 0 (lt_panes t)\<rparr>])
      (dir_after_panes home dir (lt_panes t)) st'"
    using read_tab_text [of t n ts dir st] by fastforce
  from Cons.IH [OF _ st'(2)] Cons.prems(1) st'(1) show ?case by simp
qed

end
