(* ===== verification/LayoutApp.thy ===== *)
theory LayoutApp
  imports LayoutFileProps TabsProps
begin

text \<open>
  Layouts and the running tabs (\<open>src/runtime_panes.rs\<close>): saving the tabs as a layout and opening
  the panes of a layout. The panes that the terminal backend creates, or fails to create, are the
  list \<open>supply\<close>; the focus events that go to the backend are left out. The outer \<open>None\<close> is a panic
  (a command with a NUL byte) or a ratio that is NaN, which exact reals do not have.
\<close>

section \<open>Saving\<close>

definition layout_dir :: "direction \<Rightarrow> split_dir" where
  "layout_dir d = (case d of Horizontal \<Rightarrow> Right | Vertical \<Rightarrow> Down)"

definition exported_layout_pane :: "exported_pane \<Rightarrow> layout_pane" where
  "exported_layout_pane ep =
     \<lparr>lp_command = None, lp_working_directory = None,
      lp_split = map_option (\<lambda>(d, r). \<lparr>ls_direction = layout_dir d, ls_ratio = Num r\<rparr>) (ex_split ep)\<rparr>"

definition current_layout :: "tab_manager \<Rightarrow> str \<Rightarrow> layout_desc" where
  "current_layout m name =
     \<lparr>ly_name = name,
      ly_tabs = map (\<lambda>info.
        \<lparr>lt_title = utf8_str (inf_title info),
         lt_layout = (case get_at (tabs m) (inf_index info) of Some t \<Rightarrow> layout t | None \<Rightarrow> Manual),
         lt_panes = (case get_at (tabs m) (inf_index info) of
             Some t \<Rightarrow> map exported_layout_pane (export_panes (tree t))
           | None \<Rightarrow> [\<lparr>lp_command = None, lp_working_directory = None, lp_split = None\<rparr>])\<rparr>)
        (tab_info_with_spinner 0 m)\<rparr>"

definition save_current_layout :: "tab_manager \<Rightarrow> str \<Rightarrow> str \<times> str" where
  "save_current_layout m name = save_layout (current_layout m name)"

section \<open>Loading\<close>

text \<open>A ratio as the split tree takes it: it is clamped there, so an infinity acts like any ratio
  beyond the bounds.\<close>

definition ratio_real :: "f64v \<Rightarrow> f64 option" where
  "ratio_real v = (case v of Num x \<Rightarrow> Some x | PosInf \<Rightarrow> Some 1 | NegInf \<Rightarrow> Some 0 | NotANumber \<Rightarrow> None)"

definition has_nul :: "str option \<Rightarrow> bool" where
  "has_nul s = (case s of Some c \<Rightarrow> CHR 0x00 \<in> set c | None \<Rightarrow> False)"

definition pane_split :: "split_spec list \<Rightarrow> nat \<Rightarrow> layout_pane \<Rightarrow> (direction \<times> f64) option" where
  "pane_split auto_splits pane_idx lp =
     (if auto_splits \<noteq> []
      then let s = auto_splits ! (pane_idx - 1) in Some (split_direction (sp_direction s), sp_ratio s)
      else case lp_split lp of
        Some s \<Rightarrow> map_option (\<lambda>r. (split_direction (ls_direction s), r)) (ratio_real (ls_ratio s))
      | None \<Rightarrow> Some (Vertical, 1 / 2))"

type_synonym load_state = "(tab_manager \<times> views) \<times> pane_handle option list"

definition load_pane :: "split_spec list \<Rightarrow> nat \<times> layout_pane \<Rightarrow> load_state \<Rightarrow> load_state option" where
  "load_pane auto_splits ip st =
     (let (pane_idx, lp) = ip; (mv, supply) = st
      in if has_nul (lp_command lp) \<or> has_nul (lp_working_directory lp) then None
         else case supply of
           [] \<Rightarrow> Some (mv, [])
         | created # supply' \<Rightarrow>
             if pane_idx = 0
             then Some (case created of None \<Rightarrow> mv | Some pane \<Rightarrow> snd (new_tab pane mv), supply')
             else case pane_split auto_splits pane_idx lp of
               None \<Rightarrow> None
             | Some (dir, ratio) \<Rightarrow>
                 Some (case created of None \<Rightarrow> mv
                   | Some pane \<Rightarrow> (snd (update_active_tab (\<lambda>t. ((),
                       t\<lparr>tree := snd (split_focused_with_ratio dir pane ratio (tree t))\<rparr>)) () (fst mv)), snd mv),
                   supply'))"

fun load_panes :: "split_spec list \<Rightarrow> (nat \<times> layout_pane) list \<Rightarrow> load_state \<Rightarrow> load_state option" where
  "load_panes auto_splits [] st = Some st"
| "load_panes auto_splits (p # ps) st = Option.bind (load_pane auto_splits p st) (load_panes auto_splits ps)"

definition name_tab :: "nat \<Rightarrow> layout_tab \<Rightarrow> tab_manager \<Rightarrow> tab_manager" where
  "name_tab tab_idx lt m =
     (if tab_idx < length (tabs m)
      then m\<lparr>tabs := (tabs m)[tab_idx :=
             (let t = tabs m ! tab_idx
              in if lt_title lt \<noteq> [] then t\<lparr>title := utf8_bytes (lt_title lt), layout := lt_layout lt\<rparr>
                 else t\<lparr>layout := lt_layout lt\<rparr>)]\<rparr>
      else m)"

definition load_tab :: "nat \<times> layout_tab \<Rightarrow> load_state \<Rightarrow> load_state option" where
  "load_tab it st =
     (let (tab_idx, lt) = it;
          auto_splits = (if lt_layout lt \<noteq> Manual then layout_splits (lt_layout lt) (length (lt_panes lt)) else [])
      in map_option (\<lambda>((m, vs), supply). ((name_tab tab_idx lt m, vs), supply))
           (load_panes auto_splits (enumerate 0 (lt_panes lt)) st))"

fun load_tabs :: "(nat \<times> layout_tab) list \<Rightarrow> load_state \<Rightarrow> load_state option" where
  "load_tabs [] st = Some st"
| "load_tabs (t # ts) st = Option.bind (load_tab t st) (load_tabs ts)"

text \<open>The file system and the home directory as in \<open>load_layout\<close>; without a parent window
  nothing is opened.\<close>

definition app_load_layout ::
  "(str \<Rightarrow> str option) \<Rightarrow> str option \<Rightarrow> bool \<Rightarrow> str \<Rightarrow> load_state \<Rightarrow> load_state option" where
  "app_load_layout files home has_parent name st =
     (case load_layout files home name of
        None \<Rightarrow> Some st
      | Some l \<Rightarrow> (if \<not> has_parent then Some st else load_tabs (enumerate 0 (ly_tabs l)) st))"

section \<open>Saving and loading\<close>

lemma tab_info_length [simp]: "length (tab_info_with_spinner k m) = length (tabs m)"
  by (simp add: tab_info_with_spinner_def)

lemma current_layout_tab:
  assumes "i < length (tabs m)"
  shows "ly_tabs (current_layout m name) ! i =
    \<lparr>lt_title = utf8_str (inf_title (tab_info_with_spinner 0 m ! i)), lt_layout = layout (tabs m ! i),
     lt_panes = map exported_layout_pane (export_panes (tree (tabs m ! i)))\<rparr>"
  using assms by (simp add: current_layout_def tab_info_with_spinner_def nth_enumerate_eq get_at_def)

text \<open>C10: Layout files round trip. A layout whose name, titles, commands and working directories are
  trimmed single lines, whose commands are not empty, whose tabs have panes and whose ratios are finite
  and not negative is read back from the file it was saved to with the same name, titles, named layouts
  and commands. Three things change: the split of the first pane of a tab is dropped and a later pane
  without one gets an even split down, the other splits keep their direction and come back with a ratio
  within one hundredth; and a pane without a working directory comes back with the last one that was
  written before it, also from an earlier tab, with the home directory filled in.\<close>

theorem layout_file_round_trip:
  assumes "plain_value (ly_name l)" and "list_all savable_tab (ly_tabs l)"
  shows "parse_layout home n (snd (save_layout l)) = l\<lparr>ly_tabs := saved_tabs home None (ly_tabs l)\<rparr>
    \<and> (\<forall>x. \<bar>saved_ratio x - x\<bar> < 1 / 100)"
proof -
  let ?tabs = "concat (map tab_text (ly_tabs l))"
  let ?st = "layout_key home ''layout-name'' (ly_name l) (layout_reader_start n)"
  have start: "between_tabs (ly_name l) [] None ?st"
    by (simp add: between_tabs_def layout_key_def layout_reader_start_def)
  have "read_text home (snd (save_layout l)) (layout_reader_start n) = read_text home (nl # ?tabs) ?st"
    using read_text_key [OF plain_keys(1), of "ly_name l" home "nl # ?tabs" "layout_reader_start n"] assms(1)
    by (simp add: save_layout_def)
  also have "\<dots> = read_text home ?tabs ?st"
    using read_text_line [of "[]" home ?tabs ?st] by (simp add: layout_line_blank)
  finally obtain st dir where st: "fold (layout_line home) (text_lines (snd (save_layout l))) (layout_reader_start n) = st"
    and b: "between_tabs (ly_name l) (saved_tabs home None (ly_tabs l)) dir st"
    using read_tabs_text [OF assms(2) start, of home] by (auto simp: read_text_def)
  have "map (ensure_pane dir) (saved_tabs home None (ly_tabs l)) = saved_tabs home None (ly_tabs l)"
    using saved_tabs_have_panes [OF assms(2), of home None]
    by (intro map_idI) (simp add: ensure_pane_def list_all_iff)
  with b have "parse_layout home n (snd (save_layout l)) = l\<lparr>ly_tabs := saved_tabs home None (ly_tabs l)\<rparr>"
    unfolding parse_layout_def Let_def st by (simp add: between_tabs_def)
  then show ?thesis using saved_ratio_close by blast
qed

theorem layout_file_round_trip_witness:
  "parse_layout (Some ''/h'') ''x'' (snd (save_layout \<lparr>ly_name = ''dev'', ly_tabs =
      [\<lparr>lt_title = ''logs'', lt_layout = Tiled, lt_panes =
         [\<lparr>lp_command = Some ''vi'', lp_working_directory = Some ''~/a'', lp_split = None\<rparr>,
          \<lparr>lp_command = None, lp_working_directory = None, lp_split = None\<rparr>]\<rparr>]\<rparr>))
   = \<lparr>ly_name = ''dev'', ly_tabs =
      [\<lparr>lt_title = ''logs'', lt_layout = Tiled, lt_panes =
         [\<lparr>lp_command = Some ''vi'', lp_working_directory = Some ''/h/a'', lp_split = None\<rparr>,
          \<lparr>lp_command = None, lp_working_directory = Some ''/h/a'',
           lp_split = Some \<lparr>ls_direction = Down, ls_ratio = Num (1 / 2)\<rparr>\<rparr>]\<rparr>]\<rparr>"
proof -
  have t: "plain_value ''dev''" "plain_value ''logs''" "plain_value ''vi''" "plain_value ''~/a''"
    by (simp_all add: plain_value_def trimmed_graphic graphic_def)
  show ?thesis
    using layout_file_round_trip [of "\<lparr>ly_name = ''dev'', ly_tabs =
      [\<lparr>lt_title = ''logs'', lt_layout = Tiled, lt_panes =
         [\<lparr>lp_command = Some ''vi'', lp_working_directory = Some ''~/a'', lp_split = None\<rparr>,
          \<lparr>lp_command = None, lp_working_directory = None, lp_split = None\<rparr>]\<rparr>]\<rparr>" "Some ''/h''" "''x''"] t
    by (simp add: savable_tab_def savable_pane_def saved_pane_def saved_split_def dir_after_def shellexpand_home_def
        starts_with_def)
qed

text \<open>Loading a layout while tabs are open names the wrong tabs: the titles and layouts of the
  file go to the tabs with the first indices, which were open before, and the tabs that were opened
  for the layout keep the empty title.\<close>

theorem load_layout_renames_open_tabs:
  assumes "load_layout files home name = Some l" and "ly_tabs l = [lt]" and "lt_panes lt = [lp]"
    and "lt_title lt \<noteq> []" and "\<not> has_nul (lp_command lp)" and "\<not> has_nul (lp_working_directory lp)"
    and "tabs m = t # ts"
  shows "\<exists>m' vs'. app_load_layout files home True name ((m, vs), [Some pane]) = Some ((m', vs'), [])
    \<and> length (tabs m') = length (tabs m) + 1
    \<and> title (hd (tabs m')) = utf8_bytes (lt_title lt) \<and> layout (hd (tabs m')) = lt_layout lt
    \<and> title (last (tabs m')) = [] \<and> layout (last (tabs m')) = Manual"
  using assms
  by (simp add: app_load_layout_def load_tab_def load_pane_def name_tab_def new_tab_def allocate_tab_id_def
      fresh_tab_def Let_def)

theorem load_layout_renames_open_tabs_witness:
  "\<exists>m' vs'. app_load_layout (\<lambda>_. Some ''tab = logs'') None True ''dev'' ((one_tab, \<lambda>_. False), [Some (mk_pane 5)])
     = Some ((m', vs'), []) \<and> title (hd (tabs m')) = utf8_bytes ''logs'' \<and> title (last (tabs m')) = []"
proof -
  have "text_lines ''tab = logs'' = [''tab = logs'']"
    by (subst text_lines.simps) simp
  moreover have "layout_line None ''tab = logs'' st = layout_key None ''tab'' ''logs'' st" for st
    using layout_line_key [OF plain_keys(2), of "''logs''" None st] by (simp add: trimmed_graphic graphic_def)
  ultimately have l: "load_layout (\<lambda>_. Some ''tab = logs'') None ''dev'' = Some \<lparr>ly_name = ''dev'', ly_tabs =
      [\<lparr>lt_title = ''logs'', lt_layout = Manual,
        lt_panes = [\<lparr>lp_command = None, lp_working_directory = None, lp_split = None\<rparr>]\<rparr>]\<rparr>"
    by (simp add: load_layout_def parse_layout_def layout_reader_start_def layout_key_def push_tab_def ensure_pane_def)
  have "tabs one_tab = [fresh_tab 1 (mk_pane 1)]"
    by (simp add: one_tab_def add_initial_tab_def allocate_tab_id_def tabs_new_def)
  from load_layout_renames_open_tabs [OF l, of "\<lparr>lt_title = ''logs'', lt_layout = Manual,
        lt_panes = [\<lparr>lp_command = None, lp_working_directory = None, lp_split = None\<rparr>]\<rparr>"
      "\<lparr>lp_command = None, lp_working_directory = None, lp_split = None\<rparr>" one_tab _ _ "\<lambda>_. False" "mk_pane 5",
      OF _ _ _ _ _ this]
  show ?thesis by (simp add: has_nul_def) blast
qed

text \<open>Saving loses the outer splits: of three panes, the first beside the other two, which are
  stacked, only the inner split is written, for both; loaded again, the three panes are stacked.
  Whatever the directions and ratios, the split of the root does not come back.\<close>

theorem saved_layout_loses_outer_split:
  assumes "root (tree tb) = Some (Split d r (Leaf i a) (Split d' r' (Leaf j b) (Leaf k c)))"
    and "layout tb = Manual" and "1 / 10 \<le> r'" and "r' \<le> 9 / 10"
  shows "\<exists>m vs. load_tabs (enumerate 0 (ly_tabs (current_layout \<lparr>tabs = [tb], active = 0, prev_active = 0, next_tab_id = 2\<rparr> name)))
      ((tabs_new, vs0), [Some a, Some b, Some c]) = Some ((m, vs), [])
    \<and> map (\<lambda>t. root (tree t)) (tabs m) = [Some (Split d' r' (Leaf 0 a) (Split d' r' (Leaf 1 b) (Leaf 2 c)))]"
proof -
  let ?m = "\<lparr>tabs = [tb], active = 0, prev_active = 0, next_tab_id = 2\<rparr>"
  have dir: "split_direction (layout_dir x) = x" for x
    by (cases x) (simp_all add: split_direction_def layout_dir_def)
  have clamp: "f64_clamp r' 0.1 0.9 = r'" using assms(3,4) by (intro f64_clamp_id) simp_all
  define tt where "tt = utf8_str (inf_title (tab_info_with_spinner 0 ?m ! 0))"
  let ?s = "\<lambda>d r. Some \<lparr>ls_direction = layout_dir d, ls_ratio = Num r\<rparr>"
  let ?p = "\<lambda>s. \<lparr>lp_command = None, lp_working_directory = None, lp_split = s\<rparr>"
  have "map exported_layout_pane (export_panes (tree tb)) = [?p (?s d r), ?p (?s d' r'), ?p (?s d' r')]"
    by (simp add: export_panes_def assms(1) exported_layout_pane_def)
  then have "ly_tabs (current_layout ?m name) = [\<lparr>lt_title = tt, lt_layout = Manual,
      lt_panes = [?p (?s d r), ?p (?s d' r'), ?p (?s d' r')]\<rparr>]"
    using assms(2)
    by (simp add: current_layout_def tt_def tab_info_with_spinner_def get_at_def)
  then show ?thesis
    by (simp add: load_tab_def load_pane_def has_nul_def pane_split_def ratio_real_def dir clamp
        name_tab_def new_tab_def tabs_new_def allocate_tab_id_def fresh_tab_def add_root_def tree_new_def
        update_active_tab_def get_at_def split_focused_with_ratio_def Let_def split_beta)
qed

theorem saved_layout_loses_outer_split_witness:
  "\<exists>m vs. load_tabs (enumerate 0 (ly_tabs (current_layout \<lparr>tabs = [\<lparr>tab_id = 1, tree =
        \<lparr>root = Some (Split Horizontal (1 / 2) (Leaf 0 (mk_pane 1)) (Split Vertical (1 / 2) (Leaf 1 (mk_pane 2)) (Leaf 2 (mk_pane 3)))),
         next_id = 3, focused_id = 2\<rparr>, title = [], layout = Manual, running_command = None\<rparr>],
        active = 0, prev_active = 0, next_tab_id = 2\<rparr> ''dev'')))
      ((tabs_new, \<lambda>_. False), [Some (mk_pane 1), Some (mk_pane 2), Some (mk_pane 3)]) = Some ((m, vs), [])
    \<and> map (\<lambda>t. root (tree t)) (tabs m) =
       [Some (Split Vertical (1 / 2) (Leaf 0 (mk_pane 1)) (Split Vertical (1 / 2) (Leaf 1 (mk_pane 2)) (Leaf 2 (mk_pane 3))))]"
  by (rule saved_layout_loses_outer_split [where d = Horizontal and r = "1 / 2" and i = 0 and j = 1 and k = 2]) simp_all

end
