(* ===== verification/StatusStore.thy ===== *)
theory StatusStore
  imports ClientApp RustText
begin

text \<open>
  The status components that programs publish (\<open>src/status_components.rs\<close>): the store keeps one
  entry per source and zone, in the order in which they first appeared. It is shown to implement
  a map from sources and zones to component lists, and its answers to say whether that map changed.
\<close>

datatype status_bar_zone = ZoneLeft | ZoneRight

record status_component =
  cmp_text :: rust_string
  cmp_style :: status_style
  cmp_click :: "status_click option"

record status_update =
  su_zone :: status_bar_zone
  su_source :: rust_string
  su_components :: "status_component list"

type_synonym status_store = "status_update list"

section \<open>Operations\<close>

definition store_clear :: "rust_string \<Rightarrow> status_bar_zone option \<Rightarrow> status_store \<Rightarrow> bool \<times> status_store" where
  "store_clear source zone entries =
     (let kept = filter (\<lambda>e. \<not> (su_source e = source \<and>
                    (case zone of Some z \<Rightarrow> z = su_zone e | None \<Rightarrow> True))) entries
      in (length kept \<noteq> length entries, kept))"

definition store_set :: "status_update \<Rightarrow> status_store \<Rightarrow> bool \<times> status_store" where
  "store_set update entries =
     (if su_source update = [] then (False, entries)
      else if su_components update = [] then store_clear (su_source update) (Some (su_zone update)) entries
      else case position (\<lambda>e. su_source e = su_source update \<and> su_zone e = su_zone update) entries of
        Some i \<Rightarrow> (if entries ! i = update then (False, entries) else (True, entries[i := update]))
      | None \<Rightarrow> (True, entries @ [update]))"

definition ui_component :: "rust_string \<Rightarrow> status_component \<Rightarrow> ui_status_component" where
  "ui_component source c =
     \<lparr>usc_source = source, usc_text = cmp_text c, usc_style = cmp_style c, usc_click = cmp_click c\<rparr>"

definition zone_components :: "status_bar_zone \<Rightarrow> status_store \<Rightarrow> ui_status_component list" where
  "zone_components zone entries =
     concat (map (\<lambda>e. if su_zone e = zone then map (ui_component (su_source e)) (su_components e) else []) entries)"

definition store_snapshot :: "status_store \<Rightarrow> ui_status_bar" where
  "store_snapshot entries =
     \<lparr>sb_left = zone_components ZoneLeft entries, sb_right = zone_components ZoneRight entries\<rparr>"

text \<open>\<open>Iterator::find_map\<close>.\<close>

fun find_map :: "('a \<Rightarrow> 'b option) \<Rightarrow> 'a list \<Rightarrow> 'b option" where
  "find_map f [] = None"
| "find_map f (x # xs) = or_else (f x) (find_map f xs)"

definition click_action :: "rust_string \<Rightarrow> rust_string \<Rightarrow> status_store \<Rightarrow> rust_string option" where
  "click_action source click_id entries =
     find_map (\<lambda>e. if su_source e \<noteq> source then None
       else find_map (\<lambda>c. case cmp_click c of
           Some k \<Rightarrow> (if sc_id k = click_id then sc_action k else None)
         | None \<Rightarrow> None) (su_components e)) entries"

definition osc_source_for_pane :: "u64 \<Rightarrow> rust_string" where
  "osc_source_for_pane pane_id = utf8_bytes (''pane:'' @ show_nat (unat pane_id) @ '':osc'')"

text \<open>A colour as red, green and blue.\<close>

definition status_colors :: "(str \<times> nat \<times> nat \<times> nat) list" where
  "status_colors =
     [(''black'', 0x00, 0x00, 0x00), (''red'', 0xcc, 0x24, 0x1d), (''green'', 0x98, 0xc3, 0x79),
      (''yellow'', 0xd7, 0xba, 0x7d), (''blue'', 0x61, 0xaf, 0xef), (''magenta'', 0xc6, 0x78, 0xdd),
      (''cyan'', 0x56, 0xb6, 0xc2), (''white'', 0xe5, 0xe5, 0xe5)]"

definition parse_status_color :: "str \<Rightarrow> (nat \<times> nat \<times> nat) option" where
  "parse_status_color raw =
     (let value = trim raw
      in case strip_prefix ''#'' value of
        Some hex \<Rightarrow>
          (if length hex = 6
           then map_option (\<lambda>rgb. (rgb div 65536 mod 256, rgb div 256 mod 256, rgb mod 256)) (parse_uint 16 32 hex)
           else None)
      | None \<Rightarrow> map_of status_colors (to_ascii_lowercase value))"

section \<open>The store as a map\<close>

type_synonym status_key = "rust_string \<times> status_bar_zone"

definition entry_key :: "status_update \<Rightarrow> status_key" where
  "entry_key e = (su_source e, su_zone e)"

definition store_map :: "status_store \<Rightarrow> status_key \<Rightarrow> status_component list option" where
  "store_map entries = map_of (map (\<lambda>e. (entry_key e, su_components e)) entries)"

definition store_wf :: "status_store \<Rightarrow> bool" where
  "store_wf entries \<longleftrightarrow> distinct (map entry_key entries) \<and>
     list_all (\<lambda>e. su_source e \<noteq> [] \<and> su_components e \<noteq> []) entries"

text \<open>The abstract operations.\<close>

definition spec_clear :: "rust_string \<Rightarrow> status_bar_zone option \<Rightarrow>
    (status_key \<Rightarrow> status_component list option) \<Rightarrow> status_key \<Rightarrow> status_component list option" where
  "spec_clear source zone m =
     (\<lambda>(s, z). if s = source \<and> (case zone of Some z' \<Rightarrow> z' = z | None \<Rightarrow> True) then None else m (s, z))"

definition spec_set :: "status_update \<Rightarrow>
    (status_key \<Rightarrow> status_component list option) \<Rightarrow> status_key \<Rightarrow> status_component list option" where
  "spec_set u m =
     (if su_source u = [] then m
      else m(entry_key u := (if su_components u = [] then None else Some (su_components u))))"

lemma store_map_None: "store_map entries k = None \<longleftrightarrow> k \<notin> entry_key ` set entries"
  by (auto simp: store_map_def map_of_eq_None_iff image_image)

lemma store_map_Some:
  "distinct (map entry_key entries) \<Longrightarrow> e \<in> set entries \<Longrightarrow> store_map entries (entry_key e) = Some (su_components e)"
  by (auto simp: store_map_def comp_def intro!: map_of_is_SomeI)

lemma store_map_filter:
  "store_map (filter (\<lambda>e. P (entry_key e)) entries) k = (if P k then store_map entries k else None)"
  by (induction entries) (auto simp: store_map_def)

lemma store_wf_filter: "store_wf entries \<Longrightarrow> store_wf (filter P entries)"
  by (auto simp: store_wf_def distinct_map_filter list_all_iff)

lemma store_clear_filter:
  "snd (store_clear source zone entries) =
     filter (\<lambda>e. (\<lambda>(s, z). \<not> (s = source \<and> (case zone of Some z' \<Rightarrow> z' = z | None \<Rightarrow> True))) (entry_key e)) entries"
  by (simp add: store_clear_def entry_key_def Let_def)

lemma store_clear_map: "store_map (snd (store_clear source zone entries)) = spec_clear source zone (store_map entries)"
  unfolding store_clear_filter store_map_filter spec_clear_def by (auto simp: fun_eq_iff)

lemma length_filter_neq: "length (filter P xs) \<noteq> length xs \<longleftrightarrow> (\<exists>x \<in> set xs. \<not> P x)"
  proof
  assume "length (filter P xs) \<noteq> length xs"
  then show "\<exists>x \<in> set xs. \<not> P x" by (metis filter_True)
qed (metis length_filter_less less_irrefl)

definition clear_hits :: "rust_string \<Rightarrow> status_bar_zone option \<Rightarrow> status_key \<Rightarrow> bool" where
  "clear_hits source zone k \<longleftrightarrow> fst k = source \<and> (case zone of Some z \<Rightarrow> z = snd k | None \<Rightarrow> True)"

lemma drop_keys_changes: "(\<lambda>k. if P k then None else m k) \<noteq> m \<longleftrightarrow> (\<exists>k. P k \<and> m k \<noteq> None)"
proof -
  have eq: "(\<lambda>k. if P k then None else m k) = m \<longleftrightarrow> (\<forall>k. P k \<longrightarrow> m k = None)"
    by (auto simp: fun_eq_iff dest: sym)
  show ?thesis unfolding eq by simp
qed

lemma spec_clear_hits: "spec_clear source zone m = (\<lambda>k. if clear_hits source zone k then None else m k)"
  by (simp add: spec_clear_def clear_hits_def fun_eq_iff split_beta)

lemma store_clear_answer:
  assumes "distinct (map entry_key entries)"
  shows "fst (store_clear source zone entries) \<longleftrightarrow> spec_clear source zone (store_map entries) \<noteq> store_map entries"
proof -
  have "fst (store_clear source zone entries) \<longleftrightarrow> (\<exists>e \<in> set entries. clear_hits source zone (entry_key e))"
    by (auto simp: store_clear_def Let_def length_filter_neq entry_key_def clear_hits_def split: option.splits)
  also have "\<dots> \<longleftrightarrow> (\<exists>k \<in> entry_key ` set entries. clear_hits source zone k)" by simp
  also have "\<dots> \<longleftrightarrow> (\<exists>k. clear_hits source zone k \<and> store_map entries k \<noteq> None)"
    by (simp only: store_map_None) blast
  also have "\<dots> \<longleftrightarrow> spec_clear source zone (store_map entries) \<noteq> store_map entries"
    by (simp only: spec_clear_hits drop_keys_changes)
  finally show ?thesis .
qed

datatype store_op = OpSet status_update | OpClear rust_string "status_bar_zone option"

fun store_step :: "store_op \<Rightarrow> status_store \<Rightarrow> bool \<times> status_store" where
  "store_step (OpSet u) s = store_set u s"
| "store_step (OpClear source zone) s = store_clear source zone s"

fun spec_step :: "store_op \<Rightarrow> (status_key \<Rightarrow> status_component list option) \<Rightarrow>
    bool \<times> (status_key \<Rightarrow> status_component list option)" where
  "spec_step (OpSet u) m = (spec_set u m \<noteq> m, spec_set u m)"
| "spec_step (OpClear source zone) m = (spec_clear source zone m \<noteq> m, spec_clear source zone m)"

lemma store_clear_refines:
  assumes "store_wf entries"
  shows "store_wf (snd (store_clear source zone entries))"
    and "(fst (store_clear source zone entries), store_map (snd (store_clear source zone entries)))
      = (spec_clear source zone (store_map entries) \<noteq> store_map entries, spec_clear source zone (store_map entries))"
proof -
  show "store_wf (snd (store_clear source zone entries))"
    using assms by (simp add: store_clear_filter store_wf_filter)
  have "distinct (map entry_key entries)" using assms by (simp add: store_wf_def)
  then show "(fst (store_clear source zone entries), store_map (snd (store_clear source zone entries)))
      = (spec_clear source zone (store_map entries) \<noteq> store_map entries, spec_clear source zone (store_map entries))"
    by (simp add: store_clear_map store_clear_answer)
qed

lemma spec_clear_key: "spec_clear (su_source u) (Some (su_zone u)) m = m(entry_key u := None)"
  by (auto simp: spec_clear_def entry_key_def fun_eq_iff)

lemma store_map_append: "store_map (xs @ ys) k = (case store_map xs k of Some v \<Rightarrow> Some v | None \<Rightarrow> store_map ys k)"
  by (simp add: store_map_def map_add_def split: option.splits)

lemma store_map_update:
  assumes "distinct (map entry_key es)" and "i < length es" and "entry_key (es ! i) = entry_key u"
  shows "store_map (es[i := u]) = (store_map es)(entry_key u \<mapsto> su_components u)"
  using assms
proof (induction es arbitrary: i)
  case Nil
  then show ?case by simp
next
  case (Cons e es)
  show ?case
  proof (cases i)
    case 0
    with Cons.prems show ?thesis by (simp add: store_map_def fun_eq_iff)
  next
    case (Suc j)
    with Cons.prems have "entry_key e \<noteq> entry_key u" by auto (metis nth_mem image_eqI)
    moreover have "store_map (es[j := u]) = (store_map es)(entry_key u \<mapsto> su_components u)"
      using Cons.prems Suc by (intro Cons.IH) simp_all
    moreover have "store_map (x # xs) = (store_map xs)(entry_key x \<mapsto> su_components x)" for x xs
      by (simp add: store_map_def)
    ultimately show ?thesis using Suc by (auto simp: fun_eq_iff simp del: split_paired_All)
  qed
qed

lemma store_set_refines:
  assumes "store_wf entries"
  shows "store_wf (snd (store_set u entries)) \<and> (fst (store_set u entries), store_map (snd (store_set u entries)))
      = (spec_set u (store_map entries) \<noteq> store_map entries, spec_set u (store_map entries))"
proof (cases "su_source u = [] \<or> su_components u = []")
  case True
  then show ?thesis
    using assms store_clear_refines [OF assms, of "su_source u" "Some (su_zone u)"]
    by (auto simp: store_set_def spec_set_def spec_clear_key)
next
  case False
  have wf: "distinct (map entry_key entries)" "\<forall>e \<in> set entries. su_source e \<noteq> [] \<and> su_components e \<noteq> []"
    using assms by (auto simp: store_wf_def list_all_iff)
  let ?pos = "position (\<lambda>e. su_source e = su_source u \<and> su_zone e = su_zone u) entries"
  show ?thesis
  proof (cases ?pos)
    case None
    then have new: "entry_key u \<notin> entry_key ` set entries"
      by (auto simp: position_None entry_key_def)
    then have "store_map entries (entry_key u) = None" by (simp add: store_map_None)
    moreover have "store_map (entries @ [u]) k = ((store_map entries)(entry_key u \<mapsto> su_components u)) k" for k
    proof -
      have "store_map [u] k = (if k = entry_key u then Some (su_components u) else None)"
        by (simp add: store_map_def)
      then show ?thesis using calculation by (cases "k = entry_key u") (simp_all add: store_map_append split: option.splits)
    qed
    then have "store_map (entries @ [u]) = (store_map entries)(entry_key u \<mapsto> su_components u)" by (rule ext)
    moreover have "(store_map entries)(entry_key u \<mapsto> su_components u) \<noteq> store_map entries"
      using calculation(1) by (metis fun_upd_same option.distinct(1))
    moreover have "store_wf (entries @ [u])"
      using False new wf by (auto simp: store_wf_def list_all_iff)
    ultimately show ?thesis using False None by (simp add: store_set_def spec_set_def)
  next
    case (Some i)
    then have i: "i < length entries" "entry_key (entries ! i) = entry_key u"
      using position_SomeD [OF Some] by (simp_all add: entry_key_def)
    have upd: "store_map (entries[i := u]) = (store_map entries)(entry_key u \<mapsto> su_components u)"
      by (rule store_map_update [OF wf(1) i])
    have look: "store_map entries (entry_key u) = Some (su_components (entries ! i))"
      using store_map_Some [OF wf(1), of "entries ! i"] i by simp
    have same: "entries ! i = u \<longleftrightarrow> su_components (entries ! i) = su_components u"
      using i(2) by (cases "entries ! i"; cases u) (auto simp: entry_key_def)
    have "map entry_key (entries[i := u]) = map entry_key entries"
      using i by (simp add: map_update list_update_same_conv)
    then have wf': "store_wf (entries[i := u])"
      using False wf by (auto simp: store_wf_def list_all_iff dest!: set_update_subset_insert [THEN subsetD])
    show ?thesis
    proof (cases "entries ! i = u")
      case True
      then have "(store_map entries)(entry_key u \<mapsto> su_components u) = store_map entries"
        using look by (simp add: fun_upd_idem)
      with True False Some assms show ?thesis by (simp add: store_set_def spec_set_def)
    next
      case new: False
      then have "(store_map entries)(entry_key u \<mapsto> su_components u) \<noteq> store_map entries"
        using look same by (metis fun_upd_same option.inject)
      with new False Some wf' upd show ?thesis by (simp add: store_set_def spec_set_def)
    qed
  qed
qed

interpretation store: refined_ops store_wf store_map store_step spec_step
proof
  fix s c
  assume wf: "store_wf s"
  show "store_wf (snd (store_step c s))"
    using store_set_refines [OF wf] store_clear_refines [OF wf] by (cases c) auto
  show "(fst (store_step c s), store_map (snd (store_step c s))) = spec_step c (store_map s)"
    using store_set_refines [OF wf] store_clear_refines [OF wf] by (cases c) auto
qed

text \<open>C26: The status store implements a map from sources and zones to component lists: after any
  sequence of updates and clearings its entries are exactly those of the map after the same
  operations, each call answers whether the map changed, and no two entries have the same source
  and zone and none is empty.\<close>

theorem status_store_refines:
  "store_wf (snd (run_ops store_step ops [])) \<and>
   (fst (run_ops store_step ops []), store_map (snd (run_ops store_step ops []))) = run_ops spec_step ops Map.empty"
  using store.run_refines [of "[]" ops] by (simp add: store_wf_def store_map_def)

text \<open>The bar shows each entry of the map in its zone; a click finds the action of the first component
  of the source with that identifier that has one.\<close>

lemma snapshot_shows_entries:
  "set (sb_left (store_snapshot entries)) \<union> set (sb_right (store_snapshot entries)) =
     {ui_component (su_source e) c | e c. e \<in> set entries \<and> c \<in> set (su_components e)}"
proof -
  have z: "set (zone_components z entries) =
      {ui_component (su_source e) c | e c. e \<in> set entries \<and> c \<in> set (su_components e) \<and> su_zone e = z}" for z
    by (auto simp: zone_components_def)
  show ?thesis
    unfolding store_snapshot_def ui_status_bar.simps z by (auto intro: status_bar_zone.exhaust)
qed

lemma find_map_Some: "find_map f xs = Some y \<Longrightarrow> \<exists>x \<in> set xs. f x = Some y"
  by (induction xs) (auto simp: or_else_def split: option.splits)

lemma click_action_sound:
  assumes "click_action source i entries = Some act"
  shows "\<exists>e \<in> set entries. \<exists>c \<in> set (su_components e). su_source e = source \<and>
    cmp_click c = Some \<lparr>sc_id = i, sc_action = Some act\<rparr>"
proof -
  from find_map_Some [OF assms [unfolded click_action_def]] obtain e where e: "e \<in> set entries" "su_source e = source"
    and f: "find_map (\<lambda>c. case cmp_click c of Some k \<Rightarrow> (if sc_id k = i then sc_action k else None) | None \<Rightarrow> None)
      (su_components e) = Some act"
    by (auto split: if_splits)
  from find_map_Some [OF f] obtain c k where "c \<in> set (su_components e)" "cmp_click c = Some k" "sc_id k = i" "sc_action k = Some act"
    by (auto split: option.splits if_splits)
  with e show ?thesis by (cases k) auto
qed

end
