(* ===== verification/ConfigFile.thy ===== *)
theory ConfigFile
  imports LayoutFile
begin

text \<open>
  The configuration (\<open>src/config.rs\<close>): the record of settings, the reader of a configuration file
  and the expansion of its includes. The one panic of the reader, slicing a colour inside a
  character, is the outer \<open>None\<close>. The table of key bindings is a map; the order in which a hash map is
  visited is an argument of what visits it.
\<close>

datatype config_cursor_style = CfgBlock | CfgBar | CfgUnderline

datatype window_decoration = DecorationNone | DecorationTitleBar

datatype notify_on_finish = NotifyNever | NotifyUnfocused | NotifyAlways

record notify_action =
  na_bell :: bool
  na_notify :: bool

type_synonym rgb_color = "u8 \<times> u8 \<times> u8"

definition DEFAULT_REMOTE_PORT :: nat where "DEFAULT_REMOTE_PORT = 7337"

record config =
  cf_prefix_key :: "str option"
  cf_control_socket :: "str option"
  cf_remote_host :: "str option"
  cf_remote_workdir :: "str option"
  cf_remote_socket :: "str option"
  cf_remote_binary :: "str option"
  cf_remote_prefer_nix :: bool
  cf_remote_port :: "nat option"
  cf_remote_bind_address :: "str option"
  cf_keybinds :: "str \<Rightarrow> str option"
  cf_font_families :: "str list"
  cf_font_size :: "f64v option"
  cf_sync_to_monitor :: bool
  cf_window_decoration :: window_decoration
  cf_background_opacity :: "f64v option"
  cf_background_opacity_cells :: bool
  cf_foreground :: "rgb_color option"
  cf_background :: "rgb_color option"
  cf_palette :: "rgb_color option list"
  cf_cursor_color :: "rgb_color option"
  cf_selection_background :: "rgb_color option"
  cf_selection_foreground :: "rgb_color option"
  cf_cursor_text_color :: "rgb_color option"
  cf_url_color :: "rgb_color option"
  cf_active_tab_foreground :: "rgb_color option"
  cf_active_tab_background :: "rgb_color option"
  cf_inactive_tab_foreground :: "rgb_color option"
  cf_inactive_tab_background :: "rgb_color option"
  cf_cursor_style :: "config_cursor_style option"
  cf_cursor_blink :: bool
  cf_cursor_blink_interval_ns :: nat
  cf_desktop_notifications :: bool
  cf_notify_on_finish :: notify_on_finish
  cf_notify_action :: notify_action
  cf_notify_after_ns :: nat

definition config_default :: config where
  "config_default =
     \<lparr>cf_prefix_key = None, cf_control_socket = None, cf_remote_host = None, cf_remote_workdir = None,
      cf_remote_socket = None, cf_remote_binary = None, cf_remote_prefer_nix = False,
      cf_remote_port = Some DEFAULT_REMOTE_PORT, cf_remote_bind_address = None, cf_keybinds = Map.empty,
      cf_font_families = [], cf_font_size = None, cf_sync_to_monitor = True,
      cf_window_decoration = DecorationNone, cf_background_opacity = None,
      cf_background_opacity_cells = False, cf_foreground = None, cf_background = None,
      cf_palette = replicate 16 None, cf_cursor_color = None, cf_selection_background = None,
      cf_selection_foreground = None, cf_cursor_text_color = None, cf_url_color = None,
      cf_active_tab_foreground = None, cf_active_tab_background = None,
      cf_inactive_tab_foreground = None, cf_inactive_tab_background = None, cf_cursor_style = None,
      cf_cursor_blink = True, cf_cursor_blink_interval_ns = 600000000,
      cf_desktop_notifications = True, cf_notify_on_finish = NotifyNever,
      cf_notify_action = \<lparr>na_bell = True, na_notify = False\<rparr>,
      cf_notify_after_ns = 5 * 1000000000\<rparr>"

section \<open>Values\<close>

definition strip_around :: "char \<Rightarrow> str \<Rightarrow> str option" where
  "strip_around q value = Option.bind (strip_prefix [q] value) (strip_suffix [q])"

definition strip_quotes :: "str \<Rightarrow> str" where
  "strip_quotes value =
     (case strip_around (CHR 0x22) value of Some v \<Rightarrow> v
      | None \<Rightarrow> (case strip_around (CHR 0x27) value of Some v \<Rightarrow> v | None \<Rightarrow> value))"

definition parse_bool :: "str \<Rightarrow> bool option" where
  "parse_bool value =
     (let v = to_ascii_lowercase (trim value)
      in if v \<in> {''true'', ''yes'', ''on'', ''1''} then Some True
         else if v \<in> {''false'', ''no'', ''off'', ''0''} then Some False else None)"

definition bool_or :: "bool \<Rightarrow> str \<Rightarrow> bool" where
  "bool_or d value = (case parse_bool value of Some b \<Rightarrow> b | None \<Rightarrow> d)"

text \<open>Slicing a text at byte positions: a position inside a character is a panic.\<close>

definition is_char_boundary :: "str \<Rightarrow> nat \<Rightarrow> bool" where
  "is_char_boundary s i \<longleftrightarrow> i = 0 \<or> i = length s \<or> (i < length s \<and> byte (s ! i) div 64 \<noteq> 2)"

definition str_slice :: "str \<Rightarrow> nat \<Rightarrow> nat \<Rightarrow> str option" where
  "str_slice s a b =
     (if a \<le> b \<and> b \<le> length s \<and> is_char_boundary s a \<and> is_char_boundary s b
      then Some (take (b - a) (drop a s)) else None)"

definition hex_byte :: "str \<Rightarrow> nat \<Rightarrow> nat option option" where
  "hex_byte hex i = map_option (parse_uint 16 8) (str_slice hex i (i + 2))"

definition parse_rgb_color :: "str \<Rightarrow> rgb_color option option" where
  "parse_rgb_color value =
     (case strip_prefix ''#'' (trim value) of
        None \<Rightarrow> Some None
      | Some hex \<Rightarrow>
          if length hex \<noteq> 6 then Some None
          else case hex_byte hex 0 of None \<Rightarrow> None | Some None \<Rightarrow> Some None
          | Some (Some r) \<Rightarrow>
            (case hex_byte hex 2 of None \<Rightarrow> None | Some None \<Rightarrow> Some None
             | Some (Some g) \<Rightarrow>
               (case hex_byte hex 4 of None \<Rightarrow> None | Some None \<Rightarrow> Some None
                | Some (Some b) \<Rightarrow> Some (Some (of_nat r, of_nat g, of_nat b)))))"

definition parse_palette_key :: "str \<Rightarrow> nat option" where
  "parse_palette_key key =
     Option.bind (strip_prefix ''color'' key) (\<lambda>suffix.
       Option.bind (parse_uint 10 64 suffix) (\<lambda>i. if i < 16 then Some i else None))"

definition parse_cursor_style :: "str \<Rightarrow> config_cursor_style option" where
  "parse_cursor_style value =
     (let v = to_ascii_lowercase (trim value)
      in if v = ''block'' then Some CfgBlock
         else if v = ''bar'' \<or> v = ''beam'' then Some CfgBar
         else if v = ''underline'' then Some CfgUnderline else None)"

definition parse_window_decoration :: "str \<Rightarrow> window_decoration option" where
  "parse_window_decoration value =
     (let v = to_ascii_lowercase (trim value)
      in if v = ''none'' then Some DecorationNone
         else if v \<in> {''titlebar'', ''title-bar'', ''native'', ''system''} then Some DecorationTitleBar
         else None)"

definition notify_entry :: "str \<Rightarrow> notify_action \<Rightarrow> notify_action" where
  "notify_entry entry a =
     (if entry = ''bell'' then a\<lparr>na_bell := True\<rparr>
      else if entry = ''no-bell'' then a\<lparr>na_bell := False\<rparr>
      else if entry = ''notify'' then a\<lparr>na_notify := True\<rparr>
      else if entry = ''no-notify'' then a\<lparr>na_notify := False\<rparr> else a)"

definition parse_notify_action :: "str \<Rightarrow> notify_action" where
  "parse_notify_action value =
     fold notify_entry (filter (\<lambda>e. e \<noteq> []) (map trim (split_on (CHR '','') value)))
       \<lparr>na_bell = True, na_notify = False\<rparr>"

definition duration_unit :: "str \<Rightarrow> nat option" where
  "duration_unit u =
     (if u = ''h'' then Some 3600000000000 else if u = ''m'' then Some 60000000000
      else if u = ''s'' then Some 1000000000 else if u = ''ms'' then Some 1000000
      else if u = ''us'' then Some 1000 else if u = ''ns'' then Some 1 else None)"

definition checked_u64 :: "nat \<Rightarrow> nat option" where
  "checked_u64 n = (if n < 2 ^ 64 then Some n else None)"

function duration_parts :: "nat \<Rightarrow> str \<Rightarrow> nat option" where
  "duration_parts acc s =
     (let s1 = dropWhile is_ascii_whitespace s;
          ds = takeWhile is_ascii_digit s1;
          s2 = dropWhile is_ascii_digit s1;
          unit = takeWhile is_ascii_alphabetic s2
      in if s1 = [] then Some acc
         else if ds = [] then None
         else case parse_uint 10 64 ds of None \<Rightarrow> None
         | Some number \<Rightarrow>
           (case duration_unit unit of None \<Rightarrow> None
            | Some multiplier \<Rightarrow>
              (case checked_u64 (number * multiplier) of None \<Rightarrow> None
               | Some part \<Rightarrow>
                 (case checked_u64 (acc + part) of None \<Rightarrow> None
                  | Some acc' \<Rightarrow> duration_parts acc' (dropWhile is_ascii_alphabetic s2)))))"
  by pat_completeness auto
termination
proof (relation "measure (\<lambda>(acc, s). length s)", simp)
  fix acc :: nat and s s1 ds s2 unit :: str and number multiplier part acc'
  assume eqs: "s1 = dropWhile is_ascii_whitespace s" "ds = takeWhile is_ascii_digit s1"
    "s2 = dropWhile is_ascii_digit s1" and ds: "ds \<noteq> []"
  have "length ds + length s2 = length s1"
    using eqs by (metis length_append takeWhile_dropWhile_id)
  then have "length s2 < length s1" using ds by (cases ds) auto
  moreover have "length s1 \<le> length s" using eqs by (simp add: length_dropWhile_le)
  moreover have "length (dropWhile is_ascii_alphabetic s2) \<le> length s2" by (rule length_dropWhile_le)
  ultimately show "((acc', dropWhile is_ascii_alphabetic s2), acc, s) \<in> measure (\<lambda>(acc, s). length s)"
    by simp
qed

declare duration_parts.simps [simp del]

definition parse_duration_ns :: "str \<Rightarrow> nat option" where
  "parse_duration_ns value = duration_parts 0 value"

definition f64v_max1 :: "f64v \<Rightarrow> f64v" where
  "f64v_max1 v = (case v of Num x \<Rightarrow> Num (max x 1) | PosInf \<Rightarrow> PosInf | NegInf \<Rightarrow> Num 1 | NotANumber \<Rightarrow> Num 1)"

definition f64v_clamp01 :: "f64v \<Rightarrow> f64v" where
  "f64v_clamp01 v =
     (case v of Num x \<Rightarrow> Num (f64_clamp x 0 1) | PosInf \<Rightarrow> Num 1 | NegInf \<Rightarrow> Num 0 | NotANumber \<Rightarrow> NotANumber)"

section \<open>Reading a file\<close>

text \<open>Settings whose value is a colour, under both spellings of their keys.\<close>

definition color_key :: "str \<Rightarrow> ((rgb_color option \<Rightarrow> rgb_color option) \<Rightarrow> config \<Rightarrow> config) option" where
  "color_key key =
     (if key = ''foreground'' then Some cf_foreground_update
      else if key = ''background'' then Some cf_background_update
      else if key \<in> {''cursor'', ''cursor-color''} then Some cf_cursor_color_update
      else if key \<in> {''cursor_text_color'', ''cursor-text-color''} then Some cf_cursor_text_color_update
      else if key \<in> {''selection_background'', ''selection-background''} then Some cf_selection_background_update
      else if key \<in> {''selection_foreground'', ''selection-foreground''} then Some cf_selection_foreground_update
      else if key \<in> {''url_color'', ''url-color''} then Some cf_url_color_update
      else if key \<in> {''active_tab_foreground'', ''active-tab-foreground''} then Some cf_active_tab_foreground_update
      else if key \<in> {''active_tab_background'', ''active-tab-background''} then Some cf_active_tab_background_update
      else if key \<in> {''inactive_tab_foreground'', ''inactive-tab-foreground''} then Some cf_inactive_tab_foreground_update
      else if key \<in> {''inactive_tab_background'', ''inactive-tab-background''} then Some cf_inactive_tab_background_update
      else None)"

text \<open>Settings that are texts and are left alone by an empty value.\<close>

definition text_key :: "str \<Rightarrow> ((str option \<Rightarrow> str option) \<Rightarrow> config \<Rightarrow> config) option" where
  "text_key key =
     (if key = ''remote-host'' then Some cf_remote_host_update
      else if key = ''remote-workdir'' then Some cf_remote_workdir_update
      else if key = ''remote-socket'' then Some cf_remote_socket_update
      else if key = ''remote-binary'' then Some cf_remote_binary_update
      else if key = ''remote-bind-address'' then Some cf_remote_bind_address_update
      else None)"

text \<open>The other settings that no value makes panic, up to the key bindings.\<close>

definition plain_setting :: "str \<Rightarrow> str \<Rightarrow> config \<Rightarrow> config option" where
  "plain_setting key value c =
     (if key = ''prefix-key'' then Some (c\<lparr>cf_prefix_key := Some value\<rparr>)
      else if key = ''control-socket'' then Some (c\<lparr>cf_control_socket := Some value\<rparr>)
      else if key = ''remote-prefer-nix-profile-binary'' then Some (c\<lparr>cf_remote_prefer_nix := bool_or False value\<rparr>)
      else if key = ''remote-port''
      then Some (case parse_uint 10 16 value of Some port \<Rightarrow> c\<lparr>cf_remote_port := Some port\<rparr> | None \<Rightarrow> c)
      else if key = ''font-family''
      then Some (c\<lparr>cf_font_families := (if value = [] then [] else cf_font_families c @ [value])\<rparr>)
      else if key = ''font-size''
      then Some (case parse_f64 value of Some sz \<Rightarrow> c\<lparr>cf_font_size := Some (f64v_max1 sz)\<rparr> | None \<Rightarrow> c)
      else if key = ''sync-to-monitor'' then Some (c\<lparr>cf_sync_to_monitor := bool_or True value\<rparr>)
      else if key = ''window-decoration''
      then Some (case parse_window_decoration value of Some d \<Rightarrow> c\<lparr>cf_window_decoration := d\<rparr> | None \<Rightarrow> c)
      else if key = ''background-opacity''
      then Some (case parse_f64 value of Some x \<Rightarrow> c\<lparr>cf_background_opacity := Some (f64v_clamp01 x)\<rparr> | None \<Rightarrow> c)
      else if key = ''background-opacity-cells'' then Some (c\<lparr>cf_background_opacity_cells := bool_or False value\<rparr>)
      else if key = ''cursor-style'' then Some (c\<lparr>cf_cursor_style := parse_cursor_style value\<rparr>)
      else if key = ''cursor-blink'' then Some (c\<lparr>cf_cursor_blink := bool_or True value\<rparr>)
      else if key = ''cursor-blink-interval''
      then Some (case parse_duration_ns value of Some d \<Rightarrow> c\<lparr>cf_cursor_blink_interval_ns := d\<rparr> | None \<Rightarrow> c)
      else if key = ''desktop-notifications'' then Some (c\<lparr>cf_desktop_notifications := bool_or True value\<rparr>)
      else if key = ''notify-on-command-finish''
      then Some (c\<lparr>cf_notify_on_finish := (if value = ''unfocused'' then NotifyUnfocused
             else if value = ''always'' then NotifyAlways else NotifyNever)\<rparr>)
      else if key = ''notify-on-command-finish-action''
      then Some (c\<lparr>cf_notify_action := parse_notify_action value\<rparr>)
      else if key = ''notify-on-command-finish-after''
      then Some (case parse_duration_ns value of Some d \<Rightarrow> c\<lparr>cf_notify_after_ns := d\<rparr> | None \<Rightarrow> c)
      else if key = ''keybind''
      then Some (case split_once (CHR ''='') value of
             Some (bind_key, action) \<Rightarrow>
               c\<lparr>cf_keybinds := (cf_keybinds c)(strip_quotes (trim bind_key) \<mapsto> strip_quotes (trim action))\<rparr>
           | None \<Rightarrow> c)
      else None)"

definition config_setting :: "str \<Rightarrow> str \<Rightarrow> config \<Rightarrow> config option" where
  "config_setting key value c =
     (case plain_setting key value c of Some c' \<Rightarrow> Some c'
      | None \<Rightarrow>
     (case text_key key of Some upd \<Rightarrow> Some (if value \<noteq> [] then upd (\<lambda>_. Some value) c else c)
      | None \<Rightarrow>
     (case color_key key of Some upd \<Rightarrow> map_option (\<lambda>rgb. upd (\<lambda>_. rgb) c) (parse_rgb_color value)
      | None \<Rightarrow>
     (case parse_palette_key key of
        Some i \<Rightarrow> map_option (\<lambda>rgb. c\<lparr>cf_palette := (cf_palette c)[i := rgb]\<rparr>) (parse_rgb_color value)
      | None \<Rightarrow> Some c))))"

definition config_line :: "str \<Rightarrow> config \<Rightarrow> config option" where
  "config_line raw c =
     (let line = trim raw
      in if line = [] \<or> starts_with ''#'' line then Some c
         else case split_once (CHR ''='') line of
           None \<Rightarrow> Some c
         | Some (key, value) \<Rightarrow> config_setting (trim key) (strip_quotes (trim value)) c)"

fun config_lines :: "str list \<Rightarrow> config \<Rightarrow> config option" where
  "config_lines [] c = Some c"
| "config_lines (l # ls) c = Option.bind (config_line l c) (config_lines ls)"

definition parse_config :: "str \<Rightarrow> config option" where
  "parse_config content = config_lines (text_lines content) config_default"

section \<open>Includes\<close>

text \<open>The file system: the canonical form of a path, if there is one, and the files that can be read,
  by their canonical paths. The directory of a canonical path ends at its last slash.\<close>

record config_fs =
  fs_canonical :: "str \<Rightarrow> str option"
  fs_files :: "(str \<times> str) list"

definition path_parent :: "str \<Rightarrow> str" where
  "path_parent p =
     (let d = rev (dropWhile (\<lambda>c. c \<noteq> CHR ''/'') (rev p))
      in if d = [] then [] else if length d = 1 then (if length p = 1 then ''.'' else d) else butlast d)"

definition path_join :: "str \<Rightarrow> str \<Rightarrow> str" where
  "path_join base p =
     (if starts_with ''/'' p then p
      else if base = [] \<or> last base = CHR ''/'' then base @ p else base @ ''/'' @ p)"

definition canonical_or_self :: "config_fs \<Rightarrow> str \<Rightarrow> str" where
  "canonical_or_self fs p = (case fs_canonical fs p of Some c \<Rightarrow> c | None \<Rightarrow> p)"

definition unread_files :: "config_fs \<Rightarrow> str list \<Rightarrow> nat" where
  "unread_files fs visited = card (fst ` set (fs_files fs) - set visited)"

lemma unread_files_Cons:
  assumes "map_of (fs_files fs) p = Some content" and "p \<notin> set visited"
  shows "unread_files fs (p # visited) < unread_files fs visited"
proof -
  have "p \<in> fst ` set (fs_files fs) - set visited"
    using assms by (auto dest: map_of_SomeD intro: rev_image_eqI)
  moreover have "fst ` set (fs_files fs) - set (p # visited) = fst ` set (fs_files fs) - set visited - {p}" by auto
  ultimately show ?thesis unfolding unread_files_def
    by (metis card_Diff1_less finite_Diff finite_imageI finite_set)
qed

lemma unread_files_append: "unread_files fs (new @ visited) \<le> unread_files fs visited"
  unfolding unread_files_def by (intro card_mono) auto

definition ensure_newline :: "str \<Rightarrow> str" where
  "ensure_newline s = (if s \<noteq> [] \<and> last s = nl then s else s @ [nl])"

text \<open>Expanding a file and the lines of a file. The set of visited files is passed in; what comes back
  with the result are the files visited in addition. \<open>None\<close> is the error of a file that cannot be read.\<close>

function (sequential) load_with_includes :: "config_fs \<Rightarrow> str \<Rightarrow> str list \<Rightarrow> str option \<times> str list"
  and expand_lines :: "config_fs \<Rightarrow> str \<Rightarrow> str list \<Rightarrow> str \<Rightarrow> str list \<Rightarrow> str option \<times> str list" where
  "load_with_includes fs path visited =
     (let canonical = canonical_or_self fs path
      in if canonical \<in> set visited then (Some [], [])
         else case map_of (fs_files fs) canonical of
           None \<Rightarrow> (None, [canonical])
         | Some content \<Rightarrow>
             (let (r, new) = expand_lines fs (path_parent canonical) (text_lines content) [] (canonical # visited)
              in (r, new @ [canonical])))"
| "expand_lines fs base_dir [] expanded visited = (Some expanded, [])"
| "expand_lines fs base_dir (line # ls) expanded visited =
     (case strip_prefix ''include '' (trim line) of
        Some rest \<Rightarrow>
          (case load_with_includes fs (path_join base_dir (strip_quotes (trim rest))) visited of
             (None, new) \<Rightarrow> (None, new)
           | (Some body, new) \<Rightarrow>
               (let (r, new') = expand_lines fs base_dir ls (ensure_newline (expanded @ body)) (new @ visited)
                in (r, new' @ new)))
      | None \<Rightarrow> expand_lines fs base_dir ls (expanded @ line @ [nl]) visited)"
  by pat_completeness auto
termination
proof (relation "measures [\<lambda>x. case x of Inl (fs, path, visited) \<Rightarrow> unread_files fs visited
      | Inr (fs, base_dir, ls, expanded, visited) \<Rightarrow> unread_files fs visited,
    \<lambda>x. case x of Inl _ \<Rightarrow> 0 | Inr (fs, base_dir, ls, expanded, visited) \<Rightarrow> length ls]",
    goal_cases)
  case (2 fs path visited canonical content)
  then show ?case using unread_files_Cons [of fs canonical content visited] by simp
qed (auto simp: le_neq_implies_less unread_files_append)

declare load_with_includes.simps [simp del]

definition load_config :: "config_fs \<Rightarrow> str \<Rightarrow> bool \<Rightarrow> config option" where
  "load_config fs path exists =
     (if \<not> exists then Some config_default
      else case fst (load_with_includes fs path []) of
        None \<Rightarrow> Some config_default
      | Some content \<Rightarrow> parse_config content)"

end
