(* ===== verification/ConfigProps.thy ===== *)
theory ConfigProps
  imports ConfigFile
begin

text \<open>
  Properties of the configuration reader: it cannot panic on ASCII, it does panic on a colour that
  is cut inside a character, includes are expanded once each even when files include each other,
  and durations are read exactly or rejected.
\<close>

section \<open>The parts of a text\<close>

lemma strip_any_subset: "strip_any ps s = Some r \<Longrightarrow> set r \<subseteq> set s"
  by (auto dest!: strip_any_SomeD)

lemma trim_start_subset: "set (trim_start s) \<subseteq> set s"
proof (induction s rule: trim_start.induct)
  case (1 s)
  then show ?case
    using strip_any_subset [of ws_chars s]
    by (subst trim_start.simps) (fastforce split: option.splits)
qed

lemma trim_rev_subset: "set (trim_rev s) \<subseteq> set s"
proof (induction s rule: trim_rev.induct)
  case (1 s)
  then show ?case
    using strip_any_subset [of "map rev ws_chars" s]
    by (subst trim_rev.simps) (fastforce split: option.splits)
qed

lemma trim_subset: "set (trim s) \<subseteq> set s"
  using trim_start_subset [of s] trim_rev_subset [of "rev (trim_start s)"]
  by (auto simp: trim_def trim_end_def)

lemma strip_cr_subset: "set (strip_cr s) \<subseteq> set s"
  by (auto simp: strip_cr_def strip_suffix_iff split: option.splits)

lemma text_lines_subset: "l \<in> set (text_lines s) \<Longrightarrow> set l \<subseteq> set s"
proof (induction s rule: text_lines.induct)
  case (1 s)
  show ?case
  proof (cases "split_once nl s")
    case None
    with 1(2) show ?thesis by (subst (asm) text_lines.simps) (auto split: if_splits)
  next
    case (Some lr)
    obtain a b where lr: "lr = (a, b)" by (cases lr)
    with Some have s: "s = a @ nl # b" by (simp add: split_once_iff)
    from 1(2) Some lr have "l = strip_cr a \<or> l \<in> set (text_lines b)" by (subst (asm) text_lines.simps) auto
    then show ?thesis
      using 1(1) [OF Some lr [symmetric]] strip_cr_subset [of a] s by auto
  qed
qed

lemma strip_quotes_subset: "set (strip_quotes v) \<subseteq> set v"
  by (auto simp: strip_quotes_def strip_around_def bind_eq_Some_conv strip_prefix_iff strip_suffix_iff
      split: option.splits)

section \<open>Panics\<close>

definition is_ascii :: "str \<Rightarrow> bool" where
  "is_ascii s \<longleftrightarrow> (\<forall>c \<in> set s. byte c < 128)"

lemma is_ascii_subset: "is_ascii s \<Longrightarrow> set t \<subseteq> set s \<Longrightarrow> is_ascii t"
  by (auto simp: is_ascii_def)

lemma ascii_boundary: "is_ascii s \<Longrightarrow> i \<le> length s \<Longrightarrow> is_char_boundary s i"
proof -
  assume a: "is_ascii s" "i \<le> length s"
  have "byte (s ! i) div 64 \<noteq> 2" if "i < length s"
  proof -
    have "byte (s ! i) < 128" using a(1) that by (simp add: is_ascii_def)
    then show ?thesis by auto
  qed
  with a show ?thesis by (auto simp: is_char_boundary_def)
qed

lemma ascii_hex_byte: "is_ascii hex \<Longrightarrow> i + 2 \<le> length hex \<Longrightarrow> hex_byte hex i \<noteq> None"
  by (simp add: hex_byte_def str_slice_def ascii_boundary)

lemma ascii_color: "is_ascii v \<Longrightarrow> parse_rgb_color v \<noteq> None"
proof -
  assume a: "is_ascii v"
  show ?thesis
  proof (cases "strip_prefix ''#'' (trim v)")
    case None
    then show ?thesis by (simp add: parse_rgb_color_def)
  next
    case (Some hex)
    then have "set hex \<subseteq> set v" using trim_subset [of v] by (auto simp: strip_prefix_iff)
    with a have "is_ascii hex" by (rule is_ascii_subset)
    then show ?thesis
      using Some ascii_hex_byte [of hex 0] ascii_hex_byte [of hex 2] ascii_hex_byte [of hex 4]
      by (simp add: parse_rgb_color_def split: option.splits) auto
  qed
qed

lemma ascii_setting: "is_ascii v \<Longrightarrow> config_setting key v c \<noteq> None"
  using ascii_color [of v] by (auto simp: config_setting_def split: option.splits)

lemma ascii_line: "is_ascii l \<Longrightarrow> config_line l c \<noteq> None"
proof -
  assume l: "is_ascii l"
  have "is_ascii (strip_quotes (trim v))" if "split_once (CHR ''='') (trim l) = Some (key, v)" for key v
  proof -
    have "set v \<subseteq> set l" using that trim_subset [of l] by (auto simp: split_once_iff)
    with strip_quotes_subset [of "trim v"] trim_subset [of v]
    have "set (strip_quotes (trim v)) \<subseteq> set l" by blast
    with l show ?thesis by (rule is_ascii_subset)
  qed
  then have "config_setting (trim key) (strip_quotes (trim v)) c \<noteq> None"
    if "split_once (CHR ''='') (trim l) = Some (key, v)" for key v
    using that ascii_setting by blast
  then show ?thesis by (fastforce simp: config_line_def Let_def split: option.splits)
qed

lemma ascii_lines: "list_all is_ascii ls \<Longrightarrow> config_lines ls c \<noteq> None"
proof (induction ls arbitrary: c)
  case (Cons l ls)
  then show ?case using ascii_line [of l c] by auto
qed simp

text \<open>A configuration file in ASCII is always read: no setting of it makes the reader panic, and
  unknown keys and malformed values are passed over.\<close>

theorem ascii_config_reads:
  assumes "is_ascii content"
  shows "\<exists>c. parse_config content = Some c"
proof -
  have "list_all is_ascii (text_lines content)"
    using assms text_lines_subset is_ascii_subset by (fastforce simp: list_all_iff)
  then show ?thesis using ascii_lines by (auto simp: parse_config_def)
qed

theorem ascii_config_reads_witness: "\<exists>c. parse_config ''foreground = #12'' = Some c"
  by (rule ascii_config_reads) (simp add: is_ascii_def)

text \<open>A colour of six bytes with a two-byte character across the second byte position stops the
  program: the reader slices inside the character. Any other two bytes around it do the same.\<close>

theorem split_character_panics:
  assumes "byte (hex ! 2) div 64 = 2" and "length hex = 6" and "trimmed (CHR ''#'' # hex)"
  shows "parse_rgb_color (CHR ''#'' # hex) = None
    \<and> config_setting ''foreground'' (CHR ''#'' # hex) c = None"
proof -
  have "hex_byte hex 0 = None"
    using assms(1,2) by (simp add: hex_byte_def str_slice_def is_char_boundary_def numeral_2_eq_2)
  then have "parse_rgb_color (CHR ''#'' # hex) = None"
    using assms(2) trim_trimmed [OF assms(3)] by (simp add: parse_rgb_color_def)
  then show ?thesis by (simp add: config_setting_def plain_setting_def text_key_def color_key_def)
qed

theorem split_character_panics_witness:
  "config_setting ''foreground'' [CHR ''#'', CHR ''a'', CHR 0xC3, CHR 0xA9, CHR ''a'', CHR ''a'', CHR ''a''] config_default = None"
  using split_character_panics [of "[CHR ''a'', CHR 0xC3, CHR 0xA9, CHR ''a'', CHR ''a'', CHR ''a'']" config_default]
  by (simp add: trimmed_graphic graphic_def)

section \<open>Includes\<close>

lemma include_visits:
  "distinct (snd (load_with_includes fs path visited)) \<and>
     set (snd (load_with_includes fs path visited)) \<inter> set visited = {}"
  "distinct (snd (expand_lines fs base_dir ls expanded visited)) \<and>
     set (snd (expand_lines fs base_dir ls expanded visited)) \<inter> set visited = {}"
proof (induction fs path visited and fs base_dir ls expanded visited rule: load_with_includes_expand_lines.induct)
  case (1 fs path visited)
  let ?c = "canonical_or_self fs path"
  show ?case
  proof (cases "?c \<in> set visited \<or> map_of (fs_files fs) ?c = None")
    case True
    then show ?thesis by (auto simp: Let_def load_with_includes.simps)
  next
    case False
    then obtain content where c: "?c \<notin> set visited" "map_of (fs_files fs) ?c = Some content" by auto
    from 1 [OF refl c] c show ?thesis by (auto simp: split_beta load_with_includes.simps Let_def)
  qed
next
  case (2 fs base_dir expanded visited)
  then show ?case by simp
next
  case (3 fs base_dir line ls expanded visited)
  show ?case
  proof (cases "strip_prefix ''include '' (trim line)")
    case None
    with 3(1) [OF None] show ?thesis by simp
  next
    case (Some rest)
    let ?p = "path_join base_dir (strip_quotes (trim rest))"
    obtain body new where load: "load_with_includes fs ?p visited = (body, new)"
      by (cases "load_with_includes fs ?p visited")
    then have new: "distinct new \<and> set new \<inter> set visited = {}" using 3(2) [OF Some] by simp
    show ?thesis
    proof (cases body)
      case None
      with new show ?thesis by (simp add: Some load)
    next
      case body: (Some b)
      obtain r new' where rest: "expand_lines fs base_dir ls (ensure_newline (expanded @ b)) (new @ visited) = (r, new')"
        by (cases "expand_lines fs base_dir ls (ensure_newline (expanded @ b)) (new @ visited)")
      then have "distinct new' \<and> set new' \<inter> set (new @ visited) = {}"
        using 3(3) [OF Some load [symmetric] body] by simp
      with new show ?thesis by (auto simp: Some load body rest)
    qed
  qed
qed

text \<open>A file system in which every include of a file names a file that can be read.\<close>

definition includes_resolve :: "config_fs \<Rightarrow> bool" where
  "includes_resolve fs \<longleftrightarrow> (\<forall>(p, content) \<in> set (fs_files fs). \<forall>l \<in> set (text_lines content). \<forall>rest.
     strip_prefix ''include '' (trim l) = Some rest \<longrightarrow>
     map_of (fs_files fs) (canonical_or_self fs (path_join (path_parent p) (strip_quotes (trim rest)))) \<noteq> None)"

lemma includes_succeed:
  "includes_resolve fs \<Longrightarrow> map_of (fs_files fs) (canonical_or_self fs path) \<noteq> None \<Longrightarrow>
     (\<exists>s. fst (load_with_includes fs path visited) = Some s) \<and>
     set (snd (load_with_includes fs path visited)) \<subseteq> dom (map_of (fs_files fs))"
  "includes_resolve fs \<Longrightarrow> (\<forall>l \<in> set ls. \<forall>rest. strip_prefix ''include '' (trim l) = Some rest \<longrightarrow>
       map_of (fs_files fs) (canonical_or_self fs (path_join base_dir (strip_quotes (trim rest)))) \<noteq> None) \<Longrightarrow>
     (\<exists>s. fst (expand_lines fs base_dir ls expanded visited) = Some s) \<and>
     set (snd (expand_lines fs base_dir ls expanded visited)) \<subseteq> dom (map_of (fs_files fs))"
proof (induction fs path visited and fs base_dir ls expanded visited rule: load_with_includes_expand_lines.induct)
  case (1 fs path visited)
  let ?c = "canonical_or_self fs path"
  obtain content where content: "map_of (fs_files fs) ?c = Some content" using 1(3) by auto
  show ?case
  proof (cases "?c \<in> set visited")
    case True
    then show ?thesis by (simp add: load_with_includes.simps)
  next
    case False
    have res: "\<forall>l \<in> set (text_lines content). \<forall>rest. strip_prefix ''include '' (trim l) = Some rest \<longrightarrow>
        map_of (fs_files fs) (canonical_or_self fs (path_join (path_parent ?c) (strip_quotes (trim rest)))) \<noteq> None"
      using 1(2) map_of_SomeD [OF content] unfolding includes_resolve_def by fastforce
    from 1(1) [OF refl False content 1(2) res] False content show ?thesis
      by (auto simp: load_with_includes.simps Let_def split: prod.splits)
  qed
next
  case (2 fs base_dir expanded visited)
  then show ?case by simp
next
  case (3 fs base_dir line ls expanded visited)
  show ?case
  proof (cases "strip_prefix ''include '' (trim line)")
    case None
    with 3 show ?thesis by simp
  next
    case (Some rest)
    let ?p = "path_join base_dir (strip_quotes (trim rest))"
    have "map_of (fs_files fs) (canonical_or_self fs ?p) \<noteq> None" using 3(5) Some by simp
    from 3(2) [OF Some 3(4) this] obtain body new where
      load: "load_with_includes fs ?p visited = (Some body, new)" and new: "set new \<subseteq> dom (map_of (fs_files fs))"
      by (cases "load_with_includes fs ?p visited") auto
    from 3(3) [OF Some load [symmetric] refl 3(4)] 3(5) obtain r new' where
      rest: "expand_lines fs base_dir ls (ensure_newline (expanded @ body)) (new @ visited) = (Some r, new')"
      and "set new' \<subseteq> dom (map_of (fs_files fs))"
      by (cases "expand_lines fs base_dir ls (ensure_newline (expanded @ body)) (new @ visited)") auto
    with new show ?thesis by (simp add: Some load rest)
  qed
qed

text \<open>C25: Includes end: when every include names a readable file, the configuration is expanded, however
  the files include each other; every file is read at most once, and only files that exist.\<close>

theorem includes_expand_once:
  assumes "includes_resolve fs" and "map_of (fs_files fs) (canonical_or_self fs path) \<noteq> None"
  shows "\<exists>content. fst (load_with_includes fs path []) = Some content
    \<and> distinct (snd (load_with_includes fs path []))
    \<and> set (snd (load_with_includes fs path [])) \<subseteq> fst ` set (fs_files fs)"
  using includes_succeed(1) [OF assms, of "[]"] include_visits(1) [of fs path "[]"]
  by (auto simp: dom_map_of_conv_image_fst)

theorem includes_expand_once_witness:
  "\<exists>content. fst (load_with_includes \<lparr>fs_canonical = Some,
      fs_files = [(''/a'', ''include b''), (''/b'', ''include a'')]\<rparr> ''/a'' []) = Some content"
proof -
  let ?fs = "\<lparr>fs_canonical = Some, fs_files = [(''/a'', ''include b''), (''/b'', ''include a'')]\<rparr>"
  have lines: "text_lines ''include b'' = [''include b'']" "text_lines ''include a'' = [''include a'']"
    by (subst text_lines.simps, simp)+
  have t: "trim ''include a'' = ''include a''" "trim ''include b'' = ''include b''" "trim ''a'' = ''a''" "trim ''b'' = ''b''"
    by (auto intro!: trim_trimmed trimmed_graphic simp: graphic_def)
  have "includes_resolve ?fs"
    by (simp add: includes_resolve_def lines t canonical_or_self_def path_join_def path_parent_def
        strip_quotes_def strip_around_def starts_with_def)
  from includes_expand_once [OF this, of "''/a''"] show ?thesis by (auto simp: canonical_or_self_def)
qed

end
