(* ===== verification/Keymap.thy ===== *)
theory Keymap
  imports RustText
begin

text \<open>
  The tables of keys (\<open>src/keymap.rs\<close>, \<open>src/bindings.rs\<close>, \<open>src/app_helpers.rs\<close>). A physical key is
  named by its constructor in the source; key codes are numbers. Where the source compiles one
  table per operating system, both are here.
\<close>

section \<open>Modifiers\<close>

definition GHOSTTY_MODS_NONE :: i32 where "GHOSTTY_MODS_NONE = 0"
definition GHOSTTY_MODS_SHIFT :: i32 where "GHOSTTY_MODS_SHIFT = 1"
definition GHOSTTY_MODS_CTRL :: i32 where "GHOSTTY_MODS_CTRL = 2"
definition GHOSTTY_MODS_ALT :: i32 where "GHOSTTY_MODS_ALT = 4"
definition GHOSTTY_MODS_SUPER :: i32 where "GHOSTTY_MODS_SUPER = 8"

lemmas mods_defs = GHOSTTY_MODS_NONE_def GHOSTTY_MODS_SHIFT_def GHOSTTY_MODS_CTRL_def
  GHOSTTY_MODS_ALT_def GHOSTTY_MODS_SUPER_def

definition has_mod :: "i32 \<Rightarrow> i32 \<Rightarrow> bool" where
  "has_mod mods m \<longleftrightarrow> and mods m \<noteq> 0"

section \<open>Physical keys\<close>

definition ghostty_key :: "(str \<times> nat) list" where
  "ghostty_key =
    [(''BACKQUOTE'', 1), (''BACKSLASH'', 2), (''BRACKET_LEFT'', 3), (''BRACKET_RIGHT'', 4),
     (''COMMA'', 5), (''DIGIT_0'', 6), (''DIGIT_1'', 7), (''DIGIT_2'', 8), (''DIGIT_3'', 9),
     (''DIGIT_4'', 10), (''DIGIT_5'', 11), (''DIGIT_6'', 12), (''DIGIT_7'', 13), (''DIGIT_8'', 14),
     (''DIGIT_9'', 15), (''EQUAL'', 16), (''A'', 20), (''B'', 21), (''C'', 22), (''D'', 23),
     (''E'', 24), (''F'', 25), (''G'', 26), (''H'', 27), (''I'', 28), (''J'', 29), (''K'', 30),
     (''L'', 31), (''M'', 32), (''N'', 33), (''O'', 34), (''P'', 35), (''Q'', 36), (''R'', 37),
     (''S'', 38), (''T'', 39), (''U'', 40), (''V'', 41), (''W'', 42), (''X'', 43), (''Y'', 44),
     (''Z'', 45), (''MINUS'', 46), (''PERIOD'', 47), (''QUOTE'', 48), (''SEMICOLON'', 49),
     (''SLASH'', 50), (''ALT_LEFT'', 51), (''ALT_RIGHT'', 52), (''BACKSPACE'', 53),
     (''CAPS_LOCK'', 54), (''CONTROL_LEFT'', 56), (''CONTROL_RIGHT'', 57), (''ENTER'', 58),
     (''META_LEFT'', 59), (''META_RIGHT'', 60), (''SHIFT_LEFT'', 61), (''SHIFT_RIGHT'', 62),
     (''SPACE'', 63), (''TAB'', 64), (''DELETE'', 68), (''END'', 69), (''HOME'', 71),
     (''INSERT'', 72), (''PAGE_DOWN'', 73), (''PAGE_UP'', 74), (''ARROW_DOWN'', 75),
     (''ARROW_LEFT'', 76), (''ARROW_RIGHT'', 77), (''ARROW_UP'', 78), (''NUM_LOCK'', 79),
     (''NUMPAD_0'', 80), (''NUMPAD_1'', 81), (''NUMPAD_2'', 82), (''NUMPAD_3'', 83),
     (''NUMPAD_4'', 84), (''NUMPAD_5'', 85), (''NUMPAD_6'', 86), (''NUMPAD_7'', 87),
     (''NUMPAD_8'', 88), (''NUMPAD_9'', 89), (''NUMPAD_ADD'', 90), (''NUMPAD_DECIMAL'', 95),
     (''NUMPAD_DIVIDE'', 96), (''NUMPAD_ENTER'', 97), (''NUMPAD_EQUAL'', 98),
     (''NUMPAD_MULTIPLY'', 104), (''NUMPAD_SUBTRACT'', 107), (''ESCAPE'', 120), (''F1'', 121),
     (''F2'', 122), (''F3'', 123), (''F4'', 124), (''F5'', 125), (''F6'', 126), (''F7'', 127),
     (''F8'', 128), (''F9'', 129), (''F10'', 130), (''F11'', 131), (''F12'', 132), (''F13'', 133),
     (''F14'', 134), (''F15'', 135), (''F16'', 136), (''F17'', 137), (''F18'', 138),
     (''F19'', 139)]"

definition code_to_vt_table :: "(str \<times> str) list" where
  "code_to_vt_table =
    [(''KeyA'', ''A''), (''KeyB'', ''B''), (''KeyC'', ''C''), (''KeyD'', ''D''), (''KeyE'', ''E''),
     (''KeyF'', ''F''), (''KeyG'', ''G''), (''KeyH'', ''H''), (''KeyI'', ''I''), (''KeyJ'', ''J''),
     (''KeyK'', ''K''), (''KeyL'', ''L''), (''KeyM'', ''M''), (''KeyN'', ''N''), (''KeyO'', ''O''),
     (''KeyP'', ''P''), (''KeyQ'', ''Q''), (''KeyR'', ''R''), (''KeyS'', ''S''), (''KeyT'', ''T''),
     (''KeyU'', ''U''), (''KeyV'', ''V''), (''KeyW'', ''W''), (''KeyX'', ''X''), (''KeyY'', ''Y''),
     (''KeyZ'', ''Z''), (''Digit0'', ''DIGIT_0''), (''Digit1'', ''DIGIT_1''),
     (''Digit2'', ''DIGIT_2''), (''Digit3'', ''DIGIT_3''), (''Digit4'', ''DIGIT_4''),
     (''Digit5'', ''DIGIT_5''), (''Digit6'', ''DIGIT_6''), (''Digit7'', ''DIGIT_7''),
     (''Digit8'', ''DIGIT_8''), (''Digit9'', ''DIGIT_9''), (''Backquote'', ''BACKQUOTE''),
     (''Backslash'', ''BACKSLASH''), (''BracketLeft'', ''BRACKET_LEFT''),
     (''BracketRight'', ''BRACKET_RIGHT''), (''Comma'', ''COMMA''), (''Equal'', ''EQUAL''),
     (''Minus'', ''MINUS''), (''Period'', ''PERIOD''), (''Quote'', ''QUOTE''),
     (''Semicolon'', ''SEMICOLON''), (''Slash'', ''SLASH''), (''Enter'', ''ENTER''),
     (''Tab'', ''TAB''), (''Space'', ''SPACE''), (''Backspace'', ''BACKSPACE''),
     (''Escape'', ''ESCAPE''), (''ShiftLeft'', ''SHIFT_LEFT''), (''ShiftRight'', ''SHIFT_RIGHT''),
     (''AltLeft'', ''ALT_LEFT''), (''AltRight'', ''ALT_RIGHT''),
     (''ControlLeft'', ''CONTROL_LEFT''), (''ControlRight'', ''CONTROL_RIGHT''),
     (''SuperLeft'', ''META_LEFT''), (''SuperRight'', ''META_RIGHT''),
     (''CapsLock'', ''CAPS_LOCK''), (''Delete'', ''DELETE''), (''End'', ''END''),
     (''Home'', ''HOME''), (''Insert'', ''INSERT''), (''PageDown'', ''PAGE_DOWN''),
     (''PageUp'', ''PAGE_UP''), (''ArrowDown'', ''ARROW_DOWN''), (''ArrowLeft'', ''ARROW_LEFT''),
     (''ArrowRight'', ''ARROW_RIGHT''), (''ArrowUp'', ''ARROW_UP''), (''NumLock'', ''NUM_LOCK''),
     (''Numpad0'', ''NUMPAD_0''), (''Numpad1'', ''NUMPAD_1''), (''Numpad2'', ''NUMPAD_2''),
     (''Numpad3'', ''NUMPAD_3''), (''Numpad4'', ''NUMPAD_4''), (''Numpad5'', ''NUMPAD_5''),
     (''Numpad6'', ''NUMPAD_6''), (''Numpad7'', ''NUMPAD_7''), (''Numpad8'', ''NUMPAD_8''),
     (''Numpad9'', ''NUMPAD_9''), (''NumpadAdd'', ''NUMPAD_ADD''),
     (''NumpadDecimal'', ''NUMPAD_DECIMAL''), (''NumpadDivide'', ''NUMPAD_DIVIDE''),
     (''NumpadEnter'', ''NUMPAD_ENTER''), (''NumpadEqual'', ''NUMPAD_EQUAL''),
     (''NumpadMultiply'', ''NUMPAD_MULTIPLY''), (''NumpadSubtract'', ''NUMPAD_SUBTRACT''),
     (''F1'', ''F1''), (''F2'', ''F2''), (''F3'', ''F3''), (''F4'', ''F4''), (''F5'', ''F5''),
     (''F6'', ''F6''), (''F7'', ''F7''), (''F8'', ''F8''), (''F9'', ''F9''), (''F10'', ''F10''),
     (''F11'', ''F11''), (''F12'', ''F12''), (''F13'', ''F13''), (''F14'', ''F14''),
     (''F15'', ''F15''), (''F16'', ''F16''), (''F17'', ''F17''), (''F18'', ''F18''),
     (''F19'', ''F19'')]"

definition code_to_native_table :: "(str \<times> nat) list" where
  "code_to_native_table =
    [(''KeyA'', 0x00), (''KeyS'', 0x01), (''KeyD'', 0x02), (''KeyF'', 0x03), (''KeyH'', 0x04),
     (''KeyG'', 0x05), (''KeyZ'', 0x06), (''KeyX'', 0x07), (''KeyC'', 0x08), (''KeyV'', 0x09),
     (''KeyB'', 0x0B), (''KeyQ'', 0x0C), (''KeyW'', 0x0D), (''KeyE'', 0x0E), (''KeyR'', 0x0F),
     (''KeyY'', 0x10), (''KeyT'', 0x11), (''Digit1'', 0x12), (''Digit2'', 0x13),
     (''Digit3'', 0x14), (''Digit4'', 0x15), (''Digit6'', 0x16), (''Digit5'', 0x17),
     (''Equal'', 0x18), (''Digit9'', 0x19), (''Digit7'', 0x1A), (''Minus'', 0x1B),
     (''Digit8'', 0x1C), (''Digit0'', 0x1D), (''BracketRight'', 0x1E), (''KeyO'', 0x1F),
     (''KeyU'', 0x20), (''BracketLeft'', 0x21), (''KeyI'', 0x22), (''KeyP'', 0x23),
     (''Enter'', 0x24), (''KeyL'', 0x25), (''KeyJ'', 0x26), (''Quote'', 0x27), (''KeyK'', 0x28),
     (''Semicolon'', 0x29), (''Backslash'', 0x2A), (''Comma'', 0x2B), (''Slash'', 0x2C),
     (''KeyN'', 0x2D), (''KeyM'', 0x2E), (''Period'', 0x2F), (''Tab'', 0x30), (''Space'', 0x31),
     (''Backquote'', 0x32), (''Backspace'', 0x33), (''Escape'', 0x35), (''SuperRight'', 0x36),
     (''SuperLeft'', 0x37), (''ShiftLeft'', 0x38), (''CapsLock'', 0x39), (''AltLeft'', 0x3A),
     (''ControlLeft'', 0x3B), (''ShiftRight'', 0x3C), (''AltRight'', 0x3D),
     (''ControlRight'', 0x3E), (''F17'', 0x40), (''NumpadDecimal'', 0x41),
     (''NumpadMultiply'', 0x43), (''NumpadAdd'', 0x45), (''NumLock'', 0x47),
     (''NumpadDivide'', 0x4B), (''NumpadEnter'', 0x4C), (''NumpadSubtract'', 0x4E),
     (''F18'', 0x4F), (''F19'', 0x50), (''NumpadEqual'', 0x51), (''Numpad0'', 0x52),
     (''Numpad1'', 0x53), (''Numpad2'', 0x54), (''Numpad3'', 0x55), (''Numpad4'', 0x56),
     (''Numpad5'', 0x57), (''Numpad6'', 0x58), (''Numpad7'', 0x59), (''Numpad8'', 0x5B),
     (''Numpad9'', 0x5C), (''F5'', 0x60), (''F6'', 0x61), (''F7'', 0x62), (''F3'', 0x63),
     (''F8'', 0x64), (''F9'', 0x65), (''F11'', 0x67), (''F13'', 0x69), (''F16'', 0x6A),
     (''F14'', 0x6B), (''F10'', 0x6D), (''F12'', 0x6F), (''F15'', 0x71), (''Home'', 0x73),
     (''PageUp'', 0x74), (''Delete'', 0x75), (''F4'', 0x76), (''End'', 0x77), (''F2'', 0x78),
     (''PageDown'', 0x79), (''F1'', 0x7A), (''ArrowLeft'', 0x7B), (''ArrowRight'', 0x7C),
     (''ArrowDown'', 0x7D), (''ArrowUp'', 0x7E)]"

definition native_to_vt_table :: "(nat \<times> str) list" where
  "native_to_vt_table =
    [(0x00, ''A''), (0x01, ''S''), (0x02, ''D''), (0x03, ''F''), (0x04, ''H''), (0x05, ''G''),
     (0x06, ''Z''), (0x07, ''X''), (0x08, ''C''), (0x09, ''V''), (0x0B, ''B''), (0x0C, ''Q''),
     (0x0D, ''W''), (0x0E, ''E''), (0x0F, ''R''), (0x10, ''Y''), (0x11, ''T''),
     (0x12, ''DIGIT_1''), (0x13, ''DIGIT_2''), (0x14, ''DIGIT_3''), (0x15, ''DIGIT_4''),
     (0x16, ''DIGIT_6''), (0x17, ''DIGIT_5''), (0x18, ''EQUAL''), (0x19, ''DIGIT_9''),
     (0x1A, ''DIGIT_7''), (0x1B, ''MINUS''), (0x1C, ''DIGIT_8''), (0x1D, ''DIGIT_0''),
     (0x1E, ''BRACKET_RIGHT''), (0x1F, ''O''), (0x20, ''U''), (0x21, ''BRACKET_LEFT''),
     (0x22, ''I''), (0x23, ''P''), (0x24, ''ENTER''), (0x25, ''L''), (0x26, ''J''),
     (0x27, ''QUOTE''), (0x28, ''K''), (0x29, ''SEMICOLON''), (0x2A, ''BACKSLASH''),
     (0x2B, ''COMMA''), (0x2C, ''SLASH''), (0x2D, ''N''), (0x2E, ''M''), (0x2F, ''PERIOD''),
     (0x30, ''TAB''), (0x31, ''SPACE''), (0x32, ''BACKQUOTE''), (0x33, ''BACKSPACE''),
     (0x35, ''ESCAPE''), (0x36, ''META_RIGHT''), (0x37, ''META_LEFT''), (0x38, ''SHIFT_LEFT''),
     (0x39, ''CAPS_LOCK''), (0x3A, ''ALT_LEFT''), (0x3B, ''CONTROL_LEFT''),
     (0x3C, ''SHIFT_RIGHT''), (0x3D, ''ALT_RIGHT''), (0x3E, ''CONTROL_RIGHT''),
     (0x47, ''NUM_LOCK''), (0x4B, ''NUMPAD_DIVIDE''), (0x4C, ''NUMPAD_ENTER''),
     (0x4E, ''NUMPAD_SUBTRACT''), (0x51, ''NUMPAD_EQUAL''), (0x52, ''NUMPAD_0''),
     (0x53, ''NUMPAD_1''), (0x54, ''NUMPAD_2''), (0x55, ''NUMPAD_3''), (0x56, ''NUMPAD_4''),
     (0x57, ''NUMPAD_5''), (0x58, ''NUMPAD_6''), (0x59, ''NUMPAD_7''), (0x5B, ''NUMPAD_8''),
     (0x5C, ''NUMPAD_9''), (0x60, ''F5''), (0x61, ''F6''), (0x62, ''F7''), (0x63, ''F3''),
     (0x64, ''F8''), (0x65, ''F9''), (0x67, ''F11''), (0x69, ''F13''), (0x6A, ''F16''),
     (0x6B, ''F14''), (0x6D, ''F10''), (0x6F, ''F12''), (0x71, ''F15''), (0x73, ''HOME''),
     (0x74, ''PAGE_UP''), (0x75, ''DELETE''), (0x76, ''F4''), (0x77, ''END''), (0x78, ''F2''),
     (0x79, ''PAGE_DOWN''), (0x7A, ''F1''), (0x7B, ''ARROW_LEFT''), (0x7C, ''ARROW_RIGHT''),
     (0x7D, ''ARROW_DOWN''), (0x7E, ''ARROW_UP'')]"

datatype physical_key = Code str | Unidentified nat

definition code_to_vt :: "str \<Rightarrow> nat option" where
  "code_to_vt code = Option.bind (map_of code_to_vt_table code) (map_of ghostty_key)"

definition code_to_native_macos :: "str \<Rightarrow> nat option" where
  "code_to_native_macos code = map_of code_to_native_table code"

definition code_to_native_linux :: "str \<Rightarrow> nat option" where
  "code_to_native_linux code = code_to_vt code"

definition native_to_vt_keycode_macos :: "nat \<Rightarrow> nat option" where
  "native_to_vt_keycode_macos keycode = Option.bind (map_of native_to_vt_table keycode) (map_of ghostty_key)"

definition native_to_vt_keycode_linux :: "nat \<Rightarrow> nat option" where
  "native_to_vt_keycode_linux keycode = Some keycode"

definition physical_to_native_keycode :: "(str \<Rightarrow> nat option) \<Rightarrow> physical_key \<Rightarrow> nat option" where
  "physical_to_native_keycode code_to_native key =
     (case key of Code code \<Rightarrow> code_to_native code | Unidentified _ \<Rightarrow> None)"

definition physical_to_vt_keycode :: "physical_key \<Rightarrow> nat option" where
  "physical_to_vt_keycode key = (case key of Code code \<Rightarrow> code_to_vt code | Unidentified _ \<Rightarrow> None)"

section \<open>Names of keys\<close>

definition single_char_macos :: "(str \<times> nat) list" where
  "single_char_macos =
    [(''a'', 0x00), (''s'', 0x01), (''d'', 0x02), (''f'', 0x03), (''h'', 0x04), (''g'', 0x05),
     (''z'', 0x06), (''x'', 0x07), (''c'', 0x08), (''v'', 0x09), (''b'', 0x0B), (''q'', 0x0C),
     (''w'', 0x0D), (''e'', 0x0E), (''r'', 0x0F), (''y'', 0x10), (''t'', 0x11), (''u'', 0x20),
     (''i'', 0x22), (''o'', 0x1F), (''p'', 0x23), (''l'', 0x25), (''j'', 0x26), (''k'', 0x28),
     (''n'', 0x2D), (''m'', 0x2E), (''1'', 0x12), (''2'', 0x13), (''3'', 0x14), (''4'', 0x15),
     (''5'', 0x17), (''6'', 0x16), (''7'', 0x1A), (''8'', 0x1C), (''9'', 0x19), (''0'', 0x1D),
     ('','', 0x2B), (''comma'', 0x2B), (''.'', 0x2F), (''period'', 0x2F), (''/'', 0x2C),
     (''slash'', 0x2C), ('';'', 0x29), (''semicolon'', 0x29), ([CHR 0x27], 0x27),
     (''quote'', 0x27), (''-'', 0x1B), (''minus'', 0x1B), (''='', 0x18), (''equal'', 0x18),
     (''['', 0x21), (''left_bracket'', 0x21), ('']'', 0x1E), (''right_bracket'', 0x1E),
     (''space'', 0x31), (''enter'', 0x24), (''tab'', 0x30), (''escape'', 0x35)]"

definition single_char_linux :: "(str \<times> nat) list" where
  "single_char_linux =
    [(''a'', 20), (''b'', 21), (''c'', 22), (''d'', 23), (''e'', 24), (''f'', 25), (''g'', 26),
     (''h'', 27), (''i'', 28), (''j'', 29), (''k'', 30), (''l'', 31), (''m'', 32), (''n'', 33),
     (''o'', 34), (''p'', 35), (''q'', 36), (''r'', 37), (''s'', 38), (''t'', 39), (''u'', 40),
     (''v'', 41), (''w'', 42), (''x'', 43), (''y'', 44), (''z'', 45), (''0'', 6), (''1'', 7),
     (''2'', 8), (''3'', 9), (''4'', 10), (''5'', 11), (''6'', 12), (''7'', 13), (''8'', 14),
     (''9'', 15), ('','', 55), (''comma'', 55), (''.'', 56), (''period'', 56), (''/'', 57),
     (''slash'', 57), ('';'', 51), (''semicolon'', 51), ([CHR 0x27], 52), (''quote'', 52),
     (''-'', 16), (''minus'', 16), (''='', 17), (''equal'', 17), (''['', 46),
     (''left_bracket'', 46), ('']'', 47), (''right_bracket'', 47), (''space'', 63),
     (''enter'', 58), (''tab'', 64), (''escape'', 120)]"

definition keyspec_macos :: "(str \<times> nat) list" where
  "keyspec_macos =
    [(''a'', 0x00), (''s'', 0x01), (''d'', 0x02), (''f'', 0x03), (''h'', 0x04), (''g'', 0x05),
     (''z'', 0x06), (''x'', 0x07), (''c'', 0x08), (''v'', 0x09), (''b'', 0x0B), (''q'', 0x0C),
     (''w'', 0x0D), (''e'', 0x0E), (''r'', 0x0F), (''y'', 0x10), (''t'', 0x11), (''u'', 0x20),
     (''i'', 0x22), (''o'', 0x1F), (''p'', 0x23), (''l'', 0x25), (''j'', 0x26), (''k'', 0x28),
     (''n'', 0x2D), (''m'', 0x2E), (''enter'', 0x24), (''return'', 0x24), (''tab'', 0x30),
     (''space'', 0x31), (''escape'', 0x35), (''esc'', 0x35), (''backspace'', 0x33),
     (''delete'', 0x75), (''up'', 0x7E), (''down'', 0x7D), (''left'', 0x7B), (''right'', 0x7C),
     (''pageup'', 0x74), (''pagedown'', 0x79), (''home'', 0x73), (''end'', 0x77)]"

definition keyspec_linux :: "(str \<times> nat) list" where
  "keyspec_linux =
    [(''a'', 20), (''b'', 21), (''c'', 22), (''d'', 23), (''e'', 24), (''f'', 25), (''g'', 26),
     (''h'', 27), (''i'', 28), (''j'', 29), (''k'', 30), (''l'', 31), (''m'', 32), (''n'', 33),
     (''o'', 34), (''p'', 35), (''q'', 36), (''r'', 37), (''s'', 38), (''t'', 39), (''u'', 40),
     (''v'', 41), (''w'', 42), (''x'', 43), (''y'', 44), (''z'', 45), (''0'', 6), (''1'', 7),
     (''2'', 8), (''3'', 9), (''4'', 10), (''5'', 11), (''6'', 12), (''7'', 13), (''8'', 14),
     (''9'', 15), (''enter'', 58), (''return'', 58), (''tab'', 64), (''space'', 63),
     (''escape'', 120), (''esc'', 120), (''backspace'', 53), (''delete'', 119), (''up'', 111),
     (''down'', 116), (''left'', 113), (''right'', 114), (''pageup'', 112), (''pagedown'', 117),
     (''home'', 110), (''end'', 115)]"

definition keyspec_vt :: "(str \<times> nat) list" where
  "keyspec_vt =
    [(''a'', 20), (''b'', 21), (''c'', 22), (''d'', 23), (''e'', 24), (''f'', 25), (''g'', 26),
     (''h'', 27), (''i'', 28), (''j'', 29), (''k'', 30), (''l'', 31), (''m'', 32), (''n'', 33),
     (''o'', 34), (''p'', 35), (''q'', 36), (''r'', 37), (''s'', 38), (''t'', 39), (''u'', 40),
     (''v'', 41), (''w'', 42), (''x'', 43), (''y'', 44), (''z'', 45), (''0'', 6), (''1'', 7),
     (''2'', 8), (''3'', 9), (''4'', 10), (''5'', 11), (''6'', 12), (''7'', 13), (''8'', 14),
     (''9'', 15), (''enter'', 58), (''return'', 58), (''tab'', 64), (''space'', 63),
     (''escape'', 120), (''esc'', 120), (''backspace'', 53), (''delete'', 68), (''up'', 73),
     (''down'', 74), (''left'', 71), (''right'', 72), (''pageup'', 75), (''pagedown'', 78),
     (''home'', 69), (''end'', 70)]"

text \<open>The modifiers in front of the name of a key.\<close>

function strip_mods :: "i32 \<Rightarrow> str \<Rightarrow> i32 \<times> str" where
  "strip_mods mods key_part =
     (case strip_prefix ''ctrl+'' key_part of Some r \<Rightarrow> strip_mods (or mods GHOSTTY_MODS_CTRL) r
      | None \<Rightarrow> (case strip_prefix ''shift+'' key_part of Some r \<Rightarrow> strip_mods (or mods GHOSTTY_MODS_SHIFT) r
      | None \<Rightarrow> (case strip_prefix ''alt+'' key_part of Some r \<Rightarrow> strip_mods (or mods GHOSTTY_MODS_ALT) r
      | None \<Rightarrow> (case strip_prefix ''super+'' key_part of Some r \<Rightarrow> strip_mods (or mods GHOSTTY_MODS_SUPER) r
      | None \<Rightarrow> (mods, key_part)))))"
  by pat_completeness auto
termination
  by (relation "measure (\<lambda>(mods, s). length s)") (auto simp: strip_prefix_iff)

declare strip_mods.simps [simp del]

record prefix_key =
  pk_keycode :: nat
  pk_mods_mask :: i32

definition parse_prefix_key :: "(str \<times> nat) list \<Rightarrow> str \<Rightarrow> prefix_key option" where
  "parse_prefix_key single_char spec =
     (let (mods, key_part) = strip_mods 0 spec
      in map_option (\<lambda>k. \<lparr>pk_keycode = k, pk_mods_mask = mods\<rparr>) (map_of single_char key_part))"

definition keyspec :: "(str \<times> nat) list \<Rightarrow> str \<Rightarrow> (nat \<times> i32) option" where
  "keyspec table spec =
     (let (mods, key_part) = strip_mods 0 spec;
          keycode = (case map_of table key_part of Some k \<Rightarrow> Some k
            | None \<Rightarrow> Option.bind (strip_prefix ''0x'' key_part) (parse_uint 16 32))
      in map_option (\<lambda>k. (k, mods)) keycode)"

definition parse_keyspec_macos :: "str \<Rightarrow> (nat \<times> i32) option" where
  "parse_keyspec_macos = keyspec keyspec_macos"

definition parse_keyspec_linux :: "str \<Rightarrow> (nat \<times> i32) option" where
  "parse_keyspec_linux = keyspec keyspec_linux"

definition parse_vt_keyspec :: "str \<Rightarrow> (nat \<times> i32) option" where
  "parse_vt_keyspec = keyspec keyspec_vt"

section \<open>Characters of keys\<close>

text \<open>Per key: its character, and its character with shift.\<close>

definition shifted_table_macos :: "(nat \<times> char \<times> char) list" where
  "shifted_table_macos =
    [(0x00, CHR ''a'', CHR ''a''), (0x01, CHR ''s'', CHR ''s''), (0x02, CHR ''d'', CHR ''d''),
     (0x03, CHR ''f'', CHR ''f''), (0x04, CHR ''h'', CHR ''h''), (0x05, CHR ''g'', CHR ''g''),
     (0x06, CHR ''z'', CHR ''z''), (0x07, CHR ''x'', CHR ''x''), (0x08, CHR ''c'', CHR ''c''),
     (0x09, CHR ''v'', CHR ''v''), (0x0B, CHR ''b'', CHR ''b''), (0x0C, CHR ''q'', CHR ''q''),
     (0x0D, CHR ''w'', CHR ''w''), (0x0E, CHR ''e'', CHR ''e''), (0x0F, CHR ''r'', CHR ''r''),
     (0x10, CHR ''y'', CHR ''y''), (0x11, CHR ''t'', CHR ''t''), (0x20, CHR ''u'', CHR ''u''),
     (0x22, CHR ''i'', CHR ''i''), (0x1F, CHR ''o'', CHR ''o''), (0x23, CHR ''p'', CHR ''p''),
     (0x25, CHR ''l'', CHR ''l''), (0x26, CHR ''j'', CHR ''j''), (0x28, CHR ''k'', CHR ''k''),
     (0x2D, CHR ''n'', CHR ''n''), (0x2E, CHR ''m'', CHR ''m''), (0x31, CHR '' '', CHR '' ''),
     (0x24, CHR 0x0D, CHR 0x0D), (0x30, CHR 0x09, CHR 0x09), (0x12, CHR ''1'', CHR ''!''),
     (0x13, CHR ''2'', CHR ''@''), (0x14, CHR ''3'', CHR ''#''), (0x15, CHR ''4'', CHR ''$''),
     (0x17, CHR ''5'', CHR ''%''), (0x16, CHR ''6'', CHR ''^''), (0x1A, CHR ''7'', CHR ''&''),
     (0x1C, CHR ''8'', CHR ''*''), (0x19, CHR ''9'', CHR ''(''), (0x1D, CHR ''0'', CHR '')''),
     (0x27, CHR 0x27, CHR 0x22), (0x2A, CHR 0x5C, CHR ''|''), (0x2B, CHR '','', CHR ''<''),
     (0x2F, CHR ''.'', CHR ''>''), (0x2C, CHR ''/'', CHR ''?''), (0x29, CHR '';'', CHR '':''),
     (0x1B, CHR ''-'', CHR ''_''), (0x18, CHR ''='', CHR ''+''), (0x21, CHR ''['', CHR ''{''),
     (0x1E, CHR '']'', CHR ''}''), (0x32, CHR 0x60, CHR ''~'')]"

definition shifted_table_vt :: "(nat \<times> char \<times> char) list" where
  "shifted_table_vt =
    [(20, CHR ''a'', CHR ''a''), (21, CHR ''b'', CHR ''b''), (22, CHR ''c'', CHR ''c''),
     (23, CHR ''d'', CHR ''d''), (24, CHR ''e'', CHR ''e''), (25, CHR ''f'', CHR ''f''),
     (26, CHR ''g'', CHR ''g''), (27, CHR ''h'', CHR ''h''), (28, CHR ''i'', CHR ''i''),
     (29, CHR ''j'', CHR ''j''), (30, CHR ''k'', CHR ''k''), (31, CHR ''l'', CHR ''l''),
     (32, CHR ''m'', CHR ''m''), (33, CHR ''n'', CHR ''n''), (34, CHR ''o'', CHR ''o''),
     (35, CHR ''p'', CHR ''p''), (36, CHR ''q'', CHR ''q''), (37, CHR ''r'', CHR ''r''),
     (38, CHR ''s'', CHR ''s''), (39, CHR ''t'', CHR ''t''), (40, CHR ''u'', CHR ''u''),
     (41, CHR ''v'', CHR ''v''), (42, CHR ''w'', CHR ''w''), (43, CHR ''x'', CHR ''x''),
     (44, CHR ''y'', CHR ''y''), (45, CHR ''z'', CHR ''z''), (63, CHR '' '', CHR '' ''),
     (58, CHR 0x0D, CHR 0x0D), (64, CHR 0x09, CHR 0x09), (7, CHR ''1'', CHR ''!''),
     (8, CHR ''2'', CHR ''@''), (9, CHR ''3'', CHR ''#''), (10, CHR ''4'', CHR ''$''),
     (11, CHR ''5'', CHR ''%''), (12, CHR ''6'', CHR ''^''), (13, CHR ''7'', CHR ''&''),
     (14, CHR ''8'', CHR ''*''), (15, CHR ''9'', CHR ''(''), (6, CHR ''0'', CHR '')''),
     (48, CHR 0x27, CHR 0x22), (2, CHR 0x5C, CHR ''|''), (5, CHR '','', CHR ''<''),
     (47, CHR ''.'', CHR ''>''), (50, CHR ''/'', CHR ''?''), (49, CHR '';'', CHR '':''),
     (46, CHR ''-'', CHR ''_''), (16, CHR ''='', CHR ''+''), (3, CHR ''['', CHR ''{''),
     (4, CHR '']'', CHR ''}''), (1, CHR 0x60, CHR ''~'')]"

definition shifted_lookup :: "(nat \<times> char \<times> char) list \<Rightarrow> nat \<Rightarrow> i32 \<Rightarrow> nat" where
  "shifted_lookup table keycode mods =
     (case map_of table keycode of
        None \<Rightarrow> 0
      | Some (plain, shifted) \<Rightarrow>
          (let has_shift = has_mod mods GHOSTTY_MODS_SHIFT;
               base = (if has_shift then shifted else plain)
           in if has_shift \<and> is_ascii_lower base then byte base - 32 else byte base))"

definition shifted_codepoint_vt :: "nat \<Rightarrow> i32 \<Rightarrow> nat" where
  "shifted_codepoint_vt = shifted_lookup shifted_table_vt"

definition shifted_codepoint_macos :: "nat \<Rightarrow> i32 \<Rightarrow> nat" where
  "shifted_codepoint_macos = shifted_lookup shifted_table_macos"

definition shifted_char :: "(nat \<Rightarrow> i32 \<Rightarrow> nat) \<Rightarrow> nat \<Rightarrow> i32 \<Rightarrow> nat option" where
  "shifted_char shifted_codepoint keycode mods =
     (let cp = shifted_codepoint keycode mods in if cp = 0 then None else Some cp)"

text \<open>The modifiers of the window toolkit.\<close>

record modifiers =
  md_shift :: bool
  md_control :: bool
  md_alt :: bool
  md_logo :: bool

definition ghostty_mods_to_iced :: "i32 \<Rightarrow> modifiers" where
  "ghostty_mods_to_iced mods =
     \<lparr>md_shift = has_mod mods GHOSTTY_MODS_SHIFT, md_control = has_mod mods GHOSTTY_MODS_CTRL,
      md_alt = has_mod mods GHOSTTY_MODS_ALT, md_logo = has_mod mods GHOSTTY_MODS_SUPER\<rparr>"

definition iced_mods_to_ghostty :: "modifiers \<Rightarrow> i32" where
  "iced_mods_to_ghostty m =
     or (or (or (or GHOSTTY_MODS_NONE (if md_shift m then GHOSTTY_MODS_SHIFT else 0))
       (if md_control m then GHOSTTY_MODS_CTRL else 0))
       (if md_alt m then GHOSTTY_MODS_ALT else 0)) (if md_logo m then GHOSTTY_MODS_SUPER else 0)"

definition should_route_macos_vt_key_via_appkit :: "nat \<Rightarrow> i32 \<Rightarrow> bool" where
  "should_route_macos_vt_key_via_appkit vt_keycode mods \<longleftrightarrow>
     \<not> has_mod mods (or GHOSTTY_MODS_CTRL GHOSTTY_MODS_SUPER) \<and>
     (1 \<le> vt_keycode \<and> vt_keycode \<le> 16 \<or> 20 \<le> vt_keycode \<and> vt_keycode \<le> 50 \<or> vt_keycode = 63)"

end
