(* ===== verification/KeymapProps.thy ===== *)
theory KeymapProps
  imports Keymap
begin

text \<open>
  Which tables of keys agree. All lookups of a literal table follow from its keys being distinct,
  which for texts is shown by their numbers.
\<close>

definition key_num :: "str \<Rightarrow> nat" where
  "key_num s = foldl (\<lambda>a c. a * 256 + byte c) 0 s"

lemma code_to_vt_distinct: "distinct (map fst code_to_vt_table)"
  by (rule distinct_by_image [of key_num]) (simp add: code_to_vt_table_def key_num_def)

lemma ghostty_key_distinct: "distinct (map fst ghostty_key)"
  by (rule distinct_by_image [of key_num]) (simp add: ghostty_key_def key_num_def)

lemma native_to_vt_distinct: "distinct (map fst native_to_vt_table)"
  by (simp add: native_to_vt_table_def)

text \<open>The lookups of a table, one equation for each key: the list of the keys is written out, the
  table stays folded.\<close>

lemma code_to_vt_lookups: "map (map_of code_to_vt_table) (map fst code_to_vt_table) = map Some (map snd code_to_vt_table)"
  by (rule map_of_lookups [OF refl code_to_vt_distinct])

lemma native_to_vt_lookups:
  "map (map_of native_to_vt_table) (map fst native_to_vt_table) = map Some (map snd native_to_vt_table)"
  by (rule map_of_lookups [OF refl native_to_vt_distinct])

lemma code_to_vt_keys: "map fst code_to_vt_table = K \<Longrightarrow> map snd code_to_vt_table = V \<Longrightarrow>
    map (map_of code_to_vt_table) K = map Some V"
  using code_to_vt_lookups by simp

lemma native_to_vt_keys: "map fst native_to_vt_table = K \<Longrightarrow> map snd native_to_vt_table = V \<Longrightarrow>
    map (map_of native_to_vt_table) K = map Some V"
  using native_to_vt_lookups by simp

lemmas code_to_vt_table_columns =
  arg_cong [OF code_to_vt_table_def, of "map fst", unfolded list.map fst_conv]
  arg_cong [OF code_to_vt_table_def, of "map snd", unfolded list.map snd_conv]

lemmas native_to_vt_table_columns =
  arg_cong [OF native_to_vt_table_def, of "map fst", unfolded list.map fst_conv]
  arg_cong [OF native_to_vt_table_def, of "map snd", unfolded list.map snd_conv]

lemmas code_to_vt_lookup =
  code_to_vt_keys [OF code_to_vt_table_columns, unfolded list.map list.inject]

lemmas native_to_vt_lookup =
  native_to_vt_keys [OF native_to_vt_table_columns, unfolded list.map list.inject]

lemma native_to_vt_missing:
  "list_all (\<lambda>n. map_of native_to_vt_table n = None) [0x40, 0x41, 0x43, 0x45, 0x4F, 0x50]"
  by (simp add: native_to_vt_table_def)

lemmas native_to_vt_missing_lookup = native_to_vt_missing [unfolded list.pred_inject]

lemma ghostty_key_lookups: "map (map_of ghostty_key) (map fst ghostty_key) = map Some (map snd ghostty_key)"
  by (rule map_of_lookups [OF refl ghostty_key_distinct])

lemma ghostty_key_keys: "map fst ghostty_key = K \<Longrightarrow> map snd ghostty_key = V \<Longrightarrow>
    map (map_of ghostty_key) K = map Some V"
  using ghostty_key_lookups by simp

lemmas ghostty_key_columns =
  arg_cong [OF ghostty_key_def, of "map fst", unfolded list.map fst_conv]
  arg_cong [OF ghostty_key_def, of "map snd", unfolded list.map snd_conv]

lemmas ghostty_key_lookup = ghostty_key_keys [OF ghostty_key_columns, unfolded list.map list.inject]

text \<open>On macOS the two ways to a terminal key code agree: the native code of a key, translated to a
  terminal code, is the terminal code of the key. The keys that have a native code and no
  translation are exactly F17, F18, F19 and three keys of the number pad.\<close>

theorem macos_key_tables_agree:
  "list_all (\<lambda>(c, n). native_to_vt_keycode_macos n =
     (if c \<in> {''F17'', ''F18'', ''F19'', ''NumpadDecimal'', ''NumpadMultiply'', ''NumpadAdd''}
      then None else code_to_vt c)) code_to_native_table"
  unfolding code_to_native_table_def list.pred_inject prod.case
  by (simp add: native_to_vt_keycode_macos_def code_to_vt_def code_to_vt_lookup native_to_vt_lookup
      native_to_vt_lookup [unfolded One_nat_def] native_to_vt_missing_lookup)

end
