(* ===== verification/Bindings.thy ===== *)
theory Bindings
  imports Keymap ConfigFile SplitGeometry
begin

text \<open>
  Key bindings (\<open>src/bindings.rs\<close>): the actions and their names, the tables built from the
  configuration, and the state machine of the prefix key and copy mode. A character is the text of
  its UTF-8 bytes. The configuration's hash map is visited in the order of the list of entries that
  \<open>from_config\<close> is given; the table of key names of the platform is an argument.
\<close>

section \<open>Actions\<close>

datatype resize_direction = RLeft | RRight | RUp | RDown

datatype split_side = SideRight | SideDown | SideLeft | SideUp

datatype tab_target = TabIndex nat | TabLast

datatype action =
    ActNewSplit split_side
  | ActGotoSplit pane_focus_direction
  | ActResizeSplit resize_direction nat
  | ActCloseSurface
  | ActBreakPane
  | ActNewTab
  | ActNextTab
  | ActPrevTab
  | ActCloseTab
  | ActGotoTab tab_target
  | ActSearch
  | ActEnterCopyMode
  | ActCopy
  | ActPaste
  | ActChooseBuffer
  | ActChooseTree
  | ActFindWindow
  | ActSetTabTitle
  | ActDisplayPanes
  | ActMarkPane
  | ActClearMarkedPane
  | ActJoinMarkedPane split_side
  | ActRotatePanesForward
  | ActRotatePanesBackward
  | ActSwapPaneNext
  | ActSwapPanePrevious
  | ActSelectLayout tab_layout
  | ActNextLayout
  | ActPreviousLayout
  | ActRebalanceLayout
  | ActToggleZoom
  | ActOpenCommandPrompt
  | ActNextPane
  | ActPreviousPane
  | ActPreviousTab
  | ActReloadConfig

datatype copy_mode_action =
    CMove resize_direction
  | WordNext | WordBack | WordEnd | BigWordNext | BigWordBack | BigWordEnd
  | LineStart | LineEnd | FirstNonBlank
  | ScreenTop | ScreenMiddle | ScreenBottom
  | HistoryTop | HistoryBottom
  | PageUp | PageDown | HalfPageUp | HalfPageDown | ScrollUp | ScrollDown | ScrollMiddle
  | StartCharSelect | StartLineSelect | StartRectSelect | ClearSelection | SwapAnchor
  | JumpForward | JumpBackward | JumpToForward | JumpToBackward | JumpAgain | JumpReverse
  | NextParagraph | PreviousParagraph | MatchingBracket
  | SetMark | JumpToMark
  | SearchForward | SearchBackward | SearchAgain | SearchReverse | SearchWordForward | SearchWordBackward
  | CopyAndExit | CopyToEndOfLine | AppendAndCancel
  | OpenPrompt | RefreshFromPane | TogglePosition | ExitCopyMode

datatype key_result = Consumed "action option" | CopyModeResult copy_mode_action | Forward

datatype mode = ModeNormal | ModePrefix | ModeCopy

datatype named_key = NArrowUp | NArrowDown | NArrowLeft | NArrowRight | NPageUp | NPageDown | NHome | NEnd | NEscape

record bindings =
  bd_prefix :: "prefix_key option"
  bd_table :: "str \<Rightarrow> action option"
  bd_direct :: "nat \<times> i32 \<Rightarrow> action option"
  bd_mode :: mode

definition action_names :: "(str \<times> action) list" where
  "action_names =
    [(''reload_config'', ActReloadConfig), (''close_surface'', ActCloseSurface), (''break_pane'', ActBreakPane),
     (''new_tab'', ActNewTab), (''next_tab'', ActNextTab), (''prev_tab'', ActPrevTab), (''close_tab'', ActCloseTab),
     (''search'', ActSearch), (''enter_copy_mode'', ActEnterCopyMode), (''copy'', ActCopy),
     (''paste'', ActPaste), (''choose_buffer'', ActChooseBuffer), (''choose_tree'', ActChooseTree),
     (''find_window'', ActFindWindow), (''set_tab_title'', ActSetTabTitle), (''display_panes'', ActDisplayPanes),
     (''mark_pane'', ActMarkPane), (''clear_marked_pane'', ActClearMarkedPane),
     (''join_marked_pane:right'', ActJoinMarkedPane SideRight), (''move_marked_pane:right'', ActJoinMarkedPane SideRight),
     (''join_marked_pane:down'', ActJoinMarkedPane SideDown), (''move_marked_pane:down'', ActJoinMarkedPane SideDown),
     (''join_marked_pane:left'', ActJoinMarkedPane SideLeft), (''move_marked_pane:left'', ActJoinMarkedPane SideLeft),
     (''join_marked_pane:up'', ActJoinMarkedPane SideUp), (''move_marked_pane:up'', ActJoinMarkedPane SideUp),
     (''rotate_panes_forward'', ActRotatePanesForward), (''rotate_panes_backward'', ActRotatePanesBackward),
     (''swap_pane_next'', ActSwapPaneNext), (''swap_pane_previous'', ActSwapPanePrevious),
     (''next_layout'', ActNextLayout), (''previous_layout'', ActPreviousLayout), (''rebalance_layout'', ActRebalanceLayout),
     (''select_layout:manual'', ActSelectLayout Manual), (''select_layout:even-horizontal'', ActSelectLayout EvenHorizontal),
     (''select_layout:even-vertical'', ActSelectLayout EvenVertical),
     (''select_layout:main-horizontal'', ActSelectLayout MainHorizontal),
     (''select_layout:main-vertical'', ActSelectLayout MainVertical), (''select_layout:tiled'', ActSelectLayout Tiled),
     (''toggle_zoom'', ActToggleZoom), (''command_prompt'', ActOpenCommandPrompt), (''next_pane'', ActNextPane),
     (''previous_pane'', ActPreviousPane), (''previous_tab'', ActPreviousTab),
     (''goto_split:left'', ActGotoSplit FocusLeft), (''goto_split:right'', ActGotoSplit FocusRight),
     (''goto_split:top'', ActGotoSplit FocusUp), (''goto_split:bottom'', ActGotoSplit FocusDown),
     (''new_split:right'', ActNewSplit SideRight), (''new_split:down'', ActNewSplit SideDown),
     (''new_split:left'', ActNewSplit SideLeft), (''new_split:up'', ActNewSplit SideUp),
     (''goto_tab:last'', ActGotoTab TabLast)]"

definition parse_resize_direction :: "str \<Rightarrow> resize_direction option" where
  "parse_resize_direction s =
     (if s = ''left'' then Some RLeft else if s = ''right'' then Some RRight
      else if s = ''up'' then Some RUp else if s = ''down'' then Some RDown else None)"

definition parse_action :: "str \<Rightarrow> action option" where
  "parse_action s =
     (case map_of action_names s of Some a \<Rightarrow> Some a
      | None \<Rightarrow>
     (case strip_prefix ''goto_tab:'' s of
        Some n \<Rightarrow> map_option (\<lambda>k. ActGotoTab (TabIndex (k - 1))) (parse_uint 10 64 n)
      | None \<Rightarrow>
     (case strip_prefix ''resize_split:'' s of
        Some rest \<Rightarrow>
          Option.bind (split_once (CHR '','') rest) (\<lambda>(dir_str, amount_str).
            Option.bind (parse_uint 10 16 amount_str) (\<lambda>amount.
              map_option (\<lambda>dir. ActResizeSplit dir amount) (parse_resize_direction dir_str)))
      | None \<Rightarrow> None)))"

section \<open>Tables from the configuration\<close>

definition parse_prefix_trigger :: "str \<Rightarrow> str option" where
  "parse_prefix_trigger keyname =
     (if keyname = ''space'' then Some '' ''
      else if keyname = ''tab'' then Some [CHR 0x09]
      else if keyname \<in> {''enter'', ''return''} then Some [cr]
      else if keyname \<in> {''escape'', ''esc''} then Some [CHR 0x1B]
      else if chars_count keyname = 1 then Some keyname else None)"

definition add_trigger :: "str \<Rightarrow> action \<Rightarrow> bindings \<Rightarrow> bindings" where
  "add_trigger keyname a b =
     (case parse_prefix_trigger keyname of
        Some trigger \<Rightarrow> b\<lparr>bd_table := (bd_table b)(trigger \<mapsto> a)\<rparr> | None \<Rightarrow> b)"

definition add_binding :: "(str \<times> nat) list \<Rightarrow> str \<times> str \<Rightarrow> bindings \<Rightarrow> bindings" where
  "add_binding single_char entry b =
     (let (key, action_str) = entry
      in case parse_action action_str of None \<Rightarrow> b
         | Some a \<Rightarrow>
           (case split_once (CHR ''>'') key of
              Some (prefix_spec, trigger_spec) \<Rightarrow>
                (case parse_prefix_key single_char (trim prefix_spec) of None \<Rightarrow> b
                 | Some p \<Rightarrow>
                   (case bd_prefix b of
                      Some existing \<Rightarrow> (if existing \<noteq> p then b else add_trigger (trim trigger_spec) a b)
                    | None \<Rightarrow> add_trigger (trim trigger_spec) a (b\<lparr>bd_prefix := Some p\<rparr>)))
            | None \<Rightarrow>
                (if CHR ''+'' \<in> set key
                 then case parse_prefix_key single_char key of
                        Some p \<Rightarrow> b\<lparr>bd_direct := (bd_direct b)((pk_keycode p, pk_mods_mask p) \<mapsto> a)\<rparr>
                      | None \<Rightarrow> b
                 else add_trigger key a b)))"

definition bindings_start :: "(str \<times> nat) list \<Rightarrow> str option \<Rightarrow> bindings" where
  "bindings_start single_char prefix =
     \<lparr>bd_prefix = Option.bind prefix (parse_prefix_key single_char), bd_table = Map.empty,
      bd_direct = Map.empty, bd_mode = ModeNormal\<rparr>"

definition from_config :: "(str \<times> nat) list \<Rightarrow> str option \<Rightarrow> (str \<times> str) list \<Rightarrow> bindings" where
  "from_config single_char prefix kbs =
     fold (add_binding single_char) kbs (bindings_start single_char prefix)"

section \<open>Keys\<close>

definition named_copy_action :: "named_key \<Rightarrow> copy_mode_action" where
  "named_copy_action k = (case k of
     NArrowUp \<Rightarrow> CMove RUp | NArrowDown \<Rightarrow> CMove RDown | NArrowLeft \<Rightarrow> CMove RLeft | NArrowRight \<Rightarrow> CMove RRight
   | NPageUp \<Rightarrow> PageUp | NPageDown \<Rightarrow> PageDown | NHome \<Rightarrow> HistoryTop | NEnd \<Rightarrow> HistoryBottom
   | NEscape \<Rightarrow> ClearSelection)"

definition ctrl_copy_actions :: "(str \<times> copy_mode_action) list" where
  "ctrl_copy_actions =
     [(''b'', PageUp), ([CHR 0x02], PageUp), (''f'', PageDown), ([CHR 0x06], PageDown),
      (''u'', HalfPageUp), ([CHR 0x15], HalfPageUp), (''d'', HalfPageDown), ([CHR 0x04], HalfPageDown),
      (''y'', ScrollUp), ([CHR 0x19], ScrollUp), (''e'', ScrollDown), ([CHR 0x05], ScrollDown),
      (''v'', StartRectSelect), ([CHR 0x16], StartRectSelect)]"

definition alt_copy_actions :: "(str \<times> copy_mode_action) list" where
  "alt_copy_actions = [(''x'', JumpToMark)]"

definition char_copy_actions :: "(str \<times> copy_mode_action) list" where
  "char_copy_actions =
     [(''h'', CMove RLeft), ([CHR 0x08], CMove RLeft), (''j'', CMove RDown), (''k'', CMove RUp), (''l'', CMove RRight),
      (''w'', WordNext), (''b'', WordBack), (''e'', WordEnd), (''W'', BigWordNext), (''B'', BigWordBack), (''E'', BigWordEnd),
      (''0'', LineStart), (''$'', LineEnd), (''^'', FirstNonBlank),
      (''H'', ScreenTop), (''M'', ScreenMiddle), (''L'', ScreenBottom),
      (''g'', HistoryTop), (''G'', HistoryBottom), (''z'', ScrollMiddle),
      ('' '', StartCharSelect), (''V'', StartLineSelect), (''v'', StartRectSelect), (''o'', SwapAnchor),
      (''f'', JumpForward), (''F'', JumpBackward), (''t'', JumpToForward), (''T'', JumpToBackward),
      ('';'', JumpAgain), ('','', JumpReverse),
      (''{'', PreviousParagraph), (''}'', NextParagraph), (''%'', MatchingBracket), (''X'', SetMark),
      (''/'', SearchForward), (''?'', SearchBackward), (''n'', SearchAgain), (''N'', SearchReverse),
      (''*'', SearchWordForward), (''#'', SearchWordBackward),
      ([cr], CopyAndExit), (''y'', CopyAndExit), (''D'', CopyToEndOfLine), (''A'', AppendAndCancel),
      ('':'', OpenPrompt), (''r'', RefreshFromPane), (''P'', TogglePosition), (''q'', ExitCopyMode)]"

text \<open>The plain characters that leave copy mode.\<close>

definition leaves_copy_mode :: "copy_mode_action \<Rightarrow> bool" where
  "leaves_copy_mode a \<longleftrightarrow> a \<in> {CopyAndExit, CopyToEndOfLine, AppendAndCancel, ExitCopyMode}"

definition handle_copy_mode_key ::
  "str option \<Rightarrow> named_key option \<Rightarrow> i32 \<Rightarrow> bindings \<Rightarrow> key_result \<times> bindings" where
  "handle_copy_mode_key key_char named_key mods b =
     (case named_key of Some named \<Rightarrow> (CopyModeResult (named_copy_action named), b)
      | None \<Rightarrow>
     (case (if has_mod mods GHOSTTY_MODS_CTRL then Option.bind key_char (map_of ctrl_copy_actions) else None) of
        Some a \<Rightarrow> (CopyModeResult a, b)
      | None \<Rightarrow>
     (case (if has_mod mods GHOSTTY_MODS_ALT then Option.bind key_char (map_of alt_copy_actions) else None) of
        Some a \<Rightarrow> (CopyModeResult a, b)
      | None \<Rightarrow>
     (case Option.bind key_char (map_of char_copy_actions) of
        Some a \<Rightarrow> (CopyModeResult a, if leaves_copy_mode a then b\<lparr>bd_mode := ModeNormal\<rparr> else b)
      | None \<Rightarrow> (Consumed None, b)))))"

definition handle_key ::
  "str option \<Rightarrow> nat \<Rightarrow> i32 \<Rightarrow> named_key option \<Rightarrow> bindings \<Rightarrow> key_result \<times> bindings" where
  "handle_key key_char keycode mods named_key b =
     (case bd_mode b of
        ModeNormal \<Rightarrow>
          (case bd_direct b (keycode, mods) of Some a \<Rightarrow> (Consumed (Some a), b)
           | None \<Rightarrow>
             (case bd_prefix b of
                Some p \<Rightarrow>
                  (if keycode = pk_keycode p \<and> and mods (pk_mods_mask p) = pk_mods_mask p
                   then (Consumed None, b\<lparr>bd_mode := ModePrefix\<rparr>) else (Forward, b))
              | None \<Rightarrow> (Forward, b)))
      | ModePrefix \<Rightarrow>
          (let b' = b\<lparr>bd_mode := ModeNormal\<rparr>
           in case Option.bind key_char (bd_table b) of
                Some a \<Rightarrow> (Consumed (Some a), b') | None \<Rightarrow> (Forward, b'))
      | ModeCopy \<Rightarrow> handle_copy_mode_key key_char named_key mods b)"

definition is_prefix_mode :: "bindings \<Rightarrow> bool" where "is_prefix_mode b \<longleftrightarrow> bd_mode b = ModePrefix"
definition is_copy_mode :: "bindings \<Rightarrow> bool" where "is_copy_mode b \<longleftrightarrow> bd_mode b = ModeCopy"
definition enter_copy_mode :: "bindings \<Rightarrow> bindings" where "enter_copy_mode b = b\<lparr>bd_mode := ModeCopy\<rparr>"
definition exit_copy_mode :: "bindings \<Rightarrow> bindings" where "exit_copy_mode b = b\<lparr>bd_mode := ModeNormal\<rparr>"

end
