(* ===== verification/BindingsProps.thy ===== *)
theory BindingsProps
  imports Bindings KeymapProps
begin

text \<open>
  Properties of the key bindings: how the modes change, which key runs which action, where the order
  of a hash map shows, and which names of keys mean the key they name.
\<close>

section \<open>The machine of the modes\<close>

lemma modified_keys_stay:
  "map_of ctrl_copy_actions s = Some a \<or> map_of alt_copy_actions s = Some a \<Longrightarrow> \<not> leaves_copy_mode a"
proof -
  have "list_all (\<lambda>p. \<not> leaves_copy_mode (snd p)) (ctrl_copy_actions @ alt_copy_actions)"
    by (simp add: leaves_copy_mode_def ctrl_copy_actions_def alt_copy_actions_def)
  moreover assume "map_of ctrl_copy_actions s = Some a \<or> map_of alt_copy_actions s = Some a"
  then have "(s, a) \<in> set (ctrl_copy_actions @ alt_copy_actions)"
    by (auto dest: map_of_SomeD)
  ultimately show ?thesis unfolding list_all_iff by fastforce
qed

lemma copy_mode_keys:
  assumes "handle_copy_mode_key c k m b = (r, b')"
  shows "r \<noteq> Forward \<and> (\<forall>a. r \<noteq> Consumed (Some a)) \<and>
    b' = (if k = None \<and> (\<exists>a. r = CopyModeResult a \<and> leaves_copy_mode a) then exit_copy_mode b else b)"
  using assms unfolding handle_copy_mode_key_def
  by (auto simp: exit_copy_mode_def bind_eq_Some_conv split: option.splits if_splits
      dest: modified_keys_stay [OF disjI1] modified_keys_stay [OF disjI2])

text \<open>The characters whose action leaves copy mode.\<close>

lemma leaving_characters:
  "map_of char_copy_actions s = Some a \<and> leaves_copy_mode a \<longleftrightarrow>
    (s, a) \<in> {([cr], CopyAndExit), (''y'', CopyAndExit), (''D'', CopyToEndOfLine), (''A'', AppendAndCancel), (''q'', ExitCopyMode)}"
proof -
  have "distinct (map fst char_copy_actions)" by (simp add: char_copy_actions_def)
  then have "map_of char_copy_actions s = Some a \<longleftrightarrow> (s, a) \<in> set char_copy_actions" by simp
  moreover have "filter (\<lambda>p. leaves_copy_mode (snd p)) char_copy_actions =
      [([cr], CopyAndExit), (''y'', CopyAndExit), (''D'', CopyToEndOfLine), (''A'', AppendAndCancel), (''q'', ExitCopyMode)]"
    by (simp add: char_copy_actions_def leaves_copy_mode_def)
  then have "(s, a) \<in> set char_copy_actions \<and> leaves_copy_mode a \<longleftrightarrow>
      (s, a) \<in> set [([cr], CopyAndExit), (''y'', CopyAndExit), (''D'', CopyToEndOfLine), (''A'', AppendAndCancel), (''q'', ExitCopyMode)]"
    using set_filter [of "\<lambda>p. leaves_copy_mode (snd p)" char_copy_actions] by auto
  ultimately show ?thesis by simp
qed

lemma leaving_modified:
  "map_of ctrl_copy_actions ''D'' = None" "map_of ctrl_copy_actions ''A'' = None" "map_of ctrl_copy_actions ''q'' = None"
  "map_of ctrl_copy_actions [cr] = None" "map_of ctrl_copy_actions ''y'' = Some ScrollUp"
  "map_of alt_copy_actions ''D'' = None" "map_of alt_copy_actions ''A'' = None" "map_of alt_copy_actions ''q'' = None"
  "map_of alt_copy_actions [cr] = None" "map_of alt_copy_actions ''y'' = None"
  by (simp_all add: ctrl_copy_actions_def alt_copy_actions_def)

lemma leaving_plain:
  "map_of char_copy_actions [cr] = Some CopyAndExit" "map_of char_copy_actions ''y'' = Some CopyAndExit"
  "map_of char_copy_actions ''D'' = Some CopyToEndOfLine" "map_of char_copy_actions ''A'' = Some AppendAndCancel"
  "map_of char_copy_actions ''q'' = Some ExitCopyMode"
  by (simp_all add: char_copy_actions_def)

text \<open>C11: The machine of the modes. No key changes the tables. A key in prefix mode always ends it and is either
  passed on or runs the action of the table. In normal mode a key starts prefix mode exactly when it is consumed
  without an action, and it never starts copy mode. In copy mode no key reaches the program in the pane and none
  runs a bound action, and the mode ends exactly with Return, D, A, q and with y unless Control is held, none of
  them a named key: they copy and leave, copy to the end of the line, append and leave, and leave.\<close>

theorem mode_machine:
  assumes "handle_key c code m k b = (r, b')"
  shows "b' = b\<lparr>bd_mode := bd_mode b'\<rparr> \<and>
    (case bd_mode b of
       ModePrefix \<Rightarrow> bd_mode b' = ModeNormal \<and>
         r = (case Option.bind c (bd_table b) of Some a \<Rightarrow> Consumed (Some a) | None \<Rightarrow> Forward)
     | ModeNormal \<Rightarrow> bd_mode b' = (if r = Consumed None then ModePrefix else ModeNormal)
     | ModeCopy \<Rightarrow> r \<noteq> Forward \<and> (\<forall>a. r \<noteq> Consumed (Some a)) \<and>
         (if k = None \<and> (c \<in> {Some [cr], Some ''D'', Some ''A'', Some ''q''}
              \<or> c = Some ''y'' \<and> \<not> has_mod m GHOSTTY_MODS_CTRL)
          then bd_mode b' = ModeNormal \<and> r = CopyModeResult
            (if c = Some ''D'' then CopyToEndOfLine else if c = Some ''A'' then AppendAndCancel
             else if c = Some ''q'' then ExitCopyMode else CopyAndExit)
          else bd_mode b' = ModeCopy))"
proof (cases "bd_mode b")
  case ModeCopy
  with assms have h: "handle_copy_mode_key c k m b = (r, b')" by (simp add: handle_key_def)
  note tables = leaving_plain leaving_modified
  have stays: "\<not> leaves_copy_mode a"
    if "map_of char_copy_actions s = Some a" "s \<notin> {[cr], ''y'', ''D'', ''A'', ''q''}" for s a
    using that leaving_characters [of s a] by auto
  have b': "b' = b \<or> b' = exit_copy_mode b" using copy_mode_keys [OF h] by (auto split: if_splits)
  have mode: "if k = None \<and> (c \<in> {Some [cr], Some ''D'', Some ''A'', Some ''q''} \<or> c = Some ''y'' \<and> \<not> has_mod m GHOSTTY_MODS_CTRL)
      then bd_mode b' = ModeNormal \<and> r = CopyModeResult
        (if c = Some ''D'' then CopyToEndOfLine else if c = Some ''A'' then AppendAndCancel
         else if c = Some ''q'' then ExitCopyMode else CopyAndExit)
      else b' = b"
  proof (cases "k = None \<and> c \<noteq> None")
    case True
    then obtain s where c: "k = None" "c = Some s" by auto
    show ?thesis
    proof (cases "s \<in> {[cr], ''y'', ''D'', ''A'', ''q''}")
      case True
      then show ?thesis using h c tables
        by (auto simp: handle_copy_mode_key_def leaves_copy_mode_def split: if_splits)
    next
      case False
      then have "b' = b" using h c stays [of s]
        by (auto simp: handle_copy_mode_key_def split: option.splits if_splits)
      then show ?thesis using False c by auto
    qed
  next
    case False
    then show ?thesis using h by (auto simp: handle_copy_mode_key_def split: option.splits if_splits)
  qed
  have frame: "b' = b\<lparr>bd_mode := bd_mode b'\<rparr>" using b' by (auto simp: exit_copy_mode_def)
  have "r \<noteq> Forward" "\<forall>a. r \<noteq> Consumed (Some a)" using copy_mode_keys [OF h] by simp_all
  moreover have "bd_mode b' = ModeCopy" if "b' = b" using that ModeCopy by simp
  ultimately show ?thesis using mode unfolding ModeCopy mode.case
    by (intro conjI frame) (simp_all split: if_splits)
qed (use assms in \<open>auto simp: handle_key_def Let_def split: option.splits if_splits\<close>)

theorem mode_machine_witness:
  "let b = enter_copy_mode (bindings_start single_char_macos None);
       (r, b') = handle_key (Some ''q'') 0x0C 0 None b
   in bd_mode b = ModeCopy \<and> b' = b\<lparr>bd_mode := bd_mode b'\<rparr> \<and> bd_mode b' = ModeNormal \<and> r = CopyModeResult ExitCopyMode"
proof -
  let ?b = "enter_copy_mode (bindings_start single_char_macos None)"
  obtain r b' where h: "handle_key (Some ''q'') 0x0C 0 None ?b = (r, b')" by force
  have "bd_mode ?b = ModeCopy" by (simp add: enter_copy_mode_def)
  moreover have "b' = ?b\<lparr>bd_mode := bd_mode b'\<rparr>" by (rule conjunct1 [OF mode_machine [OF h]])
  moreover have "bd_mode b' = ModeNormal \<and> r = CopyModeResult ExitCopyMode"
    using conjunct2 [OF mode_machine [OF h]] by (simp add: enter_copy_mode_def)
  ultimately show ?thesis unfolding Let_def h case_prod_conv by blast
qed

section \<open>Which binding fires\<close>

text \<open>What one entry of the configuration binds after the prefix key.\<close>

definition binds_trigger :: "str \<Rightarrow> str \<Rightarrow> bool" where
  "binds_trigger key t \<longleftrightarrow>
     (case split_once (CHR ''>'') key of
        Some (_, trigger) \<Rightarrow> parse_prefix_trigger (trim trigger) = Some t
      | None \<Rightarrow> CHR ''+'' \<notin> set key \<and> parse_prefix_trigger key = Some t)"

lemma add_trigger_fields [simp]:
  "bd_prefix (add_trigger s a b) = bd_prefix b" "bd_direct (add_trigger s a b) = bd_direct b"
  "bd_mode (add_trigger s a b) = bd_mode b"
  "bd_table (add_trigger s a b) t = (if parse_prefix_trigger s = Some t then Some a else bd_table b t)"
  by (auto simp: add_trigger_def split: option.splits)

lemma add_binding_mode [simp]: "bd_mode (add_binding sc e b) = bd_mode b"
  by (auto simp: add_binding_def Let_def split: option.splits prod.splits)

lemma add_binding_prefix: "bd_prefix b = Some p \<Longrightarrow> bd_prefix (add_binding sc e b) = Some p"
  by (auto simp: add_binding_def Let_def split: option.splits prod.splits)

lemma add_binding_keeps: "\<not> binds_trigger (fst e) t \<Longrightarrow> bd_table (add_binding sc e b) t = bd_table b t"
  by (auto simp: add_binding_def binds_trigger_def Let_def split: option.splits prod.splits)

lemma fold_bindings_mode: "bd_mode (fold (add_binding sc) es b) = bd_mode b"
  by (induction es arbitrary: b) simp_all

lemma fold_bindings_prefix: "bd_prefix b = Some p \<Longrightarrow> bd_prefix (fold (add_binding sc) es b) = Some p"
  by (induction es arbitrary: b) (simp_all add: add_binding_prefix)

lemma fold_bindings_keeps:
  "\<forall>e\<in>set es. \<not> binds_trigger (fst e) t \<Longrightarrow> bd_table (fold (add_binding sc) es b) t = bd_table b t"
  by (induction es arbitrary: b) (simp_all add: add_binding_keeps)

lemma add_binding_binds:
  assumes "split_once (CHR ''>'') key = Some (pspec, tspec)" and "parse_prefix_key sc (trim pspec) = Some p"
    and "parse_prefix_trigger (trim tspec) = Some t" and "parse_action s = Some a"
    and "bd_prefix b = Some p \<or> bd_prefix b = None"
  shows "bd_table (add_binding sc (key, s) b) t = Some a" and "bd_prefix (add_binding sc (key, s) b) = Some p"
  using assms by (auto simp: add_binding_def split: option.splits)

text \<open>With a configured prefix key, an entry ``prefix > trigger'' fires: after the prefix key (with at
  least its modifiers, and no direct binding on exactly that key), the key with the trigger's
  character runs the action of the last entry for the trigger, whatever keycode and modifiers it
  has, and the machine is back in normal mode. The entry's own prefix must be the configured one.\<close>

theorem bound_key_fires:
  assumes prefix: "parse_prefix_key sc pfx = Some p"
    and entry: "split_once (CHR ''>'') key = Some (pspec, tspec)" "parse_prefix_key sc (trim pspec) = Some p"
      "parse_prefix_trigger (trim tspec) = Some t" "parse_action s = Some a"
    and last: "list_all (\<lambda>e. \<not> binds_trigger (fst e) t) post"
    and "b = from_config sc (Some pfx) (pre @ (key, s) # post)"
    and "bd_direct b (pk_keycode p, m) = None" and "and m (pk_mods_mask p) = pk_mods_mask p"
  shows "\<exists>b'. handle_key c (pk_keycode p) m k b = (Consumed None, b') \<and>
    handle_key (Some t) code m' k' b' = (Consumed (Some a), b)"
proof -
  let ?b0 = "bindings_start sc (Some pfx)"
  let ?b1 = "fold (add_binding sc) pre ?b0"
  let ?b2 = "add_binding sc (key, s) ?b1"
  have b: "b = fold (add_binding sc) post ?b2"
    using assms by (simp add: from_config_def)
  have "bd_prefix ?b1 = Some p"
    using prefix by (intro fold_bindings_prefix) (simp add: bindings_start_def)
  then have "bd_prefix ?b2 = Some p" and "bd_table ?b2 t = Some a"
    using entry by (simp_all add: add_binding_binds)
  then have p: "bd_prefix b = Some p" and t: "bd_table b t = Some a"
    using last b by (simp_all add: fold_bindings_prefix fold_bindings_keeps list_all_iff)
  have n: "bd_mode b = ModeNormal"
    using b by (simp add: fold_bindings_mode bindings_start_def)
  show ?thesis
    using assms(8,9) p t n by (simp add: handle_key_def)
qed

lemma ctrl_a_macos: "parse_prefix_key single_char_macos ''ctrl+a'' = Some \<lparr>pk_keycode = 0, pk_mods_mask = GHOSTTY_MODS_CTRL\<rparr>"
  by (simp add: parse_prefix_key_def strip_mods.simps single_char_macos_def)

lemma ctrl_b_macos: "parse_prefix_key single_char_macos ''ctrl+b'' = Some \<lparr>pk_keycode = 11, pk_mods_mask = GHOSTTY_MODS_CTRL\<rparr>"
  by (simp add: parse_prefix_key_def strip_mods.simps single_char_macos_def)

lemma example_actions:
  "parse_action ''new_tab'' = Some ActNewTab" "parse_action ''close_tab'' = Some ActCloseTab"
  by (simp_all add: parse_action_def action_names_def)

lemma example_entries:
  "split_once (CHR ''>'') ''ctrl+a>x'' = Some (''ctrl+a'', ''x'')"
  "split_once (CHR ''>'') ''ctrl+b>y'' = Some (''ctrl+b'', ''y'')"
  "parse_prefix_trigger ''x'' = Some ''x''" "parse_prefix_trigger ''y'' = Some ''y''"
  by (simp_all add: parse_prefix_trigger_def chars_count_def)

lemma example_trims: "trim ''ctrl+a'' = ''ctrl+a''" "trim ''ctrl+b'' = ''ctrl+b''" "trim ''x'' = ''x''" "trim ''y'' = ''y''"
  by (simp_all add: trim_trimmed trimmed_graphic graphic_def)

theorem bound_key_fires_witness:
  "\<exists>b'. handle_key None 0 GHOSTTY_MODS_CTRL None
      (from_config single_char_macos (Some ''ctrl+a'') [(''ctrl+a>x'', ''new_tab'')]) = (Consumed None, b') \<and>
    handle_key (Some ''x'') 7 0 None b' =
      (Consumed (Some ActNewTab), from_config single_char_macos (Some ''ctrl+a'') [(''ctrl+a>x'', ''new_tab'')])"
  using bound_key_fires [OF ctrl_a_macos example_entries(1), where post = "[]" and pre = "[]" and m = GHOSTTY_MODS_CTRL and s = "''new_tab''" and t = "''x''" and a = ActNewTab]
  by (simp add: example_entries example_actions ctrl_a_macos example_trims from_config_def bindings_start_def add_binding_def
      add_trigger_def)

text \<open>Without a configured prefix key, two entries with different prefixes bind only the first one
  visited: the other is dropped without a word. The configuration keeps its entries in a hash map, so
  which of the two keys works differs from one start to the next.\<close>

theorem prefix_depends_on_order:
  assumes "split_once (CHR ''>'') k1 = Some (p1, t1)" "split_once (CHR ''>'') k2 = Some (p2, t2)"
    and "parse_prefix_key sc (trim p1) = Some P1" "parse_prefix_key sc (trim p2) = Some P2" "P1 \<noteq> P2"
    and "parse_prefix_trigger (trim t1) = Some u1" "parse_prefix_trigger (trim t2) = Some u2"
    and "parse_action s1 = Some a1" "parse_action s2 = Some a2"
  shows "from_config sc None [(k1, s1), (k2, s2)] =
      \<lparr>bd_prefix = Some P1, bd_table = [u1 \<mapsto> a1], bd_direct = Map.empty, bd_mode = ModeNormal\<rparr> \<and>
    from_config sc None [(k2, s2), (k1, s1)] =
      \<lparr>bd_prefix = Some P2, bd_table = [u2 \<mapsto> a2], bd_direct = Map.empty, bd_mode = ModeNormal\<rparr>"
  using assms by (simp add: from_config_def bindings_start_def add_binding_def add_trigger_def)

theorem prefix_depends_on_order_witness:
  "bd_prefix (from_config single_char_macos None [(''ctrl+a>x'', ''new_tab''), (''ctrl+b>y'', ''close_tab'')]) \<noteq>
   bd_prefix (from_config single_char_macos None [(''ctrl+b>y'', ''close_tab''), (''ctrl+a>x'', ''new_tab'')])"
  using prefix_depends_on_order [OF example_entries(1,2), where sc = single_char_macos] ctrl_a_macos ctrl_b_macos
  by (simp add: example_entries example_actions example_trims)

section \<open>Names of keys\<close>

text \<open>The names that a binding may use for a key, with the window system's name of the key.\<close>

definition lettered_keys :: "(str \<times> str) list" where
  "lettered_keys =
    [(''a'', ''KeyA''), (''b'', ''KeyB''), (''c'', ''KeyC''), (''d'', ''KeyD''), (''e'', ''KeyE''),
     (''f'', ''KeyF''), (''g'', ''KeyG''), (''h'', ''KeyH''), (''i'', ''KeyI''), (''j'', ''KeyJ''),
     (''k'', ''KeyK''), (''l'', ''KeyL''), (''m'', ''KeyM''), (''n'', ''KeyN''), (''o'', ''KeyO''),
     (''p'', ''KeyP''), (''q'', ''KeyQ''), (''r'', ''KeyR''), (''s'', ''KeyS''), (''t'', ''KeyT''),
     (''u'', ''KeyU''), (''v'', ''KeyV''), (''w'', ''KeyW''), (''x'', ''KeyX''), (''y'', ''KeyY''),
     (''z'', ''KeyZ''), (''0'', ''Digit0''), (''1'', ''Digit1''), (''2'', ''Digit2''),
     (''3'', ''Digit3''), (''4'', ''Digit4''), (''5'', ''Digit5''), (''6'', ''Digit6''),
     (''7'', ''Digit7''), (''8'', ''Digit8''), (''9'', ''Digit9''), (''space'', ''Space''),
     (''enter'', ''Enter''), (''tab'', ''Tab''), (''escape'', ''Escape'')]"

definition punctuation_keys :: "(str \<times> str) list" where
  "punctuation_keys =
    [('','', ''Comma''), (''.'', ''Period''), (''/'', ''Slash''), ('';'', ''Semicolon''),
     ([CHR 0x27], ''Quote''), (''-'', ''Minus''), (''='', ''Equal''), (''['', ''BracketLeft''),
     ('']'', ''BracketRight'')]"

lemma single_char_linux_distinct: "distinct (map fst single_char_linux)"
  by (rule distinct_by_image [of key_num]) (simp add: single_char_linux_def key_num_def)

lemma single_char_linux_keys: "map fst single_char_linux = K \<Longrightarrow> map snd single_char_linux = V \<Longrightarrow>
    map (map_of single_char_linux) K = map Some V"
  using map_of_lookups [OF refl single_char_linux_distinct] by simp

lemmas single_char_linux_columns =
  arg_cong [OF single_char_linux_def, of "map fst", unfolded list.map fst_conv]
  arg_cong [OF single_char_linux_def, of "map snd", unfolded list.map snd_conv]

lemmas single_char_linux_lookup =
  single_char_linux_keys [OF single_char_linux_columns, unfolded list.map list.inject]

lemmas linux_key_simps = code_to_native_linux_def code_to_vt_def code_to_vt_lookup ghostty_key_lookup
  single_char_linux_lookup

text \<open>Which key a name in a binding means on Linux. The names of the letters, the digits, space, enter,
  tab and escape give the code that the window system's key is translated to; none of the nine
  punctuation names does. A binding of the minus sign fires on the key of the equals sign, one of the
  left bracket on minus, one of the right bracket on the period, and those of the period, the slash,
  the semicolon and the quote fire on the left and right control and alt keys.\<close>

theorem linux_punctuation_misbound:
  "list_all (\<lambda>(name, key). map_of single_char_linux name = code_to_native_linux key) lettered_keys \<and>
   list_all (\<lambda>(name, key). map_of single_char_linux name \<noteq> code_to_native_linux key) punctuation_keys \<and>
   list_all (\<lambda>(name, key). map_of single_char_linux name = code_to_native_linux key)
     [(''-'', ''Equal''), (''['', ''Minus''), ('']'', ''Period''), (''.'', ''ControlLeft''), (''/'', ''ControlRight''),
      ('';'', ''AltLeft''), ([CHR 0x27], ''AltRight'')]"
  unfolding lettered_keys_def punctuation_keys_def list.pred_inject prod.case
  by (simp add: linux_key_simps)

end
