(* ===== verification/CopyMoves.thy ===== *)
theory CopyMoves
  imports RustText
begin

text \<open>
  The cursor motions of copy mode within a line (\<open>src/runtime_copy.rs\<close>). A line is the list of its
  characters, each of them the text of its bytes. Which characters are letters or digits is an
  argument, a predicate on characters. Reading outside the line, which panics in the source, is
  \<open>None\<close>.
\<close>

section \<open>Characters\<close>

definition continuation :: "char \<Rightarrow> bool" where
  "continuation c \<longleftrightarrow> byte c div 64 = 2"

text \<open>\<open>str::chars\<close>.\<close>

function str_chars :: "str \<Rightarrow> str list" where
  "str_chars [] = []"
| "str_chars (c # s) = (c # takeWhile continuation s) # str_chars (dropWhile continuation s)"
  by pat_completeness auto
termination
  by (relation "measure length") (auto simp: le_imp_less_Suc length_dropWhile_le)

definition is_ws :: "str \<Rightarrow> bool" where
  "is_ws ch \<longleftrightarrow> ch \<in> set ws_chars"

definition is_word :: "(str \<Rightarrow> bool) \<Rightarrow> bool \<Rightarrow> str \<Rightarrow> bool" where
  "is_word alnum big ch = (if big then \<not> is_ws ch else alnum ch \<or> ch = ''_'')"

definition is_sep :: "(str \<Rightarrow> bool) \<Rightarrow> str \<Rightarrow> bool" where
  "is_sep alnum ch \<longleftrightarrow> \<not> alnum ch \<and> ch \<noteq> ''_'' \<and> \<not> is_ws ch"

section \<open>Word motions\<close>

datatype word_move_kind = NextWord | PrevWord | EndWord | NextBigWord | PrevBigWord | EndBigWord

text \<open>The loops: \<open>while i < len && p(chars[i]) { i += 1 }\<close>, \<open>while i + 1 < len && p(chars[i + 1]) { i += 1 }\<close>,
  \<open>while i > 0 && p(chars[i]) { i -= 1 }\<close> and \<open>while i > 0 && p(chars[i - 1]) { i -= 1 }\<close>.\<close>

definition skip_while :: "('a \<Rightarrow> bool) \<Rightarrow> 'a list \<Rightarrow> nat \<Rightarrow> nat" where
  "skip_while p chars i = i + length (takeWhile p (drop i chars))"

definition extend_while :: "('a \<Rightarrow> bool) \<Rightarrow> 'a list \<Rightarrow> nat \<Rightarrow> nat" where
  "extend_while p chars i = i + length (takeWhile p (drop (i + 1) chars))"

fun back_over :: "('a \<Rightarrow> bool) \<Rightarrow> 'a list \<Rightarrow> nat \<Rightarrow> nat" where
  "back_over p chars 0 = 0"
| "back_over p chars (Suc i) = (if p (chars ! Suc i) then back_over p chars i else Suc i)"

fun back_while :: "('a \<Rightarrow> bool) \<Rightarrow> 'a list \<Rightarrow> nat \<Rightarrow> nat" where
  "back_while p chars 0 = 0"
| "back_while p chars (Suc i) = (if p (chars ! i) then back_while p chars i else Suc i)"

definition next_word :: "(str \<Rightarrow> bool) \<Rightarrow> bool \<Rightarrow> str list \<Rightarrow> nat \<Rightarrow> nat" where
  "next_word alnum big chars col =
     (let len = length chars;
          i = (if col < len \<and> is_word alnum big (chars ! col) then skip_while (is_word alnum big) chars col
               else if \<not> big \<and> col < len \<and> is_sep alnum (chars ! col) then skip_while (is_sep alnum) chars col
               else col + 1);
          j = skip_while is_ws chars i
      in if j \<ge> len then col else j)"

definition prev_word :: "(str \<Rightarrow> bool) \<Rightarrow> bool \<Rightarrow> str list \<Rightarrow> nat \<Rightarrow> nat option" where
  "prev_word alnum big chars col =
     (if col = 0 then Some 0
      else if col - 1 \<ge> length chars then None
      else let i = back_over is_ws chars (col - 1)
           in Some (if is_word alnum big (chars ! i) then back_while (is_word alnum big) chars i
                    else if \<not> big \<and> is_sep alnum (chars ! i) then back_while (is_sep alnum) chars i
                    else i))"

definition end_word :: "(str \<Rightarrow> bool) \<Rightarrow> bool \<Rightarrow> str list \<Rightarrow> nat \<Rightarrow> nat" where
  "end_word alnum big chars col =
     (let len = length chars
      in if col + 1 \<ge> len then col
         else let i = skip_while is_ws chars (col + 1)
              in if i < len \<and> is_word alnum big (chars ! i) then extend_while (is_word alnum big) chars i
                 else if \<not> big \<and> i < len \<and> is_sep alnum (chars ! i) then extend_while (is_sep alnum) chars i
                 else i)"

definition word_column :: "(str \<Rightarrow> bool) \<Rightarrow> word_move_kind \<Rightarrow> str list \<Rightarrow> nat \<Rightarrow> nat option" where
  "word_column alnum kind chars col = (case kind of
     NextWord \<Rightarrow> Some (next_word alnum False chars col)
   | NextBigWord \<Rightarrow> Some (next_word alnum True chars col)
   | PrevWord \<Rightarrow> prev_word alnum False chars col
   | PrevBigWord \<Rightarrow> prev_word alnum True chars col
   | EndWord \<Rightarrow> Some (end_word alnum False chars col)
   | EndBigWord \<Rightarrow> Some (end_word alnum True chars col))"

definition word_under :: "(str \<Rightarrow> bool) \<Rightarrow> str list \<Rightarrow> nat \<Rightarrow> str option" where
  "word_under alnum chars col =
     (if col \<ge> length chars \<or> \<not> is_word alnum False (chars ! col) then None
      else let start = back_while (is_word alnum False) chars col;
               last = extend_while (is_word alnum False) chars col
           in Some (concat (take (last + 1 - start) (drop start chars))))"

section \<open>Jumps, brackets and blanks\<close>

datatype jump_kind = JForward | JBackward | JToForward | JToBackward

text \<open>The first and the last index of a character.\<close>

definition find_from :: "'a \<Rightarrow> 'a list \<Rightarrow> nat \<Rightarrow> nat option" where
  "find_from ch chars i =
     (let n = length (takeWhile (\<lambda>c. c \<noteq> ch) (drop i chars)) in if i + n < length chars then Some (i + n) else None)"

fun rfind_below :: "'a \<Rightarrow> 'a list \<Rightarrow> nat \<Rightarrow> nat option" where
  "rfind_below ch chars 0 = None"
| "rfind_below ch chars (Suc i) = (if i < length chars \<and> chars ! i = ch then Some i else rfind_below ch chars i)"

definition jump_column :: "str \<Rightarrow> jump_kind \<Rightarrow> str list \<Rightarrow> nat \<Rightarrow> nat option" where
  "jump_column target kind chars col = (case kind of
     JForward \<Rightarrow> find_from target chars (col + 1)
   | JBackward \<Rightarrow> rfind_below target chars col
   | JToForward \<Rightarrow> map_option (\<lambda>i. max (i - 1) (col + 1)) (find_from target chars (col + 1))
   | JToBackward \<Rightarrow> map_option (\<lambda>i. min (i + 1) (col - 1)) (rfind_below target chars col))"

definition reverse_jump :: "jump_kind \<Rightarrow> jump_kind" where
  "reverse_jump kind = (case kind of JForward \<Rightarrow> JBackward | JBackward \<Rightarrow> JForward
     | JToForward \<Rightarrow> JToBackward | JToBackward \<Rightarrow> JToForward)"

definition bracket_pairs :: "(str \<times> str) list" where
  "bracket_pairs = [(''('', '')''), (''['', '']''), (''{'', ''}'')]"

text \<open>The pair that a character belongs to, and whether it opens it.\<close>

definition bracket_of :: "str \<Rightarrow> (str \<times> str \<times> bool) option" where
  "bracket_of ch =
     (case find (\<lambda>(opn, cls). ch = opn \<or> ch = cls) bracket_pairs of
        None \<Rightarrow> None | Some (opn, cls) \<Rightarrow> Some (opn, cls, ch = opn))"

fun first_bracket :: "nat \<Rightarrow> str list \<Rightarrow> (nat \<times> str \<times> str \<times> bool) option" where
  "first_bracket i [] = None"
| "first_bracket i (ch # rest) =
     (case bracket_of ch of Some (opn, cls, is_open) \<Rightarrow> Some (i, opn, cls, is_open)
      | None \<Rightarrow> first_bracket (Suc i) rest)"

fun close_from :: "str \<Rightarrow> str \<Rightarrow> int \<Rightarrow> nat \<Rightarrow> str list \<Rightarrow> nat option" where
  "close_from opn cls depth i [] = None"
| "close_from opn cls depth i (ch # rest) =
     (let depth = depth + (if ch = opn then 1 else 0) - (if ch = cls then 1 else 0)
      in if depth = 0 then Some i else close_from opn cls depth (Suc i) rest)"

fun open_below :: "str \<Rightarrow> str \<Rightarrow> int \<Rightarrow> str list \<Rightarrow> nat \<Rightarrow> nat option" where
  "open_below opn cls depth chars 0 = None"
| "open_below opn cls depth chars (Suc i) =
     (let depth = depth + (if chars ! i = cls then 1 else 0) - (if chars ! i = opn then 1 else 0)
      in if depth = 0 then Some i else open_below opn cls depth chars i)"

definition bracket_column :: "str list \<Rightarrow> nat \<Rightarrow> nat option" where
  "bracket_column chars col =
     (case first_bracket col (drop col chars) of
        None \<Rightarrow> None
      | Some (pos, opn, cls, is_open) \<Rightarrow>
          if is_open then close_from opn cls 0 pos (drop pos chars)
          else open_below opn cls 0 chars (Suc pos))"

definition first_non_blank :: "str list \<Rightarrow> nat" where
  "first_non_blank chars =
     (let n = length (takeWhile is_ws chars) in if n < length chars then n else 0)"

section \<open>Where the motions land\<close>

lemma skip_while_ge [simp]: "i \<le> skip_while p chars i"
  by (simp add: skip_while_def)

lemma skip_while_stop: "skip_while p chars i < length chars \<Longrightarrow> \<not> p (chars ! skip_while p chars i)"
  using nth_length_takeWhile [of p "drop i chars"]
  by (cases "i \<le> length chars") (simp_all add: skip_while_def)

lemma skip_while_passed: "i \<le> k \<Longrightarrow> k < skip_while p chars i \<Longrightarrow> p (chars ! k)"
proof -
  assume k: "i \<le> k" "k < skip_while p chars i"
  then have n: "k - i < length (takeWhile p (drop i chars))" by (simp add: skip_while_def)
  then have "p (takeWhile p (drop i chars) ! (k - i))"
    using nth_mem set_takeWhileD by metis
  with n k show ?thesis
    using length_takeWhile_le [of p "drop i chars"] by (simp add: takeWhile_nth)
qed

lemma back_over_le: "back_over p chars i \<le> i"
  by (induction p chars i rule: back_over.induct) auto

lemma back_while_le: "back_while p chars i \<le> i"
  by (induction p chars i rule: back_while.induct) auto

lemma back_over_stop: "back_over p chars i = 0 \<or> \<not> p (chars ! back_over p chars i)"
  by (induction p chars i rule: back_over.induct) auto

lemma back_while_stop: "back_while p chars i = 0 \<or> \<not> p (chars ! (back_while p chars i - 1))"
  by (induction p chars i rule: back_while.induct) auto

lemma back_while_passed: "back_while p chars i \<le> k \<Longrightarrow> k < i \<Longrightarrow> p (chars ! k)"
proof (induction p chars i rule: back_while.induct)
  case (2 p chars i)
  then show ?case by (cases "k = i") (auto split: if_splits)
qed simp

text \<open>Two neighbours belong together when none is white space and both or none can be part of a word; for
  big words it is enough that none is white space. A word starts and ends where neighbours do not.\<close>

definition same_kind :: "(str \<Rightarrow> bool) \<Rightarrow> bool \<Rightarrow> str \<Rightarrow> str \<Rightarrow> bool" where
  "same_kind alnum big a b \<longleftrightarrow> \<not> is_ws a \<and> \<not> is_ws b \<and> (big \<or> (alnum a \<or> a = ''_'') = (alnum b \<or> b = ''_''))"

definition word_start :: "(str \<Rightarrow> bool) \<Rightarrow> bool \<Rightarrow> str list \<Rightarrow> nat \<Rightarrow> bool" where
  "word_start alnum big chars j \<longleftrightarrow> j < length chars \<and> \<not> is_ws (chars ! j) \<and>
     (j = 0 \<or> \<not> same_kind alnum big (chars ! (j - 1)) (chars ! j))"

definition word_end :: "(str \<Rightarrow> bool) \<Rightarrow> bool \<Rightarrow> str list \<Rightarrow> nat \<Rightarrow> bool" where
  "word_end alnum big chars j \<longleftrightarrow> j < length chars \<and> \<not> is_ws (chars ! j) \<and>
     (j + 1 = length chars \<or> \<not> same_kind alnum big (chars ! j) (chars ! (j + 1)))"

text \<open>No letter or digit is white space.\<close>

definition proper_alnum :: "(str \<Rightarrow> bool) \<Rightarrow> bool" where
  "proper_alnum alnum \<longleftrightarrow> list_all (\<lambda>w. \<not> alnum w) ws_chars"

lemma ws_not_word: "proper_alnum alnum \<Longrightarrow> is_ws a \<Longrightarrow> \<not> is_word alnum big a"
  by (auto simp: proper_alnum_def is_word_def is_ws_def list_all_iff ws_chars_def)

lemma kind_cases: "proper_alnum alnum \<Longrightarrow> \<not> is_ws a \<Longrightarrow> is_word alnum big a \<or> (\<not> big \<and> is_sep alnum a)"
  by (auto simp: is_word_def is_sep_def)

lemma sep_not_word: "is_sep alnum a \<Longrightarrow> \<not> is_word alnum False a \<and> \<not> is_ws a"
  by (auto simp: is_word_def is_sep_def)

text \<open>What a run of a motion consists of: characters of one kind.\<close>

definition run_of :: "(str \<Rightarrow> bool) \<Rightarrow> bool \<Rightarrow> (str \<Rightarrow> bool) \<Rightarrow> bool" where
  "run_of alnum big p \<longleftrightarrow> p = is_word alnum big \<or> (\<not> big \<and> p = is_sep alnum)"

lemma run_not_ws: "proper_alnum alnum \<Longrightarrow> run_of alnum big p \<Longrightarrow> p a \<Longrightarrow> \<not> is_ws a"
  using ws_not_word [of alnum a big] by (auto simp: run_of_def is_sep_def)

lemma run_together: "proper_alnum alnum \<Longrightarrow> run_of alnum big p \<Longrightarrow> p a \<Longrightarrow> p b \<Longrightarrow> same_kind alnum big a b"
  using ws_not_word [of alnum a big] ws_not_word [of alnum b big]
  by (auto simp: run_of_def same_kind_def is_word_def is_sep_def split: if_splits)

lemma run_apart:
  "proper_alnum alnum \<Longrightarrow> run_of alnum big p \<Longrightarrow> p a \<Longrightarrow> \<not> p b \<Longrightarrow> \<not> same_kind alnum big a b \<and> \<not> same_kind alnum big b a"
  using ws_not_word [of alnum a big] by (auto simp: run_of_def same_kind_def is_word_def is_sep_def split: if_splits)

lemma run_cases:
  assumes "proper_alnum alnum"
  obtains (word) "is_word alnum big a" "run_of alnum big (is_word alnum big)"
    | (sep) "\<not> is_word alnum big a" "\<not> big" "is_sep alnum a" "run_of alnum big (is_sep alnum)"
    | (blank) "\<not> is_word alnum big a" "\<not> (\<not> big \<and> is_sep alnum a)" "is_ws a"
  using kind_cases [OF assms, of a big] by (cases "is_word alnum big a"; cases "\<not> big \<and> is_sep alnum a") (auto simp: run_of_def)

section \<open>The next word\<close>

lemma skip_run:
  assumes "proper_alnum alnum" and "run_of alnum big p" and "p (chars ! col)" and "col < length chars"
  shows "col < skip_while p chars col" and "\<And>k. col < k \<Longrightarrow> k < skip_while p chars col \<Longrightarrow> \<not> word_start alnum big chars k"
    and "skip_while p chars col < length chars \<Longrightarrow>
      \<not> same_kind alnum big (chars ! (skip_while p chars col - 1)) (chars ! skip_while p chars col)"
proof -
  let ?i = "skip_while p chars col"
  show gt: "col < ?i" using skip_while_stop [of p chars col] skip_while_ge [of col p chars] assms(3,4)
    by (metis order_le_imp_less_or_eq)
  show "\<not> word_start alnum big chars k" if "col < k" "k < ?i" for k
    using that skip_while_passed [of col "k - 1" p chars] skip_while_passed [of col k p chars]
      run_together [OF assms(1,2)] by (simp add: word_start_def)
  show "\<not> same_kind alnum big (chars ! (?i - 1)) (chars ! ?i)" if "?i < length chars"
    using gt skip_while_passed [of col "?i - 1" p chars] skip_while_stop [OF that] run_apart [OF assms(1,2)] by simp
qed

lemma next_word_lands:
  assumes "proper_alnum alnum"
  shows "next_word alnum big chars col =
    (if \<exists>j>col. word_start alnum big chars j then LEAST j. col < j \<and> word_start alnum big chars j else col)"
proof -
  define i where "i = (if col < length chars \<and> is_word alnum big (chars ! col) then skip_while (is_word alnum big) chars col
      else if \<not> big \<and> col < length chars \<and> is_sep alnum (chars ! col) then skip_while (is_sep alnum) chars col
      else col + 1)"
  define j where "j = skip_while is_ws chars i"
  have nxt: "next_word alnum big chars col = (if j \<ge> length chars then col else j)"
    by (simp add: next_word_def i_def j_def Let_def)
  have i: "col < i \<and> (\<forall>k. col < k \<and> k < i \<longrightarrow> \<not> word_start alnum big chars k)
      \<and> (i < length chars \<longrightarrow> \<not> same_kind alnum big (chars ! (i - 1)) (chars ! i))"
  proof (cases "col < length chars")
    case True
    from assms show ?thesis
    proof (cases rule: run_cases [of alnum big "chars ! col"])
      case word
      then have "i = skip_while (is_word alnum big) chars col" using True by (simp add: i_def)
      then show ?thesis using skip_run [OF assms word(2,1) True] by simp
    next
      case sep
      then have "i = skip_while (is_sep alnum) chars col" using True by (simp add: i_def)
      then show ?thesis using skip_run [OF assms sep(4,3) True] by simp
    next
      case blank
      then have "i = col + 1" by (auto simp: i_def)
      then show ?thesis using blank by (auto simp: same_kind_def)
    qed
  qed (auto simp: i_def word_start_def)
  have blanks: "is_ws (chars ! k)" if "i \<le> k" "k < j" for k
    using that skip_while_passed [of i k is_ws chars] by (simp add: j_def)
  have ij: "i \<le> j" by (simp add: j_def)
  have none: "\<not> word_start alnum big chars k" if "col < k" "k < j" for k
    using that i blanks [of k] by (cases "k < i") (auto simp: word_start_def)
  show ?thesis
  proof (cases "j < length chars")
    case True
    have "\<not> same_kind alnum big (chars ! (j - 1)) (chars ! j)"
      using i ij True blanks [of "j - 1"] by (cases "i = j") (auto simp: same_kind_def)
    then have start: "word_start alnum big chars j"
      using True skip_while_stop [of is_ws chars i] by (simp add: word_start_def j_def)
    have "(LEAST j. col < j \<and> word_start alnum big chars j) = j"
      by (rule Least_equality) (use start i ij none in \<open>auto simp: not_less [symmetric]\<close>)
    with start i ij nxt True show ?thesis by auto
  next
    case False
    then have "\<not> word_start alnum big chars k" if "col < k" for k
      using that none [of k] by (auto simp: word_start_def)
    with nxt False show ?thesis by auto
  qed
qed

section \<open>The previous word\<close>

lemma back_over_passed: "back_over p chars i < k \<Longrightarrow> k \<le> i \<Longrightarrow> p (chars ! k)"
  by (induction p chars i rule: back_over.induct) (auto simp: le_Suc_eq split: if_splits)

lemma back_run:
  assumes "proper_alnum alnum" and "run_of alnum big p" and "p (chars ! i)" and "i < length chars"
  shows "word_start alnum big chars (back_while p chars i)"
    and "\<And>k. back_while p chars i < k \<Longrightarrow> k \<le> i \<Longrightarrow> \<not> word_start alnum big chars k"
proof -
  let ?j = "back_while p chars i"
  have run: "p (chars ! k)" if "?j \<le> k" "k \<le> i" for k
    using that assms(3) back_while_passed [of p chars i k] by (cases "k = i") auto
  have j: "?j \<le> i" by (rule back_while_le)
  have "?j = 0 \<or> \<not> same_kind alnum big (chars ! (?j - 1)) (chars ! ?j)"
    using back_while_stop [of p chars i] run [of ?j] j run_apart [OF assms(1,2)] by auto
  then show "word_start alnum big chars ?j"
    using run [of ?j] run_not_ws [OF assms(1,2)] j assms(4) by (auto simp: word_start_def)
  show "\<not> word_start alnum big chars k" if "?j < k" "k \<le> i" for k
    using that run [of "k - 1"] run [of k] run_together [OF assms(1,2)] by (simp add: word_start_def)
qed

lemma prev_word_lands:
  assumes "proper_alnum alnum"
  shows "prev_word alnum big chars col = (if length chars < col then None else
    Some (if \<exists>j<col. word_start alnum big chars j then GREATEST j. j < col \<and> word_start alnum big chars j else 0))"
proof (cases "col = 0 \<or> length chars < col")
  case True
  then show ?thesis by (auto simp: prev_word_def)
next
  case False
  define i where "i = back_over is_ws chars (col - 1)"
  have i: "i < col" "i < length chars" using False back_over_le [of is_ws chars "col - 1"] by (auto simp: i_def)
  have blanks: "\<not> word_start alnum big chars k" if "i < k" "k < col" for k
    using that back_over_passed [of is_ws chars "col - 1" k] by (simp add: i_def word_start_def)
  have stop: "i = 0 \<or> \<not> is_ws (chars ! i)" using back_over_stop [of is_ws chars "col - 1"] by (simp add: i_def)
  let ?j = "if is_word alnum big (chars ! i) then back_while (is_word alnum big) chars i
      else if \<not> big \<and> is_sep alnum (chars ! i) then back_while (is_sep alnum) chars i else i"
  have prev: "prev_word alnum big chars col = Some ?j" using False by (auto simp: prev_word_def i_def Let_def)
  have "(?j \<le> i \<and> word_start alnum big chars ?j \<or> ?j = 0 \<and> \<not> word_start alnum big chars 0)
      \<and> (\<forall>k. ?j < k \<and> k \<le> i \<longrightarrow> \<not> word_start alnum big chars k)"
    using assms
  proof (cases rule: run_cases [of alnum big "chars ! i"])
    case word
    then show ?thesis using back_run [OF assms word(2,1) i(2)] back_while_le by auto
  next
    case sep
    then show ?thesis using back_run [OF assms sep(4,3) i(2)] back_while_le by auto
  next
    case blank
    then show ?thesis using stop by (auto simp: word_start_def)
  qed
  moreover define j where "j = ?j"
  ultimately have j: "j \<le> i \<and> word_start alnum big chars j \<or> j = 0 \<and> \<not> word_start alnum big chars 0"
    and none: "\<And>k. j < k \<Longrightarrow> k \<le> i \<Longrightarrow> \<not> word_start alnum big chars k" by auto
  have above: "\<not> word_start alnum big chars k" if "j < k" "k < col" for k
    using that none [of k] blanks [of k] by (cases "k \<le> i") auto
  show ?thesis
  proof (cases "word_start alnum big chars j")
    case True
    then have le: "j < col" using j i by auto
    have "(GREATEST j. j < col \<and> word_start alnum big chars j) = j"
      by (rule Greatest_equality) (use True le above in \<open>auto simp: not_less [symmetric]\<close>)
    with True le prev False show ?thesis by (auto simp: j_def [symmetric])
  next
    case False
    with j have "j = 0" "\<not> word_start alnum big chars 0" by auto
    then have "\<not> word_start alnum big chars k" if "k < col" for k using that above [of k] by (cases "k = 0") auto
    with prev \<open>j = 0\<close> \<open>\<not> (col = 0 \<or> length chars < col)\<close> show ?thesis by (auto simp: j_def [symmetric])
  qed
qed

section \<open>The end of the word\<close>

lemma extend_while_ge [simp]: "i \<le> extend_while p chars i"
  by (simp add: extend_while_def)

lemma extend_while_skip: "Suc (extend_while p chars i) = skip_while p chars (Suc i)"
  by (simp add: extend_while_def skip_while_def)

lemma extend_run:
  assumes "proper_alnum alnum" and "run_of alnum big p" and "p (chars ! i)" and "i < length chars"
  shows "word_end alnum big chars (extend_while p chars i)"
    and "\<And>k. i \<le> k \<Longrightarrow> k < extend_while p chars i \<Longrightarrow> \<not> word_end alnum big chars k"
proof -
  let ?e = "extend_while p chars i"
  have len: "?e < length chars"
    using assms(4) length_takeWhile_le [of p "drop (i + 1) chars"] by (simp add: extend_while_def)
  have run: "p (chars ! k)" if "i \<le> k" "k \<le> ?e" for k
    using that assms(3) skip_while_passed [of "Suc i" k p chars] extend_while_skip [of p chars i]
    by (cases "k = i") auto
  have "?e + 1 = length chars \<or> \<not> p (chars ! (?e + 1))"
    using len skip_while_stop [of p chars "Suc i"] extend_while_skip [of p chars i] by auto
  then show "word_end alnum big chars ?e"
    using len run [of ?e] run_apart [OF assms(1,2)] run_not_ws [OF assms(1,2)] by (auto simp: word_end_def)
  show "\<not> word_end alnum big chars k" if "i \<le> k" "k < ?e" for k
    using that len run [of k] run [of "k + 1"] run_together [OF assms(1,2)] by (simp add: word_end_def)
qed

lemma end_word_lands:
  assumes "proper_alnum alnum"
  shows "end_word alnum big chars col =
    (if \<exists>j>col. word_end alnum big chars j then LEAST j. col < j \<and> word_end alnum big chars j
     else if col + 1 < length chars then length chars else col)"
proof (cases "col + 1 < length chars")
  case False
  then show ?thesis by (auto simp: end_word_def word_end_def)
next
  case True
  define i where "i = skip_while is_ws chars (col + 1)"
  have i: "col < i" "i \<le> length chars"
    using True skip_while_ge [of "col + 1" is_ws chars] length_takeWhile_le [of is_ws "drop (col + 1) chars"]
    by (auto simp: i_def skip_while_def)
  have blanks: "\<not> word_end alnum big chars k" if "col < k" "k < i" for k
    using that skip_while_passed [of "col + 1" k is_ws chars] by (simp add: i_def word_end_def)
  have run: "end_word alnum big chars col = (if i < length chars \<and> is_word alnum big (chars ! i)
      then extend_while (is_word alnum big) chars i
      else if \<not> big \<and> i < length chars \<and> is_sep alnum (chars ! i) then extend_while (is_sep alnum) chars i else i)"
    using True by (simp add: end_word_def i_def Let_def)
  show ?thesis
  proof (cases "i < length chars")
    case False
    then have "\<not> word_end alnum big chars k" if "col < k" for k using that blanks [of k] by (auto simp: word_end_def)
    moreover have "end_word alnum big chars col = length chars"
      using False i by (simp add: run)
    ultimately show ?thesis using True by auto
  next
    case inside: True
    have nws: "\<not> is_ws (chars ! i)" using inside skip_while_stop [of is_ws chars "col + 1"] by (simp add: i_def)
    obtain p where p: "run_of alnum big p" "p (chars ! i)" "end_word alnum big chars col = extend_while p chars i"
      using assms
    proof (cases rule: run_cases [of alnum big "chars ! i"])
      case word
      with inside show ?thesis by (intro that [of "is_word alnum big"]) (simp_all add: run)
    next
      case sep
      with inside run show ?thesis by (intro that [of "is_sep alnum"]) simp_all
    qed (use nws in blast)
    let ?e = "extend_while p chars i"
    note e = extend_run [OF assms p(1,2) inside]
    have none: "\<not> word_end alnum big chars k" if "col < k" "k < ?e" for k
      using that blanks [of k] e(2) [of k] by (cases "k < i") auto
    have gt: "col < ?e" using i extend_while_ge [of i p chars] by linarith
    have "(LEAST j. col < j \<and> word_end alnum big chars j) = ?e"
      by (rule Least_equality) (use e(1) gt none in \<open>auto simp: not_less [symmetric]\<close>)
    with e(1) gt p(3) show ?thesis by auto
  qed
qed

text \<open>C22: The word motions of copy mode, for both kinds of words, land exactly where they should, letters and
  digits not being white space. Next word goes to the nearest start of a word to the right and stays when
  there is none. Previous word goes to the nearest start of a word to the left and to the first column when
  there is none; it has no result, which is a panic, exactly when the cursor is more than one column beyond
  the end of the text of the line. End of word goes to the nearest end of a word to the right; when there is
  none it goes behind the text, or stays when the cursor is there already.\<close>

theorem word_motions_land:
  assumes "proper_alnum alnum"
  shows "word_column alnum (if big then NextBigWord else NextWord) chars col =
      Some (if \<exists>j>col. word_start alnum big chars j then LEAST j. col < j \<and> word_start alnum big chars j else col)
    \<and> word_column alnum (if big then PrevBigWord else PrevWord) chars col =
      (if length chars < col then None else
       Some (if \<exists>j<col. word_start alnum big chars j then GREATEST j. j < col \<and> word_start alnum big chars j else 0))
    \<and> word_column alnum (if big then EndBigWord else EndWord) chars col =
      Some (if \<exists>j>col. word_end alnum big chars j then LEAST j. col < j \<and> word_end alnum big chars j
        else if col + 1 < length chars then length chars else col)"
  using next_word_lands [OF assms, of big chars col] prev_word_lands [OF assms, of big chars col]
    end_word_lands [OF assms, of big chars col] by (cases big) (simp_all add: word_column_def)

theorem word_motions_land_witness:
  "let alnum = (\<lambda>c. c \<in> {''a'', ''b'', ''c''}); line = [''a'', ''b'', '','', '' '', ''c'']
   in proper_alnum alnum \<and> word_column alnum NextWord line 4 = Some 4 \<and> word_start alnum False line 2
     \<and> word_column alnum PrevWord line 6 = None \<and> word_column alnum EndBigWord line 2 = Some 4"
proof -
  define alnum where "alnum = (\<lambda>c :: str. c \<in> {''a'', ''b'', ''c''})"
  define line where "line = [''a'', ''b'', '','', '' '', ''c'']"
  have alnum: "proper_alnum alnum" by (simp add: proper_alnum_def alnum_def ws_chars_def)
  note land = word_motions_land [OF alnum, of False line] word_motions_land [OF alnum, of True line]
  have none: "\<not> (\<exists>j>4. word_start alnum False line j)" by (auto simp: word_start_def line_def)
  have "word_end alnum True line 4" by (simp add: word_end_def line_def is_ws_def ws_chars_def)
  moreover have "\<not> word_end alnum True line 3" by (simp add: word_end_def line_def is_ws_def ws_chars_def)
  ultimately have "(LEAST j. 2 < j \<and> word_end alnum True line j) = 4"
  proof (intro Least_equality)
    fix y assume "\<not> word_end alnum True line 3" "2 < y \<and> word_end alnum True line y"
    then show "4 \<le> y" by (cases "y = 3") auto
  qed simp
  moreover have "word_start alnum False line 2"
    by (simp add: word_start_def same_kind_def line_def is_ws_def ws_chars_def alnum_def)
  moreover have "\<exists>j>2. word_end alnum True line j" using \<open>word_end alnum True line 4\<close> by (auto intro: exI [of _ 4])
  moreover have "length line = 5" by (simp add: line_def)
  ultimately show ?thesis using alnum land(1) [of 4] land(1) [of 6] land(2) [of 2] none
    unfolding alnum_def [symmetric] line_def [symmetric] Let_def by simp
qed

section \<open>Matching brackets\<close>

text \<open>Opening minus closing brackets in a piece of the line.\<close>

definition bracket_sum :: "str \<Rightarrow> str \<Rightarrow> str list \<Rightarrow> int" where
  "bracket_sum opn cls xs = sum_list (map (\<lambda>x. (if x = opn then 1 else 0) - (if x = cls then 1 else 0)) xs)"

definition seg :: "str \<Rightarrow> str \<Rightarrow> str list \<Rightarrow> nat \<Rightarrow> nat \<Rightarrow> int" where
  "seg opn cls chars a b = bracket_sum opn cls (take (b - a) (drop a chars))"

lemma bracket_sum_simps [simp]:
  "bracket_sum opn cls [] = 0"
  "bracket_sum opn cls (x # xs) = (if x = opn then 1 else 0) - (if x = cls then 1 else 0) + bracket_sum opn cls xs"
  "bracket_sum opn cls (xs @ ys) = bracket_sum opn cls xs + bracket_sum opn cls ys"
  by (simp_all add: bracket_sum_def)

lemma seg_same [simp]: "seg opn cls chars a a = 0"
  by (simp add: seg_def)

lemma seg_split: "a \<le> b \<Longrightarrow> b \<le> c \<Longrightarrow> seg opn cls chars a c = seg opn cls chars a b + seg opn cls chars b c"
proof -
  assume "a \<le> b" "b \<le> c"
  then have "take (c - a) (drop a chars) = take (b - a) (drop a chars) @ take (c - b) (drop b chars)"
    using take_add [of "b - a" "c - b" "drop a chars"] by simp
  then show ?thesis by (simp add: seg_def)
qed

lemma seg_one:
  assumes "a < length chars"
  shows "seg opn cls chars a (Suc a) = (if chars ! a = opn then 1 else 0) - (if chars ! a = cls then 1 else 0)"
proof -
  have "take (Suc a - a) (drop a chars) = [chars ! a]"
    using Cons_nth_drop_Suc [OF assms, symmetric] by simp
  then show ?thesis by (simp add: seg_def)
qed

text \<open>The first zero of a function from a position on, and the last one below a position.\<close>

definition first_zero :: "(nat \<Rightarrow> int) \<Rightarrow> nat \<Rightarrow> nat \<Rightarrow> nat \<Rightarrow> bool" where
  "first_zero f i n j \<longleftrightarrow> i \<le> j \<and> j < n \<and> f j = 0 \<and> (\<forall>m. i \<le> m \<and> m < j \<longrightarrow> f m \<noteq> 0)"

definition last_zero :: "(nat \<Rightarrow> int) \<Rightarrow> nat \<Rightarrow> nat \<Rightarrow> bool" where
  "last_zero f n j \<longleftrightarrow> j < n \<and> f j = 0 \<and> (\<forall>k. j < k \<and> k < n \<longrightarrow> f k \<noteq> 0)"

lemma first_zero_step:
  assumes "i < n"
  shows "first_zero f i n j \<longleftrightarrow> (if f i = 0 then j = i else first_zero f (Suc i) n j)"
proof (cases "f i = 0")
  case True
  then show ?thesis using assms by (auto simp: first_zero_def dest: spec [of _ i])
next
  case False
  then have "j \<noteq> i" if "f j = 0" using that by auto
  moreover have "(\<forall>m. i \<le> m \<and> m < j \<longrightarrow> f m \<noteq> 0) \<longleftrightarrow> (\<forall>m. Suc i \<le> m \<and> m < j \<longrightarrow> f m \<noteq> 0)"
    using False by (metis Suc_le_eq le_eq_less_or_eq)
  ultimately show ?thesis using False by (auto simp: first_zero_def Suc_le_eq)
qed

lemma last_zero_step: "last_zero f (Suc n) j \<longleftrightarrow> (if f n = 0 then j = n else last_zero f n j)"
proof (cases "f n = 0")
  case True
  then show ?thesis by (auto simp: last_zero_def dest: spec [of _ n])
next
  case False
  then show ?thesis by (auto simp: last_zero_def less_Suc_eq)
qed

lemma first_zero_cong: "(\<And>m. i \<le> m \<Longrightarrow> f m = g m) \<Longrightarrow> first_zero f i n j = first_zero g i n j"
  by (auto simp: first_zero_def)

lemma last_zero_cong: "(\<And>m. m < n \<Longrightarrow> f m = g m) \<Longrightarrow> last_zero f n j = last_zero g n j"
  by (auto simp: last_zero_def)

lemma close_from_seg:
  "close_from opn cls d i (drop i chars) = Some j \<longleftrightarrow>
     first_zero (\<lambda>m. d + seg opn cls chars i (Suc m)) i (length chars) j"
proof (induction "length chars - i" arbitrary: i d)
  case 0
  then show ?case by (simp add: first_zero_def)
next
  case (Suc n)
  then have i: "i < length chars" by simp
  define e where "e = d + (if chars ! i = opn then 1 else 0) - (if chars ! i = cls then 1 else 0)"
  have step: "close_from opn cls d i (drop i chars) =
      (if e = 0 then Some i else close_from opn cls e (Suc i) (drop (Suc i) chars))"
    unfolding Cons_nth_drop_Suc [OF i, symmetric] e_def by (simp only: close_from.simps Let_def)
  have at: "d + seg opn cls chars i (Suc i) = e"
    using seg_one [OF i, of opn cls] by (simp add: e_def)
  have shift: "d + seg opn cls chars i (Suc m) = e + seg opn cls chars (Suc i) (Suc m)" if "Suc i \<le> m" for m
    using that seg_split [of i "Suc i" "Suc m" opn cls chars] at by simp
  have "close_from opn cls e (Suc i) (drop (Suc i) chars) = Some j \<longleftrightarrow>
      first_zero (\<lambda>m. e + seg opn cls chars (Suc i) (Suc m)) (Suc i) (length chars) j"
    by (rule Suc.hyps(1)) (use Suc.hyps(2) in simp)
  also have "\<dots> \<longleftrightarrow> first_zero (\<lambda>m. d + seg opn cls chars i (Suc m)) (Suc i) (length chars) j"
    using shift by (intro first_zero_cong) simp
  finally show ?case
    unfolding step first_zero_step [OF i] at by auto
qed

lemma open_below_seg:
  "n \<le> length chars \<Longrightarrow> open_below opn cls d chars n = Some j \<longleftrightarrow> last_zero (\<lambda>k. d - seg opn cls chars k n) n j"
proof (induction n arbitrary: d)
  case 0
  then show ?case by (simp add: last_zero_def)
next
  case (Suc n)
  then have n: "n < length chars" by simp
  define e where "e = d + (if chars ! n = cls then 1 else 0) - (if chars ! n = opn then 1 else 0)"
  have step: "open_below opn cls d chars (Suc n) = (if e = 0 then Some n else open_below opn cls e chars n)"
    unfolding e_def by (simp only: open_below.simps Let_def)
  have at: "d - seg opn cls chars n (Suc n) = e"
    using seg_one [OF n, of opn cls] by (simp add: e_def)
  have shift: "d - seg opn cls chars k (Suc n) = e - seg opn cls chars k n" if "k < n" for k
    using that seg_split [of k n "Suc n" opn cls chars] at by simp
  have "open_below opn cls e chars n = Some j \<longleftrightarrow> last_zero (\<lambda>k. e - seg opn cls chars k n) n j"
    using Suc by simp
  also have "\<dots> \<longleftrightarrow> last_zero (\<lambda>k. d - seg opn cls chars k (Suc n)) n j"
    using shift by (intro last_zero_cong) simp
  finally show ?case
    unfolding step last_zero_step at by auto
qed

lemma stays_positive:
  fixes f :: "nat \<Rightarrow> int"
  assumes "\<And>n. n < k \<Longrightarrow> f n - 1 \<le> f (Suc n)" and "\<And>n. n \<le> k \<Longrightarrow> f n \<noteq> 0" and "0 < f 0"
  shows "0 < f k"
  using assms
proof (induction k)
  case (Suc k)
  then have "0 < f k" by simp
  with Suc.prems(1) [of k] Suc.prems(2) [of "Suc k"] show ?case by simp
qed simp

lemma bracket_of_Some:
  "bracket_of ch = Some (opn, cls, b) \<longleftrightarrow> (opn, cls) \<in> set bracket_pairs \<and> b = (ch = opn) \<and> (ch = opn \<or> ch = cls)"
  by (auto simp: bracket_of_def bracket_pairs_def)

lemma bracket_pairs_neq: "(opn, cls) \<in> set bracket_pairs \<Longrightarrow> opn \<noteq> cls"
  by (auto simp: bracket_pairs_def)

lemma first_bracket_here:
  "i < length chars \<Longrightarrow> bracket_of (chars ! i) = Some (opn, cls, b) \<Longrightarrow>
    first_bracket i (drop i chars) = Some (i, opn, cls, b)"
  using Cons_nth_drop_Suc [of i chars, symmetric] by simp

text \<open>Two brackets of a kind belong together: the piece of the line from the one to the other has as many
  closing as opening brackets of this kind, and every shorter piece from the same start has more opening ones.\<close>

definition partners :: "str \<Rightarrow> str \<Rightarrow> str list \<Rightarrow> nat \<Rightarrow> nat \<Rightarrow> bool" where
  "partners opn cls chars a b \<longleftrightarrow> a < b \<and> b < length chars \<and> chars ! a = opn \<and> chars ! b = cls
     \<and> seg opn cls chars a (Suc b) = 0 \<and> (\<forall>m. a \<le> m \<and> m < b \<longrightarrow> 0 < seg opn cls chars a (Suc m))"

lemma close_from_partners:
  assumes "i < length chars" "chars ! i = opn" "opn \<noteq> cls"
  shows "close_from opn cls 0 i (drop i chars) = Some j \<longleftrightarrow> partners opn cls chars i j"
proof
  assume "partners opn cls chars i j"
  then show "close_from opn cls 0 i (drop i chars) = Some j"
    by (auto simp: close_from_seg first_zero_def partners_def)
next
  assume "close_from opn cls 0 i (drop i chars) = Some j"
  then have fz: "first_zero (\<lambda>m. seg opn cls chars i (Suc m)) i (length chars) j" by (simp add: close_from_seg)
  have one: "seg opn cls chars i (Suc i) = 1" using assms seg_one [of i chars opn cls] by simp
  then have "i \<noteq> j" using fz by (auto simp: first_zero_def)
  then have ij: "i < j" using fz by (simp add: first_zero_def)
  have j: "j < length chars" "seg opn cls chars i (Suc j) = 0" using fz by (simp_all add: first_zero_def)
  have pos: "0 < seg opn cls chars i (Suc (i + k))" if k: "i + k < j" for k
  proof (rule stays_positive [of k "\<lambda>n. seg opn cls chars i (Suc (i + n))"])
    fix n assume "n < k"
    then show "seg opn cls chars i (Suc (i + n)) - 1 \<le> seg opn cls chars i (Suc (i + Suc n))"
      using seg_split [of i "Suc (i + n)" "Suc (i + Suc n)" opn cls chars] seg_one [of "Suc (i + n)" chars opn cls] j k by simp
  next
    fix n assume "n \<le> k"
    then have "i \<le> i + n \<and> i + n < j" using k by simp
    then show "seg opn cls chars i (Suc (i + n)) \<noteq> 0" using fz unfolding first_zero_def by blast
  qed (simp add: one)
  have "0 < seg opn cls chars i j" using pos [of "j - 1 - i"] ij by simp
  then have "chars ! j = cls"
    using j seg_split [of i j "Suc j" opn cls chars] seg_one [OF j(1), of opn cls] ij by (auto split: if_splits)
  moreover have "0 < seg opn cls chars i (Suc m)" if "i \<le> m \<and> m < j" for m using pos [of "m - i"] that by simp
  ultimately show "partners opn cls chars i j" using ij j assms(2) by (simp add: partners_def)
qed

lemma open_below_partners:
  assumes "i < length chars" "chars ! i = cls" "opn \<noteq> cls"
  shows "open_below opn cls 0 chars (Suc i) = Some j \<longleftrightarrow> partners opn cls chars j i"
proof
  assume p: "partners opn cls chars j i"
  then have zero: "seg opn cls chars j (Suc i) = 0" and ji: "j < i" by (simp_all add: partners_def)
  have "last_zero (\<lambda>k. 0 - seg opn cls chars k (Suc i)) (Suc i) j"
    unfolding last_zero_def
  proof (intro conjI allI impI)
    fix k assume k: "j < k \<and> k < Suc i"
    then have "j \<le> k - 1 \<and> k - 1 < i" by auto
    then have "0 < seg opn cls chars j (Suc (k - 1))" using p unfolding partners_def by blast
    then show "0 - seg opn cls chars k (Suc i) \<noteq> 0"
      using k seg_split [of j k "Suc i" opn cls chars] zero by simp
  qed (use ji zero in simp_all)
  then show "open_below opn cls 0 chars (Suc i) = Some j"
    using open_below_seg [of "Suc i" chars opn cls 0 j] assms(1) by simp
next
  assume "open_below opn cls 0 chars (Suc i) = Some j"
  then have lz: "last_zero (\<lambda>k. 0 - seg opn cls chars k (Suc i)) (Suc i) j"
    using assms(1) by (simp add: open_below_seg del: open_below.simps)
  have one: "seg opn cls chars i (Suc i) = - 1" using assms seg_one [of i chars opn cls] by simp
  then have "j \<noteq> i" using lz by (auto simp: last_zero_def)
  then have ji: "j < i" using lz by (simp add: last_zero_def)
  have zero: "seg opn cls chars j (Suc i) = 0" using lz by (simp add: last_zero_def)
  have neg: "0 < - seg opn cls chars (i - k) (Suc i)" if k: "j < i - k" for k
  proof (rule stays_positive [of k "\<lambda>n. - seg opn cls chars (i - n) (Suc i)"])
    fix n assume n: "n < k"
    then have s: "Suc (i - Suc n) = i - n" using k by simp
    then show "- seg opn cls chars (i - n) (Suc i) - 1 \<le> - seg opn cls chars (i - Suc n) (Suc i)"
      using n seg_split [of "i - Suc n" "i - n" "Suc i" opn cls chars] seg_one [of "i - Suc n" chars opn cls] assms(1) by simp
  next
    fix n assume "n \<le> k"
    then have "j < i - n \<and> i - n < Suc i" using k by arith
    then show "- seg opn cls chars (i - n) (Suc i) \<noteq> 0" using lz unfolding last_zero_def by fastforce
  qed (simp add: one)
  have below: "seg opn cls chars k (Suc i) < 0" if "j < k" "k \<le> i" for k using neg [of "i - k"] that by simp
  have "0 < seg opn cls chars j (Suc m)" if "j \<le> m \<and> m < i" for m
    using that below [of "Suc m"] zero seg_split [of j "Suc m" "Suc i" opn cls chars] by simp
  moreover have "chars ! j = opn"
    using below [of "Suc j"] zero ji assms(1) seg_split [of j "Suc j" "Suc i" opn cls chars] seg_one [of j chars opn cls]
    by (auto split: if_splits)
  ultimately show "partners opn cls chars j i" using ji zero assms(1,2) by (simp add: partners_def)
qed

text \<open>C23: The matching-bracket motion, on a bracket, goes to its partner in the balanced sense, counting nested
  pairs of the same kind only - round, square or curly - and ignoring the other kinds; it has no result when
  there is no partner. From the partner the motion returns.\<close>

theorem bracket_jump_returns:
  assumes "col < length chars" and "(opn, cls) \<in> {(''('', '')''), (''['', '']''), (''{'', ''}'')}"
    and "chars ! col = (if is_open then opn else cls)"
  shows "(bracket_column chars col = Some i \<longleftrightarrow>
      (if is_open then partners opn cls chars col i else partners opn cls chars i col))
    \<and> (bracket_column chars col = Some i \<longrightarrow> bracket_column chars i = Some col)"
proof -
  have pair: "(opn, cls) \<in> set bracket_pairs" using assms(2) by (simp add: bracket_pairs_def)
  note neq = bracket_pairs_neq [OF pair]
  have land: "bracket_column chars c = Some j \<longleftrightarrow> (if b then partners opn cls chars c j else partners opn cls chars j c)"
    if "c < length chars" "chars ! c = (if b then opn else cls)" for c j b
  proof -
    have "bracket_of (chars ! c) = Some (opn, cls, b)" using that pair neq by (auto simp: bracket_of_Some)
    then have "bracket_column chars c = (if b then close_from opn cls 0 c (drop c chars) else open_below opn cls 0 chars (Suc c))"
      using that(1) by (simp add: bracket_column_def first_bracket_here del: open_below.simps)
    then show ?thesis
      using that neq close_from_partners [of c chars opn cls j] open_below_partners [of c chars cls opn j]
      by (simp del: open_below.simps)
  qed
  have "bracket_column chars i = Some col" if "bracket_column chars col = Some i"
  proof -
    have "if is_open then partners opn cls chars col i else partners opn cls chars i col"
      using land [OF assms(1,3), of i] that by blast
    then have "i < length chars" "chars ! i = (if \<not> is_open then opn else cls)"
      "if \<not> is_open then partners opn cls chars i col else partners opn cls chars col i"
      by (auto simp: partners_def split: if_splits)
    then show ?thesis using land [of i "\<not> is_open" col] by blast
  qed
  with land [OF assms(1,3)] show ?thesis by blast
qed

theorem bracket_jump_returns_witness:
  "let line = [''['', ''f'', ''('', ''x'', '']'', ''('', '')'', '')'']
   in bracket_column line 2 = Some 7 \<and> bracket_column line 7 = Some 2 \<and> partners ''('' '')'' line 2 7"
proof -
  define line where "line = [''['', ''f'', ''('', ''x'', '']'', ''('', '')'', '')'']"
  have at: "2 < length line" "line ! 2 = (if True then ''('' else '')'')" by (simp_all add: line_def)
  have two: "bracket_column line 2 = Some 7"
    by (simp add: line_def bracket_column_def bracket_of_def bracket_pairs_def)
  then have "bracket_column line 7 = Some 2 \<and> partners ''('' '')'' line 2 7"
    using bracket_jump_returns [OF at(1) _ at(2), of 7] by simp
  with two show ?thesis by (simp only: line_def Let_def)
qed

end
