(* ===== verification/CommandPrompt.thy ===== *)
theory CommandPrompt
  imports CopyMoves
begin

text \<open>
  The command prompt (\<open>src/command_prompt.rs\<close> and its keys in \<open>src/runtime_input.rs\<close>): the table of
  commands, the ranking of the suggestions, and what a key does to the prompt. The conversion to lower
  case is an argument. Cutting a text inside a character, which panics, is the outer \<open>None\<close>.
\<close>

section \<open>Commands and suggestions\<close>

record command_def =
  cd_name :: str
  cd_description :: str
  cd_args :: str

definition COMMANDS :: "command_def list" where
  "COMMANDS =
    [command_def.make ''split-right'' ''split pane to the right'' [],
     command_def.make ''split-down'' ''split pane downward'' [],
     command_def.make ''split-left'' ''split pane to the left'' [],
     command_def.make ''split-up'' ''split pane upward'' [],
     command_def.make ''resize-left'' ''resize split left'' ''[n]'',
     command_def.make ''resize-right'' ''resize split right'' ''[n]'',
     command_def.make ''resize-up'' ''resize split up'' ''[n]'',
     command_def.make ''resize-down'' ''resize split down'' ''[n]'',
     command_def.make ''close-pane'' ''close focused pane'' [],
     command_def.make ''break-pane'' ''move the focused pane into a new tab'' [],
     command_def.make ''new-tab'' ''create a new tab'' [],
     command_def.make ''next-tab'' ''switch to next tab'' [],
     command_def.make ''prev-tab'' ''switch to previous tab'' [],
     command_def.make ''close-tab'' ''close current tab'' [],
     command_def.make ''goto-tab'' ''jump to a tab'' ''<n>'',
     command_def.make ''next-layout'' ''switch to the next preset layout'' [],
     command_def.make ''prev-layout'' ''switch to the previous preset layout'' [],
     command_def.make ''select-layout'' ''set a specific pane layout'' ''<manual|even-horizontal|even-vertical|main-horizontal|main-vertical|tiled>'',
     command_def.make ''rebalance-layout'' ''spread the current split tree evenly'' [],
     command_def.make ''last-tab'' ''jump to the last tab'' [],
     command_def.make ''next-pane'' ''focus next pane'' [],
     command_def.make ''prev-pane'' ''focus previous pane'' [],
     command_def.make ''swap-pane-next'' ''swap focused pane with the next pane'' [],
     command_def.make ''swap-pane-prev'' ''swap focused pane with the previous pane'' [],
     command_def.make ''mark-pane'' ''mark the focused pane for later join/move operations'' [],
     command_def.make ''clear-marked-pane'' ''clear the marked pane'' [],
     command_def.make ''join-pane'' ''move the marked pane into the current split tree'' ''<right|down|left|up>'',
     command_def.make ''move-pane'' ''alias of join-pane using the marked pane'' ''<right|down|left|up>'',
     command_def.make ''rotate-panes-forward'' ''rotate pane positions forward'' [],
     command_def.make ''rotate-panes-backward'' ''rotate pane positions backward'' [],
     command_def.make ''copy-mode'' ''enter copy mode'' [],
     command_def.make ''command-prompt'' ''open command prompt'' [],
     command_def.make ''search'' ''open search'' [],
     command_def.make ''copy'' ''copy the current copy-mode selection to the clipboard'' [],
     command_def.make ''display-panes'' ''show pane numbers and jump directly to a pane'' [],
     command_def.make ''choose-buffer'' ''pick a previously copied buffer and paste it'' [],
     command_def.make ''choose-tree'' ''pick a pane from the current tab tree or another tab'' [],
     command_def.make ''find-window'' ''search tabs and visible pane content, then jump to a match'' [],
     command_def.make ''paste'' ''paste from clipboard'' [],
     command_def.make ''set-tab-title'' ''set the active tab title'' ''<title>'',
     command_def.make ''zoom'' ''toggle pane zoom'' [],
     command_def.make ''reload-config'' ''reload configuration'' [],
     command_def.make ''goto-line'' ''jump to line (copy mode)'' ''<n>'',
     command_def.make ''set'' ''set ghostty config value'' ''<key> <value>'',
     command_def.make ''load-layout'' ''load a saved layout'' ''<name>'',
     command_def.make ''save-layout'' ''save current layout'' ''<name>'',
     command_def.make ''list-layouts'' ''list available layouts'' []]"

fun match_initials :: "str list \<Rightarrow> str list \<Rightarrow> str list" where
  "match_initials [] qs = qs"
| "match_initials (part # parts) [] = []"
| "match_initials (part # parts) (q # qs) =
     match_initials parts (if starts_with q part then qs else q # qs)"

fun match_subsequence :: "str list \<Rightarrow> str list \<Rightarrow> str list" where
  "match_subsequence [] qs = qs"
| "match_subsequence (c # cs) [] = []"
| "match_subsequence (c # cs) (q # qs) = match_subsequence cs (if c = q then qs else q # qs)"

definition fuzzy_score :: "(str \<Rightarrow> str) \<Rightarrow> str \<Rightarrow> str \<Rightarrow> int" where
  "fuzzy_score lower query target =
     (if query = [] then 1
      else let ql = lower query; tl = lower target; rest = 100 - int (length target)
           in if starts_with ql tl then 100 + rest
              else if match_initials (split_on (CHR ''-'') tl) (str_chars ql) = [] then 50 + rest
              else if match_subsequence (str_chars tl) (str_chars ql) = [] then 10 + rest
              else 0)"

definition suggestion_query :: "str \<Rightarrow> str" where
  "suggestion_query input = (case split_whitespace input of [] \<Rightarrow> [] | w # _ \<Rightarrow> w)"

definition scored_commands :: "(str \<Rightarrow> str) \<Rightarrow> str \<Rightarrow> (nat \<times> int) list" where
  "scored_commands lower query =
     filter (\<lambda>(i, score). score > 0)
       (map (\<lambda>(i, cmd). (i, fuzzy_score lower query (cd_name cmd))) (enumerate 0 COMMANDS))"

definition suggestions_for :: "(str \<Rightarrow> str) \<Rightarrow> str \<Rightarrow> nat list" where
  "suggestions_for lower input =
     (let query = suggestion_query input
      in if query = [] then [0..<length COMMANDS]
         else take 7 (map fst (sort_key (\<lambda>(i, score). - score) (scored_commands lower query))))"

record command_prompt =
  cp_active :: bool
  cp_input :: str
  cp_history :: "str list"
  cp_history_idx :: "nat option"
  cp_suggestions :: "nat list"
  cp_selected :: nat

definition prompt_new :: command_prompt where
  "prompt_new = \<lparr>cp_active = False, cp_input = [], cp_history = [], cp_history_idx = None,
     cp_suggestions = [], cp_selected = 0\<rparr>"

definition update_suggestions :: "(str \<Rightarrow> str) \<Rightarrow> command_prompt \<Rightarrow> command_prompt" where
  "update_suggestions lower p = p\<lparr>cp_suggestions := suggestions_for lower (cp_input p), cp_selected := 0\<rparr>"

text \<open>The selected command; an index outside the table panics.\<close>

definition selected_command :: "command_prompt \<Rightarrow> command_def option option" where
  "selected_command p =
     (if cp_selected p < length (cp_suggestions p)
      then let i = cp_suggestions p ! cp_selected p
           in if i < length COMMANDS then Some (Some (COMMANDS ! i)) else None
      else Some None)"

definition open_prompt :: "(str \<Rightarrow> str) \<Rightarrow> str \<Rightarrow> command_prompt \<Rightarrow> command_prompt" where
  "open_prompt lower input p =
     update_suggestions lower (p\<lparr>cp_active := True, cp_input := input, cp_selected := 0, cp_history_idx := None\<rparr>)"

section \<open>Keys\<close>

datatype named_toolkit_key =
    TkEscape | TkEnter | TkBackspace | TkTab | TkArrowUp | TkArrowDown | TkArrowLeft | TkArrowRight
  | TkHome | TkEnd | TkPageUp | TkPageDown | TkDelete | TkSpace | TkOther

datatype toolkit_key = TkNamed named_toolkit_key | TkCharacter str | TkUnidentified

text \<open>\<open>truncate(pos + 1)\<close> after the last white space of the trimmed text.\<close>

definition last_ws_index :: "str list \<Rightarrow> nat option" where
  "last_ws_index chars =
     (let n = length (takeWhile (\<lambda>c. \<not> is_ws c) (rev chars))
      in if n < length chars then Some (length chars - 1 - n) else None)"

definition delete_word :: "str \<Rightarrow> str option" where
  "delete_word input =
     (let chars = str_chars (trim_end input)
      in case last_ws_index chars of
           None \<Rightarrow> Some []
         | Some i \<Rightarrow> (if length (chars ! i) = 1 then Some (concat (take (i + 1) chars)) else None))"

definition pop_char :: "str \<Rightarrow> str" where
  "pop_char s = concat (butlast (str_chars s))"

definition printable :: "str \<Rightarrow> str" where
  "printable t = concat (filter (\<lambda>ch. case ch of [] \<Rightarrow> False | c # _ \<Rightarrow> 32 \<le> byte c) (str_chars t))"

definition history_entry :: "command_prompt \<Rightarrow> nat \<Rightarrow> command_prompt option" where
  "history_entry p idx =
     (if idx < length (cp_history p)
      then Some (p\<lparr>cp_history_idx := Some idx, cp_input := cp_history p ! idx\<rparr>) else None)"

text \<open>The prompt after a key, and the command line to run.\<close>

definition prompt_key ::
  "(str \<Rightarrow> str) \<Rightarrow> toolkit_key \<Rightarrow> str option \<Rightarrow> bool \<Rightarrow> command_prompt \<Rightarrow> (command_prompt \<times> str option) option" where
  "prompt_key lower key typed control p =
     (case key of
        TkNamed TkEscape \<Rightarrow> Some (p\<lparr>cp_active := False\<rparr>, None)
      | TkNamed TkEnter \<Rightarrow>
          Some (p\<lparr>cp_active := False,
                  cp_history := (if cp_input p \<noteq> [] then cp_history p @ [cp_input p] else cp_history p)\<rparr>,
                Some (cp_input p))
      | TkNamed TkBackspace \<Rightarrow>
          map_option (\<lambda>input. (update_suggestions lower (p\<lparr>cp_input := input\<rparr>), None))
            (if control then delete_word (cp_input p) else Some (pop_char (cp_input p)))
      | TkNamed TkTab \<Rightarrow>
          map_option (\<lambda>sel. case sel of
              Some cmd \<Rightarrow> (update_suggestions lower
                  (p\<lparr>cp_input := cd_name cmd @ (if cd_args cmd = [] then [] else '' '')\<rparr>), None)
            | None \<Rightarrow> (p, None)) (selected_command p)
      | TkNamed TkArrowUp \<Rightarrow>
          (if cp_suggestions p \<noteq> []
           then Some (if cp_selected p > 0 then p\<lparr>cp_selected := cp_selected p - 1\<rparr> else p, None)
           else if cp_history p \<noteq> []
           then map_option (\<lambda>p'. (p', None)) (history_entry p
             (case cp_history_idx p of Some i \<Rightarrow> i - 1 | None \<Rightarrow> length (cp_history p) - 1))
           else Some (p, None))
      | TkNamed TkArrowDown \<Rightarrow>
          (if cp_suggestions p \<noteq> []
           then Some (if cp_selected p + 1 < length (cp_suggestions p)
                      then p\<lparr>cp_selected := cp_selected p + 1\<rparr> else p, None)
           else case cp_history_idx p of
             Some idx \<Rightarrow>
               (if idx + 1 < length (cp_history p)
                then map_option (\<lambda>p'. (p', None)) (history_entry p (idx + 1))
                else Some (p\<lparr>cp_history_idx := None, cp_input := []\<rparr>, None))
           | None \<Rightarrow> Some (p, None))
      | TkNamed TkHome \<Rightarrow> Some (p, None)
      | _ \<Rightarrow>
          Some (if control then p
                else case typed of
                  Some t \<Rightarrow> update_suggestions lower (p\<lparr>cp_input := cp_input p @ printable t\<rparr>)
                | None \<Rightarrow> p, None))"

section \<open>The ranking\<close>

lemma command_name_lengths: "cmd \<in> set COMMANDS \<Longrightarrow> 3 \<le> length (cd_name cmd) \<and> length (cd_name cmd) \<le> 21"
proof -
  have "list_all (\<lambda>cmd. 3 \<le> length (cd_name cmd) \<and> length (cd_name cmd) \<le> 21) COMMANDS"
    by (simp add: COMMANDS_def command_def.defs)
  then show "cmd \<in> set COMMANDS \<Longrightarrow> ?thesis" by (simp add: list_all_iff)
qed

text \<open>Elements that match some of the others, in their order.\<close>

fun in_order :: "('a \<Rightarrow> 'b \<Rightarrow> bool) \<Rightarrow> 'a list \<Rightarrow> 'b list \<Rightarrow> bool" where
  "in_order R [] ys = True"
| "in_order R (x # xs) [] = False"
| "in_order R (x # xs) (y # ys) \<longleftrightarrow> (R x y \<and> in_order R xs ys) \<or> in_order R (x # xs) ys"

lemma in_order_tail: "in_order R (x # xs) ys \<Longrightarrow> in_order R xs ys"
proof (induction ys)
  case (Cons y ys)
  then have "in_order R xs ys" by auto
  then show ?case by (cases xs) auto
qed simp

text \<open>Taking the first match of each loses nothing.\<close>

lemma match_initials_iff: "match_initials parts qs = [] \<longleftrightarrow> in_order starts_with qs parts"
proof (induction parts qs rule: match_initials.induct)
  case (1 qs)
  then show ?case by (cases qs) auto
next
  case (3 part parts q qs)
  then show ?case using in_order_tail [of starts_with q qs parts] by auto
qed auto

lemma match_subsequence_iff: "match_subsequence cs qs = [] \<longleftrightarrow> in_order (=) qs cs"
proof (induction cs qs rule: match_subsequence.induct)
  case (1 qs)
  then show ?case by (cases qs) auto
next
  case (3 c cs q qs)
  then show ?case using in_order_tail [of "(=)" q qs cs] by auto
qed auto

text \<open>How well a name matches a query: as a prefix, with characters that start the parts of the name in their
  order, with characters of the name in their order, or not at all.\<close>

definition match_class :: "(str \<Rightarrow> str) \<Rightarrow> str \<Rightarrow> str \<Rightarrow> nat" where
  "match_class lower query name =
     (if starts_with (lower query) (lower name) then 3
      else if in_order starts_with (str_chars (lower query)) (split_on (CHR ''-'') (lower name)) then 2
      else if in_order (=) (str_chars (lower query)) (str_chars (lower name)) then 1 else 0)"

definition matching :: "(str \<Rightarrow> str) \<Rightarrow> str \<Rightarrow> nat set" where
  "matching lower query = {i. i < length COMMANDS \<and> 0 < match_class lower query (cd_name (COMMANDS ! i))}"

text \<open>The command that is shown above another one: better class, then shorter name, then earlier in the table.\<close>

definition shown_above :: "(str \<Rightarrow> str) \<Rightarrow> str \<Rightarrow> nat \<Rightarrow> nat \<Rightarrow> bool" where
  "shown_above lower query i j \<longleftrightarrow>
     (let class = (\<lambda>i. match_class lower query (cd_name (COMMANDS ! i))); len = (\<lambda>i. length (cd_name (COMMANDS ! i)))
      in class j < class i \<or> (class i = class j \<and> (len i < len j \<or> (len i = len j \<and> i < j))))"

lemma score_of_class:
  assumes "query \<noteq> []"
  shows "fuzzy_score lower query name = (case match_class lower query name of
    0 \<Rightarrow> 0 | Suc 0 \<Rightarrow> 110 - int (length name) | Suc (Suc 0) \<Rightarrow> 150 - int (length name) | _ \<Rightarrow> 200 - int (length name))"
  using assms by (simp add: fuzzy_score_def match_class_def match_initials_iff match_subsequence_iff Let_def numeral_3_eq_3)

lemma match_class_cases: "match_class lower query name \<in> {0, 1, 2, 3}"
  by (simp add: match_class_def)

lemma score_orders:
  assumes "query \<noteq> []" and "i < length COMMANDS" "j < length COMMANDS"
    and "0 < fuzzy_score lower query (cd_name (COMMANDS ! i))" "0 < fuzzy_score lower query (cd_name (COMMANDS ! j))"
  shows "shown_above lower query i j \<longleftrightarrow>
    (fuzzy_score lower query (cd_name (COMMANDS ! j)) < fuzzy_score lower query (cd_name (COMMANDS ! i))
     \<or> fuzzy_score lower query (cd_name (COMMANDS ! j)) = fuzzy_score lower query (cd_name (COMMANDS ! i)) \<and> i < j)"
  using assms(4,5) command_name_lengths [OF nth_mem [OF assms(2)]] command_name_lengths [OF nth_mem [OF assms(3)]]
    match_class_cases [of lower query "cd_name (COMMANDS ! i)"] match_class_cases [of lower query "cd_name (COMMANDS ! j)"]
  unfolding score_of_class [OF assms(1)] shown_above_def Let_def
  by (auto simp: numeral_2_eq_2 numeral_3_eq_3)

lemma score_positive:
  assumes "query \<noteq> []" and "i < length COMMANDS"
  shows "0 < fuzzy_score lower query (cd_name (COMMANDS ! i)) \<longleftrightarrow> 0 < match_class lower query (cd_name (COMMANDS ! i))"
  using command_name_lengths [OF nth_mem [OF assms(2)]] match_class_cases [of lower query "cd_name (COMMANDS ! i)"]
  unfolding score_of_class [OF assms(1)] by (auto simp: numeral_2_eq_2 numeral_3_eq_3)

text \<open>Sorting by a key keeps the order of equal elements.\<close>

lemma insort_key_stable:
  fixes f :: "'a \<Rightarrow> 'b :: linorder" and g :: "'a \<Rightarrow> nat"
  assumes "sorted_wrt (\<lambda>x y. f x < f y \<or> f x = f y \<and> g x < g y) ys" and "\<And>y. y \<in> set ys \<Longrightarrow> g x < g y"
  shows "sorted_wrt (\<lambda>x y. f x < f y \<or> f x = f y \<and> g x < g y) (insort_key f x ys)"
  using assms by (induction ys) (fastforce simp: set_insort_key)+

lemma sort_key_stable:
  fixes f :: "'a \<Rightarrow> 'b :: linorder" and g :: "'a \<Rightarrow> nat"
  assumes "sorted_wrt (\<lambda>x y. g x < g y) xs"
  shows "sorted_wrt (\<lambda>x y. f x < f y \<or> f x = f y \<and> g x < g y) (sort_key f xs)"
  using assms by (induction xs) (auto intro!: insort_key_stable simp del: insort_key.simps)

lemma enumerate_image: "(\<lambda>(i, x). (i, f x)) ` set (enumerate 0 xs) = {(i, f (xs ! i)) | i. i < length xs}"
  by (auto simp: in_set_enumerate_eq image_iff)

lemma scored_commands_set: "set (scored_commands lower query) =
    {(i, score). i < length COMMANDS \<and> score = fuzzy_score lower query (cd_name (COMMANDS ! i)) \<and> 0 < score}"
  unfolding scored_commands_def set_filter set_map enumerate_image by auto

lemma scored_commands_score:
  "(i, score) \<in> set (scored_commands lower query) \<Longrightarrow>
    i < length COMMANDS \<and> score = fuzzy_score lower query (cd_name (COMMANDS ! i)) \<and> 0 < score"
  by (simp add: scored_commands_set)

lemma suggestions_bound: "i \<in> set (suggestions_for lower input) \<Longrightarrow> i < length COMMANDS"
  using scored_commands_score
  by (fastforce simp: suggestions_for_def Let_def split: if_splits dest: in_set_takeD)

lemma scored_commands_order: "sorted_wrt (\<lambda>p q. fst p < fst q) (scored_commands lower query)"
proof -
  have "sorted_wrt (<) (map fst (map (\<lambda>(i, cmd). (i, fuzzy_score lower query (cd_name cmd))) (enumerate 0 COMMANDS)))"
    by (simp add: comp_def case_prod_beta)
  then show ?thesis unfolding scored_commands_def by (intro sorted_wrt_filter) (simp only: sorted_wrt_map)
qed

text \<open>C20: The suggestions for a query that is not empty are the best matches, at most seven and as many as there
  are. Each is shown above the next: names that start with the query come before names whose parts start with its
  characters in their order, these before names that contain its characters in their order; within a class the
  shorter name comes first, and names of the same length stand in the order of the table. Every command that is
  shown matches, and one that matches and is not shown would stand below all that are.\<close>

theorem suggestions_prefix_first:
  assumes "suggestion_query input = query" and "query \<noteq> []"
  shows "sorted_wrt (shown_above lower query) (suggestions_for lower input)
    \<and> set (suggestions_for lower input) \<subseteq> matching lower query
    \<and> length (suggestions_for lower input) = min 7 (card (matching lower query))
    \<and> (\<forall>i \<in> set (suggestions_for lower input). \<forall>j \<in> matching lower query - set (suggestions_for lower input).
         shown_above lower query i j)"
proof -
  define ranked where "ranked = map fst (sort_key (\<lambda>(i, score). - score) (scored_commands lower query))"
  have sugg: "suggestions_for lower input = take 7 ranked"
    using assms by (simp add: suggestions_for_def ranked_def Let_def)
  have member: "i \<in> set ranked \<longleftrightarrow> i < length COMMANDS \<and> 0 < fuzzy_score lower query (cd_name (COMMANDS ! i))" for i
    unfolding ranked_def set_map set_sort scored_commands_set by force
  then have all: "set ranked = matching lower query" using score_positive [OF assms(2)] by (auto simp: matching_def)
  have "sorted_wrt (\<lambda>p q. - snd p < - snd q \<or> - snd p = - snd q \<and> fst p < fst q)
      (sort_key (\<lambda>p. - snd p) (scored_commands lower query))"
    by (rule sort_key_stable [OF scored_commands_order])
  then have "sorted_wrt (\<lambda>p q. shown_above lower query (fst p) (fst q)) (sort_key (\<lambda>p. - snd p) (scored_commands lower query))"
  proof (rule sorted_wrt_mono_rel [rotated])
    fix p q assume pq: "p \<in> set (sort_key (\<lambda>p. - snd p) (scored_commands lower query))"
      "q \<in> set (sort_key (\<lambda>p. - snd p) (scored_commands lower query))"
      "- snd p < - snd q \<or> - snd p = - snd q \<and> fst p < fst q"
    then show "shown_above lower query (fst p) (fst q)"
      using scored_commands_score [of "fst p" "snd p" lower query] scored_commands_score [of "fst q" "snd q" lower query]
        score_orders [OF assms(2), of "fst p" "fst q" lower] by auto
  qed
  then have sorted: "sorted_wrt (shown_above lower query) ranked"
    by (simp add: ranked_def sorted_wrt_map case_prod_beta')
  have irrefl: "\<not> shown_above lower query i i" for i by (simp add: shown_above_def)
  have "distinct ranked"
    using sorted irrefl by (auto simp: distinct_conv_nth sorted_wrt_iff_nth_less) (metis linorder_neqE_nat)
  then have card: "length ranked = card (matching lower query)" using all distinct_card by metis
  have rest: "shown_above lower query i j" if "i \<in> set (take 7 ranked)" "j \<in> set ranked" "j \<notin> set (take 7 ranked)" for i j
  proof -
    have "sorted_wrt (shown_above lower query) (take 7 ranked @ drop 7 ranked)" using sorted by simp
    moreover have "j \<in> set (drop 7 ranked)" using that(2,3) by (metis Un_iff append_take_drop_id set_append)
    ultimately show ?thesis using that(1) unfolding sorted_wrt_append by blast
  qed
  have "set (take 7 ranked) \<subseteq> matching lower query" using set_take_subset [of 7 ranked] all by simp
  then show ?thesis
    using sorted_wrt_take [OF sorted, of 7] rest card all unfolding sugg by (auto simp: min.commute)
qed

theorem suggestions_prefix_first_witness:
  "sorted_wrt (shown_above to_ascii_lowercase ''split'') (suggestions_for to_ascii_lowercase ''split right'')"
  using suggestions_prefix_first [of "''split right''" "''split''" to_ascii_lowercase]
  by (simp add: suggestion_query_def split_whitespace_def split_ws.simps ws_chars_def flush_def)

section \<open>The prompt stays sound\<close>

definition history_ok :: "command_prompt \<Rightarrow> bool" where
  "history_ok p \<longleftrightarrow> (case cp_history_idx p of Some i \<Rightarrow> i < length (cp_history p) | None \<Rightarrow> True)"

definition prompt_wf :: "command_prompt \<Rightarrow> bool" where
  "prompt_wf p \<longleftrightarrow> history_ok p \<and> list_all (\<lambda>i. i < length COMMANDS) (cp_suggestions p) \<and>
     (cp_suggestions p = [] \<or> cp_selected p < length (cp_suggestions p))"

lemma history_ok_simps [simp]:
  "history_ok (p\<lparr>cp_input := s\<rparr>) = history_ok p" "history_ok (p\<lparr>cp_active := b\<rparr>) = history_ok p"
  "history_ok (p\<lparr>cp_selected := n\<rparr>) = history_ok p" "history_ok (p\<lparr>cp_suggestions := is\<rparr>) = history_ok p"
  "history_ok (p\<lparr>cp_history_idx := None\<rparr>)"
  "history_ok (p\<lparr>cp_history_idx := Some i\<rparr>) \<longleftrightarrow> i < length (cp_history p)"
  by (simp_all add: history_ok_def split: option.splits)

lemma history_ok_push [simp]: "history_ok p \<Longrightarrow> history_ok (p\<lparr>cp_history := cp_history p @ [s]\<rparr>)"
  by (auto simp: history_ok_def split: option.splits)

lemma prompt_wf_simps [simp]:
  "prompt_wf (p\<lparr>cp_active := b\<rparr>) = prompt_wf p" "prompt_wf (p\<lparr>cp_input := s\<rparr>) = prompt_wf p"
  by (simp_all add: prompt_wf_def)

lemma prompt_wf_push [simp]: "prompt_wf p \<Longrightarrow> prompt_wf (p\<lparr>cp_history := cp_history p @ [s]\<rparr>)"
  by (simp add: prompt_wf_def)

lemma prompt_wf_entered [simp]: "prompt_wf p \<Longrightarrow> prompt_wf (p\<lparr>cp_active := b, cp_history := cp_history p @ [s]\<rparr>)"
  using prompt_wf_push [of "p\<lparr>cp_active := b\<rparr>" s] by simp

lemma prompt_wf_history: "prompt_wf p \<Longrightarrow> history_ok p"
  by (simp add: prompt_wf_def)

lemma prompt_wf_new: "prompt_wf prompt_new"
  by (simp add: prompt_wf_def prompt_new_def history_ok_def)

lemma update_suggestions_wf: "history_ok p \<Longrightarrow> prompt_wf (update_suggestions lower p)"
  using suggestions_bound by (auto simp: prompt_wf_def update_suggestions_def list_all_iff)

lemma open_prompt_wf: "prompt_wf (open_prompt lower input p)"
  unfolding open_prompt_def by (rule update_suggestions_wf) simp

lemma history_entry_wf: "prompt_wf p \<Longrightarrow> history_entry p idx = Some p' \<Longrightarrow> prompt_wf p'"
  by (auto simp: history_entry_def prompt_wf_def split: if_splits)

lemma history_entry_safe: "idx < length (cp_history p) \<Longrightarrow> history_entry p idx \<noteq> None"
  by (simp add: history_entry_def)

lemma history_up_safe: "prompt_wf p \<Longrightarrow> cp_history p \<noteq> [] \<Longrightarrow>
    history_entry p (case cp_history_idx p of Some i \<Rightarrow> i - 1 | None \<Rightarrow> length (cp_history p) - 1) \<noteq> None"
  by (rule history_entry_safe) (auto simp: prompt_wf_def history_ok_def split: option.splits)

lemma selected_command_safe: "prompt_wf p \<Longrightarrow> selected_command p \<noteq> None"
  by (auto simp: prompt_wf_def selected_command_def list_all_iff Let_def)

lemma prompt_wf_typed: "prompt_wf p \<Longrightarrow>
    prompt_wf (if control then p else case typed of
      Some t \<Rightarrow> update_suggestions lower (p\<lparr>cp_input := cp_input p @ printable t\<rparr>) | None \<Rightarrow> p)"
  by (cases typed) (simp_all add: update_suggestions_wf prompt_wf_history)

lemma prompt_key_result:
  assumes "prompt_wf p"
  shows "case prompt_key lower key typed control p of
      Some (p', run) \<Rightarrow> prompt_wf p' \<and> (run \<noteq> None \<longleftrightarrow> key = TkNamed TkEnter)
    | None \<Rightarrow> key = TkNamed TkBackspace \<and> control \<and> (let chars = str_chars (trim_end (cp_input p)) in
        \<exists>i. last_ws_index chars = Some i \<and> length (chars ! i) \<noteq> 1)"
proof (cases key)
  case (TkNamed n)
  show ?thesis
  proof (cases n)
    case TkBackspace
    with TkNamed assms show ?thesis
      by (auto simp: prompt_key_def delete_word_def Let_def update_suggestions_wf prompt_wf_history split: option.splits)
  next
    case TkTab
    obtain c where "selected_command p = Some c" using selected_command_safe [OF assms] by auto
    with TkNamed TkTab assms show ?thesis
      by (auto simp: prompt_key_def update_suggestions_wf prompt_wf_history split: option.splits)
  next
    case TkArrowUp
    show ?thesis
    proof (cases "cp_suggestions p = [] \<and> cp_history p \<noteq> []")
      case True
      then obtain p' where "history_entry p (case cp_history_idx p of Some i \<Rightarrow> i - 1 | None \<Rightarrow> length (cp_history p) - 1) = Some p'"
        using history_up_safe [OF assms] by auto
      with True TkNamed TkArrowUp history_entry_wf [OF assms this] show ?thesis by (simp add: prompt_key_def)
    next
      case False
      with TkNamed TkArrowUp assms show ?thesis by (auto simp: prompt_key_def prompt_wf_def)
    qed
  next
    case TkArrowDown
    show ?thesis
    proof (cases "cp_suggestions p = []")
      case True
      with TkNamed TkArrowDown assms show ?thesis
        by (auto simp: prompt_key_def history_entry_def prompt_wf_def split: option.splits)
    next
      case False
      with TkNamed TkArrowDown assms show ?thesis by (auto simp: prompt_key_def prompt_wf_def)
    qed
  qed (use TkNamed assms prompt_wf_typed [OF assms] in \<open>auto simp: prompt_key_def\<close>)
qed (use prompt_wf_typed [OF assms] in \<open>simp_all add: prompt_key_def\<close>)

text \<open>C19: The prompt stays sound. Whatever key arrives, the place in the history and the selected
  suggestion stay in range, so that no lookup panics, and only Enter runs a command. The one panic is
  Ctrl and backspace when the last white space of the input, apart from any at its end, is a character of
  several bytes, such as an ideographic space: the text is then cut inside it.\<close>

theorem prompt_key_sound:
  assumes "prompt_wf p"
  shows "case prompt_key lower key typed control p of
      Some (p', run) \<Rightarrow> prompt_wf p' \<and> (run \<noteq> None \<longleftrightarrow> key = TkNamed TkEnter)
    | None \<Rightarrow> key = TkNamed TkBackspace \<and> control \<and> (let chars = str_chars (trim_end (cp_input p)) in
        \<exists>i. last_ws_index chars = Some i \<and> length (chars ! i) \<noteq> 1)"
  using assms by (rule prompt_key_result)

text \<open>An ideographic space between two letters.\<close>

theorem prompt_key_sound_witness:
  "prompt_key to_ascii_lowercase (TkNamed TkBackspace) None True
     (prompt_new\<lparr>cp_input := ''a'' @ [CHR 0xE3, CHR 0x80, CHR 0x80] @ ''b''\<rparr>) = None \<and>
   prompt_wf (fst (the (prompt_key to_ascii_lowercase (TkNamed TkEscape) None False prompt_new)))"
proof
  have trim: "trim_end (''a'' @ [CHR 0xE3, CHR 0x80, CHR 0x80] @ ''b'') = ''a'' @ [CHR 0xE3, CHR 0x80, CHR 0x80] @ ''b''"
    by (simp add: trim_end_def trim_rev.simps ws_chars_def)
  show "prompt_key to_ascii_lowercase (TkNamed TkBackspace) None True
     (prompt_new\<lparr>cp_input := ''a'' @ [CHR 0xE3, CHR 0x80, CHR 0x80] @ ''b''\<rparr>) = None"
    unfolding prompt_key_def prompt_new_def
    by (simp add: delete_word_def trim [simplified] last_ws_index_def is_ws_def ws_chars_def continuation_def)
  show "prompt_wf (fst (the (prompt_key to_ascii_lowercase (TkNamed TkEscape) None False prompt_new)))"
    using prompt_key_sound [OF prompt_wf_new, where lower = to_ascii_lowercase and key = "TkNamed TkEscape" and
        typed = None and control = False]
    by (simp split: option.splits prod.splits)
qed

end
