(* ===== verification/SelectionText.thy ===== *)
theory SelectionText
  imports ClientDecode RustText
begin

text \<open>
  Reading a selection (\<open>src/vt_snapshot.rs\<close>, \<open>src/runtime_copy.rs\<close>, \<open>src/runtime_input.rs\<close>): the text of a
  range of cells of a screen, the rectangles that highlight the range, and the order of its ends.
  Rows count from the top of the scrollback and are integers, columns natural numbers.
\<close>

section \<open>The text of a selection\<close>

text \<open>The two corners of a selection in the coordinates of the viewport.\<close>

record surface_selection =
  sel_x1 :: nat
  sel_y1 :: nat
  sel_x2 :: nat
  sel_y2 :: nat
  sel_rectangle :: bool

definition cell_text_or_space :: "cell_snapshot list \<Rightarrow> nat \<Rightarrow> str" where
  "cell_text_or_space row col =
     (if col < length row
      then let t = utf8_str (cs_text (row ! col)) in if t = [] \<or> t = [CHR 0x00] then '' '' else t
      else '' '')"

definition trim_end_spaces :: "str \<Rightarrow> str" where
  "trim_end_spaces s = rev (dropWhile (\<lambda>c. c = CHR '' '') (rev s))"

definition row_text :: "cell_snapshot list \<Rightarrow> nat \<Rightarrow> nat \<Rightarrow> bool \<Rightarrow> str" where
  "row_text row start_col end_col preserve_trailing_spaces =
     (if row = [] \<or> start_col > end_col then []
      else let out = concat (map (cell_text_or_space row) [start_col..<Suc end_col])
           in if preserve_trailing_spaces then out else trim_end_spaces out)"

definition join_lines :: "str list \<Rightarrow> str" where
  "join_lines ls = (case ls of [] \<Rightarrow> [] | l # ls' \<Rightarrow> l @ concat (map (\<lambda>s. nl # s) ls'))"

definition selection_text :: "terminal_snapshot \<Rightarrow> surface_selection \<Rightarrow> str" where
  "selection_text snapshot s =
     (let start_row = min (sel_y1 s) (sel_y2 s);
          end_row = max (sel_y1 s) (sel_y2 s);
          start_col = min (sel_x1 s) (sel_x2 s);
          end_col = max (sel_x1 s) (sel_x2 s);
          max_row = length (rows_data snapshot) - 1
      in join_lines (map (\<lambda>row_index.
           let row = (if row_index < length (rows_data snapshot) then rows_data snapshot ! row_index else []);
               line_start = (if sel_rectangle s \<or> row_index = start_row then start_col else 0);
               line_end = (if sel_rectangle s \<or> row_index = end_row then end_col
                           else unat (ts_cols snapshot) - 1)
           in row_text row line_start line_end (sel_rectangle s))
         [min start_row max_row ..< Suc (min end_row max_row)]))"

section \<open>The ends of a selection\<close>

text \<open>The earlier of the two ends first.\<close>

definition ordered_ends :: "int \<times> nat \<Rightarrow> int \<times> nat \<Rightarrow> int \<times> nat \<times> int \<times> nat" where
  "ordered_ends anchor cursor =
     (let (ar, ac) = anchor; (cr, cc) = cursor
      in if ar < cr \<or> (ar = cr \<and> ac \<le> cc) then (ar, ac, cr, cc) else (cr, cc, ar, ac))"

record mouse_selection =
  ms_pane_id :: u64
  ms_anchor_row :: int
  ms_anchor_col :: nat
  ms_cursor_row :: int
  ms_cursor_col :: nat

definition has_range :: "mouse_selection \<Rightarrow> bool" where
  "has_range s \<longleftrightarrow> ms_anchor_row s \<noteq> ms_cursor_row s \<or> ms_anchor_col s \<noteq> ms_cursor_col s"

definition ordered_selection_bounds :: "mouse_selection \<Rightarrow> int \<times> nat \<times> int \<times> nat" where
  "ordered_selection_bounds s =
     ordered_ends (ms_anchor_row s, ms_anchor_col s) (ms_cursor_row s, ms_cursor_col s)"

text \<open>A row as the backend takes it: \<open>max 0\<close>, then the cast to 32 bits.\<close>

definition viewport_row :: "int \<Rightarrow> nat \<Rightarrow> nat" where
  "viewport_row r offset = nat (max 0 (r - int offset)) mod 2 ^ 32"

definition viewport_selection :: "nat \<Rightarrow> mouse_selection \<Rightarrow> surface_selection option" where
  "viewport_selection offset s =
     (let (top_row, left_col, bottom_row, right_col) = ordered_selection_bounds s
      in if bottom_row < int offset then None
         else Some \<lparr>sel_x1 = left_col, sel_y1 = viewport_row top_row offset, sel_x2 = right_col,
                sel_y2 = viewport_row bottom_row offset, sel_rectangle = False\<rparr>)"

section \<open>The rectangles that highlight a selection\<close>

datatype selection_mode = SelNone | SelChar | SelLine | SelRectangle

type_synonym hl_rect = "f64 \<times> f64 \<times> f64 \<times> f64"

definition compute_selection_rects ::
  "selection_mode \<Rightarrow> int \<times> nat \<Rightarrow> int \<times> nat \<Rightarrow> int \<Rightarrow> nat \<Rightarrow> f64 \<Rightarrow> f64 \<Rightarrow> f64 \<Rightarrow> hl_rect list" where
  "compute_selection_rects selection cursor anchor offset viewport_cols cell_width cell_height term_y =
     (let (r1, c1, r2, c2) = ordered_ends anchor cursor;
          full_w = real viewport_cols * cell_width;
          y = (\<lambda>r. term_y + of_int (r - offset) * cell_height)
      in case selection of
           SelChar \<Rightarrow>
             (if r1 = r2
              then [(real c1 * cell_width, y r1, (real c2 - real c1 + 1) * cell_width, cell_height)]
              else [(real c1 * cell_width, y r1, full_w - real c1 * cell_width, cell_height)]
                @ map (\<lambda>r. (0, y r, full_w, cell_height)) [r1 + 1 .. r2 - 1]
                @ [(0, y r2, (real c2 + 1) * cell_width, cell_height)])
         | SelLine \<Rightarrow> map (\<lambda>r. (0, y r, full_w, cell_height)) [r1 .. r2]
         | SelRectangle \<Rightarrow>
             (let min_c = min c1 c2; max_c = max c1 c2
              in map (\<lambda>r. (real min_c * cell_width, y r, (real max_c - real min_c + 1) * cell_width, cell_height))
                   [r1 .. r2])
         | SelNone \<Rightarrow> [])"

section \<open>What is highlighted and what is read\<close>

lemma ordered_ends_sorted:
  "ordered_ends a c = (r1, c1, r2, c2) \<Longrightarrow> r1 < r2 \<or> (r1 = r2 \<and> c1 \<le> c2)"
  by (auto simp: ordered_ends_def split: prod.splits if_splits)

lemma ordered_ends_swap: "ordered_ends a c = ordered_ends c a"
  by (auto simp: ordered_ends_def split: prod.splits)

text \<open>The cells of a selection: what lies between the two ends in reading order, the lines from one end to
  the other, or the block that the ends span.\<close>

definition reads_before :: "int \<times> nat \<Rightarrow> int \<times> nat \<Rightarrow> bool" where
  "reads_before a b \<longleftrightarrow> fst a < fst b \<or> (fst a = fst b \<and> snd a \<le> snd b)"

definition selected :: "selection_mode \<Rightarrow> int \<times> nat \<Rightarrow> int \<times> nat \<Rightarrow> int \<times> nat \<Rightarrow> bool" where
  "selected mode a b cell = (case mode of
     SelNone \<Rightarrow> False
   | SelChar \<Rightarrow> (reads_before a cell \<and> reads_before cell b) \<or> (reads_before b cell \<and> reads_before cell a)
   | SelLine \<Rightarrow> min (fst a) (fst b) \<le> fst cell \<and> fst cell \<le> max (fst a) (fst b)
   | SelRectangle \<Rightarrow> min (fst a) (fst b) \<le> fst cell \<and> fst cell \<le> max (fst a) (fst b)
       \<and> min (snd a) (snd b) \<le> snd cell \<and> snd cell \<le> max (snd a) (snd b))"

text \<open>Points of the window, rectangles without their right and lower edge, and the rectangle of a cell.\<close>

definition in_rect :: "f64 \<times> f64 \<Rightarrow> hl_rect \<Rightarrow> bool" where
  "in_rect point rect \<longleftrightarrow>
     (let (px, py) = point; (x, y, w, h) = rect in x \<le> px \<and> px < x + w \<and> y \<le> py \<and> py < y + h)"

definition cell_rect :: "f64 \<Rightarrow> f64 \<Rightarrow> f64 \<Rightarrow> int \<Rightarrow> int \<times> nat \<Rightarrow> hl_rect" where
  "cell_rect cw ch ty off cell = (real (snd cell) * cw, ty + of_int (fst cell - off) * ch, cw, ch)"

definition in_any :: "f64 \<times> f64 \<Rightarrow> hl_rect list \<Rightarrow> bool" where
  "in_any point rects \<longleftrightarrow> (\<exists>rect \<in> set rects. in_rect point rect)"

lemma in_any_simps [simp]:
  "\<not> in_any point []" "in_any point (xs @ ys) \<longleftrightarrow> in_any point xs \<or> in_any point ys"
  by (auto simp: in_any_def)

lemma columns_of_span:
  assumes "cw > 0"
  shows "real a * cw \<le> px \<and> px < real (b + 1) * cw \<longleftrightarrow>
    (\<exists>c. a \<le> c \<and> c \<le> b \<and> real c * cw \<le> px \<and> px < real c * cw + cw)" (is "?span \<longleftrightarrow> ?cell")
proof
  assume span: ?span
  define c where "c = nat \<lfloor>px / cw\<rfloor>"
  have "0 \<le> real a * cw" using assms by simp
  then have "0 \<le> px" using span by linarith
  then have c: "real c = of_int \<lfloor>px / cw\<rfloor>" using assms by (simp add: c_def)
  have at: "real c * cw \<le> px" "px < (real c + 1) * cw"
    using assms floor_divide_lower [of cw px] floor_divide_upper [of cw px] unfolding c by simp_all
  have "real a * cw < (real c + 1) * cw" "real c * cw < real (b + 1) * cw" using at span by linarith+
  then have "real a < real c + 1" "real c < real (b + 1)" using assms by (simp_all add: mult_less_cancel_right)
  then have "a \<le> c" "c \<le> b" by linarith+
  with at show ?cell by (auto simp: algebra_simps)
next
  assume ?cell
  then obtain c where c: "a \<le> c" "c \<le> b" "real c * cw \<le> px" "px < real c * cw + cw" by blast
  have "real a * cw \<le> real c * cw" "real (c + 1) * cw \<le> real (b + 1) * cw"
    using c assms by (simp_all add: mult_right_mono)
  moreover have "real (c + 1) * cw = real c * cw + cw" by (simp add: algebra_simps)
  ultimately show ?span using c(3,4) by linarith
qed

text \<open>Rows of rectangles from one column to another cover the cells in these rows and columns.\<close>

lemma in_any_block:
  assumes "cw > 0" and "x = real a * cw" and "x + w = real (b + 1) * cw"
  shows "in_any point (map (\<lambda>r. (x, ty + of_int (r - off) * ch, w, ch)) rs) \<longleftrightarrow>
    (\<exists>cell. fst cell \<in> set rs \<and> a \<le> snd cell \<and> snd cell \<le> b \<and> in_rect point (cell_rect cw ch ty off cell))"
proof -
  obtain px py where p: "point = (px, py)" by force
  have "in_any point (map (\<lambda>r. (x, ty + of_int (r - off) * ch, w, ch)) rs) \<longleftrightarrow>
      (real a * cw \<le> px \<and> px < real (b + 1) * cw) \<and>
      (\<exists>r \<in> set rs. ty + of_int (r - off) * ch \<le> py \<and> py < ty + of_int (r - off) * ch + ch)"
    unfolding in_any_def in_rect_def p assms(3) [symmetric] assms(2) by auto
  also have "\<dots> \<longleftrightarrow> (\<exists>cell. fst cell \<in> set rs \<and> a \<le> snd cell \<and> snd cell \<le> b \<and> in_rect point (cell_rect cw ch ty off cell))"
    unfolding columns_of_span [OF assms(1)] in_rect_def cell_rect_def p by (auto simp: Let_def)
  finally show ?thesis .
qed

lemma in_any_row:
  assumes "cw > 0" and "x = real a * cw" and "x + w = real (b + 1) * cw"
  shows "in_any point [(x, ty + of_int (r - off) * ch, w, ch)] \<longleftrightarrow>
    (\<exists>cell. fst cell = r \<and> a \<le> snd cell \<and> snd cell \<le> b \<and> in_rect point (cell_rect cw ch ty off cell))"
  using in_any_block [OF assms, of point ty off ch "[r]"] by simp

text \<open>C21: The rectangles drawn for a selection cover exactly the cells of the selection, point by point, in
  every mode and in both directions of the selection: a point of the window lies in one of the rectangles if and
  only if it lies in a cell of the selection. In character mode these are the cells between the two ends in
  reading order, in line mode all cells of the lines between them, in block mode the block that they span. The
  cells have a width and a height, and the ends lie within the columns of the view.\<close>

theorem highlight_covers_selection:
  assumes "cw > 0" "ch > 0" and "snd anchor < cols" "snd cursor < cols"
  shows "in_any point (compute_selection_rects mode cursor anchor off cols cw ch ty) \<longleftrightarrow>
    (\<exists>cell. snd cell < cols \<and> selected mode anchor cursor cell \<and> in_rect point (cell_rect cw ch ty off cell))"
proof -
  obtain r1 c1 r2 c2 where ends: "ordered_ends anchor cursor = (r1, c1, r2, c2)"
    by (metis prod_cases4)
  then have sorted: "r1 < r2 \<or> (r1 = r2 \<and> c1 \<le> c2)" and cols: "c1 < cols" "c2 < cols"
    using ordered_ends_sorted [OF ends] assms(3,4) by (auto simp: ordered_ends_def split: prod.splits if_splits)
  have pair: "anchor = (r1, c1) \<and> cursor = (r2, c2) \<or> anchor = (r2, c2) \<and> cursor = (r1, c1)"
    using ends by (auto simp: ordered_ends_def split: prod.splits if_splits)
  have sel: "selected m anchor cursor cell = selected m (r1, c1) (r2, c2) cell" for m cell
    using pair by (auto simp: selected_def min.commute max.commute split: selection_mode.splits)
  have inside: "b \<le> cols - Suc 0 \<longleftrightarrow> b < cols" for b using cols by auto
  have zero: "0 = real 0 * cw" by simp
  have full: "0 + real cols * cw = real (cols - 1 + 1) * cw" using cols by simp
  note rects = compute_selection_rects_def ends Let_def prod.case
  show ?thesis
  proof (cases mode)
    case SelNone
    then show ?thesis by (simp add: compute_selection_rects_def ends selected_def)
  next
    case SelLine
    then show ?thesis unfolding sel rects selection_mode.case SelLine in_any_block [OF assms(1) zero full]
      using sorted by (intro ex_cong1) (auto simp: selected_def inside)
  next
    case SelRectangle
    have block: "real (min c1 c2) * cw + (real (max c1 c2) - real (min c1 c2) + 1) * cw = real (max c1 c2 + 1) * cw"
      by (simp add: algebra_simps)
    show ?thesis unfolding sel rects selection_mode.case SelRectangle in_any_block [OF assms(1) refl block]
      using sorted cols by (intro ex_cong1) (auto simp: selected_def)
  next
    case SelChar
    have one: "real c1 * cw + (real c2 - real c1 + 1) * cw = real (c2 + 1) * cw"
      by (simp add: algebra_simps)
    have first: "real c1 * cw + (real cols * cw - real c1 * cw) = real (cols - 1 + 1) * cw"
      using cols by simp
    have last: "0 + (real c2 + 1) * cw = real (c2 + 1) * cw" by (simp add: algebra_simps)
    have "in_any point (compute_selection_rects SelChar cursor anchor off cols cw ch ty) \<longleftrightarrow>
        (\<exists>cell. (if r1 = r2 then fst cell = r1 \<and> c1 \<le> snd cell \<and> snd cell \<le> c2
           else fst cell = r1 \<and> c1 \<le> snd cell \<and> snd cell \<le> cols - 1
             \<or> fst cell \<in> set [r1 + 1 .. r2 - 1] \<and> 0 \<le> snd cell \<and> snd cell \<le> cols - 1
             \<or> fst cell = r2 \<and> 0 \<le> snd cell \<and> snd cell \<le> c2)
          \<and> in_rect point (cell_rect cw ch ty off cell))"
      unfolding rects selection_mode.case if_distrib [of "in_any point"] in_any_simps
        in_any_row [OF assms(1) refl one] in_any_row [OF assms(1) refl first] in_any_row [OF assms(1) zero last]
        in_any_block [OF assms(1) zero full] by auto
    also have "\<dots> \<longleftrightarrow> (\<exists>cell. snd cell < cols \<and> selected SelChar (r1, c1) (r2, c2) cell \<and> in_rect point (cell_rect cw ch ty off cell))"
      using sorted cols by (intro ex_cong1 conj_cong refl iffI) (auto simp: selected_def reads_before_def split: if_splits)
    finally show ?thesis unfolding sel SelChar .
  qed
qed

theorem highlight_covers_selection_witness:
  "in_any (25, 15) (compute_selection_rects SelChar (1, 0) (0, 2) 0 4 8 16 0)
    \<and> \<not> in_any (15, 15) (compute_selection_rects SelChar (1, 0) (0, 2) 0 4 8 16 0)"
proof -
  have points: "in_any point (compute_selection_rects SelChar (1, 0) (0, 2) 0 4 8 16 0) \<longleftrightarrow>
      (\<exists>cell. snd cell < 4 \<and> selected SelChar (0, 2) (1, 0) cell \<and> in_rect point (cell_rect 8 16 0 0 cell))" for point
    by (rule highlight_covers_selection) simp_all
  have "in_any (25, 15) (compute_selection_rects SelChar (1, 0) (0, 2) 0 4 8 16 0)"
    unfolding points by (rule exI [of _ "(0, 3)"]) (simp add: selected_def reads_before_def in_rect_def cell_rect_def)
  moreover have "\<not> in_rect (15, 15) (cell_rect 8 16 0 0 (r, c))" if "selected SelChar (0, 2) (1, 0) (r, c)" for r c
  proof (cases "r = 0")
    case True
    with that have "2 \<le> c" by (auto simp: selected_def reads_before_def)
    then show ?thesis by (simp add: in_rect_def cell_rect_def)
  next
    case False
    with that have "r = 1" by (auto simp: selected_def reads_before_def)
    then show ?thesis by (simp add: in_rect_def cell_rect_def)
  qed
  then have "\<not> in_any (15, 15) (compute_selection_rects SelChar (1, 0) (0, 2) 0 4 8 16 0)" unfolding points by auto
  ultimately show ?thesis by blast
qed

text \<open>Copying does not read what is highlighted: the reader sorts the two columns on their own. For a
  selection that runs down to an earlier column, the text is that of the selection with the columns
  exchanged, which starts too early on the first line and ends too late on the last one.\<close>

theorem copied_text_sorts_columns:
  assumes "y1 < y2" and "x2 < x1"
  shows "selection_text s \<lparr>sel_x1 = x1, sel_y1 = y1, sel_x2 = x2, sel_y2 = y2, sel_rectangle = False\<rparr> =
      selection_text s \<lparr>sel_x1 = x2, sel_y1 = y1, sel_x2 = x1, sel_y2 = y2, sel_rectangle = False\<rparr> \<and>
    \<not> selected SelChar (int y1, x1) (int y2, x2) (int y1, x2) \<and> selected SelChar (int y1, x2) (int y2, x1) (int y1, x2)"
proof -
  have "selection_text s \<lparr>sel_x1 = x1, sel_y1 = y1, sel_x2 = x2, sel_y2 = y2, sel_rectangle = False\<rparr> =
      selection_text s \<lparr>sel_x1 = x2, sel_y1 = y1, sel_x2 = x1, sel_y2 = y2, sel_rectangle = False\<rparr>"
    by (simp only: selection_text_def surface_selection.simps min.commute [of x1 x2] max.commute [of x1 x2])
  moreover have "\<not> selected SelChar (int y1, x1) (int y2, x2) (int y1, x2)"
    and "selected SelChar (int y1, x2) (int y2, x1) (int y1, x2)"
    using assms by (simp_all add: selected_def reads_before_def)
  ultimately show ?thesis by blast
qed

text \<open>A screen of plain texts.\<close>

definition plain_cell :: "char \<Rightarrow> cell_snapshot" where
  "plain_cell c = default_cell\<lparr>cs_text := utf8_bytes [c]\<rparr>"

definition plain_screen :: "str list \<Rightarrow> terminal_snapshot" where
  "plain_screen ls =
     \<lparr>ts_cols = of_nat (length (hd ls)), ts_rows = of_nat (length ls), ts_title = [], ts_pwd = [],
      ts_cursor = \<lparr>cu_visible = True, cu_blinking = False, cu_x = 0, cu_y = 0, cu_style = Block\<rparr>,
      rows_data = map (map plain_cell) ls, row_revisions = [],
      ts_scrollbar = \<lparr>sb_total = 0, sb_offset = 0, sb_len = 0\<rparr>,
      ts_colors = \<lparr>background = (0, 0, 0), foreground = (0, 0, 0), cursor_color = (0, 0, 0),
        cursor_has_value = False, palette = []\<rparr>\<rparr>"

lemma plain_cell_text: "c \<noteq> CHR 0x00 \<Longrightarrow> i < length s \<Longrightarrow> s ! i = c \<Longrightarrow>
    cell_text_or_space (map plain_cell s) i = [c]"
  by (simp add: cell_text_or_space_def plain_cell_def)

lemma plain_row_text:
  assumes "CHR 0x00 \<notin> set s" "a \<le> b" "b < length s"
  shows "row_text (map plain_cell s) a b False = trim_end_spaces (take (Suc b - a) (drop a s))"
proof -
  have "map (cell_text_or_space (map plain_cell s)) [a..<Suc b] = map (\<lambda>i. [s ! i]) [a..<Suc b]"
  proof (rule map_cong [OF refl])
    fix i assume "i \<in> set [a..<Suc b]"
    then have "i < length s" using assms by auto
    then show "cell_text_or_space (map plain_cell s) i = [s ! i]"
      using assms(1) nth_mem by (intro plain_cell_text) fastforce+
  qed
  moreover have "concat (map (\<lambda>i. [s ! i]) [a..<Suc b]) = map ((!) s) [a..<Suc b]"
    by (simp only: concat_map_singleton)
  moreover have "map ((!) s) [a..<Suc b] = take (Suc b - a) (drop a s)"
    using assms by (intro nth_equalityI) (simp_all del: upt_Suc)
  ultimately have "concat (map (cell_text_or_space (map plain_cell s)) [a..<Suc b]) = take (Suc b - a) (drop a s)"
    by (simp only:)
  moreover have "s \<noteq> []" using assms by auto
  ultimately show ?thesis using assms by (simp add: row_text_def del: upt_Suc)
qed

theorem copied_text_sorts_columns_witness:
  "selection_text (plain_screen [''abcd'', ''efgh''])
      \<lparr>sel_x1 = 2, sel_y1 = 0, sel_x2 = 0, sel_y2 = 1, sel_rectangle = False\<rparr> = ''abcd'' @ [nl] @ ''efg''"
proof -
  have rows: "[0..<Suc (min 1 (Suc 0))] = [0, 1]" by (simp add: upt_conv_Cons)
  have "selection_text (plain_screen [''abcd'', ''efgh''])
      \<lparr>sel_x1 = 0, sel_y1 = 0, sel_x2 = 2, sel_y2 = 1, sel_rectangle = False\<rparr> =
    join_lines [row_text (map plain_cell ''abcd'') 0 3 False, row_text (map plain_cell ''efgh'') 0 2 False]"
    by (simp add: selection_text_def plain_screen_def)
  also have "\<dots> = ''abcd'' @ [nl] @ ''efg''"
    unfolding join_lines_def list.case
    by (simp add: plain_row_text trim_end_spaces_def del: list.map(2)) (simp add: trim_end_spaces_def)
  finally show ?thesis
    using copied_text_sorts_columns [of 0 1 0 2 "plain_screen [''abcd'', ''efgh'']"] by simp
qed

end
