(* ===== verification/AppState.thy ===== *)
theory AppState
  imports Bindings CommandPrompt SelectionText StatusStore LayoutApp
begin

text \<open>
  The state of the daemon's application (\<open>BooApp\<close> of \<open>src/main.rs\<close>) and the operations on its panes and
  tabs (\<open>src/runtime_panes.rs\<close>, \<open>src/runtime.rs\<close>). What the application tells the terminal backend, the
  platform and the clipboard is the list of its effects, in order; what it reads from them is the record
  of the environment. The results of creating panes are a supply. Row numbers are integers and do not
  wrap. Both backends create panes without a native surface (\<open>PaneHandle::detached\<close>, a null surface on
  macOS), so the branches for panes with one are left out, like caches, appearance and the drawing of the
  daemon's own window. \<open>FxTabsStale\<close> tells the daemon that its list of tabs is out of date, and which tab to
  publish again.
\<close>

section \<open>State\<close>

text \<open>The visible part of the scrollback: all rows, the first visible row, the number of visible rows.\<close>

record viewport_bar =
  vb_total :: nat
  vb_offset :: nat
  vb_len :: nat

record copy_mode_state =
  cm_cursor_row :: int
  cm_cursor_col :: nat
  cm_selection :: selection_mode
  cm_sel_anchor :: "(int \<times> nat) option"
  cm_cell_width :: f64
  cm_cell_height :: f64
  cm_viewport_rows :: nat
  cm_viewport_cols :: nat
  cm_mark :: "(int \<times> nat) option"
  cm_last_jump :: "(str \<times> jump_kind) option"
  cm_last_search_forward :: bool
  cm_pending_jump :: "jump_kind option"
  cm_show_position :: bool

datatype key_action = KeyPress | KeyRelease | KeyRepeat

record vt_key_event =
  vk_action :: key_action
  vk_keycode :: nat
  vk_mods :: i32
  vk_consumed_mods :: i32
  vk_char :: "str option"
  vk_text :: str
  vk_unshifted :: nat

datatype mouse_button = MouseLeft | MouseRight | MouseMiddle | MouseOther

datatype mouse_action = MousePress | MouseRelease | MouseMotion

datatype effect =
    FxScrollDelta u64 int
  | FxScrollTop u64
  | FxScrollBottom u64
  | FxBinding u64 str nat
  | FxWriteInput u64 str
  | FxVtKey u64 vt_key_event
  | FxVtMouse u64 mouse_action "mouse_button option" "f64 \<times> f64"
  | FxFocus pane_handle bool
  | FxResize pane_handle u32 u32
  | FxFree pane_handle
  | FxClipboard str
  | FxCopyCursor f64 f64 f64
  | FxCopyRects "hl_rect list"
  | FxStatusClick rust_string rust_string f64
  | FxOpenUrl str
  | FxConfigOverride str str
  | FxSaveLayout str str
  | FxReloadConfig
  | FxNotify str str
  | FxWriteVt u64 str
  | FxTabsStale "u32 option"

text \<open>The settings that decide on notifications.\<close>

record notify_settings =
  ns_desktop :: bool
  ns_on_finish :: notify_on_finish
  ns_action :: notify_action
  ns_after_ns :: nat

record app =
  ap_tabs :: tab_manager
  ap_views :: views
  ap_frames :: view_frames
  ap_bindings :: bindings
  ap_width :: f64
  ap_height :: f64
  ap_mouse :: "f64 \<times> f64"
  ap_divider_drag :: "direction option"
  ap_scrollbar_drag :: bool
  ap_cell_width :: f64
  ap_cell_height :: f64
  ap_scroll_remainder :: f64
  ap_bar :: viewport_bar
  ap_search_active :: bool
  ap_search_query :: str
  ap_search_total :: int
  ap_search_selected :: int
  ap_clipboard :: str
  ap_paste_buffers :: "str list"
  ap_marked :: "u64 option"
  ap_display_panes :: bool
  ap_choose_buffer :: bool
  ap_choose_buffer_selected :: nat
  ap_choose_tree :: bool
  ap_choose_tree_selected :: nat
  ap_find_window :: bool
  ap_find_window_query :: str
  ap_find_window_selected :: nat
  ap_copy_mode :: "copy_mode_state option"
  ap_selection :: "mouse_selection option"
  ap_selection_drag :: bool
  ap_prompt :: command_prompt
  ap_status :: status_store
  ap_pwd :: str
  ap_preedit :: str
  ap_window_focused :: bool
  ap_initialized :: bool
  ap_notify :: notify_settings
  ap_supply :: "pane_handle option list"
  ap_effects :: "effect list"

text \<open>What the worker of a pane has to report; \<open>pu_fresh\<close> tells that its screen differs from the one that
  the backend keeps.\<close>

record pane_update =
  pu_exited :: bool
  pu_finished :: "(u8 option \<times> nat) list"
  pu_status :: "status_update list"
  pu_notes :: "(str \<times> str) list"
  pu_fresh :: bool
  pu_snapshot :: terminal_snapshot
  pu_running :: "rust_string option option"

text \<open>What the application reads: screens and the clipboard, metrics of fonts and windows, the tables of
  characters of the standard library, the files of layouts, the configuration that a reload finds, and the
  key tables of the platform.\<close>

record key_platform =
  kp_keyspec :: "str \<Rightarrow> (nat \<times> i32) option"
  kp_shifted :: "nat \<Rightarrow> i32 \<Rightarrow> nat"
  kp_native :: "physical_key \<Rightarrow> nat option"
  kp_to_vt :: "nat \<Rightarrow> nat option"
  kp_via_appkit :: "nat \<Rightarrow> i32 \<Rightarrow> bool"

record app_env =
  env_keys :: key_platform
  env_headless :: bool
  env_snapshot :: "u64 \<Rightarrow> terminal_snapshot option"
  env_clipboard :: "str option"
  env_bar_height :: f64
  env_segment_width :: "str \<Rightarrow> f64"
  env_scale :: f64
  env_view_bounds :: "rect option"
  env_alnum :: "str \<Rightarrow> bool"
  env_lower :: "str \<Rightarrow> str"
  env_hyperlink :: "u64 \<Rightarrow> nat \<Rightarrow> nat \<Rightarrow> str option"
  env_updates :: "u64 \<Rightarrow> pane_update option"
  env_startup_layout :: "str option"
  env_layout_files :: "str \<Rightarrow> str option"
  env_home :: "str option"
  env_single_char :: "(str \<times> nat) list"
  env_config :: "str option \<times> (str \<times> str) list"

definition linux_keys :: key_platform where
  "linux_keys = \<lparr>kp_keyspec = parse_keyspec_linux, kp_shifted = shifted_codepoint_vt,
     kp_native = physical_to_native_keycode code_to_native_linux, kp_to_vt = native_to_vt_keycode_linux, kp_via_appkit = (\<lambda>_ _. False)\<rparr>"

definition macos_keys :: key_platform where
  "macos_keys = \<lparr>kp_keyspec = parse_keyspec_macos, kp_shifted = shifted_codepoint_macos,
     kp_native = physical_to_native_keycode code_to_native_macos, kp_to_vt = native_to_vt_keycode_macos,
     kp_via_appkit = should_route_macos_vt_key_via_appkit\<rparr>"

definition emit :: "effect list \<Rightarrow> app \<Rightarrow> app" where
  "emit es a = a\<lparr>ap_effects := ap_effects a @ es\<rparr>"

definition set_tabs :: "tab_manager \<times> views \<Rightarrow> app \<Rightarrow> app" where
  "set_tabs mv a = a\<lparr>ap_tabs := fst mv, ap_views := snd mv\<rparr>"

definition tabs_of :: "app \<Rightarrow> tab_manager \<times> views" where
  "tabs_of a = (ap_tabs a, ap_views a)"

definition app_focused :: "app \<Rightarrow> pane_handle" where
  "app_focused a = tabs_focused_pane (ap_tabs a)"

abbreviation focused_id_of :: "app \<Rightarrow> u64" where
  "focused_id_of a \<equiv> pane_id (app_focused a)"

section \<open>Geometry\<close>

definition terminal_frame :: "app_env \<Rightarrow> app \<Rightarrow> rect" where
  "terminal_frame env a =
     (let search_offset = (if ap_search_active a then env_bar_height env else 0)
      in mk_rect (mk_point 0 search_offset)
           (mk_size (ap_width a) (ap_height a - env_bar_height env - search_offset)))"

definition scale_factor :: "app_env \<Rightarrow> f64" where
  "scale_factor env = (if env_headless env then 1 else env_scale env)"

definition pane_parent_frame :: "app_env \<Rightarrow> app \<Rightarrow> rect option" where
  "pane_parent_frame env a = (if env_headless env then Some (terminal_frame env a) else env_view_bounds env)"

definition set_pane_focus :: "pane_handle \<Rightarrow> bool \<Rightarrow> app \<Rightarrow> app" where
  "set_pane_focus pane focused = emit [FxFocus pane focused]"

definition relayout :: "app_env \<Rightarrow> app \<Rightarrow> app" where
  "relayout env a =
     (if tabs (ap_tabs a) = [] \<or> ap_width a = 0 then a
      else let (vf, surfaces) = layout_active (ap_tabs a) (terminal_frame env a) (scale_factor env) (ap_frames a)
           in emit (map (\<lambda>(pane, w, h). FxResize pane w h) surfaces) (a\<lparr>ap_frames := vf\<rparr>))"

definition handle_resize :: "app_env \<Rightarrow> f64 \<times> f64 \<Rightarrow> app \<Rightarrow> app" where
  "handle_resize env sz a = relayout env (a\<lparr>ap_width := fst sz, ap_height := snd sz\<rparr>)"

definition resize_viewport_points :: "app_env \<Rightarrow> f64 \<Rightarrow> f64 \<Rightarrow> app \<Rightarrow> bool \<times> app" where
  "resize_viewport_points env w h a =
     (let next_size = (max w 1, max h 1)
      in if (ap_width a, ap_height a) = next_size then (False, a)
         else (True, relayout env (a\<lparr>ap_width := fst next_size, ap_height := snd next_size\<rparr>)))"

section \<open>Panes and tabs\<close>

text \<open>The platform's answer to the next request for a pane.\<close>

definition create_pane :: "app \<Rightarrow> pane_handle option \<times> app" where
  "create_pane a =
     (case ap_supply a of [] \<Rightarrow> (None, a) | created # rest \<Rightarrow> (created, a\<lparr>ap_supply := rest\<rparr>))"

definition map_active_tree :: "(split_tree \<Rightarrow> split_tree) \<Rightarrow> app \<Rightarrow> app" where
  "map_active_tree f a =
     a\<lparr>ap_tabs := snd (update_active_tab (\<lambda>t. ((), t\<lparr>tree := f (tree t)\<rparr>)) () (ap_tabs a))\<rparr>"

definition side_direction :: "split_side \<Rightarrow> direction" where
  "side_direction s = (case s of SideRight \<Rightarrow> Horizontal | SideLeft \<Rightarrow> Horizontal | _ \<Rightarrow> Vertical)"

definition create_split :: "app_env \<Rightarrow> split_side \<Rightarrow> app \<Rightarrow> app" where
  "create_split env side a =
     (if tabs (ap_tabs a) = [] \<or> pane_parent_frame env a = None then a
      else case create_pane a of
        (None, a1) \<Rightarrow> a1
      | (Some pane, a1) \<Rightarrow>
          (let old_focused = app_focused a1;
               a2 = map_active_tree (\<lambda>t. snd (split_focused (side_direction side) pane t)) a1
           in relayout env (set_pane_focus pane True (set_pane_focus old_focused False a2))))"

text \<open>Telling the old and the new pane when the focus has changed.\<close>

definition refocus :: "pane_handle \<Rightarrow> app \<Rightarrow> app" where
  "refocus old a =
     (let new = app_focused a in if old \<noteq> new then set_pane_focus new True (set_pane_focus old False a) else a)"

definition switch_focus :: "app_env \<Rightarrow> pane_focus_direction \<Rightarrow> app \<Rightarrow> app" where
  "switch_focus env dir a =
     refocus (app_focused a) (map_active_tree (\<lambda>t. snd (focus_direction (terminal_frame env a) dir t)) a)"

definition focus_pane_by_id :: "u64 \<Rightarrow> app \<Rightarrow> bool \<times> app" where
  "focus_pane_by_id pid a =
     (let old = app_focused a;
          changed = (case active_tree (ap_tabs a) of Some t \<Rightarrow> fst (set_focus_to_pane pid t) | None \<Rightarrow> False);
          a1 = map_active_tree (\<lambda>t. snd (set_focus_to_pane pid t)) a
      in if old \<noteq> app_focused a1 then (True, refocus old a1) else (changed, a1))"

definition free_panes :: "pane_handle list \<Rightarrow> app \<Rightarrow> app" where
  "free_panes ps = emit (map FxFree ps)"

definition focus_remaining :: "app_env \<Rightarrow> app \<Rightarrow> app" where
  "focus_remaining env a =
     (if tabs (ap_tabs a) = [] then a else relayout env (set_pane_focus (app_focused a) True a))"

definition app_remove_tab :: "nat \<Rightarrow> app \<Rightarrow> pane_handle list \<times> app" where
  "app_remove_tab i a = (let (panes, mv) = remove_tab i (tabs_of a) in (panes, set_tabs mv a))"

definition handle_surface_closed :: "app_env \<Rightarrow> app \<Rightarrow> app" where
  "handle_surface_closed env a =
     (let removed = Option.bind (active_tree (ap_tabs a)) (\<lambda>t. fst (remove_focused t));
          a1 = map_active_tree (\<lambda>t. snd (remove_focused t)) a
      in case removed of
           Some pane \<Rightarrow>
             (let tab_empty = (case active_tree (ap_tabs a1) of Some t \<Rightarrow> tree_len t = 0 | None \<Rightarrow> False);
                  a2 = free_panes [pane] a1;
                  a3 = (if tab_empty then snd (app_remove_tab (active (ap_tabs a2)) a2) else a2)
              in focus_remaining env a3)
         | None \<Rightarrow>
             (let (panes, a2) = app_remove_tab (active (ap_tabs a1)) a1
              in focus_remaining env (free_panes panes a2)))"

definition app_new_tab :: "app_env \<Rightarrow> app \<Rightarrow> u32 option \<times> app" where
  "app_new_tab env a =
     (if pane_parent_frame env a = None then (None, a)
      else case create_pane a of
        (None, a1) \<Rightarrow> (None, a1)
      | (Some pane, a1) \<Rightarrow>
          (let a2 = set_pane_focus (app_focused a1) False a1;
               (idx, mv) = new_tab pane (tabs_of a2);
               a3 = relayout env (set_pane_focus pane True (set_tabs mv a2))
           in (tab_id_for_index (ap_tabs a3) idx, a3)))"

text \<open>Going to another tab; the outer \<open>None\<close> is the panic of a tab manager without its active tab.\<close>

definition app_goto_tab :: "nat \<Rightarrow> app \<Rightarrow> app option" where
  "app_goto_tab i a = map_option (\<lambda>r. set_tabs (snd r) a) (goto_tab i (tabs_of a))"

definition close_pane_by_id :: "app_env \<Rightarrow> u64 \<Rightarrow> app \<Rightarrow> app option" where
  "close_pane_by_id env pid a =
     (case find_pane_location (ap_tabs a) pid of
        None \<Rightarrow> Some a
      | Some (tab_index, leaf_id) \<Rightarrow>
          Option.bind (if active (ap_tabs a) \<noteq> tab_index then app_goto_tab tab_index a else Some a)
            (\<lambda>a1. case active_tree (ap_tabs a1) of
               None \<Rightarrow> Some a1
             | Some _ \<Rightarrow>
                 (let a2 = refocus (app_focused a) (map_active_tree (set_focus leaf_id) a1)
                  in Some (handle_surface_closed env a2))))"

definition sync_after_tab_change :: "app_env \<Rightarrow> app \<Rightarrow> app" where
  "sync_after_tab_change env a =
     (let a1 = a\<lparr>ap_find_window := False, ap_find_window_query := [], ap_find_window_selected := 0,
                 ap_choose_tree := False, ap_choose_buffer := False, ap_display_panes := False,
                 ap_selection := None, ap_selection_drag := False\<rparr>
      in relayout env (set_pane_focus (app_focused a1) True a1))"

section \<open>The backend\<close>

text \<open>The named actions that the backend understands; it ignores the others.\<close>

definition page_rows :: "nat \<Rightarrow> int" where
  "page_rows scrollbar_len = int (max (scrollbar_len - 1) 1)"

definition parse_int :: "str \<Rightarrow> int option" where
  "parse_int s = (case s of
     c # r \<Rightarrow> (if c = CHR ''-'' then Option.bind (parse_uint 10 64 r) (\<lambda>n.
                  if is_ascii_digit (hd r) \<and> n \<le> 2 ^ 63 then Some (- int n) else None)
               else Option.bind (parse_uint 10 64 s) (\<lambda>n. if n < 2 ^ 63 then Some (int n) else None))
   | [] \<Rightarrow> None)"

definition binding_action :: "app_env \<Rightarrow> u64 \<Rightarrow> str \<Rightarrow> nat \<Rightarrow> effect list" where
  "binding_action env pane action scrollbar_len =
     (if action = ''scroll_to_top'' then [FxScrollTop pane]
      else if action = ''scroll_to_bottom'' then [FxScrollBottom pane]
      else if action = ''scroll_page_up'' then [FxScrollDelta pane (- page_rows scrollbar_len)]
      else if action = ''scroll_page_down'' then [FxScrollDelta pane (page_rows scrollbar_len)]
      else if action = ''paste_from_clipboard''
      then (case env_clipboard env of Some t \<Rightarrow> [FxWriteInput pane t] | None \<Rightarrow> [])
      else if action \<in> {''end_search'', ''toggle_split_zoom''} then []
      else case strip_prefix ''scroll_page_lines:'' action of
        Some l \<Rightarrow> (case parse_int l of Some n \<Rightarrow> [FxScrollDelta pane n] | None \<Rightarrow> [])
      | None \<Rightarrow> [])"

definition ghostty_binding_action :: "app_env \<Rightarrow> str \<Rightarrow> app \<Rightarrow> app" where
  "ghostty_binding_action env action a =
     emit (binding_action env (focused_id_of a) action (vb_len (ap_bar a))) a"

definition show_int :: "int \<Rightarrow> str" where
  "show_int n = (if n < 0 then ''-'' @ show_nat (nat (- n)) else show_nat (nat n))"

definition scroll_page_lines :: "app_env \<Rightarrow> int \<Rightarrow> app \<Rightarrow> app" where
  "scroll_page_lines env lines = ghostty_binding_action env (''scroll_page_lines:'' @ show_int lines)"

definition read_surface_selection_text :: "app_env \<Rightarrow> surface_selection \<Rightarrow> app \<Rightarrow> str option" where
  "read_surface_selection_text env sel a =
     map_option (\<lambda>snap. selection_text snap sel) (env_snapshot env (focused_id_of a))"

definition scroll_max_offset :: "viewport_bar \<Rightarrow> nat" where
  "scroll_max_offset b = vb_total b - vb_len b"

definition reset_scrolling_state :: "app \<Rightarrow> app" where
  "reset_scrolling_state a =
     (let a1 = a\<lparr>ap_scroll_remainder := 0\<rparr>; b = ap_bar a1; max_offset = scroll_max_offset b
      in if vb_total b \<le> vb_len b \<or> vb_offset b \<ge> max_offset then a1
         else (emit [FxScrollBottom (focused_id_of a1)] a1)\<lparr>ap_bar := b\<lparr>vb_offset := max_offset\<rparr>\<rparr>)"

definition write_terminal_input :: "str \<Rightarrow> app \<Rightarrow> app" where
  "write_terminal_input bytes a =
     (let a1 = reset_scrolling_state a in emit [FxWriteInput (focused_id_of a1) bytes] a1)"

definition push_paste_buffer :: "str \<Rightarrow> app \<Rightarrow> app" where
  "push_paste_buffer t a =
     (if t = [] then a
      else a\<lparr>ap_paste_buffers := take 32 (t # filter (\<lambda>e. e \<noteq> t) (ap_paste_buffers a))\<rparr>)"

definition copy_to_clipboard :: "str \<Rightarrow> app \<Rightarrow> app" where
  "copy_to_clipboard t a = push_paste_buffer t ((emit [FxClipboard t] a)\<lparr>ap_clipboard := t\<rparr>)"

end
