(* ===== verification/AppCopy.thy ===== *)
theory AppCopy
  imports AppState
begin

text \<open>
  Copy mode of the daemon (\<open>src/runtime_copy.rs\<close>, \<open>src/copy_mode.rs\<close>): entering and leaving, the motions
  of the cursor, selecting and copying. The jumps of the cursor to a character read \<open>last_jump\<close>.
\<close>

section \<open>The highlight\<close>

definition copy_rects :: "app_env \<Rightarrow> app \<Rightarrow> copy_mode_state \<Rightarrow> hl_rect list" where
  "copy_rects env a cm =
     (if cm_selection cm \<noteq> SelNone
      then case cm_sel_anchor cm of
             Some anchor \<Rightarrow> compute_selection_rects (cm_selection cm) (cm_cursor_row cm, cm_cursor_col cm) anchor
               (int (vb_offset (ap_bar a))) (cm_viewport_cols cm) (cm_cell_width cm) (cm_cell_height cm)
               (rect_y (terminal_frame env a))
           | None \<Rightarrow> []
      else [])"

definition update_copy_mode_highlight :: "app_env \<Rightarrow> app \<Rightarrow> app" where
  "update_copy_mode_highlight env a =
     (case ap_copy_mode a of
        None \<Rightarrow> a
      | Some cm \<Rightarrow>
          emit [FxCopyCursor (real (cm_cursor_col cm) * cm_cell_width cm)
                  (rect_y (terminal_frame env a) +
                     of_int (cm_cursor_row cm - int (vb_offset (ap_bar a))) * cm_cell_height cm)
                  (cm_cell_height cm),
                FxCopyRects (copy_rects env a cm)] a)"

definition map_copy_mode :: "(copy_mode_state \<Rightarrow> copy_mode_state) \<Rightarrow> app \<Rightarrow> app" where
  "map_copy_mode f a = a\<lparr>ap_copy_mode := map_option f (ap_copy_mode a)\<rparr>"

section \<open>Reading lines\<close>

definition read_viewport_line :: "app_env \<Rightarrow> nat \<Rightarrow> app \<Rightarrow> str option" where
  "read_viewport_line env row a =
     (case ap_copy_mode a of
        None \<Rightarrow> None
      | Some cm \<Rightarrow> read_surface_selection_text env
          \<lparr>sel_x1 = 0, sel_y1 = row, sel_x2 = cm_viewport_cols cm - 1, sel_y2 = row, sel_rectangle = False\<rparr> a)"

definition read_line_for_cursor :: "app_env \<Rightarrow> app \<Rightarrow> str option" where
  "read_line_for_cursor env a =
     (case ap_copy_mode a of
        None \<Rightarrow> None
      | Some cm \<Rightarrow> read_viewport_line env (viewport_row (cm_cursor_row cm) (vb_offset (ap_bar a))) a)"

section \<open>Motions\<close>

definition copy_mode_ensure_visible :: "app_env \<Rightarrow> app \<Rightarrow> app" where
  "copy_mode_ensure_visible env a =
     (case ap_copy_mode a of
        None \<Rightarrow> a
      | Some cm \<Rightarrow>
          (let row = cm_cursor_row cm - int (vb_offset (ap_bar a))
           in if row < 0 then scroll_page_lines env row a
              else if row \<ge> int (cm_viewport_rows cm)
              then scroll_page_lines env (row - int (cm_viewport_rows cm) + 1) a
              else a))"

text \<open>What follows every motion: the view follows the cursor, the highlight is drawn again.\<close>

definition show_cursor :: "app_env \<Rightarrow> app \<Rightarrow> app" where
  "show_cursor env a = update_copy_mode_highlight env (copy_mode_ensure_visible env a)"

definition set_col :: "nat \<Rightarrow> copy_mode_state \<Rightarrow> copy_mode_state" where
  "set_col c cm = cm\<lparr>cm_cursor_col := c\<rparr>"

definition set_cursor :: "int \<times> nat \<Rightarrow> copy_mode_state \<Rightarrow> copy_mode_state" where
  "set_cursor rc cm = cm\<lparr>cm_cursor_row := fst rc, cm_cursor_col := snd rc\<rparr>"

definition last_col :: "copy_mode_state \<Rightarrow> nat" where
  "last_col cm = cm_viewport_cols cm - 1"

definition move_cursor :: "resize_direction \<Rightarrow> copy_mode_state \<Rightarrow> copy_mode_state" where
  "move_cursor dir cm = (case dir of
     RUp \<Rightarrow> cm\<lparr>cm_cursor_row := cm_cursor_row cm - 1\<rparr>
   | RDown \<Rightarrow> cm\<lparr>cm_cursor_row := cm_cursor_row cm + 1\<rparr>
   | RLeft \<Rightarrow> set_col (cm_cursor_col cm - 1) cm
   | RRight \<Rightarrow> set_col (min (cm_cursor_col cm + 1) (last_col cm)) cm)"

definition copy_mode_move :: "app_env \<Rightarrow> resize_direction \<Rightarrow> app \<Rightarrow> app" where
  "copy_mode_move env dir a =
     (if ap_copy_mode a = None then a else show_cursor env (map_copy_mode (move_cursor dir) a))"

definition copy_mode_first_non_blank :: "app_env \<Rightarrow> app \<Rightarrow> app" where
  "copy_mode_first_non_blank env a =
     update_copy_mode_highlight env (case read_line_for_cursor env a of
        Some line \<Rightarrow> map_copy_mode (set_col (first_non_blank (str_chars line))) a | None \<Rightarrow> a)"

definition copy_mode_word_move :: "app_env \<Rightarrow> word_move_kind \<Rightarrow> app \<Rightarrow> app option" where
  "copy_mode_word_move env kind a =
     (case (read_line_for_cursor env a, ap_copy_mode a) of
        (Some line, Some cm) \<Rightarrow>
          map_option (\<lambda>c. show_cursor env (map_copy_mode (set_col c) a))
            (word_column (env_alnum env) kind (str_chars line) (cm_cursor_col cm))
      | _ \<Rightarrow> Some a)"

definition copy_mode_execute_jump :: "app_env \<Rightarrow> str \<Rightarrow> jump_kind \<Rightarrow> app \<Rightarrow> app" where
  "copy_mode_execute_jump env target kind a =
     (case (read_line_for_cursor env a, ap_copy_mode a) of
        (Some line, Some cm) \<Rightarrow>
          update_copy_mode_highlight env
            (case jump_column target kind (str_chars line) (cm_cursor_col cm) of
               Some c \<Rightarrow> map_copy_mode (set_col c) a | None \<Rightarrow> a)
      | _ \<Rightarrow> a)"

definition copy_mode_jump_repeat :: "app_env \<Rightarrow> bool \<Rightarrow> app \<Rightarrow> app" where
  "copy_mode_jump_repeat env reverse a =
     (case Option.bind (ap_copy_mode a) cm_last_jump of
        None \<Rightarrow> a
      | Some (target, kind) \<Rightarrow>
          copy_mode_execute_jump env target (if reverse then reverse_jump kind else kind) a)"

text \<open>The next blank row in a list of rows, as far as rows can be read.\<close>

fun blank_row :: "app_env \<Rightarrow> int list \<Rightarrow> app \<Rightarrow> int option" where
  "blank_row env [] a = None"
| "blank_row env (r # rs) a =
     (case read_viewport_line env (viewport_row r (vb_offset (ap_bar a))) a of
        None \<Rightarrow> None
      | Some line \<Rightarrow> if trim line = [] then Some r else blank_row env rs a)"

definition copy_mode_paragraph :: "app_env \<Rightarrow> bool \<Rightarrow> app \<Rightarrow> app" where
  "copy_mode_paragraph env forward a =
     (case ap_copy_mode a of
        None \<Rightarrow> a
      | Some cm \<Rightarrow>
          (let rows = (if forward then [cm_cursor_row cm + 1 .. int (vb_total (ap_bar a))]
                       else rev [0 .. cm_cursor_row cm - 1])
           in show_cursor env (case blank_row env rows a of
                Some r \<Rightarrow> map_copy_mode (set_cursor (r, 0)) a | None \<Rightarrow> a)))"

definition copy_mode_matching_bracket :: "app_env \<Rightarrow> app \<Rightarrow> app" where
  "copy_mode_matching_bracket env a =
     (case (read_line_for_cursor env a, ap_copy_mode a) of
        (Some line, Some cm) \<Rightarrow>
          (let chars = str_chars line; col = cm_cursor_col cm
           in if first_bracket col (drop col chars) = None then a
              else update_copy_mode_highlight env (case bracket_column chars col of
                Some c \<Rightarrow> map_copy_mode (set_col c) a | None \<Rightarrow> a))
      | _ \<Rightarrow> a)"

definition copy_mode_word_under_cursor :: "app_env \<Rightarrow> app \<Rightarrow> str option" where
  "copy_mode_word_under_cursor env a =
     (case (read_line_for_cursor env a, ap_copy_mode a) of
        (Some line, Some cm) \<Rightarrow> word_under (env_alnum env) (str_chars line) (cm_cursor_col cm)
      | _ \<Rightarrow> None)"

section \<open>Copying\<close>

text \<open>The selection that the cursor and the anchor span, in the coordinates of the backend.\<close>

definition copy_selection :: "nat \<Rightarrow> copy_mode_state \<Rightarrow> surface_selection option" where
  "copy_selection offset cm =
     (case cm_sel_anchor cm of
        None \<Rightarrow> None
      | Some anchor \<Rightarrow>
          (let (r1, c1, r2, c2) = ordered_ends anchor (cm_cursor_row cm, cm_cursor_col cm);
               (x1, x2) = (if cm_selection cm = SelLine then (0, last_col cm) else (c1, c2))
           in Some \<lparr>sel_x1 = x1, sel_y1 = viewport_row r1 offset, sel_x2 = x2, sel_y2 = viewport_row r2 offset,
                sel_rectangle = (cm_selection cm = SelRectangle)\<rparr>))"

definition selection_to_copy :: "app_env \<Rightarrow> app \<Rightarrow> str option" where
  "selection_to_copy env a =
     Option.bind (ap_copy_mode a) (\<lambda>cm. Option.bind (copy_selection (vb_offset (ap_bar a)) cm)
       (\<lambda>sel. read_surface_selection_text env sel a))"

definition copy_mode_copy :: "app_env \<Rightarrow> app \<Rightarrow> app" where
  "copy_mode_copy env a = (case selection_to_copy env a of Some t \<Rightarrow> copy_to_clipboard t a | None \<Rightarrow> a)"

definition copy_mode_append_copy :: "app_env \<Rightarrow> app \<Rightarrow> app" where
  "copy_mode_append_copy env a =
     (let existing = (if ap_clipboard a = []
                      then (case env_clipboard env of Some t \<Rightarrow> t | None \<Rightarrow> []) else ap_clipboard a)
      in case selection_to_copy env a of
           Some t \<Rightarrow> copy_to_clipboard (existing @ t) a | None \<Rightarrow> a)"

section \<open>Entering and leaving\<close>

text \<open>Column, row and cell height of the terminal cursor, of a pane without a native surface.\<close>

definition focused_cursor_cell_position :: "app_env \<Rightarrow> app \<Rightarrow> (nat \<times> int \<times> f64) option" where
  "focused_cursor_cell_position env a =
     map_option (\<lambda>snap. (unat (cu_x (ts_cursor snap)),
         int (vb_offset (ap_bar a)) + int (unat (cu_y (ts_cursor snap))), ap_cell_height a / scale_factor env))
       (env_snapshot env (focused_id_of a))"

definition app_enter_copy_mode :: "app_env \<Rightarrow> app \<Rightarrow> app" where
  "app_enter_copy_mode env a =
     (case focused_cursor_cell_position env a of
        None \<Rightarrow> a
      | Some (col, row, cell_h) \<Rightarrow>
          (let cell_w = ap_cell_width a / scale_factor env;
               rows = (if cell_h > 0 then unat (f64_as_u32 ((ap_height a - env_bar_height env) / cell_h)) else 24);
               cols = (if cell_w > 0 then unat (f64_as_u32 (rect_w (terminal_frame env a) / cell_w)) else 80)
           in update_copy_mode_highlight env (a\<lparr>
                ap_copy_mode := Some \<lparr>cm_cursor_row = int (vb_offset (ap_bar a)) + row, cm_cursor_col = col,
                  cm_selection = SelNone, cm_sel_anchor = None, cm_cell_width = cell_w, cm_cell_height = cell_h,
                  cm_viewport_rows = rows, cm_viewport_cols = cols, cm_mark = None, cm_last_jump = None,
                  cm_last_search_forward = True, cm_pending_jump = None, cm_show_position = False\<rparr>,
                ap_bindings := enter_copy_mode (ap_bindings a)\<rparr>)))"

definition app_exit_copy_mode :: "app_env \<Rightarrow> app \<Rightarrow> app" where
  "app_exit_copy_mode env a =
     (let a1 = a\<lparr>ap_copy_mode := None, ap_bindings := exit_copy_mode (ap_bindings a)\<rparr>;
          a2 = ghostty_binding_action env ''end_search'' (ghostty_binding_action env ''scroll_to_bottom'' a1)
      in a2\<lparr>ap_search_active := False\<rparr>)"

section \<open>The actions of copy mode\<close>

definition toggle_selection :: "selection_mode \<Rightarrow> copy_mode_state \<Rightarrow> copy_mode_state" where
  "toggle_selection mode cm =
     (if cm_selection cm = mode then cm\<lparr>cm_selection := SelNone, cm_sel_anchor := None\<rparr>
      else cm\<lparr>cm_selection := mode,
        cm_sel_anchor := (if mode = SelRectangle \<and> cm_sel_anchor cm \<noteq> None then cm_sel_anchor cm
                          else Some (cm_cursor_row cm, cm_cursor_col cm))\<rparr>)"

definition swap_anchor :: "copy_mode_state \<Rightarrow> copy_mode_state" where
  "swap_anchor cm = (case cm_sel_anchor cm of
     Some anchor \<Rightarrow> (set_cursor anchor cm)\<lparr>cm_sel_anchor := Some (cm_cursor_row cm, cm_cursor_col cm)\<rparr>
   | None \<Rightarrow> cm)"

definition page_cursor :: "int \<Rightarrow> copy_mode_state \<Rightarrow> copy_mode_state" where
  "page_cursor rows cm = cm\<lparr>cm_cursor_row := cm_cursor_row cm + rows\<rparr>"

definition start_search :: "app_env \<Rightarrow> bool \<Rightarrow> app \<Rightarrow> app" where
  "start_search env forward a =
     relayout env (map_copy_mode (\<lambda>cm. cm\<lparr>cm_last_search_forward := forward\<rparr>) (a\<lparr>
       ap_search_active := True, ap_search_query := [], ap_search_total := 0, ap_search_selected := 0\<rparr>))"

definition search_forward :: "app \<Rightarrow> bool" where
  "search_forward a = (case ap_copy_mode a of Some cm \<Rightarrow> cm_last_search_forward cm | None \<Rightarrow> True)"

definition navigate_search :: "app_env \<Rightarrow> bool \<Rightarrow> app \<Rightarrow> app" where
  "navigate_search env forward =
     ghostty_binding_action env (if forward then ''navigate_search:next'' else ''navigate_search:previous'')"

definition search_word :: "app_env \<Rightarrow> bool \<Rightarrow> app \<Rightarrow> app" where
  "search_word env forward a =
     (case copy_mode_word_under_cursor env a of
        None \<Rightarrow> a
      | Some word \<Rightarrow> navigate_search env forward (relayout env
          (map_copy_mode (\<lambda>cm. cm\<lparr>cm_last_search_forward := forward\<rparr>)
            (a\<lparr>ap_search_active := True, ap_search_query := word\<rparr>))))"

definition scroll_middle :: "app_env \<Rightarrow> app \<Rightarrow> app" where
  "scroll_middle env a =
     (case ap_copy_mode a of
        None \<Rightarrow> a
      | Some cm \<Rightarrow>
          (let target = max 0 (cm_cursor_row cm - int (cm_viewport_rows cm) div 2);
               diff = target - int (vb_offset (ap_bar a))
           in if diff \<noteq> 0 then scroll_page_lines env diff a else a))"

definition is_jump_action :: "copy_mode_action \<Rightarrow> bool" where
  "is_jump_action action \<longleftrightarrow> action \<in> {JumpForward, JumpBackward, JumpToForward, JumpToBackward}"

definition clear_pending_jump :: "copy_mode_action \<Rightarrow> app \<Rightarrow> app" where
  "clear_pending_jump action a =
     (if Option.bind (ap_copy_mode a) cm_pending_jump \<noteq> None \<and> \<not> is_jump_action action
      then map_copy_mode (\<lambda>cm. cm\<lparr>cm_pending_jump := None\<rparr>) a else a)"

definition set_pending_jump :: "jump_kind \<Rightarrow> app \<Rightarrow> app" where
  "set_pending_jump kind = map_copy_mode (\<lambda>cm. cm\<lparr>cm_pending_jump := Some kind\<rparr>)"

text \<open>The actions that select, jump, search and copy.\<close>

definition copy_mode_command ::
  "app_env \<Rightarrow> copy_mode_action \<Rightarrow> app \<Rightarrow> app option" where
  "copy_mode_command env action a =
     (let highlight = update_copy_mode_highlight env
      in case action of
        StartCharSelect \<Rightarrow> Some (highlight (map_copy_mode (toggle_selection SelChar) a))
      | StartLineSelect \<Rightarrow> Some (highlight (map_copy_mode (toggle_selection SelLine) a))
      | StartRectSelect \<Rightarrow> Some (highlight (map_copy_mode (toggle_selection SelRectangle) a))
      | ClearSelection \<Rightarrow>
          Some (case ap_copy_mode a of
             None \<Rightarrow> a
           | Some cm \<Rightarrow>
               (if cm_selection cm \<noteq> SelNone
                then highlight (map_copy_mode (\<lambda>cm. cm\<lparr>cm_selection := SelNone, cm_sel_anchor := None\<rparr>) a)
                else app_exit_copy_mode env a))
      | SwapAnchor \<Rightarrow> Some (show_cursor env (map_copy_mode swap_anchor a))
      | JumpForward \<Rightarrow> Some (set_pending_jump JForward a)
      | JumpBackward \<Rightarrow> Some (set_pending_jump JBackward a)
      | JumpToForward \<Rightarrow> Some (set_pending_jump JToForward a)
      | JumpToBackward \<Rightarrow> Some (set_pending_jump JToBackward a)
      | JumpAgain \<Rightarrow> Some (copy_mode_jump_repeat env False a)
      | JumpReverse \<Rightarrow> Some (copy_mode_jump_repeat env True a)
      | NextParagraph \<Rightarrow> Some (copy_mode_paragraph env True a)
      | PreviousParagraph \<Rightarrow> Some (copy_mode_paragraph env False a)
      | MatchingBracket \<Rightarrow> Some (copy_mode_matching_bracket env a)
      | SetMark \<Rightarrow> Some (map_copy_mode (\<lambda>cm. cm\<lparr>cm_mark := Some (cm_cursor_row cm, cm_cursor_col cm)\<rparr>) a)
      | JumpToMark \<Rightarrow>
          Some (show_cursor env (map_copy_mode (\<lambda>cm. case cm_mark cm of Some rc \<Rightarrow> set_cursor rc cm | None \<Rightarrow> cm) a))
      | SearchForward \<Rightarrow> Some (start_search env True a)
      | SearchBackward \<Rightarrow> Some (start_search env False a)
      | SearchAgain \<Rightarrow> Some (navigate_search env (search_forward a) a)
      | SearchReverse \<Rightarrow> Some (navigate_search env (\<not> search_forward a) a)
      | SearchWordForward \<Rightarrow> Some (search_word env True a)
      | SearchWordBackward \<Rightarrow> Some (search_word env False a)
      | CopyAndExit \<Rightarrow> Some (app_exit_copy_mode env (copy_mode_copy env a))
      | CopyToEndOfLine \<Rightarrow>
          Some (app_exit_copy_mode env (copy_mode_copy env (map_copy_mode (\<lambda>cm.
            cm\<lparr>cm_selection := SelChar, cm_sel_anchor := Some (cm_cursor_row cm, cm_cursor_col cm),
               cm_cursor_col := last_col cm\<rparr>) a)))
      | AppendAndCancel \<Rightarrow> Some (app_exit_copy_mode env (copy_mode_append_copy env a))
      | OpenPrompt \<Rightarrow> Some (a\<lparr>ap_prompt := open_prompt (env_lower env) [] (ap_prompt a)\<rparr>)
      | RefreshFromPane \<Rightarrow> Some (highlight a)
      | TogglePosition \<Rightarrow> Some (map_copy_mode (\<lambda>cm. cm\<lparr>cm_show_position := \<not> cm_show_position cm\<rparr>) a)
      | ExitCopyMode \<Rightarrow> Some (app_exit_copy_mode env a)
      | _ \<Rightarrow> Some a)"

text \<open>The motions and the scrolling of the view; the remaining actions are above.\<close>

definition copy_mode_action ::
  "app_env \<Rightarrow> copy_mode_action \<Rightarrow> app \<Rightarrow> app option" where
  "copy_mode_action env action a =
     (let offset = int (vb_offset (ap_bar a));
          highlight = update_copy_mode_highlight env;
          binding = ghostty_binding_action env
      in case action of
        CMove dir \<Rightarrow> Some (copy_mode_move env dir a)
      | WordNext \<Rightarrow> copy_mode_word_move env NextWord a
      | WordBack \<Rightarrow> copy_mode_word_move env PrevWord a
      | WordEnd \<Rightarrow> copy_mode_word_move env EndWord a
      | BigWordNext \<Rightarrow> copy_mode_word_move env NextBigWord a
      | BigWordBack \<Rightarrow> copy_mode_word_move env PrevBigWord a
      | BigWordEnd \<Rightarrow> copy_mode_word_move env EndBigWord a
      | LineStart \<Rightarrow> Some (highlight (map_copy_mode (set_col 0) a))
      | LineEnd \<Rightarrow> Some (highlight (map_copy_mode (\<lambda>cm. set_col (last_col cm) cm) a))
      | FirstNonBlank \<Rightarrow> Some (copy_mode_first_non_blank env a)
      | ScreenTop \<Rightarrow> Some (highlight (map_copy_mode (set_cursor (offset, 0)) a))
      | ScreenMiddle \<Rightarrow>
          Some (highlight (map_copy_mode (\<lambda>cm. set_cursor (offset + int (cm_viewport_rows cm) div 2, 0) cm) a))
      | ScreenBottom \<Rightarrow>
          Some (highlight (map_copy_mode (\<lambda>cm. set_cursor (offset + int (cm_viewport_rows cm) - 1, 0) cm) a))
      | HistoryTop \<Rightarrow> Some (highlight (binding ''scroll_to_top'' (map_copy_mode (set_cursor (0, 0)) a)))
      | HistoryBottom \<Rightarrow>
          Some (highlight (binding ''scroll_to_bottom''
            (map_copy_mode (set_cursor (int (vb_total (ap_bar a)), 0)) a)))
      | PageUp \<Rightarrow>
          Some (highlight (binding ''scroll_page_up''
            (map_copy_mode (\<lambda>cm. page_cursor (- int (cm_viewport_rows cm)) cm) a)))
      | PageDown \<Rightarrow>
          Some (highlight (binding ''scroll_page_down''
            (map_copy_mode (\<lambda>cm. page_cursor (int (cm_viewport_rows cm)) cm) a)))
      | HalfPageUp \<Rightarrow>
          Some (show_cursor env (map_copy_mode (\<lambda>cm. page_cursor (- int (cm_viewport_rows cm div 2)) cm) a))
      | HalfPageDown \<Rightarrow>
          Some (show_cursor env (map_copy_mode (\<lambda>cm. page_cursor (int (cm_viewport_rows cm div 2)) cm) a))
      | ScrollUp \<Rightarrow> Some (highlight (binding ''scroll_page_lines:-1'' a))
      | ScrollDown \<Rightarrow> Some (highlight (binding ''scroll_page_lines:1'' a))
      | ScrollMiddle \<Rightarrow> Some (highlight (scroll_middle env a))
      | _ \<Rightarrow> copy_mode_command env action a)"

definition dispatch_copy_mode_action :: "app_env \<Rightarrow> copy_mode_action \<Rightarrow> app \<Rightarrow> app option" where
  "dispatch_copy_mode_action env action a = copy_mode_action env action (clear_pending_jump action a)"

end
