(* ===== verification/AppActions.thy ===== *)
theory AppActions
  imports AppCopy
begin

text \<open>
  What the bindings and the command prompt do to the application (\<open>src/runtime_input.rs\<close>): the actions, the
  commands of the prompt, and the pickers for panes, tabs and paste buffers. A result \<open>None\<close> is a panic.
  The marks of what has to be published again are left out.
\<close>

section \<open>Lists of panes\<close>

record choose_tree_entry =
  cte_tab_index :: nat
  cte_pane_id :: u64
  cte_pane_index :: nat
  cte_focused :: bool
  cte_tab_title :: str
  cte_cwd :: str
  cte_preview :: str

text \<open>The first line of a screen that is not blank.\<close>

definition line_preview :: "cell_snapshot list \<Rightarrow> str option" where
  "line_preview row =
     (let line = trim (concat (map (\<lambda>cell. utf8_str (cs_text cell)) row))
      in if line = [] then None else Some line)"

definition screen_preview :: "terminal_snapshot \<Rightarrow> str" where
  "screen_preview snap =
     (case find_map line_preview (rows_data snap) of Some line \<Rightarrow> line | None \<Rightarrow> [])"

definition choose_tree_entries :: "app_env \<Rightarrow> app \<Rightarrow> choose_tree_entry list" where
  "choose_tree_entries env a =
     concat (map (\<lambda>info.
       case get_at (tabs (ap_tabs a)) (ti_index info) of
         None \<Rightarrow> []
       | Some t \<Rightarrow> map (\<lambda>(pane_index, pane).
           let pid = pane_id (ex_pane pane); terminal = env_snapshot env pid
           in \<lparr>cte_tab_index = ti_index info, cte_pane_id = pid, cte_pane_index = pane_index,
               cte_focused = (pid = focused_id_of a),
               cte_tab_title = utf8_str (display_title (ap_tabs a) (ti_index info) None),
               cte_cwd = (case terminal of Some snap \<Rightarrow> utf8_str (ts_pwd snap) | None \<Rightarrow> []),
               cte_preview = (case terminal of Some snap \<Rightarrow> screen_preview snap | None \<Rightarrow> [])\<rparr>)
           (enumerate 0 (export_panes (tree t))))
       (tab_identity_list (ap_tabs a)))"

fun contains_str :: "str \<Rightarrow> str \<Rightarrow> bool" where
  "contains_str needle [] \<longleftrightarrow> needle = []"
| "contains_str needle (c # s) \<longleftrightarrow> take (length needle) (c # s) = needle \<or> contains_str needle s"

definition entry_matches :: "(str \<Rightarrow> str) \<Rightarrow> str \<Rightarrow> choose_tree_entry \<Rightarrow> bool" where
  "entry_matches lower query e \<longleftrightarrow>
     query = [] \<or> contains_str query (lower (cte_tab_title e)) \<or> contains_str query (lower (cte_cwd e))
     \<or> contains_str query (lower (cte_preview e))
     \<or> contains_str query (show_nat (cte_tab_index e + 1) @ ''.'' @ show_nat (cte_pane_index e + 1))"

definition find_window_entries :: "app_env \<Rightarrow> app \<Rightarrow> choose_tree_entry list" where
  "find_window_entries env a =
     filter (entry_matches (env_lower env) (env_lower env (trim (ap_find_window_query a))))
       (choose_tree_entries env a)"

text \<open>The panes that the active tab shows, in the order of their numbers.\<close>

definition visible_panes :: "app_env \<Rightarrow> app \<Rightarrow> u64 list" where
  "visible_panes env a =
     (case Option.bind (active_tab_id (ap_tabs a)) (find_index_by_tab_id (ap_tabs a)) of
        None \<Rightarrow> []
      | Some i \<Rightarrow>
          (case get_at (tabs (ap_tabs a)) i of
             None \<Rightarrow> []
           | Some t \<Rightarrow> map (\<lambda>e. pane_id (ex_pane e)) (export_panes_with_frames (tree t) (terminal_frame env a))))"

section \<open>Actions\<close>

definition resize_axis :: "resize_direction \<Rightarrow> direction \<times> i32" where
  "resize_axis dir = (case dir of
     RRight \<Rightarrow> (Horizontal, 1) | RLeft \<Rightarrow> (Horizontal, - 1) | RDown \<Rightarrow> (Vertical, 1) | RUp \<Rightarrow> (Vertical, - 1))"

definition resize_split :: "app_env \<Rightarrow> resize_direction \<Rightarrow> nat \<Rightarrow> app \<Rightarrow> app" where
  "resize_split env dir amount a =
     (let (axis, sign) = resize_axis dir;
          cell_extent = (case axis of Horizontal \<Rightarrow> ap_cell_width a | Vertical \<Rightarrow> ap_cell_height a)
      in relayout env (map_active_tree
           (resize_focused_by_cells (terminal_frame env a) axis (sign * of_nat amount) cell_extent) a))"

text \<open>An operation on the tabs, followed by a layout when it has changed something.\<close>

definition relayout_if :: "app_env \<Rightarrow> (tab_manager \<Rightarrow> bool \<times> tab_manager) \<Rightarrow> app \<Rightarrow> app" where
  "relayout_if env f a =
     (let (changed, m) = f (ap_tabs a); a1 = a\<lparr>ap_tabs := m\<rparr> in if changed then relayout env a1 else a1)"

definition break_pane :: "app_env \<Rightarrow> app \<Rightarrow> app" where
  "break_pane env a =
     (let (idx, mv) = break_active_pane_to_tab (tabs_of a); a1 = set_tabs mv a
      in if idx \<noteq> None then relayout env (set_pane_focus (app_focused a1) True a1) else a1)"

definition app_close_tab :: "app_env \<Rightarrow> app \<Rightarrow> app" where
  "app_close_tab env a =
     (let (panes, a1) = app_remove_tab (active (ap_tabs a)) a; a2 = free_panes panes a1
      in if tabs (ap_tabs a2) = [] then a2 else sync_after_tab_change env a2)"

text \<open>Going to a tab and telling the backend.\<close>

definition app_step_tab ::
  "app_env \<Rightarrow> (tab_manager \<times> views \<Rightarrow> (bool \<times> tab_manager \<times> views) option) \<Rightarrow> app \<Rightarrow> app option" where
  "app_step_tab env f a = map_option (\<lambda>r. sync_after_tab_change env (set_tabs (snd r) a)) (f (tabs_of a))"

definition join_marked_pane :: "app_env \<Rightarrow> split_side \<Rightarrow> app \<Rightarrow> app" where
  "join_marked_pane env side a =
     (case ap_marked a of
        None \<Rightarrow> a
      | Some marked \<Rightarrow>
          (if marked = 0 \<or> marked = focused_id_of a then a
           else case remove_pane_by_id marked (tabs_of a) of
             (None, mv) \<Rightarrow> (set_tabs mv a)\<lparr>ap_marked := None\<rparr>
           | (Some pane, mv) \<Rightarrow>
               (let a1 = set_tabs mv a;
                    old = app_focused a1;
                    a2 = map_active_tree (\<lambda>t. snd (split_focused (side_direction side) pane t)) a1
                in relayout env ((set_pane_focus pane True (set_pane_focus old False a2))\<lparr>ap_marked := None\<rparr>))))"

definition begin_search :: "app_env \<Rightarrow> app \<Rightarrow> app" where
  "begin_search env a =
     relayout env (a\<lparr>ap_search_active := True, ap_search_query := [], ap_search_total := 0, ap_search_selected := 0\<rparr>)"

definition reload_config :: "app_env \<Rightarrow> app \<Rightarrow> app" where
  "reload_config env a =
     relayout env (emit [FxReloadConfig]
       (a\<lparr>ap_bindings := from_config (env_single_char env) (fst (env_config env)) (snd (env_config env))\<rparr>))"

definition prompt_with :: "app_env \<Rightarrow> str \<Rightarrow> app \<Rightarrow> app" where
  "prompt_with env input a = a\<lparr>ap_prompt := open_prompt (env_lower env) input (ap_prompt a)\<rparr>"

text \<open>The actions on the layout of the active tab, and the last three of \<open>dispatch_binding_action\<close>.\<close>

definition dispatch_layout_action :: "app_env \<Rightarrow> action \<Rightarrow> app \<Rightarrow> app option" where
  "dispatch_layout_action env action a = (case action of
     ActToggleZoom \<Rightarrow> Some (relayout env (ghostty_binding_action env ''toggle_split_zoom'' a))
   | ActNextPane \<Rightarrow> Some (refocus (app_focused a) (map_active_tree focus_next a))
   | ActPreviousPane \<Rightarrow> Some (refocus (app_focused a) (map_active_tree focus_prev a))
   | ActSwapPaneNext \<Rightarrow> Some (relayout_if env (swap_active_pane_with_adjacent True) a)
   | ActSwapPanePrevious \<Rightarrow> Some (relayout_if env (swap_active_pane_with_adjacent False) a)
   | ActRotatePanesForward \<Rightarrow> Some (relayout_if env (rotate_active_panes True) a)
   | ActRotatePanesBackward \<Rightarrow> Some (relayout_if env (rotate_active_panes False) a)
   | ActSelectLayout l \<Rightarrow> Some (relayout_if env (apply_layout_to_active l) a)
   | ActNextLayout \<Rightarrow> Some (relayout_if env (cycle_active_layout True) a)
   | ActPreviousLayout \<Rightarrow> Some (relayout_if env (cycle_active_layout False) a)
   | ActRebalanceLayout \<Rightarrow> Some (relayout_if env rebalance_active_layout a)
   | ActPreviousTab \<Rightarrow> app_step_tab env (goto_tab (previous_active (ap_tabs a))) a
   | ActReloadConfig \<Rightarrow> Some (reload_config env a)
   | ActOpenCommandPrompt \<Rightarrow> Some (prompt_with env [] a)
   | _ \<Rightarrow> Some a)"

definition dispatch_binding_action :: "app_env \<Rightarrow> action \<Rightarrow> app \<Rightarrow> app option" where
  "dispatch_binding_action env action a = (case action of
     ActNewSplit side \<Rightarrow> Some (create_split env side a)
   | ActGotoSplit dir \<Rightarrow> Some (switch_focus env dir a)
   | ActResizeSplit dir amount \<Rightarrow> Some (resize_split env dir amount a)
   | ActCloseSurface \<Rightarrow> Some (handle_surface_closed env a)
   | ActBreakPane \<Rightarrow> Some (break_pane env a)
   | ActNewTab \<Rightarrow> Some (snd (app_new_tab env a))
   | ActNextTab \<Rightarrow> app_step_tab env next_tab a
   | ActPrevTab \<Rightarrow> app_step_tab env prev_tab a
   | ActCloseTab \<Rightarrow> Some (app_close_tab env a)
   | ActGotoTab target \<Rightarrow>
       app_step_tab env (goto_tab (case target of TabIndex i \<Rightarrow> i | TabLast \<Rightarrow> length (tabs (ap_tabs a)) - 1)) a
   | ActSearch \<Rightarrow> Some (begin_search env a)
   | ActEnterCopyMode \<Rightarrow> Some (app_enter_copy_mode env a)
   | ActCopy \<Rightarrow> Some (copy_mode_copy env a)
   | ActChooseBuffer \<Rightarrow>
       Some (a\<lparr>ap_choose_buffer := (ap_paste_buffers a \<noteq> []), ap_choose_buffer_selected := 0\<rparr>)
   | ActChooseTree \<Rightarrow>
       Some (a\<lparr>ap_choose_tree := (choose_tree_entries env a \<noteq> []), ap_choose_tree_selected := 0\<rparr>)
   | ActFindWindow \<Rightarrow>
       Some (a\<lparr>ap_find_window := True, ap_find_window_query := [], ap_find_window_selected := 0\<rparr>)
   | ActDisplayPanes \<Rightarrow>
       Some (a\<lparr>ap_display_panes := (case active_tree (ap_tabs a) of Some t \<Rightarrow> tree_len t > 1 | None \<Rightarrow> False)\<rparr>)
   | ActPaste \<Rightarrow> Some (ghostty_binding_action env ''paste_from_clipboard'' a)
   | ActSetTabTitle \<Rightarrow> Some (prompt_with env ''set-tab-title '' a)
   | ActMarkPane \<Rightarrow> Some (a\<lparr>ap_marked := Some (focused_id_of a)\<rparr>)
   | ActClearMarkedPane \<Rightarrow> Some (a\<lparr>ap_marked := None\<rparr>)
   | ActJoinMarkedPane side \<Rightarrow> Some (join_marked_pane env side a)
   | _ \<Rightarrow> dispatch_layout_action env action a)"

definition dispatch_binding_result :: "app_env \<Rightarrow> key_result \<Rightarrow> app \<Rightarrow> (bool \<times> app) option" where
  "dispatch_binding_result env result a = (case result of
     Consumed (Some action) \<Rightarrow> map_option (Pair True) (dispatch_binding_action env action a)
   | Consumed None \<Rightarrow> Some (True, a)
   | CopyModeResult action \<Rightarrow> map_option (Pair True) (dispatch_copy_mode_action env action a)
   | Forward \<Rightarrow> Some (False, a))"

section \<open>Commands\<close>

text \<open>The commands that stand for an action.\<close>

definition plain_commands :: "(str \<times> action) list" where
  "plain_commands =
     [(''split-right'', ActNewSplit SideRight), (''split-down'', ActNewSplit SideDown),
      (''split-left'', ActNewSplit SideLeft), (''split-up'', ActNewSplit SideUp),
      (''close-pane'', ActCloseSurface), (''break-pane'', ActBreakPane), (''new-tab'', ActNewTab),
      (''next-tab'', ActNextTab), (''prev-tab'', ActPrevTab), (''close-tab'', ActCloseTab),
      (''last-tab'', ActGotoTab TabLast), (''next-layout'', ActNextLayout), (''prev-layout'', ActPreviousLayout),
      (''rebalance-layout'', ActRebalanceLayout), (''next-pane'', ActNextPane), (''prev-pane'', ActPreviousPane),
      (''swap-pane-next'', ActSwapPaneNext), (''swap-pane-prev'', ActSwapPanePrevious),
      (''rotate-panes-forward'', ActRotatePanesForward), (''rotate-panes-backward'', ActRotatePanesBackward),
      (''copy-mode'', ActEnterCopyMode), (''copy'', ActCopy), (''choose-buffer'', ActChooseBuffer),
      (''choose-tree'', ActChooseTree), (''find-window'', ActFindWindow), (''display-panes'', ActDisplayPanes),
      (''command-prompt'', ActOpenCommandPrompt), (''search'', ActSearch), (''paste'', ActPaste),
      (''mark-pane'', ActMarkPane), (''clear-marked-pane'', ActClearMarkedPane), (''zoom'', ActToggleZoom),
      (''reload-config'', ActReloadConfig)]"

text \<open>The commands for the backend.\<close>

definition scroll_commands :: "(str \<times> str) list" where
  "scroll_commands =
     [(''scroll-page-up'', ''scroll_page_up''), (''scroll-page-down'', ''scroll_page_down''),
      (''scroll-to-top'', ''scroll_to_top''), (''scroll-to-bottom'', ''scroll_to_bottom'')]"

definition layout_names :: "(str \<times> tab_layout) list" where
  "layout_names =
     [(''manual'', Manual), (''even-horizontal'', EvenHorizontal), (''even-vertical'', EvenVertical),
      (''main-horizontal'', MainHorizontal), (''main-vertical'', MainVertical), (''tiled'', Tiled)]"

definition parse_tab_layout_name :: "str \<Rightarrow> tab_layout option" where
  "parse_tab_layout_name = map_of layout_names"

definition side_names :: "(str \<times> split_side) list" where
  "side_names = [(''right'', SideRight), (''down'', SideDown), (''left'', SideLeft), (''up'', SideUp)]"

definition parse_split_direction_name :: "str \<Rightarrow> split_side option" where
  "parse_split_direction_name = map_of side_names"

text \<open>The commands whose action has a parameter: the outer \<open>None\<close> for a name of another kind, the inner
  one for a missing or malformed parameter.\<close>

definition resize_command :: "resize_direction \<Rightarrow> str option \<Rightarrow> action option" where
  "resize_command dir arg1 =
     Some (ActResizeSplit dir (case Option.bind arg1 (parse_uint 10 16) of Some n \<Rightarrow> n | None \<Rightarrow> 10))"

definition param_commands :: "(str \<times> (str option \<Rightarrow> action option)) list" where
  "param_commands =
     [(''resize-left'', resize_command RLeft), (''resize-right'', resize_command RRight),
      (''resize-up'', resize_command RUp), (''resize-down'', resize_command RDown),
      (''goto-tab'', \<lambda>arg1. map_option (\<lambda>n. ActGotoTab (TabIndex (n - 1))) (Option.bind arg1 (parse_uint 10 64))),
      (''select-layout'', \<lambda>arg1. map_option ActSelectLayout (Option.bind arg1 parse_tab_layout_name)),
      (''join-pane'', \<lambda>arg1. map_option ActJoinMarkedPane (Option.bind arg1 parse_split_direction_name)),
      (''move-pane'', \<lambda>arg1. map_option ActJoinMarkedPane (Option.bind arg1 parse_split_direction_name))]"

definition command_action :: "str \<Rightarrow> str option \<Rightarrow> action option option" where
  "command_action cmd arg1 =
     (case map_of plain_commands cmd of
        Some action \<Rightarrow> Some (Some action)
      | None \<Rightarrow> map_option (\<lambda>f. f arg1) (map_of param_commands cmd))"

definition join_words :: "str list \<Rightarrow> str" where
  "join_words ws = (case ws of [] \<Rightarrow> [] | w # ws' \<Rightarrow> w @ concat (map (\<lambda>s. CHR '' '' # s) ws'))"

definition goto_line :: "app_env \<Rightarrow> int \<Rightarrow> app \<Rightarrow> app" where
  "goto_line env n a = show_cursor env (map_copy_mode (set_cursor (n, 0)) a)"

definition command_load_layout :: "app_env \<Rightarrow> str \<Rightarrow> app \<Rightarrow> app option" where
  "command_load_layout env name a =
     (case load_layout (env_layout_files env) (env_home env) name of
        None \<Rightarrow> Some a
      | Some _ \<Rightarrow>
          (if pane_parent_frame env a = None then Some a
           else map_option (\<lambda>(mv, supply). relayout env ((set_tabs mv a)\<lparr>ap_supply := supply\<rparr>))
             (app_load_layout (env_layout_files env) (env_home env) True name (tabs_of a, ap_supply a))))"

definition command_set :: "str list \<Rightarrow> app \<Rightarrow> app" where
  "command_set args a = (case args of
     key # v # vs \<Rightarrow> emit [FxConfigOverride key (join_words (v # vs))] a | _ \<Rightarrow> a)"

definition first_arg :: "str list \<Rightarrow> str option" where
  "first_arg args = (case args of x # _ \<Rightarrow> Some x | [] \<Rightarrow> None)"

text \<open>What has to be published again; the tab list is stale too.\<close>

definition mark_active_tab :: "app \<Rightarrow> app" where
  "mark_active_tab a =
     (case active_tab_id (ap_tabs a) of Some i \<Rightarrow> emit [FxTabsStale (Some i)] a | None \<Rightarrow> a)"

text \<open>The remaining commands; a line that starts with a number moves the cursor of copy mode.\<close>

definition special_command :: "app_env \<Rightarrow> str \<Rightarrow> str list \<Rightarrow> app \<Rightarrow> app option" where
  "special_command env cmd args a =
     (if cmd = ''set-tab-title'' then
        Some (if args \<noteq> []
              then relayout env (mark_active_tab
                (a\<lparr>ap_tabs := set_active_title (utf8_bytes (join_words args)) (ap_tabs a)\<rparr>)) else a)
      else if cmd = ''goto-line'' then
        Some (case Option.bind (first_arg args) parse_int of Some n \<Rightarrow> goto_line env n a | None \<Rightarrow> a)
      else if cmd = ''set'' then Some (command_set args a)
      else if cmd = ''load-layout'' then
        (case first_arg args of Some name \<Rightarrow> command_load_layout env name a | None \<Rightarrow> Some a)
      else if cmd = ''save-layout'' then
        Some (case first_arg args of
            Some name \<Rightarrow> emit [case_prod FxSaveLayout (save_current_layout (ap_tabs a) name)] a | None \<Rightarrow> a)
      else if cmd = ''list-layouts'' then Some a
      else Some (case parse_int cmd of
          Some n \<Rightarrow> (if is_copy_mode (ap_bindings a) then goto_line env n a else a) | None \<Rightarrow> a))"

definition run_command :: "app_env \<Rightarrow> str \<Rightarrow> str list \<Rightarrow> app \<Rightarrow> app option" where
  "run_command env cmd args a =
     (case command_action cmd (first_arg args) of
        Some (Some action) \<Rightarrow> dispatch_binding_action env action a
      | Some None \<Rightarrow> Some a
      | None \<Rightarrow>
          (case map_of scroll_commands cmd of
             Some name \<Rightarrow> Some (ghostty_binding_action env name a)
           | None \<Rightarrow> special_command env cmd args a))"

definition execute_command :: "app_env \<Rightarrow> str \<Rightarrow> app \<Rightarrow> app option" where
  "execute_command env input a =
     (case split_whitespace input of [] \<Rightarrow> Some a | cmd # args \<Rightarrow> run_command env cmd args a)"

definition invoke_status_component :: "app_env \<Rightarrow> rust_string \<Rightarrow> rust_string \<Rightarrow> app \<Rightarrow> (bool \<times> app) option" where
  "invoke_status_component env source click_id a =
     (case click_action source click_id (ap_status a) of
        None \<Rightarrow> Some (False, a)
      | Some act \<Rightarrow>
          (if act = [] then Some (False, a)
           else map_option (Pair True) (execute_command env (utf8_str act) (emit [FxTabsStale None] a))))"

section \<open>Keys of the prompts\<close>

definition handle_command_key ::
  "app_env \<Rightarrow> toolkit_key \<Rightarrow> str option \<Rightarrow> modifiers \<Rightarrow> app \<Rightarrow> app option" where
  "handle_command_key env key typed m a =
     Option.bind (prompt_key (env_lower env) key typed (md_control m) (ap_prompt a)) (\<lambda>(p, command).
       let a1 = a\<lparr>ap_prompt := p\<rparr>
       in case command of Some input \<Rightarrow> execute_command env input a1 | None \<Rightarrow> Some a1)"

definition send_search :: "app_env \<Rightarrow> app \<Rightarrow> app" where
  "send_search env a = ghostty_binding_action env (''search:'' @ ap_search_query a) a"

definition handle_search_key :: "app_env \<Rightarrow> toolkit_key \<Rightarrow> str option \<Rightarrow> modifiers \<Rightarrow> app \<Rightarrow> app" where
  "handle_search_key env key typed m a = (case key of
     TkNamed TkEscape \<Rightarrow>
       (let a1 = a\<lparr>ap_search_active := False, ap_search_query := []\<rparr>;
            a2 = (if is_copy_mode (ap_bindings a1) then a1 else ghostty_binding_action env ''end_search'' a1)
        in relayout env a2)
   | TkNamed TkEnter \<Rightarrow>
       ghostty_binding_action env (if md_shift m then ''navigate_search:previous'' else ''navigate_search:next'') a
   | TkNamed TkBackspace \<Rightarrow> send_search env (a\<lparr>ap_search_query := pop_char (ap_search_query a)\<rparr>)
   | _ \<Rightarrow>
       (case typed of
          Some t \<Rightarrow> send_search env (a\<lparr>ap_search_query := ap_search_query a @ printable t\<rparr>)
        | None \<Rightarrow> a))"

section \<open>Keys of the pickers\<close>

text \<open>The next selected line of a picker with some lines.\<close>

definition move_selection :: "bool \<Rightarrow> nat \<Rightarrow> nat \<Rightarrow> nat" where
  "move_selection forward n i = (if forward then (i + 1) mod n else (i + n - 1) mod n)"

definition close_find_window :: "app \<Rightarrow> app" where
  "close_find_window a = a\<lparr>ap_find_window := False, ap_find_window_query := [], ap_find_window_selected := 0\<rparr>"

definition move_find_window_selection :: "app_env \<Rightarrow> bool \<Rightarrow> app \<Rightarrow> app" where
  "move_find_window_selection env forward a =
     (let n = length (find_window_entries env a)
      in a\<lparr>ap_find_window_selected := (if n = 0 then 0 else move_selection forward n (ap_find_window_selected a))\<rparr>)"

text \<open>Going to the pane of an entry.\<close>

definition goto_entry :: "app_env \<Rightarrow> choose_tree_entry \<Rightarrow> app \<Rightarrow> app option" where
  "goto_entry env e a =
     map_option (\<lambda>a1.
       let (found, m) = focus_active_pane_by_id (cte_pane_id e) (ap_tabs a1);
           a2 = a1\<lparr>ap_tabs := m\<rparr>
       in sync_after_tab_change env (if found then refocus (app_focused a) a2 else a2))
     (app_goto_tab (cte_tab_index e) a)"

definition select_find_window_entry :: "app_env \<Rightarrow> app \<Rightarrow> app option" where
  "select_find_window_entry env a =
     (case get_at (find_window_entries env a) (ap_find_window_selected a) of
        None \<Rightarrow> Some (close_find_window a)
      | Some e \<Rightarrow> goto_entry env e (close_find_window a))"

definition is_printable_char :: "str \<Rightarrow> bool" where
  "is_printable_char ch = (case ch of [] \<Rightarrow> False | c # _ \<Rightarrow> 32 \<le> byte c)"

definition handle_find_window_key :: "app_env \<Rightarrow> toolkit_key \<Rightarrow> str option \<Rightarrow> app \<Rightarrow> app option" where
  "handle_find_window_key env key key_char a = (case key of
     TkNamed TkEscape \<Rightarrow> Some (close_find_window a)
   | TkNamed TkEnter \<Rightarrow> select_find_window_entry env a
   | TkNamed TkArrowUp \<Rightarrow> Some (move_find_window_selection env False a)
   | TkNamed TkArrowDown \<Rightarrow> Some (move_find_window_selection env True a)
   | TkNamed TkBackspace \<Rightarrow>
       Some (a\<lparr>ap_find_window_query := pop_char (ap_find_window_query a), ap_find_window_selected := 0\<rparr>)
   | _ \<Rightarrow>
       Some (case key_char of
          Some ch \<Rightarrow>
            (if is_printable_char ch
             then a\<lparr>ap_find_window_query := ap_find_window_query a @ ch, ap_find_window_selected := 0\<rparr>
             else a\<lparr>ap_find_window := False\<rparr>)
        | None \<Rightarrow> a\<lparr>ap_find_window := False\<rparr>))"

definition move_choose_tree_selection :: "app_env \<Rightarrow> bool \<Rightarrow> app \<Rightarrow> app" where
  "move_choose_tree_selection env forward a =
     (let n = length (choose_tree_entries env a)
      in if n = 0 then a\<lparr>ap_choose_tree := False, ap_choose_tree_selected := 0\<rparr>
         else a\<lparr>ap_choose_tree_selected := move_selection forward n (ap_choose_tree_selected a)\<rparr>)"

definition select_choose_tree_entry :: "app_env \<Rightarrow> app \<Rightarrow> app option" where
  "select_choose_tree_entry env a =
     (case get_at (choose_tree_entries env a) (ap_choose_tree_selected a) of
        None \<Rightarrow> Some (a\<lparr>ap_choose_tree := False, ap_choose_tree_selected := 0\<rparr>)
      | Some e \<Rightarrow> goto_entry env e (a\<lparr>ap_choose_tree := False\<rparr>))"

definition handle_choose_tree_key :: "app_env \<Rightarrow> toolkit_key \<Rightarrow> str option \<Rightarrow> app \<Rightarrow> app option" where
  "handle_choose_tree_key env key key_char a = (case key of
     TkNamed TkEscape \<Rightarrow> Some (a\<lparr>ap_choose_tree := False\<rparr>)
   | TkNamed TkEnter \<Rightarrow> select_choose_tree_entry env a
   | TkNamed TkArrowUp \<Rightarrow> Some (move_choose_tree_selection env False a)
   | TkNamed TkArrowDown \<Rightarrow> Some (move_choose_tree_selection env True a)
   | _ \<Rightarrow>
       (if key_char = Some ''k'' then Some (move_choose_tree_selection env False a)
        else if key_char = Some ''j'' then Some (move_choose_tree_selection env True a)
        else if key_char = Some [cr] then select_choose_tree_entry env a
        else Some (a\<lparr>ap_choose_tree := False\<rparr>)))"

definition close_choose_buffer :: "app \<Rightarrow> app" where
  "close_choose_buffer a = a\<lparr>ap_choose_buffer := False, ap_choose_buffer_selected := 0\<rparr>"

definition move_choose_buffer_selection :: "bool \<Rightarrow> app \<Rightarrow> app" where
  "move_choose_buffer_selection forward a =
     (if ap_paste_buffers a = [] then close_choose_buffer a
      else a\<lparr>ap_choose_buffer_selected :=
             move_selection forward (length (ap_paste_buffers a)) (ap_choose_buffer_selected a)\<rparr>)"

definition delete_selected_buffer :: "app \<Rightarrow> app" where
  "delete_selected_buffer a =
     (if ap_paste_buffers a = [] then close_choose_buffer a
      else let index = min (ap_choose_buffer_selected a) (length (ap_paste_buffers a) - 1);
               a1 = a\<lparr>ap_paste_buffers := remove_at index (ap_paste_buffers a)\<rparr>
           in if ap_paste_buffers a1 = [] then close_choose_buffer a1
              else if ap_choose_buffer_selected a1 \<ge> length (ap_paste_buffers a1)
              then a1\<lparr>ap_choose_buffer_selected := length (ap_paste_buffers a1) - 1\<rparr> else a1)"

definition paste_selected_buffer :: "app \<Rightarrow> app" where
  "paste_selected_buffer a =
     (case get_at (ap_paste_buffers a) (ap_choose_buffer_selected a) of
        None \<Rightarrow> close_choose_buffer a
      | Some t \<Rightarrow>
          write_terminal_input t (emit [FxClipboard t] (a\<lparr>ap_choose_buffer := False, ap_clipboard := t\<rparr>)))"

definition handle_choose_buffer_key :: "toolkit_key \<Rightarrow> str option \<Rightarrow> app \<Rightarrow> app" where
  "handle_choose_buffer_key key key_char a = (case key of
     TkNamed TkEscape \<Rightarrow> a\<lparr>ap_choose_buffer := False\<rparr>
   | TkNamed TkEnter \<Rightarrow> paste_selected_buffer a
   | TkNamed TkArrowUp \<Rightarrow> move_choose_buffer_selection False a
   | TkNamed TkArrowDown \<Rightarrow> move_choose_buffer_selection True a
   | TkNamed TkBackspace \<Rightarrow> delete_selected_buffer a
   | TkNamed TkDelete \<Rightarrow> delete_selected_buffer a
   | _ \<Rightarrow>
       (if key_char = Some ''k'' then move_choose_buffer_selection False a
        else if key_char = Some ''j'' then move_choose_buffer_selection True a
        else if key_char = Some ''d'' then delete_selected_buffer a
        else if key_char = Some ''p'' \<or> key_char = Some [cr] then paste_selected_buffer a
        else a\<lparr>ap_choose_buffer := False\<rparr>))"

definition display_panes_digit_index :: "str \<Rightarrow> nat option" where
  "display_panes_digit_index ch =
     (case ch of [c] \<Rightarrow> (if 49 \<le> byte c \<and> byte c \<le> 57 then Some (byte c - 49) else None) | _ \<Rightarrow> None)"

definition handle_display_panes_char :: "app_env \<Rightarrow> str \<Rightarrow> app \<Rightarrow> app" where
  "handle_display_panes_char env ch a =
     (let a1 = a\<lparr>ap_display_panes := False\<rparr>
      in case Option.bind (display_panes_digit_index ch) (get_at (visible_panes env a)) of
           None \<Rightarrow> a1
         | Some target \<Rightarrow>
             (let (found, m) = focus_active_pane_by_id target (ap_tabs a1); a2 = a1\<lparr>ap_tabs := m\<rparr>
              in if found then refocus (app_focused a) a2 else a2))"

definition handle_display_panes_key :: "app_env \<Rightarrow> toolkit_key \<Rightarrow> str option \<Rightarrow> app \<Rightarrow> app" where
  "handle_display_panes_key env key key_char a =
     (if key \<in> TkNamed ` {TkEscape, TkEnter, TkBackspace, TkTab, TkArrowUp, TkArrowDown, TkArrowLeft, TkArrowRight}
      then a\<lparr>ap_display_panes := False\<rparr>
      else case key_char of
        Some ch \<Rightarrow> handle_display_panes_char env ch a | None \<Rightarrow> a\<lparr>ap_display_panes := False\<rparr>)"

end
