(* ===== verification/AppInput.thy ===== *)
theory AppInput
  imports AppActions
begin

text \<open>
  The input of the application (\<open>src/runtime_input.rs\<close>, \<open>src/app_input.rs\<close>): keys, committed text and keys of the
  control socket, and the mouse: the status bar, the scrollbar, the dividers and the mouse selection. A
  result \<open>None\<close> is a panic.
\<close>

section \<open>Keys\<close>

record app_key_event =
  ke_keycode :: nat
  ke_mods :: i32
  ke_text :: "str option"
  ke_modified_text :: "str option"
  ke_named :: "named_key option"
  ke_repeat :: bool
  ke_input_seq :: "u64 option"

definition first_char :: "str option \<Rightarrow> str option" where
  "first_char s = (case s of Some t \<Rightarrow> (case str_chars t of c # _ \<Rightarrow> Some c | [] \<Rightarrow> None) | None \<Rightarrow> None)"

text \<open>The shifted characters are ASCII.\<close>

definition key_table_char :: "app_env \<Rightarrow> nat \<Rightarrow> i32 \<Rightarrow> str option" where
  "key_table_char env keycode mods =
     map_option (\<lambda>cp. [char_of cp]) (shifted_char (kp_shifted (env_keys env)) keycode mods)"

definition event_key_char :: "app_env \<Rightarrow> app_key_event \<Rightarrow> str option" where
  "event_key_char env e =
     or_else (key_table_char env (ke_keycode e) (ke_mods e))
       (or_else (first_char (ke_text e)) (first_char (ke_modified_text e)))"

definition named_toolkit :: "named_key \<Rightarrow> named_toolkit_key" where
  "named_toolkit k = (case k of
     NArrowUp \<Rightarrow> TkArrowUp | NArrowDown \<Rightarrow> TkArrowDown | NArrowLeft \<Rightarrow> TkArrowLeft | NArrowRight \<Rightarrow> TkArrowRight
   | NPageUp \<Rightarrow> TkPageUp | NPageDown \<Rightarrow> TkPageDown | NHome \<Rightarrow> TkHome | NEnd \<Rightarrow> TkEnd | NEscape \<Rightarrow> TkEscape)"

definition event_keyboard_key :: "app_env \<Rightarrow> app_key_event \<Rightarrow> toolkit_key" where
  "event_keyboard_key env e =
     (case ke_named e of
        Some named \<Rightarrow> TkNamed (named_toolkit named)
      | None \<Rightarrow>
          TkCharacter (case or_else (or_else (ke_modified_text e) (ke_text e)) (event_key_char env e) of
            Some t \<Rightarrow> t | None \<Rightarrow> []))"

definition is_command_copy_shortcut :: "app_key_event \<Rightarrow> str option \<Rightarrow> bool" where
  "is_command_copy_shortcut e key_char \<longleftrightarrow>
     has_mod (ke_mods e) GHOSTTY_MODS_SUPER \<and>
     \<not> has_mod (ke_mods e) (or GHOSTTY_MODS_CTRL GHOSTTY_MODS_ALT) \<and>
     key_char \<in> {Some ''c'', Some ''C''}"

section \<open>The mouse selection\<close>

definition clear_mouse_selection :: "app \<Rightarrow> bool \<times> app" where
  "clear_mouse_selection a = (ap_selection a \<noteq> None, a\<lparr>ap_selection := None, ap_selection_drag := False\<rparr>)"

definition pane_handle_by_id :: "u64 \<Rightarrow> app \<Rightarrow> pane_handle option" where
  "pane_handle_by_id pid a =
     Option.bind (active_tree (ap_tabs a)) (\<lambda>t.
       map_option ex_pane (List.find (\<lambda>e. pane_id (ex_pane e) = pid) (export_panes t)))"

definition mouse_selection_text :: "app_env \<Rightarrow> mouse_selection \<Rightarrow> app \<Rightarrow> str option" where
  "mouse_selection_text env selection a =
     Option.bind (pane_handle_by_id (ms_pane_id selection) a) (\<lambda>pane.
       Option.bind (viewport_selection (vb_offset (ap_bar a)) selection) (\<lambda>sel.
         map_option (\<lambda>snap. selection_text snap sel) (env_snapshot env (pane_id pane))))"

definition copy_mouse_selection :: "app_env \<Rightarrow> app \<Rightarrow> bool \<times> app" where
  "copy_mouse_selection env a =
     (case ap_selection a of
        None \<Rightarrow> (False, a)
      | Some selection \<Rightarrow>
          (if \<not> has_range selection then (False, a)
           else case mouse_selection_text env selection a of
             None \<Rightarrow> (False, a)
           | Some t \<Rightarrow> (True, copy_to_clipboard t a)))"

definition inside :: "f64 \<times> f64 \<Rightarrow> rect \<Rightarrow> bool" where
  "inside pt r \<longleftrightarrow> rect_x r \<le> fst pt \<and> rect_y r \<le> snd pt \<and> fst pt < rect_x r + rect_w r \<and> snd pt < rect_y r + rect_h r"

definition pane_cell_at_point :: "app_env \<Rightarrow> f64 \<times> f64 \<Rightarrow> app \<Rightarrow> (u64 \<times> nat \<times> nat) option" where
  "pane_cell_at_point env pt a =
     Option.bind (active_tree (ap_tabs a)) (\<lambda>t.
     Option.bind (List.find (\<lambda>e. case ex_frame e of Some r \<Rightarrow> inside pt r | None \<Rightarrow> False)
         (export_panes_with_frames t (terminal_frame env a))) (\<lambda>e.
     Option.bind (ex_frame e) (\<lambda>pane_frame.
     map_option (\<lambda>snap.
         let local_x = max 0 (fst pt - rect_x pane_frame);
             local_y = max 0 (snd pt - rect_y pane_frame);
             col = min (unat (f64_as_u32 (local_x / ap_cell_width a))) (unat (ts_cols snap) - 1);
             row = min (unat (f64_as_u32 (local_y / ap_cell_height a))) (unat (ts_rows snap) - 1)
         in (pane_id (ex_pane e), row, col))
       (env_snapshot env (pane_id (ex_pane e))))))"

definition selected_pane_frame :: "app_env \<Rightarrow> app \<Rightarrow> rect option" where
  "selected_pane_frame env a =
     Option.bind (ap_selection a) (\<lambda>selection.
     Option.bind (active_tree (ap_tabs a)) (\<lambda>t.
     Option.bind (List.find (\<lambda>e. pane_id (ex_pane e) = ms_pane_id selection)
         (export_panes_with_frames t (terminal_frame env a))) ex_frame))"

definition ceil_lines :: "f64 \<Rightarrow> nat" where
  "ceil_lines x = max (nat \<lceil>x\<rceil>) 1"

definition set_offset :: "nat \<Rightarrow> app \<Rightarrow> app" where
  "set_offset offset a = a\<lparr>ap_bar := (ap_bar a)\<lparr>vb_offset := offset\<rparr>\<rparr>"

text \<open>Scrolling while a drag leaves the pane: the point inside the pane where the selection ends, and whether
  the view has moved.\<close>

definition drag_scroll :: "app_env \<Rightarrow> rect \<Rightarrow> f64 \<times> f64 \<Rightarrow> app \<Rightarrow> bool \<times> f64 \<times> app" where
  "drag_scroll env frame pt a =
     (let upper = rect_y frame;
          bottom = rect_y frame + rect_h frame;
          last_y = max (bottom - 1) upper;
          offset = vb_offset (ap_bar a);
          max_offset = scroll_max_offset (ap_bar a)
      in if snd pt < upper \<and> offset > 0
         then let ls = min (ceil_lines ((upper - snd pt) / ap_cell_height a)) offset
              in (True, upper, set_offset (offset - ls) (emit [FxScrollDelta (focused_id_of a) (- int ls)] a))
         else if snd pt \<ge> bottom \<and> vb_total (ap_bar a) > vb_len (ap_bar a) \<and> offset < max_offset
         then let ls = min (ceil_lines ((snd pt - bottom) / ap_cell_height a)) (max_offset - offset)
              in (True, last_y,
                  set_offset (min (offset + ls) max_offset) (emit [FxScrollDelta (focused_id_of a) (int ls)] a))
         else (False, f64_clamp (snd pt) upper last_y, a))"

definition drag_autoscroll_selection :: "app_env \<Rightarrow> f64 \<times> f64 \<Rightarrow> app \<Rightarrow> (f64 \<times> f64) option \<times> app" where
  "drag_autoscroll_selection env pt a =
     (case selected_pane_frame env a of
        None \<Rightarrow> (None, a)
      | Some frame \<Rightarrow>
          (case Option.bind (ap_selection a) (\<lambda>s. Option.bind (pane_handle_by_id (ms_pane_id s) a)
                  (\<lambda>pane. env_snapshot env (pane_id pane))) of
             None \<Rightarrow> (None, a)
           | Some snap \<Rightarrow>
               (let left = rect_x frame; right = rect_x frame + rect_w frame;
                    clamped_x = f64_clamp (fst pt) left (max (right - 1) left);
                    (scrolled, clamped_y, a1) = drag_scroll env frame pt a;
                    max_y = real (unat (ts_rows snap) - 1) * ap_cell_height a + rect_y frame
                in if \<not> scrolled \<and> inside pt frame then (None, a1)
                   else (Some (clamped_x, min clamped_y max_y), a1))))"

definition begin_mouse_selection :: "app_env \<Rightarrow> f64 \<times> f64 \<Rightarrow> app \<Rightarrow> bool \<times> app" where
  "begin_mouse_selection env pt a =
     (case pane_cell_at_point env pt a of
        None \<Rightarrow> clear_mouse_selection a
      | Some (pid, row, col) \<Rightarrow>
          (let absolute_row = int row + int (vb_offset (ap_bar a))
           in (True, a\<lparr>ap_selection := Some \<lparr>ms_pane_id = pid, ms_anchor_row = absolute_row, ms_anchor_col = col,
                 ms_cursor_row = absolute_row, ms_cursor_col = col\<rparr>, ap_selection_drag := True\<rparr>)))"

definition update_mouse_selection :: "app_env \<Rightarrow> f64 \<times> f64 \<Rightarrow> app \<Rightarrow> bool \<times> app" where
  "update_mouse_selection env pt a =
     (case (ap_selection a, pane_cell_at_point env pt a) of
        (Some s, Some (pid, row, col)) \<Rightarrow>
          (let absolute_row = int row + int (vb_offset (ap_bar a))
           in if \<not> ap_selection_drag a \<or> pid \<noteq> ms_pane_id s
                \<or> (absolute_row = ms_cursor_row s \<and> col = ms_cursor_col s)
              then (False, a)
              else (True, a\<lparr>ap_selection := Some (s\<lparr>ms_cursor_row := absolute_row, ms_cursor_col := col\<rparr>)\<rparr>))
      | _ \<Rightarrow> (False, a))"

definition finish_mouse_selection :: "app \<Rightarrow> bool \<times> app" where
  "finish_mouse_selection a =
     (let a1 = a\<lparr>ap_selection_drag := False\<rparr>
      in case ap_selection a1 of
           None \<Rightarrow> (False, a1)
         | Some s \<Rightarrow> (if has_range s then (False, a1) else (True, a1\<lparr>ap_selection := None\<rparr>)))"

section \<open>Key events\<close>

definition dispatch_app_key :: "app_env \<Rightarrow> app_key_event \<Rightarrow> app \<Rightarrow> (bool \<times> app) option" where
  "dispatch_app_key env e a =
     (let key_char = event_key_char env e;
          key = event_keyboard_key env e;
          typed = or_else (ke_text e) key_char;
          m = ghostty_mods_to_iced (ke_mods e)
      in if ap_find_window a then map_option (Pair True) (handle_find_window_key env key key_char a)
         else if ap_choose_tree a then map_option (Pair True) (handle_choose_tree_key env key key_char a)
         else if ap_choose_buffer a then Some (True, handle_choose_buffer_key key key_char a)
         else if ap_display_panes a then Some (True, handle_display_panes_key env key key_char a)
         else if cp_active (ap_prompt a) then map_option (Pair True) (handle_command_key env key typed m a)
         else if ap_search_active a then Some (True, handle_search_key env key typed m a)
         else let (result, b) = handle_key key_char (ke_keycode e) (ke_mods e) (ke_named e) (ap_bindings a)
              in dispatch_binding_result env result (a\<lparr>ap_bindings := b\<rparr>))"

definition no_modifiers :: modifiers where
  "no_modifiers = \<lparr>md_shift = False, md_control = False, md_alt = False, md_logo = False\<rparr>"

text \<open>Text in prefix mode or copy mode, a character at a time.\<close>

fun type_chars :: "app_env \<Rightarrow> str list \<Rightarrow> app \<Rightarrow> app option" where
  "type_chars env [] a = Some a"
| "type_chars env (ch # chs) a =
     (let (result, b) = handle_key (Some ch) 0 0 None (ap_bindings a)
      in Option.bind (dispatch_binding_result env result (a\<lparr>ap_bindings := b\<rparr>)) (\<lambda>r. type_chars env chs (snd r)))"

definition handle_committed_text :: "app_env \<Rightarrow> str \<Rightarrow> app \<Rightarrow> app option" where
  "handle_committed_text env committed a =
     (let a1 = snd (clear_mouse_selection a)
      in if ap_display_panes a1 \<and> committed \<noteq> []
         then Some (fold (handle_display_panes_char env) (str_chars committed) a1)
         else if cp_active (ap_prompt a1)
         then handle_command_key env (TkCharacter committed) (Some committed) no_modifiers a1
         else if ap_search_active a1
         then Some (handle_search_key env (TkCharacter committed) (Some committed) no_modifiers a1)
         else if is_prefix_mode (ap_bindings a1) \<or> is_copy_mode (ap_bindings a1)
         then type_chars env (str_chars committed) a1
         else Some (write_terminal_input committed a1))"

definition press_vt_key :: "app_env \<Rightarrow> app_key_event \<Rightarrow> nat \<Rightarrow> vt_key_event" where
  "press_vt_key env e vt_keycode =
     \<lparr>vk_action = (if ke_repeat e then KeyRepeat else KeyPress), vk_keycode = vt_keycode, vk_mods = ke_mods e,
      vk_consumed_mods = and (ke_mods e) GHOSTTY_MODS_SHIFT, vk_char = event_key_char env e,
      vk_text = (case ke_text e of Some t \<Rightarrow> t | None \<Rightarrow> []), vk_unshifted = shifted_codepoint_vt vt_keycode 0\<rparr>"

definition forward_key_event :: "app_env \<Rightarrow> app_key_event \<Rightarrow> app \<Rightarrow> app option" where
  "forward_key_event env e a =
     (let a1 = snd (clear_mouse_selection a);
          plain = \<not> has_mod (ke_mods e) (or (or GHOSTTY_MODS_CTRL GHOSTTY_MODS_ALT) GHOSTTY_MODS_SUPER)
      in case (if plain then or_else (ke_text e) (ke_modified_text e) else None) of
           Some (c # cs) \<Rightarrow> handle_committed_text env (c # cs) a1
         | _ \<Rightarrow>
             (let a2 = reset_scrolling_state a1
              in Some (case kp_to_vt (env_keys env) (ke_keycode e) of
                   None \<Rightarrow> a2
                 | Some vt_keycode \<Rightarrow>
                     (if kp_via_appkit (env_keys env) vt_keycode (ke_mods e) then a2
                      else emit [FxVtKey (focused_id_of a2) (press_vt_key env e vt_keycode)] a2))))"

text \<open>The result tells whether the key was for the application itself.\<close>

definition handle_app_key_event :: "app_env \<Rightarrow> app_key_event \<Rightarrow> app \<Rightarrow> (bool \<times> app) option" where
  "handle_app_key_event env e a =
     (let copied = (if is_command_copy_shortcut e (event_key_char env e) then copy_mouse_selection env a else (False, a))
      in if fst copied then Some copied
         else Option.bind (dispatch_app_key env e (snd copied)) (\<lambda>(consumed, a1).
           if consumed then Some (True, a1) else map_option (Pair False) (forward_key_event env e a1)))"

text \<open>Keys of the control socket, given by their names.\<close>

definition key_names :: "(str \<times> named_toolkit_key) list" where
  "key_names =
     [(''enter'', TkEnter), (''return'', TkEnter), (''tab'', TkTab), (''space'', TkSpace), (''escape'', TkEscape),
      (''esc'', TkEscape), (''backspace'', TkBackspace), (''delete'', TkDelete), (''up'', TkArrowUp),
      (''down'', TkArrowDown), (''left'', TkArrowLeft), (''right'', TkArrowRight), (''pageup'', TkPageUp),
      (''pagedown'', TkPageDown), (''home'', TkHome), (''end'', TkEnd)]"

definition control_key_to_keyboard_key :: "str \<Rightarrow> str option \<Rightarrow> toolkit_key" where
  "control_key_to_keyboard_key ks key_char =
     (case map_of key_names (rev (takeWhile (\<lambda>c. c \<noteq> CHR ''+'') (rev ks))) of
        Some named \<Rightarrow> TkNamed named
      | None \<Rightarrow> TkCharacter (case key_char of Some ch \<Rightarrow> ch | None \<Rightarrow> [CHR 0x00]))"

definition inject_forward :: "app_env \<Rightarrow> str \<Rightarrow> nat \<Rightarrow> i32 \<Rightarrow> app \<Rightarrow> app" where
  "inject_forward env ks keycode mods a =
     (case parse_vt_keyspec ks of
        None \<Rightarrow> a
      | Some (vt_keycode, _) \<Rightarrow>
          (let key_char = key_table_char env keycode mods;
               a1 = reset_scrolling_state a
           in emit [FxVtKey (focused_id_of a1) \<lparr>vk_action = KeyPress, vk_keycode = vt_keycode, vk_mods = mods,
                vk_consumed_mods = (if has_mod mods GHOSTTY_MODS_SHIFT then GHOSTTY_MODS_SHIFT else GHOSTTY_MODS_NONE),
                vk_char = key_char,
                vk_text = (if has_mod mods GHOSTTY_MODS_CTRL then [] else case key_char of Some ch \<Rightarrow> ch | None \<Rightarrow> []),
                vk_unshifted = shifted_codepoint_vt vt_keycode 0\<rparr>] a1))"

definition inject_key :: "app_env \<Rightarrow> str \<Rightarrow> app \<Rightarrow> app option" where
  "inject_key env ks a =
     (case kp_keyspec (env_keys env) ks of
        None \<Rightarrow> Some a
      | Some (keycode, mods) \<Rightarrow>
          (let key_char = key_table_char env keycode mods;
               key = control_key_to_keyboard_key ks key_char;
               m = ghostty_mods_to_iced mods
           in if cp_active (ap_prompt a) then handle_command_key env key key_char m a
              else if ap_search_active a then Some (handle_search_key env key key_char m a)
              else let (result, b) = handle_key key_char keycode mods None (ap_bindings a)
                   in map_option (\<lambda>(consumed, a1). if consumed then a1 else inject_forward env ks keycode mods a1)
                     (dispatch_binding_result env result (a\<lparr>ap_bindings := b\<rparr>))))"

datatype text_input_command = InputBackspace | InputDeleteForward | InputNewline | InputTab

definition text_input_command_key :: "text_input_command \<Rightarrow> nat \<times> nat" where
  "text_input_command_key c = (case c of
     InputBackspace \<Rightarrow> (53, 8) | InputDeleteForward \<Rightarrow> (68, 127) | InputNewline \<Rightarrow> (58, 13) | InputTab \<Rightarrow> (64, 9))"

definition forward_text_input_command :: "text_input_command \<Rightarrow> app \<Rightarrow> app" where
  "forward_text_input_command c a =
     (let a1 = reset_scrolling_state a; (keycode, unshifted) = text_input_command_key c
      in emit [FxVtKey (focused_id_of a1) \<lparr>vk_action = KeyPress, vk_keycode = keycode, vk_mods = 0,
           vk_consumed_mods = 0, vk_char = None, vk_text = [], vk_unshifted = unshifted\<rparr>] a1)"

text \<open>Key events of the window toolkit; the keys of modifiers alone are ignored.\<close>

definition modifier_codes :: "str set" where
  "modifier_codes = {''ShiftLeft'', ''ShiftRight'', ''ControlLeft'', ''ControlRight'', ''AltLeft'', ''AltRight'',
     ''SuperLeft'', ''SuperRight'', ''CapsLock''}"

definition named_from_toolkit :: "toolkit_key \<Rightarrow> named_key option" where
  "named_from_toolkit key = (case key of
     TkNamed TkArrowUp \<Rightarrow> Some NArrowUp | TkNamed TkArrowDown \<Rightarrow> Some NArrowDown
   | TkNamed TkArrowLeft \<Rightarrow> Some NArrowLeft | TkNamed TkArrowRight \<Rightarrow> Some NArrowRight
   | TkNamed TkPageUp \<Rightarrow> Some NPageUp | TkNamed TkPageDown \<Rightarrow> Some NPageDown
   | TkNamed TkHome \<Rightarrow> Some NHome | TkNamed TkEnd \<Rightarrow> Some NEnd | TkNamed TkEscape \<Rightarrow> Some NEscape
   | _ \<Rightarrow> None)"

definition non_empty :: "str option \<Rightarrow> str option" where
  "non_empty s = (if s = Some [] then None else s)"

definition character_of :: "toolkit_key \<Rightarrow> str option" where
  "character_of key = (case key of TkCharacter s \<Rightarrow> non_empty (Some s) | _ \<Rightarrow> None)"

definition handle_key_pressed ::
  "app_env \<Rightarrow> toolkit_key \<Rightarrow> toolkit_key \<Rightarrow> physical_key \<Rightarrow> modifiers \<Rightarrow> str option \<Rightarrow> bool \<Rightarrow> app \<Rightarrow> app option" where
  "handle_key_pressed env key modified_key physical_key m typed rep a =
     (if physical_key \<in> Code ` modifier_codes then Some a
      else case kp_native (env_keys env) physical_key of
        None \<Rightarrow> Some a
      | Some keycode \<Rightarrow>
          map_option snd (handle_app_key_event env
            \<lparr>ke_keycode = keycode, ke_mods = iced_mods_to_ghostty m, ke_text = non_empty typed,
             ke_modified_text = character_of modified_key, ke_named = named_from_toolkit key,
             ke_repeat = rep, ke_input_seq = None\<rparr> a))"

definition handle_key_released :: "app_env \<Rightarrow> physical_key \<Rightarrow> modifiers \<Rightarrow> app \<Rightarrow> app" where
  "handle_key_released env physical_key m a =
     (case (kp_native (env_keys env) physical_key, physical_to_vt_keycode physical_key) of
        (Some _, Some vt_keycode) \<Rightarrow>
          (if kp_via_appkit (env_keys env) vt_keycode (iced_mods_to_ghostty m) then a
           else emit [FxVtKey (focused_id_of a) \<lparr>vk_action = KeyRelease, vk_keycode = vt_keycode,
             vk_mods = iced_mods_to_ghostty m, vk_consumed_mods = 0, vk_char = None, vk_text = [], vk_unshifted = 0\<rparr>] a)
      | _ \<Rightarrow> a)"

section \<open>The mouse\<close>

definition status_bar_top :: "app_env \<Rightarrow> app \<Rightarrow> f64" where
  "status_bar_top env a = max (ap_height a - env_bar_height env) 0"

text \<open>The segment of a zone, drawn from \<open>x\<close> on, that a click at \<open>px\<close> hits; a segment without a click is skipped.\<close>

fun segment_at :: "app_env \<Rightarrow> f64 \<Rightarrow> f64 \<Rightarrow> ui_status_component list \<Rightarrow> (rust_string \<times> rust_string \<times> f64) option" where
  "segment_at env px x [] = None"
| "segment_at env px x (s # ss) =
     (let w = env_segment_width env (utf8_str (usc_text s))
      in case (if px \<ge> x \<and> px < x + w then usc_click s else None) of
           Some click \<Rightarrow> Some (usc_source s, sc_id click, px - x)
         | None \<Rightarrow> segment_at env px (x + w) ss)"

definition status_component_at_point ::
  "app_env \<Rightarrow> f64 \<times> f64 \<Rightarrow> app \<Rightarrow> (rust_string \<times> rust_string \<times> f64) option" where
  "status_component_at_point env pt a =
     (if snd pt < status_bar_top env a \<or> snd pt \<ge> ap_height a then None
      else let snapshot = store_snapshot (ap_status a);
               right_width = sum_list (map (\<lambda>s. env_segment_width env (utf8_str (usc_text s))) (sb_right snapshot))
           in or_else (segment_at env (fst pt) 0 (sb_left snapshot))
                (segment_at env (fst pt) (max (ap_width a - right_width) 0) (sb_right snapshot)))"

definition scroll_to_mouse_y :: "app_env \<Rightarrow> f64 \<Rightarrow> app \<Rightarrow> app" where
  "scroll_to_mouse_y env y a =
     (let terminal_h = ap_height a - env_bar_height env; b = ap_bar a; max_offset = scroll_max_offset b
      in if terminal_h \<le> 0 \<or> vb_total b \<le> vb_len b then a
         else let fraction = f64_clamp (y / terminal_h) 0 1;
                  target_row = nat \<lfloor>fraction * real max_offset\<rfloor>
              in emit [if target_row = 0 then FxScrollTop (focused_id_of a)
                       else if target_row \<ge> max_offset then FxScrollBottom (focused_id_of a)
                       else FxScrollDelta (focused_id_of a) (int target_row - int (vb_offset b))] a)"

definition scroll_viewport_lines :: "int \<Rightarrow> app \<Rightarrow> app" where
  "scroll_viewport_lines line_delta a =
     emit [FxScrollDelta (focused_id_of a) line_delta] (a\<lparr>ap_scroll_remainder := 0\<rparr>)"

text \<open>\<open>f64::trunc\<close> and \<open>f64::round\<close>.\<close>

definition f64_trunc :: "f64 \<Rightarrow> int" where
  "f64_trunc x = (if x \<ge> 0 then \<lfloor>x\<rfloor> else \<lceil>x\<rceil>)"

definition f64_round :: "f64 \<Rightarrow> int" where
  "f64_round x = (if x \<ge> 0 then \<lfloor>x + 1 / 2\<rfloor> else \<lceil>x - 1 / 2\<rceil>)"

definition scroll_viewport_pixels :: "f64 \<Rightarrow> app \<Rightarrow> app" where
  "scroll_viewport_pixels dy_pixels a =
     (let row_delta = - dy_pixels / max (ap_cell_height a) 1; b = ap_bar a
      in if row_delta = 0 then a
         else if vb_total b > vb_len b \<and>
           (vb_offset b = 0 \<and> row_delta < 0 \<or> vb_offset b \<ge> scroll_max_offset b \<and> row_delta > 0)
         then a\<lparr>ap_scroll_remainder := 0\<rparr>
         else let remainder = ap_scroll_remainder a + row_delta; whole_rows = f64_trunc remainder
              in if whole_rows = 0 then a\<lparr>ap_scroll_remainder := remainder\<rparr>
                 else emit [FxScrollDelta (focused_id_of a) whole_rows]
                   (a\<lparr>ap_scroll_remainder := remainder - of_int whole_rows\<rparr>))"

definition wheel_lines :: "f64 \<Rightarrow> int" where
  "wheel_lines dy =
     (if \<bar>dy\<bar> \<ge> 1 then - f64_round dy else if dy > 0 then - 1 else if dy < 0 then 1 else 0)"

definition hyperlink_at_point :: "app_env \<Rightarrow> f64 \<times> f64 \<Rightarrow> app \<Rightarrow> str option" where
  "hyperlink_at_point env pt a =
     Option.bind (active_tree (ap_tabs a)) (\<lambda>t.
     Option.bind (List.find (\<lambda>e. pane_id (ex_pane e) = focused_id_of a)
         (export_panes_with_frames t (terminal_frame env a))) (\<lambda>e.
     Option.bind (ex_frame e) (\<lambda>frame.
       if \<not> inside pt frame then None
       else
         let col = nat (min 65535 (max 0 \<lfloor>(fst pt - rect_x frame) / ap_cell_width a\<rfloor>));
             row = nat (min 65535 (max 0 \<lfloor>(snd pt - rect_y frame) / ap_cell_height a\<rfloor>));
             cell = Option.bind (env_snapshot env (pane_id (ex_pane e))) (\<lambda>snap.
               Option.bind (get_at (rows_data snap) row) (\<lambda>cells. get_at cells col))
         in if map_option cs_hyperlink cell = Some True then env_hyperlink env (focused_id_of a) row col else None)))"

datatype mouse_event =
    MouseMoved f64 f64
  | MousePressed mouse_button
  | MouseReleased mouse_button
  | WheelLines f64 f64
  | WheelPixels f64 f64

definition send_mouse :: "mouse_action \<Rightarrow> mouse_button option \<Rightarrow> app \<Rightarrow> app" where
  "send_mouse action button a = emit [FxVtMouse (focused_id_of a) action button (ap_mouse a)] a"

definition mouse_moved :: "app_env \<Rightarrow> app \<Rightarrow> app" where
  "mouse_moved env a =
     (case ap_divider_drag a of
        Some dir \<Rightarrow> relayout env (map_active_tree (resize_drag (terminal_frame env a) dir (ap_mouse a)) a)
      | None \<Rightarrow>
          (if ap_scrollbar_drag a then scroll_to_mouse_y env (snd (ap_mouse a)) a
           else
             let (updated, a1) =
               (if ap_selection_drag a \<and> ap_selection a \<noteq> None
                then let (clamped, a1) = drag_autoscroll_selection env (ap_mouse a) a
                     in update_mouse_selection env (case clamped of Some pt \<Rightarrow> pt | None \<Rightarrow> ap_mouse a) a1
                else (False, a))
             in if updated then a1 else send_mouse MouseMotion None a1))"

text \<open>The left button outside the status bar: the scrollbar, a divider, or a pane.\<close>

definition left_pressed :: "app_env \<Rightarrow> app \<Rightarrow> app" where
  "left_pressed env a =
     (let (mx, my) = ap_mouse a; frame = terminal_frame env a
      in if mx \<ge> ap_width a - 10 \<and> my < ap_height a - env_bar_height env
         then scroll_to_mouse_y env my (a\<lparr>ap_scrollbar_drag := True\<rparr>)
         else case Option.bind (active_tree (ap_tabs a)) (\<lambda>t. divider_at t frame (mx, my)) of
           Some dir \<Rightarrow> a\<lparr>ap_divider_drag := Some dir\<rparr>
         | None \<Rightarrow>
             (let hit = (case active_tree (ap_tabs a) of Some t \<Rightarrow> fst (focus_at frame (mx, my) t) | None \<Rightarrow> False);
                  a1 = map_active_tree (\<lambda>t. snd (focus_at frame (mx, my) t)) a;
                  a2 = (if hit then set_pane_focus (app_focused a1) True (set_pane_focus (app_focused a) False a1) else a1);
                  (started, a3) = begin_mouse_selection env (mx, my) a2
              in if started then a3 else send_mouse MousePress (Some MouseLeft) a3))"

definition mouse_pressed :: "app_env \<Rightarrow> mouse_button \<Rightarrow> app \<Rightarrow> app option" where
  "mouse_pressed env button a =
     (if button \<noteq> MouseLeft then Some (send_mouse MousePress (Some button) a)
      else case status_component_at_point env (ap_mouse a) a of
        Some (source, click_id, x_offset) \<Rightarrow>
          map_option snd (invoke_status_component env source click_id
            (emit [FxStatusClick source click_id x_offset] (snd (clear_mouse_selection a))))
      | None \<Rightarrow> Some (left_pressed env a))"

definition mouse_released :: "app_env \<Rightarrow> mouse_button \<Rightarrow> app \<Rightarrow> app" where
  "mouse_released env button a =
     (if button \<noteq> MouseLeft then send_mouse MouseRelease (Some button) a
      else if ap_divider_drag a \<noteq> None then a\<lparr>ap_divider_drag := None\<rparr>
      else if ap_scrollbar_drag a then a\<lparr>ap_scrollbar_drag := False\<rparr>
      else
        let a1 = (if ap_selection a \<noteq> None then snd (update_mouse_selection env (ap_mouse a) a) else a);
            (clicked, a2) = finish_mouse_selection a1
        in if clicked
           then (case hyperlink_at_point env (ap_mouse a2) a2 of Some url \<Rightarrow> emit [FxOpenUrl url] a2 | None \<Rightarrow> a2)
           else if ap_selection a2 \<noteq> None then a2
           else send_mouse MouseRelease (Some MouseLeft) a2)"

definition handle_mouse :: "app_env \<Rightarrow> mouse_event \<Rightarrow> app \<Rightarrow> app option" where
  "handle_mouse env ev a = (case ev of
     MouseMoved x y \<Rightarrow> Some (mouse_moved env (a\<lparr>ap_mouse := (x, y)\<rparr>))
   | MousePressed button \<Rightarrow> mouse_pressed env button a
   | MouseReleased button \<Rightarrow> Some (mouse_released env button a)
   | WheelLines x y \<Rightarrow> Some (scroll_viewport_lines (wheel_lines y) a)
   | WheelPixels x y \<Rightarrow> Some (scroll_viewport_pixels y a))"

datatype app_mouse_event =
    AppCursorMoved f64 f64 i32
  | AppButtonPressed mouse_button f64 f64 i32
  | AppButtonReleased mouse_button f64 f64 i32
  | AppWheelLines f64 f64 i32
  | AppWheelPixels f64 f64 i32

text \<open>A mouse event of a client; the result tells whether something has changed that clients are told.\<close>

definition app_mouse :: "app_env \<Rightarrow> app_mouse_event \<Rightarrow> app \<Rightarrow> app option" where
  "app_mouse env ev a = (case ev of
     AppCursorMoved x y _ \<Rightarrow> handle_mouse env (MouseMoved x y) a
   | AppButtonPressed button x y _ \<Rightarrow> handle_mouse env (MousePressed button) (a\<lparr>ap_mouse := (x, y)\<rparr>)
   | AppButtonReleased button x y _ \<Rightarrow> handle_mouse env (MouseReleased button) (a\<lparr>ap_mouse := (x, y)\<rparr>)
   | AppWheelLines x y _ \<Rightarrow> handle_mouse env (WheelLines x y) a
   | AppWheelPixels x y _ \<Rightarrow> handle_mouse env (WheelPixels x y) a)"

definition handle_app_mouse_event :: "app_env \<Rightarrow> app_mouse_event \<Rightarrow> app \<Rightarrow> (bool \<times> app) option" where
  "handle_app_mouse_event env ev a =
     map_option (\<lambda>a1. (app_focused a \<noteq> app_focused a1 \<or> active (ap_tabs a) \<noteq> active (ap_tabs a1)
        \<or> length (tabs (ap_tabs a)) \<noteq> length (tabs (ap_tabs a1)) \<or> ap_divider_drag a \<noteq> ap_divider_drag a1
        \<or> ap_scrollbar_drag a \<noteq> ap_scrollbar_drag a1 \<or> vb_offset (ap_bar a) \<noteq> vb_offset (ap_bar a1)
        \<or> ap_selection a \<noteq> ap_selection a1, a1))
       (app_mouse env ev a)"

end
