(* ===== verification/AppLife.thy ===== *)
theory AppLife
  imports AppInput
begin

text \<open>
  The life of the application (\<open>src/runtime.rs\<close>, \<open>src/runtime_panes.rs\<close>, \<open>src/backend.rs\<close>): its first state, the
  first pane, what the panes report at every tick, text composition, and the window's own events.
\<close>

section \<open>Start\<close>

definition HEADLESS_SIZE :: "f64 \<times> f64" where "HEADLESS_SIZE = (1024, 768)"

text \<open>The arguments are the size of a character, the settings of notifications, and what the platform will
  answer to the requests for panes.\<close>

definition app_new :: "app_env \<Rightarrow> f64 \<times> f64 \<Rightarrow> notify_settings \<Rightarrow> pane_handle option list \<Rightarrow> app" where
  "app_new env cells notify created =
     \<lparr>ap_tabs = tabs_new, ap_views = (\<lambda>_. False), ap_frames = (\<lambda>_. None),
      ap_bindings = from_config (env_single_char env) (fst (env_config env)) (snd (env_config env)),
      ap_width = (if env_headless env then fst HEADLESS_SIZE else 0),
      ap_height = (if env_headless env then snd HEADLESS_SIZE else 0),
      ap_mouse = (0, 0), ap_divider_drag = None, ap_scrollbar_drag = False,
      ap_cell_width = fst cells, ap_cell_height = snd cells, ap_scroll_remainder = 0,
      ap_bar = \<lparr>vb_total = 0, vb_offset = 0, vb_len = 0\<rparr>,
      ap_search_active = False, ap_search_query = [], ap_search_total = 0, ap_search_selected = 0,
      ap_clipboard = [], ap_paste_buffers = [], ap_marked = None, ap_display_panes = False,
      ap_choose_buffer = False, ap_choose_buffer_selected = 0, ap_choose_tree = False, ap_choose_tree_selected = 0,
      ap_find_window = False, ap_find_window_query = [], ap_find_window_selected = 0,
      ap_copy_mode = None, ap_selection = None, ap_selection_drag = False, ap_prompt = prompt_new,
      ap_status = [], ap_pwd = [], ap_preedit = [], ap_window_focused = True, ap_initialized = False,
      ap_notify = notify, ap_supply = created, ap_effects = []\<rparr>"

text \<open>The size of the window before the first pane; \<open>None\<close> while the window has no content yet.\<close>

definition initial_size :: "app_env \<Rightarrow> app \<Rightarrow> (f64 \<times> f64) option" where
  "initial_size env a =
     (let small = ap_width a \<le> 1 \<or> ap_height a \<le> 1; now = (ap_width a, ap_height a)
      in if env_headless env then Some (if small then HEADLESS_SIZE else now)
         else map_option (\<lambda>bounds.
           if small \<and> rect_w bounds > 1 \<and> rect_h bounds > 1 then (rect_w bounds, rect_h bounds) else now)
           (env_view_bounds env))"

definition open_first_pane :: "app_env \<Rightarrow> app \<Rightarrow> app option" where
  "open_first_pane env a =
     (case create_pane a of
        (None, a1) \<Rightarrow> Some a1
      | (Some pane, a1) \<Rightarrow>
          (let frame = terminal_frame env a;
               scale = scale_factor env;
               (w, h) = (if rect_w frame > 0 \<and> rect_h frame > 0
                         then (f64_as_u32 (rect_w frame * scale), f64_as_u32 (rect_h frame * scale)) else (800, 600));
               a2 = emit [FxFocus pane True, FxResize pane w h]
                 (a1\<lparr>ap_tabs := add_initial_tab pane (ap_tabs a1), ap_initialized := True\<rparr>)
           in case env_startup_layout env of
                Some name \<Rightarrow> command_load_layout env name a2 | None \<Rightarrow> Some a2))"

definition init_surface :: "app_env \<Rightarrow> app \<Rightarrow> app option" where
  "init_surface env a =
     (if tabs (ap_tabs a) \<noteq> [] then Some a
      else case initial_size env a of
        None \<Rightarrow> Some a
      | Some (w, h) \<Rightarrow>
          (let a1 = a\<lparr>ap_width := w, ap_height := h\<rparr>; frame = terminal_frame env a1
           in if rect_w frame \<le> 1 \<or> rect_h frame \<le> 1 then Some a1 else open_first_pane env a1))"

definition tab_size_pixels :: "app \<Rightarrow> u16 \<Rightarrow> u16 \<Rightarrow> u32 \<times> u32" where
  "tab_size_pixels a cols rows =
     (f64_as_u32 (max (of_int (f64_round (real (unat cols) * ap_cell_width a))) 1),
      f64_as_u32 (max (of_int (f64_round (real (unat rows) * ap_cell_height a))) 1))"

definition resize_viewport_cells :: "app_env \<Rightarrow> u16 \<Rightarrow> u16 \<Rightarrow> app \<Rightarrow> bool \<times> app" where
  "resize_viewport_cells env cols rows a =
     (let (w, h) = tab_size_pixels a cols rows
      in resize_viewport_points env (real (unat w)) (real (unat h) + env_bar_height env) a)"

section \<open>Notifications\<close>

text \<open>Three digits, as \<open>{:03}\<close>.\<close>

definition show_padded3 :: "nat \<Rightarrow> str" where
  "show_padded3 n = replicate (3 - length (show_nat n)) (CHR ''0'') @ show_nat n"

definition format_command_finished_message :: "u8 option \<Rightarrow> nat \<Rightarrow> str" where
  "format_command_finished_message exit_code duration_ns =
     (let duration_ms = duration_ns div 1000000;
          took = ''Command took '' @ show_nat (duration_ms div 1000) @ ''.'' @ show_padded3 (duration_ms mod 1000) @ ''s''
      in case exit_code of
           Some code \<Rightarrow> took @ '' and exited with code '' @ show_nat (unat code) @ ''.''
         | None \<Rightarrow> took @ ''.'')"

definition command_finish_notification ::
  "notify_settings \<Rightarrow> bool \<Rightarrow> u8 option \<times> nat \<Rightarrow> (str \<times> str) option" where
  "command_finish_notification settings app_has_focus event =
     (let (exit_code, duration_ns) = event
      in if \<not> ns_desktop settings \<or> \<not> na_notify (ns_action settings)
           \<or> ns_on_finish settings = NotifyNever \<or> (ns_on_finish settings = NotifyUnfocused \<and> app_has_focus)
           \<or> duration_ns \<le> ns_after_ns settings
         then None
         else Some (case exit_code of
                Some code \<Rightarrow> (if code = 0 then ''Command Succeeded'' else ''Command Failed'')
              | None \<Rightarrow> ''Command Finished'', format_command_finished_message exit_code duration_ns))"

definition handle_command_finished :: "u8 option \<times> nat \<Rightarrow> app \<Rightarrow> app" where
  "handle_command_finished event a =
     (case command_finish_notification (ap_notify a) (ap_window_focused a) event of
        Some (heading, body) \<Rightarrow> emit [FxNotify heading body] a | None \<Rightarrow> a)"

section \<open>What the panes report\<close>

record poll_result =
  bp_dirty :: bool
  bp_exited :: "u64 list"
  bp_title :: "rust_string option"
  bp_pwd :: "str option"
  bp_bar :: "viewport_bar option"
  bp_running :: "(u64 \<times> rust_string option) list"
  bp_finished :: "(u8 option \<times> nat) list"
  bp_status :: "status_update list"
  bp_notes :: "(str \<times> str) list"

definition poll_none :: poll_result where
  "poll_none = \<lparr>bp_dirty = False, bp_exited = [], bp_title = None, bp_pwd = None, bp_bar = None, bp_running = [],
     bp_finished = [], bp_status = [], bp_notes = []\<rparr>"

text \<open>A component without a source gets the pane's own.\<close>

definition with_source :: "u64 \<Rightarrow> status_update \<Rightarrow> status_update" where
  "with_source pid u = (if su_source u = [] then u\<lparr>su_source := osc_source_for_pane pid\<rparr> else u)"

definition poll_pane :: "app_env \<Rightarrow> u64 \<Rightarrow> u64 \<Rightarrow> poll_result \<Rightarrow> poll_result" where
  "poll_pane env active_id pid r =
     (case env_updates env pid of
        None \<Rightarrow> r
      | Some u \<Rightarrow>
          (let snap = pu_snapshot u; bar = ts_scrollbar snap;
               r1 = r\<lparr>bp_exited := (if pu_exited u then bp_exited r @ [pid] else bp_exited r),
                      bp_finished := bp_finished r @ pu_finished u,
                      bp_status := bp_status r @ map (with_source pid) (pu_status u),
                      bp_notes := bp_notes r @ pu_notes u,
                      bp_dirty := bp_dirty r \<or> pu_fresh u,
                      bp_running := (case pu_running u of
                         Some c \<Rightarrow> bp_running r @ [(pid, c)] | None \<Rightarrow> bp_running r)\<rparr>
           in if pid = active_id
              then r1\<lparr>bp_pwd := Some (utf8_str (ts_pwd snap)),
                      bp_title := (if ts_title snap \<noteq> [] then Some (ts_title snap) else bp_title r1),
                      bp_bar := Some \<lparr>vb_total = unat (sb_total bar), vb_offset = unat (sb_offset bar),
                                  vb_len = unat (sb_len bar)\<rparr>\<rparr>
              else r1))"

definition backend_poll :: "app_env \<Rightarrow> u64 list \<Rightarrow> u64 \<Rightarrow> poll_result" where
  "backend_poll env ids active_id = fold (poll_pane env active_id) ids poll_none"

section \<open>A tick\<close>

text \<open>The parts of \<open>poll_backend\<close>; each tells whether clients have to be told.\<close>

definition active_pane_ids :: "app \<Rightarrow> u64 list" where
  "active_pane_ids a =
     (case active_tree (ap_tabs a) of Some t \<Rightarrow> map pane_id (all_panes t) | None \<Rightarrow> [])"

definition set_running :: "u64 \<times> running_cmd option \<Rightarrow> bool \<times> app \<Rightarrow> bool \<times> app" where
  "set_running r da =
     (let (changed, m) = set_running_command_for_pane (fst r) (snd r) (ap_tabs (snd da))
      in (fst da \<or> changed, (snd da)\<lparr>ap_tabs := m\<rparr>))"

definition running_updates :: "u64 list \<Rightarrow> poll_result \<Rightarrow> (u64 \<times> running_cmd option) list" where
  "running_updates ids poll =
     map (\<lambda>(pid, c). (pid, Some \<lparr>command = c\<rparr>)) (bp_running poll)
     @ map (\<lambda>pid. (pid, None)) (filter (\<lambda>pid. pid \<notin> fst ` set (bp_running poll)) ids)"

definition set_status :: "status_update \<Rightarrow> bool \<times> app \<Rightarrow> bool \<times> app" where
  "set_status u da =
     (let (changed, st) = store_set u (ap_status (snd da)) in (fst da \<or> changed, (snd da)\<lparr>ap_status := st\<rparr>))"

definition set_pwd :: "str option \<Rightarrow> bool \<times> app \<Rightarrow> bool \<times> app" where
  "set_pwd pwd da = (case pwd of
     Some d \<Rightarrow> (if ap_pwd (snd da) \<noteq> d then (True, (snd da)\<lparr>ap_pwd := d\<rparr>) else da) | None \<Rightarrow> da)"

definition set_title :: "rust_string option \<Rightarrow> bool \<times> app \<Rightarrow> bool \<times> app" where
  "set_title t da = (case t of
     Some s \<Rightarrow>
       (if map_option title (get_at (tabs (ap_tabs (snd da))) (active (ap_tabs (snd da)))) \<noteq> Some s
        then (True, (snd da)\<lparr>ap_tabs := set_active_title s (ap_tabs (snd da))\<rparr>) else da)
   | None \<Rightarrow> da)"

text \<open>While there is a mouse selection, the view stays where it is: the backend is moved back.\<close>

definition set_bar :: "viewport_bar option \<Rightarrow> bool \<times> app \<Rightarrow> bool \<times> app" where
  "set_bar bar da = (case bar of
     None \<Rightarrow> da
   | Some b \<Rightarrow>
       (let a = snd da; cur = ap_bar a
        in if ap_selection a \<noteq> None \<and> vb_offset cur \<noteq> vb_offset b
           then let a1 = emit [FxScrollDelta (focused_id_of a) (int (vb_offset cur) - int (vb_offset b))] a
                in if vb_total cur \<noteq> vb_total b \<or> vb_len cur \<noteq> vb_len b
                   then (True, a1\<lparr>ap_bar := b\<lparr>vb_offset := vb_offset cur\<rparr>\<rparr>) else (fst da, a1)
           else if cur \<noteq> b then (True, a\<lparr>ap_bar := b\<rparr>) else da))"

fun close_exited :: "app_env \<Rightarrow> u64 list \<Rightarrow> bool \<times> app \<Rightarrow> (bool \<times> app) option" where
  "close_exited env [] da = Some da"
| "close_exited env (pid # pids) da =
     (let a = (snd da)\<lparr>ap_status := snd (store_clear (osc_source_for_pane pid) None (ap_status (snd da)))\<rparr>
      in Option.bind (close_pane_by_id env pid a) (\<lambda>a1. close_exited env pids (True, a1)))"

definition poll_backend :: "app_env \<Rightarrow> app \<Rightarrow> (bool \<times> app) option" where
  "poll_backend env a =
     (let ids = active_pane_ids a;
          poll = backend_poll env ids (focused_id_of a);
          da1 = fold set_running (running_updates ids poll) (bp_dirty poll, a);
          a2 = fold handle_command_finished (bp_finished poll) (snd da1);
          da3 = fold set_status (bp_status poll) (fst da1, a2);
          a4 = (if ns_desktop (ap_notify (snd da3))
                then emit (map (case_prod FxNotify) (bp_notes poll)) (snd da3) else snd da3)
      in close_exited env (bp_exited poll) (set_bar (bp_bar poll) (set_title (bp_title poll)
           (set_pwd (bp_pwd poll) (fst da3, a4)))))"

section \<open>Text composition and the window\<close>

datatype text_input_event = TextCommit str | TextPreedit str | TextPreeditClear | TextCommand text_input_command

definition handle_text_input :: "app_env \<Rightarrow> text_input_event \<Rightarrow> app \<Rightarrow> app option" where
  "handle_text_input env ev a = (case ev of
     TextCommit t \<Rightarrow> handle_committed_text env t (a\<lparr>ap_preedit := []\<rparr>)
   | TextPreedit t \<Rightarrow> Some (a\<lparr>ap_preedit := t\<rparr>)
   | TextPreeditClear \<Rightarrow> Some (a\<lparr>ap_preedit := []\<rparr>)
   | TextCommand c \<Rightarrow> Some (forward_text_input_command c a))"

datatype window_event = WindowResized f64 f64 | WindowFocused | WindowUnfocused | WindowTab nat

definition handle_window :: "app_env \<Rightarrow> window_event \<Rightarrow> app \<Rightarrow> app option" where
  "handle_window env ev a = (case ev of
     WindowResized w h \<Rightarrow> Some (handle_resize env (w, h) a)
   | WindowFocused \<Rightarrow> Some (set_pane_focus (app_focused a) True (a\<lparr>ap_window_focused := True\<rparr>))
   | WindowUnfocused \<Rightarrow> Some (set_pane_focus (app_focused a) False (a\<lparr>ap_window_focused := False\<rparr>))
   | WindowTab i \<Rightarrow>
       map_option (\<lambda>r. let a1 = set_tabs (snd r) a in if fst r then sync_after_tab_change env a1 else a1)
         (goto_tab i (tabs_of a)))"

text \<open>What a turn of the main loop does without tabs: the first pane is opened once.\<close>

definition update_without_tabs :: "app_env \<Rightarrow> app \<Rightarrow> app option" where
  "update_without_tabs env a = (if ap_initialized a then Some a else init_surface env a)"

end
