(* ===== verification/UiSnapshots.thy ===== *)
theory UiSnapshots
  imports AppLife RemoteScreens
begin

text \<open>
  What the daemon tells about its user interface (\<open>src/runtime_ui.rs\<close>): the panes of a tab, the state that
  clients follow, and the snapshots of the control socket. The snapshot types are those of \<open>src/control.rs\<close>.
  The appearance is an argument.
\<close>

section \<open>Panes of a tab\<close>

definition tab_tree :: "tab_manager \<Rightarrow> nat \<Rightarrow> split_tree option" where
  "tab_tree m i = map_option tree (get_at (tabs m) i)"

definition tree_of_tab :: "tab_manager \<Rightarrow> u32 \<Rightarrow> split_tree option" where
  "tree_of_tab m tid = Option.bind (find_index_by_tab_id m tid) (tab_tree m)"

definition pane_ids_for_tab :: "tab_manager \<Rightarrow> u32 \<Rightarrow> u64 list" where
  "pane_ids_for_tab m tid =
     (case tree_of_tab m tid of Some t \<Rightarrow> map (\<lambda>e. pane_id (ex_pane e)) (export_panes t) | None \<Rightarrow> [])"

definition default_focused_pane_for_tab :: "tab_manager \<Rightarrow> u32 \<Rightarrow> u64 option" where
  "default_focused_pane_for_tab m tid = map_option (\<lambda>t. pane_id (focused_pane t)) (tree_of_tab m tid)"

definition pane_for_tab :: "tab_manager \<Rightarrow> u32 \<Rightarrow> pane_handle option" where
  "pane_for_tab m tid = map_option focused_pane (tree_of_tab m tid)"

definition split_direction_name :: "direction \<Rightarrow> rust_string" where
  "split_direction_name d = (case d of Horizontal \<Rightarrow> utf8_bytes ''horizontal'' | Vertical \<Rightarrow> utf8_bytes ''vertical'')"

definition ui_rect_snapshot :: "f64 \<times> f64 \<times> f64 \<times> f64 \<Rightarrow> ui_rect" where
  "ui_rect_snapshot r = (let (x, y, w, h) = r in \<lparr>ur_x = x, ur_y = y, ur_width = w, ur_height = h\<rparr>)"

definition frame_snapshot :: "rect option \<Rightarrow> ui_rect" where
  "frame_snapshot frame =
     (case frame of None \<Rightarrow> ui_rect_snapshot (0, 0, 0, 0)
      | Some f \<Rightarrow> ui_rect_snapshot (rect_x f, rect_y f, rect_w f, rect_h f))"

text \<open>The frame that the panes of a tab share: the viewport of the client when it is known.\<close>

definition viewport_frame :: "app_env \<Rightarrow> app \<Rightarrow> u16 option \<Rightarrow> u16 option \<Rightarrow> rect" where
  "viewport_frame env a cols rows =
     (case (cols, rows) of
        (Some c, Some r) \<Rightarrow>
          (let (w, h) = tab_size_pixels a c r
           in mk_rect (mk_point 0 0) (mk_size (real (unat w)) (real (unat h))))
      | _ \<Rightarrow> terminal_frame env a)"

definition visible_pane_snapshots_for ::
  "app_env \<Rightarrow> app \<Rightarrow> u32 \<Rightarrow> u64 \<Rightarrow> u16 option \<Rightarrow> u16 option \<Rightarrow> ui_pane_snapshot list" where
  "visible_pane_snapshots_for env a tid focused cols rows =
     (case tree_of_tab (ap_tabs a) tid of
        None \<Rightarrow> []
      | Some t \<Rightarrow>
          map (\<lambda>(leaf_index, e).
            \<lparr>up_leaf_index = leaf_index, up_leaf_id = ex_leaf_id e, up_pane_id = pane_id (ex_pane e),
             up_focused = (pane_id (ex_pane e) = focused), up_frame = frame_snapshot (ex_frame e),
             up_split_direction = map_option (\<lambda>s. split_direction_name (fst s)) (ex_split e),
             up_split_ratio = map_option snd (ex_split e)\<rparr>)
            (enumerate 0 (export_panes_with_frames t (viewport_frame env a cols rows))))"

text \<open>The index of every tab that is listed names a tab, so the \<open>expect\<close> of the source cannot fail.\<close>

definition runtime_tab_snapshots_for :: "tab_manager \<Rightarrow> u32 option \<Rightarrow> ui_tab_snapshot list" where
  "runtime_tab_snapshots_for m viewed =
     map (\<lambda>info. let tid = (case tab_id_for_index m (inf_index info) of Some i \<Rightarrow> i | None \<Rightarrow> 0)
        in \<lparr>ut_tab_id = tid, ut_index = inf_index info, ut_active = (Some tid = viewed),
            ut_title = inf_title info, ut_pane_count = inf_surfaces info,
            ut_focused_pane = default_focused_pane_for_tab m tid, ut_pane_ids = pane_ids_for_tab m tid\<rparr>)
       (tab_info_with_spinner 0 m)"

definition mouse_selection_rects :: "app_env \<Rightarrow> app \<Rightarrow> mouse_selection \<Rightarrow> f64 \<Rightarrow> hl_rect list" where
  "mouse_selection_rects env a selection term_y =
     (case Option.bind (pane_handle_by_id (ms_pane_id selection) a) (\<lambda>pane. env_snapshot env (pane_id pane)) of
        None \<Rightarrow> []
      | Some snapshot \<Rightarrow>
          compute_selection_rects SelChar (ms_cursor_row selection, ms_cursor_col selection)
            (ms_anchor_row selection, ms_anchor_col selection) (int (vb_offset (ap_bar a)))
            (unat (ts_cols snapshot)) (ap_cell_width a) (ap_cell_height a) term_y)"

definition ui_mouse_selection_snapshot :: "app_env \<Rightarrow> app \<Rightarrow> ui_mouse_selection" where
  "ui_mouse_selection_snapshot env a =
     (case ap_selection a of
        None \<Rightarrow> \<lparr>um_active = False, um_pane_id = None, um_selection_rects = []\<rparr>
      | Some selection \<Rightarrow>
          if has_range selection
          then \<lparr>um_active = True, um_pane_id = Some (ms_pane_id selection),
                um_selection_rects = map ui_rect_snapshot (mouse_selection_rects env a selection 0)\<rparr>
          else \<lparr>um_active = False, um_pane_id = None, um_selection_rects = []\<rparr>)"

definition visible_pane_snapshots :: "app_env \<Rightarrow> app \<Rightarrow> ui_pane_snapshot list" where
  "visible_pane_snapshots env a =
     (case active_tab_id (ap_tabs a) of
        Some tid \<Rightarrow> visible_pane_snapshots_for env a tid (focused_id_of a) None None
      | None \<Rightarrow> [])"

text \<open>The state that does not belong to a client; its revisions are constants.\<close>

definition ui_runtime_state_shared :: "app_env \<Rightarrow> app \<Rightarrow> ui_runtime_state" where
  "ui_runtime_state_shared env a =
     (let visible_panes = visible_pane_snapshots env a
      in \<lparr>rs_active_tab = active (ap_tabs a), rs_focused_pane = focused_id_of a,
          rs_tabs = runtime_tab_snapshots_for (ap_tabs a) (active_tab_id (ap_tabs a)),
          rs_visible_panes = visible_panes, rs_mouse_selection = ui_mouse_selection_snapshot env a,
          rs_status_bar = store_snapshot (ap_status a), rs_pwd = utf8_bytes (ap_pwd a),
          rs_runtime_revision = 1, rs_view_revision = 1, rs_view_id = 0,
          rs_viewed_tab_id = active_tab_id (ap_tabs a), rs_viewport_cols = None, rs_viewport_rows = None,
          rs_visible_pane_ids = map up_pane_id visible_panes, rs_acked_client_action_id = None\<rparr>)"

section \<open>Screens of panes\<close>

definition ui_terminal_cell_of :: "cell_snapshot \<Rightarrow> ui_terminal_cell" where
  "ui_terminal_cell_of c =
     \<lparr>utc_text = cs_text c, utc_display_width = cs_display_width c, utc_fg = cs_fg c, utc_bg = cs_bg c,
      utc_bg_is_default = cs_bg_is_default c, utc_bold = cs_bold c, utc_italic = cs_italic c,
      utc_underline = cs_underline c, utc_hyperlink = cs_hyperlink c\<rparr>"

definition ui_terminal_snapshot_of :: "terminal_snapshot \<Rightarrow> ui_terminal_snapshot" where
  "ui_terminal_snapshot_of s =
     \<lparr>uts_cols = ts_cols s, uts_rows = ts_rows s, uts_title = ts_title s, uts_pwd = ts_pwd s,
      uts_cursor = \<lparr>uc_visible = cu_visible (ts_cursor s), uc_blinking = cu_blinking (ts_cursor s),
        uc_x = cu_x (ts_cursor s), uc_y = cu_y (ts_cursor s), uc_style = cursor_style_raw (cu_style (ts_cursor s))\<rparr>,
      uts_rows_data = map (\<lambda>row. \<lparr>utr_cells = map ui_terminal_cell_of row\<rparr>) (rows_data s)\<rparr>"

definition ui_snapshot_of_pane :: "app_env \<Rightarrow> u64 \<Rightarrow> ui_terminal_snapshot option" where
  "ui_snapshot_of_pane env pane = map_option ui_terminal_snapshot_of (env_snapshot env pane)"

text \<open>The panes of the active tab that have a screen.\<close>

definition visible_pane_terminal_snapshots :: "app_env \<Rightarrow> app \<Rightarrow> (u64 \<times> ui_terminal_snapshot) list" where
  "visible_pane_terminal_snapshots env a =
     (case active_tree (ap_tabs a) of
        None \<Rightarrow> []
      | Some t \<Rightarrow> List.map_filter (\<lambda>e. map_option (Pair (pane_id (ex_pane e))) (ui_snapshot_of_pane env (pane_id (ex_pane e))))
          (export_panes t))"

definition terminal_text :: "ui_terminal_snapshot \<Rightarrow> str" where
  "terminal_text terminal =
     join_lines (map (\<lambda>row. trim_end (concat (map (\<lambda>cell. if utc_text cell = [] then '' '' else utf8_str (utc_text cell))
       (utr_cells row)))) (uts_rows_data terminal))"

record ui_text_snapshot =
  tx_active_tab :: nat
  tx_focused_pane :: u64
  tx_tabs :: "ui_tab_snapshot list"
  tx_visible_panes :: "ui_pane_snapshot list"
  tx_status_bar :: ui_status_bar
  tx_pane_texts :: "(u64 \<times> str) list"

definition ui_text_snapshot_of :: "app_env \<Rightarrow> app \<Rightarrow> ui_text_snapshot" where
  "ui_text_snapshot_of env a =
     (let visible_panes = visible_pane_snapshots env a
      in \<lparr>tx_active_tab = active (ap_tabs a), tx_focused_pane = focused_id_of a,
          tx_tabs = runtime_tab_snapshots_for (ap_tabs a) (active_tab_id (ap_tabs a)),
          tx_visible_panes = visible_panes, tx_status_bar = store_snapshot (ap_status a),
          tx_pane_texts = List.map_filter (\<lambda>p. map_option (\<lambda>s. (up_pane_id p, terminal_text s))
            (ui_snapshot_of_pane env (up_pane_id p))) visible_panes\<rparr>)"

section \<open>The whole user interface\<close>

record ui_copy_mode =
  uy_active :: bool
  uy_cursor_row :: int
  uy_cursor_col :: nat
  uy_selection_mode :: rust_string
  uy_has_anchor :: bool
  uy_anchor_row :: "int option"
  uy_anchor_col :: "nat option"
  uy_selection_rects :: "ui_rect list"
  uy_show_position :: bool

definition selection_mode_name :: "selection_mode \<Rightarrow> rust_string" where
  "selection_mode_name s = utf8_bytes (case s of SelNone \<Rightarrow> ''none'' | SelChar \<Rightarrow> ''character''
     | SelLine \<Rightarrow> ''line'' | SelRectangle \<Rightarrow> ''rectangle'')"

definition ui_copy_mode_snapshot :: "app_env \<Rightarrow> app \<Rightarrow> ui_copy_mode" where
  "ui_copy_mode_snapshot env a =
     (case ap_copy_mode a of
        None \<Rightarrow> \<lparr>uy_active = False, uy_cursor_row = 0, uy_cursor_col = 0, uy_selection_mode = utf8_bytes ''none'',
                 uy_has_anchor = False, uy_anchor_row = None, uy_anchor_col = None, uy_selection_rects = [],
                 uy_show_position = False\<rparr>
      | Some cm \<Rightarrow>
          \<lparr>uy_active = True, uy_cursor_row = cm_cursor_row cm, uy_cursor_col = cm_cursor_col cm,
           uy_selection_mode = selection_mode_name (cm_selection cm), uy_has_anchor = (cm_sel_anchor cm \<noteq> None),
           uy_anchor_row = map_option fst (cm_sel_anchor cm), uy_anchor_col = map_option snd (cm_sel_anchor cm),
           uy_selection_rects = (case cm_sel_anchor cm of None \<Rightarrow> []
             | Some anchor \<Rightarrow> map ui_rect_snapshot
                 (compute_selection_rects (cm_selection cm) (cm_cursor_row cm, cm_cursor_col cm) anchor
                   (int (vb_offset (ap_bar a))) (cm_viewport_cols cm) (cm_cell_width cm) (cm_cell_height cm)
                   (rect_y (terminal_frame env a)))),
           uy_show_position = cm_show_position cm\<rparr>)"

text \<open>The tabs of this snapshot tell which one is active of the daemon's own.\<close>

definition ui_tab_snapshots :: "tab_manager \<Rightarrow> ui_tab_snapshot list" where
  "ui_tab_snapshots m =
     map (\<lambda>info. let tid = tab_id_for_index m (inf_index info)
        in \<lparr>ut_tab_id = (case tid of Some i \<Rightarrow> i | None \<Rightarrow> 0), ut_index = inf_index info, ut_active = inf_active info,
            ut_title = inf_title info, ut_pane_count = inf_surfaces info,
            ut_focused_pane = Option.bind tid (default_focused_pane_for_tab m),
            ut_pane_ids = (case tid of Some i \<Rightarrow> pane_ids_for_tab m i | None \<Rightarrow> [])\<rparr>)
       (tab_info_with_spinner 0 m)"

record ui_command_prompt =
  uq_active :: bool
  uq_input :: str
  uq_selected :: nat
  uq_suggestions :: "str list"

definition ui_command_prompt_of :: "command_prompt \<Rightarrow> ui_command_prompt" where
  "ui_command_prompt_of p =
     \<lparr>uq_active = cp_active p, uq_input = cp_input p, uq_selected = cp_selected p,
      uq_suggestions = map cd_name (List.map_filter (\<lambda>i. get_at COMMANDS i) (cp_suggestions p))\<rparr>"

record ui_snapshot =
  us_active_tab :: nat
  us_focused_pane :: u64
  us_appearance :: ui_appearance
  us_tabs :: "ui_tab_snapshot list"
  us_visible_panes :: "ui_pane_snapshot list"
  us_pane_terminals :: "(u64 \<times> ui_terminal_snapshot) list"
  us_copy_mode :: ui_copy_mode
  us_mouse_selection :: ui_mouse_selection
  us_search :: "bool \<times> str \<times> int \<times> int"
  us_command_prompt :: ui_command_prompt
  us_status_bar :: ui_status_bar
  us_pwd :: str
  us_scrollbar :: viewport_bar
  us_terminal :: "ui_terminal_snapshot option"

definition ui_snapshot_of :: "app_env \<Rightarrow> ui_appearance \<Rightarrow> app \<Rightarrow> ui_snapshot" where
  "ui_snapshot_of env appearance a =
     \<lparr>us_active_tab = active (ap_tabs a), us_focused_pane = focused_id_of a, us_appearance = appearance,
      us_tabs = ui_tab_snapshots (ap_tabs a), us_visible_panes = visible_pane_snapshots env a,
      us_pane_terminals = visible_pane_terminal_snapshots env a, us_copy_mode = ui_copy_mode_snapshot env a,
      us_mouse_selection = ui_mouse_selection_snapshot env a,
      us_search = (ap_search_active a, ap_search_query a, ap_search_total a, ap_search_selected a),
      us_command_prompt = ui_command_prompt_of (ap_prompt a), us_status_bar = store_snapshot (ap_status a),
      us_pwd = ap_pwd a, us_scrollbar = ap_bar a, us_terminal = ui_snapshot_of_pane env (focused_id_of a)\<rparr>"

end
