(* ===== verification/Daemon.thy ===== *)
theory Daemon
  imports UiSnapshots "HOL-Library.Monad_Syntax"
begin

text \<open>
  The daemon around the application (\<open>src/runtime_server.rs\<close>, \<open>src/runtime.rs\<close>): the two servers that clients
  connect to, the caches of screens and tab lists, and how screens, tab lists and runtime states reach the
  clients. \<open>None\<close> is a panic. Connections come and go between the operations, not during one.
\<close>

section \<open>State\<close>

text \<open>
  What an operation reads from outside: the environment of the application, the order in which hash maps
  give the identifiers of clients, the clock, the appearance, and the results of \<open>serde_json\<close>.
\<close>

record server_env =
  se_app :: app_env
  se_order :: "u64 list"
  se_now :: instant
  se_appearance :: ui_appearance
  se_json_state :: "ui_runtime_state \<Rightarrow> bytes option"
  se_json_appearance :: "ui_appearance \<Rightarrow> bytes option"

record daemon =
  d_app :: app
  d_remote :: "remote_state option"
  d_local :: "remote_state option"
  d_revision :: u64
  d_row_caches :: "u64 \<rightharpoonup> pane_row_cache"
  d_pane_revisions :: "u64 \<rightharpoonup> u64 \<times> remote_full_state"
  d_dirty_tabs :: "u32 list"
  d_cached_tabs :: "remote_tab_info list option"
  d_dump_keys :: bool

abbreviation tabs_of_daemon :: "daemon \<Rightarrow> tab_manager" where
  "tabs_of_daemon d \<equiv> ap_tabs (d_app d)"

definition bump_runtime_revision :: "daemon \<Rightarrow> daemon" where
  "bump_runtime_revision d = d\<lparr>d_revision := max (d_revision d + 1) 1\<rparr>"

section \<open>Servers and clients\<close>

datatype server_slot = RemoteSlot | LocalSlot

fun server_at :: "server_slot \<Rightarrow> daemon \<Rightarrow> remote_state option" where
  "server_at RemoteSlot d = d_remote d"
| "server_at LocalSlot d = d_local d"

fun on_server :: "server_slot \<Rightarrow> (remote_state \<Rightarrow> remote_state) \<Rightarrow> daemon \<Rightarrow> daemon" where
  "on_server RemoteSlot f d = d\<lparr>d_remote := map_option f (d_remote d)\<rparr>"
| "on_server LocalSlot f d = d\<lparr>d_local := map_option f (d_local d)\<rparr>"

definition remote_slots :: "daemon \<Rightarrow> server_slot list" where
  "remote_slots d = filter (\<lambda>slot. server_at slot d \<noteq> None) [RemoteSlot, LocalSlot]"

definition on_all_servers :: "(remote_state \<Rightarrow> remote_state) \<Rightarrow> daemon \<Rightarrow> daemon" where
  "on_all_servers f d = fold (\<lambda>slot. on_server slot f) (remote_slots d) d"

definition has_runtime_stream_subscribers :: "server_env \<Rightarrow> daemon \<Rightarrow> bool" where
  "has_runtime_stream_subscribers env d \<longleftrightarrow>
     (\<exists>slot \<in> set (remote_slots d). case server_at slot d of
        Some st \<Rightarrow> has_runtime_viewers (se_order env) st | None \<Rightarrow> False)"

definition serves_client :: "u64 \<Rightarrow> daemon \<Rightarrow> server_slot \<Rightarrow> bool" where
  "serves_client client_id d slot \<longleftrightarrow>
     (case server_at slot d of Some st \<Rightarrow> has_client client_id st | None \<Rightarrow> False)"

definition remote_server_for_client :: "u64 \<Rightarrow> daemon \<Rightarrow> server_slot option" where
  "remote_server_for_client client_id d = List.find (serves_client client_id d) (remote_slots d)"

definition remote_server_for_delivery :: "u64 \<Rightarrow> daemon \<Rightarrow> server_slot option" where
  "remote_server_for_delivery client_id d =
     or_else (remote_server_for_client client_id d)
       (List.find (\<lambda>slot. server_at slot d \<noteq> None) [LocalSlot, RemoteSlot])"

definition on_client_server :: "u64 \<Rightarrow> (remote_state \<Rightarrow> remote_state) \<Rightarrow> daemon \<Rightarrow> daemon" where
  "on_client_server client_id f d =
     (case remote_server_for_client client_id d of Some slot \<Rightarrow> on_server slot f d | None \<Rightarrow> d)"

definition on_delivery_server :: "u64 \<Rightarrow> (remote_state \<Rightarrow> remote_state) \<Rightarrow> daemon \<Rightarrow> daemon" where
  "on_delivery_server client_id f d =
     (case remote_server_for_delivery client_id d of Some slot \<Rightarrow> on_server slot f d | None \<Rightarrow> d)"

definition update_view :: "u64 \<Rightarrow> (client_runtime_view \<Rightarrow> client_runtime_view) \<Rightarrow> daemon \<Rightarrow> daemon" where
  "update_view client_id f = on_client_server client_id (update_client_view client_id f)"

definition remote_view_state_for_client :: "u64 \<Rightarrow> daemon \<Rightarrow> client_runtime_view option" where
  "remote_view_state_for_client client_id d =
     Option.bind (remote_server_for_client client_id d) (\<lambda>slot.
       Option.bind (server_at slot d) (\<lambda>st. map_option runtime_view (clients st client_id)))"

text \<open>\<open>clients_snapshot\<close> sorts the clients of a server by their identifiers.\<close>

definition client_ids :: "server_env \<Rightarrow> daemon \<Rightarrow> u64 list" where
  "client_ids env d =
     concat (map (\<lambda>slot. case server_at slot d of
       Some st \<Rightarrow> sort (client_ids_where (\<lambda>_. True) (se_order env) st) | None \<Rightarrow> []) (remote_slots d))"

section \<open>Tab lists\<close>

definition remote_tabs :: "app_env \<Rightarrow> app \<Rightarrow> remote_tab_info list" where
  "remote_tabs env a =
     map (\<lambda>tab.
       let pane = (case tab_tree (ap_tabs a) (ti_index tab) of Some t \<Rightarrow> focused_pane t | None \<Rightarrow> pane_null);
           terminal = ui_snapshot_of_pane env (pane_id pane)
       in \<lparr>rt_id = ti_id tab, rt_name = utf8_bytes (''Tab '' @ show_nat (ti_index tab + 1)),
           rt_title = ti_title tab, rt_pwd = (case terminal of Some s \<Rightarrow> uts_pwd s | None \<Rightarrow> []),
           rt_active = (active (ap_tabs a) = ti_index tab),
           rt_child_exited = (pane_id pane = 0 \<or> terminal = None)\<rparr>)
       (tab_identity_list (ap_tabs a))"

definition current_remote_tabs :: "server_env \<Rightarrow> daemon \<Rightarrow> remote_tab_info list \<times> daemon" where
  "current_remote_tabs env d =
     (case d_cached_tabs d of
        Some cached \<Rightarrow> (cached, d)
      | None \<Rightarrow> (let tabs = remote_tabs (se_app env) (d_app d) in (tabs, d\<lparr>d_cached_tabs := Some tabs\<rparr>)))"

definition invalidate_remote_tabs_cache :: "daemon \<Rightarrow> daemon" where
  "invalidate_remote_tabs_cache d = d\<lparr>d_cached_tabs := None\<rparr>"

definition mark_remote_tab_dirty :: "u32 \<Rightarrow> daemon \<Rightarrow> daemon" where
  "mark_remote_tab_dirty tid d =
     invalidate_remote_tabs_cache
       (if tid \<in> set (d_dirty_tabs d) then d else d\<lparr>d_dirty_tabs := d_dirty_tabs d @ [tid]\<rparr>)"

definition mark_active_remote_tab_dirty :: "daemon \<Rightarrow> daemon" where
  "mark_active_remote_tab_dirty d =
     (case active_tab_id (tabs_of_daemon d) of Some tid \<Rightarrow> mark_remote_tab_dirty tid d | None \<Rightarrow> d)"

text \<open>An operation of the application; the marks that it leaves on the tabs are among its effects.\<close>

definition tab_marks :: "effect list \<Rightarrow> u32 option list" where
  "tab_marks es = List.map_filter (\<lambda>e. case e of FxTabsStale tab \<Rightarrow> Some tab | _ \<Rightarrow> None) es"

definition apply_mark :: "u32 option \<Rightarrow> daemon \<Rightarrow> daemon" where
  "apply_mark mark d =
     (case mark of Some tid \<Rightarrow> mark_remote_tab_dirty tid d | None \<Rightarrow> invalidate_remote_tabs_cache d)"

definition with_app :: "app \<Rightarrow> daemon \<Rightarrow> daemon" where
  "with_app a d =
     fold apply_mark (tab_marks (drop (length (ap_effects (d_app d))) (ap_effects a))) (d\<lparr>d_app := a\<rparr>)"

definition active_runtime_tab_id :: "tab_manager \<Rightarrow> u32 option" where
  "active_runtime_tab_id m =
     Option.bind (active_tab_id m) (\<lambda>tid. if pane_for_tab m tid \<noteq> None then Some tid else None)"

section \<open>The runtime state of a client\<close>

text \<open>The pane that a client works on: the one it has chosen while the tab has it.\<close>

definition focus_in :: "u64 option \<Rightarrow> u64 list \<Rightarrow> u64 option \<Rightarrow> u64 option" where
  "focus_in chosen panes fallback =
     or_else (Option.bind chosen (\<lambda>pane. if pane \<in> set panes then Some pane else None)) fallback"

definition ui_runtime_state_for_client :: "server_env \<Rightarrow> u64 \<Rightarrow> daemon \<Rightarrow> ui_runtime_state" where
  "ui_runtime_state_for_client env client_id d =
     (let a = d_app d; m = ap_tabs a; view = remote_view_state_for_client client_id d;
          viewed = or_else (Option.bind view viewed_tab_id) (active_runtime_tab_id m);
          focused = (case Option.bind viewed (\<lambda>tid.
              focus_in (Option.bind view focused_pane_id) (pane_ids_for_tab m tid) (default_focused_pane_for_tab m tid))
            of Some p \<Rightarrow> p | None \<Rightarrow> 0);
          cols = Option.bind view viewport_cols; rows = Option.bind view viewport_rows;
          visible = (case viewed of
              Some tid \<Rightarrow> visible_pane_snapshots_for (se_app env) a tid focused cols rows | None \<Rightarrow> [])
      in \<lparr>rs_active_tab = (case Option.bind viewed (find_index_by_tab_id m) of Some i \<Rightarrow> i | None \<Rightarrow> active m),
          rs_focused_pane = focused, rs_tabs = runtime_tab_snapshots_for m viewed, rs_visible_panes = visible,
          rs_mouse_selection = ui_mouse_selection_snapshot (se_app env) a,
          rs_status_bar = store_snapshot (ap_status a), rs_pwd = utf8_bytes (ap_pwd a),
          rs_runtime_revision = d_revision d,
          rs_view_revision = (case view of Some v \<Rightarrow> view_revision v | None \<Rightarrow> 1),
          rs_view_id = (case view of Some v \<Rightarrow> view_id v | None \<Rightarrow> client_id),
          rs_viewed_tab_id = viewed, rs_viewport_cols = cols, rs_viewport_rows = rows,
          rs_visible_pane_ids = map up_pane_id visible,
          rs_acked_client_action_id = Option.bind view acked_client_action_id\<rparr>)"

text \<open>\<open>send_ui_runtime_state\<close> of the client's current state, on the server that delivers to it.\<close>

definition send_client_state :: "server_env \<Rightarrow> u64 \<Rightarrow> daemon \<Rightarrow> daemon" where
  "send_client_state env client_id d =
     on_delivery_server client_id
       (send_ui_runtime_state client_id (se_json_state env (ui_runtime_state_for_client env client_id d))) d"

section \<open>Publishing screens\<close>

text \<open>Running an operation that may panic for every element of a list.\<close>

fun try_each :: "('a \<Rightarrow> 'b \<Rightarrow> 'b option) \<Rightarrow> 'a list \<Rightarrow> 'b \<Rightarrow> 'b option" where
  "try_each f [] s = Some s"
| "try_each f (x # xs) s = Option.bind (f x s) (try_each f xs)"

definition full_state_for_pane :: "server_env \<Rightarrow> u64 \<Rightarrow> daemon \<Rightarrow> (remote_full_state option \<times> daemon) option" where
  "full_state_for_pane env pane d =
     map_option (\<lambda>(state, caches). (state, d\<lparr>d_row_caches := caches\<rparr>))
       (remote_full_state_for_pane (env_snapshot (se_app env)) (ui_snapshot_of_pane (se_app env)) pane (d_row_caches d))"

definition pane_terminal_revision :: "u64 \<Rightarrow> remote_full_state \<Rightarrow> daemon \<Rightarrow> u64 \<times> daemon" where
  "pane_terminal_revision pane next_state d =
     (case d_pane_revisions d pane of
        Some (revision, cached) \<Rightarrow>
          if cached = next_state then (revision, d)
          else (let r = max (revision + 1) 1 in (r, d\<lparr>d_pane_revisions := (d_pane_revisions d)(pane \<mapsto> (r, next_state))\<rparr>))
      | None \<Rightarrow> (1, d\<lparr>d_pane_revisions := (d_pane_revisions d)(pane \<mapsto> (1, next_state))\<rparr>))"

definition forget_pane_terminal_revision :: "u64 \<Rightarrow> daemon \<Rightarrow> daemon" where
  "forget_pane_terminal_revision pane d = d\<lparr>d_pane_revisions := (d_pane_revisions d)(pane := None)\<rparr>"

text \<open>An operation of a server that may panic.\<close>

definition try_server :: "server_slot option \<Rightarrow> (remote_state \<Rightarrow> remote_state option) \<Rightarrow> daemon \<Rightarrow> daemon option" where
  "try_server slot f d =
     (case Option.bind slot (\<lambda>s. map_option (Pair s) (server_at s d)) of
        None \<Rightarrow> Some d
      | Some (s, st) \<Rightarrow> map_option (\<lambda>st1. on_server s (\<lambda>_. st1) d) (f st))"

definition publish_focused :: "server_env \<Rightarrow> u32 \<Rightarrow> u64 \<Rightarrow> u64 option \<Rightarrow> daemon \<Rightarrow> daemon option" where
  "publish_focused env tid client_id focused d =
     (case focused of
        None \<Rightarrow> Some d
      | Some pane \<Rightarrow> do {
          (state, d1) \<leftarrow> full_state_for_pane env pane d;
          case state of
            None \<Rightarrow> Some d1
          | Some s \<Rightarrow> try_server (remote_server_for_delivery client_id d1) (send_state_to_client client_id s) d1
        })"

definition publish_pane :: "server_env \<Rightarrow> u32 \<Rightarrow> u64 \<Rightarrow> u64 option \<Rightarrow> u64 \<Rightarrow> daemon \<Rightarrow> daemon option" where
  "publish_pane env tid client_id focused pane d =
     (if Some pane = focused then Some d
      else do {
        (state, d1) \<leftarrow> full_state_for_pane env pane d;
        case state of
          None \<Rightarrow> Some d1
        | Some s \<Rightarrow>
            (let (revision, d2) = pane_terminal_revision pane s d1
             in try_server (remote_server_for_delivery client_id d2)
                  (send_pane_state_to_client client_id tid pane revision (d_revision d2) s) d2)
      })"

definition publish_to_client :: "server_env \<Rightarrow> u32 \<Rightarrow> u64 \<Rightarrow> daemon \<Rightarrow> daemon option" where
  "publish_to_client env tid client_id d =
     (case remote_view_state_for_client client_id d of
        None \<Rightarrow> Some d
      | Some rv \<Rightarrow>
          if \<not> subscribed_to_runtime rv \<or> viewed_tab_id rv \<noteq> Some tid then Some d
          else
            let focused = focus_in (focused_pane_id rv) (visible_pane_ids rv)
                  (default_focused_pane_for_tab (tabs_of_daemon d) tid)
            in Option.bind (publish_focused env tid client_id focused d)
                 (try_each (publish_pane env tid client_id focused) (visible_pane_ids rv)))"

definition publish_remote_tab :: "server_env \<Rightarrow> u32 \<Rightarrow> daemon \<Rightarrow> daemon option" where
  "publish_remote_tab env tid d = try_each (publish_to_client env tid) (client_ids env d) d"

definition publish_active :: "server_env \<Rightarrow> u32 option \<Rightarrow> daemon \<Rightarrow> daemon option" where
  "publish_active env tid d = (case tid of Some t \<Rightarrow> publish_remote_tab env t d | None \<Rightarrow> Some d)"

definition broadcast_runtime_view_to_all_viewers :: "server_env \<Rightarrow> daemon \<Rightarrow> daemon option" where
  "broadcast_runtime_view_to_all_viewers env d =
     (let focused_tab = active_runtime_tab_id (tabs_of_daemon d);
          (tabs, d1) = current_remote_tabs env d;
          d2 = bump_runtime_revision d1;
          d3 = on_all_servers (\<lambda>st. send_ui_appearance_to_viewers (se_order env)
                 (se_json_appearance env (se_appearance env)) (send_tab_list_to_viewers (se_order env) tabs st)) d2;
          d4 = fold (send_client_state env) (client_ids env d3) d3
      in publish_active env focused_tab d4)"

end
