(* ===== verification/DaemonViews.thy ===== *)
theory DaemonViews
  imports Daemon
begin

text \<open>
  The views of clients (\<open>src/runtime_server.rs\<close>): which tab and panes a client looks at, how its view is
  repaired when the tabs change, how the daemon's own focus follows the client that gives a command, and
  the tabs that clients open and close.
\<close>

section \<open>Repair\<close>

definition point_view :: "u32 option \<Rightarrow> u64 option \<Rightarrow> u64 list \<Rightarrow> client_runtime_view \<Rightarrow> client_runtime_view" where
  "point_view viewed focused visible v =
     touch_view (v\<lparr>viewed_tab_id := viewed, focused_pane_id := focused, visible_pane_ids := visible\<rparr>)"

definition panes_of_viewed :: "tab_manager \<Rightarrow> u32 option \<Rightarrow> u64 list" where
  "panes_of_viewed m viewed = (case viewed of Some t \<Rightarrow> pane_ids_for_tab m t | None \<Rightarrow> [])"

definition ensure_remote_client_view_state ::
  "u64 \<Rightarrow> daemon \<Rightarrow> client_runtime_view option \<times> daemon" where
  "ensure_remote_client_view_state client_id d =
     (let m = tabs_of_daemon d
      in case remote_view_state_for_client client_id d of
           None \<Rightarrow> (None, d)
         | Some snapshot0 \<Rightarrow>
             (let viewed = active_runtime_tab_id m;
                  (snapshot, d1) =
                    (if view_id snapshot0 = 0
                     then let d1 = on_client_server client_id (initialize_client_view client_id viewed
                                (Option.bind viewed (default_focused_pane_for_tab m)) (panes_of_viewed m viewed)) d
                          in (remote_view_state_for_client client_id d1, d1)
                     else (Some snapshot0, d))
              in case snapshot of
                   None \<Rightarrow> (None, d1)
                 | Some rv \<Rightarrow>
                     (case viewed_tab_id rv of
                        None \<Rightarrow> (Some rv, d1)
                      | Some t \<Rightarrow>
                          (let valid_panes = pane_ids_for_tab m t;
                               needs_focus_repair = (case focused_pane_id rv of
                                 None \<Rightarrow> True | Some p \<Rightarrow> p \<notin> set valid_panes);
                               needs_visible_repair = (visible_pane_ids rv \<noteq> valid_panes)
                           in if needs_focus_repair \<or> needs_visible_repair
                              then let focused = focus_in (focused_pane_id rv) valid_panes (default_focused_pane_for_tab m t);
                                       d2 = update_view client_id (point_view (Some t) focused valid_panes) d1
                                   in (remote_view_state_for_client client_id d2, d2)
                              else (Some rv, d1)))))"

text \<open>After a tab is gone: every client of it looks at the tab that has taken its place.\<close>

definition repaired_tab :: "tab_manager \<Rightarrow> nat option \<Rightarrow> u32 option \<Rightarrow> u32 option" where
  "repaired_tab m closed_index viewed =
     or_else (Option.bind viewed (\<lambda>t. if find_index_by_tab_id m t \<noteq> None then Some t else None))
       (if tabs m = [] then None
        else tab_id_for_index m (case closed_index of None \<Rightarrow> active m | Some i \<Rightarrow> min i (length (tabs m) - 1)))"

definition repair_view :: "nat option \<Rightarrow> u64 \<Rightarrow> daemon \<Rightarrow> daemon" where
  "repair_view closed_index client_id d =
     (case remote_view_state_for_client client_id d of
        None \<Rightarrow> d
      | Some rv \<Rightarrow>
          (let m = tabs_of_daemon d;
               viewed = repaired_tab m closed_index (viewed_tab_id rv);
               focused = Option.bind viewed (\<lambda>t.
                 focus_in (focused_pane_id rv) (pane_ids_for_tab m t) (default_focused_pane_for_tab m t))
           in update_view client_id (point_view viewed focused (panes_of_viewed m viewed)) d))"

definition repair_all_remote_views :: "server_env \<Rightarrow> nat option \<Rightarrow> daemon \<Rightarrow> daemon" where
  "repair_all_remote_views env closed_index d = fold (repair_view closed_index) (client_ids env d) d"

section \<open>Bringing a client up to date\<close>

definition sync_remote_client_runtime_view :: "server_env \<Rightarrow> u64 \<Rightarrow> bool \<Rightarrow> daemon \<Rightarrow> daemon option" where
  "sync_remote_client_runtime_view env client_id subscribe d =
     (let (tabs, d1) = current_remote_tabs env d
      in case remote_server_for_delivery client_id d1 of
           None \<Rightarrow> Some d1
         | Some slot \<Rightarrow>
             (let m = tabs_of_daemon d1;
                  viewed = active_runtime_tab_id m;
                  d2 = on_server slot (initialize_client_view client_id viewed
                         (Option.bind viewed (default_focused_pane_for_tab m)) (panes_of_viewed m viewed)) d1;
                  state = se_json_state env (ui_runtime_state_for_client env client_id d2);
                  d3 = on_server slot (\<lambda>st.
                         send_ui_appearance client_id (se_json_appearance env (se_appearance env))
                           (send_ui_runtime_state client_id state (send_tab_list client_id tabs st))) d2
              in if subscribe
                 then publish_active env (active_runtime_tab_id m) (on_server slot (subscribe_client_to_runtime client_id) d3)
                 else Some (on_server slot (unsubscribe_client_from_runtime client_id) d3)))"

definition recover_remote_client_runtime_view :: "server_env \<Rightarrow> u64 \<Rightarrow> daemon \<Rightarrow> daemon option" where
  "recover_remote_client_runtime_view env client_id d =
     sync_remote_client_runtime_view env client_id (active_runtime_tab_id (tabs_of_daemon d) \<noteq> None) d"

section \<open>The daemon's focus follows a client\<close>

definition pane_handle_by_id_any :: "tab_manager \<Rightarrow> u64 \<Rightarrow> pane_handle option" where
  "pane_handle_by_id_any m pane =
     Option.bind (find_pane_location m pane) (\<lambda>loc. Option.bind (tab_tree m (fst loc)) (\<lambda>t.
       map_option ex_pane (List.find (\<lambda>e. pane_id (ex_pane e) = pane) (export_panes t))))"

definition focus_runtime_tab :: "u32 \<Rightarrow> app \<Rightarrow> (bool \<times> app) option" where
  "focus_runtime_tab t a =
     (case find_index_by_tab_id (ap_tabs a) t of
        None \<Rightarrow> Some (False, a)
      | Some i \<Rightarrow> map_option (\<lambda>a1. (True, refocus (app_focused a) a1)) (app_goto_tab i a))"

type_synonym client_target = "u32 \<times> u64 option"

definition client_runtime_target :: "u64 \<Rightarrow> daemon \<Rightarrow> client_target option \<times> daemon" where
  "client_runtime_target client_id d =
     (let (found, d1) = ensure_remote_client_view_state client_id d; m = tabs_of_daemon d1
      in (Option.bind found (\<lambda>rv. map_option (\<lambda>t.
            (t, focus_in (focused_pane_id rv) (pane_ids_for_tab m t) (default_focused_pane_for_tab m t)))
            (viewed_tab_id rv)), d1))"

definition focus_client_runtime_target ::
  "server_env \<Rightarrow> u64 \<Rightarrow> daemon \<Rightarrow> (client_target option \<times> daemon) option" where
  "focus_client_runtime_target env client_id d =
     (case client_runtime_target client_id d of
        (None, d1) \<Rightarrow> Some (None, d1)
      | (Some (t, pane), d1) \<Rightarrow> do {
          (found, a) \<leftarrow> focus_runtime_tab t (d_app d1);
          if \<not> found then map_option (Pair None) (recover_remote_client_runtime_view env client_id d1)
          else Some (Some (t, pane),
            d1\<lparr>d_app := (case pane of Some p \<Rightarrow> snd (focus_pane_by_id p a) | None \<Rightarrow> a)\<rparr>)
        })"

definition sync_client_view_to_active_runtime :: "u64 \<Rightarrow> daemon \<Rightarrow> daemon" where
  "sync_client_view_to_active_runtime client_id d =
     (let m = tabs_of_daemon d
      in case active_runtime_tab_id m of
           None \<Rightarrow> d
         | Some t \<Rightarrow>
             (let visible = pane_ids_for_tab m t;
                  focused = focus_in (Some (focused_id_of (d_app d))) visible (default_focused_pane_for_tab m t)
              in update_view client_id (point_view (Some t) focused visible) d))"

definition update_remote_view_local_state ::
  "server_env \<Rightarrow> u64 \<Rightarrow> (client_runtime_view \<Rightarrow> client_runtime_view) \<Rightarrow> daemon \<Rightarrow> daemon" where
  "update_remote_view_local_state env client_id update d =
     send_client_state env client_id (update_view client_id (\<lambda>v. touch_view (update v)) d)"

section \<open>Tabs of clients\<close>

definition send_client_error :: "u64 \<Rightarrow> remote_error_code \<Rightarrow> str \<Rightarrow> daemon \<Rightarrow> daemon" where
  "send_client_error client_id code message d =
     on_delivery_server client_id (send_error client_id code (utf8_bytes message)) d"

definition create_remote_runtime_tab ::
  "server_env \<Rightarrow> u64 \<Rightarrow> u16 \<Rightarrow> u16 \<Rightarrow> bool \<Rightarrow> daemon \<Rightarrow> daemon option" where
  "create_remote_runtime_tab env client_id cols rows send_ack d =
     (case app_new_tab (se_app env) (d_app d) of
        (None, a) \<Rightarrow> Some (send_client_error client_id ErrFailedCreateTab ''failed to create tab'' (d\<lparr>d_app := a\<rparr>))
      | (Some created, a) \<Rightarrow>
          (let m = ap_tabs a;
               a1 = (case pane_for_tab m created of
                   Some pane \<Rightarrow> (let (w, h) = tab_size_pixels a cols rows in emit [FxResize pane w h] a)
                 | None \<Rightarrow> a);
               d1 = invalidate_remote_tabs_cache (d\<lparr>d_app := a1\<rparr>);
               d2 = update_view client_id
                      (point_view (Some created) (default_focused_pane_for_tab m created) (pane_ids_for_tab m created)) d1;
               d3 = (if send_ack then on_delivery_server client_id (send_tab_created client_id created) d2 else d2)
           in broadcast_runtime_view_to_all_viewers env d3))"

definition destroy_remote_runtime_tab :: "server_env \<Rightarrow> u64 \<Rightarrow> u32 option \<Rightarrow> daemon \<Rightarrow> daemon option" where
  "destroy_remote_runtime_tab env client_id tid d =
     (let m = tabs_of_daemon d
      in case or_else tid (active_runtime_tab_id m) of
           None \<Rightarrow> Some (send_client_error client_id ErrUnknownTab ''unknown tab'' d)
         | Some target \<Rightarrow>
             (case find_index_by_tab_id m target of
                None \<Rightarrow> recover_remote_client_runtime_view env client_id d
              | Some tab_index \<Rightarrow>
                  (let was_active = (tab_index = active m);
                       (panes, a1) = app_remove_tab tab_index (d_app d);
                       d1 = fold (\<lambda>pane. forget_pane_terminal_revision (pane_id pane)) panes
                              (d\<lparr>d_app := free_panes panes a1\<rparr>);
                       d2 = (if was_active \<and> tabs (tabs_of_daemon d1) \<noteq> []
                             then d1\<lparr>d_app := sync_after_tab_change (se_app env) (d_app d1)\<rparr> else d1);
                       d3 = repair_all_remote_views env (Some tab_index) (invalidate_remote_tabs_cache d2)
                   in broadcast_runtime_view_to_all_viewers env d3)))"

end
