(* ===== verification/DaemonCommands.thy ===== *)
theory DaemonCommands
  imports DaemonViews
begin

text \<open>
  The commands of clients and of the control socket (\<open>handle_server_cmd\<close> of \<open>src/runtime_server.rs\<close>), and a
  turn of the main loop (\<open>update\<close> of \<open>src/runtime.rs\<close>). Traces and latency measurements are left out.
\<close>

section \<open>Input of clients\<close>

definition no_active_tab :: "u64 \<Rightarrow> daemon \<Rightarrow> daemon" where
  "no_active_tab client_id = send_client_error client_id ErrNoActiveTab ''no active tab''"

definition remote_input :: "server_env \<Rightarrow> u64 \<Rightarrow> bytes \<Rightarrow> u64 option \<Rightarrow> daemon \<Rightarrow> daemon option" where
  "remote_input env client_id bs input_seq d =
     (case ensure_remote_client_view_state client_id d of
        (None, d1) \<Rightarrow> Some d1
      | (Some rv, d1) \<Rightarrow>
          (case viewed_tab_id rv of
             None \<Rightarrow> Some (no_active_tab client_id d1)
           | Some t \<Rightarrow>
               (case Option.bind (focus_in (focused_pane_id rv) (visible_pane_ids rv)
                       (default_focused_pane_for_tab (tabs_of_daemon d1) t)) (pane_handle_by_id_any (tabs_of_daemon d1)) of
                  None \<Rightarrow> recover_remote_client_runtime_view env client_id d1
                | Some pane \<Rightarrow> do {
                    (found, a) \<leftarrow> focus_runtime_tab t (d_app d1);
                    if \<not> found then recover_remote_client_runtime_view env client_id d1
                    else
                      let a1 = snd (focus_pane_by_id (pane_id pane) a);
                          a2 = (if pane = app_focused a1 then write_terminal_input (utf8_str bs) a1
                                else emit [FxWriteInput (pane_id pane) (utf8_str bs)] a1);
                          d2 = on_client_server client_id (record_input_seq client_id input_seq) (d1\<lparr>d_app := a2\<rparr>)
                      in Some (mark_remote_tab_dirty t (sync_client_view_to_active_runtime client_id d2))
                  })))"

text \<open>The commands that need a tab: without one the client gets an error.\<close>

definition with_target ::
  "server_env \<Rightarrow> u64 \<Rightarrow> (u32 \<Rightarrow> daemon \<Rightarrow> daemon option) \<Rightarrow> daemon \<Rightarrow> daemon option" where
  "with_target env client_id act d = do {
     (target, d1) \<leftarrow> focus_client_runtime_target env client_id d;
     case target of None \<Rightarrow> Some (no_active_tab client_id d1) | Some (t, pane) \<Rightarrow> act t d1
   }"

definition remote_key :: "server_env \<Rightarrow> u64 \<Rightarrow> rust_string \<Rightarrow> u64 option \<Rightarrow> daemon \<Rightarrow> daemon option" where
  "remote_key env client_id keys input_seq = with_target env client_id (\<lambda>t d. do {
     let d1 = on_client_server client_id (record_input_seq client_id input_seq) d;
     a \<leftarrow> inject_key (se_app env) (utf8_str keys) (d_app d1);
     Some (mark_remote_tab_dirty t (sync_client_view_to_active_runtime client_id (with_app a d1)))
   })"

definition remote_app_key_event :: "server_env \<Rightarrow> u64 \<Rightarrow> app_key_event \<Rightarrow> daemon \<Rightarrow> daemon option" where
  "remote_app_key_event env client_id event = with_target env client_id (\<lambda>t d. do {
     let d1 = on_client_server client_id (record_input_seq client_id (ke_input_seq event)) d;
     (consumed, a) \<leftarrow> handle_app_key_event (se_app env) event (d_app d1);
     let d2 = sync_client_view_to_active_runtime client_id (with_app a d1);
     if consumed then broadcast_runtime_view_to_all_viewers env d2 else Some (mark_remote_tab_dirty t d2)
   })"

definition is_wheel :: "app_mouse_event \<Rightarrow> bool" where
  "is_wheel event = (case event of AppWheelLines _ _ _ \<Rightarrow> True | AppWheelPixels _ _ _ \<Rightarrow> True | _ \<Rightarrow> False)"

definition remote_app_mouse_event :: "server_env \<Rightarrow> u64 \<Rightarrow> app_mouse_event \<Rightarrow> daemon \<Rightarrow> daemon option" where
  "remote_app_mouse_event env client_id event = with_target env client_id (\<lambda>t d. do {
     (changed_ui, a) \<leftarrow> handle_app_mouse_event (se_app env) event (d_app d);
     let d1 = sync_client_view_to_active_runtime client_id (with_app a d);
     if changed_ui \<or> is_wheel event then broadcast_runtime_view_to_all_viewers env d1 else Some d1
   })"

text \<open>The commands that run with or without a tab; everyone is told afterwards.\<close>

definition with_focus ::
  "server_env \<Rightarrow> u64 \<Rightarrow> (daemon \<Rightarrow> daemon option) \<Rightarrow> daemon \<Rightarrow> daemon option" where
  "with_focus env client_id act d = do {
     (target, d1) \<leftarrow> focus_client_runtime_target env client_id d;
     d2 \<leftarrow> act d1;
     broadcast_runtime_view_to_all_viewers env (sync_client_view_to_active_runtime client_id d2)
   }"

text \<open>An action of a binding leaves no marks on the tabs.\<close>

definition run_action :: "server_env \<Rightarrow> action \<Rightarrow> daemon \<Rightarrow> daemon option" where
  "run_action env act d = map_option (\<lambda>a. d\<lparr>d_app := a\<rparr>) (dispatch_binding_action (se_app env) act (d_app d))"

definition remote_execute_command :: "server_env \<Rightarrow> u64 \<Rightarrow> rust_string \<Rightarrow> daemon \<Rightarrow> daemon option" where
  "remote_execute_command env client_id input d =
     with_focus env client_id (\<lambda>d. map_option (\<lambda>a. with_app a d) (execute_command (se_app env) (utf8_str input) (d_app d)))
       (invalidate_remote_tabs_cache d)"

definition remote_app_action :: "server_env \<Rightarrow> u64 \<Rightarrow> action \<Rightarrow> daemon \<Rightarrow> daemon option" where
  "remote_app_action env client_id act = with_focus env client_id (run_action env act)"

definition remote_focus_pane :: "server_env \<Rightarrow> u64 \<Rightarrow> u64 \<Rightarrow> daemon \<Rightarrow> daemon option" where
  "remote_focus_pane env client_id pane d =
     (case ensure_remote_client_view_state client_id d of
        (None, d1) \<Rightarrow> Some d1
      | (Some rv, d1) \<Rightarrow>
          (case viewed_tab_id rv of
             None \<Rightarrow> Some (no_active_tab client_id d1)
           | Some t \<Rightarrow>
               (let valid_panes = pane_ids_for_tab (tabs_of_daemon d1) t
                in if pane \<in> set valid_panes
                   then publish_remote_tab env t (send_client_state env client_id (bump_runtime_revision
                          (update_view client_id (\<lambda>v.
                             touch_view (v\<lparr>focused_pane_id := Some pane, visible_pane_ids := valid_panes\<rparr>)) d1)))
                   else Some d1)))"

definition remote_resize :: "u64 \<Rightarrow> u16 \<Rightarrow> u16 \<Rightarrow> daemon \<Rightarrow> daemon" where
  "remote_resize client_id cols rows =
     update_view client_id (\<lambda>v. touch_view (v\<lparr>viewport_cols := Some cols, viewport_rows := Some rows\<rparr>))"

definition remote_list_tabs :: "server_env \<Rightarrow> u64 \<Rightarrow> daemon \<Rightarrow> daemon" where
  "remote_list_tabs env client_id d =
     (let (tabs, d1) = current_remote_tabs env d;
          state = se_json_state env (ui_runtime_state_for_client env client_id d1)
      in on_delivery_server client_id (\<lambda>st.
           send_ui_appearance client_id (se_json_appearance env (se_appearance env))
             (send_ui_runtime_state client_id state (reply_tab_list client_id tabs st))) d1)"

definition remote_row_range_request :: "u64 \<Rightarrow> row_range_request \<Rightarrow> daemon \<Rightarrow> daemon" where
  "remote_row_range_request client_id request d =
     (case (remote_row_range_response (d_row_caches d) request, remote_view_state_for_client client_id d) of
        (Some response, Some rv) \<Rightarrow>
          (if rr_pane_id request \<notin> set (visible_pane_ids rv) \<and> focused_pane_id rv \<noteq> Some (rr_pane_id request) then d
           else case viewed_tab_id rv of
             None \<Rightarrow> d
           | Some t \<Rightarrow>
               on_delivery_server client_id (send_pane_rows_to_client client_id t (rr_pane_id request)
                 (case d_pane_revisions d (rr_pane_id request) of Some (revision, _) \<Rightarrow> revision | None \<Rightarrow> 0)
                 (d_revision d) response) d)
      | _ \<Rightarrow> d)"

definition remote_render_ack :: "instant \<Rightarrow> u64 \<Rightarrow> u64 \<Rightarrow> u64 \<Rightarrow> u64 \<Rightarrow> daemon \<Rightarrow> daemon" where
  "remote_render_ack now client_id pane pane_revision runtime_revision =
     update_view client_id (\<lambda>v. v\<lparr>last_render_ack_at := Some now, last_rendered_pane_id := Some pane,
       last_rendered_pane_revision := Some pane_revision, last_rendered_runtime_revision := Some runtime_revision\<rparr>)"

section \<open>Runtime actions\<close>

definition acknowledge_action :: "u64 \<Rightarrow> u64 option \<Rightarrow> daemon \<Rightarrow> daemon" where
  "acknowledge_action client_id action_id d =
     (case action_id of
        Some n \<Rightarrow> update_view client_id (\<lambda>v. touch_view (v\<lparr>acked_client_action_id := Some n\<rparr>)) d
      | None \<Rightarrow> d)"

definition name_view :: "u64 \<Rightarrow> client_runtime_view \<Rightarrow> client_runtime_view" where
  "name_view i v = (if view_id v = 0 then v\<lparr>view_id := i\<rparr> else v)"

text \<open>\<open>i64::saturating_add\<close>.\<close>

definition sat_add_i64 :: "i64 \<Rightarrow> i64 \<Rightarrow> i64" where
  "sat_add_i64 a b = word_of_int (max (- (2 ^ 63)) (min (2 ^ 63 - 1) (sint a + sint b)))"

definition signed_max0 :: "i64 \<Rightarrow> i64" where
  "signed_max0 a = (if sint a < 0 then 0 else a)"

definition scroll_view :: "u64 \<Rightarrow> i64 \<Rightarrow> client_runtime_view \<Rightarrow> client_runtime_view" where
  "scroll_view i n v =
     (let v1 = name_view i v in v1\<lparr>scroll_offset_rows := signed_max0 (sat_add_i64 (scroll_offset_rows v1) n)\<rparr>)"

definition copy_mode_view :: "u64 \<Rightarrow> bool \<Rightarrow> client_runtime_view \<Rightarrow> client_runtime_view" where
  "copy_mode_view i on v =
     (let v1 = (name_view i v)\<lparr>copy_mode_active := on\<rparr>
      in if on then v1 else v1\<lparr>search_active := False, search_query := []\<rparr>)"

definition set_viewed_tab :: "server_env \<Rightarrow> u64 \<Rightarrow> u32 \<Rightarrow> daemon \<Rightarrow> daemon option" where
  "set_viewed_tab env client_id t d =
     (let m = tabs_of_daemon d
      in publish_remote_tab env t (send_client_state env client_id (bump_runtime_revision
           (update_view client_id (point_view (Some t) (default_focused_pane_for_tab m t) (pane_ids_for_tab m t)) d))))"

definition step_viewed_tab :: "server_env \<Rightarrow> u64 \<Rightarrow> u64 option \<Rightarrow> bool \<Rightarrow> daemon \<Rightarrow> daemon option" where
  "step_viewed_tab env client_id action_id forward d =
     (case ensure_remote_client_view_state client_id d of
        (None, d1) \<Rightarrow> Some d1
      | (Some rv, d1) \<Rightarrow>
          (let m = tabs_of_daemon d1;
               current = (case Option.bind (viewed_tab_id rv) (find_index_by_tab_id m) of Some i \<Rightarrow> i | None \<Rightarrow> active m);
               n = length (tabs m)
           in if n = 0 then Some d1
              else case tab_id_for_index m (if forward then (current + 1) mod n else (current + n - 1) mod n) of
                None \<Rightarrow> Some d1
              | Some t \<Rightarrow> set_viewed_tab env client_id t (acknowledge_action client_id action_id d1)))"

definition attach_view :: "server_env \<Rightarrow> u64 \<Rightarrow> daemon \<Rightarrow> daemon option" where
  "attach_view env client_id d =
     (let d1 = update_view client_id (\<lambda>v. (attach_ui v)\<lparr>subscribed_to_runtime := True\<rparr>) d
      in publish_active env (rs_viewed_tab_id (ui_runtime_state_for_client env client_id d1))
           (send_client_state env client_id d1))"

definition detach_view :: "instant \<Rightarrow> u64 \<Rightarrow> daemon \<Rightarrow> daemon" where
  "detach_view now client_id = update_view client_id (\<lambda>v. (detach_ui now v)\<lparr>subscribed_to_runtime := False\<rparr>)"

section \<open>The desktop client on the local socket\<close>

text \<open>What decides whether the active tab is published again after an action of the user.\<close>

type_synonym transport_state = "u32 option \<times> u64 \<times> (u64 \<times> ui_rect) list"

definition local_gui_transport_state :: "app_env \<Rightarrow> app \<Rightarrow> transport_state" where
  "local_gui_transport_state env a =
     (let m = ap_tabs a; active_tab = active_tab_id m
      in (active_tab, focused_id_of a,
          case Option.bind active_tab (tree_of_tab m) of
            None \<Rightarrow> []
          | Some t \<Rightarrow> map (\<lambda>e. (pane_id (ex_pane e), frame_snapshot (ex_frame e)))
                       (export_panes_with_frames t (terminal_frame env a))))"

definition publish_local_gui_runtime_state :: "server_env \<Rightarrow> daemon \<Rightarrow> daemon" where
  "publish_local_gui_runtime_state env d =
     (if active_tab_id (tabs_of_daemon d) = None \<or> d_local d = None then d
      else let (tabs, d1) = current_remote_tabs env d
           in on_server LocalSlot (\<lambda>st. send_tab_list_to_local_clients (se_order env) tabs
                (send_ui_runtime_state_to_local_viewers (se_order env)
                  (se_json_state env (ui_runtime_state_shared (se_app env) (d_app d))) st)) d1)"

definition publish_local_gui_after_ui_action :: "server_env \<Rightarrow> transport_state \<Rightarrow> daemon \<Rightarrow> daemon option" where
  "publish_local_gui_after_ui_action env before d =
     (let d1 = publish_local_gui_runtime_state env d;
          after = local_gui_transport_state (se_app env) (d_app d1)
      in if after \<noteq> before then publish_active env (fst after) d1 else Some d1)"

section \<open>Splits\<close>

definition split_direction_from_str :: "str \<Rightarrow> split_side" where
  "split_direction_from_str s = (case parse_split_direction_name s of Some side \<Rightarrow> side | None \<Rightarrow> SideRight)"

definition new_split_action :: "server_env \<Rightarrow> u64 \<Rightarrow> rust_string option \<Rightarrow> daemon \<Rightarrow> daemon option" where
  "new_split_action env client_id direction d = do {
     let before = local_gui_transport_state (se_app env) (d_app d);
     (target, d1) \<leftarrow> focus_client_runtime_target env client_id d;
     let side = split_direction_from_str (case direction of Some s \<Rightarrow> utf8_str s | None \<Rightarrow> ''right'');
     let d2 = sync_client_view_to_active_runtime client_id (d1\<lparr>d_app := create_split (se_app env) side (d_app d1)\<rparr>);
     d3 \<leftarrow> publish_local_gui_after_ui_action env before d2;
     broadcast_runtime_view_to_all_viewers env d3
   }"

definition split_axis :: "str \<Rightarrow> direction" where
  "split_axis s = (if s \<in> {''up'', ''down''} then Vertical else Horizontal)"

definition resize_side :: "str \<Rightarrow> resize_direction" where
  "resize_side s = (if s = ''left'' then RLeft else if s = ''right'' then RRight else if s = ''up'' then RUp else RDown)"

definition resize_tab_pane :: "rect \<Rightarrow> u32 \<Rightarrow> u64 \<Rightarrow> direction \<Rightarrow> f64 \<Rightarrow> tab_manager \<Rightarrow> tab_manager" where
  "resize_tab_pane frame t pane axis ratio m =
     (case find_index_by_tab_id m t of
        None \<Rightarrow> m
      | Some i \<Rightarrow> m\<lparr>tabs := (tabs m)[i := (tabs m ! i)\<lparr>tree :=
          snd (resize_pane_to_ratio frame pane axis ratio (tree (tabs m ! i)))\<rparr>]\<rparr>)"

definition resize_split_action ::
  "server_env \<Rightarrow> u64 \<Rightarrow> rust_string \<Rightarrow> u16 \<Rightarrow> f64 option \<Rightarrow> daemon \<Rightarrow> daemon option" where
  "resize_split_action env client_id direction amount ratio d =
     (case ensure_remote_client_view_state client_id d of
        (None, d1) \<Rightarrow> Some d1
      | (Some rv, d1) \<Rightarrow>
          (case viewed_tab_id rv of
             None \<Rightarrow> Some d1
           | Some t \<Rightarrow>
               (let m = tabs_of_daemon d1;
                    target_pane = focus_in (focused_pane_id rv) (pane_ids_for_tab m t) (default_focused_pane_for_tab m t)
                in with_focus env client_id (\<lambda>d.
                     case (ratio, target_pane) of
                       (Some r, Some pane) \<Rightarrow>
                         Some (d\<lparr>d_app := (d_app d)\<lparr>ap_tabs := resize_tab_pane (terminal_frame (se_app env) (d_app d))
                                   t pane (split_axis (utf8_str direction)) r (tabs_of_daemon d)\<rparr>\<rparr>)
                     | _ \<Rightarrow> run_action env (ActResizeSplit (resize_side (utf8_str direction)) (unat amount)) d) d1)))"

definition runtime_action_step ::
  "server_env \<Rightarrow> u64 \<Rightarrow> u64 option \<Rightarrow> runtime_action \<Rightarrow> daemon \<Rightarrow> daemon option" where
  "runtime_action_step env client_id action_id act d = (case act of
     ScrollFocusedPane i n \<Rightarrow> Some (update_remote_view_local_state env client_id (scroll_view i n) d)
   | SetCopyMode i on \<Rightarrow> Some (update_remote_view_local_state env client_id (copy_mode_view i on) d)
   | SetSearchQuery i query \<Rightarrow> Some (update_remote_view_local_state env client_id
       (\<lambda>v. (name_view i v)\<lparr>search_active := True, search_query := query\<rparr>) d)
   | NavigateSearch i _ \<Rightarrow> Some (update_remote_view_local_state env client_id
       (\<lambda>v. (name_view i v)\<lparr>search_active := True\<rparr>) d)
   | Noop _ \<Rightarrow> Some (send_client_state env client_id d)
   | SetViewedTab _ t \<Rightarrow> set_viewed_tab env client_id t d
   | ActFocusPane _ t pane \<Rightarrow>
       map_option (update_view client_id (\<lambda>v. v\<lparr>viewed_tab_id := Some t\<rparr>)) (remote_focus_pane env client_id pane d)
   | NewTab _ cols rows \<Rightarrow> create_remote_runtime_tab env client_id
       (case cols of Some c \<Rightarrow> c | None \<Rightarrow> 120) (case rows of Some r \<Rightarrow> r | None \<Rightarrow> 40) False d
   | CloseTab _ t \<Rightarrow> destroy_remote_runtime_tab env client_id t d
   | NextTab _ \<Rightarrow> step_viewed_tab env client_id action_id True d
   | PrevTab _ \<Rightarrow> step_viewed_tab env client_id action_id False d
   | AttachView _ \<Rightarrow> attach_view env client_id d
   | DetachView _ \<Rightarrow> Some (detach_view (se_now env) client_id d)
   | NewSplit _ direction \<Rightarrow> new_split_action env client_id direction d
   | ResizeSplit _ direction amount ratio \<Rightarrow> resize_split_action env client_id direction amount ratio d)"

section \<open>The commands of clients\<close>

type_synonym client_command = "(app_key_event, app_mouse_event, action) remote_cmd"

definition handle_client_command :: "server_env \<Rightarrow> client_command \<Rightarrow> daemon \<Rightarrow> daemon option" where
  "handle_client_command env cmd d = (case cmd of
     Connected client_id \<Rightarrow> recover_remote_client_runtime_view env client_id d
   | ListTabs client_id \<Rightarrow> Some (remote_list_tabs env client_id d)
   | Create client_id cols rows \<Rightarrow> create_remote_runtime_tab env client_id cols rows True d
   | CmdInput client_id bs input_seq \<Rightarrow> remote_input env client_id bs input_seq d
   | CmdKey client_id keys input_seq \<Rightarrow> remote_key env client_id keys input_seq d
   | Resize client_id cols rows \<Rightarrow> Some (remote_resize client_id cols rows d)
   | ExecuteCommand client_id input \<Rightarrow> remote_execute_command env client_id input d
   | CmdAppKeyEvent client_id event \<Rightarrow> remote_app_key_event env client_id event d
   | CmdAppMouseEvent client_id event \<Rightarrow> remote_app_mouse_event env client_id event d
   | CmdAppAction client_id act \<Rightarrow> remote_app_action env client_id act d
   | FocusPane client_id pane \<Rightarrow> remote_focus_pane env client_id pane d
   | Destroy client_id t \<Rightarrow> destroy_remote_runtime_tab env client_id t d
   | CmdRuntimeAction client_id action_id act \<Rightarrow>
       runtime_action_step env client_id action_id act (acknowledge_action client_id action_id d)
   | RenderAck client_id _ _ pane pane_revision runtime_revision \<Rightarrow>
       Some (remote_render_ack (se_now env) client_id pane pane_revision runtime_revision d)
   | CmdRowRangeRequest client_id request \<Rightarrow> Some (remote_row_range_request client_id request d))"

section \<open>The commands of the control socket\<close>

datatype local_command =
    DumpKeys bool
  | Ping
  | GetRemoteClients
  | Quit
  | ListSurfaces
  | LocalNewSplit str
  | FocusSurface nat
  | LocalListTabs
  | GetClipboard
  | GetUiSnapshot
  | GetUiRuntimeState
  | GetUiTextSnapshot
  | SetStatusComponents status_update
  | ClearStatusComponents rust_string "status_bar_zone option"
  | InvokeStatusComponent rust_string rust_string
  | LocalExecuteCommand str
  | LocalKeyEvent app_key_event
  | LocalMouseEvent app_mouse_event
  | LocalAppAction action
  | LocalFocusPane u64
  | SendText str
  | SendVt str
  | LocalNewTab
  | GotoTab nat
  | LocalNextTab
  | LocalPrevTab
  | ResizeViewportPoints f64 f64
  | ResizeViewport u16 u16
  | ResizeFocused u16 u16
  | SendKey str

text \<open>The answers; of the clients of the servers the answer lists the identifiers and states.\<close>

datatype local_reply =
    ReplyClients "(u64 \<times> client_state) list"
  | ReplySurfaces "(nat \<times> bool) list"
  | ReplyTabs "tab_info list"
  | ReplyClipboard str
  | ReplyUiSnapshot ui_snapshot
  | ReplyUiRuntimeState ui_runtime_state
  | ReplyUiText ui_text_snapshot
  | Exits int

definition connected_clients :: "server_env \<Rightarrow> daemon \<Rightarrow> (u64 \<times> client_state) list" where
  "connected_clients env d =
     sort_key fst (concat (map (\<lambda>slot. case server_at slot d of
       None \<Rightarrow> [] | Some st \<Rightarrow> List.map_filter (\<lambda>i. map_option (Pair i) (clients st i)) (se_order env)) (remote_slots d)))"

text \<open>An action of the user, after which the local clients are told; \<open>changed\<close> tells whether they are.\<close>

definition ui_action :: "server_env \<Rightarrow> (app \<Rightarrow> (bool \<times> app) option) \<Rightarrow> daemon \<Rightarrow> daemon option" where
  "ui_action env act d = do {
     let before = local_gui_transport_state (se_app env) (d_app d);
     (changed, a) \<leftarrow> act (d_app d);
     if changed then publish_local_gui_after_ui_action env before (with_app a d) else Some (with_app a d)
   }"

definition answer :: "local_reply \<Rightarrow> daemon \<Rightarrow> (local_reply option \<times> daemon) option" where
  "answer r d = Some (Some r, d)"

definition quietly :: "daemon option \<Rightarrow> (local_reply option \<times> daemon) option" where
  "quietly = map_option (Pair None)"

definition set_status_components :: "server_env \<Rightarrow> (status_store \<Rightarrow> bool \<times> status_store) \<Rightarrow> daemon \<Rightarrow> daemon" where
  "set_status_components env f d =
     (let (changed, store) = f (ap_status (d_app d)); d1 = d\<lparr>d_app := (d_app d)\<lparr>ap_status := store\<rparr>\<rparr>
      in if changed \<and> has_runtime_stream_subscribers env d1 then mark_active_remote_tab_dirty d1 else d1)"

definition handle_local_command ::
  "server_env \<Rightarrow> local_command \<Rightarrow> daemon \<Rightarrow> (local_reply option \<times> daemon) option" where
  "handle_local_command env cmd d =
     (let e = se_app env; a = d_app d; yes = map_option (Pair True)
      in case cmd of
       DumpKeys enabled \<Rightarrow> Some (None, d\<lparr>d_dump_keys := enabled\<rparr>)
     | Ping \<Rightarrow> Some (None, d)
     | GetRemoteClients \<Rightarrow> answer (ReplyClients (connected_clients env d)) d
     | Quit \<Rightarrow> answer (Exits 0) d
     | ListSurfaces \<Rightarrow> answer (ReplySurfaces (case active_tree (ap_tabs a) of Some t \<Rightarrow> surface_info t | None \<Rightarrow> [])) d
     | LocalNewSplit direction \<Rightarrow>
         quietly (ui_action env (\<lambda>a. Some (True, create_split e (split_direction_from_str direction) a)) d)
     | FocusSurface i \<Rightarrow>
         quietly (ui_action env (\<lambda>a. Some (True, refocus (app_focused a) (map_active_tree (set_focus i) a))) d)
     | LocalListTabs \<Rightarrow> answer (ReplyTabs (tab_info_with_spinner 0 (ap_tabs a))) d
     | GetClipboard \<Rightarrow>
         answer (ReplyClipboard (if ap_clipboard a = [] then (case env_clipboard e of Some t \<Rightarrow> t | None \<Rightarrow> [])
           else ap_clipboard a)) d
     | GetUiSnapshot \<Rightarrow> answer (ReplyUiSnapshot (ui_snapshot_of e (se_appearance env) a)) d
     | GetUiRuntimeState \<Rightarrow> answer (ReplyUiRuntimeState (ui_runtime_state_shared e a)) d
     | GetUiTextSnapshot \<Rightarrow> answer (ReplyUiText (ui_text_snapshot_of e a)) d
     | SetStatusComponents update \<Rightarrow> Some (None, set_status_components env (store_set update) d)
     | ClearStatusComponents source zone \<Rightarrow> Some (None, set_status_components env (store_clear source zone) d)
     | InvokeStatusComponent source i \<Rightarrow> quietly (ui_action env (invoke_status_component e source i) d)
     | LocalExecuteCommand input \<Rightarrow>
         quietly (map_option (\<lambda>a. with_app a (invalidate_remote_tabs_cache d)) (execute_command e input a))
     | LocalKeyEvent event \<Rightarrow> quietly (ui_action env (handle_app_key_event e event) d)
     | LocalMouseEvent event \<Rightarrow> quietly (ui_action env (handle_app_mouse_event e event) d)
     | LocalAppAction act \<Rightarrow> quietly (ui_action env (\<lambda>a. yes (dispatch_binding_action e act a)) d)
     | LocalFocusPane pane \<Rightarrow> quietly (ui_action env (\<lambda>a. Some (focus_pane_by_id pane a)) d)
     | SendText t \<Rightarrow> Some (None, d\<lparr>d_app := write_terminal_input t a\<rparr>)
     | SendVt t \<Rightarrow> Some (None, d\<lparr>d_app := emit [FxWriteVt (focused_id_of a) t] a\<rparr>)
     | LocalNewTab \<Rightarrow>
         quietly (ui_action env (\<lambda>a. Some (True, snd (app_new_tab e a))) (invalidate_remote_tabs_cache d))
     | GotoTab i \<Rightarrow> quietly (ui_action env (\<lambda>a. yes (map_option (sync_after_tab_change e) (app_goto_tab i a))) d)
     | LocalNextTab \<Rightarrow> quietly (ui_action env (\<lambda>a. yes (app_step_tab e next_tab a)) d)
     | LocalPrevTab \<Rightarrow> quietly (ui_action env (\<lambda>a. yes (app_step_tab e prev_tab a)) d)
     | ResizeViewportPoints w h \<Rightarrow> quietly (ui_action env (\<lambda>a. Some (resize_viewport_points e w h a)) d)
     | ResizeViewport cols rows \<Rightarrow> quietly (ui_action env (\<lambda>a. Some (resize_viewport_cells e cols rows a)) d)
     | ResizeFocused cols rows \<Rightarrow>
         (let (w, h) = tab_size_pixels a cols rows in Some (None, d\<lparr>d_app := emit [FxResize (app_focused a) w h] a\<rparr>))
     | SendKey keys \<Rightarrow> quietly (ui_action env (\<lambda>a. yes (inject_key e keys a)) d))"

section \<open>A turn of the main loop\<close>

text \<open>What the panes have to report.\<close>

definition poll_panes :: "server_env \<Rightarrow> daemon \<Rightarrow> daemon option" where
  "poll_panes env d = do {
     (remote_dirty, a) \<leftarrow> poll_backend (se_app env) (d_app d);
     let d1 = d\<lparr>d_app := a\<rparr>;
     if remote_dirty \<and> has_runtime_stream_subscribers env d1
     then if active_tab_id (ap_tabs a) \<noteq> None then Some (mark_active_remote_tab_dirty d1)
          else broadcast_runtime_view_to_all_viewers env d1
     else Some d1
   }"

definition LOCAL_GUI_CMD_DRAIN_BUDGET :: nat where "LOCAL_GUI_CMD_DRAIN_BUDGET = 1"
definition REMOTE_CMD_DRAIN_BUDGET :: nat where "REMOTE_CMD_DRAIN_BUDGET = 4"

text \<open>Detached views that have been idle for too long are reset; then everyone is told.\<close>

definition sweep_views :: "server_env \<Rightarrow> daemon \<Rightarrow> daemon option" where
  "sweep_views env d =
     (let sweep = sweep_idle_views (se_order env) VIEW_IDLE_TIMEOUT (se_now env);
          expired = concat (map (\<lambda>slot. case server_at slot d of Some st \<Rightarrow> fst (sweep st) | None \<Rightarrow> []) (remote_slots d));
          d1 = on_all_servers (\<lambda>st. snd (sweep st)) d
      in if expired \<noteq> [] then broadcast_runtime_view_to_all_viewers env d1 else Some d1)"

definition publish_dirty_tabs :: "server_env \<Rightarrow> daemon \<Rightarrow> daemon option" where
  "publish_dirty_tabs env d = try_each (publish_remote_tab env) (d_dirty_tabs d) (d\<lparr>d_dirty_tabs := []\<rparr>)"

text \<open>The queues of the control socket, of the local socket and of the network, and what is left of them.\<close>

definition command_turn ::
  "server_env \<Rightarrow> local_command option \<Rightarrow> client_command list \<Rightarrow> client_command list \<Rightarrow> daemon
     \<Rightarrow> (local_reply option \<times> client_command list \<times> client_command list \<times> daemon) option" where
  "command_turn env control gui remote d = do {
     d1 \<leftarrow> poll_panes env d;
     (reply, d2) \<leftarrow> (case control of Some cmd \<Rightarrow> handle_local_command env cmd d1 | None \<Rightarrow> Some (None, d1));
     d3 \<leftarrow> try_each (handle_client_command env) (take LOCAL_GUI_CMD_DRAIN_BUDGET gui) d2;
     d4 \<leftarrow> try_each (handle_client_command env) (take REMOTE_CMD_DRAIN_BUDGET remote) d3;
     d5 \<leftarrow> sweep_views env d4;
     d6 \<leftarrow> publish_dirty_tabs env d5;
     Some (reply, drop LOCAL_GUI_CMD_DRAIN_BUDGET gui, drop REMOTE_CMD_DRAIN_BUDGET remote, d6)
   }"

text \<open>The end of the turn: composed text, the first pane while there are no tabs, else one event of the
  daemon's own window.\<close>

definition window_turn :: "server_env \<Rightarrow> text_input_event list \<Rightarrow> window_event option \<Rightarrow> daemon \<Rightarrow> daemon option" where
  "window_turn env texts event d = do {
     a \<leftarrow> try_each (handle_text_input (se_app env)) texts (d_app d);
     a1 \<leftarrow> (if tabs (ap_tabs a) = [] then update_without_tabs (se_app env) a
            else case event of Some ev \<Rightarrow> handle_window (se_app env) ev a | None \<Rightarrow> Some a);
     Some (with_app a1 d)
   }"

end
