(* ===== verification/DaemonFrame.thy ===== *)
theory DaemonFrame
  imports DaemonCommands RemoteFanout
begin

text \<open>
  What the operations of the daemon do to the clients, one by one. The interface is a locale: a relation
  between the state of a client before and after, reflexive and transitive; an operation that is related on
  every client is related as a whole. It is used with two relations: a client keeps its view, and a client
  that does not look at a tab is not touched.
\<close>

section \<open>Relations on clients\<close>

type_synonym client_relation = "u64 \<Rightarrow> client_state \<Rightarrow> client_state \<Rightarrow> bool"

definition state_rel :: "client_relation \<Rightarrow> remote_state \<Rightarrow> remote_state \<Rightarrow> bool" where
  "state_rel R st st' \<longleftrightarrow> (\<forall>j. rel_option (R j) (clients st j) (clients st' j))"

definition daemon_rel :: "client_relation \<Rightarrow> daemon \<Rightarrow> daemon \<Rightarrow> bool" where
  "daemon_rel R d d' \<longleftrightarrow> (\<forall>slot. rel_option (state_rel R) (server_at slot d) (server_at slot d'))"

lemma server_at_on_server:
  "server_at s (on_server slot f d) = (if s = slot then map_option f (server_at s d) else server_at s d)"
  by (cases s; cases slot) simp_all

lemma server_slots: "(\<forall>slot. P slot) \<longleftrightarrow> P RemoteSlot \<and> P LocalSlot"
  using server_slot.exhaust by metis

lemma state_relI: "(\<And>j. rel_option (R j) (clients st j) (clients st' j)) \<Longrightarrow> state_rel R st st'"
  by (simp add: state_rel_def)

lemma rel_option_trans:
  "rel_option P a b \<Longrightarrow> rel_option Q b c \<Longrightarrow> (\<And>x y z. P x y \<Longrightarrow> Q y z \<Longrightarrow> S x z) \<Longrightarrow> rel_option S a c"
  by (cases a; cases b; cases c) auto

lemma rel_option_weaken: "rel_option P a b \<Longrightarrow> (\<And>x y. P x y \<Longrightarrow> S x y) \<Longrightarrow> rel_option S a b"
  by (cases a; cases b) auto

locale client_rel =
  fixes R :: client_relation
  assumes related_refl: "R j c c"
    and related_trans: "R j a b \<Longrightarrow> R j b c \<Longrightarrow> R j a c"
begin

lemma state_refl: "state_rel R st st"
  by (simp add: state_rel_def related_refl option.rel_refl)

lemma state_trans: "state_rel R a b \<Longrightarrow> state_rel R b c \<Longrightarrow> state_rel R a c"
  unfolding state_rel_def by (blast intro: rel_option_trans related_trans)

lemma daemon_same: "d_remote d' = d_remote d \<Longrightarrow> d_local d' = d_local d \<Longrightarrow> daemon_rel R d d'"
  by (simp add: daemon_rel_def server_slots state_refl option.rel_refl)

lemma daemon_refl: "daemon_rel R d d"
  by (rule daemon_same) simp_all

lemma daemon_trans: "daemon_rel R a b \<Longrightarrow> daemon_rel R b c \<Longrightarrow> daemon_rel R a c"
  unfolding daemon_rel_def by (blast intro: rel_option_trans state_trans)

lemma on_server_rel:
  assumes "\<And>st. server_at slot d = Some st \<Longrightarrow> state_rel R st (f st)"
  shows "daemon_rel R d (on_server slot f d)"
  using assms
  by (auto simp: daemon_rel_def server_at_on_server rel_option_iff state_refl split: option.splits)

lemma fold_rel:
  assumes "\<And>x d. x \<in> set xs \<Longrightarrow> daemon_rel R d (f x d)"
  shows "daemon_rel R d (fold f xs d)"
  using assms by (induction xs arbitrary: d) (auto intro: daemon_refl daemon_trans)

lemma try_each_rel:
  assumes "\<And>x d d'. x \<in> set xs \<Longrightarrow> f x d = Some d' \<Longrightarrow> daemon_rel R d d'" and "try_each f xs d = Some d'"
  shows "daemon_rel R d d'"
  using assms
proof (induction xs arbitrary: d)
  case (Cons x xs)
  from Cons.prems(2) obtain d1 where d1: "f x d = Some d1" "try_each f xs d1 = Some d'"
    by (auto simp: bind_eq_Some_conv)
  have rest: "daemon_rel R a b" if "y \<in> set xs" "f y a = Some b" for y a b
    using Cons.prems(1) [of y a b] that by simp
  have "daemon_rel R d d1" using Cons.prems(1) [OF _ d1(1)] by simp
  then show ?case using Cons.IH [OF rest d1(2)] by (rule daemon_trans)
qed (simp add: daemon_refl)

lemma try_server_rel:
  assumes "\<And>s st st1. slot = Some s \<Longrightarrow> server_at s d = Some st \<Longrightarrow> f st = Some st1 \<Longrightarrow> state_rel R st st1"
    and "try_server slot f d = Some d'"
  shows "daemon_rel R d d'"
  using assms
  by (auto simp: try_server_def bind_eq_Some_conv intro!: daemon_refl on_server_rel split: option.splits)

lemma send_each_rel:
  assumes "\<And>i st. i \<in> set is \<Longrightarrow> state_rel R st (send i st)"
  shows "state_rel R st (send_each send is st)"
  using assms
proof (induction "is" arbitrary: st)
  case (Cons i "is")
  have "state_rel R st (send i st)" using Cons.prems by simp
  moreover have "state_rel R (send i st) (send_each send is (send i st))" by (rule Cons.IH) (simp add: Cons.prems)
  ultimately have "state_rel R st (send_each send is (send i st))" by (rule state_trans)
  then show ?case by (simp add: send_each_def)
qed (simp add: send_each_def state_refl)

text \<open>An operation on one client.\<close>

lemma update_client_rel:
  assumes "\<And>c. clients st i = Some c \<Longrightarrow> R i c (f c)"
  shows "state_rel R st (update_client i f st)"
  using assms
  by (auto simp: state_rel_def update_client_clients rel_option_iff related_refl split: option.splits)

end

section \<open>A client keeps its view\<close>

text \<open>A view without the screens and payloads that were sent last.\<close>

definition view_frame :: "client_runtime_view \<Rightarrow> client_runtime_view" where
  "view_frame v = v\<lparr>last_tab_list_payload := None, last_ui_runtime_state_payload := None,
     last_ui_appearance_payload := None, last_state := None, pane_states := Map.empty\<rparr>"

text \<open>Sending adds to what has been sent and notes what was sent last.\<close>

definition client_kept :: "client_state \<Rightarrow> client_state \<Rightarrow> bool" where
  "client_kept c c' \<longleftrightarrow> is_local c' = is_local c \<and> (\<exists>ms. outbound c' = outbound c @ ms)
     \<and> view_frame (runtime_view c') = view_frame (runtime_view c)"

definition keep_but :: "u64 set \<Rightarrow> client_relation" where
  "keep_but X j c c' \<longleftrightarrow> j \<in> X \<or> client_kept c c'"

text \<open>The clients that look at a tab.\<close>

definition looks_at :: "u32 \<Rightarrow> client_state \<Rightarrow> bool" where
  "looks_at t c \<longleftrightarrow> subscribed_to_runtime (runtime_view c) \<and> viewed_tab_id (runtime_view c) = Some t"

definition only_viewers :: "u32 \<Rightarrow> client_relation" where
  "only_viewers t j c c' \<longleftrightarrow> c' = c \<or> looks_at t c \<and> client_kept c c'"

lemma client_kept_refl: "client_kept c c"
  by (simp add: client_kept_def)

lemma client_kept_trans: "client_kept a b \<Longrightarrow> client_kept b c \<Longrightarrow> client_kept a c"
  by (auto simp: client_kept_def)

lemma view_frame_fields:
  "viewed_tab_id (view_frame v) = viewed_tab_id v" "focused_pane_id (view_frame v) = focused_pane_id v"
  "visible_pane_ids (view_frame v) = visible_pane_ids v" "subscribed_to_runtime (view_frame v) = subscribed_to_runtime v"
  "view_id (view_frame v) = view_id v" "view_revision (view_frame v) = view_revision v"
  "latest_input_seq (view_frame v) = latest_input_seq v"
  by (simp_all add: view_frame_def)

lemma view_frame_eqD:
  assumes "view_frame v' = view_frame v"
  shows "viewed_tab_id v' = viewed_tab_id v" "focused_pane_id v' = focused_pane_id v"
    "visible_pane_ids v' = visible_pane_ids v" "subscribed_to_runtime v' = subscribed_to_runtime v"
    "view_id v' = view_id v" "latest_input_seq v' = latest_input_seq v"
  using arg_cong [OF assms, of viewed_tab_id] arg_cong [OF assms, of focused_pane_id]
    arg_cong [OF assms, of visible_pane_ids] arg_cong [OF assms, of subscribed_to_runtime]
    arg_cong [OF assms, of view_id] arg_cong [OF assms, of latest_input_seq]
  by (simp_all add: view_frame_fields)

lemma client_kept_fields:
  assumes "client_kept c c'"
  shows "viewed_tab_id (runtime_view c') = viewed_tab_id (runtime_view c)"
    and "focused_pane_id (runtime_view c') = focused_pane_id (runtime_view c)"
    and "visible_pane_ids (runtime_view c') = visible_pane_ids (runtime_view c)"
    and "subscribed_to_runtime (runtime_view c') = subscribed_to_runtime (runtime_view c)"
    and "latest_input_seq (runtime_view c') = latest_input_seq (runtime_view c)"
proof -
  have e: "view_frame (runtime_view c') = view_frame (runtime_view c)" using assms by (simp add: client_kept_def)
  show "viewed_tab_id (runtime_view c') = viewed_tab_id (runtime_view c)"
    "focused_pane_id (runtime_view c') = focused_pane_id (runtime_view c)"
    "visible_pane_ids (runtime_view c') = visible_pane_ids (runtime_view c)"
    "subscribed_to_runtime (runtime_view c') = subscribed_to_runtime (runtime_view c)"
    "latest_input_seq (runtime_view c') = latest_input_seq (runtime_view c)"
    by (rule view_frame_eqD [OF e])+
qed

interpretation keep: client_rel "keep_but X" for X
  by unfold_locales (auto simp: keep_but_def client_kept_refl intro: client_kept_trans)

lemma looks_at_kept: "client_kept c c' \<Longrightarrow> looks_at t c' = looks_at t c"
  by (simp add: looks_at_def client_kept_fields)

interpretation view: client_rel "only_viewers t" for t
  by unfold_locales (auto simp: only_viewers_def looks_at_kept intro: client_kept_trans)

text \<open>What is sent to a client leaves its view.\<close>

lemma send_outbound_kept: "client_kept c (send_outbound m c)"
  by (simp add: client_kept_def send_outbound_def)

lemma send_with_kept:
  "view_frame v = view_frame (runtime_view c) \<Longrightarrow> client_kept c (send_outbound m (c\<lparr>runtime_view := v\<rparr>))"
  by (simp add: client_kept_def send_outbound_def)

lemma set_cache_slot_frame: "view_frame (set_cache_slot slot payload v) = view_frame v"
  by (cases slot) (simp_all add: view_frame_def)

lemma cached_act_kept: "client_kept c (cached_act ty payload slot c)"
  by (simp add: cached_act_def client_kept_refl send_with_kept set_cache_slot_frame)

text \<open>The messages to one client, for any relation that sending respects at it.\<close>

locale sending = client_rel +
  fixes i :: u64
  assumes sends: "client_kept c c' \<Longrightarrow> R i c c'"
begin

lemma message_rel: "state_rel R st (update_client i (send_outbound m) st)"
  by (rule update_client_rel) (rule sends [OF send_outbound_kept])

lemma cached_rel: "state_rel R st (send_cached_control_payload_bytes i ty payload slot st)"
  by (rule state_relI)
     (auto simp: cached_send_clients rel_option_iff related_refl intro!: sends cached_act_kept split: option.splits)

lemma sends_rel:
  "state_rel R st (send_tab_list i ts st)" "state_rel R st (reply_tab_list i ts st)"
  "state_rel R st (send_ui_runtime_state i p st)" "state_rel R st (send_ui_appearance i p st)"
  "state_rel R st (send_error i code txt st)" "state_rel R st (send_tab_created i t st)"
  "state_rel R st (send_pane_rows_to_client i t pane pr rr response st)"
  by (simp_all add: send_tab_list_def reply_tab_list_def send_ui_runtime_state_def send_ui_appearance_def
      send_error_def send_tab_created_def send_pane_rows_to_client_def send_to_client_def
      cached_rel message_rel state_refl split: option.splits)

end

interpretation sent: sending "keep_but X" i for X i
  by unfold_locales (simp add: keep_but_def)


section \<open>Screens\<close>

lemma commit_kept:
  "client_kept c (send_outbound m (c\<lparr>runtime_view := (runtime_view c)\<lparr>last_state := x\<rparr>\<rparr>))"
  "client_kept c (send_outbound m (c\<lparr>runtime_view := (runtime_view c)\<lparr>pane_states := y\<rparr>\<rparr>))"
  by (simp_all add: send_with_kept view_frame_def)

context client_rel
begin

lemma send_state_rel:
  assumes "\<And>c c'. clients st i = Some c \<Longrightarrow> client_kept c c' \<Longrightarrow> R i c c'"
    and "send_state_to_client i s st = Some st1"
  shows "state_rel R st st1"
  using assms
  by (auto simp: send_state_to_client_def commit_state_def state_refl commit_kept
      intro!: update_client_rel split: option.splits if_splits)

lemma send_pane_state_rel:
  assumes "\<And>c c'. clients st i = Some c \<Longrightarrow> client_kept c c' \<Longrightarrow> R i c c'"
    and "send_pane_state_to_client i t pane pr rr s st = Some st1"
  shows "state_rel R st st1"
  using assms
  by (auto simp: send_pane_state_to_client_def commit_pane_state_def state_refl commit_kept
      intro!: update_client_rel split: option.splits if_splits)

end

lemma server_at_fields [simp]:
  "server_at s (d\<lparr>d_app := a\<rparr>) = server_at s d" "server_at s (d\<lparr>d_row_caches := rc\<rparr>) = server_at s d"
  "server_at s (d\<lparr>d_pane_revisions := pr\<rparr>) = server_at s d" "server_at s (d\<lparr>d_dirty_tabs := dt\<rparr>) = server_at s d"
  "server_at s (d\<lparr>d_cached_tabs := ct\<rparr>) = server_at s d" "server_at s (d\<lparr>d_revision := rv\<rparr>) = server_at s d"
  "server_at s (d\<lparr>d_dump_keys := dk\<rparr>) = server_at s d"
  by (cases s; simp)+

text \<open>Which server a client is found on depends on the servers only.\<close>

definition same_servers :: "daemon \<Rightarrow> daemon \<Rightarrow> bool" where
  "same_servers d d' \<longleftrightarrow> d_remote d' = d_remote d \<and> d_local d' = d_local d"

lemma same_servers_at: "same_servers d d' \<Longrightarrow> server_at s d' = server_at s d"
  by (cases s) (simp_all add: same_servers_def)

lemma same_servers_view:
  assumes "same_servers d d'"
  shows "remote_server_for_client i d' = remote_server_for_client i d"
    and "remote_server_for_delivery i d' = remote_server_for_delivery i d"
    and "remote_view_state_for_client i d' = remote_view_state_for_client i d"
    and "client_ids env d' = client_ids env d"
  by (simp_all add: remote_server_for_delivery_def remote_view_state_for_client_def remote_server_for_client_def
      remote_slots_def serves_client_def [abs_def] client_ids_def same_servers_at [OF assms])

lemma view_found:
  "remote_view_state_for_client i d = Some v \<longleftrightarrow>
     (\<exists>slot st c. remote_server_for_client i d = Some slot \<and> server_at slot d = Some st
        \<and> clients st i = Some c \<and> runtime_view c = v)"
  by (auto simp: remote_view_state_for_client_def bind_eq_Some_conv)

lemma delivery_found: "remote_server_for_client i d = Some slot \<Longrightarrow> remote_server_for_delivery i d = Some slot"
  by (simp add: remote_server_for_delivery_def)

lemma full_state_servers: "full_state_for_pane env pane d = Some (s, d') \<Longrightarrow> same_servers d d'"
  by (auto simp: full_state_for_pane_def same_servers_def)

lemma pane_revision_servers: "same_servers d (snd (pane_terminal_revision pane s d))"
  by (auto simp: pane_terminal_revision_def same_servers_def Let_def split: option.splits)

lemma same_servers_trans: "same_servers a b \<Longrightarrow> same_servers b c \<Longrightarrow> same_servers a c"
  by (simp add: same_servers_def)

text \<open>A client that looks at the tab, before and after.\<close>

definition looking :: "u32 \<Rightarrow> u64 \<Rightarrow> daemon \<Rightarrow> bool" where
  "looking t i d \<longleftrightarrow> (\<exists>v. remote_view_state_for_client i d = Some v \<and> subscribed_to_runtime v \<and> viewed_tab_id v = Some t)"

lemma looking_client:
  "looking t i d \<Longrightarrow> remote_server_for_delivery i d = Some slot \<Longrightarrow> server_at slot d = Some st
     \<Longrightarrow> clients st i = Some c \<Longrightarrow> looks_at t c"
  by (auto simp: looking_def view_found delivery_found looks_at_def)

lemma looking_servers: "same_servers d d' \<Longrightarrow> looking t i d' = looking t i d"
  by (simp add: looking_def same_servers_view)

lemma only_viewers_kept: "only_viewers t j c c' \<Longrightarrow> client_kept c c'"
  by (auto simp: only_viewers_def client_kept_refl)

lemma daemon_rel_mono:
  assumes "daemon_rel R d d'" and "\<And>j c c'. R j c c' \<Longrightarrow> R' j c c'"
  shows "daemon_rel R' d d'"
proof -
  have "state_rel R' st st'" if "state_rel R st st'" for st st'
    using that assms(2) unfolding state_rel_def by (blast intro: rel_option_weaken)
  with assms(1) show ?thesis unfolding daemon_rel_def by (blast intro: rel_option_weaken)
qed

lemma rel_slots:
  assumes "daemon_rel R d d'"
  shows "remote_slots d' = remote_slots d" and "serves_client i d' = serves_client i d"
    and "remote_server_for_client i d' = remote_server_for_client i d"
    and "remote_server_for_delivery i d' = remote_server_for_delivery i d"
proof -
  have none: "(server_at s d' = None) = (server_at s d = None)" for s
    using assms by (cases "server_at s d'"; cases "server_at s d") (auto simp: daemon_rel_def dest!: spec [of _ s])
  then show s: "remote_slots d' = remote_slots d" by (simp add: remote_slots_def)
  show c: "serves_client i d' = serves_client i d" for i
  proof
    fix s
    show "serves_client i d' s = serves_client i d s"
      using assms by (cases "server_at s d"; cases "server_at s d'")
        (auto simp: serves_client_def has_client_def daemon_rel_def state_rel_def option_rel_Some1 option_rel_Some2
          dest!: spec [of _ s] spec [of _ i])
  qed
  show f: "remote_server_for_client i d' = remote_server_for_client i d"
    by (simp add: remote_server_for_client_def s c)
  show "remote_server_for_delivery i d' = remote_server_for_delivery i d"
    by (simp add: remote_server_for_delivery_def f none)
qed

lemma rel_view:
  assumes "daemon_rel R d d'"
  shows "rel_option (\<lambda>v v'. \<exists>c c'. runtime_view c = v \<and> runtime_view c' = v' \<and> R i c c')
    (remote_view_state_for_client i d) (remote_view_state_for_client i d')"
proof (cases "remote_server_for_client i d")
  case (Some slot)
  from assms have r: "rel_option (state_rel R) (server_at slot d) (server_at slot d')" by (simp add: daemon_rel_def)
  show ?thesis
  proof (cases "server_at slot d")
    case None
    then show ?thesis using r Some rel_slots [OF assms] by (simp add: remote_view_state_for_client_def)
  next
    case (Some st)
    then obtain st' where st': "server_at slot d' = Some st'" "state_rel R st st'" using r by (auto simp: option_rel_Some1)
    then have "rel_option (R i) (clients st i) (clients st' i)" by (simp add: state_rel_def)
    then show ?thesis
      using Some st' \<open>remote_server_for_client i d = Some slot\<close> rel_slots [OF assms]
      by (cases "clients st i"; cases "clients st' i") (auto simp: remote_view_state_for_client_def)
  qed
qed (simp add: remote_view_state_for_client_def rel_slots [OF assms])

lemma kept_view:
  assumes "daemon_rel R d d'" and "\<And>c c'. R i c c' \<Longrightarrow> client_kept c c'"
  shows "map_option view_frame (remote_view_state_for_client i d') = map_option view_frame (remote_view_state_for_client i d)"
  using rel_view [OF assms(1), of i] assms(2)
  by (auto simp: rel_option_iff client_kept_def split: option.splits)

lemma looking_rel:
  assumes "daemon_rel (only_viewers t) d d'"
  shows "looking t i d' = looking t i d"
proof -
  have "map_option view_frame (remote_view_state_for_client i d') = map_option view_frame (remote_view_state_for_client i d)"
    by (rule kept_view [OF assms only_viewers_kept])
  then show ?thesis
    by (cases "remote_view_state_for_client i d"; cases "remote_view_state_for_client i d'")
       (auto simp: looking_def dest: view_frame_eqD)
qed

section \<open>Publishing\<close>

lemma publish_server_rel:
  assumes look: "looking t i d" and same: "same_servers d d1"
    and f: "\<And>st st1. (\<And>c c'. clients st i = Some c \<Longrightarrow> client_kept c c' \<Longrightarrow> only_viewers t i c c') \<Longrightarrow>
      f st = Some st1 \<Longrightarrow> state_rel (only_viewers t) st st1"
    and run: "try_server (remote_server_for_delivery i d1) f d1 = Some d'"
  shows "daemon_rel (only_viewers t) d d'"
proof -
  have look1: "looking t i d1" using look looking_servers [OF same] by simp
  have "daemon_rel (only_viewers t) d1 d'"
  proof (rule view.try_server_rel [OF _ run])
    fix s st st1
    assume s: "remote_server_for_delivery i d1 = Some s" "server_at s d1 = Some st" "f st = Some st1"
    show "state_rel (only_viewers t) st st1"
      by (rule f [OF _ s(3)]) (use looking_client [OF look1 s(1,2)] in \<open>simp add: only_viewers_def\<close>)
  qed
  moreover have "daemon_rel (only_viewers t) d d1"
    using same by (intro view.daemon_same) (simp_all add: same_servers_def)
  ultimately show ?thesis by (rule view.daemon_trans [rotated])
qed

lemma publish_focused_rel:
  assumes "looking t i d" and "publish_focused env t i focused d = Some d'"
  shows "daemon_rel (only_viewers t) d d'"
proof (cases focused)
  case (Some pane)
  with assms(2) obtain s d1 where d1: "full_state_for_pane env pane d = Some (s, d1)"
    and run: "case s of None \<Rightarrow> d' = d1
      | Some x \<Rightarrow> try_server (remote_server_for_delivery i d1) (send_state_to_client i x) d1 = Some d'"
    by (auto simp: publish_focused_def bind_eq_Some_conv split: option.splits)
  from d1 have same: "same_servers d d1" by (rule full_state_servers)
  show ?thesis
  proof (cases s)
    case None
    then show ?thesis using run same by (simp add: same_servers_def view.daemon_same)
  next
    case (Some x)
    with run have sent: "try_server (remote_server_for_delivery i d1) (send_state_to_client i x) d1 = Some d'" by simp
    show ?thesis by (rule publish_server_rel [OF assms(1) same _ sent]) (rule view.send_state_rel)
  qed
qed (use assms(2) in \<open>simp add: publish_focused_def view.daemon_refl\<close>)

lemma publish_pane_rel:
  assumes "looking t i d" and "publish_pane env t i focused pane d = Some d'"
  shows "daemon_rel (only_viewers t) d d'"
proof (cases "Some pane = focused")
  case False
  with assms(2) obtain s d1 where d1: "full_state_for_pane env pane d = Some (s, d1)"
    and run: "case s of None \<Rightarrow> d' = d1
      | Some x \<Rightarrow> (let (revision, d2) = pane_terminal_revision pane x d1
          in try_server (remote_server_for_delivery i d2)
               (send_pane_state_to_client i t pane revision (d_revision d2) x) d2) = Some d'"
    by (auto simp: publish_pane_def bind_eq_Some_conv split: option.splits)
  from d1 have same: "same_servers d d1" by (rule full_state_servers)
  show ?thesis
  proof (cases s)
    case None
    then show ?thesis using run same by (simp add: same_servers_def view.daemon_same)
  next
    case (Some x)
    obtain revision d2 where d2: "pane_terminal_revision pane x d1 = (revision, d2)" by force
    then have s2: "same_servers d d2"
      using same_servers_trans [OF same pane_revision_servers [of d1 pane x]] by simp
    from run Some d2 have sent: "try_server (remote_server_for_delivery i d2)
        (send_pane_state_to_client i t pane revision (d_revision d2) x) d2 = Some d'" by simp
    show ?thesis by (rule publish_server_rel [OF assms(1) s2 _ sent]) (rule view.send_pane_state_rel)
  qed
qed (use assms(2) in \<open>simp add: publish_pane_def view.daemon_refl\<close>)

lemma publish_panes_rel:
  "looking t i d \<Longrightarrow> try_each (publish_pane env t i focused) panes d = Some d' \<Longrightarrow> daemon_rel (only_viewers t) d d'"
proof (induction panes arbitrary: d)
  case (Cons pane panes)
  from Cons.prems(2) obtain d1 where d1: "publish_pane env t i focused pane d = Some d1"
    and rest: "try_each (publish_pane env t i focused) panes d1 = Some d'"
    by (auto simp: bind_eq_Some_conv)
  from publish_pane_rel [OF Cons.prems(1) d1] have r: "daemon_rel (only_viewers t) d d1" .
  with Cons.prems(1) have "looking t i d1" by (simp add: looking_rel)
  from view.daemon_trans [OF r Cons.IH [OF this rest]] show ?case .
qed (simp add: view.daemon_refl)

lemma publish_to_client_rel:
  assumes "publish_to_client env t i d = Some d'"
  shows "daemon_rel (only_viewers t) d d'"
proof (cases "looking t i d")
  case True
  then obtain v where v: "remote_view_state_for_client i d = Some v" "subscribed_to_runtime v" "viewed_tab_id v = Some t"
    by (auto simp: looking_def)
  then obtain f d1 where f: "publish_focused env t i f d = Some d1"
    and rest: "try_each (publish_pane env t i f) (visible_pane_ids v) d1 = Some d'"
    using assms by (auto simp: publish_to_client_def Let_def bind_eq_Some_conv)
  from publish_focused_rel [OF True f] have r: "daemon_rel (only_viewers t) d d1" .
  with True have "looking t i d1" by (simp add: looking_rel)
  from view.daemon_trans [OF r publish_panes_rel [OF this rest]] show ?thesis .
next
  case False
  then show ?thesis using assms
    by (auto simp: publish_to_client_def looking_def view.daemon_refl split: option.splits if_splits)
qed

text \<open>Publishing a tab reaches the clients that look at it and no other.\<close>

lemma publish_rel: "publish_remote_tab env t d = Some d' \<Longrightarrow> daemon_rel (only_viewers t) d d'"
  unfolding publish_remote_tab_def by (rule view.try_each_rel [OF publish_to_client_rel])

lemma publish_keeps: "publish_remote_tab env t d = Some d' \<Longrightarrow> daemon_rel (keep_but X) d d'"
  by (rule daemon_rel_mono [OF publish_rel]) (auto simp: keep_but_def dest: only_viewers_kept)

lemma publish_active_keeps: "publish_active env t d = Some d' \<Longrightarrow> daemon_rel (keep_but X) d d'"
  by (auto simp: publish_active_def keep.daemon_refl intro: publish_keeps split: option.splits)

end
