(* ===== verification/DaemonSteps.thy ===== *)
theory DaemonSteps
  imports DaemonFrame
begin

text \<open>
  The operations of the daemon, on the application and on the clients: talking to clients leaves the
  application alone, and a command leaves the views of the clients that did not give it, except for the
  repair after a tab has been closed.
\<close>

section \<open>The application\<close>

named_theorems same_app "operations that leave the application alone"

lemma on_server_app [simp]: "d_app (on_server s f d) = d_app d"
  by (cases s) simp_all

lemma fold_app: "(\<And>x d. d_app (f x d) = d_app d) \<Longrightarrow> d_app (fold f xs d) = d_app d"
  by (induction xs arbitrary: d) simp_all

lemma server_ops_app [simp]:
  "d_app (on_client_server i f d) = d_app d" "d_app (on_delivery_server i f d) = d_app d"
  "d_app (update_view i g d) = d_app d" "d_app (send_client_state env i d) = d_app d"
  "d_app (send_client_error i code msg d) = d_app d" "d_app (bump_runtime_revision d) = d_app d"
  "d_app (invalidate_remote_tabs_cache d) = d_app d" "d_app (mark_remote_tab_dirty t d) = d_app d"
  "d_app (on_all_servers f d) = d_app d" "d_app (snd (current_remote_tabs env d)) = d_app d"
  "d_app (forget_pane_terminal_revision p d) = d_app d" "d_app (no_active_tab i d) = d_app d"
  "d_app (acknowledge_action i n d) = d_app d" "d_app (sync_client_view_to_active_runtime i d) = d_app d"
  by (simp_all add: on_client_server_def on_delivery_server_def update_view_def send_client_state_def
      send_client_error_def bump_runtime_revision_def invalidate_remote_tabs_cache_def mark_remote_tab_dirty_def
      on_all_servers_def fold_app current_remote_tabs_def forget_pane_terminal_revision_def no_active_tab_def
      acknowledge_action_def sync_client_view_to_active_runtime_def Let_def split: option.splits)

lemma apply_mark_app [simp]: "d_app (apply_mark k d) = d_app d"
  by (simp add: apply_mark_def split: option.splits)

lemma mark_active_app [simp]: "d_app (mark_active_remote_tab_dirty d) = d_app d"
  by (simp add: mark_active_remote_tab_dirty_def split: option.splits)

lemma with_app_app [simp]: "d_app (with_app a d) = a"
  by (simp add: with_app_def fold_app)

lemma repair_app [simp]: "d_app (repair_all_remote_views env k d) = d_app d"
proof -
  have "d_app (repair_view k i d) = d_app d" for i d by (simp add: repair_view_def Let_def split: option.splits)
  then show ?thesis by (simp add: repair_all_remote_views_def fold_app)
qed

lemma ensure_app [simp]: "d_app (snd (ensure_remote_client_view_state i d)) = d_app d"
  by (simp add: ensure_remote_client_view_state_def Let_def split: option.splits)

lemma ensure_app_eq: "ensure_remote_client_view_state i d = (r, d1) \<Longrightarrow> d_app d1 = d_app d"
  using ensure_app [of i d] by simp

lemma target_app_eq: "client_runtime_target i d = (r, d1) \<Longrightarrow> d_app d1 = d_app d"
  by (auto simp: client_runtime_target_def Let_def ensure_app_eq split: prod.splits)

lemma current_tabs_app_eq: "current_remote_tabs env d = (ts, d1) \<Longrightarrow> d_app d1 = d_app d"
  using server_ops_app(10) [of env d] by simp

lemma try_each_app:
  "(\<And>x d d'. f x d = Some d' \<Longrightarrow> d_app d' = d_app d) \<Longrightarrow> try_each f xs d = Some d' \<Longrightarrow> d_app d' = d_app d"
  by (induction xs arbitrary: d) (auto simp: bind_eq_Some_conv)

lemma try_server_app: "try_server slot f d = Some d' \<Longrightarrow> d_app d' = d_app d"
  by (auto simp: try_server_def split: option.splits)

lemma full_state_app: "full_state_for_pane env pane d = Some (s, d') \<Longrightarrow> d_app d' = d_app d"
  by (auto simp: full_state_for_pane_def)

lemma pane_revision_app: "d_app (snd (pane_terminal_revision pane s d)) = d_app d"
  by (auto simp: pane_terminal_revision_def Let_def split: option.splits)

lemma publish_pane_app: "publish_pane env t i focused pane d = Some d' \<Longrightarrow> d_app d' = d_app d"
  using pane_revision_app
  by (auto simp: publish_pane_def Let_def split_beta bind_eq_Some_conv
      dest!: try_server_app full_state_app split: if_splits option.splits)

lemma publish_app: "publish_remote_tab env t d = Some d' \<Longrightarrow> d_app d' = d_app d"
proof -
  have focused: "publish_focused env t i focused d = Some d' \<Longrightarrow> d_app d' = d_app d" for i focused d d'
    by (auto simp: publish_focused_def bind_eq_Some_conv dest!: try_server_app full_state_app split: option.splits)
  have panes: "try_each (publish_pane env t i focused) ps d = Some d' \<Longrightarrow> d_app d' = d_app d" for i focused ps d d'
    by (rule try_each_app [OF publish_pane_app])
  have "publish_to_client env t i d = Some d' \<Longrightarrow> d_app d' = d_app d" for i d d'
    by (auto simp: publish_to_client_def Let_def bind_eq_Some_conv dest!: focused panes
        split: option.splits if_splits)
  then show "publish_remote_tab env t d = Some d' \<Longrightarrow> d_app d' = d_app d"
    unfolding publish_remote_tab_def by (rule try_each_app)
qed

lemma publish_active_app: "publish_active env t d = Some d' \<Longrightarrow> d_app d' = d_app d"
  by (auto simp: publish_active_def dest: publish_app split: option.splits)

lemma broadcast_app: "broadcast_runtime_view_to_all_viewers env d = Some d' \<Longrightarrow> d_app d' = d_app d"
  by (auto simp: broadcast_runtime_view_to_all_viewers_def Let_def fold_app current_tabs_app_eq
      dest!: publish_active_app split: prod.splits)

lemma recover_app: "recover_remote_client_runtime_view env i d = Some d' \<Longrightarrow> d_app d' = d_app d"
  by (auto simp: recover_remote_client_runtime_view_def sync_remote_client_runtime_view_def Let_def
      current_tabs_app_eq dest!: publish_active_app split: prod.splits option.splits if_splits)

section \<open>The views of the other clients\<close>

lemmas keep_trans [trans] = keep.daemon_trans

abbreviation others_keep :: "u64 \<Rightarrow> daemon \<Rightarrow> daemon \<Rightarrow> bool" where
  "others_keep i \<equiv> daemon_rel (keep_but {i})"

context client_rel
begin

lemma client_op_rel:
  assumes "\<And>st. state_rel R st (f st)"
  shows "daemon_rel R d (on_client_server i f d)" "daemon_rel R d (on_delivery_server i f d)"
  using assms
  by (auto simp: on_client_server_def on_delivery_server_def daemon_refl intro!: on_server_rel split: option.splits)

lemma all_servers_rel:
  assumes "\<And>st. state_rel R st (f st)"
  shows "daemon_rel R d (on_all_servers f d)"
  unfolding on_all_servers_def by (rule fold_rel) (rule on_server_rel [OF assms])

end

text \<open>Operations that leave the servers alone.\<close>

lemma quiet_servers:
  "same_servers d (d\<lparr>d_app := a\<rparr>)" "same_servers d (bump_runtime_revision d)"
  "same_servers d (invalidate_remote_tabs_cache d)" "same_servers d (mark_remote_tab_dirty t d)"
  "same_servers d (snd (current_remote_tabs env d))" "same_servers d (forget_pane_terminal_revision p d)"
  by (auto simp: same_servers_def bump_runtime_revision_def invalidate_remote_tabs_cache_def
      mark_remote_tab_dirty_def current_remote_tabs_def forget_pane_terminal_revision_def Let_def split: option.splits)

lemma same_servers_refl [simp]: "same_servers d d"
  by (simp add: same_servers_def)

lemma same_servers_fold: "(\<And>x d. same_servers d (f x d)) \<Longrightarrow> same_servers d (fold f xs d)"
proof (induction xs arbitrary: d)
  case (Cons x xs)
  have "same_servers (f x d) (fold f xs (f x d))" by (rule Cons.IH) (rule Cons.prems)
  with Cons.prems [of d x] show ?case by (simp add: same_servers_trans)
qed simp

lemma with_app_servers: "same_servers d (with_app a d)"
proof -
  have "same_servers d (apply_mark k d)" for k d by (simp add: apply_mark_def quiet_servers split: option.splits)
  then have "same_servers (d\<lparr>d_app := a\<rparr>) (with_app a d)" unfolding with_app_def by (rule same_servers_fold)
  then show ?thesis by (rule same_servers_trans [OF quiet_servers(1)])
qed

lemma mark_active_servers: "same_servers d (mark_active_remote_tab_dirty d)"
  by (simp add: mark_active_remote_tab_dirty_def quiet_servers split: option.splits)

lemma same_servers_keep: "same_servers d d' \<Longrightarrow> daemon_rel (keep_but X) d d'"
  by (simp add: same_servers_def keep.daemon_same)

lemmas quiet_keep = quiet_servers [THEN same_servers_keep] with_app_servers [THEN same_servers_keep]
  mark_active_servers [THEN same_servers_keep]

text \<open>Operations that talk to clients or change the view of one client.\<close>

lemma send_keep:
  "daemon_rel (keep_but X) d (send_client_state env i d)" "daemon_rel (keep_but X) d (send_client_error i code msg d)"
  "daemon_rel (keep_but X) d (no_active_tab i d)"
  "daemon_rel (keep_but X) d (on_delivery_server i (send_tab_created i t) d)"
  "daemon_rel (keep_but X) d (on_delivery_server i (send_pane_rows_to_client i t pane pr rr response) d)"
  by (simp_all add: send_client_state_def send_client_error_def no_active_tab_def keep.client_op_rel sent.sends_rel)

lemma update_view_rel: "i \<in> X \<Longrightarrow> daemon_rel (keep_but X) d (update_view i f d)"
  unfolding update_view_def update_client_view_def
  by (rule keep.client_op_rel) (rule keep.update_client_rel, simp add: keep_but_def)

lemma own_view_keep:
  "others_keep i d (update_view i f d)" "others_keep i d (acknowledge_action i n d)"
  "others_keep i d (sync_client_view_to_active_runtime i d)"
  by (simp_all add: acknowledge_action_def sync_client_view_to_active_runtime_def update_view_rel Let_def
      keep.daemon_refl split: option.splits)

lemma own_server_keep:
  assumes "\<And>st. \<exists>f. op st = update_client i f st"
  shows "others_keep i d (on_client_server i op d)" "others_keep i d (on_server slot op d)"
proof -
  have u: "state_rel (keep_but {i}) st (update_client i f st)" for f st
    by (rule keep.update_client_rel) (simp add: keep_but_def)
  have "state_rel (keep_but {i}) st (op st)" for st using assms [of st] u by auto
  then show "others_keep i d (on_client_server i op d)" "others_keep i d (on_server slot op d)"
    by (auto intro: keep.client_op_rel keep.on_server_rel)
qed

lemma own_ops:
  "\<exists>f. initialize_client_view i viewed focused visible st = update_client i f st"
  "\<exists>f. record_input_seq i n st = update_client i f st"
  "\<exists>f. subscribe_client_to_runtime i st = update_client i f st"
  "\<exists>f. unsubscribe_client_from_runtime i st = update_client i f st"
  unfolding initialize_client_view_def record_input_seq_def subscribe_client_to_runtime_def
      unsubscribe_client_from_runtime_def update_client_view_def by blast+

lemma ensure_keep: "ensure_remote_client_view_state i d = (r, d1) \<Longrightarrow> others_keep i d d1"
proof -
  define d0 where "d0 = (case remote_view_state_for_client i d of None \<Rightarrow> d
    | Some s \<Rightarrow> if view_id s = 0 then on_client_server i (initialize_client_view i (active_runtime_tab_id (tabs_of_daemon d))
        (Option.bind (active_runtime_tab_id (tabs_of_daemon d)) (default_focused_pane_for_tab (tabs_of_daemon d)))
        (panes_of_viewed (tabs_of_daemon d) (active_runtime_tab_id (tabs_of_daemon d)))) d else d)"
  have "others_keep i d d0"
    by (auto simp: d0_def keep.daemon_refl intro!: own_server_keep own_ops split: option.splits)
  moreover assume "ensure_remote_client_view_state i d = (r, d1)"
  then have "\<exists>f. d1 = d0 \<or> d1 = update_view i f d0"
    by (auto simp: ensure_remote_client_view_state_def d0_def Let_def split: option.splits if_splits)
  then have "others_keep i d0 d1" by (auto simp: keep.daemon_refl own_view_keep)
  ultimately show "others_keep i d d1" by (rule keep.daemon_trans)
qed

text \<open>The broadcasts.\<close>

lemma all_states_keep:
  "daemon_rel (keep_but X) d (fold (send_client_state env) ids d)"
  by (rule keep.fold_rel) (rule send_keep)

lemma viewers_keep:
  "state_rel (keep_but X) st (send_ui_appearance_to_viewers order p st)"
  "state_rel (keep_but X) st (send_tab_list_to_viewers order ts st)"
  "state_rel (keep_but X) st (send_tab_list_to_local_clients order ts st)"
  "state_rel (keep_but X) st (send_ui_runtime_state_to_local_viewers order p st)"
  by (simp_all add: send_ui_appearance_to_viewers_def send_tab_list_to_viewers_def send_tab_list_to_local_clients_def
      send_ui_runtime_state_to_local_viewers_def keep.send_each_rel sent.sends_rel sent.cached_rel keep.state_refl
      split: option.splits)

lemma broadcast_keep:
  assumes "broadcast_runtime_view_to_all_viewers env d = Some d'"
  shows "daemon_rel (keep_but X) d d'"
proof -
  define d2 where "d2 = bump_runtime_revision (snd (current_remote_tabs env d))"
  define d3 where "d3 = on_all_servers (\<lambda>st. send_ui_appearance_to_viewers (se_order env)
    (se_json_appearance env (se_appearance env)) (send_tab_list_to_viewers (se_order env) (fst (current_remote_tabs env d)) st)) d2"
  define d4 where "d4 = fold (send_client_state env) (client_ids env d3) d3"
  have "same_servers d d2" unfolding d2_def by (rule same_servers_trans [OF quiet_servers(5) quiet_servers(2)])
  then have "daemon_rel (keep_but X) d d2" by (rule same_servers_keep)
  also have "daemon_rel (keep_but X) d2 d3" unfolding d3_def
    by (rule keep.all_servers_rel) (rule keep.state_trans [OF viewers_keep(2,1)])
  also have "daemon_rel (keep_but X) d3 d4" unfolding d4_def by (rule all_states_keep)
  also have "daemon_rel (keep_but X) d4 d'"
    by (rule publish_active_keeps [of env "active_runtime_tab_id (tabs_of_daemon d)"])
       (use assms in \<open>simp add: broadcast_runtime_view_to_all_viewers_def d2_def d3_def d4_def Let_def split_beta\<close>)
  finally show ?thesis .
qed

lemma recover_keep:
  assumes "recover_remote_client_runtime_view env i d = Some d'"
  shows "others_keep i d d'"
proof -
  obtain ts d1 where c: "current_remote_tabs env d = (ts, d1)" by force
  then have d1: "others_keep i d d1" using quiet_keep(5) [of "{i}" d env] by simp
  let ?v = "active_runtime_tab_id (tabs_of_daemon d1)"
  show ?thesis
  proof (cases "remote_server_for_delivery i d1")
    case None
    then show ?thesis using assms c d1
      by (simp add: recover_remote_client_runtime_view_def sync_remote_client_runtime_view_def)
  next
    case (Some slot)
    define d2 where "d2 = on_server slot (initialize_client_view i ?v
      (Option.bind ?v (default_focused_pane_for_tab (tabs_of_daemon d1))) (panes_of_viewed (tabs_of_daemon d1) ?v)) d1"
    define d3 where "d3 = on_server slot (\<lambda>st. send_ui_appearance i (se_json_appearance env (se_appearance env))
      (send_ui_runtime_state i (se_json_state env (ui_runtime_state_for_client env i d2)) (send_tab_list i ts st))) d2"
    note d1
    also have "others_keep i d1 d2" unfolding d2_def by (rule own_server_keep [OF own_ops(1)])
    also have "others_keep i d2 d3" unfolding d3_def
      by (rule keep.on_server_rel)
         (rule keep.state_trans [OF keep.state_trans [OF sent.sends_rel(1) sent.sends_rel(3)] sent.sends_rel(4)])
    also have "others_keep i d3 d'"
    proof (cases "active_runtime_tab_id (tabs_of_daemon d) \<noteq> None")
      case True
      then have "publish_active env ?v (on_server slot (subscribe_client_to_runtime i) d3) = Some d'"
        using assms c Some by (simp add: recover_remote_client_runtime_view_def sync_remote_client_runtime_view_def
            d2_def d3_def Let_def)
      from publish_active_keeps [OF this] show ?thesis
        by (rule keep.daemon_trans [OF own_server_keep(2) [OF own_ops(3)]])
    next
      case False
      moreover have "others_keep i d3 (on_server slot (unsubscribe_client_from_runtime i) d3)"
        by (rule own_server_keep(2) [OF own_ops(4)])
      ultimately show ?thesis using assms c Some
        by (simp add: recover_remote_client_runtime_view_def sync_remote_client_runtime_view_def d2_def d3_def Let_def)
    qed
    finally show ?thesis .
  qed
qed

lemma target_keep: "client_runtime_target i d = (r, d1) \<Longrightarrow> others_keep i d d1"
  by (auto simp: client_runtime_target_def Let_def dest: ensure_keep split: prod.splits)

lemma focus_keep:
  assumes "focus_client_runtime_target env i d = Some (r, d')"
  shows "others_keep i d d'"
proof -
  obtain tgt d1 where t: "client_runtime_target i d = (tgt, d1)" by force
  from t have k: "others_keep i d d1" by (rule target_keep)
  have a: "others_keep i d1 (d1\<lparr>d_app := a\<rparr>)" for a by (rule quiet_keep)
  show ?thesis using assms t k
    by (auto simp: focus_client_runtime_target_def bind_eq_Some_conv intro: keep.daemon_trans [OF k recover_keep]
        keep.daemon_trans [OF k a] split: option.splits prod.splits if_splits)
qed

section \<open>The commands of clients\<close>

lemma remote_input_keep:
  assumes "remote_input env i bs n d = Some d'"
  shows "others_keep i d d'"
proof -
  obtain r d1 where e: "ensure_remote_client_view_state i d = (r, d1)" by force
  then have k: "others_keep i d d1" by (rule ensure_keep)
  have after: "others_keep i d1 (mark_remote_tab_dirty t (sync_client_view_to_active_runtime i
      (on_client_server i (record_input_seq i n) (d1\<lparr>d_app := a\<rparr>))))" for t a
  proof -
    have "others_keep i d1 (d1\<lparr>d_app := a\<rparr>)" by (rule quiet_keep)
    also have "others_keep i \<dots> (on_client_server i (record_input_seq i n) (d1\<lparr>d_app := a\<rparr>))"
      by (rule own_server_keep [OF own_ops(2)])
    also note own_view_keep(3)
    also note quiet_keep(4)
    finally show ?thesis .
  qed
  show ?thesis using assms e k
    by (auto simp: remote_input_def bind_eq_Some_conv Let_def intro: keep_trans [OF k recover_keep]
        keep_trans [OF k after] keep_trans [OF k send_keep(3)] split: option.splits if_splits)
qed

lemma with_target_keep:
  assumes "\<And>t d d'. act t d = Some d' \<Longrightarrow> others_keep i d d'" and "with_target env i act d = Some d'"
  shows "others_keep i d d'"
proof -
  from assms(2) obtain r d1 where f: "focus_client_runtime_target env i d = Some (r, d1)"
    and run: "(case r of None \<Rightarrow> Some (no_active_tab i d1) | Some (t, pane) \<Rightarrow> act t d1) = Some d'"
    by (auto simp: with_target_def bind_eq_Some_conv)
  have "others_keep i d1 d'" using run assms(1) send_keep(3) by (auto split: option.splits)
  with focus_keep [OF f] show ?thesis by (rule keep_trans)
qed

text \<open>An input is noted, the application changes, and the client follows.\<close>

lemma noted_keep: "others_keep i d (with_app a (on_client_server i (record_input_seq i n) d))"
proof -
  have "others_keep i d (on_client_server i (record_input_seq i n) d)" by (rule own_server_keep [OF own_ops(2)])
  also note quiet_keep(7)
  finally show ?thesis .
qed

lemma followed_keep: "others_keep i d d1 \<Longrightarrow> others_keep i d (sync_client_view_to_active_runtime i d1)"
  by (rule keep_trans [OF _ own_view_keep(3)])

lemma remote_key_keep: "remote_key env i keys n d = Some d' \<Longrightarrow> others_keep i d d'"
  unfolding remote_key_def
  by (erule with_target_keep [rotated])
     (auto simp: bind_eq_Some_conv Let_def intro!: keep_trans [OF followed_keep [OF noted_keep] quiet_keep(4)])

lemma remote_app_key_keep: "remote_app_key_event env i event d = Some d' \<Longrightarrow> others_keep i d d'"
  unfolding remote_app_key_event_def
  by (erule with_target_keep [rotated])
     (auto simp: bind_eq_Some_conv Let_def intro: keep_trans [OF followed_keep [OF noted_keep] quiet_keep(4)]
       keep_trans [OF followed_keep [OF noted_keep] broadcast_keep] split: if_splits)

lemma remote_app_mouse_keep: "remote_app_mouse_event env i event d = Some d' \<Longrightarrow> others_keep i d d'"
  unfolding remote_app_mouse_event_def
  by (erule with_target_keep [rotated])
     (auto simp: bind_eq_Some_conv Let_def intro: followed_keep [OF quiet_keep(7)]
       keep_trans [OF followed_keep [OF quiet_keep(7)] broadcast_keep] split: if_splits)

lemma with_focus_keep:
  assumes "with_focus env i act d = Some d'" and "\<And>d d'. act d = Some d' \<Longrightarrow> same_servers d d'"
  shows "others_keep i d d'"
proof -
  from assms(1) obtain r d1 d2 where f: "focus_client_runtime_target env i d = Some (r, d1)" and act: "act d1 = Some d2"
    and run: "broadcast_runtime_view_to_all_viewers env (sync_client_view_to_active_runtime i d2) = Some d'"
    by (auto simp: with_focus_def bind_eq_Some_conv)
  from f have "others_keep i d d1" by (rule focus_keep)
  also have "others_keep i d1 d2" by (rule same_servers_keep [OF assms(2) [OF act]])
  also have "others_keep i d2 (sync_client_view_to_active_runtime i d2)" by (rule own_view_keep)
  also have "others_keep i \<dots> d'" by (rule broadcast_keep [OF run])
  finally show ?thesis .
qed

lemma run_action_servers: "run_action env act d = Some d' \<Longrightarrow> same_servers d d'"
  by (auto simp: run_action_def quiet_servers)

lemma remote_action_keep: "remote_app_action env i act d = Some d' \<Longrightarrow> others_keep i d d'"
  unfolding remote_app_action_def by (rule with_focus_keep [OF _ run_action_servers])

lemma remote_execute_keep: "remote_execute_command env i input d = Some d' \<Longrightarrow> others_keep i d d'"
  unfolding remote_execute_command_def
  by (rule keep_trans [OF quiet_keep(3) with_focus_keep]) (auto simp: with_app_servers)

text \<open>A client's view changes, the revision is bumped, the client is told, a tab is published.\<close>

lemma shown_keep:
  assumes "publish_remote_tab env t (send_client_state env i (bump_runtime_revision (update_view i f d))) = Some d'"
  shows "others_keep i d d'"
proof -
  have "others_keep i d (update_view i f d)" by (rule own_view_keep)
  also note quiet_keep(2)
  also note send_keep(1)
  also note publish_keeps [OF assms]
  finally show ?thesis .
qed

lemma remote_focus_keep: "remote_focus_pane env i pane d = Some d' \<Longrightarrow> others_keep i d d'"
  by (auto simp: remote_focus_pane_def Let_def intro: ensure_keep keep_trans [OF ensure_keep shown_keep]
      keep_trans [OF ensure_keep send_keep(3)] split: prod.splits option.splits if_splits)

lemma set_viewed_keep: "set_viewed_tab env i t d = Some d' \<Longrightarrow> others_keep i d d'"
  by (auto simp: set_viewed_tab_def Let_def intro: shown_keep)

lemma step_viewed_keep: "step_viewed_tab env i n forward d = Some d' \<Longrightarrow> others_keep i d d'"
  by (auto simp: step_viewed_tab_def Let_def intro: ensure_keep
      keep_trans [OF keep_trans [OF ensure_keep own_view_keep(2)] set_viewed_keep]
      split: prod.splits option.splits if_splits)

lemma local_state_keep: "others_keep i d (update_remote_view_local_state env i f d)"
  unfolding update_remote_view_local_state_def by (rule keep_trans [OF own_view_keep(1) send_keep(1)])

lemma create_tab_keep:
  assumes "create_remote_runtime_tab env i cols rows ack d = Some d'"
  shows "others_keep i d d'"
proof (cases "app_new_tab (se_app env) (d_app d)")
  case (Pair created a)
  have q: "others_keep i d (d\<lparr>d_app := x\<rparr>)" for x by (rule quiet_keep)
  show ?thesis
  proof (cases created)
    case None
    then show ?thesis using assms Pair
      by (auto simp: create_remote_runtime_tab_def intro: keep_trans [OF q send_keep(2)])
  next
    case (Some t)
    with assms Pair obtain x f where run: "broadcast_runtime_view_to_all_viewers env
        (let d2 = update_view i f (invalidate_remote_tabs_cache (d\<lparr>d_app := x\<rparr>))
         in if ack then on_delivery_server i (send_tab_created i t) d2 else d2) = Some d'"
      by (auto simp: create_remote_runtime_tab_def Let_def)
    have "others_keep i d (d\<lparr>d_app := x\<rparr>)" by (rule q)
    also note quiet_keep(3)
    also note own_view_keep(1)
    finally have k: "others_keep i d (update_view i f (invalidate_remote_tabs_cache (d\<lparr>d_app := x\<rparr>)))" .
    show ?thesis using run
      by (auto simp: Let_def intro: keep_trans [OF k broadcast_keep]
          keep_trans [OF keep_trans [OF k send_keep(4)] broadcast_keep] split: if_splits)
  qed
qed

lemma local_gui_keep:
  "daemon_rel (keep_but X) d (publish_local_gui_runtime_state env d)"
  "publish_local_gui_after_ui_action env before d = Some d' \<Longrightarrow> daemon_rel (keep_but X) d d'"
proof -
  show k: "daemon_rel (keep_but X) d (publish_local_gui_runtime_state env d)" for d
    unfolding publish_local_gui_runtime_state_def Let_def split_beta
    by (auto simp: keep.daemon_refl simp del: on_server.simps
        intro!: keep_trans [OF quiet_keep(5) keep.on_server_rel] keep.state_trans [OF viewers_keep(4) viewers_keep(3)])
  show "publish_local_gui_after_ui_action env before d = Some d' \<Longrightarrow> daemon_rel (keep_but X) d d'"
    by (auto simp: publish_local_gui_after_ui_action_def Let_def k intro: keep_trans [OF k publish_active_keeps]
        split: if_splits)
qed

lemma new_split_keep:
  assumes "new_split_action env i direction d = Some d'"
  shows "others_keep i d d'"
proof -
  let ?before = "local_gui_transport_state (se_app env) (d_app d)"
  let ?side = "split_direction_from_str (case direction of Some s \<Rightarrow> utf8_str s | None \<Rightarrow> ''right'')"
  from assms obtain r d1 d3 where f: "focus_client_runtime_target env i d = Some (r, d1)"
    and l: "publish_local_gui_after_ui_action env ?before
        (sync_client_view_to_active_runtime i (d1\<lparr>d_app := create_split (se_app env) ?side (d_app d1)\<rparr>)) = Some d3"
    and run: "broadcast_runtime_view_to_all_viewers env d3 = Some d'"
    by (auto simp: new_split_action_def bind_eq_Some_conv Let_def)
  from f have "others_keep i d d1" by (rule focus_keep)
  also note followed_keep [OF quiet_keep(1)]
  also note local_gui_keep(2) [OF l]
  also note broadcast_keep [OF run]
  finally show ?thesis .
qed

lemma resize_split_keep:
  assumes "resize_split_action env i direction amount ratio d = Some d'"
  shows "others_keep i d d'"
proof -
  obtain r d1 where e: "ensure_remote_client_view_state i d = (r, d1)" by force
  have act: "with_focus env i (\<lambda>d. case (ratio, tp) of
      (Some r, Some pane) \<Rightarrow> Some (d\<lparr>d_app := g r pane d\<rparr>) | _ \<Rightarrow> run_action env act d) d1 = Some d'
    \<Longrightarrow> others_keep i d1 d'" for tp g act
    by (erule with_focus_keep) (auto simp: quiet_servers dest: run_action_servers split: option.splits)
  show ?thesis using assms e ensure_keep [OF e]
    by (auto simp: resize_split_action_def Let_def intro: keep_trans [OF ensure_keep [OF e] act] split: option.splits)
qed

lemma attach_keep: "attach_view env i d = Some d' \<Longrightarrow> others_keep i d d'"
  by (auto simp: attach_view_def Let_def
      intro: keep_trans [OF keep_trans [OF own_view_keep(1) send_keep(1)] publish_active_keeps])

lemma list_tabs_keep: "daemon_rel (keep_but X) d (remote_list_tabs env i d)"
proof -
  have "daemon_rel (keep_but X) d (snd (current_remote_tabs env d))" by (rule quiet_keep)
  also have "daemon_rel (keep_but X) (snd (current_remote_tabs env d)) (remote_list_tabs env i d)"
    unfolding remote_list_tabs_def Let_def split_beta
    by (rule keep.client_op_rel)
       (rule keep.state_trans [OF keep.state_trans [OF sent.sends_rel(2) sent.sends_rel(3)] sent.sends_rel(4)])
  finally show ?thesis .
qed

text \<open>Closing a tab is the one command that changes what other clients look at.\<close>

fun client_of :: "client_command \<Rightarrow> u64" where
  "client_of (Connected i) = i" | "client_of (ListTabs i) = i" | "client_of (Create i _ _) = i"
| "client_of (CmdInput i _ _) = i" | "client_of (CmdKey i _ _) = i" | "client_of (Resize i _ _) = i"
| "client_of (ExecuteCommand i _) = i" | "client_of (CmdAppKeyEvent i _) = i" | "client_of (CmdAppMouseEvent i _) = i"
| "client_of (CmdAppAction i _) = i" | "client_of (FocusPane i _) = i" | "client_of (Destroy i _) = i"
| "client_of (CmdRuntimeAction i _ _) = i" | "client_of (RenderAck i _ _ _ _ _) = i"
| "client_of (CmdRowRangeRequest i _) = i"

fun closes_tab :: "client_command \<Rightarrow> bool" where
  "closes_tab (Destroy _ _) = True"
| "closes_tab (CmdRuntimeAction _ _ (CloseTab _ _)) = True"
| "closes_tab _ = False"

lemma runtime_action_keep:
  assumes "runtime_action_step env i n act d = Some d'" and "\<not> closes_tab (CmdRuntimeAction i n act)"
  shows "others_keep i d d'"
  using assms
  by (cases act)
     (auto simp: runtime_action_step_def local_state_keep send_keep own_view_keep detach_view_def
       intro: set_viewed_keep keep_trans [OF remote_focus_keep own_view_keep(1)] create_tab_keep step_viewed_keep
         attach_keep new_split_keep resize_split_keep)

lemma row_range_keep: "daemon_rel (keep_but X) d (remote_row_range_request i request d)"
  by (auto simp: remote_row_range_request_def keep.daemon_refl send_keep split: option.splits prod.splits)

lemma command_keep:
  assumes "handle_client_command env cmd d = Some d'" and "\<not> closes_tab cmd"
  shows "others_keep (client_of cmd) d d'"
  using assms
  by (cases cmd)
     (auto simp: handle_client_command_def list_tabs_keep own_view_keep remote_resize_def remote_render_ack_def
       row_range_keep
       intro: recover_keep create_tab_keep remote_input_keep remote_key_keep remote_execute_keep remote_app_key_keep
         remote_app_mouse_keep remote_action_keep remote_focus_keep keep_trans [OF own_view_keep(2) runtime_action_keep])

end
