(* ===== verification/AppFrame.thy ===== *)
theory AppFrame
  imports AppLife
begin

text \<open>
  What the operations of the application leave alone: the part of the state that input is interpreted by
  (the core) and the readiness of the tabs. Every operation has one lemma per part; the properties of the
  application are proved from these.
\<close>

section \<open>The core of the state\<close>

text \<open>Bindings, copy mode, prompt, paste buffers, and whether the configuration has been read again.\<close>

type_synonym app_core = "bindings \<times> copy_mode_state option \<times> command_prompt \<times> str list \<times> bool"

definition core :: "app \<Rightarrow> app_core" where
  "core a = (ap_bindings a, ap_copy_mode a, ap_prompt a, ap_paste_buffers a, FxReloadConfig \<in> set (ap_effects a))"

definition ready :: "tab_manager \<Rightarrow> bool" where
  "ready m \<longleftrightarrow> active m < length (tabs m) \<or> tabs m = [] \<and> active m = 0"

definition app_ready :: "app \<Rightarrow> bool" where
  "app_ready a \<longleftrightarrow> ready (ap_tabs a)"

named_theorems core_frame "operations that leave the core alone"
named_theorems tabs_frame "operations that leave the tabs alone"
named_theorems ready_intros "operations that keep the tabs ready"

lemma field_frame [core_frame, simp]:
  "core (a\<lparr>ap_tabs := x1\<rparr>) = core a" "core (a\<lparr>ap_views := x2\<rparr>) = core a"
  "core (a\<lparr>ap_frames := x3\<rparr>) = core a" "core (a\<lparr>ap_width := x4\<rparr>) = core a"
  "core (a\<lparr>ap_height := x5\<rparr>) = core a" "core (a\<lparr>ap_mouse := x6\<rparr>) = core a"
  "core (a\<lparr>ap_divider_drag := x7\<rparr>) = core a"
  "core (a\<lparr>ap_scrollbar_drag := x8\<rparr>) = core a"
  "core (a\<lparr>ap_cell_width := x9\<rparr>) = core a" "core (a\<lparr>ap_cell_height := x10\<rparr>) = core a"
  "core (a\<lparr>ap_scroll_remainder := x11\<rparr>) = core a" "core (a\<lparr>ap_bar := x12\<rparr>) = core a"
  "core (a\<lparr>ap_search_active := x13\<rparr>) = core a"
  "core (a\<lparr>ap_search_query := x14\<rparr>) = core a"
  "core (a\<lparr>ap_search_total := x15\<rparr>) = core a"
  "core (a\<lparr>ap_search_selected := x16\<rparr>) = core a"
  "core (a\<lparr>ap_clipboard := x17\<rparr>) = core a" "core (a\<lparr>ap_marked := x18\<rparr>) = core a"
  "core (a\<lparr>ap_display_panes := x19\<rparr>) = core a"
  "core (a\<lparr>ap_choose_buffer := x20\<rparr>) = core a"
  "core (a\<lparr>ap_choose_buffer_selected := x21\<rparr>) = core a"
  "core (a\<lparr>ap_choose_tree := x22\<rparr>) = core a"
  "core (a\<lparr>ap_choose_tree_selected := x23\<rparr>) = core a"
  "core (a\<lparr>ap_find_window := x24\<rparr>) = core a"
  "core (a\<lparr>ap_find_window_query := x25\<rparr>) = core a"
  "core (a\<lparr>ap_find_window_selected := x26\<rparr>) = core a"
  "core (a\<lparr>ap_selection := x27\<rparr>) = core a" "core (a\<lparr>ap_selection_drag := x28\<rparr>) = core a"
  "core (a\<lparr>ap_status := x29\<rparr>) = core a" "core (a\<lparr>ap_supply := x30\<rparr>) = core a"
  "core (a\<lparr>ap_pwd := y1\<rparr>) = core a" "core (a\<lparr>ap_preedit := y2\<rparr>) = core a"
  "core (a\<lparr>ap_window_focused := y3\<rparr>) = core a" "core (a\<lparr>ap_initialized := y4\<rparr>) = core a"
  by (simp_all add: core_def)

lemma field_ready [simp]:
  "app_ready (a\<lparr>ap_views := x31\<rparr>) = app_ready a"
  "app_ready (a\<lparr>ap_frames := x32\<rparr>) = app_ready a"
  "app_ready (a\<lparr>ap_bindings := x33\<rparr>) = app_ready a"
  "app_ready (a\<lparr>ap_width := x34\<rparr>) = app_ready a"
  "app_ready (a\<lparr>ap_height := x35\<rparr>) = app_ready a"
  "app_ready (a\<lparr>ap_mouse := x36\<rparr>) = app_ready a"
  "app_ready (a\<lparr>ap_divider_drag := x37\<rparr>) = app_ready a"
  "app_ready (a\<lparr>ap_scrollbar_drag := x38\<rparr>) = app_ready a"
  "app_ready (a\<lparr>ap_cell_width := x39\<rparr>) = app_ready a"
  "app_ready (a\<lparr>ap_cell_height := x40\<rparr>) = app_ready a"
  "app_ready (a\<lparr>ap_scroll_remainder := x41\<rparr>) = app_ready a"
  "app_ready (a\<lparr>ap_bar := x42\<rparr>) = app_ready a"
  "app_ready (a\<lparr>ap_search_active := x43\<rparr>) = app_ready a"
  "app_ready (a\<lparr>ap_search_query := x44\<rparr>) = app_ready a"
  "app_ready (a\<lparr>ap_search_total := x45\<rparr>) = app_ready a"
  "app_ready (a\<lparr>ap_search_selected := x46\<rparr>) = app_ready a"
  "app_ready (a\<lparr>ap_clipboard := x47\<rparr>) = app_ready a"
  "app_ready (a\<lparr>ap_paste_buffers := x48\<rparr>) = app_ready a"
  "app_ready (a\<lparr>ap_marked := x49\<rparr>) = app_ready a"
  "app_ready (a\<lparr>ap_display_panes := x50\<rparr>) = app_ready a"
  "app_ready (a\<lparr>ap_choose_buffer := x51\<rparr>) = app_ready a"
  "app_ready (a\<lparr>ap_choose_buffer_selected := x52\<rparr>) = app_ready a"
  "app_ready (a\<lparr>ap_choose_tree := x53\<rparr>) = app_ready a"
  "app_ready (a\<lparr>ap_choose_tree_selected := x54\<rparr>) = app_ready a"
  "app_ready (a\<lparr>ap_find_window := x55\<rparr>) = app_ready a"
  "app_ready (a\<lparr>ap_find_window_query := x56\<rparr>) = app_ready a"
  "app_ready (a\<lparr>ap_find_window_selected := x57\<rparr>) = app_ready a"
  "app_ready (a\<lparr>ap_copy_mode := x58\<rparr>) = app_ready a"
  "app_ready (a\<lparr>ap_selection := x59\<rparr>) = app_ready a"
  "app_ready (a\<lparr>ap_selection_drag := x60\<rparr>) = app_ready a"
  "app_ready (a\<lparr>ap_prompt := x61\<rparr>) = app_ready a"
  "app_ready (a\<lparr>ap_status := x62\<rparr>) = app_ready a"
  "app_ready (a\<lparr>ap_supply := x63\<rparr>) = app_ready a"
  "app_ready (a\<lparr>ap_effects := x64\<rparr>) = app_ready a"
  "app_ready (a\<lparr>ap_pwd := y1\<rparr>) = app_ready a" "app_ready (a\<lparr>ap_preedit := y2\<rparr>) = app_ready a"
  "app_ready (a\<lparr>ap_window_focused := y3\<rparr>) = app_ready a" "app_ready (a\<lparr>ap_initialized := y4\<rparr>) = app_ready a"
  by (simp_all add: app_ready_def)

section \<open>Effects\<close>

lemma emit_frame [core_frame]: "FxReloadConfig \<notin> set es \<Longrightarrow> core (emit es a) = core a"
  by (simp add: core_def emit_def)

lemma emit_tabs [tabs_frame, simp]: "ap_tabs (emit es a) = ap_tabs a"
  by (simp add: emit_def)

lemma set_pane_focus_frame [core_frame]: "core (set_pane_focus p b a) = core a"
  by (simp add: set_pane_focus_def core_frame)

lemma set_pane_focus_tabs [tabs_frame, simp]: "ap_tabs (set_pane_focus p b a) = ap_tabs a"
  by (simp add: set_pane_focus_def)

lemma free_panes_frame [core_frame]: "core (free_panes ps a) = core a"
  by (rule trans [OF _ emit_frame [of "map FxFree ps"]]) (auto simp: free_panes_def)

lemma free_panes_tabs [tabs_frame, simp]: "ap_tabs (free_panes ps a) = ap_tabs a"
  by (simp add: free_panes_def)

lemma relayout_frame [core_frame]: "core (relayout env a) = core a"
proof -
  have "FxReloadConfig \<notin> set (map (\<lambda>(pane, w, h). FxResize pane w h) s)" for s by auto
  then show ?thesis by (simp add: relayout_def core_frame split: prod.splits)
qed

lemma relayout_tabs [tabs_frame, simp]: "ap_tabs (relayout env a) = ap_tabs a"
  by (simp add: relayout_def split: prod.splits)

lemma refocus_frame [core_frame]: "core (refocus p a) = core a"
  by (simp add: refocus_def core_frame Let_def)

lemma refocus_tabs [tabs_frame, simp]: "ap_tabs (refocus p a) = ap_tabs a"
  by (simp add: refocus_def Let_def)

lemma binding_action_no_reload: "FxReloadConfig \<notin> set (binding_action env p s n)"
  by (auto simp: binding_action_def split: option.splits)

lemma ghostty_binding_action_frame [core_frame]: "core (ghostty_binding_action env s a) = core a"
  by (simp add: ghostty_binding_action_def core_frame binding_action_no_reload)

lemma ghostty_binding_action_tabs [tabs_frame, simp]: "ap_tabs (ghostty_binding_action env s a) = ap_tabs a"
  by (simp add: ghostty_binding_action_def)

lemma scroll_page_lines_frame [core_frame]: "core (scroll_page_lines env n a) = core a"
  by (simp add: scroll_page_lines_def core_frame)

lemma scroll_page_lines_tabs [tabs_frame, simp]: "ap_tabs (scroll_page_lines env n a) = ap_tabs a"
  by (simp add: scroll_page_lines_def)

lemma reset_scrolling_state_frame [core_frame]: "core (reset_scrolling_state a) = core a"
  by (simp add: reset_scrolling_state_def Let_def core_def emit_def)

lemma reset_scrolling_state_tabs [tabs_frame, simp]: "ap_tabs (reset_scrolling_state a) = ap_tabs a"
  by (simp add: reset_scrolling_state_def Let_def)

lemma write_terminal_input_frame [core_frame]: "core (write_terminal_input t a) = core a"
  by (simp add: write_terminal_input_def Let_def core_frame)

lemma write_terminal_input_tabs [tabs_frame, simp]: "ap_tabs (write_terminal_input t a) = ap_tabs a"
  by (simp add: write_terminal_input_def Let_def)

section \<open>The tabs\<close>

lemma set_tabs_frame [core_frame]: "core (set_tabs mv a) = core a"
  by (simp add: core_def set_tabs_def)

lemma set_tabs_tabs [simp]: "ap_tabs (set_tabs mv a) = fst mv"
  by (simp add: set_tabs_def)

lemma map_active_tree_frame [core_frame]: "core (map_active_tree f a) = core a"
  by (simp add: map_active_tree_def core_def)

lemma update_active_tab_ready: "ready m \<Longrightarrow> ready (snd (update_active_tab f r m))"
  by (auto simp: ready_def update_active_tab_def split: option.splits prod.splits)

lemma map_active_tree_ready [ready_intros]: "app_ready a \<Longrightarrow> app_ready (map_active_tree f a)"
  by (simp add: app_ready_def map_active_tree_def update_active_tab_ready)

lemma remove_at_length: "i < length xs \<Longrightarrow> length (remove_at i xs) = length xs - 1"
  by (simp add: remove_at_def)

lemma remove_at_Nil: "i < length xs \<Longrightarrow> remove_at i xs = [] \<longleftrightarrow> length xs \<le> 1"
  using remove_at_length [of i xs] by (metis Suc_le_D diff_is_0_eq length_0_conv One_nat_def)

lemma remove_tab_ready: "ready (fst mv) \<Longrightarrow> ready (fst (snd (remove_tab i mv)))"
  by (cases mv) (auto simp: remove_tab_def ready_def Let_def remove_at_length remove_at_Nil split: option.splits)

lemma new_tab_ready: "ready (fst (snd (new_tab p mv)))"
  by (cases mv) (simp add: new_tab_def allocate_tab_id_def ready_def Let_def)

lemma goto_tab_ready: "ready (fst mv) \<Longrightarrow> goto_tab i mv = Some r \<Longrightarrow> ready (fst (snd r))"
  by (cases mv) (auto simp: goto_tab_def ready_def Let_def split: if_splits)

lemma goto_tab_defined: "ready (fst mv) \<Longrightarrow> goto_tab i mv \<noteq> None"
  by (cases mv) (auto simp: goto_tab_def ready_def Let_def)

lemma next_tab_ready: "ready (fst mv) \<Longrightarrow> next_tab mv = Some r \<Longrightarrow> ready (fst (snd r))"
  by (auto simp: next_tab_def Let_def goto_tab_ready split: if_splits)

lemma prev_tab_ready: "ready (fst mv) \<Longrightarrow> prev_tab mv = Some r \<Longrightarrow> ready (fst (snd r))"
  by (auto simp: prev_tab_def Let_def goto_tab_ready split: if_splits)

lemma tab_steps_total: "ready (fst mv) \<Longrightarrow> next_tab mv \<noteq> None" "ready (fst mv) \<Longrightarrow> prev_tab mv \<noteq> None"
  by (simp_all add: next_tab_def prev_tab_def Let_def goto_tab_defined del: not_None_eq not_Some_eq)

lemma break_ready: "ready (fst mv) \<Longrightarrow> ready (fst (snd (break_active_pane_to_tab mv)))"
proof (cases mv)
  case (Pair m vs)
  assume r: "ready (fst mv)"
  have "new_tab p x = (i, m', vs') \<Longrightarrow> ready m'" for p x i m' vs'
    using new_tab_ready [of p x] by simp
  then show ?thesis using r Pair
    by (auto simp: break_active_pane_to_tab_def Let_def ready_def split: option.splits prod.splits)
qed

lemma remove_pane_by_id_ready: "ready (fst mv) \<Longrightarrow> ready (fst (snd (remove_pane_by_id pid mv)))"
proof (cases mv)
  case (Pair m vs)
  assume "ready (fst mv)"
  then have "ready (m\<lparr>tabs := (tabs m)[i := t]\<rparr>)" for i t using Pair by (simp add: ready_def)
  then have "ready (fst (snd (remove_tab j (m\<lparr>tabs := (tabs m)[i := t]\<rparr>, vs))))" for i j t
    using remove_tab_ready by simp
  then show ?thesis using \<open>ready (fst mv)\<close> Pair
    by (auto simp: remove_pane_by_id_def Let_def ready_def split: option.splits prod.splits)
qed

lemma tabs_of_ready: "app_ready a \<Longrightarrow> ready (fst (tabs_of a))"
  by (simp add: app_ready_def tabs_of_def)

lemma layout_ops_ready:
  assumes "ready m"
  shows "ready (snd (apply_layout_to_active l m))" "ready (snd (cycle_active_layout b m))"
    "ready (snd (rotate_active_panes b m))" "ready (snd (swap_active_pane_with_adjacent b m))"
    "ready (snd (rebalance_active_layout m))" "ready (snd (focus_active_pane_by_id p m))"
    "ready (set_active_title t m)"
  using assms
  by (simp_all add: apply_layout_to_active_def cycle_active_layout_def rotate_active_panes_def
      swap_active_pane_with_adjacent_def rebalance_active_layout_def focus_active_pane_by_id_def
      set_active_title_def update_active_tab_ready Let_def)

section \<open>Panes and tabs of the application\<close>

lemmas app_frame_defs = Let_def split_beta

lemma app_ready_frame [simp]:
  "app_ready (emit es a) = app_ready a" "app_ready (set_pane_focus p b a) = app_ready a"
  "app_ready (free_panes ps a) = app_ready a" "app_ready (relayout env a) = app_ready a"
  "app_ready (refocus p a) = app_ready a" "app_ready (ghostty_binding_action env s a) = app_ready a"
  "app_ready (scroll_page_lines env n a) = app_ready a" "app_ready (reset_scrolling_state a) = app_ready a"
  "app_ready (write_terminal_input t a) = app_ready a" "app_ready (set_tabs mv a) = ready (fst mv)"
  by (simp_all add: app_ready_def)

lemma create_pane_frame [core_frame]: "core (snd (create_pane a)) = core a"
  by (simp add: create_pane_def core_def split: list.splits)

lemma create_pane_tabs [simp]: "ap_tabs (snd (create_pane a)) = ap_tabs a"
  by (simp add: create_pane_def split: list.splits)

lemma create_pane_eq: "create_pane a = (r, a1) \<Longrightarrow> core a1 = core a \<and> ap_tabs a1 = ap_tabs a"
  using create_pane_frame [of a] create_pane_tabs [of a] by simp

lemma create_split_keeps [core_frame, ready_intros]:
  "core (create_split env side a) = core a" "app_ready a \<Longrightarrow> app_ready (create_split env side a)"
  by (auto simp: create_split_def Let_def core_frame app_ready_def dest!: create_pane_eq
      intro!: map_active_tree_ready [unfolded app_ready_def] split: prod.splits option.splits)

lemma switch_focus_keeps [core_frame, ready_intros]:
  "core (switch_focus env d a) = core a" "app_ready a \<Longrightarrow> app_ready (switch_focus env d a)"
  by (simp_all add: switch_focus_def core_frame ready_intros)

lemma focus_remaining_keeps [core_frame, simp]:
  "core (focus_remaining env a) = core a" "app_ready (focus_remaining env a) = app_ready a"
  by (simp_all add: focus_remaining_def core_frame)

lemma app_remove_tab_keeps [core_frame, ready_intros]:
  "core (snd (app_remove_tab i a)) = core a" "app_ready a \<Longrightarrow> app_ready (snd (app_remove_tab i a))"
  using remove_tab_ready [OF tabs_of_ready]
  by (auto simp: app_remove_tab_def split_beta core_frame)

lemma handle_surface_closed_keeps [core_frame, ready_intros]:
  "core (handle_surface_closed env a) = core a" "app_ready a \<Longrightarrow> app_ready (handle_surface_closed env a)"
  by (simp_all add: handle_surface_closed_def app_frame_defs core_frame ready_intros split: option.splits)

lemma app_new_tab_keeps [core_frame, ready_intros]:
  "core (snd (app_new_tab env a)) = core a" "app_ready a \<Longrightarrow> app_ready (snd (app_new_tab env a))"
  using new_tab_ready
  by (auto simp: app_new_tab_def app_frame_defs core_frame app_ready_def dest!: create_pane_eq split: option.splits prod.splits)

lemma app_goto_tab_keeps:
  "app_goto_tab i a = Some a' \<Longrightarrow> core a' = core a \<and> (app_ready a \<longrightarrow> app_ready a')"
  using goto_tab_ready [OF tabs_of_ready] by (auto simp: app_goto_tab_def core_frame)

lemma app_goto_tab_total: "app_ready a \<Longrightarrow> app_goto_tab i a \<noteq> None"
  using goto_tab_defined [OF tabs_of_ready] by (simp add: app_goto_tab_def)

lemma sync_after_tab_change_keeps [core_frame, simp]:
  "core (sync_after_tab_change env a) = core a" "app_ready (sync_after_tab_change env a) = app_ready a"
  by (simp_all add: sync_after_tab_change_def Let_def core_frame)

section \<open>Actions and pickers\<close>

lemma resize_split_keeps [core_frame, ready_intros]:
  "core (resize_split env d n a) = core a" "app_ready a \<Longrightarrow> app_ready (resize_split env d n a)"
  by (simp_all add: resize_split_def app_frame_defs core_frame ready_intros)

lemma relayout_if_keeps [core_frame]: "core (relayout_if env f a) = core a"
  by (simp add: relayout_if_def app_frame_defs core_frame)

lemma relayout_if_ready: "ready (snd (f (ap_tabs a))) \<Longrightarrow> app_ready (relayout_if env f a)"
  by (simp add: relayout_if_def app_frame_defs app_ready_def)

lemma break_pane_keeps [core_frame, ready_intros]:
  "core (break_pane env a) = core a" "app_ready a \<Longrightarrow> app_ready (break_pane env a)"
  using break_ready [OF tabs_of_ready] by (auto simp: break_pane_def app_frame_defs core_frame)

lemma app_close_tab_keeps [core_frame, ready_intros]:
  "core (app_close_tab env a) = core a" "app_ready a \<Longrightarrow> app_ready (app_close_tab env a)"
  by (simp_all add: app_close_tab_def app_frame_defs core_frame ready_intros)

lemma join_marked_pane_keeps [core_frame, ready_intros]:
  "core (join_marked_pane env s a) = core a" "app_ready a \<Longrightarrow> app_ready (join_marked_pane env s a)"
  using remove_pane_by_id_ready [OF tabs_of_ready]
  by (auto simp: join_marked_pane_def app_frame_defs core_frame ready_intros split: option.splits prod.splits)

lemma handle_search_key_keeps [core_frame, simp]:
  "core (handle_search_key env key typed m a) = core a"
  "app_ready (handle_search_key env key typed m a) = app_ready a"
  by (simp_all add: handle_search_key_def send_search_def Let_def core_frame
      split: toolkit_key.splits named_toolkit_key.splits option.splits)

lemma close_pickers_keep [core_frame, simp]:
  "core (close_find_window a) = core a" "app_ready (close_find_window a) = app_ready a"
  "core (close_choose_buffer a) = core a" "app_ready (close_choose_buffer a) = app_ready a"
  by (simp_all add: close_find_window_def close_choose_buffer_def)

lemma goto_entry_keeps:
  "goto_entry env e a = Some a' \<Longrightarrow> core a' = core a \<and> (app_ready a \<longrightarrow> app_ready a')"
proof -
  assume g: "goto_entry env e a = Some a'"
  then obtain a1 where a1: "app_goto_tab (cte_tab_index e) a = Some a1" by (auto simp: goto_entry_def)
  have "app_ready a1 \<Longrightarrow> app_ready (a1\<lparr>ap_tabs := snd (focus_active_pane_by_id (cte_pane_id e) (ap_tabs a1))\<rparr>)"
    by (simp add: app_ready_def layout_ops_ready)
  with app_goto_tab_keeps [OF a1] g a1 show ?thesis
    by (auto simp: goto_entry_def app_frame_defs core_frame)
qed

lemma goto_entry_total: "app_ready a \<Longrightarrow> goto_entry env e a \<noteq> None"
  using app_goto_tab_total by (simp add: goto_entry_def)

definition harmless :: "app option \<Rightarrow> app \<Rightarrow> bool" where
  "harmless r a \<longleftrightarrow> (app_ready a \<longrightarrow> r \<noteq> None) \<and>
     (\<forall>a'. r = Some a' \<longrightarrow> core a' = core a \<and> (app_ready a \<longrightarrow> app_ready a'))"

lemma harmless_Some [simp]: "harmless (Some a') a \<longleftrightarrow> core a' = core a \<and> (app_ready a \<longrightarrow> app_ready a')"
  by (auto simp: harmless_def)

lemma harmlessD: "harmless (Some a') a \<Longrightarrow> core a' = core a" "harmless (Some a') a \<Longrightarrow> app_ready a \<Longrightarrow> app_ready a'"
  "harmless None a \<Longrightarrow> \<not> app_ready a"
  by (auto simp: harmless_def)

lemma goto_entry_harmless: "core b = core a \<Longrightarrow> app_ready b = app_ready a \<Longrightarrow> harmless (goto_entry env e b) a"
  using goto_entry_keeps goto_entry_total by (auto simp: harmless_def)

lemma find_window_key_harmless: "harmless (handle_find_window_key env key kc a) a"
  by (auto simp: handle_find_window_key_def select_find_window_entry_def move_find_window_selection_def Let_def
      core_frame intro!: goto_entry_harmless split: toolkit_key.splits named_toolkit_key.splits option.splits)

lemma choose_tree_key_harmless: "harmless (handle_choose_tree_key env key kc a) a"
  by (auto simp: handle_choose_tree_key_def select_choose_tree_entry_def move_choose_tree_selection_def Let_def
      core_frame intro!: goto_entry_harmless split: toolkit_key.splits named_toolkit_key.splits option.splits)

lemma display_panes_char_keeps [core_frame, ready_intros]:
  "core (handle_display_panes_char env ch a) = core a"
  "app_ready a \<Longrightarrow> app_ready (handle_display_panes_char env ch a)"
  by (auto simp: handle_display_panes_char_def app_frame_defs core_frame app_ready_def layout_ops_ready split: option.splits)

lemma display_panes_key_keeps [core_frame, ready_intros]:
  "core (handle_display_panes_key env key kc a) = core a"
  "app_ready a \<Longrightarrow> app_ready (handle_display_panes_key env key kc a)"
  by (auto simp: handle_display_panes_key_def core_frame ready_intros split: option.splits)

end
