(* ===== verification/AppCore.thy ===== *)
theory AppCore
  imports AppFrame
begin

text \<open>
  The invariant of the application's core, and that the actions of copy mode, the bindings, the commands and
  the prompts keep it. The core is sound (the prompt, the paste buffers, no remembered jump), and copy mode is
  synchronized: the bindings are in copy mode exactly when the application is, until the configuration has been
  read again.
\<close>

section \<open>The invariant\<close>

definition paste_ok :: "str list \<Rightarrow> bool" where
  "paste_ok ps \<longleftrightarrow> length ps \<le> 32 \<and> distinct ps \<and> [] \<notin> set ps"

definition no_jump :: "copy_mode_state option \<Rightarrow> bool" where
  "no_jump cm \<longleftrightarrow> (case cm of Some m \<Rightarrow> cm_last_jump m = None | None \<Rightarrow> True)"

definition sound_core :: "app_core \<Rightarrow> bool" where
  "sound_core c \<longleftrightarrow> (case c of (b, cm, p, ps, reloaded) \<Rightarrow> prompt_wf p \<and> paste_ok ps \<and> no_jump cm)"

definition synced_core :: "app_core \<Rightarrow> bool" where
  "synced_core c \<longleftrightarrow> (case c of (b, cm, p, ps, reloaded) \<Rightarrow> reloaded \<or> (is_copy_mode b \<longleftrightarrow> cm \<noteq> None))"

definition app_sound :: "app \<Rightarrow> bool" where
  "app_sound a \<longleftrightarrow> sound_core (core a) \<and> app_ready a"

definition app_synced :: "app \<Rightarrow> bool" where
  "app_synced a \<longleftrightarrow> synced_core (core a)"

text \<open>A step keeps the invariant; it may leave out of step what was out of step before.\<close>

definition keeps :: "app \<Rightarrow> app \<Rightarrow> bool" where
  "keeps a a' \<longleftrightarrow> (app_sound a \<longrightarrow> app_sound a') \<and> (app_synced a \<longrightarrow> app_synced a')"

lemma keeps_refl [simp]: "keeps a a"
  by (simp add: keeps_def)

lemma keeps_trans [trans]: "keeps a b \<Longrightarrow> keeps b c \<Longrightarrow> keeps a c"
  by (simp add: keeps_def)

lemma core_keeps: "core a' = core a \<Longrightarrow> (app_ready a \<Longrightarrow> app_ready a') \<Longrightarrow> keeps a a'"
  by (simp add: keeps_def app_sound_def app_synced_def)

lemma harmless_keeps: "harmless r a \<Longrightarrow> r = Some a' \<Longrightarrow> keeps a a'"
  by (auto simp: harmless_def intro: core_keeps)

lemma paste_ok_push:
  assumes "paste_ok ps" and "t \<noteq> []"
  shows "paste_ok (t # take 31 (filter (\<lambda>e. e \<noteq> t) ps))"
  using assms by (auto simp: paste_ok_def take_Cons' dest: in_set_takeD)

section \<open>Copy mode\<close>

lemma map_copy_mode_core:
  "core (map_copy_mode f a) = (let (b, cm, p, ps, r) = core a in (b, map_option f cm, p, ps, r))"
  by (simp add: map_copy_mode_def core_def)

lemma map_copy_mode_ready [simp]: "app_ready (map_copy_mode f a) = app_ready a"
  by (simp add: map_copy_mode_def)

lemma map_copy_mode_keeps: "(\<And>m. cm_last_jump (f m) = cm_last_jump m) \<Longrightarrow> keeps a (map_copy_mode f a)"
  by (auto simp: keeps_def app_sound_def app_synced_def map_copy_mode_core sound_core_def synced_core_def no_jump_def
      split: option.splits prod.splits)

lemma last_jump_frame [simp]:
  "cm_last_jump (set_col c m) = cm_last_jump m" "cm_last_jump (set_cursor rc m) = cm_last_jump m"
  "cm_last_jump (move_cursor d m) = cm_last_jump m" "cm_last_jump (page_cursor n m) = cm_last_jump m"
  "cm_last_jump (toggle_selection s m) = cm_last_jump m" "cm_last_jump (swap_anchor m) = cm_last_jump m"
  by (simp_all add: set_col_def set_cursor_def move_cursor_def page_cursor_def toggle_selection_def swap_anchor_def
      split: resize_direction.splits option.splits)

lemma update_copy_mode_highlight_keeps [core_frame, simp]:
  "core (update_copy_mode_highlight env a) = core a"
  "app_ready (update_copy_mode_highlight env a) = app_ready a"
  by (simp_all add: update_copy_mode_highlight_def core_frame split: option.splits)

lemma copy_mode_ensure_visible_keeps [core_frame, simp]:
  "core (copy_mode_ensure_visible env a) = core a" "app_ready (copy_mode_ensure_visible env a) = app_ready a"
  by (simp_all add: copy_mode_ensure_visible_def core_frame Let_def split: option.splits)

lemma show_cursor_keeps [core_frame, simp]:
  "core (show_cursor env a) = core a" "app_ready (show_cursor env a) = app_ready a"
  by (simp_all add: show_cursor_def)

lemma keeps_frame [simp]:
  "keeps a (update_copy_mode_highlight env b) = keeps a b" "keeps a (show_cursor env b) = keeps a b"
  "keeps a (ghostty_binding_action env s b) = keeps a b" "keeps a (relayout env b) = keeps a b"
  "keeps a (scroll_page_lines env n b) = keeps a b" "keeps a (b\<lparr>ap_search_active := x\<rparr>) = keeps a b"
  "keeps a (b\<lparr>ap_search_query := q\<rparr>) = keeps a b" "keeps a (b\<lparr>ap_search_total := n1\<rparr>) = keeps a b"
  "keeps a (b\<lparr>ap_search_selected := n2\<rparr>) = keeps a b" "keeps a (b\<lparr>ap_choose_buffer_selected := n3\<rparr>) = keeps a b"
  "keeps a (b\<lparr>ap_choose_buffer := b1\<rparr>) = keeps a b" "keeps a (close_choose_buffer b) = keeps a b"
  by (simp_all add: keeps_def app_sound_def app_synced_def core_frame)

lemma copy_motions_keep:
  "keeps a (copy_mode_move env d a)" "keeps a (copy_mode_first_non_blank env a)"
  "keeps a (copy_mode_execute_jump env t k a)" "keeps a (copy_mode_jump_repeat env r a)"
  "keeps a (copy_mode_paragraph env f a)" "keeps a (copy_mode_matching_bracket env a)"
  by (auto simp: copy_mode_move_def copy_mode_first_non_blank_def copy_mode_execute_jump_def copy_mode_jump_repeat_def
      copy_mode_paragraph_def copy_mode_matching_bracket_def Let_def intro!: map_copy_mode_keeps split: option.splits)

lemma copy_mode_word_move_keeps: "copy_mode_word_move env k a = Some a' \<Longrightarrow> keeps a a'"
  by (auto simp: copy_mode_word_move_def intro!: map_copy_mode_keeps split: option.splits)

lemma copy_to_clipboard_keeps: "keeps a (copy_to_clipboard t a)"
proof -
  have "core (copy_to_clipboard t a) = (let (b, cm, p, ps, r) = core a
      in (b, cm, p, if t = [] then ps else take 32 (t # filter (\<lambda>e. e \<noteq> t) ps), r))"
    by (simp add: copy_to_clipboard_def push_paste_buffer_def core_def emit_def)
  moreover have "app_ready (copy_to_clipboard t a) = app_ready a"
    by (simp add: copy_to_clipboard_def push_paste_buffer_def)
  ultimately show ?thesis
    by (auto simp: keeps_def app_sound_def app_synced_def sound_core_def synced_core_def paste_ok_push
        split: prod.splits)
qed

lemma copying_keeps: "keeps a (copy_mode_copy env a)" "keeps a (copy_mode_append_copy env a)"
  by (simp_all add: copy_mode_copy_def copy_mode_append_copy_def Let_def copy_to_clipboard_keeps split: option.splits)

lemma app_exit_copy_mode_core:
  "core (app_exit_copy_mode env a) = (let (b, cm, p, ps, r) = core a in (exit_copy_mode b, None, p, ps, r))"
  "app_ready (app_exit_copy_mode env a) = app_ready a"
  by (simp_all add: app_exit_copy_mode_def Let_def core_frame) (simp add: core_def)

text \<open>Leaving copy mode puts everything back in step.\<close>

lemma exit_keeps: "keeps a b \<Longrightarrow> keeps a (app_exit_copy_mode env b)" "app_synced (app_exit_copy_mode env a)"
  by (auto simp: keeps_def app_sound_def app_synced_def app_exit_copy_mode_core sound_core_def synced_core_def no_jump_def
      is_copy_mode_def exit_copy_mode_def split: prod.splits)

lemma app_enter_copy_mode_keeps: "keeps a (app_enter_copy_mode env a)"
proof (cases "focused_cursor_cell_position env a")
  case (Some pos)
  then have "\<exists>m. cm_last_jump m = None \<and>
    core (app_enter_copy_mode env a) = (let (b, cm, p, ps, r) = core a in (enter_copy_mode b, Some m, p, ps, r))"
    by (cases pos) (simp add: app_enter_copy_mode_def Let_def core_frame, simp add: core_def)
  then obtain m where "cm_last_jump m = None"
    "core (app_enter_copy_mode env a) = (let (b, cm, p, ps, r) = core a in (enter_copy_mode b, Some m, p, ps, r))" by blast
  moreover have "app_ready (app_enter_copy_mode env a) = app_ready a"
    using Some by (cases pos) (simp add: app_enter_copy_mode_def Let_def)
  ultimately show ?thesis
    by (auto simp: keeps_def app_sound_def app_synced_def sound_core_def synced_core_def no_jump_def
        is_copy_mode_def enter_copy_mode_def split: prod.splits)
qed (simp add: app_enter_copy_mode_def)

lemma opened_prompt_wf: "prompt_wf (open_prompt lower s p)"
  by (simp add: open_prompt_def update_suggestions_wf)

lemma prompt_with_keeps: "keeps a (a\<lparr>ap_prompt := p\<rparr>)" if "prompt_wf p"
proof -
  have "core (a\<lparr>ap_prompt := p\<rparr>) = (let (b, cm, _, ps, r) = core a in (b, cm, p, ps, r))" by (simp add: core_def)
  with that show ?thesis
    by (auto simp: keeps_def app_sound_def app_synced_def sound_core_def synced_core_def split: prod.splits)
qed

lemma search_word_keeps: "keeps a (search_word env f a)"
  using map_copy_mode_keeps [of "\<lambda>cm. cm\<lparr>cm_last_search_forward := f\<rparr>" "a\<lparr>ap_search_active := True, ap_search_query := w\<rparr>" for w]
  by (auto simp: search_word_def navigate_search_def keeps_def app_sound_def app_synced_def core_frame split: option.splits)

lemma start_search_keeps: "keeps a (start_search env f a)"
  using map_copy_mode_keeps [of "\<lambda>cm. cm\<lparr>cm_last_search_forward := f\<rparr>"
      "a\<lparr>ap_search_active := True, ap_search_query := [], ap_search_total := 0, ap_search_selected := 0\<rparr>"]
  by (auto simp: start_search_def keeps_def app_sound_def app_synced_def core_frame)

lemma scroll_middle_keeps: "keeps a (scroll_middle env a)"
  by (simp add: scroll_middle_def Let_def split: option.splits)

lemma copy_mode_action_keeps:
  assumes "copy_mode_action env action a = Some a'"
  shows "keeps a a'"
  using assms
  by (cases action)
     (auto simp: copy_mode_action_def copy_mode_command_def Let_def copy_motions_keep copying_keeps search_word_keeps start_search_keeps
        scroll_middle_keeps opened_prompt_wf navigate_search_def set_pending_jump_def
        intro!: map_copy_mode_keeps exit_keeps prompt_with_keeps
          keeps_trans [OF map_copy_mode_keeps copying_keeps(1)]
        dest!: copy_mode_word_move_keeps
        split: option.splits if_splits)

lemma leaving_syncs:
  assumes "copy_mode_action env action a = Some a'" and "leaves_copy_mode action"
  shows "app_synced a'"
  using assms by (auto simp: leaves_copy_mode_def copy_mode_action_def copy_mode_command_def Let_def exit_keeps)

lemma clear_pending_jump_keeps: "keeps a (clear_pending_jump action a)"
  by (simp add: clear_pending_jump_def map_copy_mode_keeps)

lemma dispatch_copy_mode_action_keeps: "dispatch_copy_mode_action env action a = Some a' \<Longrightarrow> keeps a a'"
  unfolding dispatch_copy_mode_action_def
  by (rule keeps_trans [OF clear_pending_jump_keeps copy_mode_action_keeps])

text \<open>The one panic of copy mode: a word backwards from beyond the text.\<close>

lemma copy_mode_action_panic:
  "copy_mode_action env action a = None \<Longrightarrow> action \<in> {WordBack, BigWordBack} \<and>
     (\<exists>line cm. read_line_for_cursor env a = Some line \<and> ap_copy_mode a = Some cm \<and>
        length (str_chars line) < cm_cursor_col cm)"
  by (cases action)
     (auto simp: copy_mode_action_def copy_mode_command_def Let_def copy_mode_word_move_def word_column_def prev_word_def
        split: option.splits if_splits)

section \<open>Actions and commands\<close>

lemma core_eq_keeps: "core a' = core a \<Longrightarrow> app_ready a' = app_ready a \<Longrightarrow> keeps a a'"
  by (rule core_keeps) simp_all

lemma reload_keeps: "keeps a (reload_config env a)"
proof -
  have "core (reload_config env a) = (let (_, cm, p, ps, _) = core a
      in (from_config (env_single_char env) (fst (env_config env)) (snd (env_config env)), cm, p, ps, True))"
    by (simp add: reload_config_def core_frame) (simp add: core_def emit_def)
  then show ?thesis
    by (auto simp: keeps_def app_sound_def app_synced_def sound_core_def synced_core_def reload_config_def split: prod.splits)
qed

lemma begin_search_keeps: "keeps a (begin_search env a)"
  by (simp add: begin_search_def)

lemma layout_ops_keep: "(app_ready a \<Longrightarrow> ready (snd (f (ap_tabs a)))) \<Longrightarrow> keeps a (relayout_if env f a)"
  by (rule core_keeps) (simp_all add: relayout_if_keeps relayout_if_ready)

lemma pane_ops_keep:
  "keeps a (create_split env side a)" "keeps a (switch_focus env dir a)" "keeps a (resize_split env rd n a)"
  "keeps a (handle_surface_closed env a)" "keeps a (break_pane env a)" "keeps a (snd (app_new_tab env a))"
  "keeps a (app_close_tab env a)" "keeps a (join_marked_pane env side a)"
  "keeps a (refocus p (map_active_tree f a))"
  by (rule core_keeps; simp add: core_frame ready_intros)+

lemma pane_fields_keep:
  "keeps a (a\<lparr>ap_marked := m\<rparr>)" "keeps a (a\<lparr>ap_choose_buffer := b1, ap_choose_buffer_selected := n1\<rparr>)"
  "keeps a (a\<lparr>ap_choose_tree := b2, ap_choose_tree_selected := n2\<rparr>)" "keeps a (a\<lparr>ap_display_panes := b3\<rparr>)"
  "keeps a (a\<lparr>ap_find_window := b4, ap_find_window_query := q, ap_find_window_selected := n4\<rparr>)"
  by (rule core_eq_keeps; simp)+

lemma app_step_tab_keeps:
  assumes "app_step_tab env f a = Some a'" and "\<And>r. f (tabs_of a) = Some r \<Longrightarrow> app_ready a \<Longrightarrow> ready (fst (snd r))"
  shows "keeps a a'"
  using assms by (auto simp: app_step_tab_def core_frame intro!: core_keeps)

lemma tab_steps_keep:
  "app_step_tab env next_tab a = Some a' \<Longrightarrow> keeps a a'" "app_step_tab env prev_tab a = Some a' \<Longrightarrow> keeps a a'"
  "app_step_tab env (goto_tab i) a = Some a' \<Longrightarrow> keeps a a'"
  by (erule app_step_tab_keeps, blast intro: next_tab_ready prev_tab_ready goto_tab_ready tabs_of_ready)+

lemma dispatch_binding_action_keeps:
  assumes "dispatch_binding_action env action a = Some a'"
  shows "keeps a a'"
  using assms
  by (cases action)
     (auto simp: dispatch_binding_action_def dispatch_layout_action_def prompt_with_def opened_prompt_wf copying_keeps begin_search_keeps reload_keeps
        app_enter_copy_mode_keeps pane_ops_keep pane_fields_keep layout_ops_ready app_ready_def
        intro!: prompt_with_keeps layout_ops_keep dest!: tab_steps_keep)

lemma dispatch_binding_action_total: "app_ready a \<Longrightarrow> dispatch_binding_action env action a \<noteq> None"
proof -
  assume r: "app_ready a"
  have "app_step_tab env f a \<noteq> None" if "\<And>mv. ready (fst mv) \<Longrightarrow> f mv \<noteq> None" for f
    using that [OF tabs_of_ready [OF r]] by (simp add: app_step_tab_def)
  then show ?thesis
    by (cases action) (simp_all add: dispatch_binding_action_def dispatch_layout_action_def tab_steps_total goto_tab_defined del: not_None_eq not_Some_eq)
qed

end
