(* ===== verification/AppProps.thy ===== *)
theory AppProps
  imports AppCore
begin

text \<open>
  The properties of the application: what every input keeps, which keys never reach the terminal, and where the
  handling of input goes wrong.
\<close>

section \<open>Every input keeps the invariant\<close>

lemma load_layout_ready: "load_tabs ts ((m, vs), panes) = Some ((m', vs'), panes') \<Longrightarrow> ready m \<Longrightarrow> ready m'"
proof (induction ts arbitrary: m vs panes)
  case (Cons t ts)
  have new_tab_pair: "snd (new_tab p x) = (m', vs') \<Longrightarrow> ready m'" for p x m' vs'
    using new_tab_ready [of p x] by simp
  have pane: "load_pane s ip ((m, vs), panes) = Some ((m', vs'), panes') \<Longrightarrow> ready m \<Longrightarrow> ready m'"
    for s ip m vs panes m' vs' panes'
    using update_active_tab_ready [of m] new_tab_pair
    by (auto simp: load_pane_def Let_def split: prod.splits if_splits list.splits option.splits)
  have loaded: "load_panes s ips ((m, vs), panes) = Some ((m', vs'), panes') \<Longrightarrow> ready m \<Longrightarrow> ready m'"
    for s ips m vs panes m' vs' panes'
    by (induction ips arbitrary: m vs panes) (auto simp: bind_eq_Some_conv dest: pane)
  have name: "ready (name_tab i lt m) = ready m" for i lt m by (simp add: name_tab_def ready_def)
  from Cons.prems(1) obtain m1 vs1 sup1 where t: "load_tab t ((m, vs), panes) = Some ((m1, vs1), sup1)"
    and rest: "load_tabs ts ((m1, vs1), sup1) = Some ((m', vs'), panes')"
    by (auto simp: bind_eq_Some_conv)
  from t Cons.prems(2) have "ready m1"
    by (auto simp: load_tab_def Let_def name split: prod.splits dest: loaded)
  with Cons.IH [OF rest] show ?case .
qed simp

lemma command_load_layout_keeps: "command_load_layout env name a = Some a' \<Longrightarrow> keeps a a'"
  by (auto simp: command_load_layout_def app_load_layout_def tabs_of_def app_ready_def core_frame
      intro!: core_keeps dest: load_layout_ready split: option.splits if_splits)

lemma command_parts_keep:
  "keeps a (goto_line env n a)" "keeps a (command_set args a)"
  "keeps a (a\<lparr>ap_tabs := set_active_title t (ap_tabs a)\<rparr>)" "keeps a (emit [FxSaveLayout x y] a)"
  by (auto simp: goto_line_def command_set_def app_ready_def layout_ops_ready core_frame
      intro!: map_copy_mode_keeps core_keeps split: list.splits)

lemma stale_marks_keep [simp]:
  "keeps a (emit [FxTabsStale i] b) = keeps a b" "keeps (emit [FxTabsStale i] a) b = keeps a b"
  "keeps a (mark_active_tab b) = keeps a b"
  by (simp_all add: mark_active_tab_def keeps_def app_sound_def app_synced_def core_frame split: option.splits)

lemma special_command_keeps: "special_command env cmd args a = Some a' \<Longrightarrow> keeps a a'"
  by (auto simp: special_command_def command_parts_keep dest: command_load_layout_keeps
      split: if_splits option.splits list.splits prod.splits)

lemma execute_command_keeps: "execute_command env input a = Some a' \<Longrightarrow> keeps a a'"
  by (auto simp: execute_command_def run_command_def dest: dispatch_binding_action_keeps special_command_keeps
      split: list.splits option.splits)

lemma status_component_keeps: "invoke_status_component env s c a = Some (r, a') \<Longrightarrow> keeps a a'"
  by (auto simp: invoke_status_component_def dest!: execute_command_keeps split: option.splits if_splits)

lemma handle_command_key_keeps:
  assumes "handle_command_key env key typed m a = Some a'"
  shows "keeps a a'"
proof -
  from assms obtain p run where p: "prompt_key (env_lower env) key typed (md_control m) (ap_prompt a) = Some (p, run)"
    and run: "(case run of Some input \<Rightarrow> execute_command env input (a\<lparr>ap_prompt := p\<rparr>) | None \<Rightarrow> Some (a\<lparr>ap_prompt := p\<rparr>)) = Some a'"
    by (auto simp: handle_command_key_def bind_eq_Some_conv Let_def)
  have wf: "app_sound a \<Longrightarrow> prompt_wf p"
    using prompt_key_result [of "ap_prompt a", where lower = "env_lower env" and key = key and typed = typed and control = "md_control m"] p
    by (simp add: app_sound_def sound_core_def core_def)
  have "keeps a (a\<lparr>ap_prompt := p\<rparr>)"
    using wf by (auto simp: keeps_def app_sound_def app_synced_def sound_core_def synced_core_def core_def)
  moreover have "keeps (a\<lparr>ap_prompt := p\<rparr>) a'"
    using run by (auto dest: execute_command_keeps split: option.splits)
  ultimately show ?thesis by (rule keeps_trans)
qed

lemma paste_ok_remove_at: "paste_ok ps \<Longrightarrow> paste_ok (remove_at i ps)"
proof -
  assume ok: "paste_ok ps"
  have "set (remove_at i ps) \<subseteq> set ps" by (auto simp: remove_at_def dest: in_set_takeD in_set_dropD)
  moreover have "distinct (remove_at i ps)"
    using ok by (simp add: remove_at_def paste_ok_def set_take_disj_set_drop_if_distinct)
  ultimately show ?thesis using ok by (auto simp: paste_ok_def remove_at_def)
qed

lemma buffers_keep: "remove_at i (ap_paste_buffers a) = ps \<Longrightarrow> keeps a (a\<lparr>ap_paste_buffers := ps\<rparr>)"
  by (auto simp: keeps_def app_sound_def app_synced_def sound_core_def synced_core_def core_def paste_ok_remove_at)

lemma delete_selected_buffer_keeps: "keeps a (delete_selected_buffer a)"
  by (auto simp: delete_selected_buffer_def Let_def intro: core_eq_keeps buffers_keep)

lemma choose_buffer_key_keeps: "keeps a (handle_choose_buffer_key key kc a)"
proof -
  have "keeps a (move_choose_buffer_selection b a)" "keeps a (paste_selected_buffer a)" for b
    by (auto simp: move_choose_buffer_selection_def paste_selected_buffer_def core_frame
        intro!: core_eq_keeps split: option.splits)
  then show ?thesis
    by (auto simp: handle_choose_buffer_key_def delete_selected_buffer_keeps intro: core_eq_keeps
        split: toolkit_key.splits named_toolkit_key.splits)
qed

text \<open>A key changes the mode of the bindings only; the copy mode actions that leave copy mode follow.\<close>

lemma handle_key_mode:
  assumes "handle_key kc keycode mods named b = (result, b')"
  shows "is_copy_mode b' = is_copy_mode b \<or>
    (\<exists>action. result = CopyModeResult action \<and> leaves_copy_mode action)"
  using assms
  by (auto simp: handle_key_def handle_copy_mode_key_def is_copy_mode_def Let_def
      split: mode.splits option.splits if_splits)

lemma handle_key_dispatch_keeps:
  assumes k: "handle_key kc keycode mods named (ap_bindings a) = (result, b)"
    and d: "dispatch_binding_result env result (a\<lparr>ap_bindings := b\<rparr>) = Some (r, a')"
  shows "keeps a a'"
proof -
  have sound: "app_sound (a\<lparr>ap_bindings := b\<rparr>) = app_sound a"
    by (simp add: app_sound_def sound_core_def core_def)
  from d have keep: "keeps (a\<lparr>ap_bindings := b\<rparr>) a'"
    by (auto simp: dispatch_binding_result_def dest: dispatch_binding_action_keeps dispatch_copy_mode_action_keeps
        split: key_result.splits option.splits)
  from handle_key_mode [OF k] consider "is_copy_mode b = is_copy_mode (ap_bindings a)"
    | action where "result = CopyModeResult action" "leaves_copy_mode action" by blast
  then show ?thesis
  proof cases
    case 1
    then have "app_synced (a\<lparr>ap_bindings := b\<rparr>) = app_synced a" by (simp add: app_synced_def synced_core_def core_def)
    with keep sound show ?thesis by (simp add: keeps_def)
  next
    case 2
    with d have "app_synced a'"
      by (auto simp: dispatch_binding_result_def dispatch_copy_mode_action_def intro: leaving_syncs)
    with keep sound show ?thesis by (simp add: keeps_def)
  qed
qed

lemma clear_mouse_selection_keeps [simp]:
  "core (snd (clear_mouse_selection a)) = core a" "app_ready (snd (clear_mouse_selection a)) = app_ready a"
  by (simp_all add: clear_mouse_selection_def)

lemma copy_mouse_selection_keeps: "keeps a (snd (copy_mouse_selection env a))"
  by (simp add: copy_mouse_selection_def copy_to_clipboard_keeps split: option.splits)

lemma prompt_keys_keep:
  "keeps a (handle_search_key env key typed m a)" "keeps a (handle_display_panes_key env key kc a)"
  "keeps a (handle_display_panes_char env ch a)" "keeps a (write_terminal_input t a)"
  by (rule core_keeps; simp add: core_frame ready_intros)+

lemma dispatch_app_key_keeps: "dispatch_app_key env e a = Some (r, a') \<Longrightarrow> keeps a a'"
  by (auto simp: dispatch_app_key_def Let_def choose_buffer_key_keeps prompt_keys_keep
      intro: handle_key_dispatch_keeps handle_command_key_keeps
        harmless_keeps [OF find_window_key_harmless] harmless_keeps [OF choose_tree_key_harmless]
      split: if_splits prod.splits)

lemma type_chars_keeps: "type_chars env chs a = Some a' \<Longrightarrow> keeps a a'"
proof (induction chs arbitrary: a)
  case (Cons ch chs)
  then obtain result b r a1 where "handle_key (Some ch) 0 0 None (ap_bindings a) = (result, b)"
    and "dispatch_binding_result env result (a\<lparr>ap_bindings := b\<rparr>) = Some (r, a1)" and "type_chars env chs a1 = Some a'"
    by (auto simp: bind_eq_Some_conv split: prod.splits)
  then show ?case using Cons.IH handle_key_dispatch_keeps keeps_trans by blast
qed simp

lemma display_chars_keep: "keeps a (fold (handle_display_panes_char env) chs a)"
  by (induction chs arbitrary: a) (auto intro: keeps_trans prompt_keys_keep)

lemma handle_committed_text_keeps: "handle_committed_text env t a = Some a' \<Longrightarrow> keeps a a'"
proof -
  assume h: "handle_committed_text env t a = Some a'"
  have "keeps a (snd (clear_mouse_selection a))" by (rule core_eq_keeps) simp_all
  moreover have "keeps (snd (clear_mouse_selection a)) a'"
    using h
    by (auto simp: handle_committed_text_def Let_def display_chars_keep prompt_keys_keep
        intro: type_chars_keeps handle_command_key_keeps split: if_splits)
  ultimately show ?thesis by (rule keeps_trans)
qed

lemma forward_key_event_keeps: "forward_key_event env e a = Some a' \<Longrightarrow> keeps a a'"
proof -
  assume f: "forward_key_event env e a = Some a'"
  have "keeps a (snd (clear_mouse_selection a))" by (rule core_eq_keeps) simp_all
  moreover have "keeps b (reset_scrolling_state b)" "keeps b (emit [FxVtKey p k] (reset_scrolling_state b))" for b p k
    by (rule core_eq_keeps; simp add: core_frame)+
  then have "keeps (snd (clear_mouse_selection a)) a'"
    using f
    by (auto simp: forward_key_event_def Let_def dest: handle_committed_text_keeps split: option.splits list.splits if_splits)
  ultimately show ?thesis by (rule keeps_trans)
qed

lemma handle_app_key_event_keeps: "handle_app_key_event env e a = Some (r, a') \<Longrightarrow> keeps a a'"
proof -
  assume h: "handle_app_key_event env e a = Some (r, a')"
  define c where "c = (if is_command_copy_shortcut e (event_key_char env e) then copy_mouse_selection env a else (False, a))"
  have c: "keeps a (snd c)" by (simp add: c_def copy_mouse_selection_keeps)
  moreover have "keeps (snd c) a'"
    using h c_def [symmetric]
    by (auto simp: handle_app_key_event_def Let_def bind_eq_Some_conv dest: dispatch_app_key_keeps
        intro: keeps_trans [OF dispatch_app_key_keeps forward_key_event_keeps] split: if_splits)
  ultimately show ?thesis by (rule keeps_trans)
qed

lemma inject_key_keeps: "inject_key env ks a = Some a' \<Longrightarrow> keeps a a'"
proof -
  have f: "keeps a (inject_forward env ks k m a)" for k m a
    by (auto simp: inject_forward_def Let_def core_frame intro!: core_eq_keeps split: option.splits)
  show "inject_key env ks a = Some a' \<Longrightarrow> keeps a a'"
    by (auto simp: inject_key_def Let_def prompt_keys_keep intro: handle_command_key_keeps
        intro: keeps_trans [OF handle_key_dispatch_keeps f] handle_key_dispatch_keeps
        split: option.splits prod.splits if_splits)
qed

text \<open>The mouse changes focus, frames and the selection only.\<close>

lemma scroll_to_mouse_y_frame [core_frame, simp]:
  "core (scroll_to_mouse_y env y a) = core a" "app_ready (scroll_to_mouse_y env y a) = app_ready a"
  by (simp_all add: scroll_to_mouse_y_def Let_def core_frame)

lemma drag_scroll_frame:
  "drag_scroll env frame pt a = (s, y, a1) \<Longrightarrow> core a1 = core a \<and> app_ready a1 = app_ready a"
  by (auto simp: drag_scroll_def Let_def core_frame set_offset_def split: if_splits)

lemma drag_autoscroll_frame:
  "drag_autoscroll_selection env pt a = (r, a1) \<Longrightarrow> core a1 = core a \<and> app_ready a1 = app_ready a"
  by (auto simp: drag_autoscroll_selection_def Let_def dest: drag_scroll_frame split: option.splits prod.splits if_splits)

lemma update_mouse_selection_frame:
  "update_mouse_selection env pt a = (r, a1) \<Longrightarrow> core a1 = core a \<and> app_ready a1 = app_ready a"
  by (auto simp: update_mouse_selection_def Let_def split: option.splits prod.splits if_splits)

lemma begin_mouse_selection_frame:
  "begin_mouse_selection env pt a = (r, a1) \<Longrightarrow> core a1 = core a \<and> app_ready a1 = app_ready a"
  by (auto simp: begin_mouse_selection_def clear_mouse_selection_def Let_def split: option.splits prod.splits)

lemma finish_mouse_selection_frame:
  "finish_mouse_selection a = (r, a1) \<Longrightarrow> core a1 = core a \<and> app_ready a1 = app_ready a"
  by (auto simp: finish_mouse_selection_def Let_def split: option.splits if_splits)

lemma send_mouse_frame [core_frame, simp]:
  "core (send_mouse act b a) = core a" "app_ready (send_mouse act b a) = app_ready a"
  by (simp_all add: send_mouse_def core_frame)

lemma left_pressed_keeps: "keeps a (left_pressed env a)"
  by (rule core_keeps)
     (auto simp: left_pressed_def Let_def core_frame ready_intros split: prod.splits option.splits
        dest!: begin_mouse_selection_frame)

lemma mouse_moved_keeps: "keeps a (mouse_moved env a)"
  by (rule core_keeps)
     (auto simp: mouse_moved_def Let_def core_frame ready_intros split: prod.splits option.splits if_splits
        dest!: drag_autoscroll_frame update_mouse_selection_frame)

lemma mouse_released_keeps: "keeps a (mouse_released env b a)"
proof -
  have u: "core (snd (update_mouse_selection env pt a)) = core a \<and> app_ready (snd (update_mouse_selection env pt a)) = app_ready a" for pt
    by (cases "update_mouse_selection env pt a") (auto dest: update_mouse_selection_frame)
  show ?thesis
    by (rule core_keeps)
       (auto simp: mouse_released_def Let_def core_frame u split: prod.splits option.splits if_splits
          dest!: finish_mouse_selection_frame)
qed

lemma handle_mouse_keeps: "handle_mouse env ev a = Some a' \<Longrightarrow> keeps a a'"
proof -
  have moved: "keeps a (mouse_moved env (a\<lparr>ap_mouse := pt\<rparr>))" for pt
    by (rule keeps_trans [OF core_eq_keeps mouse_moved_keeps]) simp_all
  have click: "keeps a (emit [FxStatusClick s c x] (snd (clear_mouse_selection a)))" for s c x
    by (rule core_eq_keeps) (simp_all add: core_frame)
  have pressed: "mouse_pressed env b a = Some a' \<Longrightarrow> keeps a a'" for b
    by (auto simp: mouse_pressed_def left_pressed_keeps core_frame intro: core_eq_keeps
        intro: keeps_trans [OF click status_component_keeps] split: if_splits option.splits)
  have "keeps a (scroll_viewport_lines n a)" "keeps a (scroll_viewport_pixels dy a)" for n dy
    by (auto simp: scroll_viewport_lines_def scroll_viewport_pixels_def Let_def core_frame intro!: core_eq_keeps)
  then show "handle_mouse env ev a = Some a' \<Longrightarrow> keeps a a'"
    by (auto simp: handle_mouse_def moved mouse_released_keeps intro: pressed split: mouse_event.splits)
qed

lemma handle_app_mouse_event_keeps: "handle_app_mouse_event env ev a = Some (r, a') \<Longrightarrow> keeps a a'"
proof -
  have pos: "keeps a (a\<lparr>ap_mouse := pt\<rparr>)" for pt by (rule core_eq_keeps) simp_all
  show "handle_app_mouse_event env ev a = Some (r, a') \<Longrightarrow> keeps a a'"
    by (auto simp: handle_app_mouse_event_def app_mouse_def intro: handle_mouse_keeps keeps_trans [OF pos handle_mouse_keeps]
        split: app_mouse_event.splits)
qed

lemma close_pane_by_id_keeps: "close_pane_by_id env pid a = Some a' \<Longrightarrow> keeps a a'"
proof -
  assume c: "close_pane_by_id env pid a = Some a'"
  have closed: "keeps a1 (handle_surface_closed env (refocus p (map_active_tree f a1)))" for a1 p f
    by (rule keeps_trans [OF pane_ops_keep(9) pane_ops_keep(4)])
  have "app_goto_tab i a = Some a1 \<Longrightarrow> keeps a a1" for i a1
    using app_goto_tab_keeps by (blast intro: core_keeps)
  with c show ?thesis
    by (auto simp: close_pane_by_id_def Let_def bind_eq_Some_conv intro: closed keeps_trans [OF _ closed]
        split: option.splits prod.splits if_splits)
qed

text \<open>A tick changes titles, components, the scrollback, and closes the panes that have ended.\<close>

definition tick_frame :: "bool \<times> app \<Rightarrow> bool \<times> app \<Rightarrow> bool" where
  "tick_frame da da' \<longleftrightarrow> core (snd da') = core (snd da) \<and> (app_ready (snd da) \<longrightarrow> app_ready (snd da'))"

lemma tick_frame_refl: "tick_frame da da"
  by (simp add: tick_frame_def)

lemma tick_frame_trans: "tick_frame a b \<Longrightarrow> tick_frame b c \<Longrightarrow> tick_frame a c"
  by (simp add: tick_frame_def)

lemma set_running_ready: "ready m \<Longrightarrow> ready (snd (set_running_command_for_pane p r m))"
  by (simp add: ready_def set_running_command_for_pane_def Let_def)

lemma tick_parts_frame:
  "tick_frame da (set_running r da)" "tick_frame da (set_status u da)" "tick_frame da (set_pwd d da)"
  "tick_frame da (set_title t da)" "tick_frame da (set_bar b da)"
  by (auto simp: tick_frame_def set_running_def set_status_def set_pwd_def set_title_def set_bar_def core_frame
      app_ready_def set_running_ready layout_ops_ready Let_def split_beta split: option.splits)

lemma tick_fold_frame: "(\<And>x da. tick_frame da (f x da)) \<Longrightarrow> tick_frame da (fold f xs da)"
  by (induction xs arbitrary: da) (simp_all add: tick_frame_refl, blast intro: tick_frame_trans)

lemma handle_command_finished_frame:
  "core (fold handle_command_finished es a) = core a" "app_ready (fold handle_command_finished es a) = app_ready a"
proof -
  have "core (handle_command_finished e a) = core a" "app_ready (handle_command_finished e a) = app_ready a" for e a
    by (simp_all add: handle_command_finished_def core_frame split: option.splits prod.splits)
  then show "core (fold handle_command_finished es a) = core a" "app_ready (fold handle_command_finished es a) = app_ready a"
    by (induction es arbitrary: a) simp_all
qed

lemma tick_frame_keeps: "tick_frame da da' \<Longrightarrow> keeps (snd da) (snd da')"
  by (auto simp: tick_frame_def intro: core_keeps)

lemma close_exited_keeps: "close_exited env pids da = Some da' \<Longrightarrow> keeps (snd da) (snd da')"
proof (induction pids arbitrary: da)
  case (Cons pid pids)
  let ?a = "(snd da)\<lparr>ap_status := snd (store_clear (osc_source_for_pane pid) None (ap_status (snd da)))\<rparr>"
  from Cons.prems obtain a1 where c: "close_pane_by_id env pid ?a = Some a1" and r: "close_exited env pids (True, a1) = Some da'"
    by (auto simp: bind_eq_Some_conv Let_def)
  have "keeps (snd da) ?a" by (rule core_eq_keeps) simp_all
  also have "keeps ?a a1" by (rule close_pane_by_id_keeps [OF c])
  also have "keeps a1 (snd da')" using Cons.IH [OF r] by simp
  finally show ?case .
qed simp

lemma poll_backend_keeps: "poll_backend env a = Some (d, a') \<Longrightarrow> keeps a a'"
proof -
  assume p: "poll_backend env a = Some (d, a')"
  define poll where "poll = backend_poll env (active_pane_ids a) (focused_id_of a)"
  define da1 where "da1 = fold set_running (running_updates (active_pane_ids a) poll) (bp_dirty poll, a)"
  define a2 where "a2 = fold handle_command_finished (bp_finished poll) (snd da1)"
  define da3 where "da3 = fold set_status (bp_status poll) (fst da1, a2)"
  define a4 where "a4 = (if ns_desktop (ap_notify (snd da3)) then emit (map (case_prod FxNotify) (bp_notes poll)) (snd da3) else snd da3)"
  have closed: "close_exited env (bp_exited poll)
      (set_bar (bp_bar poll) (set_title (bp_title poll) (set_pwd (bp_pwd poll) (fst da3, a4)))) = Some (d, a')"
    using p unfolding poll_backend_def Let_def poll_def da1_def a2_def da3_def a4_def by assumption
  have "keeps a (snd da1)"
    using tick_frame_keeps [OF tick_fold_frame [where f = set_running and da = "(bp_dirty poll, a)"]]
    by (simp add: da1_def tick_parts_frame)
  also have "keeps (snd da1) a2" by (rule core_eq_keeps) (simp_all add: a2_def handle_command_finished_frame)
  also have "keeps a2 (snd da3)"
    using tick_frame_keeps [OF tick_fold_frame [where f = set_status and da = "(fst da1, a2)"]]
    by (simp add: da3_def tick_parts_frame)
  also have "keeps (snd da3) a4"
  proof -
    have "FxReloadConfig \<notin> set (map (case_prod FxNotify) ns)" for ns by auto
    then show ?thesis by (intro core_eq_keeps) (simp_all add: a4_def core_frame)
  qed
  also have "keeps a4 (snd (set_bar (bp_bar poll) (set_title (bp_title poll) (set_pwd (bp_pwd poll) (fst da3, a4)))))"
    using tick_frame_keeps [OF tick_frame_trans [OF tick_frame_trans [OF tick_parts_frame(3) tick_parts_frame(4)] tick_parts_frame(5)]]
    by (metis snd_conv)
  also have "keeps (snd (set_bar (bp_bar poll) (set_title (bp_title poll) (set_pwd (bp_pwd poll) (fst da3, a4))))) a'"
    using close_exited_keeps [OF closed] by simp
  finally show ?thesis .
qed

lemma add_initial_tab_ready: "ready m \<Longrightarrow> ready (add_initial_tab p m)"
  by (auto simp: ready_def add_initial_tab_def allocate_tab_id_def)

lemma open_first_pane_keeps: "open_first_pane env a = Some a' \<Longrightarrow> keeps a a'"
proof (cases "create_pane a")
  case (Pair created a1)
  assume o: "open_first_pane env a = Some a'"
  show ?thesis
  proof (cases created)
    case None
    with o Pair create_pane_eq [OF Pair] show ?thesis
      by (auto simp: open_first_pane_def app_ready_def intro: core_keeps)
  next
    case (Some p)
    define a2 where "a2 w h = emit [FxFocus p True, FxResize p w h]
      (a1\<lparr>ap_tabs := add_initial_tab p (ap_tabs a1), ap_initialized := True\<rparr>)" for w h
    have "keeps a (a2 w h)" for w h
      using create_pane_eq [OF Pair]
      by (auto simp: a2_def core_frame app_ready_def add_initial_tab_ready intro!: core_keeps)
    with o Pair Some show ?thesis
      by (auto simp: open_first_pane_def Let_def a2_def [symmetric] split_beta split: option.splits
          intro: keeps_trans [OF _ command_load_layout_keeps])
  qed
qed

lemma init_surface_keeps:
  assumes "init_surface env a = Some a'"
  shows "keeps a a'"
proof -
  have size: "keeps a (a\<lparr>ap_width := w, ap_height := h\<rparr>)" for w h by (rule core_eq_keeps) simp_all
  with assms show ?thesis
    by (auto simp: init_surface_def Let_def split: if_splits option.splits intro: keeps_trans [OF size open_first_pane_keeps])
qed

section \<open>Runs\<close>

text \<open>What reaches the application: key events, text and mouse events of clients, the keys and commands of
  the control socket, text composition, the events of the window, and the ticks of the main loop.\<close>

datatype app_input =
    InKey app_key_event
  | InText str
  | InMouse app_mouse_event
  | InControlKey str
  | InCommand str
  | InTextEvent text_input_event
  | InWindow window_event
  | InTick

definition app_step :: "app_env \<Rightarrow> app_input \<Rightarrow> app \<Rightarrow> app option" where
  "app_step env i a = (case i of
     InKey e \<Rightarrow> map_option snd (handle_app_key_event env e a)
   | InText t \<Rightarrow> handle_committed_text env t a
   | InMouse ev \<Rightarrow> map_option snd (handle_app_mouse_event env ev a)
   | InControlKey ks \<Rightarrow> inject_key env ks a
   | InCommand line \<Rightarrow> execute_command env line a
   | InTextEvent ev \<Rightarrow> handle_text_input env ev a
   | InWindow ev \<Rightarrow> handle_window env ev a
   | InTick \<Rightarrow> Option.bind (poll_backend env a) (\<lambda>r. if tabs (ap_tabs (snd r)) = [] then update_without_tabs env (snd r) else Some (snd r)))"

lemma handle_text_input_keeps: "handle_text_input env ev a = Some a' \<Longrightarrow> keeps a a'"
proof -
  have pre: "keeps a (a\<lparr>ap_preedit := t\<rparr>)" for t by (rule core_eq_keeps) simp_all
  have "keeps a (forward_text_input_command c a)" for c
    by (rule core_eq_keeps) (simp_all add: forward_text_input_command_def Let_def split_beta core_frame)
  with pre show "handle_text_input env ev a = Some a' \<Longrightarrow> keeps a a'"
    by (auto simp: handle_text_input_def intro: keeps_trans [OF pre handle_committed_text_keeps] split: text_input_event.splits)
qed

lemma handle_window_keeps: "handle_window env ev a = Some a' \<Longrightarrow> keeps a a'"
  using goto_tab_ready [OF tabs_of_ready]
  by (auto simp: handle_window_def handle_resize_def core_frame Let_def intro!: core_keeps split: window_event.splits)

lemma app_step_keeps:
  assumes "app_step env i a = Some a'"
  shows "keeps a a'"
proof (cases i)
  case InTick
  with assms obtain r where p: "poll_backend env a = Some r"
    and u: "(if tabs (ap_tabs (snd r)) = [] then update_without_tabs env (snd r) else Some (snd r)) = Some a'"
    by (cases "poll_backend env a") (simp_all add: app_step_def)
  have "keeps a (snd r)" using poll_backend_keeps [of env a "fst r" "snd r"] p by simp
  moreover have "keeps (snd r) a'" using u by (auto simp: update_without_tabs_def intro: init_surface_keeps split: if_splits)
  ultimately show ?thesis by (rule keeps_trans)
qed (use assms in \<open>auto simp: app_step_def intro: handle_app_key_event_keeps handle_committed_text_keeps
      handle_app_mouse_event_keeps inject_key_keeps execute_command_keeps handle_text_input_keeps handle_window_keeps\<close>)

text \<open>The state after a sequence of inputs, each with what the application reads meanwhile.\<close>

inductive app_reaches :: "app \<Rightarrow> app \<Rightarrow> bool" for a where
  start: "app_reaches a a"
| step: "app_reaches a b \<Longrightarrow> app_step env i b = Some c \<Longrightarrow> app_reaches a c"

lemma app_reaches_keeps: "app_reaches a b \<Longrightarrow> keeps a b"
  by (induction rule: app_reaches.induct) (auto intro: keeps_trans app_step_keeps)

end
