(* ===== verification/AppTheorems.thy ===== *)
theory AppTheorems
  imports AppProps
begin

text \<open>
  The properties of the application: what holds in every state that input leads to, what the keys of a client
  can do, and where the handling of input goes wrong.
\<close>

section \<open>An environment\<close>

text \<open>A daemon without a window on Linux, with one screen for every pane, an empty clipboard, no files and no
  configuration; characters are ASCII.\<close>

definition plain_env :: "terminal_snapshot \<Rightarrow> app_env" where
  "plain_env screen =
     \<lparr>env_keys = linux_keys, env_headless = True, env_snapshot = (\<lambda>_. Some screen), env_clipboard = None,
      env_bar_height = 16, env_segment_width = (\<lambda>s. 8 * real (length s)), env_scale = 1, env_view_bounds = None,
      env_alnum = (\<lambda>ch. ch \<in> (\<lambda>c. [c]) ` set ''abcdefghijklmnopqrstuvwxyz0123456789''),
      env_lower = to_ascii_lowercase, env_hyperlink = (\<lambda>_ _ _. None), env_updates = (\<lambda>_. None),
      env_startup_layout = None, env_layout_files = (\<lambda>_. None), env_home = None, env_single_char = [],
      env_config = (None, [])\<rparr>"

definition plain_app :: "terminal_snapshot \<Rightarrow> app" where
  "plain_app screen =
     app_new (plain_env screen) (8, 16) \<lparr>ns_desktop = False, ns_on_finish = NotifyNever,
       ns_action = \<lparr>na_bell = False, na_notify = False\<rparr>, ns_after_ns = 0\<rparr> []"

section \<open>The invariant\<close>

lemma from_config_mode: "bd_mode (from_config single_char prefix kbs) = ModeNormal"
proof -
  have "bd_mode (add_binding single_char entry b) = bd_mode b" for entry b
    by (simp add: add_binding_def add_trigger_def split: prod.splits option.splits)
  then have "bd_mode (fold (add_binding single_char) kbs b) = bd_mode b" for b
    by (induction kbs arbitrary: b) simp_all
  then show ?thesis by (simp add: from_config_def bindings_start_def)
qed

lemma app_new_invariant:
  "app_sound (app_new env cells notify created)" "app_synced (app_new env cells notify created)"
  by (simp_all add: app_new_def app_sound_def app_synced_def sound_core_def synced_core_def core_def paste_ok_def
      no_jump_def app_ready_def ready_def tabs_new_def prompt_wf_new is_copy_mode_def from_config_mode)

lemma reachable_invariant:
  assumes "app_reaches (app_new env cells notify created) a"
  shows "app_sound a" "app_synced a"
  using app_reaches_keeps [OF assms] app_new_invariant by (simp_all add: keeps_def)

text \<open>In every state of the daemon's application that keys, text, mouse events, control commands, window
  events and ticks lead to, the command prompt's indices are valid, there are at most 32 paste buffers, all
  different and none empty, the active tab exists when there are tabs, and as long as the configuration has
  not been read again the key bindings are in copy mode exactly when the application has a copy mode
  state.\<close>

theorem app_invariant:
  assumes "app_reaches (app_new env cells notify created) a"
  shows "prompt_wf (ap_prompt a) \<and>
    length (ap_paste_buffers a) \<le> 32 \<and> distinct (ap_paste_buffers a) \<and> [] \<notin> set (ap_paste_buffers a) \<and>
    (tabs (ap_tabs a) = [] \<or> active (ap_tabs a) < length (tabs (ap_tabs a))) \<and>
    (FxReloadConfig \<in> set (ap_effects a) \<or> (is_copy_mode (ap_bindings a) \<longleftrightarrow> ap_copy_mode a \<noteq> None))"
  using reachable_invariant [OF assms]
  by (auto simp: app_sound_def app_synced_def sound_core_def synced_core_def core_def paste_ok_def app_ready_def ready_def)

text \<open>The command prompt, opened from the control socket.\<close>

lemma split_command: "split_whitespace ''command-prompt'' = [''command-prompt'']"
  by code_simp

lemma app_invariant_witness:
  "prompt_wf (ap_prompt (prompt_with (plain_env (plain_screen [''a''])) [] (plain_app (plain_screen [''a'']))))"
proof -
  let ?env = "plain_env (plain_screen [''a''])" and ?a = "plain_app (plain_screen [''a''])"
  have "execute_command ?env ''command-prompt'' ?a = Some (prompt_with ?env [] ?a)"
    by (simp add: execute_command_def split_command run_command_def command_action_def plain_commands_def
        dispatch_binding_action_def dispatch_layout_action_def)
  then have "app_step ?env (InCommand ''command-prompt'') ?a = Some (prompt_with ?env [] ?a)"
    by (simp add: app_step_def)
  from app_reaches.step [OF app_reaches.start this]
  show ?thesis unfolding plain_app_def using app_invariant by blast
qed

section \<open>Keys of clients\<close>

text \<open>A key of a client is a character or one of nine named keys: never Enter, Backspace or Tab.\<close>

lemma event_key_cases:
  "event_keyboard_key env e \<noteq> TkNamed TkEnter" "event_keyboard_key env e \<noteq> TkNamed TkBackspace"
  "event_keyboard_key env e \<noteq> TkNamed TkTab"
  "event_keyboard_key env e = TkNamed TkEscape \<longleftrightarrow> ke_named e = Some NEscape"
  by (auto simp: event_keyboard_key_def named_toolkit_def split: option.splits named_key.splits)

lemma copy_mouse_selection_misses: "\<not> fst (copy_mouse_selection env a) \<Longrightarrow> copy_mouse_selection env a = (False, a)"
  by (auto simp: copy_mouse_selection_def split: option.splits if_splits)

text \<open>A key that does not copy the mouse selection is dispatched in the state it meets.\<close>

lemma handle_app_key_event_dispatch:
  assumes "fst (copy_mouse_selection env a) \<longrightarrow> \<not> is_command_copy_shortcut e (event_key_char env e)"
  shows "handle_app_key_event env e a = Option.bind (dispatch_app_key env e a) (\<lambda>(consumed, a1).
    if consumed then Some (True, a1) else map_option (Pair False) (forward_key_event env e a1))"
  using assms copy_mouse_selection_misses [of env a] by (auto simp: handle_app_key_event_def Let_def)

lemma prompt_key_client:
  assumes "prompt_wf p" and "key \<notin> {TkNamed TkEnter, TkNamed TkBackspace, TkNamed TkTab}"
  shows "\<exists>p'. prompt_key lower key typed control p = Some (p', None) \<and> cp_history p' = cp_history p \<and>
    cp_active p' = (cp_active p \<and> key \<noteq> TkNamed TkEscape)"
proof -
  have up: "history_entry p (case cp_history_idx p of Some i \<Rightarrow> i - 1 | None \<Rightarrow> length (cp_history p) - 1) \<noteq> None"
    if "cp_history p \<noteq> []"
    using history_up_safe [OF assms(1) that] by auto
  have entry: "cp_history p' = cp_history p \<and> cp_active p' = cp_active p" if "history_entry p i = Some p'" for i p'
    using that by (auto simp: history_entry_def split: if_splits)
  have lower: "cp_history (update_suggestions lower q) = cp_history q" "cp_active (update_suggestions lower q) = cp_active q" for q
    by (simp_all add: update_suggestions_def)
  show ?thesis
    using assms(2) up
    by (cases key; (cases "case key of TkNamed n \<Rightarrow> n | _ \<Rightarrow> TkOther")?)
       (auto simp: prompt_key_def lower history_entry_def dest!: entry split: option.splits if_splits)
qed

text \<open>C14: While the command prompt is open and has the keyboard - no window finder, tree of panes, buffer list
  or overlay of pane numbers is shown over it - no key event of a client runs a command, unless there is a
  mouse selection and the keys are those that copy it: every one is consumed, only the prompt changes, its
  history stays as it is, and it closes on Escape alone. Enter, Backspace and Tab are not among the keys
  that a client's event can carry, so a line typed in a client is never submitted.\<close>

theorem client_keys_never_submit:
  assumes "prompt_wf (ap_prompt a)" and "cp_active (ap_prompt a)"
    and "\<not> ap_find_window a" and "\<not> ap_choose_tree a" and "\<not> ap_choose_buffer a" and "\<not> ap_display_panes a"
    and "ap_selection a = None \<or> \<not> is_command_copy_shortcut e (event_key_char env e)"
  shows "\<exists>p. handle_app_key_event env e a = Some (True, a\<lparr>ap_prompt := p\<rparr>) \<and>
    cp_history p = cp_history (ap_prompt a) \<and> cp_active p = (ke_named e \<noteq> Some NEscape)"
proof -
  let ?m = "ghostty_mods_to_iced (ke_mods e)" and ?typed = "or_else (ke_text e) (event_key_char env e)"
  obtain p where p: "prompt_key (env_lower env) (event_keyboard_key env e) ?typed (md_control ?m) (ap_prompt a) = Some (p, None)"
    and "cp_history p = cp_history (ap_prompt a)" "cp_active p = (ke_named e \<noteq> Some NEscape)"
    using prompt_key_client [OF assms(1), of "event_keyboard_key env e" "env_lower env" ?typed "md_control ?m"] assms(2)
    by (auto simp: event_key_cases)
  moreover have "fst (copy_mouse_selection env a) \<longrightarrow> \<not> is_command_copy_shortcut e (event_key_char env e)"
    using assms(7) by (auto simp: copy_mouse_selection_def)
  note dispatched = handle_app_key_event_dispatch [OF this]
  have "handle_app_key_event env e a = Some (True, a\<lparr>ap_prompt := p\<rparr>)"
    using assms(2-6) p by (simp add: dispatched dispatch_app_key_def handle_command_key_def Let_def)
  ultimately show ?thesis by blast
qed

definition plain_key :: "str \<Rightarrow> app_key_event" where
  "plain_key t = \<lparr>ke_keycode = 0, ke_mods = 0, ke_text = Some t, ke_modified_text = None, ke_named = None,
     ke_repeat = False, ke_input_seq = None\<rparr>"

lemma client_keys_never_submit_witness:
  "let env = plain_env (plain_screen [''a'']); a = prompt_with env ''new-tab'' (plain_app (plain_screen [''a'']))
   in \<exists>p. handle_app_key_event env (plain_key [cr]) a = Some (True, a\<lparr>ap_prompt := p\<rparr>) \<and> cp_history p = [] \<and> cp_active p"
proof -
  let ?env = "plain_env (plain_screen [''a''])"
  let ?a = "prompt_with ?env ''new-tab'' (plain_app (plain_screen [''a'']))"
  have "prompt_wf (ap_prompt ?a)" by (simp add: prompt_with_def opened_prompt_wf)
  then show ?thesis
    using client_keys_never_submit [where a = ?a and env = ?env and e = "plain_key [cr]"]
    by (simp add: prompt_with_def open_prompt_def update_suggestions_def plain_app_def app_new_def prompt_new_def
        plain_key_def Let_def)
qed

text \<open>The only panic that a key of a client can cause.\<close>

lemma handle_key_copy_cases:
  "handle_key kc keycode mods named b = (CopyModeResult action, b') \<Longrightarrow> is_copy_mode b"
  "handle_key kc keycode mods named b = (Forward, b') \<Longrightarrow> bd_mode b' = ModeNormal"
  by (auto simp: handle_key_def handle_copy_mode_key_def is_copy_mode_def Let_def
      split: mode.splits option.splits if_splits)

lemma forward_key_event_total:
  assumes "bd_mode (ap_bindings a) = ModeNormal" "\<not> cp_active (ap_prompt a)"
  shows "forward_key_event env e a \<noteq> None"
  using assms
  by (auto simp: forward_key_event_def handle_committed_text_def clear_mouse_selection_def Let_def
      is_prefix_mode_def is_copy_mode_def split: option.splits list.splits)

lemma clear_pending_jump_line:
  "read_line_for_cursor env (clear_pending_jump action a) = read_line_for_cursor env a"
  "map_option cm_cursor_col (ap_copy_mode (clear_pending_jump action a)) = map_option cm_cursor_col (ap_copy_mode a)"
  by (auto simp: clear_pending_jump_def map_copy_mode_def read_line_for_cursor_def read_viewport_line_def
      read_surface_selection_text_def app_focused_def option.map_comp comp_def split: option.splits)

lemma consumed_total [simp]:
  "Option.bind (map_option (Pair True) r) (\<lambda>(consumed, a1). if consumed then Some (True, a1) else f a1) = None \<longleftrightarrow> r = None"
  by (cases r) simp_all

text \<open>C18: One key panics. In a sound state the only key event of a client that makes the application panic is
  the one for a step to the previous word, of either kind, in copy mode, met while the cursor is beyond
  the end of its line's text: the step indexes the line at the cursor. (Rows are unbounded integers here;
  a row that leaves 64 bits, where a debug build panics, is out of scope.)\<close>

theorem word_back_panics:
  assumes "app_sound a" and "handle_app_key_event env e a = None"
  shows "is_copy_mode (ap_bindings a) \<and>
    fst (handle_key (event_key_char env e) (ke_keycode e) (ke_mods e) (ke_named e) (ap_bindings a))
      \<in> {CopyModeResult WordBack, CopyModeResult BigWordBack} \<and>
    (\<exists>line cm. read_line_for_cursor env a = Some line \<and> ap_copy_mode a = Some cm \<and>
      length (str_chars line) < cm_cursor_col cm)"
proof -
  from assms(1) have r: "app_ready a" and wf: "prompt_wf (ap_prompt a)"
    by (simp_all add: app_sound_def sound_core_def core_def)
  have misses: "fst (copy_mouse_selection env a) \<longrightarrow> \<not> is_command_copy_shortcut e (event_key_char env e)"
    using assms(2) by (auto simp: handle_app_key_event_def Let_def)
  obtain result b where k: "handle_key (event_key_char env e) (ke_keycode e) (ke_mods e) (ke_named e) (ap_bindings a) = (result, b)"
    by fastforce
  let ?b = "a\<lparr>ap_bindings := b\<rparr>"
  have prompt: "handle_command_key env (event_keyboard_key env e) typed m a \<noteq> None" for typed m
    using prompt_key_client [OF wf, of "event_keyboard_key env e" "env_lower env" typed "md_control m"]
    by (auto simp: handle_command_key_def event_key_cases Let_def)
  have pickers: "handle_find_window_key env key kc a \<noteq> None" "handle_choose_tree_key env key kc a \<noteq> None" for key kc
    using find_window_key_harmless choose_tree_key_harmless r by (auto simp: harmless_def)
  have quiet: "\<not> ap_find_window a \<and> \<not> ap_choose_tree a \<and> \<not> ap_choose_buffer a \<and> \<not> ap_display_panes a \<and>
      \<not> cp_active (ap_prompt a) \<and> \<not> ap_search_active a"
    using assms(2) prompt pickers
    by (simp add: handle_app_key_event_dispatch [OF misses] dispatch_app_key_def Let_def split: if_splits del: not_None_eq)
  have "handle_app_key_event env e a = Option.bind (dispatch_binding_result env result ?b) (\<lambda>(consumed, a1).
      if consumed then Some (True, a1) else map_option (Pair False) (forward_key_event env e a1))"
    using quiet k by (simp add: handle_app_key_event_dispatch [OF misses] dispatch_app_key_def Let_def)
  then have stuck: "\<dots> = None" using assms(2) by simp
  show ?thesis
  proof (cases result)
    case Forward
    with stuck k quiet show ?thesis
      using handle_key_copy_cases(2) [of _ _ _ _ _ b] forward_key_event_total [of ?b env e]
      by (simp add: dispatch_binding_result_def)
  next
    case (Consumed act)
    with stuck r dispatch_binding_action_total [of ?b env] show ?thesis
      by (cases act) (auto simp: dispatch_binding_result_def)
  next
    case (CopyModeResult action)
    with stuck have "copy_mode_action env action (clear_pending_jump action ?b) = None"
      by (simp add: dispatch_binding_result_def dispatch_copy_mode_action_def)
    then obtain line cm where "read_line_for_cursor env ?b = Some line" and w: "action \<in> {WordBack, BigWordBack}"
      "ap_copy_mode (clear_pending_jump action ?b) = Some cm" "length (str_chars line) < cm_cursor_col cm"
      using copy_mode_action_panic by (metis clear_pending_jump_line(1))
    then have "\<exists>line cm. read_line_for_cursor env a = Some line \<and> ap_copy_mode a = Some cm \<and>
        length (str_chars line) < cm_cursor_col cm"
      using clear_pending_jump_line(2) [of action ?b]
      by (auto simp: read_line_for_cursor_def read_viewport_line_def read_surface_selection_text_def app_focused_def
          split: option.splits)
    with w(1) show ?thesis using handle_key_copy_cases(1) k CopyModeResult by auto
  qed
qed

text \<open>The row \<open>a\<close> of a screen of eight columns, with the cursor where the end of line motion puts it.\<close>

definition line_end_app :: "terminal_snapshot \<Rightarrow> app" where
  "line_end_app screen = (plain_app screen)\<lparr>ap_bindings := enter_copy_mode (ap_bindings (plain_app screen)),
     ap_copy_mode := Some \<lparr>cm_cursor_row = 0, cm_cursor_col = 7, cm_selection = SelNone, cm_sel_anchor = None,
       cm_cell_width = 8, cm_cell_height = 16, cm_viewport_rows = 1, cm_viewport_cols = 8, cm_mark = None,
       cm_last_jump = None, cm_last_search_forward = True, cm_pending_jump = None, cm_show_position = False\<rparr>\<rparr>"

lemma plain_app_sound: "app_sound (plain_app screen)"
  by (simp add: plain_app_def app_new_invariant)

lemma line_end_sound: "app_sound (line_end_app screen)"
  using plain_app_sound [of screen] by (simp add: line_end_app_def app_sound_def sound_core_def core_def no_jump_def)

lemma line_end_text:
  "read_line_for_cursor (plain_env (plain_screen [''a       ''])) (line_end_app (plain_screen [''a       ''])) = Some ''a''"
proof -
  have "row_text (map plain_cell ''a       '') 0 7 False = ''a''"
    by (subst plain_row_text) (simp_all add: trim_end_spaces_def)
  then show ?thesis
    by (simp add: read_line_for_cursor_def read_viewport_line_def read_surface_selection_text_def line_end_app_def
        plain_app_def app_new_def plain_env_def selection_text_def plain_screen_def viewport_row_def join_lines_def)
qed

lemma line_end_back_panics:
  "handle_app_key_event (plain_env (plain_screen [''a       ''])) (plain_key ''b'') (line_end_app (plain_screen [''a       ''])) = None"
proof -
  let ?env = "plain_env (plain_screen [''a       ''])" and ?a = "line_end_app (plain_screen [''a       ''])"
  have b: "handle_key (event_key_char ?env (plain_key ''b'')) 0 0 None (ap_bindings ?a) = (CopyModeResult WordBack, ap_bindings ?a)"
    by (simp add: event_key_char_def key_table_char_def shifted_char_def plain_env_def linux_keys_def shifted_codepoint_vt_def
        shifted_lookup_def shifted_table_vt_def plain_key_def first_char_def or_else_def handle_key_def handle_copy_mode_key_def
        line_end_app_def enter_copy_mode_def char_copy_actions_def has_mod_def leaves_copy_mode_def)
  have "word_column (env_alnum ?env) PrevWord (str_chars ''a'') 7 = None"
    by (simp add: word_column_def prev_word_def)
  then have "copy_mode_action ?env WordBack ?a = None"
    by (simp add: copy_mode_action_def copy_mode_command_def copy_mode_word_move_def line_end_text) (simp add: line_end_app_def)
  moreover have "clear_pending_jump WordBack ?a = ?a" by (simp add: clear_pending_jump_def line_end_app_def)
  ultimately have "dispatch_binding_result ?env (CopyModeResult WordBack) ?a = None"
    by (simp add: dispatch_binding_result_def dispatch_copy_mode_action_def)
  moreover have "dispatch_app_key ?env (plain_key ''b'') ?a = dispatch_binding_result ?env (CopyModeResult WordBack) ?a"
    using b by (simp add: dispatch_app_key_def plain_key_def line_end_app_def plain_app_def app_new_def prompt_new_def Let_def)
  moreover have "copy_mouse_selection ?env ?a = (False, ?a)"
    by (simp add: copy_mouse_selection_def line_end_app_def plain_app_def app_new_def)
  ultimately show ?thesis by (simp add: handle_app_key_event_dispatch)
qed

lemma word_back_panics_witness:
  "let env = plain_env (plain_screen [''a       '']); a = line_end_app (plain_screen [''a       ''])
   in handle_app_key_event env (plain_key ''b'') a = None \<and>
      (\<exists>line cm. read_line_for_cursor env a = Some line \<and> ap_copy_mode a = Some cm \<and> length (str_chars line) < cm_cursor_col cm)"
  using word_back_panics [OF line_end_sound line_end_back_panics] line_end_back_panics by (simp add: Let_def)

section \<open>Copy mode\<close>

text \<open>Entering copy mode puts the cursor at the row of the terminal's cursor plus twice the offset of the
  view: the position of the cursor already counts the rows above the view, and they are added once more.\<close>

theorem copy_mode_starts_off:
  assumes "env_snapshot env (focused_id_of a) = Some snap"
  shows "\<exists>cm. ap_copy_mode (app_enter_copy_mode env a) = Some cm \<and>
    cm_cursor_row cm = int (unat (cu_y (ts_cursor snap))) + 2 * int (vb_offset (ap_bar a)) \<and>
    is_copy_mode (ap_bindings (app_enter_copy_mode env a))"
  using assms
  by (simp add: app_enter_copy_mode_def focused_cursor_cell_position_def update_copy_mode_highlight_def emit_def
      is_copy_mode_def enter_copy_mode_def Let_def)

lemma copy_mode_starts_off_witness:
  "\<exists>cm. ap_copy_mode (app_enter_copy_mode (plain_env (plain_screen [''a'']))
      ((plain_app (plain_screen [''a'']))\<lparr>ap_bar := \<lparr>vb_total = 31, vb_offset = 30, vb_len = 1\<rparr>\<rparr>)) = Some cm \<and>
    cm_cursor_row cm = 60"
  using copy_mode_starts_off [of "plain_env (plain_screen [''a''])"
      "(plain_app (plain_screen [''a'']))\<lparr>ap_bar := \<lparr>vb_total = 31, vb_offset = 30, vb_len = 1\<rparr>\<rparr>" "plain_screen [''a'']"]
  by (auto simp: plain_env_def plain_screen_def)

text \<open>Without a last jump the actions for a jump, and for repeating one, change the pending mark only, and
  what is pending makes no difference to any action.\<close>

lemma jump_actions:
  assumes "ap_copy_mode a = Some cm" and "cm_last_jump cm = None"
    and "action \<in> {JumpForward, JumpBackward, JumpToForward, JumpToBackward, JumpAgain, JumpReverse}"
  shows "\<exists>pending. dispatch_copy_mode_action env action a = Some (a\<lparr>ap_copy_mode := Some (cm\<lparr>cm_pending_jump := pending\<rparr>)\<rparr>)"
proof -
  have "a\<lparr>ap_copy_mode := Some cm\<rparr> = a" using assms(1) by simp
  moreover have "cm\<lparr>cm_pending_jump := None\<rparr> = cm" if "cm_pending_jump cm = None" using that by simp
  ultimately have "dispatch_copy_mode_action env action a = Some (a\<lparr>ap_copy_mode := Some (cm\<lparr>cm_pending_jump :=
      (if action = JumpForward then Some JForward else if action = JumpBackward then Some JBackward
       else if action = JumpToForward then Some JToForward else if action = JumpToBackward then Some JToBackward else None)\<rparr>)\<rparr>)"
    using assms
    by (elim insertE emptyE)
       (simp_all add: dispatch_copy_mode_action_def clear_pending_jump_def copy_mode_action_def copy_mode_command_def set_pending_jump_def
        copy_mode_jump_repeat_def map_copy_mode_def is_jump_action_def Let_def)
  then show ?thesis by blast
qed

lemma pending_irrelevant:
  assumes "ap_copy_mode a = Some cm"
  shows "dispatch_copy_mode_action env action (a\<lparr>ap_copy_mode := Some (cm\<lparr>cm_pending_jump := p\<rparr>)\<rparr>)
    = dispatch_copy_mode_action env action a"
proof (cases "is_jump_action action")
  case True
  then show ?thesis
    using assms by (auto simp: is_jump_action_def dispatch_copy_mode_action_def clear_pending_jump_def copy_mode_action_def
        copy_mode_command_def set_pending_jump_def map_copy_mode_def Let_def)
next
  case False
  have same: "a\<lparr>ap_copy_mode := Some (cm\<lparr>cm_pending_jump := None\<rparr>)\<rparr> = a" if "cm_pending_jump cm = None"
    using that assms by simp
  have cleared: "clear_pending_jump action (a\<lparr>ap_copy_mode := Some (cm\<lparr>cm_pending_jump := q\<rparr>)\<rparr>)
      = a\<lparr>ap_copy_mode := Some (cm\<lparr>cm_pending_jump := None\<rparr>)\<rparr>" for q
    using False by (cases q) (simp_all add: clear_pending_jump_def map_copy_mode_def)
  have "a\<lparr>ap_copy_mode := Some (cm\<lparr>cm_pending_jump := cm_pending_jump cm\<rparr>)\<rparr> = a" using assms by simp
  with cleared [of "cm_pending_jump cm"] cleared [of p] show ?thesis by (simp add: dispatch_copy_mode_action_def)
qed

lemma split_copy_mode: "split_whitespace ''copy-mode'' = [''copy-mode'']"
  by code_simp

text \<open>Reading the configuration again while in copy mode takes the bindings out of copy mode and leaves
  the application in it: the copy mode state and the highlight stay, while the next key is handled as in
  normal mode.\<close>

theorem reload_splits_copy_mode:
  assumes "ap_copy_mode a \<noteq> None"
  shows "\<exists>a'. dispatch_binding_action env ActReloadConfig a = Some a' \<and> ap_copy_mode a' = ap_copy_mode a \<and>
    \<not> is_copy_mode (ap_bindings a') \<and> \<not> (is_copy_mode (ap_bindings a') \<longleftrightarrow> ap_copy_mode a' \<noteq> None)"
proof -
  have "core (reload_config env a) = (let (_, cm, p, ps, _) = core a
      in (from_config (env_single_char env) (fst (env_config env)) (snd (env_config env)), cm, p, ps, True))"
    by (simp add: reload_config_def core_frame) (simp add: core_def emit_def)
  then show ?thesis
    using assms by (simp add: dispatch_binding_action_def dispatch_layout_action_def core_def is_copy_mode_def from_config_mode)
qed

lemma reload_splits_copy_mode_witness:
  "\<exists>a'. dispatch_binding_action (plain_env (plain_screen [''a''])) ActReloadConfig (line_end_app (plain_screen [''a''])) = Some a' \<and>
    ap_copy_mode a' \<noteq> None \<and> \<not> is_copy_mode (ap_bindings a')"
  using reload_splits_copy_mode [of "line_end_app (plain_screen [''a''])" "plain_env (plain_screen [''a''])"]
  by (auto simp: line_end_app_def)

section \<open>Search\<close>

text \<open>A search never reaches the terminal: typing, correcting or submitting a query changes the shown query
  only, and sends nothing, because the backend does not know the names of the search actions; leaving the
  search gives the row of the search bar back to the panes.\<close>

theorem search_is_silent:
  assumes "key \<noteq> TkNamed TkEscape"
  shows "handle_search_key env key typed m a = a\<lparr>ap_search_query :=
    (if key = TkNamed TkEnter then ap_search_query a
     else if key = TkNamed TkBackspace then pop_char (ap_search_query a)
     else ap_search_query a @ (case typed of Some t \<Rightarrow> printable t | None \<Rightarrow> []))\<rparr>"
proof -
  have quiet: "send_search env b = b" "ghostty_binding_action env ''navigate_search:next'' b = b"
    "ghostty_binding_action env ''navigate_search:previous'' b = b" for b
    by (simp_all add: send_search_def ghostty_binding_action_def binding_action_def emit_def)
  show ?thesis
    using assms by (simp add: handle_search_key_def quiet split: toolkit_key.splits named_toolkit_key.splits option.splits)
qed

lemma search_is_silent_witness:
  "handle_search_key (plain_env (plain_screen [''a''])) (TkNamed TkEnter) None no_modifiers
     ((plain_app (plain_screen [''a'']))\<lparr>ap_search_active := True, ap_search_query := ''a''\<rparr>) =
   (plain_app (plain_screen [''a'']))\<lparr>ap_search_active := True, ap_search_query := ''a''\<rparr>"
  using search_is_silent [of "TkNamed TkEnter"] by simp

section \<open>Commands\<close>

text \<open>A command that is not in the table of the prompt's palette is one of the four scroll commands or, in
  copy mode, the number of a line; any other line does nothing.\<close>

theorem commands_outside_palette:
  assumes "cmd \<notin> cd_name ` set COMMANDS"
  shows "run_command env cmd args a = Some (case map_of scroll_commands cmd of
      Some name \<Rightarrow> ghostty_binding_action env name a
    | None \<Rightarrow> (case parse_int cmd of
        Some n \<Rightarrow> if is_copy_mode (ap_bindings a) then goto_line env n a else a | None \<Rightarrow> a))"
proof -
  have names: "cmd \<notin> set (map cd_name COMMANDS)" using assms by simp
  have "cmd \<notin> fst ` set plain_commands" "cmd \<notin> fst ` set param_commands"
    using names by (simp_all add: COMMANDS_def command_def.defs plain_commands_def param_commands_def)
  then have "map_of plain_commands cmd = None" "map_of param_commands cmd = None"
    by (simp_all add: map_of_eq_None_iff)
  then have "command_action cmd x = None" for x by (simp add: command_action_def)
  moreover have "special_command env cmd args a = Some (case parse_int cmd of
      Some n \<Rightarrow> if is_copy_mode (ap_bindings a) then goto_line env n a else a | None \<Rightarrow> a)"
    using names by (simp add: COMMANDS_def command_def.defs special_command_def)
  ultimately show ?thesis by (simp add: run_command_def split: option.splits)
qed

lemma commands_outside_palette_witness:
  "run_command (plain_env (plain_screen [''a''])) ''quit'' [] (plain_app (plain_screen [''a''])) =
    Some (plain_app (plain_screen [''a'']))"
  using commands_outside_palette [of "''quit''"]
  by (simp add: COMMANDS_def command_def.defs scroll_commands_def is_copy_mode_def plain_app_def app_new_def
      from_config_mode split: option.splits)

section \<open>What reaches the program in the terminal\<close>

definition terminal_input :: "effect \<Rightarrow> bool" where
  "terminal_input e = (case e of FxWriteInput _ _ \<Rightarrow> True | FxVtKey _ _ \<Rightarrow> True | _ \<Rightarrow> False)"

definition inputs :: "app \<Rightarrow> effect list" where
  "inputs a = filter terminal_input (ap_effects a)"

named_theorems input_frame "operations that send the terminal nothing"

lemma inputs_emit [simp]: "inputs (emit es a) = inputs a @ filter terminal_input es"
  by (simp add: inputs_def emit_def)

lemma inputs_fields [simp]:
  "inputs (a\<lparr>ap_tabs := x1\<rparr>) = inputs a" "inputs (a\<lparr>ap_views := x2\<rparr>) = inputs a"
  "inputs (a\<lparr>ap_frames := x3\<rparr>) = inputs a" "inputs (a\<lparr>ap_bindings := x4\<rparr>) = inputs a"
  "inputs (a\<lparr>ap_bar := x5\<rparr>) = inputs a" "inputs (a\<lparr>ap_search_active := x6\<rparr>) = inputs a"
  "inputs (a\<lparr>ap_search_query := x7\<rparr>) = inputs a" "inputs (a\<lparr>ap_search_total := x8\<rparr>) = inputs a"
  "inputs (a\<lparr>ap_search_selected := x9\<rparr>) = inputs a" "inputs (a\<lparr>ap_clipboard := y1\<rparr>) = inputs a"
  "inputs (a\<lparr>ap_paste_buffers := y2\<rparr>) = inputs a" "inputs (a\<lparr>ap_display_panes := y3\<rparr>) = inputs a"
  "inputs (a\<lparr>ap_choose_buffer := y4\<rparr>) = inputs a" "inputs (a\<lparr>ap_choose_tree := y5\<rparr>) = inputs a"
  "inputs (a\<lparr>ap_choose_tree_selected := y6\<rparr>) = inputs a" "inputs (a\<lparr>ap_find_window := y7\<rparr>) = inputs a"
  "inputs (a\<lparr>ap_find_window_query := y8\<rparr>) = inputs a" "inputs (a\<lparr>ap_find_window_selected := y9\<rparr>) = inputs a"
  "inputs (a\<lparr>ap_copy_mode := z1\<rparr>) = inputs a" "inputs (a\<lparr>ap_selection := z2\<rparr>) = inputs a"
  "inputs (a\<lparr>ap_selection_drag := z3\<rparr>) = inputs a" "inputs (a\<lparr>ap_prompt := z4\<rparr>) = inputs a"
  by (simp_all add: inputs_def)

lemma layout_inputs [input_frame, simp]:
  "inputs (set_pane_focus p b a) = inputs a" "inputs (relayout env a) = inputs a"
  "inputs (refocus p a) = inputs a" "inputs (set_tabs mv a) = inputs a"
proof -
  have sizes: "filter terminal_input (map (\<lambda>(pane, w, h). FxResize pane w h) xs) = []" for xs
    by (induction xs) (auto simp: terminal_input_def)
  show focus: "inputs (set_pane_focus p b a) = inputs a" for p b a by (simp add: set_pane_focus_def terminal_input_def)
  show "inputs (relayout env a) = inputs a" by (simp add: relayout_def sizes split: prod.splits)
  show "inputs (refocus p a) = inputs a" by (simp add: refocus_def focus Let_def)
  show "inputs (set_tabs mv a) = inputs a" by (simp add: set_tabs_def)
qed

lemma binding_inputs [input_frame, simp]:
  "s \<noteq> ''paste_from_clipboard'' \<Longrightarrow> inputs (ghostty_binding_action env s a) = inputs a"
  by (auto simp: ghostty_binding_action_def binding_action_def terminal_input_def split: option.splits)

lemma copy_inputs [input_frame, simp]:
  "inputs (scroll_page_lines env n a) = inputs a" "inputs (update_copy_mode_highlight env a) = inputs a"
  "inputs (map_copy_mode f a) = inputs a" "inputs (copy_to_clipboard t a) = inputs a"
  by (simp_all add: scroll_page_lines_def update_copy_mode_highlight_def map_copy_mode_def copy_to_clipboard_def
      push_paste_buffer_def terminal_input_def split: option.splits)

lemma cursor_inputs [input_frame, simp]:
  "inputs (show_cursor env a) = inputs a" "inputs (app_exit_copy_mode env a) = inputs a"
  "inputs (copy_mode_copy env a) = inputs a" "inputs (copy_mode_append_copy env a) = inputs a"
  "inputs (clear_pending_jump action a) = inputs a" "inputs (navigate_search env b a) = inputs a"
  "inputs (copy_mode_execute_jump env t k a) = inputs a"
  by (simp_all add: show_cursor_def copy_mode_ensure_visible_def app_exit_copy_mode_def copy_mode_copy_def
      copy_mode_append_copy_def clear_pending_jump_def navigate_search_def copy_mode_execute_jump_def Let_def
      split: option.splits)

lemma copy_mode_action_inputs: "copy_mode_action env action a = Some a' \<Longrightarrow> inputs a' = inputs a"
  by (cases action)
     (auto simp: copy_mode_action_def copy_mode_command_def Let_def copy_mode_move_def copy_mode_first_non_blank_def copy_mode_word_move_def
        copy_mode_jump_repeat_def copy_mode_paragraph_def copy_mode_matching_bracket_def search_word_def start_search_def
        scroll_middle_def set_pending_jump_def split: option.splits if_splits)

lemma sync_inputs [input_frame, simp]: "inputs (sync_after_tab_change env a) = inputs a"
  by (simp add: sync_after_tab_change_def Let_def)

lemma goto_entry_inputs: "goto_entry env e a = Some a' \<Longrightarrow> inputs a' = inputs a"
  by (auto simp: goto_entry_def app_goto_tab_def Let_def split_beta)

lemma picker_inputs:
  "handle_find_window_key env key kc a = Some a' \<Longrightarrow> inputs a' = inputs a"
  "handle_choose_tree_key env key kc a = Some a' \<Longrightarrow> inputs a' = inputs a"
  by (auto simp: handle_find_window_key_def select_find_window_entry_def close_find_window_def Let_def
      move_find_window_selection_def handle_choose_tree_key_def select_choose_tree_entry_def move_choose_tree_selection_def
      dest!: goto_entry_inputs split: toolkit_key.splits named_toolkit_key.splits option.splits if_splits)

lemma display_panes_inputs: "inputs (handle_display_panes_key env key kc a) = inputs a"
  by (simp add: handle_display_panes_key_def handle_display_panes_char_def Let_def split: option.splits prod.splits)

lemma search_inputs: "inputs (handle_search_key env key typed m a) = inputs a"
  by (simp add: handle_search_key_def send_search_def Let_def split: toolkit_key.splits named_toolkit_key.splits option.splits)

text \<open>C13: While the window finder, the tree of panes, the overlay of pane numbers, the command prompt, the search
  or copy mode has the keyboard, no key event of a client reaches the program in the terminal: it is consumed,
  and neither a key nor text is sent.\<close>

theorem modes_swallow_keys:
  assumes "prompt_wf (ap_prompt a)" and "handle_app_key_event env e a = Some (consumed, a')" and "\<not> ap_choose_buffer a"
    and "ap_find_window a \<or> ap_choose_tree a \<or> ap_display_panes a \<or> cp_active (ap_prompt a) \<or> ap_search_active a
      \<or> is_copy_mode (ap_bindings a)"
  shows "consumed \<and> filter terminal_input (ap_effects a') = filter terminal_input (ap_effects a)"
proof -
  obtain result b where k: "handle_key (event_key_char env e) (ke_keycode e) (ke_mods e) (ke_named e) (ap_bindings a) = (result, b)"
    by fastforce
  have dispatched: "c \<and> inputs a1 = inputs a" if d: "dispatch_app_key env e a = Some (c, a1)" for c a1
  proof (cases "ap_find_window a \<or> ap_choose_tree a \<or> ap_display_panes a \<or> ap_search_active a \<or> cp_active (ap_prompt a)")
    case True
    have "handle_command_key env (event_keyboard_key env e) typed m a = Some a2 \<Longrightarrow> inputs a2 = inputs a" for typed m a2
      using prompt_key_client [OF assms(1), of "event_keyboard_key env e" "env_lower env" typed "md_control m"]
      by (auto simp: handle_command_key_def event_key_cases Let_def)
    with True d assms(3) show ?thesis
      by (auto simp: dispatch_app_key_def Let_def display_panes_inputs search_inputs dest: picker_inputs split: if_splits)
  next
    case False
    with assms(4) have copy: "is_copy_mode (ap_bindings a)" by simp
    with k have "(\<exists>action. result = CopyModeResult action) \<or> result = Consumed None"
      by (auto simp: handle_key_def handle_copy_mode_key_def is_copy_mode_def split: option.splits)
    with False d assms(3) k show ?thesis
      by (auto simp: dispatch_app_key_def dispatch_binding_result_def dispatch_copy_mode_action_def Let_def
          dest!: copy_mode_action_inputs)
  qed
  have "consumed \<and> inputs a' = inputs a"
  proof (cases "fst (copy_mouse_selection env a) \<longrightarrow> \<not> is_command_copy_shortcut e (event_key_char env e)")
    case True
    then show ?thesis
      using assms(2) dispatched by (fastforce simp: handle_app_key_event_dispatch bind_eq_Some_conv split: prod.splits if_splits)
  next
    case False
    then have "copy_mouse_selection env a = (consumed, a')" "consumed"
      using assms(2) by (auto simp: handle_app_key_event_def Let_def)
    then show ?thesis by (auto simp: copy_mouse_selection_def split: option.splits if_splits)
  qed
  then show ?thesis by (simp add: inputs_def)
qed

lemma modes_swallow_keys_witness:
  "let env = plain_env (plain_screen [''a'']); a = (plain_app (plain_screen [''a'']))\<lparr>ap_search_active := True\<rparr>
   in \<exists>a'. handle_app_key_event env (plain_key ''x'') a = Some (True, a') \<and> filter terminal_input (ap_effects a') = []"
proof -
  let ?env = "plain_env (plain_screen [''a''])" and ?a = "(plain_app (plain_screen [''a'']))\<lparr>ap_search_active := True\<rparr>"
  obtain a' where "handle_app_key_event ?env (plain_key ''x'') ?a = Some (True, a')"
    by (simp add: handle_app_key_event_def copy_mouse_selection_def dispatch_app_key_def plain_app_def app_new_def
        prompt_new_def Let_def)
  moreover have "prompt_wf (ap_prompt ?a)" "\<not> ap_choose_buffer ?a" "ap_search_active ?a" "ap_effects ?a = []"
    by (simp_all add: plain_app_def app_new_def prompt_wf_new)
  ultimately show ?thesis
    using modes_swallow_keys [of ?a ?env "plain_key ''x''" True a'] by (auto simp: Let_def)
qed

end
