(* ===== verification/DaemonTheorems.thy ===== *)
theory DaemonTheorems
  imports DaemonSteps AppTheorems
begin

text \<open>
  The properties of the daemon: whom a command concerns, what becomes of the clients of a closed tab, and
  what clients are not told.
\<close>

section \<open>Views\<close>

lemma client_server_found:
  "remote_server_for_client i d = Some slot \<Longrightarrow> \<exists>st c. server_at slot d = Some st \<and> clients st i = Some c"
  by (auto simp: remote_server_for_client_def find_Some_iff serves_client_def has_client_def split: option.splits)

lemma view_update:
  "remote_view_state_for_client i (update_view i f d) = map_option f (remote_view_state_for_client i d)"
proof (cases "remote_server_for_client i d")
  case (Some slot)
  then obtain st c where st: "server_at slot d = Some st" "clients st i = Some c" by (auto dest: client_server_found)
  moreover have "remote_server_for_client i (update_view i f d) = Some slot"
    using rel_slots(3) [OF own_view_keep(1)] Some by simp
  ultimately show ?thesis using Some
    by (simp add: remote_view_state_for_client_def update_view_def on_client_server_def server_at_on_server
        update_client_view_def update_client_clients)
qed (simp add: remote_view_state_for_client_def update_view_def on_client_server_def)

lemma view_client_op:
  "remote_view_state_for_client i (on_client_server i (update_client_view i f) d)
    = map_option f (remote_view_state_for_client i d)"
  using view_update [of i f d] by (simp add: update_view_def)

lemma view_kept_fields:
  assumes "daemon_rel (keep_but X) d d'" and "i \<notin> X"
  shows "map_option latest_input_seq (remote_view_state_for_client i d') = map_option latest_input_seq (remote_view_state_for_client i d)"
    and "map_option viewed_tab_id (remote_view_state_for_client i d') = map_option viewed_tab_id (remote_view_state_for_client i d)"
proof -
  have e: "map_option view_frame (remote_view_state_for_client i d') = map_option view_frame (remote_view_state_for_client i d)"
    by (rule kept_view [OF assms(1)]) (use assms(2) in \<open>simp add: keep_but_def\<close>)
  show "map_option latest_input_seq (remote_view_state_for_client i d') = map_option latest_input_seq (remote_view_state_for_client i d)"
    "map_option viewed_tab_id (remote_view_state_for_client i d') = map_option viewed_tab_id (remote_view_state_for_client i d)"
    using e by (cases "remote_view_state_for_client i d"; cases "remote_view_state_for_client i d'"; auto dest: view_frame_eqD)+
qed

section \<open>The clients that did not give the command\<close>

definition plain_daemon :: "app \<Rightarrow> remote_state \<Rightarrow> daemon" where
  "plain_daemon a st = \<lparr>d_app = a, d_remote = Some st, d_local = None, d_revision = 1, d_row_caches = Map.empty,
     d_pane_revisions = Map.empty, d_dirty_tabs = [], d_cached_tabs = None, d_dump_keys = False\<rparr>"

definition plain_appearance :: ui_appearance where
  "plain_appearance = \<lparr>ap_font_families = [], ap_font_size = 14, ap_background_opacity = 1,
     ap_background_opacity_cells = False, ap_terminal_foreground = (255, 255, 255), ap_terminal_background = (0, 0, 0),
     ap_cursor_color = (255, 255, 255), ap_selection_background = (255, 255, 255),
     ap_selection_foreground = (0, 0, 0), ap_cursor_text_color = (0, 0, 0), ap_url_color = (0, 0, 255),
     ap_active_tab_foreground = (255, 255, 255), ap_active_tab_background = (0, 0, 0),
     ap_inactive_tab_foreground = (255, 255, 255), ap_inactive_tab_background = (0, 0, 0),
     ap_cursor_style = None, ap_cursor_blink = False, ap_cursor_blink_interval_ns = 0\<rparr>"

definition plain_server_env :: "app_env \<Rightarrow> server_env" where
  "plain_server_env env = \<lparr>se_app = env, se_order = [1, 2], se_now = 0, se_appearance = plain_appearance,
     se_json_state = (\<lambda>_. None), se_json_appearance = (\<lambda>_. None)\<rparr>"

definition two_clients :: "client_runtime_view \<Rightarrow> remote_state" where
  "two_clients v =
     (let connect = (\<lambda>i st. snd (snd (register_client False 0 i st)))
      in update_client_view 1 (\<lambda>_. v) (connect 2 (connect 1 \<lparr>clients = Map.empty, server_instance_id = []\<rparr>)))"

text \<open>Surroundings in which the shell of pane 2 exits.\<close>

definition exit_env :: app_env where
  "exit_env = (plain_env (plain_screen [''a'']))\<lparr>env_updates := (\<lambda>pane. if pane = 2 then Some
     \<lparr>pu_exited = True, pu_finished = [], pu_status = [], pu_notes = [], pu_fresh = True,
      pu_snapshot = plain_screen [''a''], pu_running = None\<rparr> else None)\<rparr>"

text \<open>C15: A client cannot move another one. Whatever a command of a client does, to the tabs, to the panes
  or to its own view, every other client keeps the tab it looks at, its focus, its panes, its viewport, its
  scroll position, its copy mode and its search, and its view is not even counted as changed; it can only be
  sent something. The one exception is a request to close a tab, which repairs all views.\<close>

theorem clients_keep_their_views:
  assumes "handle_client_command env cmd d = Some d'" and "\<not> closes_tab cmd" and "j \<noteq> client_of cmd"
  shows "map_option view_frame (remote_view_state_for_client j d') = map_option view_frame (remote_view_state_for_client j d)"
  by (rule kept_view [OF command_keep [OF assms(1,2)]]) (use assms(3) in \<open>simp add: keep_but_def\<close>)

lemma clients_keep_their_views_witness:
  "\<exists>d d'. handle_client_command (plain_server_env exit_env) (Resize 1 80 24) d = Some d'
     \<and> remote_view_state_for_client 2 d = Some view_idle
     \<and> map_option view_frame (remote_view_state_for_client 2 d') = Some (view_frame view_idle)"
proof -
  let ?d = "plain_daemon (plain_app (plain_screen [''a''])) (two_clients view_idle)" and ?env = "plain_server_env exit_env"
  have two: "remote_view_state_for_client 2 ?d = Some view_idle"
    by (simp add: remote_view_state_for_client_def remote_server_for_client_def remote_slots_def serves_client_def
        plain_daemon_def two_clients_def register_client_def Let_def has_client_def update_client_view_def
        update_client_def)
  have run: "handle_client_command ?env (Resize 1 80 24) ?d = Some (remote_resize 1 80 24 ?d)"
    by (simp add: handle_client_command_def)
  have "map_option view_frame (remote_view_state_for_client 2 (remote_resize 1 80 24 ?d))
      = map_option view_frame (remote_view_state_for_client 2 ?d)"
    by (rule clients_keep_their_views [OF run]) simp_all
  with two run show ?thesis by auto
qed

section \<open>Acknowledgements of input\<close>

text \<open>The number of the last input of a client is forgotten, or nothing is published to the client.\<close>

definition unacked :: "u64 \<Rightarrow> daemon \<Rightarrow> bool" where
  "unacked i d \<longleftrightarrow> (\<forall>v. remote_view_state_for_client i d = Some v \<longrightarrow> latest_input_seq v = None \<or> viewed_tab_id v = None)"

lemma unacked_keep:
  assumes "daemon_rel (keep_but X) d d'" and "i \<notin> X" and "unacked i d"
  shows "unacked i d'"
  using view_kept_fields [OF assms(1,2)] assms(3)
  by (cases "remote_view_state_for_client i d"; cases "remote_view_state_for_client i d'") (auto simp: unacked_def)

lemma touched_unacked: "unacked i (update_view i (\<lambda>v. touch_view (f v)) d)"
  by (auto simp: unacked_def view_update touch_view_def clear_stream_state_def)

lemma sync_unacked:
  "active_runtime_tab_id (tabs_of_daemon d) \<noteq> None \<Longrightarrow> unacked i (sync_client_view_to_active_runtime i d)"
  using touched_unacked
  by (auto simp: sync_client_view_to_active_runtime_def Let_def point_view_def [abs_def] split: option.splits)

lemma recover_unacked:
  assumes "recover_remote_client_runtime_view env i d = Some d'"
  shows "unacked i d'"
proof (cases "remote_view_state_for_client i d")
  case None
  have "map_option (\<lambda>_. ()) (remote_view_state_for_client i d') = map_option (\<lambda>_. ()) (remote_view_state_for_client i d)"
    using rel_view [OF recover_keep [OF assms], of i] by (auto simp: rel_option_iff split: option.splits)
  then show ?thesis using None by (simp add: unacked_def)
next
  case (Some v)
  then obtain slot where slot: "remote_server_for_client i d = Some slot" by (auto simp: view_found)
  obtain ts d1 where c: "current_remote_tabs env d = (ts, d1)" by force
  then have s1: "same_servers d d1" using quiet_servers(5) [of d env] by simp
  then have slot1: "remote_server_for_client i d1 = Some slot" "remote_server_for_delivery i d1 = Some slot"
    using slot same_servers_view [OF s1] delivery_found [OF slot] by simp_all
  let ?v = "active_runtime_tab_id (tabs_of_daemon d1)"
  define d2 where "d2 = on_server slot (initialize_client_view i ?v
    (Option.bind ?v (default_focused_pane_for_tab (tabs_of_daemon d1))) (panes_of_viewed (tabs_of_daemon d1) ?v)) d1"
  have "d2 = update_view i (\<lambda>v. touch_view ((if view_id v = 0 then v\<lparr>view_id := i\<rparr> else v)
       \<lparr>viewed_tab_id := ?v, focused_pane_id := Option.bind ?v (default_focused_pane_for_tab (tabs_of_daemon d1)),
        visible_pane_ids := panes_of_viewed (tabs_of_daemon d1) ?v, ui_attached := True, detached_at := None\<rparr>)) d1"
    unfolding d2_def update_view_def on_client_server_def slot1 option.case initialize_client_view_def Let_def ..
  then have u2: "unacked i d2" by (simp only: touched_unacked)
  define d3 where "d3 = on_server slot (\<lambda>st. send_ui_appearance i (se_json_appearance env (se_appearance env))
    (send_ui_runtime_state i (se_json_state env (ui_runtime_state_for_client env i d2)) (send_tab_list i ts st))) d2"
  have k3: "daemon_rel (keep_but {}) d2 d3" unfolding d3_def
    by (rule keep.on_server_rel)
       (rule keep.state_trans [OF keep.state_trans [OF sent.sends_rel(1) sent.sends_rel(3)] sent.sends_rel(4)])
  from unacked_keep [OF k3 _ u2] have u3: "unacked i d3" by simp
  have "remote_server_for_client i d3 = Some slot"
    using rel_slots(3) [OF k3] rel_slots(3) [OF own_server_keep(2) [OF own_ops(1)]] slot1(1) unfolding d2_def by simp
  then have same: "on_server slot (update_client_view i f) d3 = update_view i f d3" for f
    by (simp add: update_view_def on_client_server_def)
  have sub: "unacked i (on_server slot (subscribe_client_to_runtime i) d3)"
    "unacked i (on_server slot (unsubscribe_client_from_runtime i) d3)"
    using u3 unfolding subscribe_client_to_runtime_def unsubscribe_client_from_runtime_def same
    by (auto simp: unacked_def view_update clear_stream_state_def)
  have "publish_active env ?v (on_server slot (subscribe_client_to_runtime i) d3) = Some d'
      \<or> d' = on_server slot (unsubscribe_client_from_runtime i) d3"
    using assms c slot1(2) by (auto simp: recover_remote_client_runtime_view_def
        sync_remote_client_runtime_view_def d2_def d3_def Let_def split: if_splits)
  then show ?thesis using sub unacked_keep [OF publish_active_keeps [where X = "{}"]] by blast
qed

lemma ensure_result: "ensure_remote_client_view_state i d = (r, d1) \<Longrightarrow> r = remote_view_state_for_client i d1"
  by (auto simp: ensure_remote_client_view_state_def Let_def split: option.splits if_splits)

lemma quiet_unacked: "unacked i d \<Longrightarrow> unacked i (mark_remote_tab_dirty t d)" "unacked i d \<Longrightarrow> unacked i (no_active_tab i d)"
  using unacked_keep [OF quiet_keep(4) [of "{}"]] unacked_keep [OF send_keep(3) [of "{}"]] by auto

lemma broadcast_unacked:
  "broadcast_runtime_view_to_all_viewers env d = Some d' \<Longrightarrow> unacked i d \<Longrightarrow> unacked i d'"
  by (rule unacked_keep [OF broadcast_keep [where X = "{}"]]) simp_all

lemma ensure_unacked:
  assumes "ensure_remote_client_view_state i d = (r, d1)" and "\<And>rv. r = Some rv \<Longrightarrow> viewed_tab_id rv = None"
  shows "unacked i d1"
  using assms(2) ensure_result [OF assms(1)] by (auto simp: unacked_def)

lemma target_unacked:
  assumes "focus_client_runtime_target env i d = Some (None, d1)"
  shows "unacked i d1"
proof -
  obtain r d0 where e: "ensure_remote_client_view_state i d = (r, d0)" by force
  show ?thesis
  proof (cases "\<exists>rv t. r = Some rv \<and> viewed_tab_id rv = Some t")
    case False
    then have "unacked i d0" by (intro ensure_unacked [OF e]) auto
    moreover have "d1 = d0" using assms e False
      by (cases r) (auto simp: focus_client_runtime_target_def client_runtime_target_def Let_def)
    ultimately show ?thesis by simp
  next
    case True
    with assms e show ?thesis
      by (auto simp: focus_client_runtime_target_def client_runtime_target_def Let_def bind_eq_Some_conv
          intro: recover_unacked split: if_splits)
  qed
qed

lemma with_target_unacked:
  assumes "with_target env i act d = Some d'" and "\<And>t d. act t d = Some d' \<Longrightarrow> unacked i d'"
  shows "unacked i d'"
proof -
  from assms(1) obtain r d1 where f: "focus_client_runtime_target env i d = Some (r, d1)"
    and run: "(case r of None \<Rightarrow> Some (no_active_tab i d1) | Some (t, pane) \<Rightarrow> act t d1) = Some d'"
    by (auto simp: with_target_def bind_eq_Some_conv)
  show ?thesis
  proof (cases r)
    case None
    with f run show ?thesis using quiet_unacked(2) [OF target_unacked] by auto
  next
    case (Some x)
    with run assms(2) show ?thesis by (cases x) simp
  qed
qed

text \<open>C16: The daemon never acknowledges input. A client numbers its input to measure how long the echo takes,
  and a screen carries the number of the last input; but the daemon clears that number in the very command
  that has set it, when it points the client's view at the active tab. So after input, a key or a key event
  of a client the number is forgotten, as long as there is a tab; a client that looks at no tab gets no
  screens at all.\<close>

theorem input_never_acknowledged:
  assumes "handle_client_command env cmd d = Some d'"
    and "cmd = CmdInput i bs n \<or> cmd = CmdKey i keys n \<or> cmd = CmdAppKeyEvent i event"
    and "active_runtime_tab_id (tabs_of_daemon d') \<noteq> None" and "remote_view_state_for_client i d' = Some v"
  shows "latest_input_seq v = None \<or> viewed_tab_id v = None"
proof -
  have synced: "unacked i (mark_remote_tab_dirty t (sync_client_view_to_active_runtime i d1))"
    if "d' = mark_remote_tab_dirty t (sync_client_view_to_active_runtime i d1)" for t d1
    using assms(3) that by (intro quiet_unacked(1) sync_unacked) simp
  have spread: "unacked i d'" if "broadcast_runtime_view_to_all_viewers env (sync_client_view_to_active_runtime i d1) = Some d'" for d1
    using assms(3) broadcast_app [OF that] by (intro broadcast_unacked [OF that] sync_unacked) simp
  have "unacked i d'" if "remote_input env i bs n d = Some d'"
  proof -
    obtain r d1 where e: "ensure_remote_client_view_state i d = (r, d1)" by force
    show ?thesis
    proof (cases "\<exists>rv t. r = Some rv \<and> viewed_tab_id rv = Some t")
      case False
      then have "unacked i d1" by (intro ensure_unacked [OF e]) auto
      moreover have "d' = d1 \<or> d' = no_active_tab i d1" using that e False by (cases r) (auto simp: remote_input_def)
      ultimately show ?thesis using quiet_unacked(2) by auto
    next
      case True
      with that e show ?thesis
        by (auto simp: remote_input_def bind_eq_Some_conv Let_def intro: recover_unacked synced
            split: option.splits if_splits)
    qed
  qed
  moreover have "unacked i d'" if "remote_key env i keys n d = Some d'"
    using that unfolding remote_key_def
    by (rule with_target_unacked) (auto simp: bind_eq_Some_conv Let_def intro: synced)
  moreover have "unacked i d'" if "remote_app_key_event env i event d = Some d'"
    using that unfolding remote_app_key_event_def
    by (rule with_target_unacked) (auto simp: bind_eq_Some_conv Let_def intro: synced spread split: if_splits)
  ultimately have "unacked i d'" using assms(1,2) by (auto simp: handle_client_command_def)
  then show ?thesis using assms(4) by (simp add: unacked_def)
qed

text \<open>A daemon with two tabs of one pane each; the client 1 looks at the second one.\<close>

definition two_tab_app :: "terminal_snapshot \<Rightarrow> app" where
  "two_tab_app screen = (plain_app screen)\<lparr>ap_tabs := fst two_tabs, ap_views := snd two_tabs\<rparr>"

definition looking_at :: "u32 \<Rightarrow> u64 \<Rightarrow> client_runtime_view" where
  "looking_at t pane = view_idle\<lparr>view_id := 1, subscribed_to_runtime := True, viewed_tab_id := Some t,
     focused_pane_id := Some pane, visible_pane_ids := [pane]\<rparr>"

definition two_tab_daemon :: daemon where
  "two_tab_daemon = plain_daemon (two_tab_app (plain_screen [''a''])) (two_clients (looking_at 2 2))"

lemma two_tabs_facts:
  "tree_of_tab (fst two_tabs) 1 = Some (snd (add_root (mk_pane 1) tree_new))"
  "tree_of_tab (fst two_tabs) 2 = Some (snd (add_root (mk_pane 2) tree_new))"
  "find_index_by_tab_id (fst two_tabs) 1 = Some 0" "find_index_by_tab_id (fst two_tabs) 2 = Some 1"
  "active_tab_id (fst two_tabs) = Some 2" "find_index_by_tab_id (fst two_tabs) 3 = None"
  by (simp_all add: tree_of_tab_def tab_tree_def find_index_by_tab_id_def two_tabs_simps fresh_tab_def get_at_def
      active_tab_id_def)

lemma one_pane_id: "pane_id (mk_pane n) = n"
  by (simp add: mk_pane_def)

lemma one_leaf_tree:
  "map (\<lambda>e. pane_id (ex_pane e)) (export_panes (snd (add_root (mk_pane n) tree_new))) = [n]"
  "focused_pane (snd (add_root (mk_pane n) tree_new)) = mk_pane n"
  "export_panes (snd (add_root (mk_pane n) tree_new))
     = [\<lparr>ex_leaf_id = 0, ex_pane = mk_pane n, ex_frame = None, ex_split = None\<rparr>]"
  by (simp_all add: add_root_def tree_new_def export_panes_def focused_pane_def mk_pane_def Let_def)

lemma two_tabs_panes:
  "pane_ids_for_tab (fst two_tabs) 1 = [1]" "pane_ids_for_tab (fst two_tabs) 2 = [2]"
  "default_focused_pane_for_tab (fst two_tabs) 2 = Some 2" "pane_for_tab (fst two_tabs) 2 = Some (mk_pane 2)"
  "active_runtime_tab_id (fst two_tabs) = Some 2" "pane_handle_by_id_any (fst two_tabs) 2 = Some (mk_pane 2)"
  by (simp_all add: pane_ids_for_tab_def default_focused_pane_for_tab_def pane_for_tab_def two_tabs_facts
      one_leaf_tree active_runtime_tab_id_def pane_handle_by_id_any_def find_pane_location_def two_tabs_simps fresh_tab_def
      one_pane_id tab_tree_def get_at_def)

lemma two_tab_daemon_facts:
  "tabs_of_daemon two_tab_daemon = fst two_tabs"
  "remote_view_state_for_client 1 two_tab_daemon = Some (looking_at 2 2)"
  "remote_server_for_client 1 two_tab_daemon = Some RemoteSlot"
  by (simp_all add: two_tab_daemon_def plain_daemon_def two_tab_app_def remote_view_state_for_client_def
      remote_server_for_client_def remote_slots_def serves_client_def two_clients_def register_client_def Let_def
      has_client_def update_client_view_def update_client_def)

lemma focus_second:
  assumes "ap_tabs a = fst two_tabs"
  shows "ap_tabs (snd (focus_pane_by_id 2 a)) = fst two_tabs"
proof -
  have same: "snd (set_focus_to_pane 2 (snd (add_root (mk_pane 2) tree_new))) = snd (add_root (mk_pane 2) tree_new)"
    by (simp add: set_focus_to_pane_def add_root_def tree_new_def one_pane_id Let_def)
  have "fresh_tab 2 (mk_pane 2)\<lparr>tree := snd (set_focus_to_pane 2 (tree (fresh_tab 2 (mk_pane 2))))\<rparr> = fresh_tab 2 (mk_pane 2)"
    by (simp add: fresh_tab_def same)
  then have "snd (update_active_tab (\<lambda>t. ((), t\<lparr>tree := snd (set_focus_to_pane 2 (tree t))\<rparr>)) () (fst two_tabs)) = fst two_tabs"
    using list_update_id [of "tabs (fst two_tabs)" 1]
    by (simp add: update_active_tab_def get_at_def two_tabs_simps)
  then show ?thesis using assms by (simp add: focus_pane_by_id_def map_active_tree_def Let_def)
qed

lemma input_never_acknowledged_witness:
  "\<exists>d' v. handle_client_command (plain_server_env (plain_env (plain_screen [''a''])))
       (CmdInput 1 [0x61] (Some 7)) two_tab_daemon = Some d'
     \<and> remote_view_state_for_client 1 d' = Some v \<and> viewed_tab_id v = Some 2 \<and> latest_input_seq v = None"
proof -
  let ?env = "plain_server_env (plain_env (plain_screen [''a'']))" and ?d = two_tab_daemon
  have "ensure_remote_client_view_state 1 ?d = (Some (looking_at 2 2), ?d)"
    by (simp add: ensure_remote_client_view_state_def two_tab_daemon_facts two_tabs_panes looking_at_def)
  moreover define a1 where "a1 = snd (focus_pane_by_id 2
    (refocus (app_focused (d_app ?d)) ((d_app ?d)\<lparr>ap_tabs := fst two_tabs\<rparr>)))"
  moreover define a where "a = (if mk_pane 2 = app_focused a1 then write_terminal_input (utf8_str [0x61]) a1
    else emit [FxWriteInput 2 (utf8_str [0x61])] a1)"
  ultimately have run: "handle_client_command ?env (CmdInput 1 [0x61] (Some 7)) ?d
      = Some (mark_remote_tab_dirty 2 (sync_client_view_to_active_runtime 1
          (on_client_server 1 (record_input_seq 1 (Some 7)) (?d\<lparr>d_app := a\<rparr>))))"
    by (simp add: handle_client_command_def remote_input_def looking_at_def focus_in_def two_tab_daemon_facts
        two_tabs_panes focus_runtime_tab_def two_tabs_facts app_goto_tab_def goto_tab_def two_tabs_simps tabs_of_def
        split_beta Let_def one_pane_id set_tabs_def)
  have a: "ap_tabs a = fst two_tabs" by (simp add: a_def a1_def focus_second)
  let ?d1 = "on_client_server 1 (record_input_seq 1 (Some 7)) (?d\<lparr>d_app := a\<rparr>)"
  let ?d' = "mark_remote_tab_dirty 2 (sync_client_view_to_active_runtime 1 ?d1)"
  have "remote_view_state_for_client 1 (?d\<lparr>d_app := a\<rparr>) = Some (looking_at 2 2)"
    using same_servers_view(3) [OF quiet_servers(1)] by (simp add: two_tab_daemon_facts)
  then have "remote_view_state_for_client 1 (sync_client_view_to_active_runtime 1 ?d1)
      = Some (point_view (Some 2) (Some 2) [2] ((looking_at 2 2)\<lparr>latest_input_seq := Some 7\<rparr>))"
    using a by (simp add: sync_client_view_to_active_runtime_def two_tabs_panes view_update record_input_seq_def [abs_def]
        view_client_op focus_in_def one_pane_id tabs_focused_pane_def active_tree_def get_at_def two_tabs_simps
        fresh_tab_def one_leaf_tree)
  then obtain v where v: "remote_view_state_for_client 1 ?d' = Some (point_view (Some 2) (Some 2) [2] v)"
    using same_servers_view(3) [OF quiet_servers(4)] by auto
  have "active_runtime_tab_id (tabs_of_daemon ?d') \<noteq> None" using a by (simp add: two_tabs_panes)
  with input_never_acknowledged [OF run _ _ v] have "latest_input_seq (point_view (Some 2) (Some 2) [2] v) = None"
    by (simp add: point_view_def touch_view_def clear_stream_state_def)
  with run v show ?thesis by (auto simp: point_view_def touch_view_def clear_stream_state_def)
qed

section \<open>What clients are not told\<close>

lemma poll_panes_effect:
  assumes "poll_panes env d = Some d1" and "active_tab_id (tabs_of_daemon d1) \<noteq> None"
  shows "same_servers d d1 \<and> set (d_dirty_tabs d1) \<subseteq> set (d_dirty_tabs d) \<union> set_option (active_tab_id (tabs_of_daemon d1))"
proof -
  from assms(1) obtain dirty a where "poll_backend (se_app env) (d_app d) = Some (dirty, a)"
    and run: "(if dirty \<and> has_runtime_stream_subscribers env (d\<lparr>d_app := a\<rparr>)
      then if active_tab_id (ap_tabs a) \<noteq> None then Some (mark_active_remote_tab_dirty (d\<lparr>d_app := a\<rparr>))
           else broadcast_runtime_view_to_all_viewers env (d\<lparr>d_app := a\<rparr>) else Some (d\<lparr>d_app := a\<rparr>)) = Some d1"
    by (auto simp: poll_panes_def bind_eq_Some_conv Let_def)
  moreover have "active_tab_id (ap_tabs a) \<noteq> None" using run assms(2) broadcast_app by (auto split: if_splits)
  ultimately have "d1 = d\<lparr>d_app := a\<rparr> \<or> d1 = mark_active_remote_tab_dirty (d\<lparr>d_app := a\<rparr>)"
    by (auto split: if_splits)
  then show ?thesis
    by (auto simp: mark_active_remote_tab_dirty_def mark_remote_tab_dirty_def invalidate_remote_tabs_cache_def
        same_servers_def split: option.splits if_splits)
qed

text \<open>A sweep that finds no view to reset.\<close>

definition no_view_expires :: "server_env \<Rightarrow> daemon \<Rightarrow> bool" where
  "no_view_expires env d \<longleftrightarrow> (\<forall>slot st i c. server_at slot d = Some st \<longrightarrow> clients st i = Some c
     \<longrightarrow> \<not> view_expired VIEW_IDLE_TIMEOUT (se_now env) (runtime_view c))"

lemma sweep_nothing:
  assumes "no_view_expires env d" shows "sweep_views env d = Some d"
proof -
  let ?f = "\<lambda>st. snd (sweep_idle_views (se_order env) VIEW_IDLE_TIMEOUT (se_now env) st)"
  have f: "?f st = st" and none: "fst (sweep_idle_views (se_order env) VIEW_IDLE_TIMEOUT (se_now env) st) = []"
    if "server_at slot d = Some st" for slot st
  proof -
    have c: "\<not> view_expired VIEW_IDLE_TIMEOUT (se_now env) (runtime_view c)" if "clients st i = Some c" for i c
      using assms that \<open>server_at slot d = Some st\<close> by (auto simp: no_view_expires_def)
    have "map_option g (clients st i) = clients st i" if "\<And>c. clients st i = Some c \<Longrightarrow> g c = c" for g i
      using that by (cases "clients st i") auto
    with c show "?f st = st" by (cases st) (simp add: sweep_idle_views_def update_all_clients_def)
    from c show "fst (sweep_idle_views (se_order env) VIEW_IDLE_TIMEOUT (se_now env) st) = []"
      by (auto simp: sweep_idle_views_def client_ids_where_def filter_empty_conv split: option.splits)
  qed
  have on: "on_server slot ?f d = d" for slot
    using f [of slot] by (cases slot; cases "server_at slot d"; cases d) auto
  have "fold (\<lambda>slot. on_server slot ?f) slots d = d" for slots
    by (induction slots) (simp_all add: on)
  moreover have "concat (map (\<lambda>slot. case server_at slot d of Some st \<Rightarrow>
      fst (sweep_idle_views (se_order env) VIEW_IDLE_TIMEOUT (se_now env) st) | None \<Rightarrow> []) slots) = []" for slots
    using none by (induction slots) (auto split: option.splits)
  ultimately show ?thesis by (simp add: sweep_views_def on_all_servers_def Let_def)
qed

lemma publish_dirty_app:
  assumes "publish_dirty_tabs env d = Some d'" shows "d_app d' = d_app d"
proof -
  from assms have "d_app d' = d_app (d\<lparr>d_dirty_tabs := []\<rparr>)"
    unfolding publish_dirty_tabs_def by (rule try_each_app [rotated]) (rule publish_app)
  then show ?thesis by simp
qed

text \<open>A turn without commands and without an expired view.\<close>

lemma quiet_turn:
  assumes "poll_panes env d = Some d1" and "same_servers d d1" and "no_view_expires env d"
  shows "command_turn env None [] [] d = map_option (\<lambda>d'. (None, [], [], d')) (publish_dirty_tabs env d1)"
proof -
  have "no_view_expires env d1" using assms(2,3) by (simp add: no_view_expires_def same_servers_at)
  from sweep_nothing [OF this] assms(1) show ?thesis
    by (cases "publish_dirty_tabs env d1") (simp_all add: command_turn_def)
qed

lemma untouched:
  assumes "daemon_rel (only_viewers t) d d'" and "server_at slot d = Some st" and "clients st j = Some c"
    and "viewed_tab_id (runtime_view c) \<noteq> Some t"
  shows "\<exists>st'. server_at slot d' = Some st' \<and> clients st' j = Some c"
proof -
  from assms(1,2) obtain st' where st': "server_at slot d' = Some st'" "state_rel (only_viewers t) st st'"
    by (auto simp: daemon_rel_def option_rel_Some1 dest!: spec [of _ slot])
  with assms(3) obtain c' where "clients st' j = Some c'" "only_viewers t j c c'"
    by (auto simp: state_rel_def option_rel_Some1 dest!: spec [of _ j])
  with st'(1) assms(4) show ?thesis by (auto simp: only_viewers_def looks_at_def)
qed

lemma untouched_each:
  assumes "try_each (publish_remote_tab env) ts d = Some d'" and "viewed_tab_id (runtime_view c) \<notin> Some ` set ts"
    and "server_at slot d = Some st" and "clients st j = Some c"
  shows "\<exists>st'. server_at slot d' = Some st' \<and> clients st' j = Some c"
  using assms
proof (induction ts arbitrary: d st)
  case (Cons t ts)
  from Cons.prems(1) obtain d1 where d1: "publish_remote_tab env t d = Some d1" "try_each (publish_remote_tab env) ts d1 = Some d'"
    by (auto simp: bind_eq_Some_conv)
  from untouched [OF publish_rel [OF d1(1)] Cons.prems(3,4)] Cons.prems(2)
  obtain st1 where "server_at slot d1 = Some st1" "clients st1 j = Some c" by auto
  with Cons.IH [OF d1(2)] Cons.prems(2) show ?case by simp
qed simp

text \<open>C17: Only the daemon's active tab is streamed. Clients look at tabs of their own choice, but in a turn
  of the main loop in which no command arrives, whatever the panes report - output, titles, a shell that
  exits and closes its tab - a client that does not look at the tab that is active afterwards, nor at one
  marked before the turn, is sent nothing at all: its state in the server is the same. As long as a tab is
  left, that includes the clients of a tab that has just gone. (When the last tab goes, or when a detached
  view has been idle for too long, every viewer is told.)\<close>

theorem only_active_tab_streams:
  assumes "command_turn env None [] [] d = Some (reply, gui, remote, d')" and "no_view_expires env d"
    and "active_tab_id (tabs_of_daemon d') \<noteq> None"
    and "server_at slot d = Some st" and "clients st j = Some c"
    and "viewed_tab_id (runtime_view c) \<noteq> active_tab_id (tabs_of_daemon d')"
    and "viewed_tab_id (runtime_view c) \<notin> Some ` set (d_dirty_tabs d)"
  shows "\<exists>st'. server_at slot d' = Some st' \<and> clients st' j = Some c"
proof -
  from assms(1) obtain d1 d2 where d1: "poll_panes env d = Some d1" "sweep_views env d1 = Some d2"
    "publish_dirty_tabs env d2 = Some d'"
    by (auto simp: command_turn_def bind_eq_Some_conv)
  have "d_app d' = d_app d2" by (rule publish_dirty_app [OF d1(3)])
  moreover have "d_app d2 = d_app d1"
    using d1(2) broadcast_app by (auto simp: sweep_views_def Let_def split: if_splits)
  ultimately have app: "d_app d' = d_app d1" by simp
  from poll_panes_effect [OF d1(1)] assms(3) app have s: "same_servers d d1"
    and t: "set (d_dirty_tabs d1) \<subseteq> set (d_dirty_tabs d) \<union> set_option (active_tab_id (tabs_of_daemon d'))" by auto
  from quiet_turn [OF d1(1) s assms(2)] assms(1) have p: "publish_dirty_tabs env d1 = Some d'"
    by (cases "publish_dirty_tabs env d1") auto
  show ?thesis
  proof (rule untouched_each [OF p [unfolded publish_dirty_tabs_def]])
    show "viewed_tab_id (runtime_view c) \<notin> Some ` set (d_dirty_tabs d1)" using t assms(6,7) by auto
    show "server_at slot (d1\<lparr>d_dirty_tabs := []\<rparr>) = Some st" using assms(4) same_servers_at [OF s] by simp
  qed (rule assms(5))
qed

lemma closes_second:
  assumes "tabs (ap_tabs a) = [fresh_tab 1 (mk_pane 1), fresh_tab 2 (mk_pane 2)]" "active (ap_tabs a) = 1"
  shows "\<exists>a'. close_pane_by_id env 2 a = Some a' \<and> tabs (ap_tabs a') = [fresh_tab 1 (mk_pane 1)] \<and> active (ap_tabs a') = 0"
proof -
  let ?t = "snd (add_root (mk_pane 2) tree_new)"
  have tree: "tree (fresh_tab i p) = snd (add_root p tree_new)" for i p by (simp add: fresh_tab_def)
  have loc: "find_pane_location (ap_tabs a) 2 = Some (1, 0)"
    by (simp add: find_pane_location_def assms tree one_leaf_tree one_pane_id)
  have act: "active_tree (ap_tabs a) = Some ?t" by (simp add: active_tree_def get_at_def assms tree)
  have focus: "set_focus 0 ?t = ?t" by (simp add: set_focus_def add_root_def tree_new_def Let_def)
  have removed: "remove_focused ?t = (Some (mk_pane 2), \<lparr>root = None, next_id = 1, focused_id = 0\<rparr>)"
    by (simp add: remove_focused_def add_root_def tree_new_def finish_removal_def Let_def)
  define a2 where "a2 = refocus (app_focused a) (map_active_tree (set_focus 0) a)"
  have tabs2: "tabs (ap_tabs a2) = tabs (ap_tabs a)" "active (ap_tabs a2) = 1"
    using assms by (simp_all add: a2_def map_active_tree_def update_active_tab_def get_at_def tree focus)
  have act2: "active_tree (ap_tabs a2) = Some ?t" using tabs2 assms(1) by (simp add: active_tree_def get_at_def tree)
  define a3 where "a3 = map_active_tree (\<lambda>t. snd (remove_focused t)) a2"
  have tabs3: "tabs (ap_tabs a3) = [fresh_tab 1 (mk_pane 1),
      (fresh_tab 2 (mk_pane 2))\<lparr>tree := \<lparr>root = None, next_id = 1, focused_id = 0\<rparr>\<rparr>]" "active (ap_tabs a3) = 1"
    using tabs2 assms(1) by (simp_all add: a3_def map_active_tree_def update_active_tab_def get_at_def tree removed)
  have "close_pane_by_id env 2 a = Some (handle_surface_closed env a2)"
    using loc act assms(2) by (simp add: close_pane_by_id_def a2_def)
  moreover have "handle_surface_closed env a2 = focus_remaining env (snd (app_remove_tab 1 (free_panes [mk_pane 2] a3)))"
    using act2 tabs3 by (simp add: handle_surface_closed_def a3_def [symmetric] removed Let_def)
      (simp add: active_tree_def get_at_def tree_len_def)
  moreover have "tabs (ap_tabs (snd (app_remove_tab 1 (free_panes [mk_pane 2] a3)))) = [fresh_tab 1 (mk_pane 1)]
      \<and> active (ap_tabs (snd (app_remove_tab 1 (free_panes [mk_pane 2] a3)))) = 0"
    using tabs3 by (simp add: app_remove_tab_def remove_tab_def tabs_of_def set_tabs_def remove_at_def split_beta Let_def)
  moreover have "ap_tabs (focus_remaining env b) = ap_tabs b" for b by (simp add: focus_remaining_def)
  ultimately show ?thesis by simp
qed

lemma set_running_second:
  "fst (set_running (2, None) (True, d_app two_tab_daemon)) = True"
  "tabs (ap_tabs (snd (set_running (2, None) (True, d_app two_tab_daemon)))) = [fresh_tab 1 (mk_pane 1), fresh_tab 2 (mk_pane 2)]"
  "active (ap_tabs (snd (set_running (2, None) (True, d_app two_tab_daemon)))) = 1"
proof -
  have t: "ap_tabs (d_app two_tab_daemon) = fst two_tabs" using two_tab_daemon_facts(1) by simp
  have "running_command (fresh_tab i p) = None" for i p by (simp add: fresh_tab_def)
  then show "fst (set_running (2, None) (True, d_app two_tab_daemon)) = True"
    "tabs (ap_tabs (snd (set_running (2, None) (True, d_app two_tab_daemon)))) = [fresh_tab 1 (mk_pane 1), fresh_tab 2 (mk_pane 2)]"
    "active (ap_tabs (snd (set_running (2, None) (True, d_app two_tab_daemon)))) = 1"
    by (simp_all add: set_running_def set_running_command_for_pane_def t two_tabs_simps)
qed

lemma second_tab_exits:
  "\<exists>a. poll_backend exit_env (d_app two_tab_daemon) = Some (True, a)
     \<and> tabs (ap_tabs a) = [fresh_tab 1 (mk_pane 1)] \<and> active (ap_tabs a) = 0"
proof -
  let ?a = "d_app two_tab_daemon"
  have ids: "active_pane_ids ?a = [2]"
    by (simp add: active_pane_ids_def two_tab_daemon_facts active_tree_def get_at_def two_tabs_simps fresh_tab_def
        all_panes_def add_root_def tree_new_def one_pane_id Let_def)
  have focused: "focused_id_of ?a = 2"
    by (simp add: app_focused_def two_tab_daemon_facts tabs_focused_pane_def active_tree_def get_at_def two_tabs_simps
        fresh_tab_def one_leaf_tree one_pane_id)
  have poll: "backend_poll exit_env [2] 2 = \<lparr>bp_dirty = True, bp_exited = [2], bp_title = None, bp_pwd = Some [],
      bp_bar = Some \<lparr>vb_total = 0, vb_offset = 0, vb_len = 0\<rparr>, bp_running = [], bp_finished = [], bp_status = [],
      bp_notes = []\<rparr>"
    by (simp add: backend_poll_def poll_pane_def exit_env_def poll_none_def plain_screen_def utf8_str_def Let_def)
  have run: "running_updates [2] (backend_poll exit_env [2] 2) = [(2, None)]" by (simp add: poll running_updates_def)
  define r where "r = set_running (2, None) (True, ?a)"
  have r: "fst r" "tabs (ap_tabs (snd r)) = [fresh_tab 1 (mk_pane 1), fresh_tab 2 (mk_pane 2)]" "active (ap_tabs (snd r)) = 1"
    by (simp_all add: r_def set_running_second)
  define p where "p = set_bar (Some \<lparr>vb_total = 0, vb_offset = 0, vb_len = 0\<rparr>) (set_pwd (Some []) (True, snd r))"
  have p: "tabs (ap_tabs (snd p)) = tabs (ap_tabs (snd r))" "active (ap_tabs (snd p)) = active (ap_tabs (snd r))"
    by (simp_all add: p_def set_bar_def set_pwd_def emit_def Let_def)
  let ?c = "(snd p)\<lparr>ap_status := snd (store_clear (osc_source_for_pane 2) None (ap_status (snd p)))\<rparr>"
  obtain a' where "close_pane_by_id exit_env 2 ?c = Some a'" "tabs (ap_tabs a') = [fresh_tab 1 (mk_pane 1)]"
    "active (ap_tabs a') = 0" using closes_second [of ?c exit_env] p r by auto
  moreover have "poll_backend exit_env ?a = close_exited exit_env [2] p"
    using r(1) by (simp add: poll_backend_def ids focused run Let_def) (simp add: poll p_def set_title_def r_def emit_def)
  ultimately show ?thesis by (simp add: Let_def)
qed

text \<open>Client 1 looks at the tab whose shell exits; the tab that becomes active is not its own.\<close>

lemma only_active_tab_streams_witness:
  "\<exists>d' st'. command_turn (plain_server_env exit_env) None [] [] two_tab_daemon = Some (None, [], [], d')
     \<and> active_tab_id (tabs_of_daemon d') = Some 1 \<and> tree_of_tab (tabs_of_daemon d') 2 = None
     \<and> server_at RemoteSlot d' = Some st' \<and> clients st' 1 = clients (two_clients (looking_at 2 2)) 1
     \<and> map_option (\<lambda>c. viewed_tab_id (runtime_view c)) (clients st' 1) = Some (Some 2)"
proof -
  let ?env = "plain_server_env exit_env" and ?d = two_tab_daemon
  obtain a where a: "poll_backend exit_env (d_app ?d) = Some (True, a)" "tabs (ap_tabs a) = [fresh_tab 1 (mk_pane 1)]"
    "active (ap_tabs a) = 0" using second_tab_exits by blast
  define d1 where "d1 = mark_active_remote_tab_dirty (?d\<lparr>d_app := a\<rparr>)"
  have active: "active_tab_id (ap_tabs a) = Some 1" using a by (simp add: active_tab_id_def get_at_def fresh_tab_def)
  obtain c where c: "clients (two_clients (looking_at 2 2)) 1 = Some c" "runtime_view c = looking_at 2 2"
    by (simp add: two_clients_def register_client_def Let_def update_client_view_def update_client_def)
  have server: "server_at RemoteSlot ?d = Some (two_clients (looking_at 2 2))"
    by (simp add: two_tab_daemon_def plain_daemon_def)
  have streams: "has_runtime_stream_subscribers ?env (?d\<lparr>d_app := a\<rparr>)"
    by (simp add: has_runtime_stream_subscribers_def remote_slots_def two_tab_daemon_def plain_daemon_def two_clients_def
        register_client_def Let_def update_client_view_def update_client_def has_runtime_viewers_def plain_server_env_def
        viewer_client_ids_def client_ids_where_def looking_at_def)
  have poll: "poll_panes ?env ?d = Some d1"
    using a(1) streams active by (simp add: poll_panes_def d1_def plain_server_env_def)
  have t1: "tabs_of_daemon d1 = ap_tabs a"
    by (simp add: d1_def mark_active_remote_tab_dirty_def mark_remote_tab_dirty_def invalidate_remote_tabs_cache_def
        split: option.splits)
  have d1: "d_dirty_tabs d1 = [1]"
    using active by (simp add: d1_def mark_active_remote_tab_dirty_def mark_remote_tab_dirty_def
        invalidate_remote_tabs_cache_def two_tab_daemon_def plain_daemon_def)
  have views: "remote_view_state_for_client i (d1\<lparr>d_dirty_tabs := []\<rparr>) = remote_view_state_for_client i ?d" for i
    by (simp add: remote_view_state_for_client_def remote_server_for_client_def remote_slots_def serves_client_def d1_def
        mark_active_remote_tab_dirty_def mark_remote_tab_dirty_def invalidate_remote_tabs_cache_def active)
  have idle: "remote_view_state_for_client 2 ?d = Some view_idle"
    by (simp add: two_tab_daemon_def plain_daemon_def remote_view_state_for_client_def remote_server_for_client_def
        remote_slots_def serves_client_def two_clients_def register_client_def Let_def has_client_def
        update_client_view_def update_client_def)
  have gone: "tree_of_tab (ap_tabs a) 2 = None"
    using a(2) by (simp add: tree_of_tab_def find_index_by_tab_id_def fresh_tab_def)
  let ?d2 = "d1\<lparr>d_dirty_tabs := []\<rparr>"
  have server2: "server_at slot ?d2 = server_at slot ?d" "remote_slots ?d2 = [RemoteSlot]" for slot
    by (cases slot; simp add: remote_slots_def d1_def two_tab_daemon_def plain_daemon_def
        mark_active_remote_tab_dirty_def mark_remote_tab_dirty_def invalidate_remote_tabs_cache_def split: option.splits)+
  have ids: "client_ids ?env ?d2 = [1, 2]" using server server2
    by (simp add: client_ids_def server2(1) [simplified] client_ids_where_def plain_server_env_def two_clients_def
        register_client_def Let_def update_client_view_def update_client_def)
  have "publish_to_client ?env 1 1 ?d2 = Some ?d2" "publish_to_client ?env 1 2 ?d2 = Some ?d2"
    by (simp_all add: publish_to_client_def views idle two_tab_daemon_facts(2)) (simp_all add: looking_at_def view_idle_def)
  then obtain d' where d': "publish_dirty_tabs ?env d1 = Some d'"
    by (simp add: publish_dirty_tabs_def d1 publish_remote_tab_def ids)
  have app: "d_app d' = d_app d1" by (rule publish_dirty_app [OF d'])
  have same: "same_servers ?d d1"
    using server2(1) [of RemoteSlot] server2(1) [of LocalSlot] by (simp add: same_servers_def)
  have fresh: "no_view_expires ?env ?d"
  proof -
    have "detached_at (runtime_view k) = None" if "server_at slot ?d = Some st" "clients st i = Some k" for slot st i k
      using that by (cases slot) (auto simp: two_tab_daemon_def plain_daemon_def two_clients_def register_client_def
          Let_def update_client_view_def update_client_def looking_at_def view_idle_def split: if_splits)
    then show ?thesis by (auto simp: no_view_expires_def view_expired_def split: option.splits)
  qed
  have turn: "command_turn ?env None [] [] ?d = Some (None, [], [], d')"
    using quiet_turn [OF poll same fresh] d' by simp
  have "d_dirty_tabs ?d = []" by (simp add: two_tab_daemon_def plain_daemon_def)
  with only_active_tab_streams [OF turn fresh _ server c(1)] active c(2) t1 app obtain st'
    where "server_at RemoteSlot d' = Some st'" "clients st' 1 = Some c"
    by (auto simp: looking_at_def)
  then show ?thesis using turn active gone t1 app c by (simp add: looking_at_def)
qed

end
