(* ===== verification/DaemonInvariant.thy ===== *)
theory DaemonInvariant
  imports DaemonTheorems
begin

text \<open>
  The invariant of the application in the running daemon: every command of a client and of the control
  socket, what the panes report, composed text and window events keep it, so it holds in every state that
  the turns of the main loop (\<open>update\<close> of \<open>src/runtime.rs\<close>) lead to.
\<close>

section \<open>Parts of commands\<close>

lemma tabs_keep:
  assumes "ready (ap_tabs a) \<longrightarrow> ready m" shows "keeps a (a\<lparr>ap_tabs := m\<rparr>)"
  using assms by (intro core_keeps) (simp_all add: core_def app_ready_def)

lemma focus_pane_keeps: "keeps a (snd (focus_pane_by_id p a))"
  by (rule core_keeps) (simp_all add: focus_pane_by_id_def core_frame ready_intros Let_def)

lemma focus_runtime_tab_keeps: "focus_runtime_tab t a = Some (found, a') \<Longrightarrow> keeps a a'"
  using app_goto_tab_keeps
  by (auto simp: focus_runtime_tab_def core_frame intro!: core_keeps split: option.splits)

lemma focus_found_keeps: "focus_runtime_tab t a = Some (found, b) \<Longrightarrow> keeps a (snd (focus_pane_by_id p b))"
  by (rule keeps_trans [OF focus_runtime_tab_keeps focus_pane_keeps])

lemma focus_target_keeps:
  assumes "focus_client_runtime_target env i d = Some (r, d')" shows "keeps (d_app d) (d_app d')"
proof -
  show ?thesis
    using assms
    by (auto simp: focus_client_runtime_target_def bind_eq_Some_conv recover_app focus_found_keeps dest!: target_app_eq
        dest: focus_runtime_tab_keeps
        split: prod.splits option.splits if_splits)
qed

lemma with_target_keeps:
  assumes "with_target env i act d = Some d'"
    and "\<And>t d d'. act t d = Some d' \<Longrightarrow> keeps (d_app d) (d_app d')"
  shows "keeps (d_app d) (d_app d')"
  using assms(1)
  by (auto simp: with_target_def bind_eq_Some_conv dest!: focus_target_keeps assms(2)
      intro: keeps_trans split: option.splits prod.splits)

lemma with_focus_keeps:
  assumes "with_focus env i act d = Some d'"
    and "\<And>d d'. act d = Some d' \<Longrightarrow> keeps (d_app d) (d_app d')"
  shows "keeps (d_app d) (d_app d')"
  using assms(1)
  by (auto simp: with_focus_def bind_eq_Some_conv broadcast_app dest!: focus_target_keeps assms(2)
      intro: keeps_trans)

lemma run_action_keeps: "run_action env act d = Some d' \<Longrightarrow> keeps (d_app d) (d_app d')"
  by (auto simp: run_action_def intro: dispatch_binding_action_keeps)

lemma input_keeps:
  assumes "focus_runtime_tab t a = Some (found, b)"
  shows "keeps a (write_terminal_input s (snd (focus_pane_by_id p b)))"
    and "keeps a (emit [FxWriteInput q s] (snd (focus_pane_by_id p b)))"
  by (rule keeps_trans [OF focus_found_keeps [OF assms]], rule core_keeps; simp add: core_frame)+

lemma remote_input_keeps: "remote_input env i bs n d = Some d' \<Longrightarrow> keeps (d_app d) (d_app d')"
  by (auto simp: remote_input_def bind_eq_Some_conv recover_app Let_def input_keeps dest!: ensure_app_eq
      split: prod.splits option.splits if_splits)

lemma create_keeps: "create_remote_runtime_tab env i cols rows ack d = Some d' \<Longrightarrow> keeps (d_app d) (d_app d')"
proof -
  have new: "keeps a (snd (app_new_tab e a))" for e a
    by (rule core_keeps) (simp_all add: core_frame ready_intros)
  have resize: "keeps a b \<Longrightarrow> keeps a (emit [FxResize p w h] b)" for a b p w h
    by (erule keeps_trans) (rule core_keeps; simp add: core_frame)
  show "create_remote_runtime_tab env i cols rows ack d = Some d' \<Longrightarrow> keeps (d_app d) (d_app d')"
    by (auto simp: create_remote_runtime_tab_def Let_def split_beta dest!: broadcast_app
        intro!: new resize split: prod.splits option.splits if_splits)
qed

lemma destroy_keeps: "destroy_remote_runtime_tab env i t d = Some d' \<Longrightarrow> keeps (d_app d) (d_app d')"
proof -
  have forget: "d_app (fold (\<lambda>pane. forget_pane_terminal_revision (pane_id pane)) ps d) = d_app d" for ps d
    by (rule fold_app) simp
  have removed: "keeps a (free_panes ps b)" if "app_remove_tab k a = (ps, b)" for a b k ps
    using app_remove_tab_keeps [where i = k and a = a] that by (intro core_keeps) (simp_all add: core_frame)
  have sync: "keeps a (sync_after_tab_change e (free_panes ps b))" if "app_remove_tab k a = (ps, b)" for a b k ps e
    by (rule keeps_trans [OF removed [OF that]], rule core_keeps) (simp_all add: core_frame)
  show "destroy_remote_runtime_tab env i t d = Some d' \<Longrightarrow> keeps (d_app d) (d_app d')"
    by (auto simp: destroy_remote_runtime_tab_def Let_def forget recover_app dest!: broadcast_app
        intro: removed sync split: prod.splits option.splits if_splits)
qed

section \<open>The commands of clients\<close>

lemma publish_local_app [simp]: "d_app (publish_local_gui_runtime_state env d) = d_app d"
  by (auto simp: publish_local_gui_runtime_state_def current_tabs_app_eq split: prod.splits)

lemma after_ui_action_app: "publish_local_gui_after_ui_action env before d = Some d' \<Longrightarrow> d_app d' = d_app d"
  by (auto simp: publish_local_gui_after_ui_action_def Let_def dest!: publish_active_app split: if_splits)

lemma set_viewed_app: "set_viewed_tab env i t d = Some d' \<Longrightarrow> d_app d' = d_app d"
  by (auto simp: set_viewed_tab_def Let_def dest!: publish_app)

lemma step_viewed_app: "step_viewed_tab env i n forward d = Some d' \<Longrightarrow> d_app d' = d_app d"
  by (auto simp: step_viewed_tab_def Let_def dest!: ensure_app_eq set_viewed_app
      split: prod.splits option.splits if_splits)

lemma focus_pane_command_app: "remote_focus_pane env i p d = Some d' \<Longrightarrow> d_app d' = d_app d"
  by (auto simp: remote_focus_pane_def Let_def dest!: ensure_app_eq publish_app
      split: prod.splits option.splits if_splits)

lemma split_keeps: "keeps a (create_split env side a)"
  by (rule core_keeps) (simp_all add: core_frame ready_intros)

lemma new_split_keeps: "new_split_action env i dir d = Some d' \<Longrightarrow> keeps (d_app d) (d_app d')"
  by (auto simp: new_split_action_def bind_eq_Some_conv Let_def dest!: broadcast_app after_ui_action_app
      intro: keeps_trans [OF focus_target_keeps split_keeps])

lemma split_resized_keeps: "resize_split_action env i dir n ratio d = Some d' \<Longrightarrow> keeps (d_app d) (d_app d')"
proof -
  have "keeps a (a\<lparr>ap_tabs := resize_tab_pane frame t p axis r (ap_tabs a)\<rparr>)" for a frame t p axis r
    by (rule tabs_keep) (auto simp: resize_tab_pane_def ready_def split: option.splits)
  then have step: "keeps (d_app d1) (d_app d2)" if "(case (ratio, pane) of
      (Some r, Some p) \<Rightarrow> Some (d1\<lparr>d_app := (d_app d1)\<lparr>ap_tabs := resize_tab_pane (terminal_frame (se_app env) (d_app d1))
          t p axis r (tabs_of_daemon d1)\<rparr>\<rparr>)
    | _ \<Rightarrow> run_action env act d1) = Some d2" for d1 d2 pane t axis act
    using that by (auto intro: run_action_keeps split: option.splits)
  show "resize_split_action env i dir n ratio d = Some d' \<Longrightarrow> keeps (d_app d) (d_app d')"
    by (auto simp: resize_split_action_def Let_def dest!: ensure_app_eq dest: with_focus_keeps [OF _ step]
        split: prod.splits option.splits)
qed

lemma runtime_action_keeps:
  "runtime_action_step env i n act d = Some d' \<Longrightarrow> keeps (d_app d) (d_app d')"
  by (cases act)
     (auto simp: runtime_action_step_def update_remote_view_local_state_def attach_view_def detach_view_def Let_def
       dest!: set_viewed_app step_viewed_app focus_pane_command_app publish_active_app
       intro: create_keeps destroy_keeps new_split_keeps split_resized_keeps)

lemma row_range_app: "d_app (remote_row_range_request i request d) = d_app d"
  by (simp add: remote_row_range_request_def split: option.splits prod.splits)

lemma list_tabs_app: "d_app (remote_list_tabs env i d) = d_app d"
  by (simp add: remote_list_tabs_def Let_def split_beta)

lemma client_command_keeps: "handle_client_command env cmd d = Some d' \<Longrightarrow> keeps (d_app d) (d_app d')"
proof -
  have key: "keeps (d_app d) (d_app d')" if "remote_key env i keys n d = Some d'" for i keys n d d'
    using that unfolding remote_key_def
    by (rule with_target_keeps) (auto simp: bind_eq_Some_conv dest: inject_key_keeps)
  have event: "keeps (d_app d) (d_app d')" if "remote_app_key_event env i e d = Some d'" for i e d d'
    using that unfolding remote_app_key_event_def
    by (rule with_target_keeps)
       (auto simp: bind_eq_Some_conv Let_def dest!: handle_app_key_event_keeps broadcast_app split: if_splits)
  have mouse: "keeps (d_app d) (d_app d')" if "remote_app_mouse_event env i e d = Some d'" for i e d d'
    using that unfolding remote_app_mouse_event_def
    by (rule with_target_keeps)
       (auto simp: bind_eq_Some_conv Let_def dest!: handle_app_mouse_event_keeps broadcast_app split: if_splits)
  have execute: "keeps (d_app d) (d_app d')" if "remote_execute_command env i line d = Some d'" for i line d d'
  proof -
    have "keeps (d_app (invalidate_remote_tabs_cache d)) (d_app d')"
      using that unfolding remote_execute_command_def by (rule with_focus_keeps) (auto dest: execute_command_keeps)
    then show ?thesis by simp
  qed
  have act: "keeps (d_app d) (d_app d')" if "remote_app_action env i act d = Some d'" for i act d d'
    using that unfolding remote_app_action_def by (rule with_focus_keeps) (rule run_action_keeps)
  have runtime: "keeps (d_app d) (d_app d')"
    if "runtime_action_step env i n act (acknowledge_action i n d) = Some d'" for i n act d d'
    using runtime_action_keeps [OF that] by simp
  show "handle_client_command env cmd d = Some d' \<Longrightarrow> keeps (d_app d) (d_app d')"
    by (cases cmd)
       (auto simp: handle_client_command_def recover_app list_tabs_app row_range_app remote_resize_def
         remote_render_ack_def dest!: focus_pane_command_app
         intro: create_keeps destroy_keeps remote_input_keeps key event mouse execute act runtime)
qed

section \<open>The control socket\<close>

lemma ui_action_keeps:
  assumes "ui_action env act d = Some d'" and "d_app d = a" and "\<And>r b. act a = Some (r, b) \<Longrightarrow> keeps a b"
  shows "keeps a (d_app d')"
proof -
  from assms(1) obtain changed b where act: "act (d_app d) = Some (changed, b)"
    and run: "(if changed then publish_local_gui_after_ui_action env (local_gui_transport_state (se_app env) (d_app d)) (with_app b d)
      else Some (with_app b d)) = Some d'"
    by (auto simp: ui_action_def bind_eq_Some_conv Let_def)
  from run have "d_app d' = b" by (auto dest!: after_ui_action_app split: if_splits)
  with assms(2,3) act show ?thesis by blast
qed

lemma pure_action_keeps:
  assumes "ui_action env (\<lambda>a. Some (f a)) d = Some d'" and "\<And>a. keeps a (snd (f a))"
  shows "keeps (d_app d) (d_app d')"
proof (rule ui_action_keeps [OF assms(1) refl])
  show "keeps (d_app d) b" if "Some (f (d_app d)) = Some (r, b)" for r b
    using assms(2) [of "d_app d"] that by simp
qed

lemma status_app: "keeps (d_app d) (d_app (set_status_components env f d))"
  by (rule core_keeps) (auto simp: set_status_components_def Let_def split: prod.splits)

lemma local_command_keeps:
  assumes "handle_local_command env cmd d = Some (reply, d')" shows "keeps (d_app d) (d_app d')"
proof -
  have goto: "keeps a (sync_after_tab_change e a1)" if "app_goto_tab i a = Some a1" for i a a1 e
    using app_goto_tab_keeps [OF that] by (intro core_keeps) simp_all
  have focus: "keeps a (refocus p (map_active_tree f a))" for p f a
    by (rule core_keeps) (simp_all add: core_frame ready_intros)
  have new: "keeps a (snd (app_new_tab e a))" for e a
    by (rule core_keeps) (simp_all add: core_frame ready_intros)
  have resize: "keeps a (snd (resize_viewport_points e w h a))" for e w h a
    by (rule core_keeps) (simp_all add: resize_viewport_points_def core_frame Let_def)
  then have cells: "keeps a (snd (resize_viewport_cells e cols rows a))" for e cols rows a
    by (simp add: resize_viewport_cells_def split: prod.splits)
  have writes: "keeps a (write_terminal_input t a)" "keeps a (emit [FxWriteVt p t] a)" "keeps a (emit [FxResize q w h] a)"
    for a t p q w h by (rule core_keeps; simp add: core_frame)+
  note ops = focus_pane_keeps split_keeps focus new resize cells writes status_app
  note parts = goto execute_command_keeps handle_app_key_event_keeps handle_app_mouse_event_keeps
    dispatch_binding_action_keeps inject_key_keeps tab_steps_keep status_component_keeps
  show ?thesis
    using assms
    by (cases cmd)
       (auto simp: handle_local_command_def answer_def quietly_def Let_def ops split: prod.splits
         intro: ui_action_keeps [OF _ refl] ui_action_keeps dest: parts pure_action_keeps [OF _ focus_pane_keeps] pure_action_keeps [OF _ resize] pure_action_keeps [OF _ cells])
qed

section \<open>Turns of the main loop\<close>

lemma poll_panes_keeps: "poll_panes env d = Some d' \<Longrightarrow> keeps (d_app d) (d_app d')"
  by (auto simp: poll_panes_def bind_eq_Some_conv Let_def dest!: poll_backend_keeps broadcast_app split: if_splits)

lemma sweep_views_app: "sweep_views env d = Some d' \<Longrightarrow> d_app d' = d_app d"
  by (auto simp: sweep_views_def Let_def dest!: broadcast_app split: if_splits)

lemma try_each_keeps:
  "(\<And>x a b. f x a = Some b \<Longrightarrow> keeps (g a) (g b)) \<Longrightarrow> try_each f xs a = Some b \<Longrightarrow> keeps (g a) (g b)"
  by (induction xs arbitrary: a) (simp_all add: bind_eq_Some_conv, metis keeps_trans)

lemma commands_keep: "try_each (handle_client_command env) cmds d = Some d' \<Longrightarrow> keeps (d_app d) (d_app d')"
  by (rule try_each_keeps [where g = d_app]) (rule client_command_keeps)

lemma command_turn_keeps:
  assumes "command_turn env control gui remote d = Some (reply, gui', remote', d')"
  shows "keeps (d_app d) (d_app d')"
proof -
  from assms obtain d1 d2 d3 d4 d5 where p: "poll_panes env d = Some d1"
    and c: "(case control of Some cmd \<Rightarrow> handle_local_command env cmd d1 | None \<Rightarrow> Some (None, d1)) = Some (reply, d2)"
    and g: "try_each (handle_client_command env) (take LOCAL_GUI_CMD_DRAIN_BUDGET gui) d2 = Some d3"
    and r: "try_each (handle_client_command env) (take REMOTE_CMD_DRAIN_BUDGET remote) d3 = Some d4"
    and s: "sweep_views env d4 = Some d5" and e: "publish_dirty_tabs env d5 = Some d'"
    by (auto simp: command_turn_def bind_eq_Some_conv)
  have "keeps (d_app d1) (d_app d2)" using c by (auto dest: local_command_keeps split: option.splits)
  with poll_panes_keeps [OF p] have "keeps (d_app d) (d_app d2)" by (rule keeps_trans)
  from keeps_trans [OF this keeps_trans [OF commands_keep [OF g] commands_keep [OF r]]]
  show ?thesis using sweep_views_app [OF s] publish_dirty_app [OF e] by simp
qed

lemma window_turn_keeps:
  assumes "window_turn env texts event d = Some d'" shows "keeps (d_app d) (d_app d')"
proof -
  from assms obtain a where t: "try_each (handle_text_input (se_app env)) texts (d_app d) = Some a"
    and w: "(if tabs (ap_tabs a) = [] then update_without_tabs (se_app env) a
      else case event of Some ev \<Rightarrow> handle_window (se_app env) ev a | None \<Rightarrow> Some a) = Some (d_app d')"
    by (auto simp: window_turn_def bind_eq_Some_conv)
  have "keeps (d_app d) a" by (rule try_each_keeps [OF _ t, where g = "\<lambda>a. a"]) (rule handle_text_input_keeps)
  moreover have "keeps a (d_app d')"
    using w by (auto simp: update_without_tabs_def dest: init_surface_keeps handle_window_keeps
        split: if_splits option.splits)
  ultimately show ?thesis by (rule keeps_trans)
qed

text \<open>
  The states of the daemon after any number of turns, each in surroundings of its own. Between them the
  connections, which run on threads of their own, change the states of the servers.
\<close>

inductive daemon_reaches :: "daemon \<Rightarrow> daemon \<Rightarrow> bool" for d where
  start: "daemon_reaches d d"
| commands: "daemon_reaches d d1 \<Longrightarrow> command_turn env control gui remote d1 = Some (reply, gui', remote', d2) \<Longrightarrow>
    daemon_reaches d d2"
| window: "daemon_reaches d d1 \<Longrightarrow> window_turn env texts event d1 = Some d2 \<Longrightarrow> daemon_reaches d d2"
| connections: "daemon_reaches d d1 \<Longrightarrow> daemon_reaches d (d1\<lparr>d_remote := r, d_local := l\<rparr>)"

lemma daemon_reaches_keeps: "daemon_reaches d d' \<Longrightarrow> keeps (d_app d) (d_app d')"
  by (induction rule: daemon_reaches.induct) (auto intro: keeps_trans command_turn_keeps window_turn_keeps)

lemma daemon_reaches_sound:
  assumes "daemon_reaches d0 d" and "d_app d0 = app_new env cells notify created"
  shows "app_sound (d_app d)" "app_synced (d_app d)"
  using daemon_reaches_keeps [OF assms(1)] app_new_invariant [of env cells notify created] assms(2)
  by (simp_all add: keeps_def)

text \<open>C12: In every state that the turns of the daemon's main loop lead to, whatever the clients on both
  sockets, the control socket, the panes, composed text and the daemon's own window bring, the command
  prompt's indices are valid, there are at most 32 paste buffers, all different and none empty, the active
  tab exists when there are tabs, and as long as the configuration has not been read again the key bindings
  are in copy mode exactly when the application has a copy mode state.\<close>

theorem daemon_invariant:
  assumes "daemon_reaches d0 d" and "d_app d0 = app_new env cells notify created"
  shows "prompt_wf (ap_prompt (d_app d)) \<and> length (ap_paste_buffers (d_app d)) \<le> 32
    \<and> distinct (ap_paste_buffers (d_app d)) \<and> [] \<notin> set (ap_paste_buffers (d_app d))
    \<and> (tabs (tabs_of_daemon d) = [] \<or> active (tabs_of_daemon d) < length (tabs (tabs_of_daemon d)))
    \<and> (FxReloadConfig \<in> set (ap_effects (d_app d))
        \<or> (is_copy_mode (ap_bindings (d_app d)) \<longleftrightarrow> ap_copy_mode (d_app d) \<noteq> None))"
  using daemon_reaches_sound [OF assms]
  by (auto simp: app_sound_def app_synced_def sound_core_def synced_core_def core_def paste_ok_def app_ready_def ready_def)

text \<open>A command from the control socket in a daemon that has no tabs yet.\<close>

definition idle_daemon :: daemon where
  "idle_daemon = plain_daemon (plain_app (plain_screen [''a''])) \<lparr>clients = Map.empty, server_instance_id = []\<rparr>"

abbreviation idle_env :: app_env where
  "idle_env \<equiv> plain_env (plain_screen [''a''])"

lemma idle_poll:
  assumes "a = plain_app (plain_screen [''a''])"
  shows "poll_backend (plain_env (plain_screen [''a''])) a = Some (False, a)"
proof -
  have "active_tree (ap_tabs a) = None" "ns_desktop (ap_notify a) = False"
    by (simp_all add: assms plain_app_def app_new_def tabs_new_def active_tree_def get_at_def)
  then show ?thesis
    by (simp add: poll_backend_def active_pane_ids_def backend_poll_def poll_none_def running_updates_def
        set_bar_def set_title_def set_pwd_def Let_def)
qed

lemma idle_turn:
  assumes run: "execute_command idle_env line (plain_app (plain_screen [''a''])) = Some a"
  shows "\<exists>d. command_turn (plain_server_env idle_env) (Some (LocalExecuteCommand line)) [] [] idle_daemon
      = Some (None, [], [], d) \<and> d_app d = a"
proof -
  let ?a = "plain_app (plain_screen [''a''])" and ?se = "plain_server_env idle_env" and ?d = idle_daemon
  have app: "d_app ?d = ?a" by (simp add: idle_daemon_def plain_daemon_def)
  have se: "se_app ?se = idle_env" by (simp add: plain_server_env_def)
  have same: "?d\<lparr>d_app := ?a\<rparr> = ?d" by (simp add: idle_daemon_def plain_daemon_def)
  have poll: "poll_panes ?se ?d = Some ?d"
    using idle_poll [OF refl] by (simp add: poll_panes_def app se same)
  define d1 where "d1 = with_app a (invalidate_remote_tabs_cache ?d)"
  have servers: "same_servers ?d d1"
    unfolding d1_def by (rule same_servers_trans [OF quiet_servers(3) with_app_servers])
  have none: "server_at slot d = Some st \<Longrightarrow> clients st = Map.empty" if "same_servers ?d d" for slot st d
    using same_servers_at [OF that, of slot]
    by (cases slot) (auto simp: idle_daemon_def plain_daemon_def)
  have "no_view_expires ?se d1" using none [OF servers] by (fastforce simp: no_view_expires_def)
  then have sweep: "sweep_views ?se d1 = Some d1" by (rule sweep_nothing)
  have quiet: "try_each (publish_remote_tab ?se) ts d = Some d" if "same_servers ?d d" for ts d
  proof -
    have "client_ids ?se d = []"
      using none [OF that] by (auto simp: client_ids_def client_ids_where_def split: option.splits)
    then show ?thesis by (induction ts) (simp_all add: publish_remote_tab_def)
  qed
  have "publish_dirty_tabs ?se d1 = Some (d1\<lparr>d_dirty_tabs := []\<rparr>)"
    unfolding publish_dirty_tabs_def by (rule quiet) (use servers in \<open>simp add: same_servers_def\<close>)
  then have "command_turn ?se (Some (LocalExecuteCommand line)) [] [] ?d = Some (None, [], [], d1\<lparr>d_dirty_tabs := []\<rparr>)"
    using poll sweep run by (simp add: command_turn_def handle_local_command_def quietly_def d1_def app se Let_def)
  then show ?thesis by (simp add: d1_def)
qed

lemma idle_start: "d_app idle_daemon = app_new idle_env (8, 16) \<lparr>ns_desktop = False, ns_on_finish = NotifyNever,
       ns_action = \<lparr>na_bell = False, na_notify = False\<rparr>, ns_after_ns = 0\<rparr> []"
  by (simp add: idle_daemon_def plain_daemon_def plain_app_def)

text \<open>The command prompt, opened from the control socket.\<close>

lemma daemon_invariant_witness:
  "\<exists>d. command_turn (plain_server_env idle_env) (Some (LocalExecuteCommand ''command-prompt'')) [] [] idle_daemon
      = Some (None, [], [], d) \<and> cp_active (ap_prompt (d_app d)) \<and> prompt_wf (ap_prompt (d_app d))"
proof -
  let ?a = "plain_app (plain_screen [''a''])"
  have "execute_command idle_env ''command-prompt'' ?a = Some (prompt_with idle_env [] ?a)"
    by (simp add: execute_command_def split_command run_command_def command_action_def plain_commands_def
        dispatch_binding_action_def dispatch_layout_action_def)
  from idle_turn [OF this] obtain d where turn: "command_turn (plain_server_env idle_env)
      (Some (LocalExecuteCommand ''command-prompt'')) [] [] idle_daemon = Some (None, [], [], d)"
    and d: "d_app d = prompt_with idle_env [] ?a" by blast
  have "cp_active (ap_prompt (d_app d))"
    by (simp add: d prompt_with_def open_prompt_def update_suggestions_def)
  with turn daemon_invariant [OF daemon_reaches.commands [OF daemon_reaches.start turn] idle_start] show ?thesis by blast
qed

text \<open>C24: No key ever jumps to a character. In every state of copy mode that the turns of the daemon lead to,
  the six actions for jumping to a character and for repeating a jump do nothing but set or clear the
  mark that a jump is pending; and that mark makes no difference to what any action of copy mode does.\<close>

theorem jump_keys_dead:
  assumes "daemon_reaches d0 d" and "d_app d0 = app_new env cells notify created" and "ap_copy_mode (d_app d) = Some cm"
  shows "(\<forall>action \<in> {JumpForward, JumpBackward, JumpToForward, JumpToBackward, JumpAgain, JumpReverse}.
      \<exists>pending. dispatch_copy_mode_action env' action (d_app d)
        = Some ((d_app d)\<lparr>ap_copy_mode := Some (cm\<lparr>cm_pending_jump := pending\<rparr>)\<rparr>))
    \<and> (\<forall>action pending. dispatch_copy_mode_action env' action
        ((d_app d)\<lparr>ap_copy_mode := Some (cm\<lparr>cm_pending_jump := pending\<rparr>)\<rparr>)
        = dispatch_copy_mode_action env' action (d_app d))"
proof -
  have last: "cm_last_jump cm = None"
    using daemon_reaches_sound(1) [OF assms(1,2)] assms(3)
    by (simp add: app_sound_def sound_core_def core_def no_jump_def)
  show ?thesis using jump_actions [OF assms(3) last] pending_irrelevant [OF assms(3)] by blast
qed

text \<open>Copy mode, entered from the control socket.\<close>

lemma jump_keys_dead_witness:
  "\<exists>d cm pending. command_turn (plain_server_env idle_env) (Some (LocalExecuteCommand ''copy-mode'')) [] [] idle_daemon
      = Some (None, [], [], d) \<and> ap_copy_mode (d_app d) = Some cm
    \<and> dispatch_copy_mode_action idle_env JumpForward (d_app d)
        = Some ((d_app d)\<lparr>ap_copy_mode := Some (cm\<lparr>cm_pending_jump := pending\<rparr>)\<rparr>)"
proof -
  let ?a = "plain_app (plain_screen [''a''])"
  have "execute_command idle_env ''copy-mode'' ?a = Some (app_enter_copy_mode idle_env ?a)"
    by (simp add: execute_command_def split_copy_mode run_command_def command_action_def plain_commands_def
        dispatch_binding_action_def)
  from idle_turn [OF this] obtain d where turn: "command_turn (plain_server_env idle_env)
      (Some (LocalExecuteCommand ''copy-mode'')) [] [] idle_daemon = Some (None, [], [], d)"
    and d: "d_app d = app_enter_copy_mode idle_env ?a" by blast
  have "env_snapshot idle_env (focused_id_of ?a) \<noteq> None" by (simp add: plain_env_def)
  then obtain cm where cm: "ap_copy_mode (d_app d) = Some cm"
    by (auto simp: d app_enter_copy_mode_def focused_cursor_cell_position_def update_copy_mode_highlight_def emit_def Let_def)
  from jump_keys_dead [OF daemon_reaches.commands [OF daemon_reaches.start turn] idle_start cm, of idle_env] turn cm
  show ?thesis by blast
qed

end
