(* ===== verification/Spec2Isabelle.thy ===== *)
theory Spec2Isabelle
  imports TabsProps ScreenProps BatcherSpec SessionProps InboundProps CoalesceProps RemoteScreens
    LayoutApp StatusStore ConfigProps KeymapProps BindingsProps DaemonInvariant
begin

text \<open>
  A verification development for boo, a terminal multiplexer written in Rust. File names below
  are relative to \<^verbatim>\<open>src/src/\<close>.

  \<^bold>\<open>The program.\<close>  A daemon owns tabs; a tab owns a tree of split panes; a pane is a terminal.
  Clients connect over a socket or QUIC and speak a framed binary protocol. The daemon answers
  their requests (an outbound batcher per client orders the answers), publishes the screen of
  each visible pane to every client that looks at it, as a full state or as a delta against the
  last state that client was sent, and broadcasts the list of tabs and the state of the user
  interface. A client keeps the snapshots it has decoded, applies the deltas to them and sends
  back input, resizes and commands. The development follows this path from end to end: the
  trees and tabs of the daemon, the bytes on the wire, the queues in between, the state of the
  server per client, the state of the client per pane, and both ends run against each other.

  \<^bold>\<open>The theories.\<close>
  \<^descr> Prelude: named theorem collections, lemmas on lists, maps and words that the rest shares.
  \<^descr> Pane (\<^verbatim>\<open>pane.rs\<close>, \<^verbatim>\<open>platform/mod.rs\<close>): pane handles, the identifier allocator, rectangles.
  \<^descr> SplitTree, SplitTreeOps, SplitResize, SplitGeometry, SplitGeometryOps (\<^verbatim>\<open>splits.rs\<close>): the
    tree of splits with its focus; splitting, removing, rotating, swapping and zooming panes;
    frames, hit tests, divider drags, directional focus and resizing. SplitTreeSpec holds the
    abstract view (the ordered list of panes and the focused one), SplitProps the properties of
    every tree that the operations can reach (\<^verbatim>\<open>tree_reach\<close>).
  \<^descr> Layout (\<^verbatim>\<open>layout.rs\<close>), Tabs, TabsOps (\<^verbatim>\<open>tabs.rs\<close>): named layouts and the tab manager; TabsProps
    its reachable states (\<^verbatim>\<open>tab_reach\<close>). The locale \<^verbatim>\<open>pane_store\<close> states what closing a pane
    promises and is interpreted on the tab manager.
  \<^descr> Codec, Wire, WireState, ScreenCodec (\<^verbatim>\<open>remote_wire.rs\<close>, \<^verbatim>\<open>remote_types.rs\<close>): codes, frames, the
    readers over an explicit byte stream, the handshake, the tab list, requests, screens, row
    trailers and deltas, byte for byte. ClientDecode (\<^verbatim>\<open>client_gui.rs\<close>) has the decoders of the
    client. The locale \<^verbatim>\<open>offset_codec\<close> (an encoder and a decoder at an offset) is interpreted on
    the integers, texts, tabs, cells and rows of the protocol, and its list lemma carries every
    round trip of WireProps and ScreenProps.
  \<^descr> ScreenSync (\<^verbatim>\<open>client_gui.rs\<close>, \<^verbatim>\<open>vt.rs\<close>, \<^verbatim>\<open>vt_backend_core.rs\<close>): client snapshots and how a delta
    changes them; ScreenProps shows that encoding a delta, decoding it and applying it to the
    previous snapshot gives the snapshot of the new state.
  \<^descr> Batcher, BatcherProps, BatcherSpec (\<^verbatim>\<open>remote_batcher.rs\<close>): the pending frames of a client,
    how a later frame replaces or overtakes an earlier one, and the writer loop over an output
    that can fail.
  \<^descr> RemoteState (\<^verbatim>\<open>remote_state.rs\<close>, \<^verbatim>\<open>remote.rs\<close>), StreamProgress, RemoteFanout
    (\<^verbatim>\<open>remote_server_stream.rs\<close>, \<^verbatim>\<open>remote_server_control.rs\<close>, \<^verbatim>\<open>remote_server_targets.rs\<close>): clients
    with their views, what the server remembers having sent, publishing. RemoteFanout generalises
    over the order in which a hash map is visited: the locale \<^verbatim>\<open>client_op\<close> is an update of one
    client, \<^verbatim>\<open>cached_op\<close> extends it with the cached payload.
  \<^descr> RemoteAuth (\<^verbatim>\<open>remote_auth.rs\<close>): the handshake, the decoding of every message into a command,
    and the read loop; InboundProps its totality, its cleaning up and the round trip of commands.
  \<^descr> RowCache, RemoteScreens (\<^verbatim>\<open>remote_full_state.rs\<close>, \<^verbatim>\<open>runtime_server.rs\<close>, \<^verbatim>\<open>runtime.rs\<close>,
    \<^verbatim>\<open>main.rs\<close>): the rows kept for scrolling back, the revisions of panes, the adapters from
    terminal snapshots to screens of the protocol.
  \<^descr> ClientApp, ClientStream (\<^verbatim>\<open>client_gui.rs\<close>, \<^verbatim>\<open>control.rs\<close>, \<^verbatim>\<open>status_components.rs\<close>): the messages
    a client sends, its reader and writer threads, the handler of every stream event.
  \<^descr> SessionSync, SessionInv, SessionSteps, SessionProps: the composition. \<^verbatim>\<open>server_step\<close> has one
    rule per operation of the server on its record of a client, \<^verbatim>\<open>session\<close> runs these steps and
    delivers the frames to the client in the order they were queued.
  \<^descr> CoalesceProps: the same two ends with the batcher between them.
  \<^descr> RustText: texts as the standard library has them (trimming, splitting, parsing numbers).
    LayoutFile, LayoutFileProps, LayoutApp (\<^verbatim>\<open>layout.rs\<close>, \<^verbatim>\<open>runtime_panes.rs\<close>): layout files, loading
    and saving the layout of the tabs. StatusStore (\<^verbatim>\<open>status_components.rs\<close>): the store behind the
    status bar.
  \<^descr> ConfigFile, ConfigProps (\<^verbatim>\<open>config.rs\<close>): the reader of the configuration and its includes.
    Keymap, KeymapProps (\<^verbatim>\<open>keymap.rs\<close>, \<^verbatim>\<open>app_helpers.rs\<close>): key codes of both systems. Bindings,
    BindingsProps (\<^verbatim>\<open>bindings.rs\<close>): the tables of bindings and the machine of prefix key and copy mode.
  \<^descr> SelectionText (\<^verbatim>\<open>vt_snapshot.rs\<close>, \<^verbatim>\<open>runtime_copy.rs\<close>): the text of a selection and its highlight.
    CopyMoves (\<^verbatim>\<open>runtime_copy.rs\<close>): the motions of copy mode on a line. CommandPrompt
    (\<^verbatim>\<open>command_prompt.rs\<close>): commands, suggestions and the keys of the prompt.
  \<^descr> AppState, AppCopy, AppActions, AppInput, AppLife (\<^verbatim>\<open>main.rs\<close>, \<^verbatim>\<open>runtime.rs\<close>, \<^verbatim>\<open>runtime_panes.rs\<close>,
    \<^verbatim>\<open>runtime_copy.rs\<close>, \<^verbatim>\<open>runtime_input.rs\<close>, \<^verbatim>\<open>app_input.rs\<close>, \<^verbatim>\<open>backend.rs\<close>): the application
    of the daemon on top of the tabs: its state \<^verbatim>\<open>app\<close> (\<^verbatim>\<open>BooApp\<close>), copy mode, the actions of bindings and
    commands, the pickers, keyboard and mouse, the first pane, the ticks. AppFrame and AppCore hold what
    each operation leaves alone and what it keeps of the invariant; AppProps sums it up over
    \<^verbatim>\<open>app_step\<close> and \<^verbatim>\<open>app_reaches\<close>; AppTheorems has the properties.
  \<^descr> UiSnapshots (\<^verbatim>\<open>runtime_ui.rs\<close>, \<^verbatim>\<open>control.rs\<close>): the panes of a tab and the snapshots of the user
    interface. Daemon, DaemonViews, DaemonCommands (\<^verbatim>\<open>runtime_server.rs\<close>, \<^verbatim>\<open>runtime.rs\<close>, \<^verbatim>\<open>server.rs\<close>): the
    state \<^verbatim>\<open>daemon\<close> around the application with its two servers and caches, the publication of tabs and
    the broadcast, the views of clients and their repair, every command of a client
    (\<^verbatim>\<open>handle_client_command\<close>) and of the control socket (\<^verbatim>\<open>handle_local_command\<close>), and a turn of the main
    loop (\<^verbatim>\<open>command_turn\<close>, then \<^verbatim>\<open>window_turn\<close>). The locale \<^verbatim>\<open>client_rel\<close> of DaemonFrame lifts a relation
    between the states of one client to whole daemons; DaemonSteps applies it to every command,
    DaemonTheorems has the properties of views and of publishing, and DaemonInvariant the invariant of
    the application over all turns (\<^verbatim>\<open>daemon_reaches\<close>).

  \<^bold>\<open>What is shown.\<close>  Trees: every reachable tree keeps its ratios within bounds and its panes
  distinct, no operation loses or duplicates a pane, focus runs round the ring of panes, the
  frames tile the rectangle, resizing moves the innermost divider, directional focus takes the
  nearest pane. Tabs: the active index stays in range and every tab has a well-formed tree, panes
  are conserved over all tabs, only panes of the active tab are visible. Protocol: what one side writes the other
  reads, also when the stream delivers in pieces and a read is retried; screens and deltas
  decode to what was encoded; the delta refines the full state. Batcher: every
  frame is written or counted as coalesced, replies are never dropped, each coalesced stream of a
  batch ends with its latest frame, the writer emits a prefix of the batches when the output fails.
  Server: every message becomes one command or is answered with one frame, the read loop ends and
  removes its client whatever arrives, the tab list reaches exactly the local clients that lack it,
  the row cache answers with exactly the rows it knows, up to its bound. Session: along
  every run of \<^verbatim>\<open>session\<close>, in which the server tells a client its view before it shows it screens, the client holds, for each pane, the snapshot of the state the server
  believes it has sent. Files: a layout file reads back what was written, includes expand once.
  Application: along every sequence of inputs the prompt, the paste buffers and the tabs stay
  well formed, and the mode of the bindings follows copy mode, whatever commands, panes and window
  events a turn of the main loop brings (\<^verbatim>\<open>daemon_invariant\<close>); a mode that has
  the keyboard lets nothing through to the terminal (\<^verbatim>\<open>modes_swallow_keys\<close>); the suggestions are the
  seven best in order, the highlight covers exactly the selected cells, each word motion lands on the
  next start or end of a word, brackets are matched with the partner of their kind. Daemon: a command
  of one client leaves the views of all others alone (\<^verbatim>\<open>clients_keep_their_views\<close>).

  \<^bold>\<open>Where the application goes wrong.\<close>  The step to the previous word panics beyond the end of a
  line (\<^verbatim>\<open>word_back_panics\<close>), copy mode starts on the wrong row (\<^verbatim>\<open>copy_mode_starts_off\<close>), the keys for
  jumps do nothing (\<^verbatim>\<open>jump_keys_dead\<close>), a client can open the prompt but not submit a command
  (\<^verbatim>\<open>client_keys_never_submit\<close>), a reload leaves copy mode half way (\<^verbatim>\<open>reload_splits_copy_mode\<close>), and a
  search never reaches the terminal (\<^verbatim>\<open>search_is_silent\<close>). The daemon never acknowledges the input of a
  client (\<^verbatim>\<open>input_never_acknowledged\<close>) and streams its own active tab only, whatever tabs its clients
  look at (\<^verbatim>\<open>only_active_tab_streams\<close>). Focusing a surface by an index that no leaf has breaks the
  invariant of the tree, and the next split loses a pane (\<^verbatim>\<open>dangling_focus_loses_pane\<close>); the sequences
  of TabsProps and SplitProps exclude that one call (\<^verbatim>\<open>tree_guard\<close>).

  \<^bold>\<open>Where the running code leaves the session.\<close>  Four theorems state what the source does outside
  the discipline of \<^verbatim>\<open>session\<close>: the shared state, always sent with view revision 1, makes a
  viewer of another revision drop its screens (\<^verbatim>\<open>shared_state_blanks_client\<close>); a revision the client was not told
  of makes it drop a delta the server records (\<^verbatim>\<open>untold_revision_loses_delta\<close>); a delta that the batcher replaces by a later
  one loses its rows (\<^verbatim>\<open>coalesced_delta_loses_row\<close>); a payload that arrives after a
  timeout is read as a header (\<^verbatim>\<open>late_payload_desynchronises\<close>).

  \<^bold>\<open>Conventions.\<close>  A struct is a record, an enum a datatype with the constructors of the source.
  Integers of the protocol are words of their width, \<^verbatim>\<open>usize\<close> is a natural number, \<^verbatim>\<open>f64\<close> and
  \<^verbatim>\<open>f32\<close> are exact reals (no rounding, no NaN). A text is the list of its UTF-8 bytes. A panic is
  the outer \<^verbatim>\<open>None\<close>, an error a value. Texts of the wire are byte lists (\<^verbatim>\<open>rust_string\<close>), texts of the
  application lists of characters that stand for bytes (\<^verbatim>\<open>str\<close>), both UTF-8. What the application
  tells the backend, the clipboard and the platform is the list of its effects; what it reads from them
  is the record \<^verbatim>\<open>app_env\<close>, one per step; the panes that the platform creates are a supply. A channel is the list of what was sent; a hash map is a map
  and the order of visiting it an argument. A stream is the list of the results of its reads, so
  a short read, a timeout and the end of the connection are values. Instants are milliseconds.
  JSON encoders and decoders, the terminal backend, random challenges, the clock and the
  receiver of commands are arguments of the definitions that use them.

  \<^bold>\<open>Bounds.\<close>  No definition runs on fuel: loops over a stream terminate by the size of what is
  left of it, the others by the length of a list or by structure. The length of a frame is a
  32-bit word, so the session admits screens of at most \<open>2 ^ 24\<close> cells (\<^verbatim>\<open>sendable\<close>), whose
  encoding fits. The row cache keeps \<^verbatim>\<open>MAX_RETAINED_ROWS = 10000\<close> rows. A scroll of -32768 rows
  overflows in the source and is outside \<^verbatim>\<open>apply_snapshot_scroll\<close>.

  \<^bold>\<open>Not modelled.\<close>  Native windows, the canvas and libghostty bindings (foreign calls and drawing);
  panes with a native surface, which no backend creates; sockets, QUIC, TLS and threads of
  \<^verbatim>\<open>remote_listener.rs\<close>, \<^verbatim>\<open>remote_quic.rs\<close> and \<^verbatim>\<open>remote_client.rs\<close>, whose loops over a stream are
  modelled here: a connection changes the state of a server between turns of the main loop, and what a
  turn reads from the clock, the backend and the encoders of JSON is one record per turn
  (\<^verbatim>\<open>server_env\<close>). The diagnostics of \<^verbatim>\<open>remote_server_diag.rs\<close> (the answer to the question for the
  clients lists their states instead); traces and latency measurements; the parser of tmux control mode, which no
  module uses; fonts, colours and the computation of the appearance; the parsing of the lines of the
  control socket, command line and launch; profiling and tracing; the platform layer; vendored code,
  scripts and the iOS client.
\<close>

end
